(* ===== verification/Prelude.thy ===== *)
theory Prelude
  imports Main "HOL-Library.Word" "HOL-Library.Monad_Syntax"
begin

text \<open>
  What every component of the development shares: the names of the machine types, the
  type of the readers that the \<open>deserialize\<close> methods of the program are, the reading of a
  counted sequence, and the interface \<open>wire_format\<close> that every serializable structure of
  the program implements.
\<close>

section \<open>Machine types\<close>

type_synonym byte = "8 word"
type_synonym bytes = "byte list"
type_synonym u8 = "8 word"
type_synonym u16 = "16 word"
type_synonym u32 = "32 word"
type_synonym u64 = "64 word"

text \<open>
  The fixed-size values of the cryptographic library (hashes, public and secret keys, key
  images, commitments: 32 bytes; signatures: 64 bytes) are their contents. Everything the
  program asks of them beyond equality is a field of the parameter records of the theory
  \<open>Wire\<close>.
\<close>

type_synonym crypto_hash_t = "256 word"
type_synonym crypto_public_key_t = "256 word"
type_synonym crypto_secret_key_t = "256 word"
type_synonym crypto_key_image_t = "256 word"
type_synonym crypto_pedersen_commitment_t = "256 word"
type_synonym crypto_scalar_t = "256 word"
type_synonym crypto_signature_t = "512 word"

section \<open>Readers\<close>

text \<open>
  A reader consumes a prefix of its input. \<open>None\<close> is the exception that the reader of the
  program throws; \<open>Some (x, rest)\<close> is the value read and the input that is left.
\<close>

type_synonym 'a reader = "bytes \<Rightarrow> ('a \<times> bytes) option"

named_theorems wire "read-back equations of the serialized structures"
named_theorems wf_defs "definitions of the well-formedness predicates"

text \<open>The counted loops of the \<open>deserialize\<close> methods: \<open>n\<close> elements read in order.\<close>

fun read_many :: "nat \<Rightarrow> 'a reader \<Rightarrow> 'a list reader" where
  "read_many 0 rd bs = Some ([], bs)"
| "read_many (Suc n) rd bs =
     do { (x, bs) \<leftarrow> rd bs; (xs, bs) \<leftarrow> read_many n rd bs; Some (x # xs, bs) }"

lemma read_many_back:
  assumes "\<And>x rest. x \<in> set xs \<Longrightarrow> rd (wr x @ rest) = Some (x, rest)"
  shows "read_many (length xs) rd (concat (map wr xs) @ rest) = Some (xs, rest)"
  using assms by (induction xs) auto

lemma read_many_length:
  "read_many n rd bs = Some (xs, rest) \<Longrightarrow> length xs = n"
  by (induction n arbitrary: bs xs rest) (auto split: Option.bind_splits)

lemma unat_of_nat_u64 [simp]: "n < 2 ^ 64 \<Longrightarrow> unat (word_of_nat n :: u64) = n"
  by (simp add: unat_of_nat take_bit_nat_eq_self)

text \<open>Counting up to the last value of a \<open>uint64_t\<close>.\<close>

lemma unat_succ_u64: "n \<noteq> - 1 \<Longrightarrow> unat (n + 1 :: u64) = unat n + 1"
  using unatSuc [of n] by (metis Suc_eq_plus1 add.commute add_eq_0_iff2 minus_equation_iff)

lemma unat_max_u64: "unat (- 1 :: u64) = 2 ^ 64 - 1"
  by (simp add: unsigned_minus_1_eq_mask mask_eq_exp_minus_1)

lemma unat_le_max_u64: "unat (n :: u64) \<le> 2 ^ 64 - 1"
  using unsigned_less [where 'a = nat, of n] by simp

lemma unat_succ_bound: "unat n + 1 < 2 ^ 64 \<Longrightarrow> unat (n + 1 :: u64) = unat n + 1"
  using unat_succ_u64 [of n] unat_max_u64 by fastforce

text \<open>
  The containers of the program hold fewer than \<open>2 ^ 64\<close> elements, so that \<open>size()\<close> fits
  the \<open>uint64_t\<close> it is written as.
\<close>

definition fits_u64 :: "'a list \<Rightarrow> bool" where
  [wf_defs]: "fits_u64 xs \<longleftrightarrow> length xs < 2 ^ 64"

lemma fits_u64_unat [simp]: "fits_u64 xs \<Longrightarrow> unat (word_of_nat (length xs) :: u64) = length xs"
  by (simp add: fits_u64_def)

section \<open>The interface of a serializable structure\<close>

text \<open>
  \<open>ISerializable\<close> of the program: a structure is written by \<open>serialize\<close> and read by
  \<open>deserialize\<close>. The law every structure has to keep is that reading gives back what was
  written and leaves the input behind it untouched. \<open>lawful\<close> is what is assumed of the
  external primitives, \<open>wf\<close> which values of the type the law covers.
\<close>

locale wire_format =
  fixes lawful :: "'c \<Rightarrow> bool"
    and wf :: "'c \<Rightarrow> 'a \<Rightarrow> bool"
    and ser :: "'c \<Rightarrow> 'a \<Rightarrow> bytes"
    and deser :: "'c \<Rightarrow> 'a reader"
  assumes read_back: "lawful C \<Longrightarrow> wf C x \<Longrightarrow> deser C (ser C x @ rest) = Some (x, rest)"
begin

lemma read_back_all: "lawful C \<Longrightarrow> wf C x \<Longrightarrow> deser C (ser C x) = Some (x, [])"
  using read_back [of C x "[]"] by simp

lemma prefix_free:
  assumes "lawful C" "wf C x" "wf C y" "ser C x @ r = ser C y @ s"
  shows "x = y \<and> r = s"
proof -
  have "deser C (ser C x @ r) = Some (y, s)"
    unfolding assms(4) by (rule read_back [OF assms(1,3)])
  with read_back [OF assms(1,2), of r] show ?thesis by simp
qed

lemma ser_inject:
  "lawful C \<Longrightarrow> wf C x \<Longrightarrow> wf C y \<Longrightarrow> ser C x = ser C y \<longleftrightarrow> x = y"
  using prefix_free [of C x y "[]" "[]"] by auto

lemma many_back:
  assumes "lawful C" "\<forall>x \<in> set xs. wf C x"
  shows "read_many (length xs) (deser C) (concat (map (ser C) xs) @ rest) = Some (xs, rest)"
  using assms by (intro read_many_back) (simp add: read_back)

end

end
