(* ===== verification/Std_Containers.thy ===== *)
theory Std_Containers
  imports Prelude
begin

text \<open>
  The ordered containers of the C++ standard library that the program uses: \<open>std::set\<close> and
  \<open>std::map\<close> as the sequence their iteration visits, kept in the order of a comparison
  \<open>lt\<close>. The comparison is an argument, because the program keys its containers with types
  whose \<open>operator<\<close> belongs to the cryptographic library; that it is a strict total order
  is a hypothesis (\<open>strict_total\<close>) where an operation needs it.
\<close>

section \<open>Comparisons\<close>

definition strict_total :: "('a \<Rightarrow> 'a \<Rightarrow> bool) \<Rightarrow> bool" where
  "strict_total lt \<longleftrightarrow>
     (\<forall>x. \<not> lt x x) \<and> (\<forall>x y z. lt x y \<longrightarrow> lt y z \<longrightarrow> lt x z) \<and>
     (\<forall>x y. lt x y \<or> x = y \<or> lt y x)"

lemma strict_total_less: "strict_total ((<) :: 'a::linorder \<Rightarrow> 'a \<Rightarrow> bool)"
  by (auto simp: strict_total_def)

lemma strict_total_irrefl: "strict_total lt \<Longrightarrow> \<not> lt x x"
  and strict_total_trans: "strict_total lt \<Longrightarrow> lt x y \<Longrightarrow> lt y z \<Longrightarrow> lt x z"
  and strict_total_cases: "strict_total lt \<Longrightarrow> lt x y \<or> x = y \<or> lt y x"
  unfolding strict_total_def by blast+

lemma strict_total_asym: "strict_total lt \<Longrightarrow> lt x y \<Longrightarrow> \<not> lt y x"
  by (meson strict_total_irrefl strict_total_trans)

lemma strict_total_iff:
  assumes "strict_total lt"
  shows "\<not> lt x y \<longleftrightarrow> x = y \<or> lt y x" and "x \<noteq> y \<longleftrightarrow> lt x y \<or> lt y x"
  using strict_total_cases [OF assms, of x y] strict_total_asym [OF assms, of x y]
    strict_total_irrefl [OF assms, of x] by auto

lemma sorted_wrt_distinct: "strict_total lt \<Longrightarrow> sorted_wrt lt xs \<Longrightarrow> distinct xs"
  by (induction xs) (auto dest: strict_total_irrefl)

section \<open>\<open>std::set\<close>\<close>

fun set_insert :: "('a \<Rightarrow> 'a \<Rightarrow> bool) \<Rightarrow> 'a \<Rightarrow> 'a list \<Rightarrow> 'a list" where
  "set_insert lt x [] = [x]"
| "set_insert lt x (y # ys) =
     (if lt x y then x # y # ys else if lt y x then y # set_insert lt x ys else y # ys)"

definition set_of_list :: "('a \<Rightarrow> 'a \<Rightarrow> bool) \<Rightarrow> 'a list \<Rightarrow> 'a list" where
  "set_of_list lt xs = foldl (\<lambda>s x. set_insert lt x s) [] xs"

definition set_erase :: "'a \<Rightarrow> 'a list \<Rightarrow> 'a list" where
  "set_erase x xs = filter (\<lambda>y. y \<noteq> x) xs"

definition set_contains :: "'a list \<Rightarrow> 'a \<Rightarrow> bool" where
  "set_contains xs x \<longleftrightarrow> x \<in> set xs"

lemma set_set_insert: "strict_total lt \<Longrightarrow> set (set_insert lt x xs) = insert x (set xs)"
  by (induction xs) (auto dest: strict_total_cases)

lemma sorted_set_insert:
  "strict_total lt \<Longrightarrow> sorted_wrt lt xs \<Longrightarrow> sorted_wrt lt (set_insert lt x xs)"
  by (induction xs) (auto simp: set_set_insert dest: strict_total_trans)

lemma set_insert_last:
  assumes "strict_total lt" "\<forall>y \<in> set xs. lt y x"
  shows "set_insert lt x xs = xs @ [x]"
  using assms by (induction xs) (auto dest: strict_total_asym)

lemma set_insert_member:
  assumes "strict_total lt" "sorted_wrt lt xs" "x \<in> set xs"
  shows "set_insert lt x xs = xs"
  using assms by (induction xs) (auto dest: strict_total_asym strict_total_irrefl)

text \<open>
  A loop that inserts the elements of a sequence that is in order already rebuilds it: this
  is what a \<open>deserialize\<close> method does with the elements \<open>serialize\<close> wrote in iteration order.
\<close>

lemma set_of_list_sorted_acc:
  assumes "strict_total lt" "sorted_wrt lt (acc @ xs)"
  shows "foldl (\<lambda>s x. set_insert lt x s) acc xs = acc @ xs"
  using assms
proof (induction xs arbitrary: acc)
  case Nil
  then show ?case by simp
next
  case (Cons x xs)
  then have "set_insert lt x acc = acc @ [x]"
    by (intro set_insert_last) (auto simp: sorted_wrt_append)
  moreover have "sorted_wrt lt ((acc @ [x]) @ xs)"
    using Cons.prems(2) by simp
  ultimately show ?case
    using Cons.IH [OF Cons.prems(1), of "acc @ [x]"] by simp
qed

lemma set_of_list_sorted: "strict_total lt \<Longrightarrow> sorted_wrt lt xs \<Longrightarrow> set_of_list lt xs = xs"
  using set_of_list_sorted_acc [of lt "[]" xs] by (simp add: set_of_list_def)

lemma sorted_set_of_list_acc:
  "strict_total lt \<Longrightarrow> sorted_wrt lt acc \<Longrightarrow>
     sorted_wrt lt (foldl (\<lambda>s x. set_insert lt x s) acc xs)"
  by (induction xs arbitrary: acc) (auto intro: sorted_set_insert)

lemma sorted_set_of_list: "strict_total lt \<Longrightarrow> sorted_wrt lt (set_of_list lt xs)"
  by (simp add: set_of_list_def sorted_set_of_list_acc)

lemma set_set_of_list_acc:
  "strict_total lt \<Longrightarrow> set (foldl (\<lambda>s x. set_insert lt x s) acc xs) = set acc \<union> set xs"
  by (induction xs arbitrary: acc) (auto simp: set_set_insert)

lemma set_set_of_list: "strict_total lt \<Longrightarrow> set (set_of_list lt xs) = set xs"
  by (simp add: set_of_list_def set_set_of_list_acc)

section \<open>\<open>std::map\<close>\<close>

text \<open>\<open>insert\<close> does not touch the value of a key that is there; \<open>insert_or_assign\<close> does.\<close>

fun map_insert :: "('k \<Rightarrow> 'k \<Rightarrow> bool) \<Rightarrow> 'k \<Rightarrow> 'v \<Rightarrow> ('k \<times> 'v) list \<Rightarrow> ('k \<times> 'v) list" where
  "map_insert lt k v [] = [(k, v)]"
| "map_insert lt k v ((l, w) # m) =
     (if lt k l then (k, v) # (l, w) # m else if lt l k then (l, w) # map_insert lt k v m
      else (l, w) # m)"

fun map_assign :: "('k \<Rightarrow> 'k \<Rightarrow> bool) \<Rightarrow> 'k \<Rightarrow> 'v \<Rightarrow> ('k \<times> 'v) list \<Rightarrow> ('k \<times> 'v) list" where
  "map_assign lt k v [] = [(k, v)]"
| "map_assign lt k v ((l, w) # m) =
     (if lt k l then (k, v) # (l, w) # m else if lt l k then (l, w) # map_assign lt k v m
      else (l, v) # m)"

definition map_erase :: "'k \<Rightarrow> ('k \<times> 'v) list \<Rightarrow> ('k \<times> 'v) list" where
  "map_erase k m = filter (\<lambda>(l, _). l \<noteq> k) m"

definition map_of_list :: "('k \<Rightarrow> 'k \<Rightarrow> bool) \<Rightarrow> ('k \<times> 'v) list \<Rightarrow> ('k \<times> 'v) list" where
  "map_of_list lt xs = foldl (\<lambda>m (k, v). map_insert lt k v m) [] xs"

definition sorted_map :: "('k \<Rightarrow> 'k \<Rightarrow> bool) \<Rightarrow> ('k \<times> 'v) list \<Rightarrow> bool" where
  "sorted_map lt m \<longleftrightarrow> sorted_wrt lt (map fst m)"

text \<open>Seen through its keys, a map is a set: both insertions insert the key.\<close>

lemma map_fst_insert: "map fst (map_insert lt k v m) = set_insert lt k (map fst m)"
  by (induction m) auto

lemma map_fst_assign:
  assumes "strict_total lt"
  shows "map fst (map_assign lt k v m) = set_insert lt k (map fst m)"
  using strict_total_cases [OF assms] by (induction m) auto

lemma sorted_map_Cons:
  "sorted_map lt ((k, v) # m) \<longleftrightarrow> (\<forall>l \<in> fst ` set m. lt k l) \<and> sorted_map lt m"
  by (simp add: sorted_map_def)

lemma sorted_map_insert:
  "strict_total lt \<Longrightarrow> sorted_map lt m \<Longrightarrow> sorted_map lt (map_insert lt k v m)"
  by (simp add: sorted_map_def map_fst_insert sorted_set_insert)

lemma sorted_map_assign:
  "strict_total lt \<Longrightarrow> sorted_map lt m \<Longrightarrow> sorted_map lt (map_assign lt k v m)"
  by (simp add: sorted_map_def map_fst_assign sorted_set_insert)

lemma sorted_map_erase: "sorted_map lt m \<Longrightarrow> sorted_map lt (map_erase k m)"
  by (induction m) (auto simp: map_erase_def sorted_map_def)

lemma map_of_map_insert:
  assumes "strict_total lt" "sorted_map lt m"
  shows "map_of (map_insert lt k v m) =
           (if map_of m k = None then (map_of m)(k \<mapsto> v) else map_of m)"
  using assms(2)
proof (induction m)
  case (Cons p m)
  obtain l w where p: "p = (l, w)" by fastforce
  consider "lt k l" | "k = l" | "lt l k" using strict_total_cases [OF assms(1)] by blast
  then show ?case
  proof cases
    case 1
    then have "k \<noteq> l" "k \<notin> fst ` set m"
      using Cons.prems strict_total_asym [OF assms(1)] strict_total_irrefl [OF assms(1)]
      by (auto simp: p sorted_map_Cons)
    then show ?thesis using 1 by (auto simp: p map_of_eq_None_iff)
  next
    case 2
    then show ?thesis using strict_total_irrefl [OF assms(1)] by (auto simp: p)
  next
    case 3
    then have "\<not> lt k l" "k \<noteq> l"
      using strict_total_asym [OF assms(1)] strict_total_irrefl [OF assms(1)] by auto
    then show ?thesis using 3 Cons by (auto simp: p sorted_map_Cons)
  qed
qed simp

lemma map_of_map_assign:
  assumes "strict_total lt" "sorted_map lt m"
  shows "map_of (map_assign lt k v m) = (map_of m)(k \<mapsto> v)"
  using assms(2)
proof (induction m)
  case (Cons p m)
  obtain l w where p: "p = (l, w)" by fastforce
  consider "lt k l" | "k = l" | "lt l k" using strict_total_cases [OF assms(1)] by blast
  then show ?case
  proof cases
    case 1
    then show ?thesis by (auto simp: p)
  next
    case 2
    then show ?thesis using strict_total_irrefl [OF assms(1)] by (auto simp: p)
  next
    case 3
    then have "\<not> lt k l" "k \<noteq> l"
      using strict_total_asym [OF assms(1)] strict_total_irrefl [OF assms(1)] by auto
    then show ?thesis using 3 Cons by (auto simp: p sorted_map_Cons)
  qed
qed simp

lemma map_of_map_erase: "map_of (map_erase k m) = (map_of m)(k := None)"
  by (induction m) (auto simp: map_erase_def)

lemma map_insert_last:
  assumes "strict_total lt" "\<forall>l \<in> fst ` set m. lt l k"
  shows "map_insert lt k v m = m @ [(k, v)]"
  using assms by (induction m) (auto dest: strict_total_asym)

lemma map_of_list_sorted_acc:
  assumes "strict_total lt" "sorted_map lt (acc @ xs)"
  shows "foldl (\<lambda>m (k, v). map_insert lt k v m) acc xs = acc @ xs"
  using assms
proof (induction xs arbitrary: acc)
  case Nil
  then show ?case by simp
next
  case (Cons p xs)
  obtain k v where p: "p = (k, v)" by fastforce
  from Cons have "map_insert lt k v acc = acc @ [p]"
    unfolding p by (intro map_insert_last) (auto simp: sorted_map_def sorted_wrt_append)
  moreover have "sorted_map lt ((acc @ [p]) @ xs)"
    using Cons.prems(2) by simp
  ultimately show ?case
    using Cons.IH [OF Cons.prems(1), of "acc @ [p]"] by (simp add: p)
qed

lemma map_of_list_sorted: "strict_total lt \<Longrightarrow> sorted_map lt xs \<Longrightarrow> map_of_list lt xs = xs"
  using map_of_list_sorted_acc [of lt "[]" xs] by (simp add: map_of_list_def)

section \<open>The interface of a dictionary\<close>

text \<open>
  What the clients of the program's maps rely on, with the map seen through its lookup
  function. \<open>ok\<close> is what the operations need of the comparison \<open>c\<close>.
\<close>

locale dictionary =
  fixes ok :: "'c \<Rightarrow> bool"
    and inv :: "'c \<Rightarrow> 'm \<Rightarrow> bool"
    and empty :: 'm
    and lookup :: "'m \<Rightarrow> 'k \<Rightarrow> 'v option"
    and insert :: "'c \<Rightarrow> 'k \<Rightarrow> 'v \<Rightarrow> 'm \<Rightarrow> 'm"
    and erase :: "'k \<Rightarrow> 'm \<Rightarrow> 'm"
  assumes inv_empty: "inv c empty"
    and inv_insert: "ok c \<Longrightarrow> inv c m \<Longrightarrow> inv c (insert c k v m)"
    and inv_erase: "inv c m \<Longrightarrow> inv c (erase k m)"
    and lookup_empty: "lookup empty k = None"
    and lookup_insert: "ok c \<Longrightarrow> inv c m \<Longrightarrow>
           lookup (insert c k v m) l =
             (if l = k then (case lookup m k of None \<Rightarrow> Some v | Some w \<Rightarrow> Some w) else lookup m l)"
    and lookup_erase: "lookup (erase k m) l = (if l = k then None else lookup m l)"
begin

lemma insert_present:
  "ok c \<Longrightarrow> inv c m \<Longrightarrow> lookup m k = Some w \<Longrightarrow> lookup (insert c k v m) l = lookup m l"
  by (simp add: lookup_insert)

lemma insert_absent:
  "ok c \<Longrightarrow> inv c m \<Longrightarrow> lookup m k = None \<Longrightarrow> lookup (insert c k v m) k = Some v"
  by (simp add: lookup_insert)

lemma erase_insert:
  "ok c \<Longrightarrow> inv c m \<Longrightarrow> lookup m k = None \<Longrightarrow> lookup (erase k (insert c k v m)) l = lookup m l"
  by (auto simp: lookup_erase lookup_insert)

end

interpretation std_map: dictionary strict_total sorted_map "[]" map_of map_insert map_erase
proof unfold_locales
  fix lt :: "'a \<Rightarrow> 'a \<Rightarrow> bool" and k l :: 'a and v :: 'b and m :: "('a \<times> 'b) list"
  show "sorted_map lt ([] :: ('a \<times> 'b) list)" by (simp add: sorted_map_def)
  show "strict_total lt \<Longrightarrow> sorted_map lt m \<Longrightarrow> sorted_map lt (map_insert lt k v m)"
    by (rule sorted_map_insert)
  show "sorted_map lt m \<Longrightarrow> sorted_map lt (map_erase k m)" by (rule sorted_map_erase)
  show "map_of [] k = None" by simp
  show "map_of (map_insert lt k v m) l =
          (if l = k then (case map_of m k of None \<Rightarrow> Some v | Some w \<Rightarrow> Some w) else map_of m l)"
    if "strict_total lt" "sorted_map lt m"
    using map_of_map_insert [OF that, of k v] by (auto split: option.split)
  show "map_of (map_erase k m) l = (if l = k then None else map_of m l)"
    by (simp add: map_of_map_erase)
qed

end
