(* ===== verification/Thread_Safe.thy ===== *)
theory Thread_Safe
  imports Std_Containers
begin

text \<open>
  The containers of \<open>include/tools\<close>: \<open>ThreadSafeMap\<close>, \<open>ThreadSafeSet\<close>, \<open>ThreadSafeQueue\<close>
  and \<open>ThreadSafeDeque\<close>. Each method takes the container's mutex and then does one thing to
  the standard container inside, so a method is one atomic function of the container's
  contents; interleavings of threads are sequences of these functions. \<open>None\<close> stands for
  the exception of \<open>at()\<close> and for the undefined behaviour of the standard library's
  \<open>front\<close>, \<open>back\<close>, \<open>pop\<close> and \<open>operator[]\<close> outside the container.
\<close>

section \<open>\<open>ThreadSafeMap\<close>\<close>

type_synonym ('l, 'r) ThreadSafeMap = "('l \<times> 'r) list"

definition tsm_at :: "('l, 'r) ThreadSafeMap \<Rightarrow> 'l \<Rightarrow> 'r option" where
  "tsm_at m key = map_of m key"

definition tsm_clear :: "('l, 'r) ThreadSafeMap \<Rightarrow> ('l, 'r) ThreadSafeMap" where
  "tsm_clear m = []"

definition tsm_contains :: "('l, 'r) ThreadSafeMap \<Rightarrow> 'l \<Rightarrow> bool" where
  "tsm_contains m key \<longleftrightarrow> length (filter (\<lambda>(k, _). k = key) m) \<noteq> 0"

text \<open>\<open>each\<close> calls a function that may change the caller's state \<open>s\<close> on every entry.\<close>

definition tsm_each :: "('l, 'r) ThreadSafeMap \<Rightarrow> ('l \<Rightarrow> 'r \<Rightarrow> 's \<Rightarrow> 's) \<Rightarrow> 's \<Rightarrow> 's" where
  "tsm_each m func s = foldl (\<lambda>s (key, value). func key value s) s m"

definition tsm_empty :: "('l, 'r) ThreadSafeMap \<Rightarrow> bool" where
  "tsm_empty m \<longleftrightarrow> m = []"

definition tsm_erase :: "'l \<Rightarrow> ('l, 'r) ThreadSafeMap \<Rightarrow> ('l, 'r) ThreadSafeMap" where
  "tsm_erase key m = map_erase key m"

definition tsm_insert ::
  "('l \<Rightarrow> 'l \<Rightarrow> bool) \<Rightarrow> 'l \<Rightarrow> 'r \<Rightarrow> ('l, 'r) ThreadSafeMap \<Rightarrow> ('l, 'r) ThreadSafeMap" where
  "tsm_insert lt key value m = map_insert lt key value m"

definition tsm_insert_or_assign ::
  "('l \<Rightarrow> 'l \<Rightarrow> bool) \<Rightarrow> 'l \<Rightarrow> 'r \<Rightarrow> ('l, 'r) ThreadSafeMap \<Rightarrow> ('l, 'r) ThreadSafeMap" where
  "tsm_insert_or_assign lt key value m = map_assign lt key value m"

definition tsm_size :: "('l, 'r) ThreadSafeMap \<Rightarrow> nat" where
  "tsm_size m = length m"

lemma tsm_contains_at: "tsm_contains m key \<longleftrightarrow> tsm_at m key \<noteq> None"
  by (induction m) (auto simp: tsm_contains_def tsm_at_def)

interpretation tsm: dictionary strict_total sorted_map "[]" tsm_at tsm_insert tsm_erase
  unfolding tsm_at_def tsm_insert_def tsm_erase_def by (rule std_map.dictionary_axioms)

lemma tsm_at_insert_or_assign:
  "strict_total lt \<Longrightarrow> sorted_map lt m \<Longrightarrow>
     tsm_at (tsm_insert_or_assign lt k v m) l = (if l = k then Some v else tsm_at m l)"
  by (simp add: tsm_at_def tsm_insert_or_assign_def map_of_map_assign)

lemma sorted_map_tsm_insert_or_assign:
  "strict_total lt \<Longrightarrow> sorted_map lt m \<Longrightarrow> sorted_map lt (tsm_insert_or_assign lt k v m)"
  by (simp add: tsm_insert_or_assign_def sorted_map_assign)

text \<open>
  The registries of the program (\<open>static ThreadSafeMap<crypto_hash_t, std::shared_ptr<...>>
  instances\<close>) are all used in one way: \<open>if (!instances.contains(id)) instances.insert(id, new);
  return instances.at(id)\<close>. The second component is the registry afterwards.
\<close>

definition registry_instance ::
  "('l \<Rightarrow> 'l \<Rightarrow> bool) \<Rightarrow> 'l \<Rightarrow> 'r \<Rightarrow> ('l, 'r) ThreadSafeMap \<Rightarrow> 'r option \<times> ('l, 'r) ThreadSafeMap"
where
  "registry_instance lt key fresh m =
     (let m' = (if \<not> tsm_contains m key then tsm_insert lt key fresh m else m)
      in (tsm_at m' key, m'))"

lemma registry_instance_fresh:
  assumes "strict_total lt" "sorted_map lt m" "tsm_at m key = None"
  shows "fst (registry_instance lt key fresh m) = Some fresh"
  using assms by (simp add: registry_instance_def tsm_contains_at tsm.insert_absent)

lemma registry_instance_known:
  assumes "tsm_at m key = Some r"
  shows "registry_instance lt key fresh m = (Some r, m)"
  using assms by (simp add: registry_instance_def tsm_contains_at)

lemma registry_instance_at:
  assumes "strict_total lt" "sorted_map lt m"
  shows "tsm_at (snd (registry_instance lt key fresh m)) l =
           (if l = key then fst (registry_instance lt key fresh m) else tsm_at m l)"
  using assms by (auto simp: registry_instance_def tsm_contains_at tsm.lookup_insert Let_def)

lemma registry_instance_sorted:
  "strict_total lt \<Longrightarrow> sorted_map lt m \<Longrightarrow> sorted_map lt (snd (registry_instance lt key fresh m))"
  by (simp add: registry_instance_def tsm.inv_insert Let_def)

section \<open>\<open>ThreadSafeSet\<close>\<close>

type_synonym 't ThreadSafeSet = "'t list"

definition tss_clear :: "'t ThreadSafeSet \<Rightarrow> 't ThreadSafeSet" where
  "tss_clear s = []"

definition tss_contains :: "'t ThreadSafeSet \<Rightarrow> 't \<Rightarrow> bool" where
  "tss_contains s key \<longleftrightarrow> length (filter (\<lambda>k. k = key) s) \<noteq> 0"

definition tss_each :: "'t ThreadSafeSet \<Rightarrow> ('t \<Rightarrow> 's \<Rightarrow> 's) \<Rightarrow> 's \<Rightarrow> 's" where
  "tss_each s func st = foldl (\<lambda>st elem. func elem st) st s"

definition tss_empty :: "'t ThreadSafeSet \<Rightarrow> bool" where
  "tss_empty s \<longleftrightarrow> s = []"

definition tss_erase :: "'t \<Rightarrow> 't ThreadSafeSet \<Rightarrow> 't ThreadSafeSet" where
  "tss_erase key s = set_erase key s"

definition tss_insert :: "('t \<Rightarrow> 't \<Rightarrow> bool) \<Rightarrow> 't \<Rightarrow> 't ThreadSafeSet \<Rightarrow> 't ThreadSafeSet" where
  "tss_insert lt key s = set_insert lt key s"

definition tss_size :: "'t ThreadSafeSet \<Rightarrow> nat" where
  "tss_size s = length s"

lemma tss_contains_iff: "tss_contains s key \<longleftrightarrow> key \<in> set s"
  by (induction s) (auto simp: tss_contains_def)

lemma tss_contains_insert:
  "strict_total lt \<Longrightarrow> tss_contains (tss_insert lt x s) y \<longleftrightarrow> y = x \<or> tss_contains s y"
  by (auto simp: tss_contains_iff tss_insert_def set_set_insert)

lemma tss_contains_erase: "tss_contains (tss_erase x s) y \<longleftrightarrow> y \<noteq> x \<and> tss_contains s y"
  by (auto simp: tss_contains_iff tss_erase_def set_erase_def)

lemma tss_size_insert:
  assumes "strict_total lt" "sorted_wrt lt s"
  shows "tss_size (tss_insert lt x s) = (if tss_contains s x then tss_size s else Suc (tss_size s))"
proof -
  have "distinct (tss_insert lt x s)" "distinct s"
    using assms by (auto simp: tss_insert_def intro: sorted_wrt_distinct sorted_set_insert)
  then show ?thesis
    using set_set_insert [OF assms(1), of x s] card_insert_if [of "set s" x]
    by (simp add: tss_size_def tss_contains_iff tss_insert_def flip: distinct_card)
qed

section \<open>\<open>ThreadSafeQueue\<close>\<close>

type_synonym 't ThreadSafeQueue = "'t list"

definition tsq_back :: "'t ThreadSafeQueue \<Rightarrow> 't option" where
  "tsq_back q = (if q = [] then None else Some (last q))"

definition tsq_clear :: "'t ThreadSafeQueue \<Rightarrow> 't ThreadSafeQueue" where
  "tsq_clear q = []"

definition tsq_empty :: "'t ThreadSafeQueue \<Rightarrow> bool" where
  "tsq_empty q \<longleftrightarrow> q = []"

definition tsq_front :: "'t ThreadSafeQueue \<Rightarrow> 't option" where
  "tsq_front q = (case q of [] \<Rightarrow> None | x # _ \<Rightarrow> Some x)"

definition tsq_pop :: "'t ThreadSafeQueue \<Rightarrow> ('t \<times> 't ThreadSafeQueue) option" where
  "tsq_pop q = (case q of [] \<Rightarrow> None | x # xs \<Rightarrow> Some (x, xs))"

definition tsq_push :: "'t \<Rightarrow> 't ThreadSafeQueue \<Rightarrow> 't ThreadSafeQueue" where
  "tsq_push item q = q @ [item]"

definition tsq_push_all :: "'t list \<Rightarrow> 't ThreadSafeQueue \<Rightarrow> 't ThreadSafeQueue" where
  "tsq_push_all items q = foldl (\<lambda>q item. tsq_push item q) q items"

definition tsq_size :: "'t ThreadSafeQueue \<Rightarrow> nat" where
  "tsq_size q = length q"

definition tsq_skip :: "'t ThreadSafeQueue \<Rightarrow> 't ThreadSafeQueue" where
  "tsq_skip q = (if q = [] then q else tl q)"

section \<open>\<open>ThreadSafeDeque\<close>\<close>

type_synonym 't ThreadSafeDeque = "'t list"

definition tsd_at :: "'t ThreadSafeDeque \<Rightarrow> nat \<Rightarrow> 't option" where
  "tsd_at d position = (if position < length d then Some (d ! position) else None)"

definition tsd_back :: "'t ThreadSafeDeque \<Rightarrow> 't option" where
  "tsd_back d = (if d = [] then None else Some (last d))"

definition tsd_clear :: "'t ThreadSafeDeque \<Rightarrow> 't ThreadSafeDeque" where
  "tsd_clear d = []"

definition tsd_each :: "'t ThreadSafeDeque \<Rightarrow> ('t \<Rightarrow> 's \<Rightarrow> 's) \<Rightarrow> 's \<Rightarrow> 's" where
  "tsd_each d func s = foldl (\<lambda>s elem. func elem s) s d"

text \<open>\<open>eachref\<close> hands out references, so that the function may assign to the element too.\<close>

fun tsd_eachref :: "'t ThreadSafeDeque \<Rightarrow> ('t \<Rightarrow> 's \<Rightarrow> 't \<times> 's) \<Rightarrow> 's \<Rightarrow> 't ThreadSafeDeque \<times> 's" where
  "tsd_eachref [] func s = ([], s)"
| "tsd_eachref (x # xs) func s =
     (let (x', s') = func x s; (xs', s'') = tsd_eachref xs func s' in (x' # xs', s''))"

definition tsd_empty :: "'t ThreadSafeDeque \<Rightarrow> bool" where
  "tsd_empty d \<longleftrightarrow> d = []"

definition tsd_front :: "'t ThreadSafeDeque \<Rightarrow> 't option" where
  "tsd_front d = (case d of [] \<Rightarrow> None | x # _ \<Rightarrow> Some x)"

definition tsd_pop_back :: "'t ThreadSafeDeque \<Rightarrow> ('t \<times> 't ThreadSafeDeque) option" where
  "tsd_pop_back d = (if d = [] then None else Some (last d, butlast d))"

definition tsd_pop_front :: "'t ThreadSafeDeque \<Rightarrow> ('t \<times> 't ThreadSafeDeque) option" where
  "tsd_pop_front d = (case d of [] \<Rightarrow> None | x # xs \<Rightarrow> Some (x, xs))"

definition tsd_push_back :: "'t \<Rightarrow> 't ThreadSafeDeque \<Rightarrow> 't ThreadSafeDeque" where
  "tsd_push_back item d = d @ [item]"

definition tsd_push_back_all :: "'t list \<Rightarrow> 't ThreadSafeDeque \<Rightarrow> 't ThreadSafeDeque" where
  "tsd_push_back_all items d = foldl (\<lambda>d item. d @ [item]) d items"

definition tsd_push_front :: "'t \<Rightarrow> 't ThreadSafeDeque \<Rightarrow> 't ThreadSafeDeque" where
  "tsd_push_front item d = item # d"

definition tsd_push_front_all :: "'t list \<Rightarrow> bool \<Rightarrow> 't ThreadSafeDeque \<Rightarrow> 't ThreadSafeDeque" where
  "tsd_push_front_all items preserve_order d =
     (let temp = (if preserve_order then rev items else items)
      in foldl (\<lambda>d item. item # d) d temp)"

text \<open>\<open>dflt\<close> is the default-constructed element.\<close>

definition tsd_resize :: "'t \<Rightarrow> nat \<Rightarrow> 't ThreadSafeDeque \<Rightarrow> 't ThreadSafeDeque" where
  "tsd_resize dflt count d =
     (if count < length d then take count d else d @ replicate (count - length d) dflt)"

definition tsd_set :: "nat \<Rightarrow> 't \<Rightarrow> 't ThreadSafeDeque \<Rightarrow> 't ThreadSafeDeque option" where
  "tsd_set position item d = (if position < length d then Some (d[position := item]) else None)"

definition tsd_size :: "'t ThreadSafeDeque \<Rightarrow> nat" where
  "tsd_size d = length d"

definition tsd_skip_back :: "'t ThreadSafeDeque \<Rightarrow> 't ThreadSafeDeque" where
  "tsd_skip_back d = (if d = [] then d else butlast d)"

definition tsd_skip_front :: "'t ThreadSafeDeque \<Rightarrow> 't ThreadSafeDeque" where
  "tsd_skip_front d = (if d = [] then d else tl d)"

lemma tsd_push_front_acc: "foldl (\<lambda>d item. item # d) d xs = rev xs @ d"
  by (induction xs arbitrary: d) auto

lemma tsd_push_back_acc: "foldl (\<lambda>d item. d @ [item]) d xs = d @ xs"
  by (induction xs arbitrary: d) auto

section \<open>The interface of a first-in first-out buffer\<close>

text \<open>
  Draining a buffer: \<open>while (!q.empty()) { x = q.pop(); ... }\<close>, at most \<open>n\<close> times. The
  result is the elements in the order they were handed out and the buffer that is left.
\<close>

fun drain :: "('q \<Rightarrow> bool) \<Rightarrow> ('q \<Rightarrow> ('a \<times> 'q) option) \<Rightarrow> nat \<Rightarrow> 'q \<Rightarrow> 'a list \<times> 'q" where
  "drain is_empty pop 0 q = ([], q)"
| "drain is_empty pop (Suc n) q =
     (if is_empty q then ([], q)
      else case pop q of None \<Rightarrow> ([], q)
           | Some (x, q') \<Rightarrow> (let (xs, q'') = drain is_empty pop n q' in (x # xs, q'')))"

locale fifo =
  fixes contents :: "'q \<Rightarrow> 'a list"
    and push :: "'a \<Rightarrow> 'q \<Rightarrow> 'q"
    and pop :: "'q \<Rightarrow> ('a \<times> 'q) option"
    and is_empty :: "'q \<Rightarrow> bool"
  assumes contents_push: "contents (push x q) = contents q @ [x]"
    and pop_contents: "contents q = x # xs \<Longrightarrow> \<exists>q'. pop q = Some (x, q') \<and> contents q' = xs"
    and pop_empty: "contents q = [] \<Longrightarrow> pop q = None"
    and is_empty_contents: "is_empty q \<longleftrightarrow> contents q = []"
begin

lemma contents_push_many: "contents (foldl (\<lambda>q x. push x q) q xs) = contents q @ xs"
  by (induction xs arbitrary: q) (auto simp: contents_push)

lemma drain_all:
  assumes "length (contents q) \<le> n"
  shows "fst (drain is_empty pop n q) = contents q \<and> contents (snd (drain is_empty pop n q)) = []"
  using assms
proof (induction n arbitrary: q)
  case 0
  then show ?case by simp
next
  case (Suc n)
  show ?case
  proof (cases "contents q")
    case Nil
    then show ?thesis by (simp add: is_empty_contents)
  next
    case (Cons x xs)
    then obtain q' where q': "pop q = Some (x, q')" "contents q' = xs"
      using pop_contents by blast
    with Suc.prems Cons have "length (contents q') \<le> n" by simp
    from Suc.IH [OF this] show ?thesis
      using q' Cons by (simp add: is_empty_contents case_prod_beta)
  qed
qed

lemma fifo_order:
  "fst (drain is_empty pop (length (contents q) + length xs) (foldl (\<lambda>q x. push x q) q xs)) =
     contents q @ xs"
  using drain_all [of "foldl (\<lambda>q x. push x q) q xs"] by (simp add: contents_push_many)

end

interpretation tsq: fifo "\<lambda>q. q" tsq_push tsq_pop tsq_empty
  by unfold_locales (auto simp: tsq_push_def tsq_pop_def tsq_empty_def)

interpretation tsd: fifo "\<lambda>d. d" tsd_push_back tsd_pop_front tsd_empty
  by unfold_locales (auto simp: tsd_push_back_def tsd_pop_front_def tsd_empty_def)

text \<open>The other end of the deque, which is a first-in first-out buffer read backwards.\<close>

interpretation tsd_rev: fifo rev tsd_push_front tsd_pop_back tsd_empty
proof unfold_locales
  fix d xs :: "'a list" and x :: 'a
  show "rev (tsd_push_front x d) = rev d @ [x]" by (simp add: tsd_push_front_def)
  show "\<exists>d'. tsd_pop_back d = Some (x, d') \<and> rev d' = xs" if "rev d = x # xs"
  proof -
    from that have "d = rev xs @ [x]" by (metis rev.simps(2) rev_rev_ident)
    then show ?thesis by (simp add: tsd_pop_back_def)
  qed
  show "tsd_pop_back d = None" if "rev d = []" using that by (simp add: tsd_pop_back_def)
  show "tsd_empty d \<longleftrightarrow> rev d = []" by (simp add: tsd_empty_def)
qed

end
