(* ===== verification/Error_Codes.thy ===== *)
theory Error_Codes
  imports Prelude
begin

text \<open>
  The error values of the program (\<open>src/errors/errors.h\<close>, \<open>errors.cpp\<close>): the enumeration
  \<open>ErrorCode\<close>, the class \<open>Error\<close> that carries a code with a message and the place where it
  was made, its comparison operators and its text.

  An \<open>ErrorCode\<close> is an enumeration of integers into which \<open>Error(const int &code, ...)\<close>
  casts any integer, the results of the LMDB calls among them, so the type is an integer
  under a constructor of its own and the enumerators are names of values of it.
\<close>

section \<open>The enumeration\<close>

datatype ErrorCode = ErrorCode (int_of_code: int)

abbreviation SUCCESS :: ErrorCode where "SUCCESS \<equiv> ErrorCode (0)"
abbreviation JSON_PARSE_ERROR :: ErrorCode where "JSON_PARSE_ERROR \<equiv> ErrorCode (1)"
abbreviation UPNP_FAILURE :: ErrorCode where "UPNP_FAILURE \<equiv> ErrorCode (2)"
abbreviation UPNP_NOT_SUPPORTED :: ErrorCode where "UPNP_NOT_SUPPORTED \<equiv> ErrorCode (3)"
abbreviation ZMQ_CONNECT_ERROR :: ErrorCode where "ZMQ_CONNECT_ERROR \<equiv> ErrorCode (4)"
abbreviation ZMQ_BIND_ERROR :: ErrorCode where "ZMQ_BIND_ERROR \<equiv> ErrorCode (5)"
abbreviation ZMQ_GENERIC_ERROR :: ErrorCode where "ZMQ_GENERIC_ERROR \<equiv> ErrorCode (6)"
abbreviation P2P_SEED_CONNECT :: ErrorCode where "P2P_SEED_CONNECT \<equiv> ErrorCode (7)"
abbreviation P2P_DUPE_CONNECT :: ErrorCode where "P2P_DUPE_CONNECT \<equiv> ErrorCode (8)"
abbreviation HTTP_BODY_REQUIRED_BUT_NOT_FOUND :: ErrorCode where "HTTP_BODY_REQUIRED_BUT_NOT_FOUND \<equiv> ErrorCode (9)"
abbreviation PEERLIST_ADD_FAILURE :: ErrorCode where "PEERLIST_ADD_FAILURE \<equiv> ErrorCode (10)"
abbreviation BASE58_DECODE :: ErrorCode where "BASE58_DECODE \<equiv> ErrorCode (11)"
abbreviation ADDRESS_PREFIX_MISMATCH :: ErrorCode where "ADDRESS_PREFIX_MISMATCH \<equiv> ErrorCode (12)"
abbreviation ADDRESS_DECODE :: ErrorCode where "ADDRESS_DECODE \<equiv> ErrorCode (13)"
abbreviation DB_EMPTY :: ErrorCode where "DB_EMPTY \<equiv> ErrorCode (14)"
abbreviation DB_BLOCK_NOT_FOUND :: ErrorCode where "DB_BLOCK_NOT_FOUND \<equiv> ErrorCode (15)"
abbreviation DB_TRANSACTION_NOT_FOUND :: ErrorCode where "DB_TRANSACTION_NOT_FOUND \<equiv> ErrorCode (16)"
abbreviation DB_TRANSACTION_OUTPUT_NOT_FOUND :: ErrorCode where "DB_TRANSACTION_OUTPUT_NOT_FOUND \<equiv> ErrorCode (17)"
abbreviation BLOCK_TXN_ORDER :: ErrorCode where "BLOCK_TXN_ORDER \<equiv> ErrorCode (18)"
abbreviation BLOCK_TXN_MISMATCH :: ErrorCode where "BLOCK_TXN_MISMATCH \<equiv> ErrorCode (19)"
abbreviation UNKNOWN_TRANSACTION_TYPE :: ErrorCode where "UNKNOWN_TRANSACTION_TYPE \<equiv> ErrorCode (20)"
abbreviation TX_NOT_FOUND :: ErrorCode where "TX_NOT_FOUND \<equiv> ErrorCode (21)"
abbreviation TX_INVALID_VERSION :: ErrorCode where "TX_INVALID_VERSION \<equiv> ErrorCode (22)"
abbreviation TX_KEY_IMAGE_ALREADY_EXISTS :: ErrorCode where "TX_KEY_IMAGE_ALREADY_EXISTS \<equiv> ErrorCode (23)"
abbreviation TX_DUPLICATE_KEY_IMAGE :: ErrorCode where "TX_DUPLICATE_KEY_IMAGE \<equiv> ErrorCode (24)"
abbreviation TX_INVALID_KEY_IMAGE :: ErrorCode where "TX_INVALID_KEY_IMAGE \<equiv> ErrorCode (25)"
abbreviation TX_MINIMUM_POW :: ErrorCode where "TX_MINIMUM_POW \<equiv> ErrorCode (26)"
abbreviation TX_LOW_FEE :: ErrorCode where "TX_LOW_FEE \<equiv> ErrorCode (27)"
abbreviation TX_MISSING_FEE :: ErrorCode where "TX_MISSING_FEE \<equiv> ErrorCode (28)"
abbreviation TX_EXTRA_TOO_LARGE :: ErrorCode where "TX_EXTRA_TOO_LARGE \<equiv> ErrorCode (29)"
abbreviation TX_KEYPAIR_MISMATCH :: ErrorCode where "TX_KEYPAIR_MISMATCH \<equiv> ErrorCode (30)"
abbreviation TX_PUBLIC_KEY :: ErrorCode where "TX_PUBLIC_KEY \<equiv> ErrorCode (31)"
abbreviation TX_SECRET_KEY :: ErrorCode where "TX_SECRET_KEY \<equiv> ErrorCode (32)"
abbreviation TX_STAKE_NO_AMOUNT :: ErrorCode where "TX_STAKE_NO_AMOUNT \<equiv> ErrorCode (33)"
abbreviation TX_STAKER_ID :: ErrorCode where "TX_STAKER_ID \<equiv> ErrorCode (34)"
abbreviation TX_RECALL_VIEW_SIGNATURE :: ErrorCode where "TX_RECALL_VIEW_SIGNATURE \<equiv> ErrorCode (35)"
abbreviation TX_RECALL_SPEND_SIGNATURE :: ErrorCode where "TX_RECALL_SPEND_SIGNATURE \<equiv> ErrorCode (36)"
abbreviation TX_RECALL_STAKE_TX_HASH :: ErrorCode where "TX_RECALL_STAKE_TX_HASH \<equiv> ErrorCode (37)"
abbreviation TX_OUTPUT_PUBLIC_EPHEMERAL :: ErrorCode where "TX_OUTPUT_PUBLIC_EPHEMERAL \<equiv> ErrorCode (38)"
abbreviation TX_OUTPUT_AMOUNT :: ErrorCode where "TX_OUTPUT_AMOUNT \<equiv> ErrorCode (39)"
abbreviation TX_OUTPUT_COMMITMENT :: ErrorCode where "TX_OUTPUT_COMMITMENT \<equiv> ErrorCode (40)"
abbreviation TX_OUTPUT_LOCKED :: ErrorCode where "TX_OUTPUT_LOCKED \<equiv> ErrorCode (41)"
abbreviation TX_STAKER_REWARD_AMOUNT :: ErrorCode where "TX_STAKER_REWARD_AMOUNT \<equiv> ErrorCode (42)"
abbreviation TX_STAKER_REWARD_ID :: ErrorCode where "TX_STAKER_REWARD_ID \<equiv> ErrorCode (43)"
abbreviation TX_INVALID_RANGE_PROOF :: ErrorCode where "TX_INVALID_RANGE_PROOF \<equiv> ErrorCode (44)"
abbreviation TX_SIG_SIZE_MISMATCH :: ErrorCode where "TX_SIG_SIZE_MISMATCH \<equiv> ErrorCode (45)"
abbreviation TX_INVALID_SIGNATURE :: ErrorCode where "TX_INVALID_SIGNATURE \<equiv> ErrorCode (46)"
abbreviation TX_INVALID_OUTPUT_COUNT :: ErrorCode where "TX_INVALID_OUTPUT_COUNT \<equiv> ErrorCode (47)"
abbreviation TX_INVALID_INPUT_COUNT :: ErrorCode where "TX_INVALID_INPUT_COUNT \<equiv> ErrorCode (48)"
abbreviation TX_PUBLIC_VIEW_KEY_NOT_FOUND :: ErrorCode where "TX_PUBLIC_VIEW_KEY_NOT_FOUND \<equiv> ErrorCode (49)"
abbreviation TX_PUBLIC_SPEND_KEY_NOT_FOUND :: ErrorCode where "TX_PUBLIC_SPEND_KEY_NOT_FOUND \<equiv> ErrorCode (50)"
abbreviation TX_INVALID_PSEUDO_COMMITMENT_COUNT :: ErrorCode where "TX_INVALID_PSEUDO_COMMITMENT_COUNT \<equiv> ErrorCode (51)"
abbreviation TX_COMMITMENTS_DO_NOT_BALANCE :: ErrorCode where "TX_COMMITMENTS_DO_NOT_BALANCE \<equiv> ErrorCode (52)"
abbreviation TX_INVALID_RING_SIGNATURE :: ErrorCode where "TX_INVALID_RING_SIGNATURE \<equiv> ErrorCode (53)"
abbreviation TX_GENESIS_ALREADY_EXISTS :: ErrorCode where "TX_GENESIS_ALREADY_EXISTS \<equiv> ErrorCode (54)"
abbreviation TX_STAKING_PUBLIC_KEYS_REUSE :: ErrorCode where "TX_STAKING_PUBLIC_KEYS_REUSE \<equiv> ErrorCode (55)"
abbreviation STAKING_CANDIDATE_ALREADY_EXISTS :: ErrorCode where "STAKING_CANDIDATE_ALREADY_EXISTS \<equiv> ErrorCode (56)"
abbreviation STAKING_CANDIDATE_NOT_FOUND :: ErrorCode where "STAKING_CANDIDATE_NOT_FOUND \<equiv> ErrorCode (57)"
abbreviation STAKING_CANDIDATE_AMOUNT_INVALID :: ErrorCode where "STAKING_CANDIDATE_AMOUNT_INVALID \<equiv> ErrorCode (58)"
abbreviation STAKING_STAKER_NOT_FOUND :: ErrorCode where "STAKING_STAKER_NOT_FOUND \<equiv> ErrorCode (59)"
abbreviation STAKING_STAKE_AMOUNT :: ErrorCode where "STAKING_STAKE_AMOUNT \<equiv> ErrorCode (60)"
abbreviation AES_WRONG_PASSWORD :: ErrorCode where "AES_WRONG_PASSWORD \<equiv> ErrorCode (61)"
abbreviation AES_DECRYPTION_ERROR :: ErrorCode where "AES_DECRYPTION_ERROR \<equiv> ErrorCode (62)"
abbreviation LMDB_ERROR :: ErrorCode where "LMDB_ERROR \<equiv> ErrorCode (-40000)"
abbreviation LMDB_EMPTY :: ErrorCode where "LMDB_EMPTY \<equiv> ErrorCode (-39999)"
abbreviation LMDB_KEYEXIST :: ErrorCode where "LMDB_KEYEXIST \<equiv> ErrorCode (-30799)"
abbreviation LMDB_NOTFOUND :: ErrorCode where "LMDB_NOTFOUND \<equiv> ErrorCode (-30798)"
abbreviation LMDB_PAGE_NOTFOUND :: ErrorCode where "LMDB_PAGE_NOTFOUND \<equiv> ErrorCode (-30797)"
abbreviation LMDB_CORRUPTED :: ErrorCode where "LMDB_CORRUPTED \<equiv> ErrorCode (-30796)"
abbreviation LMDB_PANIC :: ErrorCode where "LMDB_PANIC \<equiv> ErrorCode (-30795)"
abbreviation LMDB_VERSION_MISMATCH :: ErrorCode where "LMDB_VERSION_MISMATCH \<equiv> ErrorCode (-30794)"
abbreviation LMDB_INVALID :: ErrorCode where "LMDB_INVALID \<equiv> ErrorCode (-30793)"
abbreviation LMDB_MAP_FULL :: ErrorCode where "LMDB_MAP_FULL \<equiv> ErrorCode (-30792)"
abbreviation LMDB_DBS_FULL :: ErrorCode where "LMDB_DBS_FULL \<equiv> ErrorCode (-30791)"
abbreviation LMDB_READERS_FULL :: ErrorCode where "LMDB_READERS_FULL \<equiv> ErrorCode (-30790)"
abbreviation LMDB_TLS_FULL :: ErrorCode where "LMDB_TLS_FULL \<equiv> ErrorCode (-30789)"
abbreviation LMDB_TXN_FULL :: ErrorCode where "LMDB_TXN_FULL \<equiv> ErrorCode (-30788)"
abbreviation LMDB_CURSOR_FULL :: ErrorCode where "LMDB_CURSOR_FULL \<equiv> ErrorCode (-30787)"
abbreviation LMDB_PAGE_FULL :: ErrorCode where "LMDB_PAGE_FULL \<equiv> ErrorCode (-30786)"
abbreviation LMDB_MAP_RESIZED :: ErrorCode where "LMDB_MAP_RESIZED \<equiv> ErrorCode (-30785)"
abbreviation LMDB_INCOMPATIBLE :: ErrorCode where "LMDB_INCOMPATIBLE \<equiv> ErrorCode (-30784)"
abbreviation LMDB_BAD_RSLOT :: ErrorCode where "LMDB_BAD_RSLOT \<equiv> ErrorCode (-30783)"
abbreviation LMDB_BAD_TXN :: ErrorCode where "LMDB_BAD_TXN \<equiv> ErrorCode (-30782)"
abbreviation LMDB_BAD_VALSIZE :: ErrorCode where "LMDB_BAD_VALSIZE \<equiv> ErrorCode (-30781)"
abbreviation LMDB_BAD_DBI :: ErrorCode where "LMDB_BAD_DBI \<equiv> ErrorCode (-30780)"

text \<open>Every enumerator, in the order of the declaration.\<close>

definition error_codes :: "ErrorCode list" where
  "error_codes = [SUCCESS, JSON_PARSE_ERROR, UPNP_FAILURE, UPNP_NOT_SUPPORTED, ZMQ_CONNECT_ERROR,
     ZMQ_BIND_ERROR, ZMQ_GENERIC_ERROR, P2P_SEED_CONNECT, P2P_DUPE_CONNECT,
     HTTP_BODY_REQUIRED_BUT_NOT_FOUND, PEERLIST_ADD_FAILURE, BASE58_DECODE,
     ADDRESS_PREFIX_MISMATCH, ADDRESS_DECODE, DB_EMPTY, DB_BLOCK_NOT_FOUND,
     DB_TRANSACTION_NOT_FOUND, DB_TRANSACTION_OUTPUT_NOT_FOUND, BLOCK_TXN_ORDER,
     BLOCK_TXN_MISMATCH, UNKNOWN_TRANSACTION_TYPE, TX_NOT_FOUND, TX_INVALID_VERSION,
     TX_KEY_IMAGE_ALREADY_EXISTS, TX_DUPLICATE_KEY_IMAGE, TX_INVALID_KEY_IMAGE,
     TX_MINIMUM_POW, TX_LOW_FEE, TX_MISSING_FEE, TX_EXTRA_TOO_LARGE,
     TX_KEYPAIR_MISMATCH, TX_PUBLIC_KEY, TX_SECRET_KEY, TX_STAKE_NO_AMOUNT,
     TX_STAKER_ID, TX_RECALL_VIEW_SIGNATURE, TX_RECALL_SPEND_SIGNATURE,
     TX_RECALL_STAKE_TX_HASH, TX_OUTPUT_PUBLIC_EPHEMERAL, TX_OUTPUT_AMOUNT,
     TX_OUTPUT_COMMITMENT, TX_OUTPUT_LOCKED, TX_STAKER_REWARD_AMOUNT,
     TX_STAKER_REWARD_ID, TX_INVALID_RANGE_PROOF, TX_SIG_SIZE_MISMATCH,
     TX_INVALID_SIGNATURE, TX_INVALID_OUTPUT_COUNT, TX_INVALID_INPUT_COUNT,
     TX_PUBLIC_VIEW_KEY_NOT_FOUND, TX_PUBLIC_SPEND_KEY_NOT_FOUND,
     TX_INVALID_PSEUDO_COMMITMENT_COUNT, TX_COMMITMENTS_DO_NOT_BALANCE,
     TX_INVALID_RING_SIGNATURE, TX_GENESIS_ALREADY_EXISTS, TX_STAKING_PUBLIC_KEYS_REUSE,
     STAKING_CANDIDATE_ALREADY_EXISTS, STAKING_CANDIDATE_NOT_FOUND,
     STAKING_CANDIDATE_AMOUNT_INVALID, STAKING_STAKER_NOT_FOUND, STAKING_STAKE_AMOUNT,
     AES_WRONG_PASSWORD, AES_DECRYPTION_ERROR, LMDB_ERROR, LMDB_EMPTY, LMDB_KEYEXIST,
     LMDB_NOTFOUND, LMDB_PAGE_NOTFOUND, LMDB_CORRUPTED, LMDB_PANIC,
     LMDB_VERSION_MISMATCH, LMDB_INVALID, LMDB_MAP_FULL, LMDB_DBS_FULL,
     LMDB_READERS_FULL, LMDB_TLS_FULL, LMDB_TXN_FULL, LMDB_CURSOR_FULL, LMDB_PAGE_FULL,
     LMDB_MAP_RESIZED, LMDB_INCOMPATIBLE, LMDB_BAD_RSLOT, LMDB_BAD_TXN,
     LMDB_BAD_VALSIZE, LMDB_BAD_DBI]"

text \<open>The values the LMDB library returns: the enumerators from \<open>LMDB_KEYEXIST\<close> on.\<close>

definition lmdb_code :: "ErrorCode \<Rightarrow> bool" where
  "lmdb_code e \<longleftrightarrow> - 30799 \<le> int_of_code e \<and> int_of_code e \<le> - 30780"

section \<open>The class\<close>

record Error =
  m_error_code :: ErrorCode
  m_line_number :: nat
  m_file_name :: string
  m_custom_error_message :: string

text \<open>The two macros; \<open>line\<close> and \<open>file\<close> stand for \<open>__LINE__\<close> and \<open>__FILE__\<close>.\<close>

definition MAKE_ERROR_MSG :: "ErrorCode \<Rightarrow> string \<Rightarrow> nat \<Rightarrow> string \<Rightarrow> Error" where
  "MAKE_ERROR_MSG code message line file =
     \<lparr>m_error_code = code, m_line_number = line, m_file_name = file,
      m_custom_error_message = message\<rparr>"

definition MAKE_ERROR :: "ErrorCode \<Rightarrow> nat \<Rightarrow> string \<Rightarrow> Error" where
  "MAKE_ERROR code line file =
     \<lparr>m_error_code = code, m_line_number = line, m_file_name = file,
      m_custom_error_message = []\<rparr>"

definition Error_eq_code :: "Error \<Rightarrow> ErrorCode \<Rightarrow> bool" where
  "Error_eq_code e c \<longleftrightarrow> c = m_error_code e"

definition Error_eq :: "Error \<Rightarrow> Error \<Rightarrow> bool" where
  "Error_eq e f \<longleftrightarrow> m_error_code f = m_error_code e"

definition Error_neq_code :: "Error \<Rightarrow> ErrorCode \<Rightarrow> bool" where
  "Error_neq_code e c \<longleftrightarrow> \<not> (c = m_error_code e)"

definition Error_neq :: "Error \<Rightarrow> Error \<Rightarrow> bool" where
  "Error_neq e f \<longleftrightarrow> \<not> (m_error_code f = m_error_code e)"

definition Error_bool :: "Error \<Rightarrow> bool" where
  "Error_bool e \<longleftrightarrow> m_error_code e \<noteq> SUCCESS"

definition Error_to_string :: "Error \<Rightarrow> string" where
  "Error_to_string e =
     (if m_custom_error_message e \<noteq> [] then m_custom_error_message e
      else let c = m_error_code e in
      if c = SUCCESS then ''The operation completed successfully.''
      else if c = DB_EMPTY then ''The database is empty''
      else if c = BASE58_DECODE then ''Could not decode Base58 string.''
      else if c = ADDRESS_PREFIX_MISMATCH then
        ''The address prefix did not match the expected result.''
      else if c = LMDB_ERROR then
        ''The LMDB operation failed. Please report this error as this default text should be replaced by '' @
        ''more detailed information.''
      else if c = LMDB_EMPTY then
        ''The LMDB database appears to be empty. The database may be legitimately empty or an underlying '' @
        ''issue persists in the database.''
      else if c = UNKNOWN_TRANSACTION_TYPE then
        ''The transaction type encountered is of an unknown type and cannot be handled.''
      else if c = BLOCK_TXN_ORDER then
        ''The transactions supplied for the DB are not in the same order as specified in the block.''
      else if c = STAKING_CANDIDATE_NOT_FOUND then
        ''The staking candidate was not found in the database.''
      else if c = STAKING_STAKER_NOT_FOUND then
        ''The staker was not found in the database.''
      else ''The error code supplied does not have a default message. Please create one.'')"

text \<open>
  The program only ever branches on the code of an error: the comparisons and the
  conversion to \<open>bool\<close> do not see the message, the line or the file. The theories of the
  components therefore return the \<open>ErrorCode\<close> of the \<open>Error\<close> the program returns.
\<close>

definition failed :: "ErrorCode \<Rightarrow> bool" where
  [simp]: "failed e \<longleftrightarrow> e \<noteq> SUCCESS"

lemma Error_bool_MAKE_ERROR [simp]:
  "Error_bool (MAKE_ERROR c l f) \<longleftrightarrow> failed c"
  "Error_bool (MAKE_ERROR_MSG c m l f) \<longleftrightarrow> failed c"
  by (simp_all add: Error_bool_def MAKE_ERROR_def MAKE_ERROR_MSG_def)

lemma Error_to_string_nonempty: "Error_to_string e \<noteq> []"
  by (simp add: Error_to_string_def Let_def)

section \<open>Sequences of checks\<close>

text \<open>
  The pattern \<open>for (x : xs) { auto error = f(x); if (error) return error; }\<close>: the first
  error a check reports, or success.
\<close>

fun first_error :: "('a \<Rightarrow> ErrorCode) \<Rightarrow> 'a list \<Rightarrow> ErrorCode" where
  "first_error f [] = SUCCESS"
| "first_error f (x # xs) = (if failed (f x) then f x else first_error f xs)"

lemma first_error_success: "first_error f xs = SUCCESS \<longleftrightarrow> (\<forall>x \<in> set xs. f x = SUCCESS)"
  by (induction xs) auto

lemma first_error_range: "first_error f xs \<noteq> SUCCESS \<Longrightarrow> \<exists>x \<in> set xs. first_error f xs = f x"
  by (induction xs) auto

end
