(* ===== verification/Floating.thy ===== *)
theory Floating
  imports Complex_Main
begin

text \<open>
  The floating-point arithmetic of the fee calculation. A positive \<open>float\<close> or \<open>double\<close> is the
  rational number it stands for, and the result of an operation is the exact result rounded to
  the nearest number with a significand of \<open>p\<close> bits, ties to even (\<open>p = 24\<close> for \<open>float\<close>,
  \<open>p = 53\<close> for \<open>double\<close>). The values of the calculation lie between \<open>1 / 50\<close> and \<open>2 ^ 64\<close>, so
  that neither overflow nor subnormal numbers occur.
\<close>

section \<open>Rounding\<close>

fun lg2 :: "nat \<Rightarrow> nat" where
  "lg2 n = (if n \<le> 1 then 0 else Suc (lg2 (n div 2)))"

declare lg2.simps [simp del]

definition ilog2 :: "rat \<Rightarrow> int" where
  "ilog2 x =
     (let (a, b) = quotient_of x; k = int (lg2 (nat a)) - int (lg2 (nat b)) in
      if 2 powi k \<le> x then k else k - 1)"

definition round_half_even :: "rat \<Rightarrow> int" where
  "round_half_even y =
     (let f = \<lfloor>y\<rfloor>; r = y - of_int f in
      if r < 1 / 2 then f else if r > 1 / 2 then f + 1 else if even f then f else f + 1)"

definition fl_round :: "nat \<Rightarrow> rat \<Rightarrow> rat" where
  "fl_round p x =
     (if x \<le> 0 then 0
      else let u = 2 powi (ilog2 x - (int p - 1)) in of_int (round_half_even (x / u)) * u)"

abbreviation fl32 :: "rat \<Rightarrow> rat" where "fl32 \<equiv> fl_round 24"

abbreviation fl64 :: "rat \<Rightarrow> rat" where "fl64 \<equiv> fl_round 53"

section \<open>The binade of a number\<close>

lemma lg2_bounds: "0 < n \<Longrightarrow> 2 ^ lg2 n \<le> n \<and> n < 2 ^ Suc (lg2 n)"
proof (induction n rule: lg2.induct)
  case (1 n)
  show ?case
  proof (cases "n \<le> 1")
    case True
    then show ?thesis using 1 by (simp add: lg2.simps)
  next
    case False
    then have "2 ^ lg2 (n div 2) \<le> n div 2" "n div 2 < 2 ^ Suc (lg2 (n div 2))"
      using 1 by auto
    then show ?thesis using False by (subst (1 2) lg2.simps) auto
  qed
qed

lemma lg2_bounds_rat:
  assumes "0 < a" shows "2 ^ lg2 (nat a) \<le> rat_of_int a" and "rat_of_int a < 2 ^ Suc (lg2 (nat a))"
proof -
  have "int (2 ^ lg2 (nat a)) \<le> a" "a < int (2 ^ Suc (lg2 (nat a)))"
    using lg2_bounds [of "nat a"] assms by linarith+
  then have "rat_of_int (int (2 ^ lg2 (nat a))) \<le> rat_of_int a"
    "rat_of_int a < rat_of_int (int (2 ^ Suc (lg2 (nat a))))"
    by (simp_all only: of_int_le_iff of_int_less_iff)
  then show "2 ^ lg2 (nat a) \<le> rat_of_int a" "rat_of_int a < 2 ^ Suc (lg2 (nat a))" by simp_all
qed

lemma ilog2_bounds:
  assumes "0 < x"
  shows "2 powi ilog2 x \<le> x" and "x < 2 powi (ilog2 x + 1)"
proof -
  obtain a b where q: "quotient_of x = (a, b)" by fastforce
  have b: "0 < b" using quotient_of_denom_pos [OF q] .
  have x: "x = of_int a / of_int b" using quotient_of_div [OF q] .
  then have a: "0 < a" using assms b by (simp add: zero_less_divide_iff)
  define m n where "m = lg2 (nat a)" and "n = lg2 (nat b)"
  have A: "(2::rat) ^ m \<le> of_int a" "of_int a < (2::rat) ^ Suc m"
    using lg2_bounds_rat [OF a] by (simp_all add: m_def)
  have B: "(2::rat) ^ n \<le> of_int b" "of_int b < (2::rat) ^ Suc n"
    using lg2_bounds_rat [OF b] by (simp_all add: n_def)
  define k where "k = int m - int n"
  have k: "2 powi k = (2::rat) ^ m / 2 ^ n" by (simp add: k_def power_int_diff)
  have "x < 2 ^ Suc m / 2 ^ n"
    unfolding x using A B a by (intro frac_less) auto
  then have up: "x < 2 powi (k + 1)" by (simp add: power_int_add k mult.commute)
  have "2 ^ m / 2 ^ Suc n < x"
    unfolding x using A B b by (intro frac_less2) auto
  then have lo: "2 powi (k - 1) \<le> x" by (simp add: power_int_diff k mult.commute)
  have i: "ilog2 x = (if 2 powi k \<le> x then k else k - 1)"
    by (simp add: ilog2_def q Let_def k_def m_def n_def)
  show "2 powi ilog2 x \<le> x" "x < 2 powi (ilog2 x + 1)"
    using up lo by (simp_all add: i)
qed

lemma ilog2_mono:
  assumes "0 < x" "x \<le> y" shows "ilog2 x \<le> ilog2 y"
proof -
  have "2 powi ilog2 x < (2::rat) powi (ilog2 y + 1)"
    using ilog2_bounds [of x] ilog2_bounds [of y] assms by linarith
  then have "\<not> ilog2 y + 1 \<le> ilog2 x"
    using power_int_increasing [of "ilog2 y + 1" "ilog2 x" "2::rat"] by auto
  then show ?thesis by simp
qed

lemma ilog2_unique:
  assumes "0 < x" "2 powi k \<le> x" "x < 2 powi (k + 1)" shows "ilog2 x = k"
proof -
  have "2 powi ilog2 x < (2::rat) powi (k + 1)" "2 powi k < (2::rat) powi (ilog2 x + 1)"
    using ilog2_bounds [OF assms(1)] assms by linarith+
  then have "\<not> k + 1 \<le> ilog2 x" "\<not> ilog2 x + 1 \<le> k"
    using power_int_increasing [of "k + 1" "ilog2 x" "2::rat"]
      power_int_increasing [of "ilog2 x + 1" k "2::rat"] by auto
  then show ?thesis by simp
qed

lemma ilog2_scale:
  assumes "0 < x" shows "ilog2 (x / 2 ^ n) = ilog2 x - int n"
proof (rule ilog2_unique)
  have "2 powi ilog2 x / 2 ^ n \<le> x / 2 ^ n" "x / 2 ^ n < 2 powi (ilog2 x + 1) / 2 ^ n"
    using ilog2_bounds [OF assms] by (simp_all add: divide_right_mono divide_strict_right_mono)
  then show "2 powi (ilog2 x - int n) \<le> x / 2 ^ n" "x / 2 ^ n < 2 powi (ilog2 x - int n + 1)"
    by (simp_all add: power_int_diff power_int_add)
qed (use assms in simp)

section \<open>Rounding to an integer\<close>

lemma ceiling_divide_nat: "\<lceil>rat_of_nat n / rat_of_nat 32\<rceil> = int ((n + 31) div 32)"
proof (rule ceiling_unique)
  define q where "q = (n + 31) div 32"
  have "32 * q < n + 32" "n \<le> 32 * q" unfolding q_def by linarith+
  then have "rat_of_nat (32 * q) < rat_of_nat (n + 32)" "rat_of_nat n \<le> rat_of_nat (32 * q)"
    by (simp_all only: of_nat_less_iff of_nat_le_iff)
  then show "of_int (int ((n + 31) div 32)) - 1 < rat_of_nat n / rat_of_nat 32"
    "rat_of_nat n / rat_of_nat 32 \<le> of_int (int ((n + 31) div 32))"
    unfolding q_def [symmetric] by (simp_all add: field_simps)
qed

lemma round_half_even_int [simp]: "round_half_even (of_int n) = n"
  by (simp add: round_half_even_def)

lemma round_half_even_error: "\<bar>of_int (round_half_even y) - y\<bar> \<le> 1 / 2"
  using floor_correct [of y] by (auto simp: round_half_even_def Let_def abs_le_iff)

lemma round_half_even_mono:
  assumes "x \<le> y" shows "round_half_even x \<le> round_half_even y"
proof (cases "\<lfloor>x\<rfloor> = \<lfloor>y\<rfloor>")
  case True
  then show ?thesis using assms by (auto simp: round_half_even_def Let_def)
next
  case False
  then have "\<lfloor>x\<rfloor> + 1 \<le> \<lfloor>y\<rfloor>" using floor_mono [OF assms] by linarith
  moreover have "round_half_even x \<le> \<lfloor>x\<rfloor> + 1" "\<lfloor>y\<rfloor> \<le> round_half_even y"
    by (auto simp: round_half_even_def Let_def)
  ultimately show ?thesis by linarith
qed

section \<open>The error and the monotonicity of rounding\<close>

lemma fl_round_nonneg: "0 \<le> fl_round p x"
proof (cases "x \<le> 0")
  case False
  then have "round_half_even (of_int 0) \<le> round_half_even (x / 2 powi (ilog2 x - (int p - 1)))"
    by (intro round_half_even_mono) simp
  then have "0 \<le> round_half_even (x / 2 powi (ilog2 x - (int p - 1)))"
    by (simp only: round_half_even_int)
  then show ?thesis using False by (simp add: fl_round_def Let_def)
qed (simp add: fl_round_def)

lemma fl_round_binade:
  assumes "0 < x" "0 < p"
  shows "2 powi ilog2 x \<le> fl_round p x" and "fl_round p x \<le> 2 powi (ilog2 x + 1)"
proof -
  define u :: rat where "u = 2 powi (ilog2 x - (int p - 1))"
  have u: "0 < u" by (simp add: u_def)
  have lo: "2 powi ilog2 x = of_int (2 ^ (p - 1)) * u"
    using assms(2) by (simp add: u_def power_int_diff of_nat_diff flip: power_int_of_nat)
  have hi: "2 powi (ilog2 x + 1) = of_int (2 ^ p) * u"
    using assms(2) by (cases p) (simp_all add: u_def power_int_diff power_int_add)
  have f: "fl_round p x = of_int (round_half_even (x / u)) * u"
    using assms(1) by (simp add: fl_round_def u_def Let_def)
  have "round_half_even (of_int (2 ^ (p - 1))) \<le> round_half_even (x / u)"
    using ilog2_bounds(1) [OF assms(1)] u unfolding lo
    by (intro round_half_even_mono) (simp add: pos_le_divide_eq)
  then show "2 powi ilog2 x \<le> fl_round p x"
    unfolding f lo using u by (intro mult_right_mono) (simp_all only: round_half_even_int of_int_le_iff less_imp_le)
  have "round_half_even (x / u) \<le> round_half_even (of_int (2 ^ p))"
    using ilog2_bounds(2) [OF assms(1)] u unfolding hi
    by (intro round_half_even_mono) (simp add: pos_divide_le_eq)
  then show "fl_round p x \<le> 2 powi (ilog2 x + 1)"
    unfolding f hi using u by (intro mult_right_mono) (simp_all only: round_half_even_int of_int_le_iff less_imp_le)
qed

lemma fl_round_pos: "0 < x \<Longrightarrow> 0 < p \<Longrightarrow> 0 < fl_round p x"
  by (rule less_le_trans [OF _ fl_round_binade(1)]) simp_all

lemma fl_round_mono:
  assumes "x \<le> y" "0 < p" shows "fl_round p x \<le> fl_round p y"
proof (cases "x \<le> 0")
  case True
  then show ?thesis using fl_round_nonneg by (simp add: fl_round_def)
next
  case False
  then have x: "0 < x" and y: "0 < y" using assms by auto
  show ?thesis
  proof (cases "ilog2 x = ilog2 y")
    case True
    then show ?thesis using x y assms(1)
      by (auto simp: fl_round_def Let_def intro!: mult_right_mono round_half_even_mono divide_right_mono)
  next
    case False
    then have "ilog2 x + 1 \<le> ilog2 y" using ilog2_mono [OF x assms(1)] by simp
    then have "2 powi (ilog2 x + 1) \<le> (2::rat) powi ilog2 y" by (intro power_int_increasing) auto
    then show ?thesis
      using fl_round_binade(2) [OF x assms(2)] fl_round_binade(1) [OF y assms(2)] by linarith
  qed
qed

lemma fl_round_error:
  assumes "0 \<le> x" shows "\<bar>fl_round p x - x\<bar> \<le> x / 2 ^ p"
proof (cases "x = 0")
  case False
  then have x: "0 < x" using assms by simp
  define u :: rat where "u = 2 powi (ilog2 x - (int p - 1))"
  have u: "0 < u" by (simp add: u_def)
  have "fl_round p x - x = (of_int (round_half_even (x / u)) - x / u) * u"
    using x u by (simp add: fl_round_def u_def Let_def left_diff_distrib)
  then have "\<bar>fl_round p x - x\<bar> = \<bar>of_int (round_half_even (x / u)) - x / u\<bar> * u"
    using u by (simp add: abs_mult)
  also have "\<dots> \<le> 1 / 2 * u" using round_half_even_error u by (intro mult_right_mono) auto
  also have "\<dots> = 2 powi ilog2 x / 2 ^ p"
    by (simp add: u_def power_int_diff power_int_add)
  also have "\<dots> \<le> x / 2 ^ p" using ilog2_bounds(1) [OF x] by (intro divide_right_mono) auto
  finally show ?thesis .
qed (simp add: fl_round_def)

lemma fl_round_le:
  assumes "0 \<le> x" shows "fl_round p x \<le> x * (1 + 1 / 2 ^ p)"
  using abs_le_D1 [OF fl_round_error [OF assms, of p]]
  by (simp only: distrib_left times_divide_eq_right mult_1_right)

lemma fl_round_le_double:
  assumes "0 \<le> x" shows "fl_round p x \<le> 2 * x"
proof -
  have "(1::rat) / 2 ^ p \<le> 1" by simp
  then have "x * (1 + 1 / 2 ^ p) \<le> x * 2" using assms by (intro mult_left_mono) simp_all
  then show ?thesis using fl_round_le [OF assms, of p] by linarith
qed

text \<open>Dividing by a power of two only changes the exponent.\<close>

lemma fl_round_scale: "fl_round p (x / 2 ^ n) = fl_round p x / 2 ^ n"
proof (cases "x \<le> 0")
  case True
  then show ?thesis by (simp add: fl_round_def divide_le_0_iff)
next
  case False
  define u :: rat where "u = 2 powi (ilog2 x - (int p - 1))"
  have "2 powi (ilog2 (x / 2 ^ n) - (int p - 1)) = u / 2 ^ n"
    using False ilog2_scale [of x n] by (simp add: u_def power_int_diff power_int_add)
  moreover have "\<not> x / 2 ^ n \<le> 0" using False by (simp add: not_le)
  ultimately show ?thesis
    using False by (simp add: fl_round_def Let_def u_def [symmetric])
qed

text \<open>An integer that fits the significand is represented as it is.\<close>

lemma fl_round_exact:
  assumes "0 < p" "n \<le> 2 ^ p" shows "fl_round p (of_nat n) = of_nat n"
proof (cases "n = 0")
  case False
  define x :: rat where "x = of_nat n"
  have x: "0 < x" using False by (simp add: x_def)
  define e where "e = ilog2 x - (int p - 1)"
  have le: "x \<le> 2 powi int p" using assms(2) by (simp add: x_def flip: of_nat_power_eq_of_nat_cancel_iff of_nat_le_iff)
  have "\<exists>m. x / 2 powi e = of_int m"
  proof (cases "e \<le> 0")
    case True
    then have "2 powi e = inverse ((2::rat) ^ nat (- e))"
      using power_int_minus [of "2::rat" "- e"] by (simp add: power_int_nonneg_exp)
    then have "x / 2 powi e = of_int (int n * 2 ^ nat (- e))" by (simp add: x_def divide_inverse)
    then show ?thesis by blast
  next
    case False
    have "2 powi ilog2 x \<le> (2::rat) powi int p" using ilog2_bounds(1) [OF x] le by linarith
    then have "ilog2 x \<le> int p" by (rule power_int_le_imp_le_exp [rotated]) auto
    then have e: "ilog2 x = int p" "e = 1" using False by (auto simp: e_def)
    then have "x = 2 ^ p" using ilog2_bounds(1) [OF x] le by simp
    then have "x / 2 powi e = of_int (2 ^ (p - 1))"
      using assms(1) by (cases p) (simp_all add: e)
    then show ?thesis by blast
  qed
  then obtain m where "x / 2 powi e = of_int m" by blast
  then have "fl_round p x = x / 2 powi e * 2 powi e"
    using x by (simp add: fl_round_def Let_def e_def)
  then show ?thesis by (simp add: x_def)
qed (simp add: fl_round_def)

end
