(* ===== verification/Wire.thy ===== *)
theory Wire
  imports Error_Codes Std_Containers
begin

text \<open>
  The code of the program that is not part of the repository, as parameters. \<open>codec\<close> is the
  serializer of the cryptographic library (\<open>serializer_t\<close> and \<open>deserializer_t\<close>), \<open>crypto\<close>
  adds its hashing, key and signature functions, \<open>proofs\<close> the two structures of it that are
  stored as they are, the ring signature \<open>'s\<close> and the range proof \<open>'r\<close>. Every definition
  that uses them takes the record as its first argument. \<open>codec_laws\<close>, \<open>crypto_laws\<close> and
  \<open>proof_laws\<close> state what the program relies on; they are hypotheses of the theorems, and
  the theory \<open>Reference_Codec\<close> shows that they can hold.
\<close>

section \<open>The serializer\<close>

text \<open>
  A \<open>w_\<close> field is the sequence of bytes that a call of the writer appends; a \<open>r_\<close> field is
  a call of the reader. \<open>key_serialize\<close> and \<open>sig_serialize\<close> are the \<open>serialize(writer)\<close>
  methods of the keys, hashes and signatures; \<open>w_keyV\<close> is \<open>writer.key\<close> on a vector of keys,
  \<open>w_uint64\<close> and \<open>r_uint64\<close> the fixed-width big-endian form.
\<close>

record codec =
  w_varint :: "u64 \<Rightarrow> bytes"
  r_varint :: "u64 reader"
  w_varint32 :: "u32 \<Rightarrow> bytes"
  r_varint32 :: "u32 reader"
  w_varint16 :: "u16 \<Rightarrow> bytes"
  r_varint16 :: "u16 reader"
  w_key :: "256 word \<Rightarrow> bytes"
  key_serialize :: "256 word \<Rightarrow> bytes"
  r_key :: "256 word reader"
  w_signature :: "512 word \<Rightarrow> bytes"
  sig_serialize :: "512 word \<Rightarrow> bytes"
  r_signature :: "512 word reader"
  w_keyV :: "256 word list \<Rightarrow> bytes"
  r_keyV :: "256 word list reader"
  w_bytes :: "bytes \<Rightarrow> bytes"
  r_bytes :: "u64 \<Rightarrow> bytes reader"
  w_boolean :: "bool \<Rightarrow> bytes"
  r_boolean :: "bool reader"
  w_uint64 :: "u64 \<Rightarrow> bytes"
  r_uint64 :: "u64 reader"

definition codec_laws :: "'z codec_scheme \<Rightarrow> bool" where
  "codec_laws C \<longleftrightarrow>
     (\<forall>x rest. r_varint C (w_varint C x @ rest) = Some (x, rest)) \<and>
     (\<forall>x rest. r_varint32 C (w_varint32 C x @ rest) = Some (x, rest)) \<and>
     (\<forall>x rest. r_varint16 C (w_varint16 C x @ rest) = Some (x, rest)) \<and>
     (\<forall>x rest. r_key C (w_key C x @ rest) = Some (x, rest)) \<and>
     (\<forall>x rest. r_key C (key_serialize C x @ rest) = Some (x, rest)) \<and>
     (\<forall>x rest. r_signature C (w_signature C x @ rest) = Some (x, rest)) \<and>
     (\<forall>x rest. r_signature C (sig_serialize C x @ rest) = Some (x, rest)) \<and>
     (\<forall>xs rest. fits_u64 xs \<longrightarrow> r_keyV C (w_keyV C xs @ rest) = Some (xs, rest)) \<and>
     (\<forall>xs rest. fits_u64 xs \<longrightarrow>
        r_bytes C (word_of_nat (length xs)) (w_bytes C xs @ rest) = Some (xs, rest)) \<and>
     (\<forall>x rest. r_boolean C (w_boolean C x @ rest) = Some (x, rest)) \<and>
     (\<forall>x rest. r_uint64 C (w_uint64 C x @ rest) = Some (x, rest))"

lemma codec_read_back [wire]:
  assumes "codec_laws C"
  shows "r_varint C (w_varint C x1 @ rest) = Some (x1, rest)"
    and "r_varint32 C (w_varint32 C x2 @ rest) = Some (x2, rest)"
    and "r_varint16 C (w_varint16 C x3 @ rest) = Some (x3, rest)"
    and "r_key C (w_key C x4 @ rest) = Some (x4, rest)"
    and "r_key C (key_serialize C x4 @ rest) = Some (x4, rest)"
    and "r_signature C (w_signature C x5 @ rest) = Some (x5, rest)"
    and "r_signature C (sig_serialize C x5 @ rest) = Some (x5, rest)"
    and "fits_u64 xs \<Longrightarrow> r_keyV C (w_keyV C xs @ rest) = Some (xs, rest)"
    and "fits_u64 ys \<Longrightarrow> r_bytes C (word_of_nat (length ys)) (w_bytes C ys @ rest) = Some (ys, rest)"
    and "r_boolean C (w_boolean C b @ rest) = Some (b, rest)"
    and "r_uint64 C (w_uint64 C x1 @ rest) = Some (x1, rest)"
  using assms unfolding codec_laws_def by (fast+)

text \<open>The same equations at the end of the input, where no bytes follow.\<close>

lemma codec_read_back_end [wire]:
  assumes "codec_laws C"
  shows "r_varint C (w_varint C x1) = Some (x1, [])"
    and "r_varint32 C (w_varint32 C x2) = Some (x2, [])"
    and "r_varint16 C (w_varint16 C x3) = Some (x3, [])"
    and "r_key C (w_key C x4) = Some (x4, [])"
    and "r_key C (key_serialize C x4) = Some (x4, [])"
    and "r_signature C (w_signature C x5) = Some (x5, [])"
    and "r_signature C (sig_serialize C x5) = Some (x5, [])"
    and "fits_u64 xs \<Longrightarrow> r_keyV C (w_keyV C xs) = Some (xs, [])"
    and "r_uint64 C (w_uint64 C x1) = Some (x1, [])"
  using codec_read_back [OF assms, where rest = "[]"] by simp_all

text \<open>\<open>sizeof\<close> of a hash, which \<open>committed_size\<close> adds up, is what writing one appends.\<close>

definition key_width :: "'z codec_scheme \<Rightarrow> bool" where
  "key_width C \<longleftrightarrow> (\<forall>x. length (w_key C x) = 32)"

section \<open>Hashing, keys and signatures\<close>

text \<open>
  \<open>key_empty\<close>, \<open>sig_empty\<close> are the \<open>empty()\<close> methods, \<open>key_less\<close> is \<open>operator<\<close>,
  \<open>key_default\<close>, \<open>hash_default\<close> and \<open>sig_default\<close> what the default constructors of a public
  key, a hash and a signature give, \<open>crypto_Z\<close> the
  constant \<open>Crypto::Z\<close>. \<open>generate_signature\<close> draws randomness, its first argument.
  \<open>base58_decode\<close> is \<open>CNBase58::decode_check\<close>: \<open>None\<close> where it reports no success.
\<close>

record crypto = codec +
  sha3 :: "bytes \<Rightarrow> crypto_hash_t"
  sha3_hashes :: "crypto_hash_t list \<Rightarrow> crypto_hash_t"
  argon2id :: "crypto_hash_t \<Rightarrow> nat \<Rightarrow> nat \<Rightarrow> nat \<Rightarrow> crypto_hash_t"
  leading_zeros :: "crypto_hash_t \<Rightarrow> nat"
  key_empty :: "256 word \<Rightarrow> bool"
  sig_empty :: "crypto_signature_t \<Rightarrow> bool"
  key_less :: "256 word \<Rightarrow> 256 word \<Rightarrow> bool"
  key_default :: "256 word"
  hash_default :: crypto_hash_t
  sig_default :: "crypto_signature_t"
  crypto_Z :: "256 word"
  check_subgroup :: "crypto_key_image_t \<Rightarrow> bool"
  dedupe_sort :: "crypto_key_image_t list \<Rightarrow> crypto_key_image_t list"
  secret_key_to_public_key :: "crypto_secret_key_t \<Rightarrow> crypto_public_key_t"
  generate_signature :: "nat \<Rightarrow> crypto_hash_t \<Rightarrow> crypto_secret_key_t \<Rightarrow> crypto_signature_t"
  check_signature :: "crypto_hash_t \<Rightarrow> crypto_public_key_t \<Rightarrow> crypto_signature_t \<Rightarrow> bool"
  check_commitments_parity ::
    "crypto_pedersen_commitment_t list \<Rightarrow> crypto_pedersen_commitment_t list \<Rightarrow> u64 \<Rightarrow> bool"
  generate_key_derivation :: "crypto_public_key_t \<Rightarrow> crypto_secret_key_t \<Rightarrow> 256 word"
  derivation_to_scalar :: "256 word \<Rightarrow> nat \<Rightarrow> crypto_scalar_t"
  derive_public_key :: "crypto_scalar_t \<Rightarrow> crypto_public_key_t \<Rightarrow> crypto_public_key_t"
  generate_commitment_blinding_factor :: "crypto_scalar_t \<Rightarrow> crypto_scalar_t"
  generate_amount_mask :: "crypto_scalar_t \<Rightarrow> crypto_scalar_t"
  toggle_masked_amount :: "crypto_scalar_t \<Rightarrow> u64 \<Rightarrow> u64"
  generate_pedersen_commitment :: "crypto_scalar_t \<Rightarrow> u64 \<Rightarrow> crypto_pedersen_commitment_t"
  base58_encode :: "bytes \<Rightarrow> string"
  base58_decode :: "string \<Rightarrow> bytes option"

text \<open>
  What the program relies on: the order of the keys is a strict total order, the
  de-duplicated vector has every element of the original once, a generated signature
  verifies under the key it was made with, a Base58 string decodes to what was encoded, and
  a default-constructed public key is \<open>Crypto::Z\<close>.
\<close>

definition crypto_laws :: "'z crypto_scheme \<Rightarrow> bool" where
  "crypto_laws C \<longleftrightarrow>
     codec_laws C \<and> strict_total (key_less C) \<and>
     (\<forall>ks. set (dedupe_sort C ks) = set ks \<and> distinct (dedupe_sort C ks)) \<and>
     (\<forall>entropy digest secret.
        check_signature C digest (secret_key_to_public_key C secret)
          (generate_signature C entropy digest secret)) \<and>
     (\<forall>bs. base58_decode C (base58_encode C bs) = Some bs) \<and>
     key_default C = crypto_Z C"

lemma crypto_lawsD:
  assumes "crypto_laws C"
  shows "codec_laws C" and "strict_total (key_less C)"
    and "set (dedupe_sort C ks) = set ks" and "distinct (dedupe_sort C ks)"
    and "check_signature C digest (secret_key_to_public_key C secret)
           (generate_signature C entropy digest secret)"
    and "base58_decode C (base58_encode C bs) = Some bs"
    and "key_default C = crypto_Z C"
  using assms unfolding crypto_laws_def by (fast+)

text \<open>
  The duplicate test of the transactions: comparing the sizes before and after
  de-duplication decides whether an element occurs twice.
\<close>

lemma dedupe_length:
  assumes "crypto_laws C"
  shows "length (dedupe_sort C ks) = length ks \<longleftrightarrow> distinct ks"
proof -
  have "length (dedupe_sort C ks) = card (set ks)"
    using crypto_lawsD(3,4) [OF assms, of ks] distinct_card by metis
  then show ?thesis using card_distinct distinct_card by metis
qed

section \<open>Ring signatures and range proofs\<close>

record ('s, 'r) proofs = crypto +
  w_clsag :: "'s \<Rightarrow> bytes"
  r_clsag :: "'s reader"
  clsag_check_construction :: "'s \<Rightarrow> nat \<Rightarrow> bool"
  check_ring_signature ::
    "crypto_hash_t \<Rightarrow> crypto_key_image_t \<Rightarrow> crypto_public_key_t list \<Rightarrow> 's \<Rightarrow>
     crypto_pedersen_commitment_t list \<Rightarrow> bool"
  w_range_proof :: "'r \<Rightarrow> bytes"
  r_range_proof :: "'r reader"
  range_proof_digest :: "'r \<Rightarrow> crypto_hash_t"
  range_proof_check_construction :: "'r \<Rightarrow> bool"
  range_proof_verify :: "'r \<Rightarrow> crypto_pedersen_commitment_t list \<Rightarrow> bool"

definition proof_laws :: "('s, 'r, 'z) proofs_scheme \<Rightarrow> bool" where
  "proof_laws C \<longleftrightarrow>
     crypto_laws C \<and>
     (\<forall>x rest. r_clsag C (w_clsag C x @ rest) = Some (x, rest)) \<and>
     (\<forall>x rest. r_range_proof C (w_range_proof C x @ rest) = Some (x, rest))"

lemma proof_lawsD:
  assumes "proof_laws C" shows "crypto_laws C" and "codec_laws C"
  using assms unfolding proof_laws_def crypto_laws_def by auto

lemma proof_read_back [wire]:
  assumes "proof_laws C"
  shows "r_clsag C (w_clsag C x @ rest) = Some (x, rest)"
    and "r_range_proof C (w_range_proof C y @ rest) = Some (y, rest)"
  using assms unfolding proof_laws_def by auto

end
