(* ===== verification/Lmdb.thy ===== *)
theory Lmdb
  imports Thread_Safe Error_Codes Floating Wire
begin

text \<open>
  The wrapper of the LMDB key-value store (\<open>src/database/db_lmdb.cpp\<close> and \<open>db_lmdb.h\<close>): the
  environment \<open>LMDB\<close> with its count of open write transactions and its growth, the named
  database \<open>LMDBDatabase\<close>, the transaction \<open>LMDBTransaction\<close> and the loop of the macro
  \<open>MDB_CHECK_TXN_EXPAND\<close> that grows the memory map and starts over when it is full.

  The LMDB library itself is external: the record \<open>lmdb\<close> holds the calls the wrapper makes,
  \<open>'e\<close> is the state of an environment and \<open>'t\<close> that of a transaction. \<open>lmdb_laws\<close> states what
  the library documents, seen through the contents \<open>ev\<close> of an environment and \<open>tv\<close> of a
  transaction, both a map from keys to values per database.
\<close>

section \<open>The library\<close>

type_synonym contents = "nat \<Rightarrow> bytes \<Rightarrow> bytes option"

record ('e, 't) lmdb =
  mdb_env_sync :: "'e \<Rightarrow> bool \<Rightarrow> int \<times> 'e"
  mdb_env_close :: "'e \<Rightarrow> unit"
  mdb_env_set_mapsize :: "'e \<Rightarrow> u64 \<Rightarrow> int \<times> 'e"
  mdb_env_info :: "'e \<Rightarrow> int \<times> u64"
  mdb_env_stat :: "'e \<Rightarrow> int \<times> u32"
  mdb_env_get_flags :: "'e \<Rightarrow> int \<times> u32"
  mdb_env_set_flags :: "'e \<Rightarrow> u32 \<Rightarrow> bool \<Rightarrow> int \<times> 'e"
  mdb_env_get_maxkeysize :: "'e \<Rightarrow> nat"
  mdb_env_get_maxreaders :: "'e \<Rightarrow> int \<times> u32"
  mdb_txn_begin :: "'e \<Rightarrow> bool \<Rightarrow> int \<times> 't \<times> 'e"
  mdb_txn_abort :: "'t \<Rightarrow> 'e \<Rightarrow> 'e"
  mdb_txn_commit :: "'t \<Rightarrow> 'e \<Rightarrow> int \<times> 'e"
  mdb_txn_id :: "'t \<Rightarrow> nat"
  mdb_txn_renew :: "'t \<Rightarrow> int \<times> 't"
  mdb_put :: "'t \<Rightarrow> nat \<Rightarrow> bytes \<Rightarrow> bytes \<Rightarrow> u32 \<Rightarrow> int \<times> 't"
  mdb_get :: "'t \<Rightarrow> nat \<Rightarrow> bytes \<Rightarrow> int \<times> bytes"
  mdb_del :: "'t \<Rightarrow> nat \<Rightarrow> bytes \<Rightarrow> bytes option \<Rightarrow> int \<times> 't"
  mdb_drop :: "'t \<Rightarrow> nat \<Rightarrow> bool \<Rightarrow> int \<times> 't"

text \<open>
  What the library promises: a transaction starts from the contents of the environment; a
  commit that succeeds makes its contents those of the environment, anything else leaves them;
  \<open>mdb_put\<close>, \<open>mdb_get\<close> and \<open>mdb_del\<close> act on the transaction's contents, where a database
  without sorted duplicates ignores the value given to \<open>mdb_del\<close>. The program has no empty keys, for
  which the library has an error code of its own.
\<close>

definition lmdb_laws ::
  "('e, 't, 'z) lmdb_scheme \<Rightarrow> ('e \<Rightarrow> contents) \<Rightarrow> ('t \<Rightarrow> contents) \<Rightarrow> bool" where
  "lmdb_laws L ev tv \<longleftrightarrow>
     (\<forall>e f rc e'. mdb_env_sync L e f = (rc, e') \<longrightarrow> ev e' = ev e) \<and>
     (\<forall>e n rc e'. mdb_env_set_mapsize L e n = (rc, e') \<longrightarrow> ev e' = ev e) \<and>
     (\<forall>e ro rc t e'. mdb_txn_begin L e ro = (rc, t, e') \<longrightarrow>
        ev e' = ev e \<and> (rc = 0 \<longrightarrow> tv t = ev e)) \<and>
     (\<forall>t e. ev (mdb_txn_abort L t e) = ev e) \<and>
     (\<forall>t e rc e'. mdb_txn_commit L t e = (rc, e') \<longrightarrow>
        ev e' = (if rc = 0 then tv t else ev e)) \<and>
     (\<forall>t d k v t'. mdb_put L t d k v 0 = (0, t') \<longrightarrow>
        tv t' = (tv t)(d := (tv t d)(k \<mapsto> v))) \<and>
     (\<forall>t d k w. tv t d k = Some w \<longrightarrow> mdb_get L t d k = (0, w)) \<and>
     (\<forall>t d k. tv t d k = None \<longrightarrow> fst (mdb_get L t d k) = - 30798) \<and>
     (\<forall>t d k x t'. mdb_del L t d k x = (0, t') \<longrightarrow>
        tv t d k \<noteq> None \<and> tv t' = (tv t)(d := (tv t d)(k := None))) \<and>
     (\<forall>t d k x. tv t d k = None \<longrightarrow> fst (mdb_del L t d k x) = - 30798)"

lemmas lmdb_lawsD =
  iffD1 [OF lmdb_laws_def, THEN conjunct1, rule_format]
  iffD1 [OF lmdb_laws_def, THEN conjunct2, THEN conjunct1, rule_format]
  iffD1 [OF lmdb_laws_def, THEN conjunct2, THEN conjunct2, THEN conjunct1, rule_format, THEN conjunct1]
  iffD1 [OF lmdb_laws_def, THEN conjunct2, THEN conjunct2, THEN conjunct1, rule_format, THEN conjunct2, rule_format]
  iffD1 [OF lmdb_laws_def, THEN conjunct2, THEN conjunct2, THEN conjunct2, THEN conjunct1, rule_format]
  iffD1 [OF lmdb_laws_def, THEN conjunct2, THEN conjunct2, THEN conjunct2, THEN conjunct2, THEN conjunct1, rule_format]
  iffD1 [OF lmdb_laws_def, THEN conjunct2, THEN conjunct2, THEN conjunct2, THEN conjunct2, THEN conjunct2, THEN conjunct1, rule_format]
  iffD1 [OF lmdb_laws_def, THEN conjunct2, THEN conjunct2, THEN conjunct2, THEN conjunct2, THEN conjunct2, THEN conjunct2, THEN conjunct2, THEN conjunct2, THEN conjunct1, rule_format, THEN conjunct1]
  iffD1 [OF lmdb_laws_def, THEN conjunct2, THEN conjunct2, THEN conjunct2, THEN conjunct2, THEN conjunct2, THEN conjunct2, THEN conjunct2, THEN conjunct2, THEN conjunct1, rule_format, THEN conjunct2]
  iffD1 [OF lmdb_laws_def, THEN conjunct2, THEN conjunct2, THEN conjunct2, THEN conjunct2, THEN conjunct2, THEN conjunct2, THEN conjunct2, THEN conjunct2, THEN conjunct2, rule_format]
  iffD1 [OF lmdb_laws_def, THEN conjunct2, THEN conjunct2, THEN conjunct2, THEN conjunct2, THEN conjunct2, THEN conjunct2, THEN conjunct1, rule_format]
  iffD1 [OF lmdb_laws_def, THEN conjunct2, THEN conjunct2, THEN conjunct2, THEN conjunct2, THEN conjunct2, THEN conjunct2, THEN conjunct2, THEN conjunct1, rule_format]

section \<open>The environment\<close>

text \<open>
  A method that throws ends in \<open>Thrown\<close>. \<open>m_env\<close> is \<open>None\<close> once the environment is closed;
  \<open>m_registered\<close> tells whether the environment is still found in the table \<open>instances\<close>.
\<close>

datatype 'a outcome = Returned 'a | Thrown

record LMDBDatabase =
  db_id :: crypto_hash_t
  m_dbi :: nat

record 'e LMDB =
  lmdb_id :: crypto_hash_t
  m_growth_factor :: u64
  m_env :: "'e option"
  m_databases :: "(crypto_hash_t, LMDBDatabase) ThreadSafeMap"
  m_open_txns :: u64
  m_registered :: bool

definition open_transactions :: "'e LMDB \<Rightarrow> u64" where
  "open_transactions E = m_open_txns E"

definition lmdb_flush :: "('e, 't, 'z) lmdb_scheme \<Rightarrow> bool \<Rightarrow> 'e LMDB \<Rightarrow> ErrorCode \<times> 'e LMDB" where
  "lmdb_flush L force E =
     (case m_env E of
        None \<Rightarrow> (LMDB_ERROR, E)
      | Some e \<Rightarrow> let (rc, e') = mdb_env_sync L e force in (ErrorCode rc, E\<lparr>m_env := Some e'\<rparr>))"

definition lmdb_close :: "('e, 't, 'z) lmdb_scheme \<Rightarrow> 'e LMDB \<Rightarrow> ErrorCode \<times> 'e LMDB" where
  "lmdb_close L E =
     (let (err, E) = lmdb_flush L True E in
      if failed err then (err, E)
      else (SUCCESS, E\<lparr>m_env := None, m_registered := False\<rparr>))"

definition lmdb_info :: "('e, 't, 'z) lmdb_scheme \<Rightarrow> 'e LMDB \<Rightarrow> ErrorCode \<times> u64" where
  "lmdb_info L E =
     (case m_env E of
        None \<Rightarrow> (LMDB_ERROR, 0)
      | Some e \<Rightarrow> let (rc, mapsize) = mdb_env_info L e in (ErrorCode rc, mapsize))"

definition lmdb_stats :: "('e, 't, 'z) lmdb_scheme \<Rightarrow> 'e LMDB \<Rightarrow> ErrorCode \<times> u32" where
  "lmdb_stats L E =
     (case m_env E of
        None \<Rightarrow> (LMDB_ERROR, 0)
      | Some e \<Rightarrow> let (rc, psize) = mdb_env_stat L e in (ErrorCode rc, psize))"

text \<open>The error of \<open>stats\<close> is not looked at.\<close>

definition memory_to_pages :: "('e, 't, 'z) lmdb_scheme \<Rightarrow> u64 \<Rightarrow> 'e LMDB \<Rightarrow> ErrorCode \<times> u64" where
  "memory_to_pages L memory E =
     (let (err, psize) = lmdb_stats L E in
      (SUCCESS,
       word_of_int \<lceil>fl64 (fl64 (of_nat (unat memory)) / fl64 (of_nat (unat psize)))\<rceil>))"

definition detect_map_size :: "('e, 't, 'z) lmdb_scheme \<Rightarrow> 'e LMDB \<Rightarrow> ErrorCode \<times> 'e LMDB" where
  "detect_map_size L E =
     (if open_transactions E \<noteq> 0 then (LMDB_ERROR, E)
      else case m_env E of
             None \<Rightarrow> (LMDB_ERROR, E)
           | Some e \<Rightarrow> let (rc, e') = mdb_env_set_mapsize L e 0 in
                        (ErrorCode rc, E\<lparr>m_env := Some e'\<rparr>))"

definition expand_pages :: "('e, 't, 'z) lmdb_scheme \<Rightarrow> u64 \<Rightarrow> 'e LMDB \<Rightarrow> ErrorCode \<times> 'e LMDB" where
  "expand_pages L pages E =
     (if open_transactions E \<noteq> 0 then (LMDB_ERROR, E)
      else
        let (info_error, mapsize) = lmdb_info L E in
        if failed info_error then (info_error, E)
        else
          let (stats_error, psize) = lmdb_stats L E in
          if failed stats_error then (stats_error, E)
          else
            let new_size = ucast psize * pages + mapsize in
            case m_env E of
              None \<Rightarrow> (LMDB_ERROR, E)
            | Some e \<Rightarrow> let (rc, e') = mdb_env_set_mapsize L e new_size in
                         (ErrorCode rc, E\<lparr>m_env := Some e'\<rparr>))"

definition lmdb_expand :: "('e, 't, 'z) lmdb_scheme \<Rightarrow> 'e LMDB \<Rightarrow> ErrorCode \<times> 'e LMDB" where
  "lmdb_expand L E =
     (let (err, pages) = memory_to_pages L (m_growth_factor E * 1024 * 1024) E in
      if failed err then (err, E) else expand_pages L pages E)"

definition get_database :: "crypto_hash_t \<Rightarrow> 'e LMDB \<Rightarrow> LMDBDatabase option" where
  "get_database i E = (if tsm_contains (m_databases E) i then tsm_at (m_databases E) i else None)"

definition transaction_register :: "bool \<Rightarrow> 'e LMDB \<Rightarrow> 'e LMDB" where
  "transaction_register readonly E =
     (if readonly then E else E\<lparr>m_open_txns := m_open_txns E + 1\<rparr>)"

definition transaction_unregister :: "bool \<Rightarrow> 'e LMDB \<Rightarrow> 'e LMDB" where
  "transaction_unregister readonly E =
     (if readonly then E
      else if m_open_txns E > 0 then E\<lparr>m_open_txns := m_open_txns E - 1\<rparr> else E)"

section \<open>Transactions\<close>

text \<open>
  A transaction whose \<open>m_txn\<close> is set; \<open>txn_db\<close> is the handle of the database it works on, 0
  for none. \<open>abort\<close> and \<open>commit\<close> end it, after which \<open>m_txn\<close> is null: that is \<open>None\<close> below.
\<close>

record 't LMDBTransaction =
  txn_readonly :: bool
  txn_db :: nat
  txn_handle :: 't

definition set_database :: "nat \<Rightarrow> 't LMDBTransaction \<Rightarrow> 't LMDBTransaction" where
  "set_database d T = T\<lparr>txn_db := d\<rparr>"

definition txn_abort ::
  "('e, 't, 'z) lmdb_scheme \<Rightarrow> 't LMDBTransaction option \<Rightarrow> 'e LMDB \<Rightarrow> 'e LMDB" where
  "txn_abort L T E =
     (case T of
        None \<Rightarrow> E
      | Some T \<Rightarrow>
          transaction_unregister (txn_readonly T)
            (E\<lparr>m_env := map_option (mdb_txn_abort L (txn_handle T)) (m_env E)\<rparr>))"

definition txn_commit ::
  "('e, 't, 'z) lmdb_scheme \<Rightarrow> 't LMDBTransaction option \<Rightarrow> 'e LMDB \<Rightarrow> ErrorCode \<times> 'e LMDB" where
  "txn_commit L T E =
     (case T of
        None \<Rightarrow> (LMDB_ERROR, E)
      | Some T \<Rightarrow>
          (case m_env E of
             None \<Rightarrow> (LMDB_ERROR, E)
           | Some e \<Rightarrow>
               let (rc, e') = mdb_txn_commit L (txn_handle T) e in
               (ErrorCode rc, transaction_unregister (txn_readonly T) (E\<lparr>m_env := Some e'\<rparr>))))"

definition txn_del ::
  "('e, 't, 'z) lmdb_scheme \<Rightarrow> bytes \<Rightarrow> 't LMDBTransaction \<Rightarrow> ErrorCode \<times> 't LMDBTransaction" where
  "txn_del L key T =
     (let (rc, t) = mdb_del L (txn_handle T) (txn_db T) key None in
      (ErrorCode rc, T\<lparr>txn_handle := t\<rparr>))"

definition txn_del_value ::
  "('e, 't, 'z) lmdb_scheme \<Rightarrow> bytes \<Rightarrow> bytes \<Rightarrow> 't LMDBTransaction \<Rightarrow>
     ErrorCode \<times> 't LMDBTransaction" where
  "txn_del_value L key value T =
     (let (rc, t) = mdb_del L (txn_handle T) (txn_db T) key (Some value) in
      (ErrorCode rc, T\<lparr>txn_handle := t\<rparr>))"

definition txn_exists :: "('e, 't, 'z) lmdb_scheme \<Rightarrow> bytes \<Rightarrow> 't LMDBTransaction \<Rightarrow> bool" where
  "txn_exists L key T \<longleftrightarrow> fst (mdb_get L (txn_handle T) (txn_db T) key) = 0"

definition txn_get ::
  "('e, 't, 'z) lmdb_scheme \<Rightarrow> bytes \<Rightarrow> 't LMDBTransaction \<Rightarrow> ErrorCode \<times> bytes" where
  "txn_get L key T =
     (let (rc, value) = mdb_get L (txn_handle T) (txn_db T) key in
      (ErrorCode rc, if rc = 0 then value else []))"

definition txn_put ::
  "('e, 't, 'z) lmdb_scheme \<Rightarrow> bytes \<Rightarrow> bytes \<Rightarrow> u32 \<Rightarrow> 't LMDBTransaction \<Rightarrow>
     ErrorCode \<times> 't LMDBTransaction" where
  "txn_put L key value flags T =
     (let (rc, t) = mdb_put L (txn_handle T) (txn_db T) key value flags in
      (ErrorCode rc, T\<lparr>txn_handle := t\<rparr>))"

definition txn_renew ::
  "('e, 't, 'z) lmdb_scheme \<Rightarrow> 't LMDBTransaction option \<Rightarrow> ErrorCode \<times> 't LMDBTransaction option" where
  "txn_renew L T =
     (case T of
        None \<Rightarrow> (LMDB_BAD_TXN, T)
      | Some T \<Rightarrow>
          if \<not> txn_readonly T then (LMDB_BAD_TXN, Some T)
          else let (rc, t) = mdb_txn_renew L (txn_handle T) in (ErrorCode rc, Some (T\<lparr>txn_handle := t\<rparr>)))"

definition txn_id :: "('e, 't, 'z) lmdb_scheme \<Rightarrow> 't LMDBTransaction option \<Rightarrow> ErrorCode \<times> nat" where
  "txn_id L T = (case T of None \<Rightarrow> (LMDB_BAD_TXN, 0) | Some T \<Rightarrow> (SUCCESS, mdb_txn_id L (txn_handle T)))"

text \<open>
  \<open>txn_setup\<close>: up to three attempts, where an environment whose map another process resized
  is told to look again before the next one. \<open>None\<close> is the exception.
\<close>

fun txn_setup_loop ::
  "('e, 't, 'z) lmdb_scheme \<Rightarrow> bool \<Rightarrow> nat \<Rightarrow> 'e LMDB \<Rightarrow> 't option \<times> 'e LMDB" where
  "txn_setup_loop L readonly tries E =
     (case m_env E of
        None \<Rightarrow> (None, E)
      | Some e \<Rightarrow>
          let (rc, t, e') = mdb_txn_begin L e readonly; E = E\<lparr>m_env := Some e'\<rparr> in
          if rc = 0 then (Some t, E)
          else if ErrorCode rc = LMDB_MAP_RESIZED \<and> tries > 0
            then txn_setup_loop L readonly (tries - 1) (snd (detect_map_size L E))
          else (None, E))"

declare txn_setup_loop.simps [simp del]

definition txn_setup ::
  "('e, 't, 'z) lmdb_scheme \<Rightarrow> nat \<Rightarrow> bool \<Rightarrow> 'e LMDB \<Rightarrow> 't LMDBTransaction outcome \<times> 'e LMDB" where
  "txn_setup L d readonly E =
     (case txn_setup_loop L readonly 2 E of
        (None, E) \<Rightarrow> (Thrown, E)
      | (Some t, E) \<Rightarrow>
          (Returned \<lparr>txn_readonly = readonly, txn_db = d, txn_handle = t\<rparr>,
           transaction_register readonly E))"

definition lmdb_transaction ::
  "('e, 't, 'z) lmdb_scheme \<Rightarrow> bool \<Rightarrow> 'e LMDB \<Rightarrow> 't LMDBTransaction outcome \<times> 'e LMDB" where
  "lmdb_transaction L readonly E =
     (if \<not> m_registered E then (Thrown, E) else txn_setup L 0 readonly E)"

definition db_transaction ::
  "('e, 't, 'z) lmdb_scheme \<Rightarrow> LMDBDatabase \<Rightarrow> bool \<Rightarrow> 'e LMDB \<Rightarrow>
     't LMDBTransaction outcome \<times> 'e LMDB" where
  "db_transaction L D readonly E =
     (if m_dbi D = 0 then (Thrown, E)
      else case get_database (db_id D) E of
             None \<Rightarrow> (Thrown, E)
           | Some D \<Rightarrow> txn_setup L (m_dbi D) readonly E)"

section \<open>The loop of \<open>MDB_CHECK_TXN_EXPAND\<close>\<close>

text \<open>
  \<open>goto try_again\<close>: the body ends with \<open>None\<close> to start over and with \<open>Some r\<close> to return. A
  loop that never returns is \<open>None\<close>.
\<close>

partial_function (option) try_again :: "('s \<Rightarrow> 's \<times> 'r option) \<Rightarrow> 's \<Rightarrow> ('s \<times> 'r) option" where
  "try_again body s =
     (case body s of (s', Some r) \<Rightarrow> Some (s', r) | (s', None) \<Rightarrow> try_again body s')"

declare try_again.simps [code]

definition map_full :: "ErrorCode \<Rightarrow> bool" where
  "map_full err \<longleftrightarrow> err = LMDB_MAP_FULL \<or> err = LMDB_TXN_FULL"

text \<open>
  The macro once its condition holds and the transaction is aborted: the environment is
  expanded and the loop starts over, or the error goes to the \<open>return\<close> that follows.
\<close>

definition expand_or_return ::
  "('e, 't, 'z) lmdb_scheme \<Rightarrow> ErrorCode \<Rightarrow> 'e LMDB \<Rightarrow> 'e LMDB \<times> ErrorCode outcome option" where
  "expand_or_return L err E =
     (let (exp_error, E) = lmdb_expand L E in
      if \<not> failed exp_error then (E, None) else (E, Some (Returned err)))"

text \<open>
  The body of such a loop: every step is followed by the macro and by the return of its error,
  which destroys the transaction and so aborts it; behind the last step comes the commit.
\<close>

type_synonym 't txn_step = "'t LMDBTransaction \<Rightarrow> ErrorCode \<times> 't LMDBTransaction"

fun txn_run ::
  "('e, 't, 'z) lmdb_scheme \<Rightarrow> 't txn_step list \<Rightarrow> 't LMDBTransaction \<Rightarrow> 'e LMDB \<Rightarrow>
     'e LMDB \<times> ErrorCode outcome option" where
  "txn_run L [] T E =
     (let (err, E) = txn_commit L (Some T) E in
      if map_full err then expand_or_return L err (txn_abort L None E) else (E, Some (Returned err)))"
| "txn_run L (f # fs) T E =
     (let (err, T) = f T in
      if map_full err then expand_or_return L err (txn_abort L (Some T) E)
      else if failed err then (txn_abort L (Some T) E, Some (Returned err))
      else txn_run L fs T E)"

section \<open>The named database\<close>

definition db_run ::
  "('e, 't, 'z) lmdb_scheme \<Rightarrow> LMDBDatabase \<Rightarrow> 't txn_step list \<Rightarrow> 'e LMDB \<Rightarrow>
     'e LMDB \<times> ErrorCode outcome option" where
  "db_run L D steps E =
     (case db_transaction L D False E of
        (Thrown, E) \<Rightarrow> (E, Some Thrown)
      | (Returned T, E) \<Rightarrow> txn_run L steps T E)"

definition db_del ::
  "('e, 't, 'z) lmdb_scheme \<Rightarrow> LMDBDatabase \<Rightarrow> bytes \<Rightarrow> 'e LMDB \<Rightarrow> ('e LMDB \<times> ErrorCode outcome) option"
where
  "db_del L D key = try_again (db_run L D [txn_del L key])"

definition db_del_value ::
  "('e, 't, 'z) lmdb_scheme \<Rightarrow> LMDBDatabase \<Rightarrow> bytes \<Rightarrow> bytes \<Rightarrow> 'e LMDB \<Rightarrow>
     ('e LMDB \<times> ErrorCode outcome) option" where
  "db_del_value L D key value = try_again (db_run L D [txn_del_value L key value])"

definition db_put ::
  "('e, 't, 'z) lmdb_scheme \<Rightarrow> LMDBDatabase \<Rightarrow> bytes \<Rightarrow> bytes \<Rightarrow> u32 \<Rightarrow> 'e LMDB \<Rightarrow>
     ('e LMDB \<times> ErrorCode outcome) option" where
  "db_put L D key value flags = try_again (db_run L D [txn_put L key value flags])"

text \<open>\<open>drop\<close> looks at a full map only, ignores what \<open>expand\<close> reports, and commits in every other case.\<close>

definition db_drop ::
  "('e, 't, 'z) lmdb_scheme \<Rightarrow> LMDBDatabase \<Rightarrow> bool \<Rightarrow> 'e LMDB \<Rightarrow> ('e LMDB \<times> ErrorCode outcome) option"
where
  "db_drop L D delete_db =
     try_again (\<lambda>E.
       case txn_setup L 0 False E of
         (Thrown, E) \<Rightarrow> (E, Some Thrown)
       | (Returned T, E) \<Rightarrow>
           let (rc, t) = mdb_drop L (txn_handle T) (m_dbi D) delete_db; T = T\<lparr>txn_handle := t\<rparr> in
           if ErrorCode rc = LMDB_MAP_FULL
           then (snd (lmdb_expand L (txn_abort L (Some T) E)), None)
           else let (err, E) = txn_commit L (Some T) E in (E, Some (Returned err)))"

text \<open>A read: a read-only transaction that its destructor aborts.\<close>

definition db_read ::
  "('e, 't, 'z) lmdb_scheme \<Rightarrow> LMDBDatabase \<Rightarrow> ('t LMDBTransaction \<Rightarrow> 'a) \<Rightarrow> 'e LMDB \<Rightarrow>
     'a outcome \<times> 'e LMDB" where
  "db_read L D f E =
     (case db_transaction L D True E of
        (Thrown, E) \<Rightarrow> (Thrown, E)
      | (Returned T, E) \<Rightarrow> (Returned (f T), txn_abort L (Some T) E))"

definition db_exists ::
  "('e, 't, 'z) lmdb_scheme \<Rightarrow> LMDBDatabase \<Rightarrow> bytes \<Rightarrow> 'e LMDB \<Rightarrow> bool outcome \<times> 'e LMDB" where
  "db_exists L D key = db_read L D (txn_exists L key)"

definition db_get ::
  "('e, 't, 'z) lmdb_scheme \<Rightarrow> LMDBDatabase \<Rightarrow> bytes \<Rightarrow> 'e LMDB \<Rightarrow> (ErrorCode \<times> bytes) outcome \<times> 'e LMDB"
where
  "db_get L D key = db_read L D (txn_get L key)"

text \<open>\<open>get<Value>(key)\<close> of a database: the value is \<open>None\<close> where the code returns \<open>{error, {}}\<close>.\<close>

definition db_get_value ::
  "('e, 't, 'z) lmdb_scheme \<Rightarrow> 'v reader \<Rightarrow> LMDBDatabase \<Rightarrow> bytes \<Rightarrow> 'e LMDB \<Rightarrow>
     (ErrorCode \<times> 'v option) outcome \<times> 'e LMDB" where
  "db_get_value L rd D key E =
     (case db_get L D key E of
        (Thrown, E) \<Rightarrow> (Thrown, E)
      | (Returned (err, bs), E) \<Rightarrow>
          if failed err then (Returned (err, None), E)
          else (case rd bs of
                  None \<Rightarrow> (Thrown, E)
                | Some (v, _) \<Rightarrow> (Returned (err, Some v), E)))"

end
