(* ===== verification/Lmdb_Atomic.thy ===== *)
theory Lmdb_Atomic
  imports Lmdb
begin

text \<open>
  What the wrapper of the LMDB store guarantees: whatever the loop of the macro
  \<open>MDB_CHECK_TXN_EXPAND\<close> goes through, an operation that returns success has made all its changes
  and one that returns an error or throws has made none; the count of open write transactions is
  restored; and the loop returns when the library reports a full map only below some size. The
  interface \<open>kv_store\<close> is what the components that keep their data in one database rely on.
\<close>

section \<open>Environments under an operation\<close>

text \<open>
  \<open>stored E c\<close>: the environment is open and holds the contents \<open>c\<close>. Every operation below
  changes at most the environment's state, never its databases, its registration or its
  growth, and leaves the count of open write transactions as it found it.
\<close>

definition stored :: "('e \<Rightarrow> contents) \<Rightarrow> 'e LMDB \<Rightarrow> contents \<Rightarrow> bool" where
  "stored ev E c \<longleftrightarrow> (\<exists>e. m_env E = Some e \<and> ev e = c)"

definition frame :: "'e LMDB \<Rightarrow> 'e LMDB \<Rightarrow> bool" where
  "frame E E' \<longleftrightarrow>
     lmdb_id E' = lmdb_id E \<and> m_growth_factor E' = m_growth_factor E \<and>
     m_databases E' = m_databases E \<and> m_open_txns E' = m_open_txns E \<and>
     m_registered E' = m_registered E"

lemma frame_refl [simp]: "frame E E" by (simp add: frame_def)

lemma frame_trans: "frame E E' \<Longrightarrow> frame E' E'' \<Longrightarrow> frame E E''"
  by (simp add: frame_def)

lemma frame_env [simp]: "frame E (E\<lparr>m_env := x\<rparr>)" by (simp add: frame_def)

lemma frameD:
  assumes "frame E E'"
  shows "m_open_txns E' = m_open_txns E" "m_databases E' = m_databases E"
    "m_registered E' = m_registered E" "m_growth_factor E' = m_growth_factor E"
  using assms by (simp_all add: frame_def)

lemma register_unregister:
  assumes "m_open_txns E + 1 \<noteq> 0"
  shows "transaction_unregister ro (transaction_register ro E) = E"
    and "transaction_unregister ro (transaction_register ro E\<lparr>m_env := x\<rparr>) = E\<lparr>m_env := x\<rparr>"
  using assms
  by (auto simp: transaction_unregister_def transaction_register_def word_gt_0)

lemma detect_map_size_stored:
  assumes "lmdb_laws L ev tv" "stored ev E c"
  shows "stored ev (snd (detect_map_size L E)) c \<and> frame E (snd (detect_map_size L E))"
  using assms
  by (auto simp: detect_map_size_def stored_def Let_def lmdb_lawsD(2) split: prod.splits)

lemma expand_stored:
  assumes "lmdb_laws L ev tv" "stored ev E c" "lmdb_expand L E = (err, E')"
  shows "stored ev E' c" "frame E E'"
  using assms
  by (auto simp: lmdb_expand_def expand_pages_def stored_def Let_def lmdb_lawsD(2)
      split: prod.splits if_splits)

lemma txn_setup_loop_stored:
  assumes "lmdb_laws L ev tv" "stored ev E c" "txn_setup_loop L ro n E = (r, E')"
  shows "stored ev E' c \<and> frame E E' \<and> (\<forall>t. r = Some t \<longrightarrow> tv t = c)"
  using assms(2,3)
proof (induction n arbitrary: E)
  case 0
  then show ?case
    by (auto simp: txn_setup_loop.simps stored_def Let_def lmdb_lawsD(3,4) [OF assms(1)]
        split: prod.splits if_splits)
next
  case (Suc n)
  obtain e where e: "m_env E = Some e" "ev e = c" using Suc.prems by (auto simp: stored_def)
  obtain rc t e' where b: "mdb_txn_begin L e ro = (rc, t, e')" using prod_cases3 by blast
  have st: "stored ev (E\<lparr>m_env := Some e'\<rparr>) c"
    using e lmdb_lawsD(3) [OF assms(1) b] by (simp add: stored_def)
  show ?case
  proof (cases "rc \<noteq> 0 \<and> ErrorCode rc = LMDB_MAP_RESIZED")
    case True
    then have r: "txn_setup_loop L ro n (snd (detect_map_size L (E\<lparr>m_env := Some e'\<rparr>))) = (r, E')"
      using Suc.prems(2) e b by (simp add: txn_setup_loop.simps [of L ro "Suc n"])
    note D = detect_map_size_stored [OF assms(1) st]
    have "frame E (snd (detect_map_size L (E\<lparr>m_env := Some e'\<rparr>)))"
      by (rule frame_trans [OF frame_env conjunct2 [OF D]])
    then show ?thesis using Suc.IH [OF conjunct1 [OF D] r] frame_trans by blast
  next
    case False
    then show ?thesis
      using Suc.prems(2) e b st lmdb_lawsD(4) [OF assms(1) b]
      by (auto simp: txn_setup_loop.simps [of L ro "Suc n"] Let_def split: if_splits)
  qed
qed

lemma txn_setup_stored:
  assumes "lmdb_laws L ev tv" "stored ev E c" "txn_setup L d ro E = (r, E')"
  shows "stored ev E' c"
    and "r = Thrown \<Longrightarrow> frame E E'"
    and "r = Returned T \<Longrightarrow> frame (transaction_register ro E) E'"
    and "r = Returned T \<Longrightarrow> tv (txn_handle T) = c \<and> txn_readonly T = ro \<and> txn_db T = d"
proof -
  obtain r0 E0 where s: "txn_setup_loop L ro 2 E = (r0, E0)" by fastforce
  note S = txn_setup_loop_stored [OF assms(1,2) s]
  have reg: "frame (transaction_register ro E) (transaction_register ro E0)"
    using S by (simp add: frame_def transaction_register_def)
  show "stored ev E' c" "r = Thrown \<Longrightarrow> frame E E'"
    "r = Returned T \<Longrightarrow> frame (transaction_register ro E) E'"
    "r = Returned T \<Longrightarrow> tv (txn_handle T) = c \<and> txn_readonly T = ro \<and> txn_db T = d"
    using assms(3) s S reg
    by (auto simp: txn_setup_def stored_def transaction_register_def split: option.splits)
qed

text \<open>Ending a transaction closes what \<open>txn_setup\<close> registered.\<close>

lemma frame_unregister:
  assumes "frame (transaction_register ro E) E'" "m_open_txns E + 1 \<noteq> 0"
  shows "frame E (transaction_unregister ro (E'\<lparr>m_env := x\<rparr>))"
  using assms
  by (auto simp: frame_def transaction_unregister_def transaction_register_def word_gt_0)

lemma abort_stored:
  assumes "lmdb_laws L ev tv" "stored ev E' c"
    "frame (transaction_register (txn_readonly T) E) E'" "m_open_txns E + 1 \<noteq> 0"
  shows "stored ev (txn_abort L (Some T) E') c" "frame E (txn_abort L (Some T) E')"
  using assms frame_unregister [OF assms(3,4)]
  by (auto simp: txn_abort_def stored_def transaction_unregister_def lmdb_lawsD(5))

lemma commit_stored:
  assumes "lmdb_laws L ev tv" "stored ev E' c" "txn_commit L (Some T) E' = (err, E'')"
    "frame (transaction_register (txn_readonly T) E) E'" "m_open_txns E + 1 \<noteq> 0"
  shows "stored ev E'' (if err = SUCCESS then tv (txn_handle T) else c)" "frame E E''"
  using assms frame_unregister [OF assms(4,5)]
  by (auto simp: txn_commit_def stored_def transaction_unregister_def lmdb_lawsD(6) Let_def
      split: prod.splits option.splits)

section \<open>What a loop does\<close>

text \<open>
  \<open>refines tv f g\<close>: a step that succeeds does to the contents of the transaction what \<open>g\<close>
  does, and keeps the kind of the transaction. \<open>apply_all\<close> is a sequence of such changes.
\<close>

definition refines :: "('t \<Rightarrow> contents) \<Rightarrow> 't txn_step \<Rightarrow> (contents \<Rightarrow> contents option) \<Rightarrow> bool" where
  "refines tv f g \<longleftrightarrow>
     (\<forall>T T'. f T = (SUCCESS, T') \<longrightarrow>
        g (tv (txn_handle T)) = Some (tv (txn_handle T'))) \<and>
     (\<forall>T. txn_readonly (snd (f T)) = txn_readonly T)"

fun apply_all :: "(contents \<Rightarrow> contents option) list \<Rightarrow> contents \<Rightarrow> contents option" where
  "apply_all [] c = Some c"
| "apply_all (g # gs) c = do { c \<leftarrow> g c; apply_all gs c }"

lemma apply_all_append: "apply_all (gs @ hs) c = do { c \<leftarrow> apply_all gs c; apply_all hs c }"
  by (induction gs arbitrary: c) (auto split: Option.bind_splits)

text \<open>
  The outcome of a transaction on contents \<open>c\<close>: success means that the changes \<open>gs\<close> were all
  made, an error or an exception that none was.
\<close>

definition atomic_result :: "contents \<Rightarrow> (contents \<Rightarrow> contents option) list \<Rightarrow>
    ErrorCode outcome \<Rightarrow> contents \<Rightarrow> bool" where
  "atomic_result c gs r c' \<longleftrightarrow>
     (if r = Returned SUCCESS then apply_all gs c = Some c' else c' = c)"

definition run_ok ::
  "('e \<Rightarrow> contents) \<Rightarrow> (contents \<Rightarrow> contents option) list \<Rightarrow> 'e LMDB \<Rightarrow> contents \<Rightarrow>
     'e LMDB \<times> ErrorCode outcome option \<Rightarrow> bool" where
  "run_ok ev gs E c R \<longleftrightarrow>
     frame E (fst R) \<and> (snd R = None \<longrightarrow> stored ev (fst R) c) \<and>
     (\<forall>r. snd R = Some r \<longrightarrow> (\<exists>c'. stored ev (fst R) c' \<and> atomic_result c gs r c'))"

lemma run_ok_failed:
  "frame E (fst R) \<Longrightarrow> stored ev (fst R) c \<Longrightarrow> snd R \<noteq> Some (Returned SUCCESS) \<Longrightarrow> run_ok ev gs E c R"
  by (auto simp: run_ok_def atomic_result_def)

lemma expand_or_return_stored:
  assumes "lmdb_laws L ev tv" "stored ev E' c" "frame E E'" "failed err"
  shows "run_ok ev gs E c (expand_or_return L err E')"
proof -
  obtain x E1 where x: "lmdb_expand L E' = (x, E1)" by fastforce
  note S = expand_stored [OF assms(1,2) x]
  then show ?thesis
    using frame_trans [OF assms(3) S(2)] assms(4)
    by (intro run_ok_failed) (auto simp: expand_or_return_def x)
qed

lemma txn_run_atomic:
  assumes "lmdb_laws L ev tv" "list_all2 (refines tv) fs gs"
    "stored ev E' c" "frame (transaction_register (txn_readonly T) E) E'" "m_open_txns E + 1 \<noteq> 0"
    "apply_all hs c = Some (tv (txn_handle T))"
  shows "run_ok ev (hs @ gs) E c (txn_run L fs T E')"
  using assms(2,4,6)
proof (induction fs arbitrary: gs hs T)
  case Nil
  obtain err E1 where cm: "txn_commit L (Some T) E' = (err, E1)" by fastforce
  note K = commit_stored [OF assms(1,3) cm Nil.prems(2) assms(5)]
  show ?case
  proof (cases "map_full err")
    case True
    then have "stored ev E1 c" "failed err" using K by (auto simp: map_full_def)
    from expand_or_return_stored [OF assms(1) this(1) K(2) this(2)] show ?thesis
      using True cm by (simp add: txn_abort_def)
  next
    case False
    then show ?thesis
      using K Nil.prems cm by (auto simp: run_ok_def atomic_result_def split: if_splits)
  qed
next
  case (Cons f fs)
  obtain g gs' where gs: "gs = g # gs'" "refines tv f g" "list_all2 (refines tv) fs gs'"
    using Cons.prems(1) by (auto simp: list_all2_Cons1)
  obtain err T1 where f: "f T = (err, T1)" by fastforce
  have ro: "txn_readonly T1 = txn_readonly T" using gs(2) f by (metis refines_def snd_conv)
  have fr: "frame (transaction_register (txn_readonly T1) E) E'" using Cons.prems(2) ro by simp
  note A = abort_stored [OF assms(1,3) fr assms(5)]
  show ?case
  proof (cases "err = SUCCESS")
    case True
    then have "apply_all (hs @ [g]) c = Some (tv (txn_handle T1))"
      using gs(2) f Cons.prems(3) by (simp add: apply_all_append refines_def)
    from Cons.IH [OF gs(3) fr this] show ?thesis
      using f True by (simp add: gs(1) map_full_def)
  next
    case False
    then show ?thesis
      using expand_or_return_stored [OF assms(1) A, of err] A f
      by (cases "map_full err") (auto intro!: run_ok_failed)
  qed
qed

text \<open>The proof rules of the loop: an invariant for what it returns, a measure for that it returns.\<close>

lemma try_again_rule:
  assumes "try_again body s = Some (s', r)" "I s"
    and step: "\<And>s s'. I s \<Longrightarrow> body s = (s', None) \<Longrightarrow> I s'"
    and finish: "\<And>s s' r. I s \<Longrightarrow> body s = (s', Some r) \<Longrightarrow> Q s' r"
  shows "Q s' r"
proof -
  define P where "P b s y \<longleftrightarrow> (b = body \<longrightarrow> I s \<longrightarrow> Q (fst y) (snd y))" for b :: "'a \<Rightarrow> 'a \<times> 'b option" and s y
  have "P body s (s', r)"
  proof (rule try_again.raw_induct [OF _ assms(1)])
    fix rec b s y
    assume ih: "\<And>b s y. rec b s = Some y \<Longrightarrow> P b s y"
      and eq: "(case b s of (s', None) \<Rightarrow> rec b s' | (s', Some r) \<Rightarrow> Some (s', r)) = Some y"
    show "P b s y"
      using ih eq step finish by (auto simp: P_def split: prod.splits option.splits)
  qed
  then show ?thesis using assms(2) by (simp add: P_def)
qed

lemma try_again_returns:
  assumes "I s"
    and "\<And>s s'. I s \<Longrightarrow> body s = (s', None) \<Longrightarrow> I s' \<and> m s' < (m s :: nat)"
  shows "\<exists>y. try_again body s = Some y"
  using assms(1)
proof (induction "m s" arbitrary: s rule: less_induct)
  case less
  obtain s' r where b: "body s = (s', r)" by fastforce
  show ?case
  proof (cases r)
    case None
    then show ?thesis
      using less b assms(2) by (subst try_again.simps) auto
  qed (subst try_again.simps, simp add: b)
qed

text \<open>
  A body that, started on an environment with the databases \<open>M\<close> and the contents \<open>c\<close>, either makes the changes \<open>gs\<close>, or makes none and
  returns, or makes none and starts over.
\<close>

definition atomic_body ::
  "('e \<Rightarrow> contents) \<Rightarrow> (crypto_hash_t, LMDBDatabase) ThreadSafeMap \<Rightarrow>
     (contents \<Rightarrow> contents option) list \<Rightarrow> ('e LMDB \<Rightarrow> 'e LMDB \<times> ErrorCode outcome option) \<Rightarrow> bool"
where
  "atomic_body ev M gs body \<longleftrightarrow>
     (\<forall>E c. stored ev E c \<longrightarrow> m_open_txns E + 1 \<noteq> 0 \<longrightarrow> m_databases E = M \<longrightarrow>
        run_ok ev gs E c (body E))"

lemma atomic_loop:
  assumes "atomic_body ev (m_databases E) gs body" "stored ev E c" "m_open_txns E + 1 \<noteq> 0"
    "try_again body E = Some (E', r)"
  shows "frame E E' \<and> (\<exists>c'. stored ev E' c' \<and> atomic_result c gs r c')"
proof (rule try_again_rule [OF assms(4), where I = "\<lambda>E1. frame E E1 \<and> stored ev E1 c"])
  show "frame E E \<and> stored ev E c" using assms(2) by simp
next
  have ok: "run_ok ev gs E1 c (body E1)" if "frame E E1 \<and> stored ev E1 c" for E1
    using assms(1,3) that frameD(1,2) [of E E1] unfolding atomic_body_def by auto
  fix E1 E2 assume I: "frame E E1 \<and> stored ev E1 c"
  { assume "body E1 = (E2, None)"
    then show "frame E E2 \<and> stored ev E2 c"
      using ok [OF I] I frame_trans by (auto simp: run_ok_def) }
  fix r assume "body E1 = (E2, Some r)"
  then show "frame E E2 \<and> (\<exists>c'. stored ev E2 c' \<and> atomic_result c gs r c')"
    using ok [OF I] I frame_trans by (auto simp: run_ok_def)
qed

text \<open>A body that opens a transaction and runs its steps is atomic.\<close>

lemma txn_body_atomic:
  assumes L: "lmdb_laws L ev tv" and fs: "list_all2 (refines tv) fs gs"
    and body: "\<And>E. m_databases E = M \<Longrightarrow> body E =
      (case opn E of (Thrown, E) \<Rightarrow> (E, Some Thrown) | (Returned T, E) \<Rightarrow> txn_run L fs T E)"
    and opn: "\<And>E. m_databases E = M \<Longrightarrow> opn E = (Thrown, E) \<or> (\<exists>d. opn E = txn_setup L d False E)"
  shows "atomic_body ev M gs body"
  unfolding atomic_body_def
proof (intro allI impI)
  fix E c assume st: "stored ev E c" and n: "m_open_txns E + 1 \<noteq> 0" and M: "m_databases E = M"
  note body' = body [OF M]
  show "run_ok ev gs E c (body E)"
  proof (cases "opn E = (Thrown, E)")
    case True
    then show ?thesis using st by (intro run_ok_failed) (simp_all add: body')
  next
    case False
    then obtain d where d: "opn E = txn_setup L d False E" using opn [OF M] by blast
    obtain o1 E1 where s: "txn_setup L d False E = (o1, E1)" by fastforce
    note S = txn_setup_stored [OF L st s]
    show ?thesis
    proof (cases o1)
      case Thrown
      then show ?thesis using S d s by (intro run_ok_failed) (simp_all add: body')
    next
      case (Returned T)
      then have "apply_all [] c = Some (tv (txn_handle T))" using S(4) by simp
      from txn_run_atomic [OF L fs S(1) _ n this] show ?thesis
        using S(3,4) [OF Returned] Returned d s by (simp add: body')
    qed
  qed
qed

text \<open>
  The database is looked up in the environment, and the transaction opened on what is found:
  \<open>handle M D\<close> is that database, and the first step acts on it.
\<close>

definition handle :: "(crypto_hash_t, LMDBDatabase) ThreadSafeMap \<Rightarrow> LMDBDatabase \<Rightarrow> nat" where
  "handle M D = (case tsm_at M (db_id D) of None \<Rightarrow> 0 | Some D' \<Rightarrow> m_dbi D')"

lemma set_database_same: "txn_db T = d \<Longrightarrow> set_database d T = T"
  by (simp add: set_database_def)

lemma txn_setup_db: "txn_setup L d ro E = (Returned T, E') \<Longrightarrow> txn_db T = d \<and> txn_readonly T = ro"
  by (auto simp: txn_setup_def split: prod.splits option.splits)

lemma db_transaction_cases:
  assumes "m_databases E = M"
  shows "db_transaction L D ro E = (Thrown, E) \<or>
         db_transaction L D ro E = txn_setup L (handle M D) ro E"
  using assms
  by (auto simp: db_transaction_def get_database_def handle_def tsm_contains_at split: option.split)

lemma db_run_handle:
  assumes "m_databases E = M"
  shows "db_run L D (f # fs) E =
    (case db_transaction L D False E of (Thrown, E) \<Rightarrow> (E, Some Thrown)
     | (Returned T, E) \<Rightarrow> txn_run L ((\<lambda>T. f (set_database (handle M D) T)) # fs) T E)"
proof (cases "db_transaction L D False E")
  case (Pair r E1)
  then have "r = Returned T \<Longrightarrow> txn_db T = handle M D" for T
    using db_transaction_cases [OF assms, of L D False] txn_setup_db by fastforce
  then show ?thesis using Pair by (cases r) (auto simp: db_run_def set_database_same)
qed

lemma db_run_atomic:
  assumes "lmdb_laws L ev tv" "refines tv (\<lambda>T. f (set_database (handle M D) T)) g"
  shows "atomic_body ev M [g] (db_run L D [f])"
proof (rule txn_body_atomic [OF assms(1) _ db_run_handle])
  show "list_all2 (refines tv) [\<lambda>T. f (set_database (handle M D) T)] [g]" using assms(2) by simp
  show "db_transaction L D False E = (Thrown, E) \<or>
      (\<exists>d. db_transaction L D False E = txn_setup L d False E)" if "m_databases E = M" for E :: "'a LMDB"
    using db_transaction_cases [OF that] by blast
qed

section \<open>One database\<close>

text \<open>The steps of the database's own operations, and what they do to the contents.\<close>

definition put_change :: "nat \<Rightarrow> bytes \<Rightarrow> bytes \<Rightarrow> contents \<Rightarrow> contents option" where
  "put_change d key value c = Some (c(d := (c d)(key \<mapsto> value)))"

definition del_change :: "nat \<Rightarrow> bytes \<Rightarrow> contents \<Rightarrow> contents option" where
  "del_change d key c = (if c d key = None then None else Some (c(d := (c d)(key := None))))"

text \<open>A step on the database \<open>d\<close>, as \<open>set_database\<close> or the opening of the transaction chose it.\<close>

lemma refines_put_at:
  assumes "lmdb_laws L ev tv"
  shows "refines tv (\<lambda>T. txn_put L key value 0 (set_database d T)) (put_change d key value)"
  using lmdb_lawsD(7) [OF assms]
  by (auto simp: refines_def txn_put_def set_database_def put_change_def Let_def split: prod.splits)

lemma refines_del_at:
  assumes "lmdb_laws L ev tv"
  shows "refines tv (\<lambda>T. txn_del L key (set_database d T)) (del_change d key)"
  using lmdb_lawsD(8,9) [OF assms]
  by (fastforce simp: refines_def txn_del_def set_database_def del_change_def Let_def split: prod.splits)

lemma refines_del_value_at:
  assumes "lmdb_laws L ev tv"
  shows "refines tv (\<lambda>T. txn_del_value L key value (set_database d T)) (del_change d key)"
  using lmdb_lawsD(8,9) [OF assms]
  by (fastforce simp: refines_def txn_del_value_def set_database_def del_change_def Let_def
      split: prod.splits)

lemma db_put_atomic:
  assumes "lmdb_laws L ev tv" "stored ev E c" "m_open_txns E + 1 \<noteq> 0"
    "db_put L D key value 0 E = Some (E', r)"
  shows "frame E E' \<and> (\<exists>c'. stored ev E' c' \<and>
    atomic_result c [put_change (handle (m_databases E) D) key value] r c')"
  using atomic_loop [OF db_run_atomic [OF assms(1) refines_put_at [OF assms(1)]] assms(2,3)] assms(4)
  by (auto simp: db_put_def)

lemma db_del_atomic:
  assumes "lmdb_laws L ev tv" "stored ev E c" "m_open_txns E + 1 \<noteq> 0"
    "db_del L D key E = Some (E', r)"
  shows "frame E E' \<and> (\<exists>c'. stored ev E' c' \<and>
    atomic_result c [del_change (handle (m_databases E) D) key] r c')"
  using atomic_loop [OF db_run_atomic [OF assms(1) refines_del_at [OF assms(1)]] assms(2,3)] assms(4)
  by (auto simp: db_del_def)

text \<open>Reading: the contents of the environment are what is read, and nothing changes.\<close>

lemma db_read_stored:
  assumes "lmdb_laws L ev tv" "stored ev E c" "db_read L D f E = (r, E')"
  shows "stored ev E' c" "frame E E'"
    "r = Thrown \<or> (\<exists>T. r = Returned (f T) \<and> tv (txn_handle T) = c \<and>
                        txn_db T = handle (m_databases E) D)"
proof -
  obtain o1 E1 where o1: "db_transaction L D True E = (o1, E1)" by fastforce
  have "stored ev E' c \<and> frame E E' \<and> (r = Thrown \<or> (\<exists>T. r = Returned (f T) \<and>
      tv (txn_handle T) = c \<and> txn_db T = handle (m_databases E) D))"
  proof (cases "(o1, E1) = (Thrown, E)")
    case True
    then show ?thesis using assms o1 by (auto simp: db_read_def)
  next
    case False
    then have s: "txn_setup L (handle (m_databases E) D) True E = (o1, E1)"
      using db_transaction_cases [OF refl, of L D True E] o1 by auto
    note S = txn_setup_stored [OF assms(1,2) s]
    show ?thesis
    proof (cases o1)
      case Thrown
      then show ?thesis using S assms(3) o1 by (auto simp: db_read_def)
    next
      case (Returned T)
      have "frame E E1" using S(3) [OF Returned] by (simp add: transaction_register_def)
      then have "frame E (txn_abort L (Some T) E1)" "stored ev (txn_abort L (Some T) E1) c"
        using S(1) S(4) [OF Returned]
        by (auto simp: txn_abort_def transaction_unregister_def frame_def stored_def
            lmdb_lawsD(5) [OF assms(1)])
      then show ?thesis using S(4) [OF Returned] assms(3) o1 Returned by (auto simp: db_read_def)
    qed
  qed
  then show "stored ev E' c" "frame E E'"
    "r = Thrown \<or> (\<exists>T. r = Returned (f T) \<and> tv (txn_handle T) = c \<and>
                        txn_db T = handle (m_databases E) D)" by blast+
qed

lemma txn_exists_iff:
  assumes "lmdb_laws L ev tv"
  shows "txn_exists L key T \<longleftrightarrow> tv (txn_handle T) (txn_db T) key \<noteq> None"
  using lmdb_lawsD(11,12) [OF assms]
  by (cases "tv (txn_handle T) (txn_db T) key") (auto simp: txn_exists_def)

lemma txn_get_eq:
  assumes "lmdb_laws L ev tv"
  shows "txn_get L key T =
    (case tv (txn_handle T) (txn_db T) key of None \<Rightarrow> (LMDB_NOTFOUND, []) | Some v \<Rightarrow> (SUCCESS, v))"
  using lmdb_lawsD(11) [OF assms] lmdb_lawsD(12) [OF assms, of "txn_handle T" "txn_db T" key]
  by (cases "mdb_get L (txn_handle T) (txn_db T) key")
    (auto simp: txn_get_def Let_def split: option.split)

end
