(* ===== verification/Config.thy ===== *)
theory Config
  imports Prelude
begin

text \<open>
  The constants of \<open>include/config.h\<close>, under the names of their namespaces' members
  (\<open>Fees::CHUNK_SIZE\<close> is \<open>CHUNK_SIZE\<close>). Times are in milliseconds.
\<close>

named_theorems config "values of the configuration constants"

definition PROJECT_NAME :: string where [config]: "PROJECT_NAME = ''TurtleCoin''"
definition SERVER_SECRET_KEY :: string where "SERVER_SECRET_KEY = ''!EGQIc+DG97q$Y4DOY}.[8l!%dVf*-W{S.^.Gy&z''"

definition COPYRIGHT :: string where "COPYRIGHT = ''Copyright (c) 2021 The TurtleCoin Developers''"
definition LICENSE_URL :: string where
  "LICENSE_URL = ''https://github.com/turtlecoin/turtlecoin-v2/blob/master/LICENSE''"

definition VERSION_MAJOR :: nat where [config]: "VERSION_MAJOR = 2"

definition VERSION_MINOR :: nat where [config]: "VERSION_MINOR = 0"

definition VERSION_PATCH :: nat where [config]: "VERSION_PATCH = 0"

definition VERSION_BUILD :: nat where [config]: "VERSION_BUILD = 1"

definition DEFAULT_LOG_LEVEL :: nat where [config]: "DEFAULT_LOG_LEVEL = 4"

definition THREAD_POLLING_INTERVAL :: int where [config]: "THREAD_POLLING_INTERVAL = 10"

definition DEFAULT_CONNECTION_TIMEOUT :: int where [config]: "DEFAULT_CONNECTION_TIMEOUT = 2000"

definition DEFAULT_DATA_DIR :: string where [config]: "DEFAULT_DATA_DIR = ''.'' @ PROJECT_NAME"

section \<open>Addresses and peer-to-peer\<close>

definition PUBLIC_ADDRESS_PREFIX :: u64 where [config]: "PUBLIC_ADDRESS_PREFIX = 0x6bb3b1d"

definition P2P_VERSION :: u16 where [config]: "P2P_VERSION = 1"

definition P2P_MINIMUM_VERSION :: u16 where [config]: "P2P_MINIMUM_VERSION = 1"

definition KEEPALIVE_INTERVAL :: nat where [config]: "KEEPALIVE_INTERVAL = 30000"

definition PEER_EXCHANGE_INTERVAL :: nat where [config]: "PEER_EXCHANGE_INTERVAL = 120000"

definition CONNECTION_MANAGER_INTERVAL :: nat where [config]: "CONNECTION_MANAGER_INTERVAL = 30000"

definition MAXIMUM_PEERS_EXCHANGED :: nat where [config]: "MAXIMUM_PEERS_EXCHANGED = 250"

definition PEER_PRUNE_TIME :: u64 where [config]: "PEER_PRUNE_TIME = 86400"

definition P2P_DEFAULT_BIND_PORT :: u16 where [config]: "P2P_DEFAULT_BIND_PORT = 12897"

definition SEED_NODES :: "(string \<times> u16) list" where
  [config]: "SEED_NODES = [(''161.35.102.211'', 12897), (''128.199.32.206'', 12897),
               (''139.59.120.178'', 12897)]"

definition DEFAULT_CONNECTION_COUNT :: nat where
  [config]: "DEFAULT_CONNECTION_COUNT = length SEED_NODES + 8"

definition NETWORK_ID :: crypto_hash_t where
  "NETWORK_ID =
     word_rcat [0x20, 0x20, 0x20, 0x54, 0x68, 0x65, 0x20, 0x54, 0x75, 0x72, 0x74,
       0x6c, 0x65, 0x43, 0x6f, 0x69, 0x6e, 0xae, 0x20, 0x44, 0x65, 0x76,
       0x65, 0x6c, 0x6f, 0x70, 0x65, 0x72, 0x73, 0x20, 0x20, 0x20 :: byte]"

definition NOTIFIER_DEFAULT_BIND_PORT :: u16 where [config]: "NOTIFIER_DEFAULT_BIND_PORT = 12899"

definition DEFAULT_NODE_BIND_PORT :: u16 where [config]: "DEFAULT_NODE_BIND_PORT = 12898"

definition DEFAULT_WALLET_BIND_PORT :: u16 where [config]: "DEFAULT_WALLET_BIND_PORT = 18070"

section \<open>Staking\<close>

definition REQUIRED_CANDIDACY_AMOUNT :: u64 where [config]: "REQUIRED_CANDIDACY_AMOUNT = 100000"

definition MINIMUM_STAKE_AMOUNT :: u64 where [config]: "MINIMUM_STAKE_AMOUNT = 100"

definition ELECTOR_TARGET_COUNT :: nat where [config]: "ELECTOR_TARGET_COUNT = 10"

definition VALIDATOR_THRESHOLD :: nat where [config]: "VALIDATOR_THRESHOLD = 60"

definition STAKER_RECORD_VERSION :: u64 where [config]: "STAKER_RECORD_VERSION = 1"

definition CANDIDATE_RECORD_VERSION :: u64 where [config]: "CANDIDATE_RECORD_VERSION = 1"

definition STAKE_RECORD_VERSION :: u64 where [config]: "STAKE_RECORD_VERSION = 1"

section \<open>Transactions\<close>

definition RING_SIZE :: nat where [config]: "RING_SIZE = 512"

definition MAXIMUM_INPUTS :: nat where [config]: "MAXIMUM_INPUTS = 8"

definition MINIMUM_OUTPUTS :: nat where [config]: "MINIMUM_OUTPUTS = 2"

definition MAXIMUM_OUTPUTS :: nat where [config]: "MAXIMUM_OUTPUTS = 8"

definition MAXIMUM_EXTRA_SIZE :: nat where [config]: "MAXIMUM_EXTRA_SIZE = 1024"

definition GENESIS_TIMESTAMP :: u64 where [config]: "GENESIS_TIMESTAMP = 1633492800"

definition GENESIS_AMOUNT :: u64 where [config]: "GENESIS_AMOUNT = 125506560"

definition GENESIS_OUTPUT_AMOUNT :: u64 where
  [config]: "GENESIS_OUTPUT_AMOUNT = GENESIS_AMOUNT div (word_of_nat RING_SIZE * 2)"

definition GENESIS_TX_PRIVATE_KEY :: crypto_secret_key_t where
  "GENESIS_TX_PRIVATE_KEY =
     word_rcat [0x06, 0x9a, 0x22, 0x5e, 0x30, 0xaf, 0x01, 0x62, 0x80, 0xa1, 0x41, 0x36, 0xae, 0x94,
       0xaf, 0x09, 0x5c, 0x26, 0x92, 0x43, 0xe5, 0x6d, 0x42, 0x94, 0x96, 0xba, 0x70, 0xc4,
       0xf3, 0xd9, 0x44, 0x0a :: byte]"

definition GENESIS_DESTINATION_WALLET :: string where
  "GENESIS_DESTINATION_WALLET =
     ''TRTL268SaKHPD4cWQLh6UTjcLdkQiGu3zbZnshsfC8ikT3q2Y4jGJRoKTUQe5wBo3rNfNSSby7zQqXTWDEZczxTYXKfGcuLW6gM''"

section \<open>Fees and proof of work\<close>

definition MINIMUM_FEE :: u64 where [config]: "MINIMUM_FEE = 1"

definition CHUNK_SIZE :: u64 where [config]: "CHUNK_SIZE = 32"

definition BASE_CHUNK_SIZE :: u64 where [config]: "BASE_CHUNK_SIZE = CHUNK_SIZE * 10"

definition CHUNK_FEE :: u64 where [config]: "CHUNK_FEE = 1"

definition MINIMUM_POW_ZEROS :: nat where [config]: "MINIMUM_POW_ZEROS = 1"

definition MAXIMUM_POW_ZEROS :: nat where [config]: "MAXIMUM_POW_ZEROS = 16"

definition POW_ZERO_DISCOUNT_MULTIPLIER :: nat where [config]: "POW_ZERO_DISCOUNT_MULTIPLIER = 2"

definition POW_ITERATIONS :: nat where [config]: "POW_ITERATIONS = 2048"

definition POW_MEMORY :: nat where [config]: "POW_MEMORY = 1024"

definition POW_THREADS :: nat where [config]: "POW_THREADS = 1"

text \<open>
  The static assertion of the genesis amounts: the outputs add up to the amount, with no
  remainder lost to the division.
\<close>

lemma genesis_amounts: "GENESIS_OUTPUT_AMOUNT * (word_of_nat RING_SIZE * 2) = GENESIS_AMOUNT"
  by (simp add: config)

end
