(* ===== verification/Network_Fees.thy ===== *)
theory Network_Fees
  imports Wire Config Floating
begin

text \<open>
  The network fees (\<open>src/common/network_fees.cpp\<close>) and the wallet addresses
  (\<open>src/common/address.cpp\<close>). \<open>None\<close> is the \<open>std::range_error\<close> of the fee functions. The
  \<open>double\<close> and \<open>float\<close> operations round as in the theory \<open>Floating\<close>; conversions back to
  \<open>uint64_t\<close> truncate.
\<close>

section \<open>Fees\<close>

definition calculate_base_transaction_fee :: "u64 \<Rightarrow> u64" where
  "calculate_base_transaction_fee transaction_size =
     (if transaction_size \<le> BASE_CHUNK_SIZE then MINIMUM_FEE
      else
        let transaction_size = transaction_size - BASE_CHUNK_SIZE;
            chunks = (word_of_int \<lceil>fl64 (fl64 (of_nat (unat transaction_size)) /
                                     fl64 (of_nat (unat CHUNK_SIZE)))\<rceil> :: u64);
            chunk_cost = chunks * CHUNK_FEE
        in chunk_cost + MINIMUM_FEE)"

definition calculate_transaction_discount :: "nat \<Rightarrow> rat option" where
  "calculate_transaction_discount zeros =
     (if zeros > 256 then None
      else if zeros \<le> MINIMUM_POW_ZEROS then Some 0
      else if zeros \<ge> MAXIMUM_POW_ZEROS
        then Some (fl32 (fl32 (fl32 (of_nat (MAXIMUM_POW_ZEROS - MINIMUM_POW_ZEROS)) *
                               of_nat POW_ZERO_DISCOUNT_MULTIPLIER) / 100))
      else Some (fl32 (fl32 (fl32 (fl32 (of_nat zeros) - fl32 (of_nat MINIMUM_POW_ZEROS)) *
                             of_nat POW_ZERO_DISCOUNT_MULTIPLIER) / 100)))"

definition calculate_transaction_fee :: "u64 \<Rightarrow> nat \<Rightarrow> u64 option" where
  "calculate_transaction_fee transaction_size zeros =
     (if zeros > 256 then None
      else
        let base_transaction_fee = calculate_base_transaction_fee transaction_size in
        do { discount_percentage \<leftarrow> calculate_transaction_discount zeros;
             let fee_discount =
                   word_of_int \<lfloor>fl32 (fl32 (of_nat (unat base_transaction_fee)) *
                                     discount_percentage)\<rfloor>;
                 discounted_fee = base_transaction_fee - fee_discount
             in Some (max discounted_fee MINIMUM_FEE) })"

lemma unat_of_int_u64: "0 \<le> k \<Longrightarrow> k < 2 ^ 64 \<Longrightarrow> unat (word_of_int k :: u64) = nat k"
  using take_bit_int_eq_self [of k 64] by (simp add: unat_eq_nat_uint uint_word_of_int_eq)

subsection \<open>The discount\<close>

text \<open>
  The discount is the rounding of the documented percentage: two percent for every zero
  above the minimum, with the count capped at the maximum.
\<close>

lemma discount_eq:
  assumes "zeros \<le> 256"
  shows "calculate_transaction_discount zeros =
     Some (fl32 (of_nat ((min zeros MAXIMUM_POW_ZEROS - MINIMUM_POW_ZEROS) * 2) / 100))"
proof -
  have ex: "fl32 (of_nat n) = of_nat n" if "n \<le> 2 ^ 24" for n
    using fl_round_exact [of 24 n] that by simp
  show ?thesis
  proof (cases "zeros \<le> MINIMUM_POW_ZEROS \<or> MAXIMUM_POW_ZEROS \<le> zeros")
    case True
    then show ?thesis
      using assms ex [of 15] ex [of 30] ex [of 2]
      by (auto simp: calculate_transaction_discount_def config fl_round_def [of _ 0])
  next
    case False
    then have z: "1 < zeros" "zeros < 16" by (auto simp: config)
    have "rat_of_nat zeros - 1 = of_nat (zeros - 1)" using z by (simp add: of_nat_diff)
    then show ?thesis
      using assms z ex [of zeros] ex [of 1] ex [of "zeros - 1"] ex [of "(zeros - 1) * 2"]
      by (simp add: calculate_transaction_discount_def config)
  qed
qed

lemma discount_bounds:
  assumes "zeros \<le> 256"
  obtains d where "calculate_transaction_discount zeros = Some d" "0 \<le> d"
    "d \<le> 3 / 10 * (1 + 1 / 2 ^ 24)"
proof -
  define n where "n = (min zeros MAXIMUM_POW_ZEROS - MINIMUM_POW_ZEROS) * 2"
  have n: "n \<le> 30" by (simp add: n_def config)
  have "rat_of_nat n \<le> rat_of_nat 30" using n by (simp only: of_nat_le_iff)
  then have "fl32 (of_nat n / 100) \<le> fl32 (3 / 10)" by (intro fl_round_mono) simp_all
  also have "\<dots> \<le> 3 / 10 * (1 + 1 / 2 ^ 24)" by (rule fl_round_le) simp
  finally show thesis
    using that discount_eq [OF assms] fl_round_nonneg by (simp add: n_def)
qed

lemma discount_mono:
  assumes "zeros \<le> zeros'" "zeros' \<le> 256"
  obtains d d' where "calculate_transaction_discount zeros = Some d"
    "calculate_transaction_discount zeros' = Some d'" "0 \<le> d" "d \<le> d'"
proof -
  have "(min zeros MAXIMUM_POW_ZEROS - MINIMUM_POW_ZEROS) * 2
      \<le> (min zeros' MAXIMUM_POW_ZEROS - MINIMUM_POW_ZEROS) * 2"
    using assms(1) by (simp add: config)
  then have "fl32 (of_nat ((min zeros MAXIMUM_POW_ZEROS - MINIMUM_POW_ZEROS) * 2) / 100)
      \<le> fl32 (of_nat ((min zeros' MAXIMUM_POW_ZEROS - MINIMUM_POW_ZEROS) * 2) / 100)"
    by (intro fl_round_mono divide_right_mono) (simp_all del: of_nat_mult)
  then show thesis
    using that [OF discount_eq discount_eq fl_round_nonneg] assms by simp
qed

subsection \<open>The discounted fee\<close>

text \<open>The discount in atomic units, as an integer before it is stored in a \<open>uint64_t\<close>.\<close>

definition fee_discount :: "nat \<Rightarrow> rat \<Rightarrow> int" where
  "fee_discount b d = \<lfloor>fl32 (fl32 (of_nat b) * d)\<rfloor>"

lemma fee_discount_mono: "d \<le> d' \<Longrightarrow> fee_discount b d \<le> fee_discount b d'"
  unfolding fee_discount_def
  by (intro floor_mono fl_round_mono mult_left_mono fl_round_nonneg) simp_all

lemma fee_discount_bounds:
  assumes d: "0 \<le> d" "d \<le> 3 / 10 * (1 + 1 / 2 ^ 24)"
  shows "0 \<le> fee_discount b d" and "100 * fee_discount b d \<le> 31 * int b"
proof -
  show "0 \<le> fee_discount b d" by (simp add: fee_discount_def fl_round_nonneg)
  define B :: rat where "B = of_nat b"
  have B: "0 \<le> B" by (simp add: B_def)
  have "fl32 B * d \<le> B * (1 + 1 / 2 ^ 24) * (3 / 10 * (1 + 1 / 2 ^ 24))"
    using d B fl_round_le [OF B, of 24] by (intro mult_mono) simp_all
  then have "fl32 (fl32 B * d) \<le> fl32 (B * (1 + 1 / 2 ^ 24) * (3 / 10 * (1 + 1 / 2 ^ 24)))"
    by (rule fl_round_mono) simp
  also have "\<dots> \<le> B * (1 + 1 / 2 ^ 24) * (3 / 10 * (1 + 1 / 2 ^ 24)) * (1 + 1 / 2 ^ 24)"
    using B by (intro fl_round_le) simp
  also have "\<dots> \<le> B * (31 / 100)"
    using mult_left_mono [OF _ B, of "(1 + 1 / 2 ^ 24) * (3 / 10 * (1 + 1 / 2 ^ 24)) * (1 + 1 / 2 ^ 24)" "31 / 100"]
    by (simp add: mult.assoc)
  finally have le: "fl32 (fl32 B * d) \<le> B * (31 / 100)" .
  have "rat_of_int (fee_discount b d) \<le> fl32 (fl32 B * d)" by (simp add: fee_discount_def B_def)
  then have "rat_of_int (100 * fee_discount b d) \<le> rat_of_int (31 * int b)"
    using le by (simp add: B_def)
  then show "100 * fee_discount b d \<le> 31 * int b" by (simp only: of_int_le_iff)
qed

text \<open>The subtraction of the discount does not wrap around.\<close>

lemma fee_eq:
  assumes "zeros \<le> 256" "calculate_transaction_discount zeros = Some d"
  obtains f where "calculate_transaction_fee s zeros = Some f"
    "int (unat f) = max (int (unat (calculate_base_transaction_fee s)) -
       fee_discount (unat (calculate_base_transaction_fee s)) d) (int (unat MINIMUM_FEE))"
proof -
  define b where "b = calculate_base_transaction_fee s"
  define D where "D = fee_discount (unat b) d"
  obtain d' where "calculate_transaction_discount zeros = Some d'" "0 \<le> d'"
      "d' \<le> 3 / 10 * (1 + 1 / 2 ^ 24)" by (rule discount_bounds [OF assms(1)])
  then have d: "0 \<le> d" "d \<le> 3 / 10 * (1 + 1 / 2 ^ 24)" using assms(2) by auto
  have D: "0 \<le> D" "100 * D \<le> 31 * int (unat b)"
    unfolding D_def by (rule fee_discount_bounds [OF d])+
  have lt: "D < 2 ^ 64" using D unsigned_less [of b, where 'a = int] by simp
  have u: "unat (word_of_int D :: u64) = nat D" by (rule unat_of_int_u64 [OF D(1) lt])
  have nD: "nat D \<le> unat b" using D by linarith
  then have "(word_of_int D :: u64) \<le> b" by (simp add: word_le_nat_alt u)
  then have "unat (b - word_of_int D) = unat b - nat D" by (simp only: unat_sub u)
  then have "int (unat (b - word_of_int D)) = int (unat b) - D" using nD D(1) by linarith
  moreover have "unat (max (x::u64) y) = max (unat x) (unat y)" for x y
    by (auto simp: max_def word_le_nat_alt)
  ultimately have m: "int (unat (max (b - word_of_int D) MINIMUM_FEE)) =
      max (int (unat b) - D) (int (unat MINIMUM_FEE))"
    by (simp add: of_nat_max)
  have "calculate_transaction_fee s zeros = Some (max (b - word_of_int D) MINIMUM_FEE)"
    using assms by (simp add: calculate_transaction_fee_def b_def D_def fee_discount_def Let_def)
  then show thesis using that m by (simp add: b_def D_def)
qed

subsection \<open>The base fee\<close>

text \<open>
  The number of chunks above the free zone, and the fee it gives. For every size a
  \<open>double\<close> represents exactly the fee is that of integer arithmetic.
\<close>

definition base_chunks :: "nat \<Rightarrow> int" where
  "base_chunks n = \<lceil>fl64 (fl64 (of_nat n) / fl64 (of_nat (unat CHUNK_SIZE)))\<rceil>"

lemma fl64_32 [simp]: "fl64 32 = 32"
  using fl_round_exact [of 53 32] by simp

lemma base_chunks_eq: "base_chunks n = \<lceil>fl64 (fl64 (of_nat n) / 32)\<rceil>"
  by (simp add: base_chunks_def config)

lemma base_chunks_mono: "m \<le> n \<Longrightarrow> base_chunks m \<le> base_chunks n"
  unfolding base_chunks_eq by (intro ceiling_mono fl_round_mono divide_right_mono) simp_all

lemma base_chunks_bounds:
  assumes "n < 2 ^ 64" shows "0 \<le> base_chunks n" and "base_chunks n \<le> 2 ^ 61"
proof -
  show "0 \<le> base_chunks n"
    unfolding base_chunks_eq using fl_round_nonneg [of 53 "fl64 (of_nat n) / 32"] by linarith
  have "rat_of_nat n \<le> 2 ^ 64" using assms by (simp add: less_imp_le flip: of_nat_less_iff)
  then have "fl64 (of_nat n) \<le> 2 ^ 65" using fl_round_le_double [of "of_nat n" 53] by simp
  then have "fl64 (fl64 (of_nat n) / 32) \<le> 2 ^ 61"
    using fl_round_le_double [of "fl64 (of_nat n) / 32" 53] fl_round_nonneg [of 53 "of_nat n"] by simp
  then show "base_chunks n \<le> 2 ^ 61" unfolding base_chunks_eq by (simp add: ceiling_le_iff)
qed

lemma base_fee_unat:
  "unat (calculate_base_transaction_fee s) =
     (if unat s \<le> 320 then 1 else nat (base_chunks (unat s - 320)) + 1)"
proof (cases "unat s \<le> 320")
  case True
  then show ?thesis by (simp add: calculate_base_transaction_fee_def config word_le_nat_alt)
next
  case False
  define n where "n = unat s - 320"
  have le: "320 \<le> s" using False by (simp add: word_le_nat_alt)
  have n: "unat (s - 320) = n" using unat_sub [OF le] by (simp add: n_def)
  have lt: "n < 2 ^ 64" using unsigned_less [of s, where 'a = nat] by (simp add: n_def)
  note B = base_chunks_bounds [OF lt]
  have u: "unat (word_of_int (base_chunks n) :: u64) = nat (base_chunks n)"
    using B by (intro unat_of_int_u64) simp_all
  have "unat (word_of_int (base_chunks n) + 1 :: u64) = nat (base_chunks n) + 1"
    using B u by (subst unat_add_lem [THEN iffD1]) simp_all
  moreover have "calculate_base_transaction_fee s = word_of_int (base_chunks (unat (s - 320))) + 1"
    using False
    by (simp add: calculate_base_transaction_fee_def config word_le_nat_alt Let_def base_chunks_eq)
  ultimately show ?thesis using False by (simp add: n n_def [symmetric])
qed

lemma base_fee_pos: "1 \<le> unat (calculate_base_transaction_fee s)"
  by (simp add: base_fee_unat)

lemma base_fee_mono:
  "s \<le> t \<Longrightarrow> calculate_base_transaction_fee s \<le> calculate_base_transaction_fee t"
  unfolding word_le_nat_alt base_fee_unat
  by (auto intro!: nat_mono base_chunks_mono)

lemma base_chunks_exact:
  assumes "n \<le> 2 ^ 53" shows "base_chunks n = int ((n + 31) div 32)"
proof -
  have n: "fl64 (of_nat n) = of_nat n" by (rule fl_round_exact) (use assms in simp_all)
  have "fl64 (of_nat n / 32) = of_nat n / 32"
    using fl_round_scale [of 53 "of_nat n" 5] n by simp
  then have "base_chunks n = \<lceil>rat_of_nat n / 32\<rceil>" by (simp only: base_chunks_eq n)
  also have "\<dots> = \<lceil>rat_of_nat n / rat_of_nat 32\<rceil>" by simp
  also have "\<dots> = int ((n + 31) div 32)" by (simp only: ceiling_divide_nat)
  finally show ?thesis .
qed

section \<open>Addresses\<close>

definition address_encode :: "'z crypto_scheme \<Rightarrow> crypto_public_key_t \<Rightarrow> crypto_public_key_t \<Rightarrow> string" where
  "address_encode C public_spend public_view =
     base58_encode C
       (w_varint C PUBLIC_ADDRESS_PREFIX @ w_key C public_spend @ w_key C public_view)"

definition address_decode ::
  "'z crypto_scheme \<Rightarrow> string \<Rightarrow> ErrorCode \<times> crypto_public_key_t \<times> crypto_public_key_t" where
  "address_decode C address =
     (case base58_decode C address of
        None \<Rightarrow> (BASE58_DECODE, key_default C, key_default C)
      | Some decoded \<Rightarrow>
          (case r_varint C decoded of
             None \<Rightarrow> (ADDRESS_DECODE, key_default C, key_default C)
           | Some (address_prefix, rest) \<Rightarrow>
               if address_prefix \<noteq> PUBLIC_ADDRESS_PREFIX
               then (ADDRESS_PREFIX_MISMATCH, key_default C, key_default C)
               else (case do { (public_spend, rest) \<leftarrow> r_key C rest;
                               (public_view, _) \<leftarrow> r_key C rest;
                               Some (public_spend, public_view) } of
                       None \<Rightarrow> (ADDRESS_DECODE, key_default C, key_default C)
                     | Some (public_spend, public_view) \<Rightarrow>
                         (SUCCESS, public_spend, public_view))))"

lemma address_decode_encode:
  assumes "crypto_laws C"
  shows "address_decode C (address_encode C s v) = (SUCCESS, s, v)"
  by (simp add: address_decode_def address_encode_def crypto_lawsD(6) [OF assms]
        wire crypto_lawsD(1) [OF assms])

end
