(* ===== verification/Lmdb_Progress.thy ===== *)
theory Lmdb_Progress
  imports Lmdb_Atomic Network_Fees
begin

text \<open>
  That the loop of the macro \<open>MDB_CHECK_TXN_EXPAND\<close> comes to an end. Each round that starts over
  has grown the memory map by at least a page, so it suffices that the library reports a full
  map (or a full transaction) only while the map is smaller than some bound. Nothing is assumed
  of the outcome of the calls otherwise: an expansion that fails ends the loop with the error.
\<close>

section \<open>What the library has to promise\<close>

definition mapsize :: "('e, 't, 'z) lmdb_scheme \<Rightarrow> 'e \<Rightarrow> nat" where
  "mapsize L e = unat (snd (mdb_env_info L e))"

text \<open>
  \<open>tm t\<close> is the size of the map when the transaction \<open>t\<close> began. \<open>bound\<close> is the size from which
  on nothing is reported full. The library makes the map no smaller than what was asked for.
\<close>

definition growth_laws :: "('e, 't, 'z) lmdb_scheme \<Rightarrow> ('t \<Rightarrow> nat) \<Rightarrow> nat \<Rightarrow> bool" where
  "growth_laws L tm bound \<longleftrightarrow>
     bound \<le> 2 ^ 63 \<and>
     (\<forall>e. 0 < snd (mdb_env_stat L e)) \<and>
     (\<forall>e ro rc t e'. mdb_txn_begin L e ro = (rc, t, e') \<longrightarrow>
        mapsize L e' = mapsize L e \<and> (rc = 0 \<longrightarrow> tm t = mapsize L e)) \<and>
     (\<forall>e rc e'. mdb_env_set_mapsize L e 0 = (rc, e') \<longrightarrow> mapsize L e \<le> mapsize L e') \<and>
     (\<forall>e n e'. n \<noteq> 0 \<longrightarrow> mdb_env_set_mapsize L e n = (0, e') \<longrightarrow> unat n \<le> mapsize L e') \<and>
     (\<forall>t e. mapsize L (mdb_txn_abort L t e) = mapsize L e) \<and>
     (\<forall>t e rc e'. mdb_txn_commit L t e = (rc, e') \<longrightarrow>
        mapsize L e' = mapsize L e \<and> (map_full (ErrorCode rc) \<longrightarrow> tm t < bound)) \<and>
     (\<forall>t d k v f rc t'. mdb_put L t d k v f = (rc, t') \<longrightarrow>
        tm t' = tm t \<and> (map_full (ErrorCode rc) \<longrightarrow> tm t < bound)) \<and>
     (\<forall>t d k x rc t'. mdb_del L t d k x = (rc, t') \<longrightarrow>
        tm t' = tm t \<and> (map_full (ErrorCode rc) \<longrightarrow> tm t < bound))"

lemmas growth_lawsD =
  iffD1 [OF growth_laws_def, THEN conjunct1]
  iffD1 [OF growth_laws_def, THEN conjunct2, THEN conjunct1, rule_format]
  iffD1 [OF growth_laws_def, THEN conjunct2, THEN conjunct2, THEN conjunct1, rule_format]
  iffD1 [OF growth_laws_def, THEN conjunct2, THEN conjunct2, THEN conjunct2, THEN conjunct1, rule_format]
  iffD1 [OF growth_laws_def, THEN conjunct2, THEN conjunct2, THEN conjunct2, THEN conjunct2,
    THEN conjunct1, rule_format]
  iffD1 [OF growth_laws_def, THEN conjunct2, THEN conjunct2, THEN conjunct2, THEN conjunct2,
    THEN conjunct2, THEN conjunct1, rule_format]
  iffD1 [OF growth_laws_def, THEN conjunct2, THEN conjunct2, THEN conjunct2, THEN conjunct2,
    THEN conjunct2, THEN conjunct2, THEN conjunct1, rule_format]
  iffD1 [OF growth_laws_def, THEN conjunct2, THEN conjunct2, THEN conjunct2, THEN conjunct2,
    THEN conjunct2, THEN conjunct2, THEN conjunct2, THEN conjunct1, rule_format]
  iffD1 [OF growth_laws_def, THEN conjunct2, THEN conjunct2, THEN conjunct2, THEN conjunct2,
    THEN conjunct2, THEN conjunct2, THEN conjunct2, THEN conjunct2, rule_format]

section \<open>Growing the map\<close>

text \<open>The pages that \<open>expand\<close> asks for: at least one, and not so many that the size wraps around.\<close>

lemma pages_bounds:
  assumes mem: "0 < memory" "memory < 2 ^ 60" and psize: "0 < psize" "psize < 2 ^ 32"
  defines "pages \<equiv> \<lceil>fl64 (fl64 (rat_of_nat memory) / fl64 (rat_of_nat psize))\<rceil>"
  shows "1 \<le> pages" and "pages * int psize \<le> 2 ^ 62 + 2 ^ 32"
proof -
  have p: "fl64 (rat_of_nat psize) = of_nat psize" using psize by (intro fl_round_exact) simp_all
  have P: "0 < rat_of_nat psize" using psize by simp
  have M: "0 < rat_of_nat memory" using mem by simp
  have "0 < fl64 (rat_of_nat memory)" using M by (intro fl_round_pos) simp_all
  then have Q: "0 < fl64 (rat_of_nat memory) / of_nat psize" using P by simp
  then have "0 < fl64 (fl64 (rat_of_nat memory) / of_nat psize)"
    by (intro fl_round_pos) simp_all
  then show "1 \<le> pages" unfolding pages_def p by (simp add: le_ceiling_iff)
  have "fl64 (rat_of_nat memory) \<le> 2 * of_nat memory" using M by (intro fl_round_le_double) simp
  then have "fl64 (rat_of_nat memory) / of_nat psize \<le> 2 * of_nat memory / of_nat psize"
    using P by (intro divide_right_mono) simp_all
  then have "fl64 (fl64 (rat_of_nat memory) / of_nat psize) \<le> 4 * of_nat memory / of_nat psize"
    using fl_round_le_double [OF less_imp_le [OF Q], of 53] by simp
  then have "rat_of_int pages < 4 * of_nat memory / of_nat psize + 1"
    unfolding pages_def p by linarith
  then have "rat_of_int pages * of_nat psize < (4 * of_nat memory / of_nat psize + 1) * of_nat psize"
    using P by (rule mult_strict_right_mono)
  then have "rat_of_int (pages * int psize) < rat_of_int (4 * int memory + int psize)"
    using P by (simp add: distrib_right)
  then have "pages * int psize < 4 * int memory + int psize" by (simp only: of_int_less_iff)
  then show "pages * int psize \<le> 2 ^ 62 + 2 ^ 32" using mem psize by simp
qed

definition grows :: "'e LMDB \<Rightarrow> bool" where
  "grows E \<longleftrightarrow> 0 < m_growth_factor E \<and> m_growth_factor E < 2 ^ 40"

text \<open>The size of the map of an environment that is open.\<close>

definition env_mapsize :: "('e, 't, 'z) lmdb_scheme \<Rightarrow> 'e LMDB \<Rightarrow> nat" where
  "env_mapsize L E = (case m_env E of None \<Rightarrow> 0 | Some e \<Rightarrow> mapsize L e)"

lemma growth_memory:
  assumes "grows E"
  shows "unat (m_growth_factor E * 1024 * 1024) = unat (m_growth_factor E) * 2 ^ 20"
proof -
  have g: "unat (m_growth_factor E) < 2 ^ 40"
    using assms by (simp add: grows_def word_less_nat_alt)
  have "m_growth_factor E * 1024 * 1024 = word_of_nat (unat (m_growth_factor E) * 2 ^ 20)"
    by (simp add: mult.assoc)
  then show ?thesis using g by (simp only:) (rule unat_of_nat_u64, simp)
qed

lemma expand_grows:
  assumes G: "growth_laws L tm bound" and g: "grows E"
    and E: "m_env E = Some e" "mapsize L e < bound" and x: "lmdb_expand L E = (SUCCESS, E')"
  shows "env_mapsize L E < env_mapsize L E'"
proof -
  define psize where "psize = snd (mdb_env_stat L e)"
  define memory where "memory = unat (m_growth_factor E * 1024 * 1024)"
  define pages where "pages = \<lceil>fl64 (fl64 (rat_of_nat memory) / fl64 (rat_of_nat (unat psize)))\<rceil>"
  have m: "0 < memory" "memory < 2 ^ 60"
    using g unfolding memory_def growth_memory [OF g]
    by (auto simp: grows_def word_less_nat_alt unat_gt_0)
  have p: "0 < unat psize" "unat psize < 2 ^ 32"
    using growth_lawsD(2) [OF G, of e] unsigned_less [of psize, where 'a = nat]
    by (simp_all add: psize_def word_less_nat_alt)
  note P = pages_bounds [OF m p, folded pages_def]
  have upages: "unat (word_of_int pages :: u64) = nat pages"
  proof (rule unat_of_int_u64)
    have "1 \<le> int (unat psize)" using p(1) by linarith
    then have "pages * 1 \<le> pages * int (unat psize)" using P(1) by (intro mult_left_mono) linarith+
    then show "pages < 2 ^ 64" using P(2) by simp
  qed (use P(1) in simp)
  have up: "unat (ucast psize :: u64) = unat psize" using p(2) by (simp add: unsigned_ucast_eq take_bit_nat_eq_self)
  define new where "new = ucast psize * (word_of_int pages :: u64) + snd (mdb_env_info L e)"
  have mp: "unat psize * nat pages \<le> 2 ^ 62 + 2 ^ 32" "1 \<le> unat psize * nat pages"
  proof -
    have "int (unat psize * nat pages) = pages * int (unat psize)" using P(1) by simp
    then have "int (unat psize * nat pages) \<le> int (2 ^ 62 + 2 ^ 32)"
      using P(2) by (simp only: of_nat_add of_nat_power of_nat_numeral)
    then show "unat psize * nat pages \<le> 2 ^ 62 + 2 ^ 32" by (simp only: of_nat_le_iff)
    show "1 \<le> unat psize * nat pages" using P(1) p(1) by simp
  qed
  have ms: "mapsize L e < 2 ^ 63" using E(2) growth_lawsD(1) [OF G] by simp
  have unew: "unat new = unat psize * nat pages + mapsize L e"
  proof -
    have "unat (ucast psize * (word_of_int pages :: u64)) = unat psize * nat pages"
      using mp by (subst unat_mult_lem [THEN iffD1]) (simp_all add: up upages)
    then show ?thesis unfolding new_def mapsize_def
      using mp ms by (subst unat_add_lem [THEN iffD1]) (simp_all add: mapsize_def)
  qed
  have "\<exists>e'. mdb_env_set_mapsize L e new = (0, e') \<and> m_env E' = Some e'"
    using x E(1)
    by (auto simp: lmdb_expand_def memory_to_pages_def expand_pages_def lmdb_stats_def lmdb_info_def
        new_def pages_def memory_def psize_def Let_def split: prod.splits if_splits)
  then obtain e' where e': "mdb_env_set_mapsize L e new = (0, e')" "m_env E' = Some e'" by blast
  have "new \<noteq> 0"
  proof
    assume "new = 0"
    then show False using unew mp(2) by simp
  qed
  then have "unat new \<le> mapsize L e'" using growth_lawsD(5) [OF G _ e'(1)] by simp
  then have "mapsize L e < mapsize L e'" using unew mp(2) by linarith
  then show ?thesis using E(1) e'(2) by (simp add: env_mapsize_def)
qed

section \<open>The loop ends\<close>

text \<open>A step that reports a full map only below the bound, and keeps what the transaction began with.\<close>

definition bounded_step :: "('t \<Rightarrow> nat) \<Rightarrow> nat \<Rightarrow> 't txn_step \<Rightarrow> bool" where
  "bounded_step tm bound f \<longleftrightarrow>
     (\<forall>T err T'. f T = (err, T') \<longrightarrow>
        tm (txn_handle T') = tm (txn_handle T) \<and> (map_full err \<longrightarrow> tm (txn_handle T) < bound))"

lemma bounded_put: "growth_laws L tm bound \<Longrightarrow>
    bounded_step tm bound (\<lambda>T. txn_put L key value flags (set_database d T))"
  by (auto simp: bounded_step_def txn_put_def set_database_def Let_def
      dest: growth_lawsD(8) split: prod.splits)

lemma bounded_put': "growth_laws L tm bound \<Longrightarrow> bounded_step tm bound (txn_put L key value flags)"
  by (auto simp: bounded_step_def txn_put_def Let_def dest: growth_lawsD(8) split: prod.splits)

lemma bounded_del: "growth_laws L tm bound \<Longrightarrow>
    bounded_step tm bound (\<lambda>T. txn_del L key (set_database d T))"
  by (auto simp: bounded_step_def txn_del_def set_database_def Let_def
      dest: growth_lawsD(9) split: prod.splits)

lemma bounded_del': "growth_laws L tm bound \<Longrightarrow> bounded_step tm bound (txn_del L key)"
  by (auto simp: bounded_step_def txn_del_def Let_def dest: growth_lawsD(9) split: prod.splits)

text \<open>A round that starts over has grown the map, and began below the bound.\<close>

lemma expand_or_return_grows:
  assumes "growth_laws L tm bound" "grows E" "env_mapsize L E < bound" "m_env E \<noteq> None"
    "expand_or_return L err E = (E', None)"
  shows "env_mapsize L E < env_mapsize L E'"
  using assms(3-5) expand_grows [OF assms(1,2)]
  by (auto simp: expand_or_return_def env_mapsize_def split: prod.splits if_splits)

lemma env_mapsize_unregister [simp]:
  "env_mapsize L (transaction_unregister ro E) = env_mapsize L E"
  "env_mapsize L (transaction_register ro E) = env_mapsize L E"
  "grows (E\<lparr>m_env := x\<rparr>) = grows E"
  "grows (transaction_unregister ro E) = grows E"
  "grows (transaction_register ro E) = grows E"
  "m_env (transaction_unregister ro E) = m_env E"
  "m_env (transaction_register ro E) = m_env E"
  by (simp_all add: transaction_unregister_def transaction_register_def env_mapsize_def grows_def)

lemma txn_run_grows:
  assumes G: "growth_laws L tm bound" and fs: "\<forall>f \<in> set fs. bounded_step tm bound f"
    and E: "grows E" "m_env E \<noteq> None" "tm (txn_handle T) = env_mapsize L E"
    and r: "txn_run L fs T E = (E', None)"
  shows "env_mapsize L E < bound \<and> env_mapsize L E < env_mapsize L E'"
  using fs E(3) r
proof (induction fs arbitrary: T)
  case Nil
  obtain e where e: "m_env E = Some e" using E(2) by blast
  obtain rc e' where cm: "mdb_txn_commit L (txn_handle T) e = (rc, e')" by fastforce
  define E1 where "E1 = transaction_unregister (txn_readonly T) (E\<lparr>m_env := Some e'\<rparr>)"
  have x: "map_full (ErrorCode rc)" "expand_or_return L (ErrorCode rc) E1 = (E', None)"
    using Nil.prems(3) e cm
    by (auto simp: txn_commit_def txn_abort_def E1_def split: if_splits)
  have s: "env_mapsize L E1 = env_mapsize L E" "env_mapsize L E < bound"
    using growth_lawsD(7) [OF G cm] x(1) e Nil.prems(2)
    by (auto simp: E1_def) (auto simp: env_mapsize_def)
  have "grows E1" "m_env E1 \<noteq> None" using E(1) by (simp_all add: E1_def)
  then show ?case using expand_or_return_grows [OF G _ _ _ x(2)] s by simp
next
  case (Cons f fs)
  obtain err T1 where f: "f T = (err, T1)" by fastforce
  have b: "tm (txn_handle T1) = tm (txn_handle T)" "map_full err \<Longrightarrow> tm (txn_handle T) < bound"
    using Cons.prems(1) f by (auto simp: bounded_step_def)
  show ?case
  proof (cases "map_full err")
    case True
    define E1 where "E1 = txn_abort L (Some T1) E"
    have x: "expand_or_return L err E1 = (E', None)" using Cons.prems(3) f True by (simp add: E1_def)
    have s: "env_mapsize L E1 = env_mapsize L E" "grows E1" "m_env E1 \<noteq> None"
      using E growth_lawsD(6) [OF G] by (auto simp: E1_def txn_abort_def) (auto simp: env_mapsize_def)
    show ?thesis
      using expand_or_return_grows [OF G s(2) _ s(3) x] s(1) b(2) [OF True] Cons.prems(2) by simp
  next
    case False
    then show ?thesis
      using Cons.IH [of T1] Cons.prems f b(1) by (auto split: if_splits)
  qed
qed

lemma txn_setup_grows:
  assumes G: "growth_laws L tm bound" and E: "grows E" "m_env E \<noteq> None"
    and s: "txn_setup_loop L ro n E = (r, E')"
  shows "grows E' \<and> m_env E' \<noteq> None \<and> env_mapsize L E \<le> env_mapsize L E' \<and>
         (\<forall>t. r = Some t \<longrightarrow> tm t = env_mapsize L E')"
  using E s
proof (induction n arbitrary: E)
  case 0
  then show ?case
    using growth_lawsD(3) [OF G]
    by (fastforce simp: txn_setup_loop.simps env_mapsize_def grows_def Let_def
        split: prod.splits if_splits)
next
  case (Suc n)
  obtain e where e: "m_env E = Some e" using Suc.prems by auto
  obtain rc t e' where b: "mdb_txn_begin L e ro = (rc, t, e')" using prod_cases3 by blast
  define E1 where "E1 = E\<lparr>m_env := Some e'\<rparr>"
  have E1: "grows E1" "m_env E1 \<noteq> None" "env_mapsize L E1 = env_mapsize L E"
    using Suc.prems(1) e growth_lawsD(3) [OF G b] by (auto simp: E1_def grows_def env_mapsize_def)
  show ?case
  proof (cases "rc \<noteq> 0 \<and> ErrorCode rc = LMDB_MAP_RESIZED")
    case True
    define E2 where "E2 = snd (detect_map_size L E1)"
    have E2: "grows E2" "m_env E2 \<noteq> None" "env_mapsize L E1 \<le> env_mapsize L E2"
      using E1(1,2) growth_lawsD(4) [OF G]
      by (auto simp: E2_def detect_map_size_def grows_def env_mapsize_def Let_def split: prod.splits)
    have "txn_setup_loop L ro n E2 = (r, E')"
      using True Suc.prems(3) e b by (simp add: txn_setup_loop.simps [of L ro "Suc n"] E1_def E2_def)
    then show ?thesis using Suc.IH [OF E2(1,2)] E1(3) E2(3) by auto
  next
    case False
    then show ?thesis
      using Suc.prems(3) e b E1 growth_lawsD(3) [OF G b]
      by (auto simp: txn_setup_loop.simps [of L ro "Suc n"] Let_def E1_def env_mapsize_def split: if_splits)
  qed
qed

text \<open>So a loop whose body opens a transaction and runs bounded steps returns.\<close>

lemma txn_loop_returns:
  assumes G: "growth_laws L tm bound" and fs: "\<forall>f \<in> set fs. bounded_step tm bound f"
    and at: "atomic_body ev (m_databases E) gs body"
    and E: "grows E" "m_env E \<noteq> None" "m_open_txns E + 1 \<noteq> 0"
    and body: "\<And>E1. m_databases E1 = m_databases E \<Longrightarrow> body E1 =
      (case opn E1 of (Thrown, E1) \<Rightarrow> (E1, Some Thrown) | (Returned T, E1) \<Rightarrow> txn_run L fs T E1)"
    and opn: "\<And>E1. m_databases E1 = m_databases E \<Longrightarrow>
      opn E1 = (Thrown, E1) \<or> (\<exists>d. opn E1 = txn_setup L d False E1)"
  shows "\<exists>y. try_again body E = Some y"
proof (rule try_again_returns [where I = "\<lambda>E1. frame E E1 \<and> m_env E1 \<noteq> None"
      and m = "\<lambda>E1. bound - env_mapsize L E1"])
  show "frame E E \<and> m_env E \<noteq> None" using E by simp
next
  fix E1 E3 assume I: "frame E E1 \<and> m_env E1 \<noteq> None" and b: "body E1 = (E3, None)"
  note M = frameD(2) [OF conjunct1 [OF I]]
  obtain d where d: "opn E1 = txn_setup L d False E1" using opn [OF M] b by (auto simp: body [OF M])
  obtain T E2 where o1: "txn_setup L d False E1 = (Returned T, E2)" and
      run: "txn_run L fs T E2 = (E3, None)"
    using b d by (auto simp: body [OF M] split: prod.splits outcome.splits)
  obtain E0 where s: "txn_setup_loop L False 2 E1 = (Some (txn_handle T), E0)"
      "E2 = transaction_register False E0"
    using o1 by (auto simp: txn_setup_def split: prod.splits option.splits)
  have "grows E1" using E(1) I by (auto simp: grows_def frame_def)
  then have S: "grows E2" "m_env E2 \<noteq> None" "env_mapsize L E1 \<le> env_mapsize L E2"
      "tm (txn_handle T) = env_mapsize L E2"
    using txn_setup_grows [OF G _ _ s(1)] I by (auto simp: s(2))
  have "env_mapsize L E2 < bound \<and> env_mapsize L E2 < env_mapsize L E3"
    by (rule txn_run_grows [OF G fs S(1,2,4) run])
  moreover have "frame E E3 \<and> m_env E3 \<noteq> None"
  proof -
    obtain e where "stored ev E1 (ev e)" using I by (auto simp: stored_def)
    moreover have "m_open_txns E1 + 1 \<noteq> 0" using frameD(1) [OF conjunct1 [OF I]] E(3) by simp
    ultimately have "run_ok ev gs E1 (ev e) (E3, None)"
      using at M b unfolding atomic_body_def by metis
    then show ?thesis using I frame_trans by (auto simp: run_ok_def stored_def)
  qed
  ultimately show "(frame E E3 \<and> m_env E3 \<noteq> None) \<and> bound - env_mapsize L E3 < bound - env_mapsize L E1"
    using S(3) by auto
qed

lemma db_run_returns:
  assumes "lmdb_laws L ev tv" "growth_laws L tm bound" "grows E" "m_env E \<noteq> None" "m_open_txns E + 1 \<noteq> 0"
    "refines tv (\<lambda>T. f (set_database (handle (m_databases E) D) T)) g" "bounded_step tm bound f"
  shows "\<exists>y. try_again (db_run L D [f]) E = Some y"
proof (rule txn_loop_returns [OF assms(2) _ db_run_atomic [OF assms(1,6)] assms(3-5)])
  show "db_run L D [f] E1 = (case db_transaction L D False E1 of (Thrown, E1) \<Rightarrow> (E1, Some Thrown)
      | (Returned T, E1) \<Rightarrow> txn_run L [f] T E1)" for E1 :: "'a LMDB"
    by (rule db_run_def)
  show "db_transaction L D False E1 = (Thrown, E1) \<or>
      (\<exists>d. db_transaction L D False E1 = txn_setup L d False E1)"
    if "m_databases E1 = m_databases E" for E1 :: "'a LMDB"
    using db_transaction_cases [OF that] by blast
qed (use assms(7) in simp)

lemma db_put_returns:
  assumes "lmdb_laws L ev tv" "growth_laws L tm bound" "grows E" "m_env E \<noteq> None" "m_open_txns E + 1 \<noteq> 0"
  shows "\<exists>E' r. db_put L D k v 0 E = Some (E', r)"
  using db_run_returns [OF assms refines_put_at [OF assms(1)] bounded_put' [OF assms(2)]]
  unfolding db_put_def by fastforce

lemma db_del_returns:
  assumes "lmdb_laws L ev tv" "growth_laws L tm bound" "grows E" "m_env E \<noteq> None" "m_open_txns E + 1 \<noteq> 0"
  shows "\<exists>E' r. db_del L D k E = Some (E', r)"
  using db_run_returns [OF assms refines_del_at [OF assms(1)] bounded_del' [OF assms(2)]]
  unfolding db_del_def by fastforce

end
