(* ===== verification/Base_Types.thy ===== *)
theory Base_Types
  imports Wire
begin

text \<open>
  The building blocks of the transactions (\<open>include/blockchain/base_types.h\<close>): the header and
  the prefix, the outputs, the body that every user transaction has, the two suffixes and the
  type-specific data. Each has its \<open>serialize\<close> and \<open>deserialize\<close> method and implements the
  interface \<open>wire_format\<close>; the outputs have \<open>check_construction\<close>, \<open>hash\<close> and the comparisons
  as well. An object the program reads into is the record the reader returns.
\<close>

section \<open>Transaction types\<close>

datatype TransactionType = GENESIS | STAKER | NORMAL | STAKE | RECALL_STAKE | STAKE_REFUND

fun type_number :: "TransactionType \<Rightarrow> u64" where
  "type_number GENESIS = 0"
| "type_number STAKER = 1"
| "type_number NORMAL = 2"
| "type_number STAKE = 3"
| "type_number RECALL_STAKE = 4"
| "type_number STAKE_REFUND = 5"

lemma type_number_inject: "type_number t = type_number u \<longleftrightarrow> t = u"
  by (cases t; cases u) simp_all

section \<open>Header and prefix\<close>

record TransactionHeader =
  l_type :: u64
  version :: u64

definition deserialize_header :: "'z codec_scheme \<Rightarrow> TransactionHeader reader" where
  "deserialize_header C bs =
     do { (t, bs) \<leftarrow> r_varint C bs;
          (v, bs) \<leftarrow> r_varint C bs;
          Some (\<lparr>l_type = t, version = v\<rparr>, bs) }"

definition serialize_header :: "'z codec_scheme \<Rightarrow> 'h TransactionHeader_scheme \<Rightarrow> bytes" where
  "serialize_header C h = w_varint C (l_type h) @ w_varint C (version h)"

interpretation header: wire_format codec_laws "\<lambda>_ _. True" serialize_header deserialize_header
  by unfold_locales (simp add: serialize_header_def deserialize_header_def wire)

record TransactionPrefix = TransactionHeader +
  unlock_block :: u64
  public_key :: crypto_public_key_t

definition deserialize_prefix :: "'z codec_scheme \<Rightarrow> TransactionPrefix reader" where
  "deserialize_prefix C bs =
     do { (h, bs) \<leftarrow> deserialize_header C bs;
          (u, bs) \<leftarrow> r_varint C bs;
          (k, bs) \<leftarrow> r_key C bs;
          Some (\<lparr>l_type = l_type h, version = version h, unlock_block = u, public_key = k\<rparr>, bs) }"

definition serialize_prefix :: "'z codec_scheme \<Rightarrow> 'p TransactionPrefix_scheme \<Rightarrow> bytes" where
  "serialize_prefix C p =
     serialize_header C p @ w_varint C (unlock_block p) @ w_key C (public_key p)"

interpretation prefix: wire_format codec_laws "\<lambda>_ _. True" serialize_prefix deserialize_prefix
  by unfold_locales
    (simp add: serialize_prefix_def deserialize_prefix_def serialize_header_def
       deserialize_header_def wire)

section \<open>Outputs\<close>

record StakerOutput =
  staker_id :: crypto_hash_t
  staker_amount :: u64

definition StakerOutput_check_construction :: "'z crypto_scheme \<Rightarrow> StakerOutput \<Rightarrow> ErrorCode" where
  "StakerOutput_check_construction C x =
     (if key_empty C (staker_id x) then TX_STAKER_REWARD_ID
      else if staker_amount x = 0 then TX_STAKER_REWARD_AMOUNT
      else SUCCESS)"

definition StakerOutput_deserialize :: "'z codec_scheme \<Rightarrow> StakerOutput reader" where
  "StakerOutput_deserialize C bs =
     do { (i, bs) \<leftarrow> r_key C bs;
          (a, bs) \<leftarrow> r_varint C bs;
          Some (\<lparr>staker_id = i, staker_amount = a\<rparr>, bs) }"

definition StakerOutput_serialize :: "'z codec_scheme \<Rightarrow> StakerOutput \<Rightarrow> bytes" where
  "StakerOutput_serialize C x = w_key C (staker_id x) @ w_varint C (staker_amount x)"

definition StakerOutput_hash :: "'z crypto_scheme \<Rightarrow> StakerOutput \<Rightarrow> crypto_hash_t" where
  "StakerOutput_hash C x = sha3 C (StakerOutput_serialize C x)"

definition StakerOutput_size :: "'z codec_scheme \<Rightarrow> StakerOutput \<Rightarrow> nat" where
  "StakerOutput_size C x = length (StakerOutput_serialize C x)"

definition StakerOutput_eq :: "'z crypto_scheme \<Rightarrow> StakerOutput \<Rightarrow> StakerOutput \<Rightarrow> bool" where
  "StakerOutput_eq C x y \<longleftrightarrow> StakerOutput_hash C x = StakerOutput_hash C y"

definition StakerOutput_less :: "'z crypto_scheme \<Rightarrow> StakerOutput \<Rightarrow> StakerOutput \<Rightarrow> bool" where
  "StakerOutput_less C x y \<longleftrightarrow> key_less C (StakerOutput_hash C x) (StakerOutput_hash C y)"

definition StakerOutput_less_eq :: "'z crypto_scheme \<Rightarrow> StakerOutput \<Rightarrow> StakerOutput \<Rightarrow> bool" where
  "StakerOutput_less_eq C x y \<longleftrightarrow> StakerOutput_eq C x y \<or> StakerOutput_less C x y"

definition StakerOutput_neq :: "'z crypto_scheme \<Rightarrow> StakerOutput \<Rightarrow> StakerOutput \<Rightarrow> bool" where
  "StakerOutput_neq C x y \<longleftrightarrow> \<not> StakerOutput_eq C x y"

definition StakerOutput_greater :: "'z crypto_scheme \<Rightarrow> StakerOutput \<Rightarrow> StakerOutput \<Rightarrow> bool" where
  "StakerOutput_greater C x y \<longleftrightarrow> key_less C (StakerOutput_hash C y) (StakerOutput_hash C x)"

definition StakerOutput_greater_eq :: "'z crypto_scheme \<Rightarrow> StakerOutput \<Rightarrow> StakerOutput \<Rightarrow> bool" where
  "StakerOutput_greater_eq C x y \<longleftrightarrow> StakerOutput_eq C x y \<or> StakerOutput_greater C x y"

text \<open>The six comparisons agree: they are those of the hashes, which are ordered.\<close>

lemma StakerOutput_comparisons:
  assumes "strict_total (key_less C)"
  shows "StakerOutput_greater_eq C x y \<longleftrightarrow> StakerOutput_less_eq C y x"
    and "\<not> StakerOutput_less C x y \<longleftrightarrow> StakerOutput_greater_eq C x y"
    and "StakerOutput_neq C x y \<longleftrightarrow> StakerOutput_less C x y \<or> StakerOutput_greater C x y"
  unfolding StakerOutput_greater_eq_def StakerOutput_less_eq_def StakerOutput_eq_def StakerOutput_less_def StakerOutput_greater_def StakerOutput_neq_def
  using strict_total_iff [OF assms] by auto

interpretation staker_output:
  wire_format codec_laws "\<lambda>_ _. True" StakerOutput_serialize StakerOutput_deserialize
  by unfold_locales (simp add: StakerOutput_serialize_def StakerOutput_deserialize_def wire)

record TransactionOutput =
  public_ephemeral :: crypto_public_key_t
  output_amount :: u64
  commitment :: crypto_pedersen_commitment_t

definition TransactionOutput_check_construction ::
  "'z crypto_scheme \<Rightarrow> TransactionOutput \<Rightarrow> ErrorCode" where
  "TransactionOutput_check_construction C x =
     (if key_empty C (public_ephemeral x) then TX_OUTPUT_PUBLIC_EPHEMERAL
      else if output_amount x = 0 then TX_OUTPUT_AMOUNT
      else if key_empty C (commitment x) then TX_OUTPUT_COMMITMENT
      else SUCCESS)"

definition TransactionOutput_deserialize :: "'z codec_scheme \<Rightarrow> TransactionOutput reader" where
  "TransactionOutput_deserialize C bs =
     do { (p, bs) \<leftarrow> r_key C bs;
          (a, bs) \<leftarrow> r_varint C bs;
          (c, bs) \<leftarrow> r_key C bs;
          Some (\<lparr>public_ephemeral = p, output_amount = a, commitment = c\<rparr>, bs) }"

definition TransactionOutput_serialize :: "'z codec_scheme \<Rightarrow> TransactionOutput \<Rightarrow> bytes" where
  "TransactionOutput_serialize C x =
     w_key C (public_ephemeral x) @ w_varint C (output_amount x) @ w_key C (commitment x)"

definition TransactionOutput_hash :: "'z crypto_scheme \<Rightarrow> TransactionOutput \<Rightarrow> crypto_hash_t" where
  "TransactionOutput_hash C x = sha3 C (TransactionOutput_serialize C x)"

definition TransactionOutput_size :: "'z codec_scheme \<Rightarrow> TransactionOutput \<Rightarrow> nat" where
  "TransactionOutput_size C x = length (TransactionOutput_serialize C x)"

definition TransactionOutput_eq ::
  "'z crypto_scheme \<Rightarrow> TransactionOutput \<Rightarrow> TransactionOutput \<Rightarrow> bool" where
  "TransactionOutput_eq C x y \<longleftrightarrow> TransactionOutput_hash C x = TransactionOutput_hash C y"

definition TransactionOutput_less ::
  "'z crypto_scheme \<Rightarrow> TransactionOutput \<Rightarrow> TransactionOutput \<Rightarrow> bool" where
  "TransactionOutput_less C x y \<longleftrightarrow>
     key_less C (TransactionOutput_hash C x) (TransactionOutput_hash C y)"

definition TransactionOutput_less_eq ::
  "'z crypto_scheme \<Rightarrow> TransactionOutput \<Rightarrow> TransactionOutput \<Rightarrow> bool" where
  "TransactionOutput_less_eq C x y \<longleftrightarrow>
     TransactionOutput_eq C x y \<or> TransactionOutput_less C x y"

definition TransactionOutput_neq :: "'z crypto_scheme \<Rightarrow> TransactionOutput \<Rightarrow> TransactionOutput \<Rightarrow> bool" where
  "TransactionOutput_neq C x y \<longleftrightarrow> \<not> TransactionOutput_eq C x y"

definition TransactionOutput_greater :: "'z crypto_scheme \<Rightarrow> TransactionOutput \<Rightarrow> TransactionOutput \<Rightarrow> bool" where
  "TransactionOutput_greater C x y \<longleftrightarrow> key_less C (TransactionOutput_hash C y) (TransactionOutput_hash C x)"

definition TransactionOutput_greater_eq :: "'z crypto_scheme \<Rightarrow> TransactionOutput \<Rightarrow> TransactionOutput \<Rightarrow> bool" where
  "TransactionOutput_greater_eq C x y \<longleftrightarrow> TransactionOutput_eq C x y \<or> TransactionOutput_greater C x y"

text \<open>The six comparisons agree: they are those of the hashes, which are ordered.\<close>

lemma TransactionOutput_comparisons:
  assumes "strict_total (key_less C)"
  shows "TransactionOutput_greater_eq C x y \<longleftrightarrow> TransactionOutput_less_eq C y x"
    and "\<not> TransactionOutput_less C x y \<longleftrightarrow> TransactionOutput_greater_eq C x y"
    and "TransactionOutput_neq C x y \<longleftrightarrow> TransactionOutput_less C x y \<or> TransactionOutput_greater C x y"
  unfolding TransactionOutput_greater_eq_def TransactionOutput_less_eq_def TransactionOutput_eq_def TransactionOutput_less_def TransactionOutput_greater_def TransactionOutput_neq_def
  using strict_total_iff [OF assms] by auto

interpretation tx_output:
  wire_format codec_laws "\<lambda>_ _. True" TransactionOutput_serialize TransactionOutput_deserialize
  by unfold_locales (simp add: TransactionOutput_serialize_def TransactionOutput_deserialize_def wire)

lemma check_outputs_success:
  "first_error (TransactionOutput_check_construction C) xs = SUCCESS \<longleftrightarrow>
     (\<forall>x \<in> set xs. \<not> key_empty C (public_ephemeral x) \<and> output_amount x \<noteq> 0 \<and>
        \<not> key_empty C (commitment x))"
  by (auto simp: first_error_success TransactionOutput_check_construction_def split: if_splits)

lemma check_staker_outputs_success:
  "first_error (StakerOutput_check_construction C) xs = SUCCESS \<longleftrightarrow>
     (\<forall>x \<in> set xs. \<not> key_empty C (staker_id x) \<and> staker_amount x \<noteq> 0)"
  by (auto simp: first_error_success StakerOutput_check_construction_def split: if_splits)

text \<open>A counted vector of outputs, as every class with outputs writes and reads it.\<close>

definition serialize_outputs :: "'z codec_scheme \<Rightarrow> TransactionOutput list \<Rightarrow> bytes" where
  "serialize_outputs C xs =
     w_varint C (word_of_nat (length xs)) @ concat (map (TransactionOutput_serialize C) xs)"

definition deserialize_outputs :: "'z codec_scheme \<Rightarrow> TransactionOutput list reader" where
  "deserialize_outputs C bs =
     do { (count, bs) \<leftarrow> r_varint C bs;
          read_many (unat count) (TransactionOutput_deserialize C) bs }"

interpretation tx_outputs: wire_format codec_laws "\<lambda>_. fits_u64" serialize_outputs deserialize_outputs
  by unfold_locales
    (simp add: serialize_outputs_def deserialize_outputs_def wire tx_output.many_back)

definition serialize_staker_outputs :: "'z codec_scheme \<Rightarrow> StakerOutput list \<Rightarrow> bytes" where
  "serialize_staker_outputs C xs =
     w_varint C (word_of_nat (length xs)) @ concat (map (StakerOutput_serialize C) xs)"

definition deserialize_staker_outputs :: "'z codec_scheme \<Rightarrow> StakerOutput list reader" where
  "deserialize_staker_outputs C bs =
     do { (count, bs) \<leftarrow> r_varint C bs;
          read_many (unat count) (StakerOutput_deserialize C) bs }"

interpretation staker_outputs:
  wire_format codec_laws "\<lambda>_. fits_u64" serialize_staker_outputs deserialize_staker_outputs
  by unfold_locales
    (simp add: serialize_staker_outputs_def deserialize_staker_outputs_def wire
       staker_output.many_back)

section \<open>The body of a user transaction\<close>

record TransactionUserBody =
  nonce :: u64
  fee :: u64
  key_images :: "crypto_key_image_t list"
  outputs :: "TransactionOutput list"

definition deserialize_body :: "'z codec_scheme \<Rightarrow> TransactionUserBody reader" where
  "deserialize_body C bs =
     do { (n, bs) \<leftarrow> r_varint C bs;
          (f, bs) \<leftarrow> r_varint C bs;
          (ks, bs) \<leftarrow> r_keyV C bs;
          (os, bs) \<leftarrow> deserialize_outputs C bs;
          Some (\<lparr>nonce = n, fee = f, key_images = ks, outputs = os\<rparr>, bs) }"

definition serialize_body :: "'z codec_scheme \<Rightarrow> TransactionUserBody \<Rightarrow> bytes" where
  "serialize_body C b =
     w_varint C (nonce b) @ w_varint C (fee b) @ w_keyV C (key_images b) @
     serialize_outputs C (outputs b)"

definition wf_body :: "TransactionUserBody \<Rightarrow> bool" where
  [wf_defs]: "wf_body b \<longleftrightarrow> fits_u64 (key_images b) \<and> fits_u64 (outputs b)"

interpretation body: wire_format codec_laws "\<lambda>_. wf_body" serialize_body deserialize_body
  by unfold_locales
    (simp add: serialize_body_def deserialize_body_def wf_body_def wire tx_outputs.read_back)

section \<open>Suffixes\<close>

text \<open>The suffix of a transaction that still carries its proofs.\<close>

record ('s, 'r) UncommittedTransactionSuffix =
  pseudo_commitments :: "crypto_pedersen_commitment_t list"
  ring_participants :: "crypto_hash_t list"
  signatures :: "'s list"
  range_proof :: 'r

definition deserialize_uncommitted_suffix ::
  "('s, 'r, 'z) proofs_scheme \<Rightarrow> ('s, 'r) UncommittedTransactionSuffix reader" where
  "deserialize_uncommitted_suffix C bs =
     do { (ps, bs) \<leftarrow> r_keyV C bs;
          (rs, bs) \<leftarrow> r_keyV C bs;
          (count, bs) \<leftarrow> r_varint C bs;
          (ss, bs) \<leftarrow> read_many (unat count) (r_clsag C) bs;
          (rp, bs) \<leftarrow> r_range_proof C bs;
          Some (\<lparr>pseudo_commitments = ps, ring_participants = rs, signatures = ss,
                 range_proof = rp\<rparr>, bs) }"

definition serialize_uncommitted_suffix ::
  "('s, 'r, 'z) proofs_scheme \<Rightarrow> ('s, 'r) UncommittedTransactionSuffix \<Rightarrow> bytes" where
  "serialize_uncommitted_suffix C x =
     w_keyV C (pseudo_commitments x) @ w_keyV C (ring_participants x) @
     w_varint C (word_of_nat (length (signatures x))) @
     concat (map (w_clsag C) (signatures x)) @ w_range_proof C (range_proof x)"

definition uncommitted_range_proof_hash ::
  "('s, 'r, 'z) proofs_scheme \<Rightarrow> ('s, 'r) UncommittedTransactionSuffix \<Rightarrow> crypto_hash_t" where
  "uncommitted_range_proof_hash C x = range_proof_digest C (range_proof x)"

definition uncommitted_signature_hash ::
  "('s, 'r, 'z) proofs_scheme \<Rightarrow> ('s, 'r) UncommittedTransactionSuffix \<Rightarrow> crypto_hash_t" where
  "uncommitted_signature_hash C x =
     sha3 C (w_keyV C (pseudo_commitments x) @ w_keyV C (ring_participants x) @
             w_varint C (word_of_nat (length (signatures x))) @
             concat (map (w_clsag C) (signatures x)))"

definition wf_uncommitted_suffix :: "('s, 'r) UncommittedTransactionSuffix \<Rightarrow> bool" where
  [wf_defs]: "wf_uncommitted_suffix x \<longleftrightarrow>
     fits_u64 (pseudo_commitments x) \<and> fits_u64 (ring_participants x) \<and> fits_u64 (signatures x)"

lemma uncommitted_suffix_read_back:
  assumes C: "proof_laws C" and x: "wf_uncommitted_suffix x"
  shows "deserialize_uncommitted_suffix C (serialize_uncommitted_suffix C x @ rest) = Some (x, rest)"
proof -
  have "read_many (length (signatures x)) (r_clsag C) (concat (map (w_clsag C) (signatures x)) @ r)
          = Some (signatures x, r)" for r
    by (rule read_many_back) (simp add: wire C)
  then show ?thesis
    using x
    by (simp add: deserialize_uncommitted_suffix_def serialize_uncommitted_suffix_def
          wf_uncommitted_suffix_def wire proof_lawsD(2) [OF C] C)
qed

interpretation uncommitted_suffix:
  wire_format proof_laws "\<lambda>_. wf_uncommitted_suffix" serialize_uncommitted_suffix
    deserialize_uncommitted_suffix
  by unfold_locales (rule uncommitted_suffix_read_back)

text \<open>The suffix of a transaction whose proofs have been replaced by their hashes.\<close>

record CommittedTransactionSuffix =
  signature_hash :: crypto_hash_t
  range_proof_hash :: crypto_hash_t

definition deserialize_committed_suffix ::
  "'z codec_scheme \<Rightarrow> CommittedTransactionSuffix reader" where
  "deserialize_committed_suffix C bs =
     do { (s, bs) \<leftarrow> r_key C bs;
          (r, bs) \<leftarrow> r_key C bs;
          Some (\<lparr>signature_hash = s, range_proof_hash = r\<rparr>, bs) }"

definition serialize_committed_suffix ::
  "'z codec_scheme \<Rightarrow> CommittedTransactionSuffix \<Rightarrow> bytes" where
  "serialize_committed_suffix C x = w_key C (signature_hash x) @ w_key C (range_proof_hash x)"

definition committed_suffix_hash ::
  "'z crypto_scheme \<Rightarrow> CommittedTransactionSuffix \<Rightarrow> crypto_hash_t" where
  "committed_suffix_hash C x = sha3 C (serialize_committed_suffix C x)"

interpretation committed_suffix:
  wire_format codec_laws "\<lambda>_ _. True" serialize_committed_suffix deserialize_committed_suffix
  by unfold_locales (simp add: serialize_committed_suffix_def deserialize_committed_suffix_def wire)

section \<open>The data of each kind of user transaction\<close>

record NormalTransactionData =
  extra :: bytes

definition deserialize_normal_data :: "'z codec_scheme \<Rightarrow> NormalTransactionData reader" where
  "deserialize_normal_data C bs =
     do { (count, bs) \<leftarrow> r_varint C bs;
          (e, bs) \<leftarrow> r_bytes C count bs;
          Some (\<lparr>extra = e\<rparr>, bs) }"

definition serialize_normal_data :: "'z codec_scheme \<Rightarrow> NormalTransactionData \<Rightarrow> bytes" where
  "serialize_normal_data C d = w_varint C (word_of_nat (length (extra d))) @ w_bytes C (extra d)"

definition wf_normal_data :: "NormalTransactionData \<Rightarrow> bool" where
  [wf_defs]: "wf_normal_data d \<longleftrightarrow> fits_u64 (extra d)"

interpretation normal_data:
  wire_format codec_laws "\<lambda>_. wf_normal_data" serialize_normal_data deserialize_normal_data
  by unfold_locales
    (simp add: serialize_normal_data_def deserialize_normal_data_def wf_normal_data_def wire)

record StakeTransactionData =
  stake_amount :: u64
  stake_candidate_public_key :: crypto_public_key_t
  staker_public_view_key :: crypto_public_key_t
  staker_public_spend_key :: crypto_public_key_t

definition deserialize_stake_data :: "'z codec_scheme \<Rightarrow> StakeTransactionData reader" where
  "deserialize_stake_data C bs =
     do { (a, bs) \<leftarrow> r_varint C bs;
          (c, bs) \<leftarrow> r_key C bs;
          (v, bs) \<leftarrow> r_key C bs;
          (s, bs) \<leftarrow> r_key C bs;
          Some (\<lparr>stake_amount = a, stake_candidate_public_key = c, staker_public_view_key = v,
                 staker_public_spend_key = s\<rparr>, bs) }"

definition serialize_stake_data :: "'z codec_scheme \<Rightarrow> StakeTransactionData \<Rightarrow> bytes" where
  "serialize_stake_data C d =
     w_varint C (stake_amount d) @ w_key C (stake_candidate_public_key d) @
     w_key C (staker_public_view_key d) @ w_key C (staker_public_spend_key d)"

interpretation stake_data:
  wire_format codec_laws "\<lambda>_ _. True" serialize_stake_data deserialize_stake_data
  by unfold_locales (simp add: serialize_stake_data_def deserialize_stake_data_def wire)

record RecallStakeTransactionData =
  recall_amount :: u64
  recall_candidate_public_key :: crypto_public_key_t
  recall_staker_id :: crypto_hash_t
  view_signature :: crypto_signature_t
  spend_signature :: crypto_signature_t

definition deserialize_recall_data :: "'z codec_scheme \<Rightarrow> RecallStakeTransactionData reader" where
  "deserialize_recall_data C bs =
     do { (a, bs) \<leftarrow> r_varint C bs;
          (c, bs) \<leftarrow> r_key C bs;
          (i, bs) \<leftarrow> r_key C bs;
          (v, bs) \<leftarrow> r_signature C bs;
          (s, bs) \<leftarrow> r_signature C bs;
          Some (\<lparr>recall_amount = a, recall_candidate_public_key = c, recall_staker_id = i,
                 view_signature = v, spend_signature = s\<rparr>, bs) }"

definition serialize_recall_data :: "'z codec_scheme \<Rightarrow> RecallStakeTransactionData \<Rightarrow> bytes" where
  "serialize_recall_data C d =
     w_varint C (recall_amount d) @ w_key C (recall_candidate_public_key d) @
     w_key C (recall_staker_id d) @ w_signature C (view_signature d) @
     w_signature C (spend_signature d)"

interpretation recall_data:
  wire_format codec_laws "\<lambda>_ _. True" serialize_recall_data deserialize_recall_data
  by unfold_locales (simp add: serialize_recall_data_def deserialize_recall_data_def wire)

text \<open>The read-back equations of the parts, for the classes that are made of them.\<close>

lemmas part_read_back [wire] =
  header.read_back prefix.read_back staker_output.read_back tx_output.read_back
  tx_outputs.read_back staker_outputs.read_back body.read_back
  uncommitted_suffix.read_back committed_suffix.read_back
  normal_data.read_back stake_data.read_back recall_data.read_back

end
