(* ===== verification/User_Transactions.thy ===== *)
theory User_Transactions
  imports Base_Types Config
begin

text \<open>
  The transactions users make (\<open>include/blockchain/transaction_normal.h\<close>,
  \<open>transaction_stake.h\<close>, \<open>transaction_recall_stake.h\<close>). Each file has a committed class,
  which is what a block stores, and an uncommitted class, which still carries the ring
  signatures and the range proof. All six are a prefix, a body, the data of their kind and a
  suffix, so one record with the types of the last two as parameters is the state of all; the
  methods that the files repeat word for word are one definition over the writer of the data,
  and every class has its own instance of it.
\<close>

record ('d, 'x) user_transaction =
  tx_prefix :: TransactionPrefix
  tx_body :: TransactionUserBody
  tx_data :: 'd
  tx_suffix :: 'x

type_synonym committed_normal_transaction_t =
  "(NormalTransactionData, CommittedTransactionSuffix) user_transaction"
type_synonym committed_stake_transaction_t =
  "(StakeTransactionData, CommittedTransactionSuffix) user_transaction"
type_synonym committed_recall_stake_transaction_t =
  "(RecallStakeTransactionData, CommittedTransactionSuffix) user_transaction"
type_synonym ('s, 'r) uncommitted_normal_transaction_t =
  "(NormalTransactionData, ('s, 'r) UncommittedTransactionSuffix) user_transaction"
type_synonym ('s, 'r) uncommitted_stake_transaction_t =
  "(StakeTransactionData, ('s, 'r) UncommittedTransactionSuffix) user_transaction"
type_synonym ('s, 'r) uncommitted_recall_stake_transaction_t =
  "(RecallStakeTransactionData, ('s, 'r) UncommittedTransactionSuffix) user_transaction"

abbreviation tx_type :: "('d, 'x) user_transaction \<Rightarrow> u64" where
  "tx_type tx \<equiv> l_type (tx_prefix tx)"

abbreviation tx_version :: "('d, 'x) user_transaction \<Rightarrow> u64" where
  "tx_version tx \<equiv> version (tx_prefix tx)"

abbreviation tx_key_images :: "('d, 'x) user_transaction \<Rightarrow> crypto_key_image_t list" where
  "tx_key_images tx \<equiv> key_images (tx_body tx)"

abbreviation tx_outs :: "('d, 'x) user_transaction \<Rightarrow> TransactionOutput list" where
  "tx_outs tx \<equiv> outputs (tx_body tx)"

abbreviation tx_fee :: "('d, 'x) user_transaction \<Rightarrow> u64" where
  "tx_fee tx \<equiv> fee (tx_body tx)"

section \<open>Serialization\<close>

definition user_deserialize ::
  "'z codec_scheme \<Rightarrow> 'd reader \<Rightarrow> 'x reader \<Rightarrow> ('d, 'x) user_transaction reader" where
  "user_deserialize C rd_data rd_suffix bs =
     do { (p, bs) \<leftarrow> deserialize_prefix C bs;
          (b, bs) \<leftarrow> deserialize_body C bs;
          (d, bs) \<leftarrow> rd_data bs;
          (x, bs) \<leftarrow> rd_suffix bs;
          Some (\<lparr>tx_prefix = p, tx_body = b, tx_data = d, tx_suffix = x\<rparr>, bs) }"

definition user_serialize_digest ::
  "'z codec_scheme \<Rightarrow> ('d \<Rightarrow> bytes) \<Rightarrow> ('d, 'x) user_transaction \<Rightarrow> bytes" where
  "user_serialize_digest C wr_data tx =
     serialize_prefix C (tx_prefix tx) @ serialize_body C (tx_body tx) @ wr_data (tx_data tx)"

definition user_serialize ::
  "'z codec_scheme \<Rightarrow> ('d \<Rightarrow> bytes) \<Rightarrow> ('x \<Rightarrow> bytes) \<Rightarrow> ('d, 'x) user_transaction \<Rightarrow> bytes" where
  "user_serialize C wr_data wr_suffix tx =
     serialize_prefix C (tx_prefix tx) @ serialize_body C (tx_body tx) @ wr_data (tx_data tx) @
     wr_suffix (tx_suffix tx)"

definition committed_normal_deserialize where
  "committed_normal_deserialize (C :: 'z codec_scheme) =
     user_deserialize C (deserialize_normal_data C) (deserialize_committed_suffix C)"

definition committed_normal_serialize where
  "committed_normal_serialize (C :: 'z codec_scheme) =
     user_serialize C (serialize_normal_data C) (serialize_committed_suffix C)"

definition committed_stake_deserialize where
  "committed_stake_deserialize (C :: 'z codec_scheme) =
     user_deserialize C (deserialize_stake_data C) (deserialize_committed_suffix C)"

definition committed_stake_serialize where
  "committed_stake_serialize (C :: 'z codec_scheme) =
     user_serialize C (serialize_stake_data C) (serialize_committed_suffix C)"

definition committed_recall_deserialize where
  "committed_recall_deserialize (C :: 'z codec_scheme) =
     user_deserialize C (deserialize_recall_data C) (deserialize_committed_suffix C)"

definition committed_recall_serialize where
  "committed_recall_serialize (C :: 'z codec_scheme) =
     user_serialize C (serialize_recall_data C) (serialize_committed_suffix C)"

definition uncommitted_normal_deserialize where
  "uncommitted_normal_deserialize (C :: ('s, 'r, 'z) proofs_scheme) =
     user_deserialize C (deserialize_normal_data C) (deserialize_uncommitted_suffix C)"

definition uncommitted_normal_serialize where
  "uncommitted_normal_serialize (C :: ('s, 'r, 'z) proofs_scheme) =
     user_serialize C (serialize_normal_data C) (serialize_uncommitted_suffix C)"

definition uncommitted_stake_deserialize where
  "uncommitted_stake_deserialize (C :: ('s, 'r, 'z) proofs_scheme) =
     user_deserialize C (deserialize_stake_data C) (deserialize_uncommitted_suffix C)"

definition uncommitted_stake_serialize where
  "uncommitted_stake_serialize (C :: ('s, 'r, 'z) proofs_scheme) =
     user_serialize C (serialize_stake_data C) (serialize_uncommitted_suffix C)"

definition uncommitted_recall_deserialize where
  "uncommitted_recall_deserialize (C :: ('s, 'r, 'z) proofs_scheme) =
     user_deserialize C (deserialize_recall_data C) (deserialize_uncommitted_suffix C)"

definition uncommitted_recall_serialize where
  "uncommitted_recall_serialize (C :: ('s, 'r, 'z) proofs_scheme) =
     user_serialize C (serialize_recall_data C) (serialize_uncommitted_suffix C)"

lemmas user_codec_defs =
  committed_normal_deserialize_def committed_normal_serialize_def
  committed_stake_deserialize_def committed_stake_serialize_def
  committed_recall_deserialize_def committed_recall_serialize_def
  uncommitted_normal_deserialize_def uncommitted_normal_serialize_def
  uncommitted_stake_deserialize_def uncommitted_stake_serialize_def
  uncommitted_recall_deserialize_def uncommitted_recall_serialize_def

text \<open>Which transactions the read-back law covers: their vectors fit a 64-bit count.\<close>

definition wf_user :: "('d \<Rightarrow> bool) \<Rightarrow> ('x \<Rightarrow> bool) \<Rightarrow> ('d, 'x) user_transaction \<Rightarrow> bool" where
  [wf_defs]: "wf_user wf_d wf_x tx \<longleftrightarrow>
     wf_body (tx_body tx) \<and> wf_d (tx_data tx) \<and> wf_x (tx_suffix tx)"

lemma user_read_back:
  assumes "codec_laws C" "wf_user wf_d wf_x tx"
    and "\<And>rest. wf_d (tx_data tx) \<Longrightarrow> rd_d (wr_d (tx_data tx) @ rest) = Some (tx_data tx, rest)"
    and "\<And>rest. wf_x (tx_suffix tx) \<Longrightarrow> rd_x (wr_x (tx_suffix tx) @ rest) = Some (tx_suffix tx, rest)"
  shows "user_deserialize C rd_d rd_x (user_serialize C wr_d wr_x tx @ rest) = Some (tx, rest)"
  using assms by (simp add: user_deserialize_def user_serialize_def wf_user_def wire)

interpretation committed_normal:
  wire_format codec_laws "\<lambda>_. wf_user wf_normal_data (\<lambda>_. True)"
    committed_normal_serialize committed_normal_deserialize
  by unfold_locales (auto simp: user_codec_defs wire intro: user_read_back)

interpretation committed_stake:
  wire_format codec_laws "\<lambda>_. wf_user (\<lambda>_. True) (\<lambda>_. True)"
    committed_stake_serialize committed_stake_deserialize
  by unfold_locales (auto simp: user_codec_defs wire intro: user_read_back)

interpretation committed_recall:
  wire_format codec_laws "\<lambda>_. wf_user (\<lambda>_. True) (\<lambda>_. True)"
    committed_recall_serialize committed_recall_deserialize
  by unfold_locales (auto simp: user_codec_defs wire intro: user_read_back)

interpretation uncommitted_normal:
  wire_format proof_laws "\<lambda>_. wf_user wf_normal_data wf_uncommitted_suffix"
    uncommitted_normal_serialize uncommitted_normal_deserialize
  by unfold_locales (auto simp: user_codec_defs wire proof_lawsD intro: user_read_back)

interpretation uncommitted_stake:
  wire_format proof_laws "\<lambda>_. wf_user (\<lambda>_. True) wf_uncommitted_suffix"
    uncommitted_stake_serialize uncommitted_stake_deserialize
  by unfold_locales (auto simp: user_codec_defs wire proof_lawsD intro: user_read_back)

interpretation uncommitted_recall:
  wire_format proof_laws "\<lambda>_. wf_user (\<lambda>_. True) wf_uncommitted_suffix"
    uncommitted_recall_serialize uncommitted_recall_deserialize
  by unfold_locales (auto simp: user_codec_defs wire proof_lawsD intro: user_read_back)

lemmas user_tx_read_back [wire] =
  committed_normal.read_back committed_stake.read_back committed_recall.read_back
  uncommitted_normal.read_back uncommitted_stake.read_back uncommitted_recall.read_back

section \<open>Digests, hashes and sizes\<close>

text \<open>
  The methods over \<open>serialize_digest\<close>. \<open>wr_data\<close> is the \<open>serialize_data\<close> of the class; \<open>sh\<close>
  and \<open>rh\<close> are the signature hash and the range proof hash, which a committed transaction
  stores and an uncommitted one computes.
\<close>

definition user_digest ::
  "'z crypto_scheme \<Rightarrow> ('d \<Rightarrow> bytes) \<Rightarrow> ('d, 'x) user_transaction \<Rightarrow> crypto_hash_t" where
  "user_digest C wr_data tx = sha3 C (user_serialize_digest C wr_data tx)"

definition user_hash ::
  "'z crypto_scheme \<Rightarrow> ('d \<Rightarrow> bytes) \<Rightarrow> crypto_hash_t \<Rightarrow> crypto_hash_t \<Rightarrow>
   ('d, 'x) user_transaction \<Rightarrow> crypto_hash_t" where
  "user_hash C wr_data sh rh tx =
     sha3 C (w_key C (user_digest C wr_data tx) @ w_key C sh @ w_key C rh)"

definition user_pow_hash ::
  "'z crypto_scheme \<Rightarrow> ('d \<Rightarrow> bytes) \<Rightarrow> crypto_hash_t \<Rightarrow> ('d, 'x) user_transaction \<Rightarrow> crypto_hash_t"
where
  "user_pow_hash C wr_data rh tx =
     argon2id C (sha3 C (w_bytes C (user_serialize_digest C wr_data tx) @ w_key C rh))
       POW_ITERATIONS POW_MEMORY POW_THREADS"

text \<open>\<open>pow_verify\<close> compares the leading zeros of the proof-of-work hash with a \<open>uint8_t\<close>.\<close>

definition pow_verify :: "'z crypto_scheme \<Rightarrow> u8 \<Rightarrow> crypto_hash_t \<Rightarrow> bool" where
  "pow_verify C zeros pow_hash \<longleftrightarrow> leading_zeros C pow_hash \<ge> unat zeros"

definition committed_normal_digest where
  "committed_normal_digest (C :: 'z crypto_scheme) (tx :: (NormalTransactionData, CommittedTransactionSuffix) user_transaction) =
     user_digest C (serialize_normal_data C) tx"

definition committed_normal_hash where
  "committed_normal_hash (C :: 'z crypto_scheme) tx =
     user_hash C (serialize_normal_data C) (signature_hash (tx_suffix tx))
       (range_proof_hash (tx_suffix tx)) tx"

definition committed_normal_pow_hash where
  "committed_normal_pow_hash (C :: 'z crypto_scheme) tx =
     user_pow_hash C (serialize_normal_data C) (range_proof_hash (tx_suffix tx)) tx"

definition committed_normal_pow_verify where
  "committed_normal_pow_verify (C :: 'z crypto_scheme) tx zeros =
     pow_verify C zeros (committed_normal_pow_hash C tx)"

definition committed_normal_size where
  "committed_normal_size (C :: 'z codec_scheme) tx = length (committed_normal_serialize C tx)"

definition uncommitted_normal_digest where
  "uncommitted_normal_digest (C :: ('s, 'r, 'z) proofs_scheme) (tx :: (NormalTransactionData, ('s, 'r) UncommittedTransactionSuffix) user_transaction) =
     user_digest C (serialize_normal_data C) tx"

definition uncommitted_normal_hash where
  "uncommitted_normal_hash (C :: ('s, 'r, 'z) proofs_scheme) tx =
     user_hash C (serialize_normal_data C) (uncommitted_signature_hash C (tx_suffix tx))
       (uncommitted_range_proof_hash C (tx_suffix tx)) tx"

definition uncommitted_normal_pow_hash where
  "uncommitted_normal_pow_hash (C :: ('s, 'r, 'z) proofs_scheme) tx =
     user_pow_hash C (serialize_normal_data C) (uncommitted_range_proof_hash C (tx_suffix tx)) tx"

definition uncommitted_normal_pow_verify where
  "uncommitted_normal_pow_verify (C :: ('s, 'r, 'z) proofs_scheme) tx zeros =
     pow_verify C zeros (uncommitted_normal_pow_hash C tx)"

definition uncommitted_normal_size where
  "uncommitted_normal_size (C :: ('s, 'r, 'z) proofs_scheme) tx =
     length (uncommitted_normal_serialize C tx)"

definition uncommitted_normal_committed_size where
  "uncommitted_normal_committed_size (C :: ('s, 'r, 'z) proofs_scheme)
     (tx :: (NormalTransactionData, ('s, 'r) UncommittedTransactionSuffix) user_transaction) =
     length (user_serialize_digest C (serialize_normal_data C) tx) + 32 + 32"

definition committed_stake_digest where
  "committed_stake_digest (C :: 'z crypto_scheme) (tx :: (StakeTransactionData, CommittedTransactionSuffix) user_transaction) =
     user_digest C (serialize_stake_data C) tx"

definition committed_stake_hash where
  "committed_stake_hash (C :: 'z crypto_scheme) tx =
     user_hash C (serialize_stake_data C) (signature_hash (tx_suffix tx))
       (range_proof_hash (tx_suffix tx)) tx"

definition committed_stake_pow_hash where
  "committed_stake_pow_hash (C :: 'z crypto_scheme) tx =
     user_pow_hash C (serialize_stake_data C) (range_proof_hash (tx_suffix tx)) tx"

definition committed_stake_pow_verify where
  "committed_stake_pow_verify (C :: 'z crypto_scheme) tx zeros =
     pow_verify C zeros (committed_stake_pow_hash C tx)"

definition committed_stake_size where
  "committed_stake_size (C :: 'z codec_scheme) tx = length (committed_stake_serialize C tx)"

definition uncommitted_stake_digest where
  "uncommitted_stake_digest (C :: ('s, 'r, 'z) proofs_scheme) (tx :: (StakeTransactionData, ('s, 'r) UncommittedTransactionSuffix) user_transaction) =
     user_digest C (serialize_stake_data C) tx"

definition uncommitted_stake_hash where
  "uncommitted_stake_hash (C :: ('s, 'r, 'z) proofs_scheme) tx =
     user_hash C (serialize_stake_data C) (uncommitted_signature_hash C (tx_suffix tx))
       (uncommitted_range_proof_hash C (tx_suffix tx)) tx"

definition uncommitted_stake_pow_hash where
  "uncommitted_stake_pow_hash (C :: ('s, 'r, 'z) proofs_scheme) tx =
     user_pow_hash C (serialize_stake_data C) (uncommitted_range_proof_hash C (tx_suffix tx)) tx"

definition uncommitted_stake_pow_verify where
  "uncommitted_stake_pow_verify (C :: ('s, 'r, 'z) proofs_scheme) tx zeros =
     pow_verify C zeros (uncommitted_stake_pow_hash C tx)"

definition uncommitted_stake_size where
  "uncommitted_stake_size (C :: ('s, 'r, 'z) proofs_scheme) tx =
     length (uncommitted_stake_serialize C tx)"

definition uncommitted_stake_committed_size where
  "uncommitted_stake_committed_size (C :: ('s, 'r, 'z) proofs_scheme)
     (tx :: (StakeTransactionData, ('s, 'r) UncommittedTransactionSuffix) user_transaction) =
     length (user_serialize_digest C (serialize_stake_data C) tx) + 32 + 32"

definition committed_recall_digest where
  "committed_recall_digest (C :: 'z crypto_scheme) (tx :: (RecallStakeTransactionData, CommittedTransactionSuffix) user_transaction) =
     user_digest C (serialize_recall_data C) tx"

definition committed_recall_hash where
  "committed_recall_hash (C :: 'z crypto_scheme) tx =
     user_hash C (serialize_recall_data C) (signature_hash (tx_suffix tx))
       (range_proof_hash (tx_suffix tx)) tx"

definition committed_recall_pow_hash where
  "committed_recall_pow_hash (C :: 'z crypto_scheme) tx =
     user_pow_hash C (serialize_recall_data C) (range_proof_hash (tx_suffix tx)) tx"

definition committed_recall_pow_verify where
  "committed_recall_pow_verify (C :: 'z crypto_scheme) tx zeros =
     pow_verify C zeros (committed_recall_pow_hash C tx)"

definition committed_recall_size where
  "committed_recall_size (C :: 'z codec_scheme) tx = length (committed_recall_serialize C tx)"

definition uncommitted_recall_digest where
  "uncommitted_recall_digest (C :: ('s, 'r, 'z) proofs_scheme) (tx :: (RecallStakeTransactionData, ('s, 'r) UncommittedTransactionSuffix) user_transaction) =
     user_digest C (serialize_recall_data C) tx"

definition uncommitted_recall_hash where
  "uncommitted_recall_hash (C :: ('s, 'r, 'z) proofs_scheme) tx =
     user_hash C (serialize_recall_data C) (uncommitted_signature_hash C (tx_suffix tx))
       (uncommitted_range_proof_hash C (tx_suffix tx)) tx"

definition uncommitted_recall_pow_hash where
  "uncommitted_recall_pow_hash (C :: ('s, 'r, 'z) proofs_scheme) tx =
     user_pow_hash C (serialize_recall_data C) (uncommitted_range_proof_hash C (tx_suffix tx)) tx"

definition uncommitted_recall_pow_verify where
  "uncommitted_recall_pow_verify (C :: ('s, 'r, 'z) proofs_scheme) tx zeros =
     pow_verify C zeros (uncommitted_recall_pow_hash C tx)"

definition uncommitted_recall_size where
  "uncommitted_recall_size (C :: ('s, 'r, 'z) proofs_scheme) tx =
     length (uncommitted_recall_serialize C tx)"

text \<open>\<open>32\<close> is \<open>sizeof(crypto_hash_t)\<close>.\<close>

definition uncommitted_recall_committed_size where
  "uncommitted_recall_committed_size (C :: ('s, 'r, 'z) proofs_scheme)
     (tx :: (RecallStakeTransactionData, ('s, 'r) UncommittedTransactionSuffix) user_transaction) =
     length (user_serialize_digest C (serialize_recall_data C) tx) + 32 + 32"

section \<open>From uncommitted to committed\<close>

text \<open>
  \<open>to_committed\<close> fills in a default-constructed transaction of the committed class, whose
  constructor sets the type; every other field is copied, and the two hashes replace the
  proofs.
\<close>

definition user_to_committed ::
  "('s, 'r, 'z) proofs_scheme \<Rightarrow> TransactionType \<Rightarrow>
   ('d, ('s, 'r) UncommittedTransactionSuffix) user_transaction \<Rightarrow>
   ('d, CommittedTransactionSuffix) user_transaction" where
  "user_to_committed C t tx =
     \<lparr>tx_prefix = \<lparr>l_type = type_number t, version = version (tx_prefix tx),
                  unlock_block = unlock_block (tx_prefix tx),
                  public_key = public_key (tx_prefix tx)\<rparr>,
      tx_body = \<lparr>nonce = nonce (tx_body tx), fee = fee (tx_body tx),
                key_images = key_images (tx_body tx), outputs = outputs (tx_body tx)\<rparr>,
      tx_data = tx_data tx,
      tx_suffix = \<lparr>signature_hash = uncommitted_signature_hash C (tx_suffix tx),
                  range_proof_hash = uncommitted_range_proof_hash C (tx_suffix tx)\<rparr>\<rparr>"

definition uncommitted_normal_to_committed where
  "uncommitted_normal_to_committed (C :: ('s, 'r, 'z) proofs_scheme)
     (tx :: (NormalTransactionData, ('s, 'r) UncommittedTransactionSuffix) user_transaction) =
     user_to_committed C NORMAL tx"

definition uncommitted_stake_to_committed where
  "uncommitted_stake_to_committed (C :: ('s, 'r, 'z) proofs_scheme)
     (tx :: (StakeTransactionData, ('s, 'r) UncommittedTransactionSuffix) user_transaction) =
     user_to_committed C STAKE tx"

definition uncommitted_recall_to_committed where
  "uncommitted_recall_to_committed (C :: ('s, 'r, 'z) proofs_scheme)
     (tx :: (RecallStakeTransactionData, ('s, 'r) UncommittedTransactionSuffix) user_transaction) =
     user_to_committed C RECALL_STAKE tx"

lemma user_to_committed_digest:
  assumes "tx_type tx = type_number t"
  shows "user_serialize_digest C wr_data (user_to_committed C t tx) = user_serialize_digest C wr_data tx"
proof -
  have "serialize_prefix C (tx_prefix (user_to_committed C t tx)) = serialize_prefix C (tx_prefix tx)"
    using assms by (simp add: user_to_committed_def serialize_prefix_def serialize_header_def)
  moreover have "serialize_body C (tx_body (user_to_committed C t tx)) = serialize_body C (tx_body tx)"
    by (simp add: user_to_committed_def serialize_body_def)
  moreover have "tx_data (user_to_committed C t tx) = tx_data tx"
    by (simp add: user_to_committed_def)
  ultimately show ?thesis by (simp only: user_serialize_digest_def)
qed

lemma user_to_committed_suffix [simp]:
  "signature_hash (tx_suffix (user_to_committed C t tx)) = uncommitted_signature_hash C (tx_suffix tx)"
  "range_proof_hash (tx_suffix (user_to_committed C t tx)) = uncommitted_range_proof_hash C (tx_suffix tx)"
  by (simp_all add: user_to_committed_def)

lemma user_to_committed_hashes:
  assumes "tx_type tx = type_number t"
  shows "user_digest C wr_data (user_to_committed C t tx) = user_digest C wr_data tx"
    and "user_hash C wr_data sh rh (user_to_committed C t tx) = user_hash C wr_data sh rh tx"
    and "user_pow_hash C wr_data rh (user_to_committed C t tx) = user_pow_hash C wr_data rh tx"
  by (simp_all add: user_digest_def user_hash_def user_pow_hash_def user_to_committed_digest [OF assms])

lemma user_serialize_committed_length:
  assumes "key_width C"
  shows "length (user_serialize C wr_data (serialize_committed_suffix C) tx) =
           length (user_serialize_digest C wr_data tx) + 32 + 32"
  using assms
  by (simp add: user_serialize_def user_serialize_digest_def serialize_committed_suffix_def key_width_def)

section \<open>Mining the nonce\<close>

text \<open>
  The loop of \<open>mine\<close>, over the leading zeros \<open>lz n\<close> that the proof-of-work hash has with
  nonce \<open>n\<close>; \<open>cur\<close> are those of the hash at hand.
\<close>

function mine_loop :: "(u64 \<Rightarrow> nat) \<Rightarrow> nat \<Rightarrow> u64 \<Rightarrow> nat \<Rightarrow> u64 \<times> nat" where
  "mine_loop lz zeros n cur =
     (if cur < zeros \<and> n \<noteq> - 1 then mine_loop lz zeros (n + 1) (lz (n + 1)) else (n, cur))"
  by pat_completeness auto

termination
proof (relation "measure (\<lambda>(lz, zeros, n, cur). 2 ^ 64 - unat n)")
  fix lz :: "u64 \<Rightarrow> nat" and zeros cur :: nat and n :: u64
  assume "cur < zeros \<and> n \<noteq> - 1"
  then show "((lz, zeros, n + 1, lz (n + 1)), lz, zeros, n, cur)
               \<in> measure (\<lambda>(lz, zeros, n, cur). 2 ^ 64 - unat n)"
    using unat_le_max_u64 [of n] unat_succ_u64 [of n] by simp
qed simp

declare mine_loop.simps [simp del]

definition set_nonce :: "u64 \<Rightarrow> ('d, 'x) user_transaction \<Rightarrow> ('d, 'x) user_transaction" where
  "set_nonce n tx = tx\<lparr>tx_body := (tx_body tx)\<lparr>nonce := n\<rparr>\<rparr>"

definition user_mine ::
  "('s, 'r, 'z) proofs_scheme \<Rightarrow> ('d \<Rightarrow> bytes) \<Rightarrow> u8 \<Rightarrow>
   ('d, ('s, 'r) UncommittedTransactionSuffix) user_transaction \<Rightarrow>
   bool \<times> ('d, ('s, 'r) UncommittedTransactionSuffix) user_transaction" where
  "user_mine C wr_data zeros tx =
     (let rh = uncommitted_range_proof_hash C (tx_suffix tx);
          lz = (\<lambda>n. leading_zeros C (user_pow_hash C wr_data rh (set_nonce n tx)));
          cur = leading_zeros C (user_pow_hash C wr_data rh tx)
      in if cur \<ge> unat zeros then (True, tx)
         else let (n, cur) = mine_loop lz (unat zeros) 0 cur
              in (cur \<ge> unat zeros, set_nonce n tx))"

definition uncommitted_normal_mine where
  "uncommitted_normal_mine (C :: ('s, 'r, 'z) proofs_scheme) zeros
     (tx :: (NormalTransactionData, ('s, 'r) UncommittedTransactionSuffix) user_transaction) =
     user_mine C (serialize_normal_data C) zeros tx"

definition uncommitted_stake_mine where
  "uncommitted_stake_mine (C :: ('s, 'r, 'z) proofs_scheme) zeros
     (tx :: (StakeTransactionData, ('s, 'r) UncommittedTransactionSuffix) user_transaction) =
     user_mine C (serialize_stake_data C) zeros tx"

definition uncommitted_recall_mine where
  "uncommitted_recall_mine (C :: ('s, 'r, 'z) proofs_scheme) zeros
     (tx :: (RecallStakeTransactionData, ('s, 'r) UncommittedTransactionSuffix) user_transaction) =
     user_mine C (serialize_recall_data C) zeros tx"

lemma mine_loop_result:
  assumes "mine_loop lz zeros n cur = (n', cur')"
  shows "(cur' \<ge> zeros \<or> n' = - 1) \<and> (n' = n \<and> cur' = cur \<or> cur' = lz n')"
  using assms
proof (induction lz zeros n cur rule: mine_loop.induct)
  case (1 lz zeros n cur)
  show ?case
  proof (cases "cur < zeros \<and> n \<noteq> - 1")
    case True
    with "1" show ?thesis by (auto simp: mine_loop.simps [of lz zeros n cur])
  next
    case False
    with "1.prems" show ?thesis by (auto simp: mine_loop.simps [of lz zeros n cur])
  qed
qed

lemma mine_loop_mono:
  assumes "mine_loop lz zeros n cur = (n', cur')"
  shows "unat n \<le> unat n'"
  using assms
proof (induction lz zeros n cur rule: mine_loop.induct)
  case (1 lz zeros n cur)
  then show ?case
    using unat_succ_u64 [of n]
    by (cases "cur < zeros \<and> n \<noteq> - 1") (auto simp: mine_loop.simps [of lz zeros n cur])
qed

text \<open>A nonce above the current one that is good enough is never passed over.\<close>

lemma mine_loop_complete:
  assumes "mine_loop lz zeros n cur = (n', cur')" "unat n < unat m" "lz m \<ge> zeros"
  shows "cur' \<ge> zeros"
  using assms
proof (induction lz zeros n cur rule: mine_loop.induct)
  case (1 lz zeros n cur)
  show ?case
  proof (cases "cur < zeros")
    case False
    with "1.prems" show ?thesis by (simp add: mine_loop.simps [of lz zeros n cur])
  next
    case True
    have n: "n \<noteq> - 1"
      using "1.prems"(2) unat_le_max_u64 [of m] unat_max_u64 by auto
    from True n "1.prems"(1) have step: "mine_loop lz zeros (n + 1) (lz (n + 1)) = (n', cur')"
      by (simp add: mine_loop.simps [of lz zeros n cur])
    show ?thesis
    proof (cases "m = n + 1")
      case True
      with "1.prems"(3) step show ?thesis
        by (auto simp: mine_loop.simps [of lz zeros "n + 1"])
    next
      case False
      then have "unat (n + 1) < unat m"
        using "1.prems"(2) unat_succ_u64 [OF n] by (metis Suc_eq_plus1 Suc_lessI word_unat_eq_iff)
      with "1.IH" True n step "1.prems"(3) show ?thesis by blast
    qed
  qed
qed

text \<open>
  What \<open>mine\<close> does: it changes nothing but the nonce, its result says whether the transaction
  it leaves has the work asked for, and it succeeds exactly when the transaction already had
  the work or some nonce other than zero gives it.
\<close>

lemma user_mine_spec:
  assumes "user_mine C wr_data zeros tx = (ok, tx')"
  defines "rh \<equiv> uncommitted_range_proof_hash C (tx_suffix tx)"
  shows "tx' = tx \<or> (\<exists>n. tx' = set_nonce n tx)"
    and "ok \<longleftrightarrow> pow_verify C zeros (user_pow_hash C wr_data rh tx')"
    and "ok \<longleftrightarrow> pow_verify C zeros (user_pow_hash C wr_data rh tx) \<or>
           (\<exists>n. n \<noteq> 0 \<and> pow_verify C zeros (user_pow_hash C wr_data rh (set_nonce n tx)))"
proof -
  define lz where "lz = (\<lambda>n. leading_zeros C (user_pow_hash C wr_data rh (set_nonce n tx)))"
  define cur where "cur = leading_zeros C (user_pow_hash C wr_data rh tx)"
  obtain n' cur' where loop: "mine_loop lz (unat zeros) 0 cur = (n', cur')" by fastforce
  show "tx' = tx \<or> (\<exists>n. tx' = set_nonce n tx)"
    using assms(1) by (auto simp: user_mine_def Let_def split: if_splits prod.splits)
  have mine: "(ok, tx') = (if cur \<ge> unat zeros then (True, tx)
                 else (cur' \<ge> unat zeros, set_nonce n' tx))"
    using assms(1) loop unfolding user_mine_def lz_def cur_def rh_def Let_def
    by (auto split: if_splits)
  have later: "cur' = lz n' \<and> n' \<noteq> 0" if "cur < unat zeros"
  proof -
    from that loop have step: "mine_loop lz (unat zeros) 1 (lz 1) = (n', cur')"
      by (simp add: mine_loop.simps [of lz "unat zeros" 0])
    from mine_loop_result [OF this] have "cur' = lz n'" by auto
    with mine_loop_mono [OF step] show ?thesis by auto
  qed
  show "ok \<longleftrightarrow> pow_verify C zeros (user_pow_hash C wr_data rh tx')"
    using mine later by (auto simp: pow_verify_def cur_def lz_def split: if_splits)
  show "ok \<longleftrightarrow> pow_verify C zeros (user_pow_hash C wr_data rh tx) \<or>
           (\<exists>n. n \<noteq> 0 \<and> pow_verify C zeros (user_pow_hash C wr_data rh (set_nonce n tx)))"
  proof (cases "cur \<ge> unat zeros")
    case True
    with mine show ?thesis by (simp add: pow_verify_def cur_def)
  next
    case False
    have "cur' \<ge> unat zeros" if "n \<noteq> 0" "lz n \<ge> unat zeros" for n
      using mine_loop_complete [OF loop _ that(2)] that(1) by (simp add: unat_gt_0)
    with False mine later show ?thesis
      by (auto simp: pow_verify_def cur_def lz_def)
  qed
qed

lemmas user_method_defs =
  committed_normal_digest_def committed_normal_hash_def committed_normal_pow_hash_def
  committed_normal_pow_verify_def committed_normal_size_def uncommitted_normal_digest_def
  uncommitted_normal_hash_def uncommitted_normal_pow_hash_def uncommitted_normal_pow_verify_def
  uncommitted_normal_size_def uncommitted_normal_committed_size_def
  uncommitted_normal_to_committed_def uncommitted_normal_mine_def committed_stake_digest_def
  committed_stake_hash_def committed_stake_pow_hash_def committed_stake_pow_verify_def
  committed_stake_size_def uncommitted_stake_digest_def uncommitted_stake_hash_def
  uncommitted_stake_pow_hash_def uncommitted_stake_pow_verify_def uncommitted_stake_size_def
  uncommitted_stake_committed_size_def uncommitted_stake_to_committed_def
  uncommitted_stake_mine_def committed_recall_digest_def committed_recall_hash_def
  committed_recall_pow_hash_def committed_recall_pow_verify_def committed_recall_size_def
  uncommitted_recall_digest_def uncommitted_recall_hash_def uncommitted_recall_pow_hash_def
  uncommitted_recall_pow_verify_def uncommitted_recall_size_def
  uncommitted_recall_committed_size_def uncommitted_recall_to_committed_def
  uncommitted_recall_mine_def

end
