(* ===== verification/User_Checks.thy ===== *)
theory User_Checks
  imports User_Transactions
begin

text \<open>
  \<open>check_construction\<close> of the six classes of user transactions. The checks are made in the
  order of the code and the first one that fails names the error. The part that all six
  share is \<open>check_user_body\<close>, the part the uncommitted classes share \<open>check_user_proofs\<close>.
\<close>

section \<open>The shared checks\<close>

definition check_user_body ::
  "'z crypto_scheme \<Rightarrow> TransactionPrefix \<Rightarrow> TransactionUserBody \<Rightarrow> ErrorCode" where
  "check_user_body C p b =
     (if key_empty C (public_key p) then TX_PUBLIC_KEY
      else if fee b = 0 then TX_MISSING_FEE
      else if key_images b = [] \<or> length (key_images b) > MAXIMUM_INPUTS then TX_INVALID_INPUT_COUNT
      else if list_ex (\<lambda>key_image. \<not> check_subgroup C key_image) (key_images b)
        then TX_INVALID_KEY_IMAGE
      else if length (dedupe_sort C (key_images b)) \<noteq> length (key_images b)
        then TX_DUPLICATE_KEY_IMAGE
      else if length (outputs b) < MINIMUM_OUTPUTS \<or> length (outputs b) > MAXIMUM_OUTPUTS
        then TX_INVALID_OUTPUT_COUNT
      else first_error (TransactionOutput_check_construction C) (outputs b))"

definition check_user_proofs ::
  "('s, 'r, 'z) proofs_scheme \<Rightarrow> TransactionUserBody \<Rightarrow>
   ('s, 'r) UncommittedTransactionSuffix \<Rightarrow> ErrorCode" where
  "check_user_proofs C b x =
     (if length (key_images b) \<noteq> length (pseudo_commitments x)
        then TX_INVALID_PSEUDO_COMMITMENT_COUNT
      else if \<not> check_commitments_parity C (pseudo_commitments x) (map commitment (outputs b)) (fee b)
        then TX_COMMITMENTS_DO_NOT_BALANCE
      else if \<not> range_proof_check_construction C (range_proof x) then TX_INVALID_RANGE_PROOF
      else if length (key_images b) \<noteq> length (signatures x) then TX_SIG_SIZE_MISMATCH
      else if list_ex (\<lambda>signature. \<not> clsag_check_construction C signature RING_SIZE) (signatures x)
        then TX_INVALID_SIGNATURE
      else SUCCESS)"

section \<open>The data of each kind\<close>

definition check_normal_data :: "NormalTransactionData \<Rightarrow> ErrorCode" where
  "check_normal_data d =
     (if length (extra d) > MAXIMUM_EXTRA_SIZE then TX_EXTRA_TOO_LARGE else SUCCESS)"

definition check_stake_data :: "'z crypto_scheme \<Rightarrow> StakeTransactionData \<Rightarrow> ErrorCode" where
  "check_stake_data C d =
     (if stake_amount d = 0 then TX_STAKE_NO_AMOUNT
      else if key_empty C (stake_candidate_public_key d) then STAKING_CANDIDATE_NOT_FOUND
      else if key_empty C (staker_public_view_key d) then TX_PUBLIC_VIEW_KEY_NOT_FOUND
      else if key_empty C (staker_public_spend_key d) then TX_PUBLIC_SPEND_KEY_NOT_FOUND
      else SUCCESS)"

text \<open>
  The test for reused keys of the uncommitted stake transaction, written as the code has it:
  its last disjunct compares the view key with itself.
\<close>

definition check_stake_keys_reuse :: "StakeTransactionData \<Rightarrow> ErrorCode" where
  "check_stake_keys_reuse d =
     (if stake_candidate_public_key d = staker_public_view_key d \<or>
         stake_candidate_public_key d = staker_public_spend_key d \<or>
         staker_public_view_key d = staker_public_view_key d
      then TX_STAKING_PUBLIC_KEYS_REUSE else SUCCESS)"

definition check_recall_data :: "'z crypto_scheme \<Rightarrow> RecallStakeTransactionData \<Rightarrow> ErrorCode" where
  "check_recall_data C d =
     (if recall_amount d = 0 then TX_STAKE_NO_AMOUNT
      else if key_empty C (recall_candidate_public_key d) then STAKING_CANDIDATE_NOT_FOUND
      else if key_empty C (recall_staker_id d) then TX_STAKER_ID
      else if sig_empty C (view_signature d) then TX_RECALL_VIEW_SIGNATURE
      else if sig_empty C (spend_signature d) then TX_RECALL_SPEND_SIGNATURE
      else SUCCESS)"

section \<open>The six methods\<close>

text \<open>\<open>e\<close>, or where \<open>e\<close> is success the next check.\<close>

definition then_check :: "ErrorCode \<Rightarrow> ErrorCode \<Rightarrow> ErrorCode" where
  "then_check e f = (if failed e then e else f)"

lemma then_check_success [simp]:
  "then_check e f = SUCCESS \<longleftrightarrow> e = SUCCESS \<and> f = SUCCESS"
  by (auto simp: then_check_def)

definition committed_normal_check_construction ::
  "'z crypto_scheme \<Rightarrow> committed_normal_transaction_t \<Rightarrow> ErrorCode" where
  "committed_normal_check_construction C tx =
     (if tx_version tx \<noteq> 1 then TX_INVALID_VERSION
      else then_check (check_user_body C (tx_prefix tx) (tx_body tx))
             (check_normal_data (tx_data tx)))"

definition committed_stake_check_construction ::
  "'z crypto_scheme \<Rightarrow> committed_stake_transaction_t \<Rightarrow> ErrorCode" where
  "committed_stake_check_construction C tx =
     (if tx_version tx \<noteq> 1 \<and> tx_version tx \<noteq> 2 then TX_INVALID_VERSION
      else then_check (check_user_body C (tx_prefix tx) (tx_body tx))
             (check_stake_data C (tx_data tx)))"

definition committed_recall_check_construction ::
  "'z crypto_scheme \<Rightarrow> committed_recall_stake_transaction_t \<Rightarrow> ErrorCode" where
  "committed_recall_check_construction C tx =
     (if tx_version tx \<noteq> 1 \<and> tx_version tx \<noteq> 2 then TX_INVALID_VERSION
      else then_check (check_user_body C (tx_prefix tx) (tx_body tx))
             (check_recall_data C (tx_data tx)))"

definition uncommitted_normal_check_construction ::
  "('s, 'r, 'z) proofs_scheme \<Rightarrow> ('s, 'r) uncommitted_normal_transaction_t \<Rightarrow> ErrorCode" where
  "uncommitted_normal_check_construction C tx =
     (if tx_version tx \<noteq> 1 then TX_INVALID_VERSION
      else then_check (check_user_body C (tx_prefix tx) (tx_body tx))
          (then_check (check_normal_data (tx_data tx))
             (check_user_proofs C (tx_body tx) (tx_suffix tx))))"

definition uncommitted_stake_check_construction ::
  "('s, 'r, 'z) proofs_scheme \<Rightarrow> ('s, 'r) uncommitted_stake_transaction_t \<Rightarrow> ErrorCode" where
  "uncommitted_stake_check_construction C tx =
     (if tx_version tx \<noteq> 1 \<and> tx_version tx \<noteq> 2 then TX_INVALID_VERSION
      else then_check (check_user_body C (tx_prefix tx) (tx_body tx))
          (then_check (check_stake_data C (tx_data tx))
          (then_check (check_stake_keys_reuse (tx_data tx))
             (check_user_proofs C (tx_body tx) (tx_suffix tx)))))"

definition uncommitted_recall_check_construction ::
  "('s, 'r, 'z) proofs_scheme \<Rightarrow> ('s, 'r) uncommitted_recall_stake_transaction_t \<Rightarrow> ErrorCode" where
  "uncommitted_recall_check_construction C tx =
     (if tx_version tx \<noteq> 1 \<and> tx_version tx \<noteq> 2 then TX_INVALID_VERSION
      else then_check (check_user_body C (tx_prefix tx) (tx_body tx))
          (then_check (check_recall_data C (tx_data tx))
             (check_user_proofs C (tx_body tx) (tx_suffix tx))))"

section \<open>What the checks accept\<close>

text \<open>The conditions on a body, without their order and their error codes.\<close>

definition good_body :: "'z crypto_scheme \<Rightarrow> TransactionPrefix \<Rightarrow> TransactionUserBody \<Rightarrow> bool" where
  "good_body C p b \<longleftrightarrow>
     \<not> key_empty C (public_key p) \<and> fee b \<noteq> 0 \<and>
     1 \<le> length (key_images b) \<and> length (key_images b) \<le> 8 \<and> distinct (key_images b) \<and>
     (\<forall>k \<in> set (key_images b). check_subgroup C k) \<and>
     2 \<le> length (outputs b) \<and> length (outputs b) \<le> 8 \<and>
     (\<forall>x \<in> set (outputs b). \<not> key_empty C (public_ephemeral x) \<and> output_amount x \<noteq> 0 \<and>
        \<not> key_empty C (commitment x))"

definition good_proofs ::
  "('s, 'r, 'z) proofs_scheme \<Rightarrow> TransactionUserBody \<Rightarrow>
   ('s, 'r) UncommittedTransactionSuffix \<Rightarrow> bool" where
  "good_proofs C b x \<longleftrightarrow>
     length (pseudo_commitments x) = length (key_images b) \<and>
     length (signatures x) = length (key_images b) \<and>
     check_commitments_parity C (pseudo_commitments x) (map commitment (outputs b)) (fee b) \<and>
     range_proof_check_construction C (range_proof x) \<and>
     (\<forall>s \<in> set (signatures x). clsag_check_construction C s RING_SIZE)"

lemma check_user_body_success:
  assumes "crypto_laws C"
  shows "check_user_body C p b = SUCCESS \<longleftrightarrow> good_body C p b"
  unfolding check_user_body_def good_body_def
  using dedupe_length [OF assms, of "key_images b"]
  by (auto simp: check_outputs_success list_ex_iff config Suc_le_eq split: if_splits)

lemma check_user_proofs_success:
  "check_user_proofs C b x = SUCCESS \<longleftrightarrow> good_proofs C b x"
  unfolding check_user_proofs_def good_proofs_def
  by (auto simp: list_ex_iff split: if_splits)

lemma check_stake_data_success:
  "check_stake_data C d = SUCCESS \<longleftrightarrow>
     stake_amount d \<noteq> 0 \<and> \<not> key_empty C (stake_candidate_public_key d) \<and>
     \<not> key_empty C (staker_public_view_key d) \<and> \<not> key_empty C (staker_public_spend_key d)"
  by (simp add: check_stake_data_def)

lemma check_recall_data_success:
  "check_recall_data C d = SUCCESS \<longleftrightarrow>
     recall_amount d \<noteq> 0 \<and> \<not> key_empty C (recall_candidate_public_key d) \<and>
     \<not> key_empty C (recall_staker_id d) \<and> \<not> sig_empty C (view_signature d) \<and>
     \<not> sig_empty C (spend_signature d)"
  by (simp add: check_recall_data_def)

lemma check_normal_data_success:
  "check_normal_data d = SUCCESS \<longleftrightarrow> length (extra d) \<le> 1024"
  by (simp add: check_normal_data_def config not_less)

lemma check_stake_keys_reuse_fails: "check_stake_keys_reuse d = TX_STAKING_PUBLIC_KEYS_REUSE"
  by (simp add: check_stake_keys_reuse_def)

lemmas check_success =
  check_user_body_success check_user_proofs_success check_normal_data_success
  check_stake_data_success check_recall_data_success

end
