(* ===== verification/System_Transactions.thy ===== *)
theory System_Transactions
  imports User_Checks
begin

text \<open>
  The transactions the network makes itself: the genesis transaction
  (\<open>transaction_genesis.h\<close>), the staker reward of a block (\<open>transaction_staker.h\<close>) and the
  refund of a recalled stake (\<open>transaction_stake_refund.h\<close>); then the variant \<open>transaction_t\<close>
  of \<open>types.h\<close> over all six committed kinds.
\<close>

section \<open>Genesis\<close>

record genesis_transaction_t =
  gen_prefix :: TransactionPrefix
  gen_secret_key :: crypto_secret_key_t
  gen_outputs :: "TransactionOutput list"

definition genesis_deserialize :: "'z codec_scheme \<Rightarrow> genesis_transaction_t reader" where
  "genesis_deserialize C bs =
     do { (p, bs) \<leftarrow> deserialize_prefix C bs;
          (k, bs) \<leftarrow> r_key C bs;
          (os, bs) \<leftarrow> deserialize_outputs C bs;
          Some (\<lparr>gen_prefix = p, gen_secret_key = k, gen_outputs = os\<rparr>, bs) }"

definition genesis_serialize :: "'z codec_scheme \<Rightarrow> genesis_transaction_t \<Rightarrow> bytes" where
  "genesis_serialize C tx =
     serialize_prefix C (gen_prefix tx) @ key_serialize C (gen_secret_key tx) @
     serialize_outputs C (gen_outputs tx)"

definition genesis_check_construction :: "'z crypto_scheme \<Rightarrow> genesis_transaction_t \<Rightarrow> ErrorCode" where
  "genesis_check_construction C tx =
     (if version (gen_prefix tx) \<noteq> 1 then TX_INVALID_VERSION
      else if key_empty C (public_key (gen_prefix tx)) then TX_PUBLIC_KEY
      else if key_empty C (gen_secret_key tx) then TX_SECRET_KEY
      else if secret_key_to_public_key C (gen_secret_key tx) \<noteq> public_key (gen_prefix tx)
        then TX_KEYPAIR_MISMATCH
      else if length (gen_outputs tx) \<noteq> RING_SIZE * 2 then TX_INVALID_OUTPUT_COUNT
      else first_error (TransactionOutput_check_construction C) (gen_outputs tx))"

definition genesis_hash :: "'z crypto_scheme \<Rightarrow> genesis_transaction_t \<Rightarrow> crypto_hash_t" where
  "genesis_hash C tx = sha3 C (genesis_serialize C tx)"

definition genesis_size :: "'z codec_scheme \<Rightarrow> genesis_transaction_t \<Rightarrow> nat" where
  "genesis_size C tx = length (genesis_serialize C tx)"

interpretation genesis:
  wire_format codec_laws "\<lambda>_ tx. fits_u64 (gen_outputs tx)" genesis_serialize genesis_deserialize
  by unfold_locales (simp add: genesis_serialize_def genesis_deserialize_def wire)

section \<open>Staker rewards\<close>

record staker_transaction_t =
  stk_header :: TransactionHeader
  staker_outputs :: "StakerOutput list"
  staker_penalties :: "StakerOutput list"

definition staker_deserialize :: "'z codec_scheme \<Rightarrow> staker_transaction_t reader" where
  "staker_deserialize C bs =
     do { (h, bs) \<leftarrow> deserialize_header C bs;
          (os, bs) \<leftarrow> deserialize_staker_outputs C bs;
          (ps, bs) \<leftarrow> deserialize_staker_outputs C bs;
          Some (\<lparr>stk_header = h, staker_outputs = os, staker_penalties = ps\<rparr>, bs) }"

definition staker_serialize :: "'z codec_scheme \<Rightarrow> staker_transaction_t \<Rightarrow> bytes" where
  "staker_serialize C tx =
     serialize_header C (stk_header tx) @ serialize_staker_outputs C (staker_outputs tx) @
     serialize_staker_outputs C (staker_penalties tx)"

definition staker_check_construction :: "'z crypto_scheme \<Rightarrow> staker_transaction_t \<Rightarrow> ErrorCode" where
  "staker_check_construction C tx =
     (if version (stk_header tx) \<noteq> 1 then TX_INVALID_VERSION
      else then_check (first_error (StakerOutput_check_construction C) (staker_outputs tx))
             (first_error (StakerOutput_check_construction C) (staker_penalties tx)))"

definition staker_hash :: "'z crypto_scheme \<Rightarrow> staker_transaction_t \<Rightarrow> crypto_hash_t" where
  "staker_hash C tx = sha3 C (staker_serialize C tx)"

definition staker_size :: "'z codec_scheme \<Rightarrow> staker_transaction_t \<Rightarrow> nat" where
  "staker_size C tx = length (staker_serialize C tx)"

definition wf_staker :: "staker_transaction_t \<Rightarrow> bool" where
  [wf_defs]: "wf_staker tx \<longleftrightarrow> fits_u64 (staker_outputs tx) \<and> fits_u64 (staker_penalties tx)"

interpretation staker: wire_format codec_laws "\<lambda>_. wf_staker" staker_serialize staker_deserialize
  by unfold_locales (simp add: staker_serialize_def staker_deserialize_def wf_staker_def wire)

section \<open>Stake refunds\<close>

record stake_refund_transaction_t =
  ref_prefix :: TransactionPrefix
  ref_secret_key :: crypto_secret_key_t
  recall_stake_tx :: crypto_hash_t
  ref_outputs :: "TransactionOutput list"

definition refund_deserialize :: "'z codec_scheme \<Rightarrow> stake_refund_transaction_t reader" where
  "refund_deserialize C bs =
     do { (p, bs) \<leftarrow> deserialize_prefix C bs;
          (k, bs) \<leftarrow> r_key C bs;
          (r, bs) \<leftarrow> r_key C bs;
          (os, bs) \<leftarrow> deserialize_outputs C bs;
          Some (\<lparr>ref_prefix = p, ref_secret_key = k, recall_stake_tx = r, ref_outputs = os\<rparr>, bs) }"

definition refund_serialize :: "'z codec_scheme \<Rightarrow> stake_refund_transaction_t \<Rightarrow> bytes" where
  "refund_serialize C tx =
     serialize_prefix C (ref_prefix tx) @ key_serialize C (ref_secret_key tx) @
     key_serialize C (recall_stake_tx tx) @ serialize_outputs C (ref_outputs tx)"

definition refund_check_construction ::
  "'z crypto_scheme \<Rightarrow> stake_refund_transaction_t \<Rightarrow> ErrorCode" where
  "refund_check_construction C tx =
     (if version (ref_prefix tx) \<noteq> 1 then TX_INVALID_VERSION
      else if key_empty C (public_key (ref_prefix tx)) then TX_PUBLIC_KEY
      else if key_empty C (ref_secret_key tx) then TX_SECRET_KEY
      else if secret_key_to_public_key C (ref_secret_key tx) \<noteq> public_key (ref_prefix tx)
        then TX_KEYPAIR_MISMATCH
      else if key_empty C (recall_stake_tx tx) then TX_RECALL_STAKE_TX_HASH
      else if length (ref_outputs tx) \<noteq> 1 then TX_INVALID_OUTPUT_COUNT
      else first_error (TransactionOutput_check_construction C) (ref_outputs tx))"

definition refund_hash :: "'z crypto_scheme \<Rightarrow> stake_refund_transaction_t \<Rightarrow> crypto_hash_t" where
  "refund_hash C tx = sha3 C (refund_serialize C tx)"

definition refund_size :: "'z codec_scheme \<Rightarrow> stake_refund_transaction_t \<Rightarrow> nat" where
  "refund_size C tx = length (refund_serialize C tx)"

interpretation refund:
  wire_format codec_laws "\<lambda>_ tx. fits_u64 (ref_outputs tx)" refund_serialize refund_deserialize
  by unfold_locales (simp add: refund_serialize_def refund_deserialize_def wire)

lemmas system_tx_read_back [wire] = genesis.read_back staker.read_back refund.read_back

section \<open>The variant of all committed transactions\<close>

datatype transaction_t =
    Genesis genesis_transaction_t
  | Staker staker_transaction_t
  | Normal committed_normal_transaction_t
  | RecallStake committed_recall_stake_transaction_t
  | Stake committed_stake_transaction_t
  | StakeRefund stake_refund_transaction_t

text \<open>The visitors of the variant: \<open>serialize\<close>, \<open>hash\<close>, \<open>type\<close> and \<open>check_construction\<close>.\<close>

fun transaction_serialize :: "'z codec_scheme \<Rightarrow> transaction_t \<Rightarrow> bytes" where
  "transaction_serialize C (Genesis tx) = genesis_serialize C tx"
| "transaction_serialize C (Staker tx) = staker_serialize C tx"
| "transaction_serialize C (Normal tx) = committed_normal_serialize C tx"
| "transaction_serialize C (RecallStake tx) = committed_recall_serialize C tx"
| "transaction_serialize C (Stake tx) = committed_stake_serialize C tx"
| "transaction_serialize C (StakeRefund tx) = refund_serialize C tx"

fun transaction_hash :: "'z crypto_scheme \<Rightarrow> transaction_t \<Rightarrow> crypto_hash_t" where
  "transaction_hash C (Genesis tx) = genesis_hash C tx"
| "transaction_hash C (Staker tx) = staker_hash C tx"
| "transaction_hash C (Normal tx) = committed_normal_hash C tx"
| "transaction_hash C (RecallStake tx) = committed_recall_hash C tx"
| "transaction_hash C (Stake tx) = committed_stake_hash C tx"
| "transaction_hash C (StakeRefund tx) = refund_hash C tx"

fun transaction_type :: "transaction_t \<Rightarrow> u64" where
  "transaction_type (Genesis tx) = l_type (gen_prefix tx)"
| "transaction_type (Staker tx) = l_type (stk_header tx)"
| "transaction_type (Normal tx) = tx_type tx"
| "transaction_type (RecallStake tx) = tx_type tx"
| "transaction_type (Stake tx) = tx_type tx"
| "transaction_type (StakeRefund tx) = l_type (ref_prefix tx)"

fun transaction_check_construction :: "'z crypto_scheme \<Rightarrow> transaction_t \<Rightarrow> ErrorCode" where
  "transaction_check_construction C (Genesis tx) = genesis_check_construction C tx"
| "transaction_check_construction C (Staker tx) = staker_check_construction C tx"
| "transaction_check_construction C (Normal tx) = committed_normal_check_construction C tx"
| "transaction_check_construction C (RecallStake tx) = committed_recall_check_construction C tx"
| "transaction_check_construction C (Stake tx) = committed_stake_check_construction C tx"
| "transaction_check_construction C (StakeRefund tx) = refund_check_construction C tx"

text \<open>
  Reading a transaction by its type, as \<open>BlockchainStorage::get_transaction\<close> does it: the
  type is peeked at (\<open>reader.varint<uint64_t>(true)\<close>) and the class it names reads from the
  same position. The outer \<open>None\<close> is the reader's exception, the inner \<open>None\<close> the default
  case of the switch.
\<close>

definition transaction_deserialize ::
  "'z codec_scheme \<Rightarrow> bytes \<Rightarrow> (transaction_t \<times> bytes) option option" where
  "transaction_deserialize C bs =
     do { (t, _) \<leftarrow> r_varint C bs;
          if t = type_number GENESIS then map_option (\<lambda>(tx, r). Some (Genesis tx, r)) (genesis_deserialize C bs)
          else if t = type_number STAKER then map_option (\<lambda>(tx, r). Some (Staker tx, r)) (staker_deserialize C bs)
          else if t = type_number NORMAL then map_option (\<lambda>(tx, r). Some (Normal tx, r)) (committed_normal_deserialize C bs)
          else if t = type_number STAKE then map_option (\<lambda>(tx, r). Some (Stake tx, r)) (committed_stake_deserialize C bs)
          else if t = type_number RECALL_STAKE then map_option (\<lambda>(tx, r). Some (RecallStake tx, r)) (committed_recall_deserialize C bs)
          else if t = type_number STAKE_REFUND then map_option (\<lambda>(tx, r). Some (StakeRefund tx, r)) (refund_deserialize C bs)
          else Some None }"

text \<open>
  A transaction carries the type of its class (which the constructors set and which reading
  does not check) and its vectors fit their counts.
\<close>

fun wf_transaction :: "transaction_t \<Rightarrow> bool" where
  "wf_transaction (Genesis tx) \<longleftrightarrow> l_type (gen_prefix tx) = type_number GENESIS \<and> fits_u64 (gen_outputs tx)"
| "wf_transaction (Staker tx) \<longleftrightarrow> l_type (stk_header tx) = type_number STAKER \<and> wf_staker tx"
| "wf_transaction (Normal tx) \<longleftrightarrow> tx_type tx = type_number NORMAL \<and> wf_user wf_normal_data (\<lambda>_. True) tx"
| "wf_transaction (RecallStake tx) \<longleftrightarrow> tx_type tx = type_number RECALL_STAKE \<and> wf_user (\<lambda>_. True) (\<lambda>_. True) tx"
| "wf_transaction (Stake tx) \<longleftrightarrow> tx_type tx = type_number STAKE \<and> wf_user (\<lambda>_. True) (\<lambda>_. True) tx"
| "wf_transaction (StakeRefund tx) \<longleftrightarrow> l_type (ref_prefix tx) = type_number STAKE_REFUND \<and> fits_u64 (ref_outputs tx)"

lemma transaction_peek:
  assumes "codec_laws C"
  shows "\<exists>r. r_varint C (transaction_serialize C tx @ rest) = Some (transaction_type tx, r)"
  using assms
  by (cases tx)
    (simp_all add: genesis_serialize_def staker_serialize_def refund_serialize_def user_codec_defs
       user_serialize_def serialize_prefix_def serialize_header_def wire)

lemma transaction_read_back:
  assumes "codec_laws C" "wf_transaction tx"
  shows "transaction_deserialize C (transaction_serialize C tx @ rest) = Some (Some (tx, rest))"
proof -
  obtain r where "r_varint C (transaction_serialize C tx @ rest) = Some (transaction_type tx, r)"
    using transaction_peek [OF assms(1)] by blast
  then show ?thesis
    using assms by (cases tx) (simp_all add: transaction_deserialize_def wire)
qed

text \<open>The variant as a format of its own, for the clients that know the type to be listed.\<close>

definition transaction_reader :: "'z codec_scheme \<Rightarrow> transaction_t reader" where
  "transaction_reader C bs = (case transaction_deserialize C bs of Some (Some r) \<Rightarrow> Some r | _ \<Rightarrow> None)"

interpretation transaction:
  wire_format codec_laws "\<lambda>_. wf_transaction" transaction_serialize transaction_reader
  by unfold_locales (simp add: transaction_reader_def transaction_read_back)

end
