(* ===== verification/Blocks.thy ===== *)
theory Blocks
  imports System_Transactions
begin

text \<open>
  The block (\<open>include/blockchain/block.h\<close>): its contents, its serialization in the three
  digest modes, the signing methods of the producer and the validators, and the validation of
  the construction. \<open>transactions\<close> is a \<open>std::set\<close> and \<open>validator_signatures\<close> a \<open>std::map\<close>, the
  sequences of the theory \<open>Std_Containers\<close> under the order of the keys. A method that throws
  returns \<open>None\<close>.
\<close>

section \<open>The structure\<close>

datatype block_transaction_t = RewardGenesis genesis_transaction_t | RewardStaker staker_transaction_t

datatype block_digest_mode_t = BLOCK_DIGEST_FULL | BLOCK_DIGEST_PRODUCER | BLOCK_DIGEST_VALIDATOR

record block_t =
  block_version :: u64
  timestamp :: u64
  block_index :: u64
  previous_blockhash :: crypto_hash_t
  reward_tx :: block_transaction_t
  transactions :: "crypto_hash_t list"
  producer_public_key :: crypto_public_key_t
  producer_signature :: crypto_signature_t
  validator_signatures :: "(crypto_public_key_t \<times> crypto_signature_t) list"

fun reward_transaction :: "block_transaction_t \<Rightarrow> transaction_t" where
  "reward_transaction (RewardGenesis tx) = Genesis tx"
| "reward_transaction (RewardStaker tx) = Staker tx"

definition append_transaction_hash :: "'z crypto_scheme \<Rightarrow> crypto_hash_t \<Rightarrow> block_t \<Rightarrow> block_t" where
  "append_transaction_hash C hash b =
     (if \<not> set_contains (transactions b) hash
      then b\<lparr>transactions := set_insert (key_less C) hash (transactions b)\<rparr> else b)"

definition append_validator_signature ::
  "'z crypto_scheme \<Rightarrow> crypto_public_key_t \<Rightarrow> crypto_signature_t \<Rightarrow> block_t \<Rightarrow> block_t" where
  "append_validator_signature C pk sg b =
     (if map_of (validator_signatures b) pk = None
      then b\<lparr>validator_signatures :=
               map_insert (key_less C) pk sg (validator_signatures b)\<rparr>
      else b)"

definition is_genesis :: "block_t \<Rightarrow> bool" where
  "is_genesis b \<longleftrightarrow> (case reward_tx b of RewardGenesis _ \<Rightarrow> True | RewardStaker _ \<Rightarrow> False)"

section \<open>Serialization\<close>

definition reward_deserialize :: "'z codec_scheme \<Rightarrow> block_transaction_t reader" where
  "reward_deserialize C bs =
     do { (t, _) \<leftarrow> r_varint C bs;
          if t = type_number GENESIS
            then map_option (\<lambda>(tx, r). (RewardGenesis tx, r)) (genesis_deserialize C bs)
          else if t = type_number STAKER
            then map_option (\<lambda>(tx, r). (RewardStaker tx, r)) (staker_deserialize C bs)
          else None }"

definition reward_serialize :: "'z codec_scheme \<Rightarrow> block_transaction_t \<Rightarrow> bytes" where
  "reward_serialize C x =
     (case x of RewardGenesis tx \<Rightarrow> genesis_serialize C tx | RewardStaker tx \<Rightarrow> staker_serialize C tx)"

definition r_validator ::
  "'z codec_scheme \<Rightarrow> (crypto_public_key_t \<times> crypto_signature_t) reader" where
  "r_validator C bs =
     do { (k, bs) \<leftarrow> r_key C bs; (s, bs) \<leftarrow> r_signature C bs; Some ((k, s), bs) }"

definition w_validator ::
  "'z codec_scheme \<Rightarrow> crypto_public_key_t \<times> crypto_signature_t \<Rightarrow> bytes" where
  "w_validator C ks = w_key C (fst ks) @ w_signature C (snd ks)"

text \<open>
  Reading fills in a new block, so where the input has no producer the key and the signature
  stay what their constructors made them.
\<close>

definition block_deserialize :: "'z crypto_scheme \<Rightarrow> block_t reader" where
  "block_deserialize C bs =
     do { (v, bs) \<leftarrow> r_varint C bs;
          (prev, bs) \<leftarrow> r_key C bs;
          (ts, bs) \<leftarrow> r_varint C bs;
          (idx, bs) \<leftarrow> r_varint C bs;
          (reward, bs) \<leftarrow> reward_deserialize C bs;
          (count, bs) \<leftarrow> r_varint C bs;
          (txs, bs) \<leftarrow> read_many (unat count) (r_key C) bs;
          (has_producer, bs) \<leftarrow> r_boolean C bs;
          ((pk, sg), bs) \<leftarrow> (if has_producer then r_validator C bs
                            else Some ((key_default C, sig_default C), bs));
          (count, bs) \<leftarrow> r_varint C bs;
          (vs, bs) \<leftarrow> read_many (unat count) (r_validator C) bs;
          Some (\<lparr>block_version = v, timestamp = ts, block_index = idx, previous_blockhash = prev,
                 reward_tx = reward, transactions = set_of_list (key_less C) txs,
                 producer_public_key = pk, producer_signature = sg,
                 validator_signatures = map_of_list (key_less C) vs\<rparr>, bs) }"

definition has_producer :: "'z crypto_scheme \<Rightarrow> block_t \<Rightarrow> bool" where
  "has_producer C b \<longleftrightarrow>
     producer_public_key b \<noteq> crypto_Z C \<and> \<not> sig_empty C (producer_signature b)"

definition block_serialize_producer :: "'z codec_scheme \<Rightarrow> block_t \<Rightarrow> bytes" where
  "block_serialize_producer C b =
     w_varint C (block_version b) @ w_key C (previous_blockhash b) @ w_varint C (timestamp b) @
     w_varint C (block_index b) @ reward_serialize C (reward_tx b) @
     w_varint C (word_of_nat (length (transactions b))) @
     concat (map (key_serialize C) (transactions b))"

definition block_serialize ::
  "'z crypto_scheme \<Rightarrow> block_digest_mode_t \<Rightarrow> block_t \<Rightarrow> bytes option" where
  "block_serialize C mode b =
     (let w1 = block_serialize_producer C b in
      if mode = BLOCK_DIGEST_PRODUCER then Some w1
      else if \<not> has_producer C b \<and> mode = BLOCK_DIGEST_VALIDATOR then None
      else
        let w2 = w1 @ w_boolean C (has_producer C b) @
                 (if has_producer C b
                  then key_serialize C (producer_public_key b) @ sig_serialize C (producer_signature b)
                  else []) in
        if mode = BLOCK_DIGEST_VALIDATOR then Some w2
        else Some (w2 @ w_varint C (word_of_nat (length (validator_signatures b))) @
                   concat (map (w_validator C) (validator_signatures b))))"

definition message_digest ::
  "'z crypto_scheme \<Rightarrow> block_digest_mode_t \<Rightarrow> block_t \<Rightarrow> crypto_hash_t option" where
  "message_digest C mode b = map_option (sha3 C) (block_serialize C mode b)"

text \<open>In the full mode nothing is thrown: \<open>serialize()\<close>, \<open>hash()\<close> and \<open>size()\<close>.\<close>

definition block_bytes :: "'z crypto_scheme \<Rightarrow> block_t \<Rightarrow> bytes" where
  "block_bytes C b = (case block_serialize C BLOCK_DIGEST_FULL b of Some bs \<Rightarrow> bs | None \<Rightarrow> [])"

definition block_hash :: "'z crypto_scheme \<Rightarrow> block_t \<Rightarrow> crypto_hash_t" where
  "block_hash C b =
     (case message_digest C BLOCK_DIGEST_FULL b of Some h \<Rightarrow> h | None \<Rightarrow> hash_default C)"

definition block_size :: "'z crypto_scheme \<Rightarrow> block_t \<Rightarrow> nat" where
  "block_size C b = length (block_bytes C b)"

lemma block_serialize_full: "block_serialize C BLOCK_DIGEST_FULL b = Some (block_bytes C b)"
  by (simp add: block_bytes_def block_serialize_def Let_def)

lemma block_hash_eq: "block_hash C b = sha3 C (block_bytes C b)"
  by (simp add: block_hash_def message_digest_def block_serialize_full)

lemma block_bytes_eq:
  "block_bytes C b =
     block_serialize_producer C b @ w_boolean C (has_producer C b) @
     (if has_producer C b
      then key_serialize C (producer_public_key b) @ sig_serialize C (producer_signature b) else []) @
     w_varint C (word_of_nat (length (validator_signatures b))) @
     concat (map (w_validator C) (validator_signatures b))"
  by (simp add: block_bytes_def block_serialize_def Let_def)

section \<open>Reading back a block\<close>

fun wf_reward :: "block_transaction_t \<Rightarrow> bool" where
  "wf_reward (RewardGenesis tx) \<longleftrightarrow> wf_transaction (Genesis tx)"
| "wf_reward (RewardStaker tx) \<longleftrightarrow> wf_transaction (Staker tx)"

definition wf_block :: "'z crypto_scheme \<Rightarrow> block_t \<Rightarrow> bool" where
  [wf_defs]: "wf_block C b \<longleftrightarrow>
     wf_reward (reward_tx b) \<and> fits_u64 (transactions b) \<and> fits_u64 (validator_signatures b) \<and>
     sorted_wrt (key_less C) (transactions b) \<and>
     sorted_map (key_less C) (validator_signatures b) \<and>
     (\<not> has_producer C b \<longrightarrow>
        producer_public_key b = key_default C \<and> producer_signature b = sig_default C)"

lemma reward_serialize_transaction:
  "reward_serialize C r = transaction_serialize C (reward_transaction r)"
  by (cases r) (simp_all add: reward_serialize_def)

interpretation reward: wire_format codec_laws "\<lambda>_. wf_reward" reward_serialize reward_deserialize
proof unfold_locales
  fix C :: "'a codec_scheme" and r rest
  assume C: "codec_laws C" and r: "wf_reward r"
  obtain s where "r_varint C (transaction_serialize C (reward_transaction r) @ rest) =
                    Some (transaction_type (reward_transaction r), s)"
    using transaction_peek [OF C] by blast
  then show "reward_deserialize C (reward_serialize C r @ rest) = Some (r, rest)"
    using C r
    by (cases r) (simp_all add: reward_serialize_transaction reward_deserialize_def wire)
qed

interpretation validator: wire_format codec_laws "\<lambda>_ _. True" w_validator r_validator
  by unfold_locales (simp add: w_validator_def r_validator_def wire)

lemma read_keys_back:
  assumes "codec_laws C"
  shows "read_many (length ks) (r_key C) (concat (map (key_serialize C) ks) @ rest) = Some (ks, rest)"
  by (rule read_many_back) (simp add: wire assms)

lemma block_read_back:
  assumes C: "crypto_laws C" and b: "wf_block C b"
  shows "block_deserialize C (block_bytes C b @ rest) = Some (b, rest)"
proof -
  note L = crypto_lawsD(1) [OF C]
  have sets: "set_of_list (key_less C) (transactions b) = transactions b"
    "map_of_list (key_less C) (validator_signatures b) = validator_signatures b"
    using b crypto_lawsD(2) [OF C] by (auto simp: wf_block_def set_of_list_sorted map_of_list_sorted)
  have prod: "(if has_producer C b
      then r_validator C ((if has_producer C b
             then key_serialize C (producer_public_key b) @ sig_serialize C (producer_signature b)
             else []) @ r)
      else Some ((key_default C, sig_default C), (if has_producer C b
             then key_serialize C (producer_public_key b) @ sig_serialize C (producer_signature b)
             else []) @ r)) =
      Some ((producer_public_key b, producer_signature b), r)" for r
    using b by (auto simp: wf_block_def r_validator_def wire L)
  show ?thesis
    using b
    by (simp add: block_deserialize_def block_bytes_eq block_serialize_producer_def wf_block_def
          wire L reward.read_back read_keys_back validator.many_back sets prod
          split del: if_split)
qed

interpretation block: wire_format crypto_laws wf_block block_bytes block_deserialize
  by unfold_locales (rule block_read_back)

section \<open>Signing\<close>

text \<open>
  The signing methods return the public key and the signature beside the changed block; the
  first argument of the generator is the randomness it draws. \<open>validator_sign\<close> throws where
  the block has no producer yet.
\<close>

definition producer_sign ::
  "'z crypto_scheme \<Rightarrow> nat \<Rightarrow> crypto_secret_key_t \<Rightarrow> block_t \<Rightarrow>
     (block_t \<times> crypto_public_key_t \<times> crypto_signature_t) option" where
  "producer_sign C entropy secret b =
     (let pk = secret_key_to_public_key C secret;
          b1 = b\<lparr>producer_public_key := pk\<rparr> in
      do { digest \<leftarrow> message_digest C BLOCK_DIGEST_PRODUCER b1;
           let sg = generate_signature C entropy digest secret in
           Some (b1\<lparr>producer_signature := sg\<rparr>, pk, sg) })"

definition validator_sign ::
  "'z crypto_scheme \<Rightarrow> nat \<Rightarrow> crypto_secret_key_t \<Rightarrow> block_t \<Rightarrow>
     (block_t \<times> crypto_public_key_t \<times> crypto_signature_t) option" where
  "validator_sign C entropy secret b =
     (let pk = secret_key_to_public_key C secret in
      do { digest \<leftarrow> message_digest C BLOCK_DIGEST_VALIDATOR b;
           let sg = generate_signature C entropy digest secret in
           Some (if map_of (validator_signatures b) pk = None
                 then b\<lparr>validator_signatures :=
                          map_insert (key_less C) pk sg (validator_signatures b)\<rparr>
                 else b, pk, sg) })"

section \<open>Validation\<close>

definition reward_has_outputs :: "block_transaction_t \<Rightarrow> bool" where
  "reward_has_outputs r \<longleftrightarrow>
     (case r of RewardGenesis tx \<Rightarrow> gen_outputs tx \<noteq> []
              | RewardStaker tx \<Rightarrow> staker_outputs tx \<noteq> [])"

definition validate_producer_signature :: "'z crypto_scheme \<Rightarrow> block_t \<Rightarrow> bool option" where
  "validate_producer_signature C b =
     do { digest \<leftarrow> message_digest C BLOCK_DIGEST_PRODUCER b;
          Some (check_signature C digest (producer_public_key b) (producer_signature b)) }"

definition validate_validator_signatures :: "'z crypto_scheme \<Rightarrow> block_t \<Rightarrow> bool option" where
  "validate_validator_signatures C b =
     (if validator_signatures b = [] then Some False
      else do { digest \<leftarrow> message_digest C BLOCK_DIGEST_VALIDATOR b;
                Some (list_all (\<lambda>(pk, sg). check_signature C digest pk sg)
                        (validator_signatures b)) })"

definition validate_construction :: "'z crypto_scheme \<Rightarrow> block_t \<Rightarrow> bool option" where
  "validate_construction C b =
     (if \<not> reward_has_outputs (reward_tx b) then Some False
      else if map_of (validator_signatures b) (producer_public_key b) \<noteq> None then Some False
      else do { ok \<leftarrow> validate_producer_signature C b;
                if \<not> ok then Some False else validate_validator_signatures C b })"

section \<open>What the digests cover\<close>

text \<open>
  The producer signs everything but the signatures, a validator everything but the validator
  signatures: signing never invalidates a digest that was signed before.
\<close>

lemma has_producer_validators [simp]:
  "has_producer C (b\<lparr>validator_signatures := vs\<rparr>) = has_producer C b"
  by (simp add: has_producer_def)

lemma producer_bytes_unsigned [simp]:
  "block_serialize_producer C (b\<lparr>producer_public_key := pk\<rparr>) = block_serialize_producer C b"
  "block_serialize_producer C (b\<lparr>producer_signature := sg\<rparr>) = block_serialize_producer C b"
  "block_serialize_producer C (b\<lparr>validator_signatures := vs\<rparr>) = block_serialize_producer C b"
  by (simp_all add: block_serialize_producer_def)

lemma producer_digest:
  "message_digest C BLOCK_DIGEST_PRODUCER b = Some (sha3 C (block_serialize_producer C b))"
  by (simp add: message_digest_def block_serialize_def Let_def)

lemma validator_digest_unsigned [simp]:
  "message_digest C BLOCK_DIGEST_VALIDATOR (b\<lparr>validator_signatures := vs\<rparr>) =
   message_digest C BLOCK_DIGEST_VALIDATOR b"
  by (simp add: message_digest_def block_serialize_def Let_def)

lemma validator_digest_None:
  "message_digest C BLOCK_DIGEST_VALIDATOR b = None \<longleftrightarrow> \<not> has_producer C b"
  by (simp add: message_digest_def block_serialize_def Let_def)

lemma validator_digest_Some:
  "has_producer C b \<Longrightarrow> \<exists>d. message_digest C BLOCK_DIGEST_VALIDATOR b = Some d"
  using validator_digest_None by blast

section \<open>Signing and validating\<close>

lemma producer_sign_valid:
  assumes "crypto_laws C" "producer_sign C e secret b = Some (b', pk, sg)"
  shows "validate_producer_signature C b' = Some True"
    and "producer_public_key b' = pk" "producer_signature b' = sg"
    and "validator_signatures b' = validator_signatures b" "reward_tx b' = reward_tx b"
    and "pk = secret_key_to_public_key C secret"
  using assms(2)
  by (auto simp: producer_sign_def validate_producer_signature_def producer_digest Let_def
        crypto_lawsD(5) [OF assms(1)])

lemma producer_sign_returns: "\<exists>b' sg. producer_sign C e secret b =
    Some (b', secret_key_to_public_key C secret, sg)"
  by (simp add: producer_sign_def producer_digest Let_def)

lemma validator_sign_None: "validator_sign C e secret b = None \<longleftrightarrow> \<not> has_producer C b"
  by (cases "message_digest C BLOCK_DIGEST_VALIDATOR b")
    (auto simp: validator_sign_def Let_def validator_digest_None [symmetric])

text \<open>\<open>signed b\<close>: the producer signature and every validator signature collected so far check.\<close>

definition signed :: "'z crypto_scheme \<Rightarrow> block_t \<Rightarrow> bool" where
  "signed C b \<longleftrightarrow>
     has_producer C b \<and> sorted_map (key_less C) (validator_signatures b) \<and>
     validate_producer_signature C b = Some True \<and>
     (validator_signatures b \<noteq> [] \<longrightarrow> validate_validator_signatures C b = Some True)"

lemma validate_validator_signatures_iff:
  "validate_validator_signatures C b = Some True \<longleftrightarrow>
     validator_signatures b \<noteq> [] \<and>
     (\<exists>d. message_digest C BLOCK_DIGEST_VALIDATOR b = Some d \<and>
          (\<forall>(pk, sg) \<in> set (validator_signatures b). check_signature C d pk sg))"
  by (cases "message_digest C BLOCK_DIGEST_VALIDATOR b")
    (auto simp: validate_validator_signatures_def list_all_iff)

lemma set_map_insert:
  "strict_total lt \<Longrightarrow> map_of m k = None \<Longrightarrow> set (map_insert lt k v m) = insert (k, v) (set m)"
  by (induction m) (auto dest: strict_total_cases split: if_splits)

lemma map_insert_nonempty [simp]: "map_insert lt k v m \<noteq> []"
  by (cases m) (auto split: if_splits)

lemma validator_sign_signed:
  assumes C: "crypto_laws C" and b: "signed C b"
    and r: "validator_sign C e secret b = Some (b', pk, sg)"
  shows "signed C b'" and "pk = secret_key_to_public_key C secret"
    and "producer_public_key b' = producer_public_key b" and "reward_tx b' = reward_tx b"
    and "fst ` set (validator_signatures b') = insert pk (fst ` set (validator_signatures b))"
proof -
  obtain d where d: "message_digest C BLOCK_DIGEST_VALIDATOR b = Some d"
    using b validator_digest_Some by (auto simp: signed_def)
  have pk: "pk = secret_key_to_public_key C secret" and sg: "sg = generate_signature C e d secret"
    using r by (auto simp: validator_sign_def d Let_def)
  have b': "b' = (if map_of (validator_signatures b) pk = None
      then b\<lparr>validator_signatures := map_insert (key_less C) pk sg (validator_signatures b)\<rparr> else b)"
    using r by (auto simp: validator_sign_def d Let_def)
  have ok: "check_signature C d pk sg" by (simp add: pk sg crypto_lawsD(5) [OF C])
  note lt = crypto_lawsD(2) [OF C]
  show "signed C b'"
    using b ok
    by (auto simp: b' signed_def validate_validator_signatures_iff d sorted_map_insert lt
          set_map_insert validate_producer_signature_def producer_digest)
  show "pk = secret_key_to_public_key C secret" by (rule pk)
  show "producer_public_key b' = producer_public_key b" "reward_tx b' = reward_tx b"
    by (auto simp: b')
  show "fst ` set (validator_signatures b') = insert pk (fst ` set (validator_signatures b))"
    by (auto simp: b' set_map_insert lt map_of_eq_None_iff insert_absorb)
qed

text \<open>The collection of signatures: the validators sign one after the other.\<close>

fun validators_sign ::
  "'z crypto_scheme \<Rightarrow> (nat \<times> crypto_secret_key_t) list \<Rightarrow> block_t \<Rightarrow> block_t option" where
  "validators_sign C [] b = Some b"
| "validators_sign C ((e, secret) # vs) b =
     do { (b, _) \<leftarrow> validator_sign C e secret b; validators_sign C vs b }"

lemma validators_sign_signed:
  assumes "crypto_laws C" "signed C b"
  shows "\<exists>b'. validators_sign C vs b = Some b' \<and> signed C b' \<and>
           producer_public_key b' = producer_public_key b \<and> reward_tx b' = reward_tx b \<and>
           fst ` set (validator_signatures b') =
             secret_key_to_public_key C ` snd ` set vs \<union> fst ` set (validator_signatures b)"
  using assms(2)
proof (induction vs arbitrary: b)
  case (Cons v vs)
  obtain e secret where v: "v = (e, secret)" by fastforce
  have "has_producer C b" using Cons.prems by (simp add: signed_def)
  then obtain b1 pk sg where s: "validator_sign C e secret b = Some (b1, pk, sg)"
    using validator_sign_None by (metis not_Some_eq prod_cases3)
  note F = validator_sign_signed [OF assms(1) Cons.prems s]
  obtain b' where "validators_sign C vs b1 = Some b'" "signed C b'"
      "producer_public_key b' = producer_public_key b1" "reward_tx b' = reward_tx b1"
      "fst ` set (validator_signatures b') =
         secret_key_to_public_key C ` snd ` set vs \<union> fst ` set (validator_signatures b1)"
    using Cons.IH [OF F(1)] by blast
  then show ?case using s F by (auto simp: v)
qed simp

lemma validate_construction_iff:
  "validate_construction C b = Some True \<longleftrightarrow>
     reward_has_outputs (reward_tx b) \<and>
     producer_public_key b \<notin> fst ` set (validator_signatures b) \<and>
     validate_producer_signature C b = Some True \<and>
     validate_validator_signatures C b = Some True"
  by (auto simp: validate_construction_def validate_producer_signature_def producer_digest
        map_of_eq_None_iff)

end
