(* ===== verification/Blockchain_Storage.thy ===== *)
theory Blockchain_Storage
  imports Lmdb_Progress Blocks
begin

text \<open>
  The blockchain database (\<open>src/core/blockchain_storage.cpp\<close>): six LMDB databases in one
  environment. Writing and deleting a block is one LMDB transaction in the loop of the macro
  \<open>MDB_CHECK_TXN_EXPAND\<close>. The parameters are the cryptographic library \<open>C\<close> and the LMDB
  library \<open>L\<close>; the state is the environment, \<open>BlockchainStorage\<close> the handles of the databases.
\<close>

section \<open>The databases\<close>

record BlockchainStorage =
  m_blocks :: LMDBDatabase
  m_block_indexes :: LMDBDatabase
  m_block_timestamps :: LMDBDatabase
  m_transactions :: LMDBDatabase
  m_key_images :: LMDBDatabase
  m_transaction_outputs :: LMDBDatabase

section \<open>Lookups\<close>

definition block_exists where
  "block_exists (C :: 'z crypto_scheme) (L :: ('e, 't, 'y) lmdb_scheme) S h =
     db_exists L (m_blocks S) (key_serialize C h)"

definition block_exists_index where
  "block_exists_index (C :: 'z crypto_scheme) (L :: ('e, 't, 'y) lmdb_scheme) S i =
     db_exists L (m_block_indexes S) (w_uint64 C i)"

definition key_image_exists where
  "key_image_exists (C :: 'z crypto_scheme) (L :: ('e, 't, 'y) lmdb_scheme) S key_image =
     db_exists L (m_key_images S) (key_serialize C key_image)"

definition output_exists where
  "output_exists (C :: 'z crypto_scheme) (L :: ('e, 't, 'y) lmdb_scheme) S output_hash =
     db_exists L (m_transaction_outputs S) (key_serialize C output_hash)"

definition transaction_exists where
  "transaction_exists (C :: 'z crypto_scheme) (L :: ('e, 't, 'y) lmdb_scheme) S txn_hash =
     db_exists L (m_transactions S) (key_serialize C txn_hash)"

text \<open>The loop over several key images looks at all of them in one read-only transaction.\<close>

definition key_images_exist where
  "key_images_exist (C :: 'z crypto_scheme) (L :: ('e, 't, 'y) lmdb_scheme) S images =
     db_read L (m_key_images S)
       (\<lambda>T. foldl (\<lambda>found key_image. if txn_exists L (key_serialize C key_image) T then True else found)
              False images)"

definition get_block_hash where
  "get_block_hash (C :: 'z crypto_scheme) (L :: ('e, 't, 'y) lmdb_scheme) S index E =
     (case db_get_value L (r_key C) (m_block_indexes S) (w_uint64 C index) E of
        (Thrown, E) \<Rightarrow> (Thrown, E)
      | (Returned (err, h), E) \<Rightarrow>
          if failed err then (Returned (DB_BLOCK_NOT_FOUND, None), E) else (Returned (err, h), E))"

definition get_block_index where
  "get_block_index (C :: 'z crypto_scheme) (L :: ('e, 't, 'y) lmdb_scheme) S hash E =
     (case db_get_value L (block_deserialize C) (m_blocks S) (key_serialize C hash) E of
        (Thrown, E) \<Rightarrow> (Thrown, E)
      | (Returned (err, b), E) \<Rightarrow>
          if failed err then (Returned (DB_BLOCK_NOT_FOUND, None), E)
          else (Returned (err, map_option block_index b), E))"

text \<open>
  \<open>get_transaction\<close> reads the hash of the block first and then, by its type, the transaction.
\<close>

definition get_transaction where
  "get_transaction (C :: 'z crypto_scheme) (L :: ('e, 't, 'y) lmdb_scheme) S txn_hash E =
     (case db_get L (m_transactions S) (key_serialize C txn_hash) E of
        (Thrown, E) \<Rightarrow> (Thrown, E)
      | (Returned (err, bs), E) \<Rightarrow>
          if failed err then (Returned (DB_TRANSACTION_NOT_FOUND, None), E)
          else (case do { (h, bs) \<leftarrow> r_key C bs;
                          tx \<leftarrow> transaction_deserialize C bs;
                          Some (h, tx) } of
                  None \<Rightarrow> (Thrown, E)
                | Some (h, None) \<Rightarrow> (Returned (UNKNOWN_TRANSACTION_TYPE, None), E)
                | Some (h, Some (tx, _)) \<Rightarrow> (Returned (SUCCESS, Some (tx, h)), E)))"

text \<open>\<open>get_transaction_output\<close> reads the output first and then its unlock block.\<close>

definition get_transaction_output where
  "get_transaction_output (C :: 'z crypto_scheme) (L :: ('e, 't, 'y) lmdb_scheme) S output_hash E =
     (case db_get L (m_transaction_outputs S) (key_serialize C output_hash) E of
        (Thrown, E) \<Rightarrow> (Thrown, E)
      | (Returned (err, bs), E) \<Rightarrow>
          if failed err then (Returned (DB_TRANSACTION_OUTPUT_NOT_FOUND, None), E)
          else (case do { (out, bs) \<leftarrow> TransactionOutput_deserialize C bs;
                          (unlock, bs) \<leftarrow> r_varint C bs;
                          Some (out, unlock) } of
                  None \<Rightarrow> (Thrown, E)
                | Some r \<Rightarrow> (Returned (SUCCESS, Some r), E)))"

text \<open>The loops over several hashes stop at the first error.\<close>

fun get_each ::
  "('h \<Rightarrow> 's \<Rightarrow> (ErrorCode \<times> 'v option) outcome \<times> 's) \<Rightarrow> 'h list \<Rightarrow> 's \<Rightarrow>
     (ErrorCode \<times> 'v list option) outcome \<times> 's" where
  "get_each get [] s = (Returned (SUCCESS, Some []), s)"
| "get_each get (h # hs) s =
     (case get h s of
        (Returned (err, Some v), s) \<Rightarrow>
          if failed err then (Returned (err, None), s)
          else (case get_each get hs s of
                  (Returned (err, vs), s) \<Rightarrow> (Returned (err, map_option ((#) v) vs), s)
                | (Thrown, s) \<Rightarrow> (Thrown, s))
      | (Returned (err, None), s) \<Rightarrow> (Returned (err, None), s)
      | (Thrown, s) \<Rightarrow> (Thrown, s))"

definition get_transaction_outputs where
  "get_transaction_outputs (C :: 'z crypto_scheme) (L :: ('e, 't, 'y) lmdb_scheme) S hashes =
     get_each (get_transaction_output C L S) hashes"

definition get_block where
  "get_block (C :: 'z crypto_scheme) (L :: ('e, 't, 'y) lmdb_scheme) S hash E =
     (case db_get_value L (block_deserialize C) (m_blocks S) (key_serialize C hash) E of
        (Returned (err, Some b), E) \<Rightarrow>
          (case get_each (get_transaction C L S) (transactions b) E of
             (Thrown, E) \<Rightarrow> (Thrown, E)
           | (Returned (txn_error, txs), E) \<Rightarrow>
               if failed txn_error then (Returned (DB_TRANSACTION_NOT_FOUND, None), E)
               else (Returned (SUCCESS, map_option (\<lambda>txs. (b, map fst txs)) txs), E))
      | (Returned (err, None), E) \<Rightarrow> (Returned (DB_BLOCK_NOT_FOUND, None), E)
      | (Thrown, E) \<Rightarrow> (Thrown, E))"

definition get_block_at where
  "get_block_at (C :: 'z crypto_scheme) (L :: ('e, 't, 'y) lmdb_scheme) S index E =
     (case db_get_value L (r_key C) (m_block_indexes S) (w_uint64 C index) E of
        (Returned (err, Some h), E) \<Rightarrow> get_block C L S h E
      | (Returned (err, None), E) \<Rightarrow> (Returned (DB_BLOCK_NOT_FOUND, None), E)
      | (Thrown, E) \<Rightarrow> (Thrown, E))"

section \<open>Writing\<close>

text \<open>Steps one after the other, up to the first that fails: \<open>if (error) { return error; }\<close>.\<close>

fun steps_until_error :: "'t txn_step list \<Rightarrow> 't txn_step" where
  "steps_until_error [] T = (SUCCESS, T)"
| "steps_until_error (f # fs) T =
     (let (err, T) = f T in if failed err then (err, T) else steps_until_error fs T)"

definition put_key_image where
  "put_key_image (C :: 'z crypto_scheme) (L :: ('e, 't, 'y) lmdb_scheme) S key_image T =
     txn_put L (key_serialize C key_image) [] 0 (set_database (m_dbi (m_key_images S)) T)"

text \<open>The unlock block is written in front of the output.\<close>

definition put_transaction_output where
  "put_transaction_output (C :: 'z crypto_scheme) (L :: ('e, 't, 'y) lmdb_scheme) S out unlock T =
     txn_put L (key_serialize C (TransactionOutput_hash C out))
       (w_varint C unlock @ TransactionOutput_serialize C out) 0
       (set_database (m_dbi (m_transaction_outputs S)) T)"

text \<open>What the visitors of the variant take from a transaction.\<close>

fun spent_key_images :: "transaction_t \<Rightarrow> crypto_key_image_t list" where
  "spent_key_images (Normal tx) = tx_key_images tx"
| "spent_key_images (RecallStake tx) = tx_key_images tx"
| "spent_key_images (Stake tx) = tx_key_images tx"
| "spent_key_images _ = []"

fun created_outputs :: "transaction_t \<Rightarrow> (TransactionOutput \<times> u64) list" where
  "created_outputs (Normal tx) = map (\<lambda>out. (out, unlock_block (tx_prefix tx))) (tx_outs tx)"
| "created_outputs (RecallStake tx) = map (\<lambda>out. (out, unlock_block (tx_prefix tx))) (tx_outs tx)"
| "created_outputs (Stake tx) = map (\<lambda>out. (out, unlock_block (tx_prefix tx))) (tx_outs tx)"
| "created_outputs (Genesis tx) = map (\<lambda>out. (out, unlock_block (gen_prefix tx))) (gen_outputs tx)"
| "created_outputs (StakeRefund tx) = map (\<lambda>out. (out, unlock_block (ref_prefix tx))) (ref_outputs tx)"
| "created_outputs (Staker tx) = []"

text \<open>The transaction is written in front of the hash of its block.\<close>

definition put_transaction where
  "put_transaction (C :: 'z crypto_scheme) (L :: ('e, 't, 'y) lmdb_scheme) S tx h T =
     (let T = set_database (m_dbi (m_transactions S)) T;
          (err, T) = steps_until_error
            (txn_put L (key_serialize C (transaction_hash C tx)) (transaction_serialize C tx @ w_key C h) 0 #
             map (put_key_image C L S) (spent_key_images tx)) T in
      if failed err then ((err, transaction_hash C tx), T)
      else
        let (err, T) = steps_until_error
              (map (\<lambda>(out, unlock). put_transaction_output C L S out unlock) (created_outputs tx)) T in
        ((err, transaction_hash C tx), T))"

definition put_transaction_step where
  "put_transaction_step (C :: 'z crypto_scheme) (L :: ('e, 't, 'y) lmdb_scheme) S h tx T =
     (let ((err, txn_hash), T) = put_transaction C L S tx h T in (err, T))"

definition put_block_steps where
  "put_block_steps (C :: 'z crypto_scheme) (L :: ('e, 't, 'y) lmdb_scheme) S b txs =
     (let h = block_hash C b in
      [put_transaction_step C L S h (reward_transaction (reward_tx b))] @
      map (put_transaction_step C L S h) txs @
      [\<lambda>T. txn_put L (key_serialize C h) (block_bytes C b) 0 (set_database (m_dbi (m_blocks S)) T),
       \<lambda>T. txn_put L (w_uint64 C (block_index b)) (key_serialize C h) 0
             (set_database (m_dbi (m_block_indexes S)) T),
       \<lambda>T. txn_put L (w_uint64 C (timestamp b)) (key_serialize C h) 0
             (set_database (m_dbi (m_block_timestamps S)) T)])"

definition env_run where
  "env_run (L :: ('e, 't, 'y) lmdb_scheme) steps E =
     (case lmdb_transaction L False E of
        (Thrown, E) \<Rightarrow> (E, Some Thrown)
      | (Returned T, E) \<Rightarrow> txn_run L steps T E)"

definition put_block where
  "put_block (C :: 'z crypto_scheme) (L :: ('e, 't, 'y) lmdb_scheme) S b txs E =
     (if length txs \<noteq> length (transactions b) then Some (E, Returned BLOCK_TXN_MISMATCH)
      else if sha3_hashes C (transactions b) \<noteq> sha3_hashes C (map (transaction_hash C) txs)
        then Some (E, Returned BLOCK_TXN_ORDER)
      else try_again (env_run L (put_block_steps C L S b txs)) E)"

section \<open>Deleting\<close>

definition del_key_image where
  "del_key_image (C :: 'z crypto_scheme) (L :: ('e, 't, 'y) lmdb_scheme) S key_image T =
     txn_del L (key_serialize C key_image) (set_database (m_dbi (m_key_images S)) T)"

definition del_transaction_output where
  "del_transaction_output (C :: 'z crypto_scheme) (L :: ('e, 't, 'y) lmdb_scheme) S output_hash T =
     txn_del L (key_serialize C output_hash) (set_database (m_dbi (m_transaction_outputs S)) T)"

definition del_transaction where
  "del_transaction (C :: 'z crypto_scheme) (L :: ('e, 't, 'y) lmdb_scheme) S tx T =
     steps_until_error
       (map (del_key_image C L S) (spent_key_images tx) @
        map (\<lambda>(out, unlock). del_transaction_output C L S (TransactionOutput_hash C out)) (created_outputs tx) @
        [\<lambda>T. txn_del L (key_serialize C (transaction_hash C tx))
               (set_database (m_dbi (m_transactions S)) T)]) T"

definition del_block_steps where
  "del_block_steps (C :: 'z crypto_scheme) (L :: ('e, 't, 'y) lmdb_scheme) S b txs =
     map (del_transaction C L S) txs @
     [\<lambda>T. txn_del_value L (w_uint64 C (timestamp b)) (key_serialize C (block_hash C b))
            (set_database (m_dbi (m_block_timestamps S)) T),
      \<lambda>T. txn_del L (w_uint64 C (block_index b)) (set_database (m_dbi (m_block_indexes S)) T),
      \<lambda>T. txn_del L (key_serialize C (block_hash C b)) (set_database (m_dbi (m_blocks S)) T)]"

definition del_block where
  "del_block (C :: 'z crypto_scheme) (L :: ('e, 't, 'y) lmdb_scheme) S index E =
     (case get_block_at C L S index E of
        (Thrown, E) \<Rightarrow> Some (E, Thrown)
      | (Returned (err, None), E) \<Rightarrow> Some (E, Returned err)
      | (Returned (err, Some (b, txs)), E) \<Rightarrow>
          if failed err then Some (E, Returned err)
          else try_again (db_run L (m_blocks S) (del_block_steps C L S b txs)) E)"

section \<open>What the steps do\<close>

lemma refines_seq:
  assumes "refines tv f g" "refines tv f' g'"
  shows "refines tv (\<lambda>T. let (err, T) = f T in if failed err then (err, T) else f' T)
           (\<lambda>c. do { c \<leftarrow> g c; g' c })"
  using assms by (auto simp: refines_def split: prod.splits) (metis snd_conv)+

lemma refines_steps:
  "list_all2 (refines tv) fs gs \<Longrightarrow> refines tv (steps_until_error fs) (apply_all gs)"
proof (induction fs arbitrary: gs)
  case Nil
  then show ?case by (simp add: refines_def)
next
  case (Cons f fs)
  then obtain g gs' where gs: "gs = g # gs'" "refines tv f g" "list_all2 (refines tv) fs gs'"
    by (auto simp: list_all2_Cons1)
  have "steps_until_error (f # fs) =
      (\<lambda>T. let (err, T) = f T in if failed err then (err, T) else steps_until_error fs T)"
    "apply_all gs = (\<lambda>c. do { c \<leftarrow> g c; apply_all gs' c })"
    by (auto simp: gs(1))
  then show ?case using refines_seq [OF gs(2) Cons.IH [OF gs(3)]] by simp
qed

text \<open>The entries a transaction and a block add, in the order they are written.\<close>

definition transaction_changes where
  "transaction_changes (C :: 'z crypto_scheme) S h tx =
     [put_change (m_dbi (m_transactions S)) (key_serialize C (transaction_hash C tx))
        (transaction_serialize C tx @ w_key C h)] @
     map (\<lambda>ki. put_change (m_dbi (m_key_images S)) (key_serialize C ki) []) (spent_key_images tx) @
     map (\<lambda>(out, unlock). put_change (m_dbi (m_transaction_outputs S))
            (key_serialize C (TransactionOutput_hash C out))
            (w_varint C unlock @ TransactionOutput_serialize C out)) (created_outputs tx)"

definition block_changes where
  "block_changes (C :: 'z crypto_scheme) S b txs =
     (let h = block_hash C b in
      map (\<lambda>tx. apply_all (transaction_changes C S h tx)) (reward_transaction (reward_tx b) # txs) @
      [put_change (m_dbi (m_blocks S)) (key_serialize C h) (block_bytes C b),
       put_change (m_dbi (m_block_indexes S)) (w_uint64 C (block_index b)) (key_serialize C h),
       put_change (m_dbi (m_block_timestamps S)) (w_uint64 C (timestamp b)) (key_serialize C h)])"

lemma steps_until_error_append:
  "steps_until_error (fs @ gs) T =
     (let (err, T) = steps_until_error fs T in if failed err then (err, T) else steps_until_error gs T)"
  by (induction fs arbitrary: T) (auto split: prod.splits)

lemma put_transaction_step_eq:
  "put_transaction_step C L S h tx =
     steps_until_error
       ((\<lambda>T. txn_put L (key_serialize C (transaction_hash C tx)) (transaction_serialize C tx @ w_key C h) 0
               (set_database (m_dbi (m_transactions S)) T)) #
        map (put_key_image C L S) (spent_key_images tx) @
        map (\<lambda>(out, unlock). put_transaction_output C L S out unlock) (created_outputs tx))"
  by (rule ext)
    (auto simp: put_transaction_step_def put_transaction_def steps_until_error_append Let_def
      split: prod.splits)

lemma refines_put_transaction:
  assumes "lmdb_laws L ev tv"
  shows "refines tv (put_transaction_step C L S h tx) (apply_all (transaction_changes C S h tx))"
  unfolding put_transaction_step_eq transaction_changes_def
  by (rule refines_steps)
    (auto simp: list_all2_append list_all2_map1 list_all2_map2 list_all2_same put_key_image_def [abs_def]
      put_transaction_output_def [abs_def] intro!: list_all2_appendI refines_put_at [OF assms])

lemma refines_put_block:
  assumes "lmdb_laws L ev tv"
  shows "list_all2 (refines tv) (put_block_steps C L S b txs) (block_changes C S b txs)"
  unfolding put_block_steps_def block_changes_def Let_def
  by (auto simp: list_all2_map1 list_all2_map2 list_all2_same
      intro!: list_all2_appendI refines_put_transaction [OF assms] refines_put_at [OF assms])

lemma env_run_atomic:
  assumes "lmdb_laws L ev tv" "list_all2 (refines tv) fs gs"
  shows "atomic_body ev M gs (env_run L fs)"
  by (rule txn_body_atomic [OF assms env_run_def]) (auto simp: lmdb_transaction_def)

section \<open>Writing a block is atomic\<close>

lemma put_block_atomic:
  assumes "lmdb_laws L ev tv" "stored ev E c" "m_open_txns E + 1 \<noteq> 0"
    "put_block C L S b txs E = Some (E', r)"
  shows "frame E E' \<and> (\<exists>c'. stored ev E' c' \<and> atomic_result c (block_changes C S b txs) r c')"
proof (cases "try_again (env_run L (put_block_steps C L S b txs)) E = Some (E', r)")
  case True
  show ?thesis
    by (rule atomic_loop [OF env_run_atomic [OF assms(1) refines_put_block [OF assms(1)]] assms(2,3) True])
next
  case False
  then show ?thesis
    using assms(2,4) by (auto simp: put_block_def atomic_result_def split: if_splits)
qed

text \<open>Of the changes of a block none can be refused, and a later one may overwrite an earlier one.\<close>

lemma apply_all_puts:
  assumes "\<forall>g \<in> set gs. \<forall>c. g c \<noteq> None" shows "apply_all gs c \<noteq> None"
  using assms by (induction gs arbitrary: c) (auto split: Option.bind_splits)

lemma transaction_changes_total: "apply_all (transaction_changes C S h tx) c \<noteq> None"
  by (rule apply_all_puts) (auto simp: transaction_changes_def put_change_def)

lemma block_changes_total: "apply_all (block_changes C S b txs) c \<noteq> None"
  by (rule apply_all_puts)
    (auto simp: block_changes_def Let_def put_change_def transaction_changes_total
      simp flip: not_None_eq)

section \<open>Writing a block returns\<close>

lemma bounded_steps:
  assumes "\<forall>f \<in> set fs. bounded_step tm bound f"
  shows "bounded_step tm bound (steps_until_error fs)"
proof -
  have "steps_until_error fs T = (err, T') \<Longrightarrow>
      tm (txn_handle T') = tm (txn_handle T) \<and> (map_full err \<longrightarrow> tm (txn_handle T) < bound)" for T err T'
    using assms
  proof (induction fs arbitrary: T)
    case (Cons f fs)
    obtain e T1 where f: "f T = (e, T1)" by fastforce
    then show ?case using Cons by (fastforce simp: bounded_step_def split: if_splits)
  qed (auto simp: map_full_def)
  then show ?thesis by (auto simp: bounded_step_def)
qed

lemma bounded_put_block:
  assumes "growth_laws L tm bound"
  shows "\<forall>f \<in> set (put_block_steps C L S b txs). bounded_step tm bound f"
proof -
  have "bounded_step tm bound (put_transaction_step C L S h tx)" for h tx
    unfolding put_transaction_step_eq
    by (rule bounded_steps)
      (auto simp: put_key_image_def [abs_def] put_transaction_output_def [abs_def] bounded_put [OF assms])
  then show ?thesis by (auto simp: put_block_steps_def Let_def bounded_put [OF assms])
qed

lemma put_block_returns:
  assumes "lmdb_laws L ev tv" "growth_laws L tm bound" "grows E" "m_env E \<noteq> None" "m_open_txns E + 1 \<noteq> 0"
  shows "\<exists>y. put_block C L S b txs E = Some y"
proof -
  have "\<exists>y. try_again (env_run L (put_block_steps C L S b txs)) E = Some y"
  proof (rule txn_loop_returns [OF assms(2) bounded_put_block [OF assms(2)]
        env_run_atomic [OF assms(1) refines_put_block [OF assms(1)]] assms(3-5)])
    show "env_run L (put_block_steps C L S b txs) E1 =
        (case lmdb_transaction L False E1 of (Thrown, E1) \<Rightarrow> (E1, Some Thrown)
         | (Returned T, E1) \<Rightarrow> txn_run L (put_block_steps C L S b txs) T E1)" for E1 :: "'a LMDB"
      by (rule env_run_def)
    show "lmdb_transaction L False E1 = (Thrown, E1) \<or>
        (\<exists>d. lmdb_transaction L False E1 = txn_setup L d False E1)" for E1 :: "'a LMDB"
      by (auto simp: lmdb_transaction_def)
  qed
  then show ?thesis by (simp add: put_block_def)
qed

section \<open>What is stored can be found\<close>

text \<open>The databases are open in the environment under their own handles, and the handles differ.\<close>

definition storage_dbs :: "BlockchainStorage \<Rightarrow> LMDBDatabase list" where
  "storage_dbs S = [m_blocks S, m_block_indexes S, m_block_timestamps S, m_transactions S,
     m_key_images S, m_transaction_outputs S]"

definition storage_open :: "BlockchainStorage \<Rightarrow> 'e LMDB \<Rightarrow> bool" where
  "storage_open S E \<longleftrightarrow>
     (\<forall>D \<in> set (storage_dbs S). tsm_at (m_databases E) (db_id D) = Some D \<and> m_dbi D \<noteq> 0) \<and>
     distinct (map m_dbi (storage_dbs S))"

lemma storage_open_frame: "frame E E' \<Longrightarrow> storage_open S E' = storage_open S E"
  by (simp add: storage_open_def frameD)

lemma storage_handle: "storage_open S E \<Longrightarrow> D \<in> set (storage_dbs S) \<Longrightarrow> handle (m_databases E) D = m_dbi D"
  by (simp add: storage_open_def handle_def)

text \<open>What holds of one entry throughout, or from some change on.\<close>

definition keeps_entry ::
  "nat \<Rightarrow> bytes \<Rightarrow> (bytes option \<Rightarrow> bool) \<Rightarrow> (contents \<Rightarrow> contents option) \<Rightarrow> bool" where
  "keeps_entry d k P g \<longleftrightarrow> (\<forall>c c'. g c = Some c' \<longrightarrow> P (c d k) \<longrightarrow> P (c' d k))"

definition makes_entry ::
  "nat \<Rightarrow> bytes \<Rightarrow> (bytes option \<Rightarrow> bool) \<Rightarrow> (contents \<Rightarrow> contents option) \<Rightarrow> bool" where
  "makes_entry d k P g \<longleftrightarrow> (\<forall>c c'. g c = Some c' \<longrightarrow> P (c' d k))"

lemma makes_put: "P (Some v) \<Longrightarrow> makes_entry d k P (put_change d k v)"
  by (simp add: makes_entry_def put_change_def)

lemma keeps_put: "d' \<noteq> d \<or> k' \<noteq> k \<or> P (Some v) \<Longrightarrow> keeps_entry d k P (put_change d' k' v)"
  by (auto simp: keeps_entry_def put_change_def)

lemma keeps_all: "\<forall>g \<in> set gs. keeps_entry d k P g \<Longrightarrow> keeps_entry d k P (apply_all gs)"
proof (induction gs)
  case (Cons g gs)
  then show ?case unfolding keeps_entry_def by (auto split: Option.bind_splits)
qed (simp add: keeps_entry_def)

lemma makes_all:
  assumes "\<forall>g \<in> set gs. keeps_entry d k P g" "g \<in> set gs" "makes_entry d k P g"
  shows "makes_entry d k P (apply_all gs)"
  using assms
proof (induction gs)
  case (Cons h gs)
  note K = keeps_all [of gs d k P]
  show ?case
  proof (cases "g = h")
    case True
    then show ?thesis
      using K Cons.prems by (auto simp: makes_entry_def keeps_entry_def split: Option.bind_splits)
  next
    case False
    then show ?thesis using Cons by (auto simp: makes_entry_def split: Option.bind_splits)
  qed
qed simp

text \<open>
  An entry that one transaction of a block makes, and that no other write of the block breaks, is
  there in the end.
\<close>

lemma block_changes_make:
  assumes c': "apply_all (block_changes C S b txs) c = Some c'"
    and tx: "tx \<in> set (reward_transaction (reward_tx b) # txs)"
    and g: "g \<in> set (transaction_changes C S (block_hash C b) tx)" "makes_entry d k P g"
    and keep: "\<And>t g. t \<in> set (reward_transaction (reward_tx b) # txs) \<Longrightarrow>
      g \<in> set (transaction_changes C S (block_hash C b) t) \<Longrightarrow> keeps_entry d k P g"
    and d: "d \<notin> {m_dbi (m_blocks S), m_dbi (m_block_indexes S), m_dbi (m_block_timestamps S)}"
  shows "P (c' d k)"
proof -
  let ?h = "block_hash C b"
  have "makes_entry d k P (apply_all (transaction_changes C S ?h tx))"
    by (rule makes_all [OF _ g]) (use keep tx in blast)
  moreover have "\<forall>g \<in> set (block_changes C S b txs). keeps_entry d k P g"
    using d keep by (auto simp: block_changes_def Let_def intro!: keeps_put keeps_all)
  moreover have "apply_all (transaction_changes C S ?h tx) \<in> set (block_changes C S b txs)"
    using tx by (auto simp: block_changes_def Let_def)
  ultimately have "makes_entry d k P (apply_all (block_changes C S b txs))"
    by (intro makes_all)
  then show ?thesis using c' by (simp add: makes_entry_def)
qed

lemma apply_all_last:
  assumes "apply_all (gs @ [g1, g2, g3]) c = Some c'"
  obtains c1 c2 c3 where "g1 c1 = Some c2" "g2 c2 = Some c3" "g3 c3 = Some c'"
  using assms by (auto simp: apply_all_append split: Option.bind_splits)

lemma block_changes_blocks:
  assumes "storage_open S E" "apply_all (block_changes C S b txs) c = Some c'"
  shows "c' (m_dbi (m_blocks S)) (key_serialize C (block_hash C b)) = Some (block_bytes C b)"
    and "c' (m_dbi (m_block_indexes S)) (w_uint64 C (block_index b)) = Some (key_serialize C (block_hash C b))"
    and "c' (m_dbi (m_block_timestamps S)) (w_uint64 C (timestamp b)) = Some (key_serialize C (block_hash C b))"
proof -
  obtain c1 c2 c3 where
      "put_change (m_dbi (m_blocks S)) (key_serialize C (block_hash C b)) (block_bytes C b) c1 = Some c2"
      "put_change (m_dbi (m_block_indexes S)) (w_uint64 C (block_index b))
         (key_serialize C (block_hash C b)) c2 = Some c3"
      "put_change (m_dbi (m_block_timestamps S)) (w_uint64 C (timestamp b))
         (key_serialize C (block_hash C b)) c3 = Some c'"
    by (rule apply_all_last [OF assms(2) [unfolded block_changes_def Let_def]])
  then show "c' (m_dbi (m_blocks S)) (key_serialize C (block_hash C b)) = Some (block_bytes C b)"
    "c' (m_dbi (m_block_indexes S)) (w_uint64 C (block_index b)) = Some (key_serialize C (block_hash C b))"
    "c' (m_dbi (m_block_timestamps S)) (w_uint64 C (timestamp b)) = Some (key_serialize C (block_hash C b))"
    using assms(1) by (auto simp: put_change_def storage_open_def storage_dbs_def)
qed

lemma block_changes_key_images:
  assumes S: "storage_open S E" and c': "apply_all (block_changes C S b txs) c = Some c'"
    and tx: "tx \<in> set (reward_transaction (reward_tx b) # txs)" and ki: "ki \<in> set (spent_key_images tx)"
  shows "c' (m_dbi (m_key_images S)) (key_serialize C ki) = Some []"
proof (rule block_changes_make [OF c' tx])
  show "put_change (m_dbi (m_key_images S)) (key_serialize C ki) [] \<in>
      set (transaction_changes C S (block_hash C b) tx)"
    using ki by (auto simp: transaction_changes_def)
qed (use S in \<open>auto simp: transaction_changes_def storage_open_def storage_dbs_def intro!: makes_put keeps_put\<close>)

text \<open>A transaction and its outputs: an entry is there, and that of the transaction that was written last is known.\<close>

lemma block_changes_transactions:
  assumes S: "storage_open S E" and c': "apply_all (block_changes C S b txs) c = Some c'"
    and tx: "tx \<in> set (reward_transaction (reward_tx b) # txs)"
  shows "c' (m_dbi (m_transactions S)) (key_serialize C (transaction_hash C tx)) \<noteq> None"
    and "(out, unlock) \<in> set (created_outputs tx) \<Longrightarrow>
      c' (m_dbi (m_transaction_outputs S)) (key_serialize C (TransactionOutput_hash C out)) \<noteq> None"
proof -
  show "c' (m_dbi (m_transactions S)) (key_serialize C (transaction_hash C tx)) \<noteq> None"
  proof (rule block_changes_make [OF c' tx])
    show "put_change (m_dbi (m_transactions S)) (key_serialize C (transaction_hash C tx))
        (transaction_serialize C tx @ w_key C (block_hash C b)) \<in> set (transaction_changes C S (block_hash C b) tx)"
      by (simp add: transaction_changes_def)
  qed (use S in \<open>auto simp: transaction_changes_def storage_open_def storage_dbs_def intro!: makes_put keeps_put\<close>)
  show "c' (m_dbi (m_transaction_outputs S)) (key_serialize C (TransactionOutput_hash C out)) \<noteq> None"
    if "(out, unlock) \<in> set (created_outputs tx)"
  proof (rule block_changes_make [OF c' tx])
    show "put_change (m_dbi (m_transaction_outputs S)) (key_serialize C (TransactionOutput_hash C out))
        (w_varint C unlock @ TransactionOutput_serialize C out) \<in> set (transaction_changes C S (block_hash C b) tx)"
      using that by (force simp: transaction_changes_def)
  qed (use S in \<open>auto simp: transaction_changes_def storage_open_def storage_dbs_def intro!: makes_put keeps_put\<close>)
qed

lemma block_changes_last_transaction:
  assumes S: "storage_open S E" and c': "apply_all (block_changes C S b (txs @ [tx])) c = Some c'"
  shows "c' (m_dbi (m_transactions S)) (key_serialize C (transaction_hash C tx)) =
    Some (transaction_serialize C tx @ w_key C (block_hash C b))"
proof -
  let ?d = "m_dbi (m_transactions S)" and ?k = "key_serialize C (transaction_hash C tx)"
  let ?P = "\<lambda>x. x = Some (transaction_serialize C tx @ w_key C (block_hash C b))"
  define front where "front = map (\<lambda>tx. apply_all (transaction_changes C S (block_hash C b) tx))
    (reward_transaction (reward_tx b) # txs)"
  define rest where "rest = apply_all (transaction_changes C S (block_hash C b) tx) #
    [put_change (m_dbi (m_blocks S)) (key_serialize C (block_hash C b)) (block_bytes C b),
     put_change (m_dbi (m_block_indexes S)) (w_uint64 C (block_index b)) (key_serialize C (block_hash C b)),
     put_change (m_dbi (m_block_timestamps S)) (w_uint64 C (timestamp b)) (key_serialize C (block_hash C b))]"
  have split: "block_changes C S b (txs @ [tx]) = front @ rest"
    by (simp add: block_changes_def Let_def front_def rest_def)
  have k: "\<forall>g \<in> set (transaction_changes C S (block_hash C b) tx). keeps_entry ?d ?k ?P g"
    using S by (auto simp: transaction_changes_def storage_open_def storage_dbs_def intro!: keeps_put)
  have "makes_entry ?d ?k ?P (apply_all (transaction_changes C S (block_hash C b) tx))"
    by (rule makes_all [OF k, of "put_change ?d ?k (transaction_serialize C tx @ w_key C (block_hash C b))"])
      (auto simp: transaction_changes_def intro!: makes_put)
  moreover have "\<forall>g \<in> set rest. keeps_entry ?d ?k ?P g"
    using S k by (auto simp: rest_def storage_open_def storage_dbs_def intro!: keeps_put keeps_all)
  ultimately have "makes_entry ?d ?k ?P (apply_all rest)"
    by (rule makes_all [rotated -1]) (simp_all add: rest_def)
  then show ?thesis
    using c' unfolding split apply_all_append makes_entry_def by (auto split: Option.bind_splits)
qed

text \<open>Reading an entry: the outcome is an exception of the library, or what the contents say.\<close>

lemma db_exists_stored:
  assumes "lmdb_laws L ev tv" "stored ev E c" "storage_open S E" "D \<in> set (storage_dbs S)"
    "db_exists L D key E = (r, E')"
  shows "stored ev E' c" "frame E E'" "r = Thrown \<or> r = Returned (c (m_dbi D) key \<noteq> None)"
  using db_read_stored [OF assms(1,2) assms(5) [unfolded db_exists_def]]
  by (auto simp: txn_exists_iff [OF assms(1)] storage_handle [OF assms(3,4)])

lemma db_get_value_stored:
  assumes "lmdb_laws L ev tv" "stored ev E c" "storage_open S E" "D \<in> set (storage_dbs S)"
    "db_get_value L rd D key E = (r, E')"
  shows "stored ev E' c" "frame E E'"
    "r = Thrown \<or> r = (case c (m_dbi D) key of None \<Rightarrow> Returned (LMDB_NOTFOUND, None)
       | Some bs \<Rightarrow> (case rd bs of None \<Rightarrow> Thrown | Some (v, _) \<Rightarrow> Returned (SUCCESS, Some v)))"
proof -
  obtain o1 E1 where g: "db_get L D key E = (o1, E1)" by fastforce
  note R = db_read_stored [OF assms(1,2) g [unfolded db_get_def]]
  note h = storage_handle [OF assms(3,4)]
  consider "o1 = Thrown" | "c (m_dbi D) key = None" "o1 = Returned (LMDB_NOTFOUND, [])"
    | bs where "c (m_dbi D) key = Some bs" "o1 = Returned (SUCCESS, bs)"
    using R(3) unfolding txn_get_eq [OF assms(1)] h by (cases "c (m_dbi D) key") auto
  then have *: "E' = E1 \<and> (r = Thrown \<or> r = (case c (m_dbi D) key of None \<Rightarrow> Returned (LMDB_NOTFOUND, None)
       | Some bs \<Rightarrow> (case rd bs of None \<Rightarrow> Thrown | Some (v, _) \<Rightarrow> Returned (SUCCESS, Some v))))"
  proof cases
    case (3 bs)
    then show ?thesis using assms(5) g by (cases "rd bs") (auto simp: db_get_value_def)
  qed (use assms(5) g in \<open>auto simp: db_get_value_def\<close>)
  then show "stored ev E' c" "frame E E'" using R by auto
  show "r = Thrown \<or> r = (case c (m_dbi D) key of None \<Rightarrow> Returned (LMDB_NOTFOUND, None)
       | Some bs \<Rightarrow> (case rd bs of None \<Rightarrow> Thrown | Some (v, _) \<Rightarrow> Returned (SUCCESS, Some v)))"
    using * by blast
qed

lemma foldl_found: "foldl (\<lambda>found x. if P x then True else found) b xs = (b \<or> (\<exists>x \<in> set xs. P x))"
  by (induction xs arbitrary: b) auto

lemma key_images_exist_stored:
  assumes "lmdb_laws L ev tv" "stored ev E c" "storage_open S E"
    "key_images_exist C L S kis E = (r, E')"
  shows "stored ev E' c" "frame E E'"
    "r = Thrown \<or> r = Returned (\<exists>ki \<in> set kis. c (m_dbi (m_key_images S)) (key_serialize C ki) \<noteq> None)"
proof -
  note R = db_read_stored [OF assms(1,2) assms(4) [unfolded key_images_exist_def]]
  show "stored ev E' c" "frame E E'" by (rule R)+
  have "m_key_images S \<in> set (storage_dbs S)" by (simp add: storage_dbs_def)
  note h = storage_handle [OF assms(3) this]
  show "r = Thrown \<or> r = Returned (\<exists>ki \<in> set kis. c (m_dbi (m_key_images S)) (key_serialize C ki) \<noteq> None)"
    using R(3) unfolding foldl_found txn_exists_iff [OF assms(1)] h by (elim disjE exE conjE) simp_all
qed

lemma get_block_empty:
  assumes C: "crypto_laws C" and L: "lmdb_laws L ev tv" and E: "stored ev E c" "storage_open S E"
    and b: "wf_block C b" "transactions b = []"
      "c (m_dbi (m_blocks S)) (key_serialize C (block_hash C b)) = Some (block_bytes C b)"
    and r: "get_block C L S (block_hash C b) E = (r, E')"
  shows "r = Thrown \<or> r = Returned (SUCCESS, Some (b, []))"
proof -
  obtain o1 E1 where g: "db_get_value L (block_deserialize C) (m_blocks S)
      (key_serialize C (block_hash C b)) E = (o1, E1)" by fastforce
  have "m_blocks S \<in> set (storage_dbs S)" by (simp add: storage_dbs_def)
  note R = db_get_value_stored(3) [OF L E this g]
  have "block_deserialize C (block_bytes C b) = Some (b, [])" by (rule block.read_back_all [OF C b(1)])
  then have "o1 = Thrown \<or> o1 = Returned (SUCCESS, Some b)" using R b(3) by auto
  then show ?thesis using r g b(2) by (auto simp: get_block_def)
qed

lemma get_block_at_empty:
  assumes C: "crypto_laws C" and L: "lmdb_laws L ev tv" and E: "stored ev E c" "storage_open S E"
    and b: "wf_block C b" "transactions b = []"
      "c (m_dbi (m_blocks S)) (key_serialize C (block_hash C b)) = Some (block_bytes C b)"
      "c (m_dbi (m_block_indexes S)) (w_uint64 C (block_index b)) = Some (key_serialize C (block_hash C b))"
    and r: "get_block_at C L S (block_index b) E = (r, E')"
  shows "r = Thrown \<or> r = Returned (SUCCESS, Some (b, []))"
proof -
  obtain o1 E1 where g: "db_get_value L (r_key C) (m_block_indexes S) (w_uint64 C (block_index b)) E =
      (o1, E1)" by fastforce
  have "m_block_indexes S \<in> set (storage_dbs S)" by (simp add: storage_dbs_def)
  note R = db_get_value_stored [OF L E this g]
  have "o1 = Thrown \<or> o1 = Returned (SUCCESS, Some (block_hash C b))"
    using R(3) b(4) codec_read_back_end(5) [OF crypto_lawsD(1) [OF C]] by auto
  moreover have "r' = Thrown \<or> r' = Returned (SUCCESS, Some (b, []))"
    if "get_block C L S (block_hash C b) E1 = (r', E')" for r'
    using get_block_empty [OF C L R(1) _ b(1-3) that] E(2) storage_open_frame [OF R(2)] by auto
  ultimately show ?thesis using r g by (auto simp: get_block_at_def)
qed

text \<open>A lookup of a transaction reads the entry that is stored for its hash.\<close>

definition read_transaction where
  "read_transaction (C :: 'z crypto_scheme) bs =
     (case do { (h, bs) \<leftarrow> r_key C bs; tx \<leftarrow> transaction_deserialize C bs; Some (h, tx) } of
        None \<Rightarrow> Thrown
      | Some (h, None) \<Rightarrow> Returned (UNKNOWN_TRANSACTION_TYPE, None)
      | Some (h, Some (tx, _)) \<Rightarrow> Returned (SUCCESS, Some (tx, h)))"

lemma get_transaction_stored:
  assumes "lmdb_laws L ev tv" "stored ev E c" "storage_open S E"
    "c (m_dbi (m_transactions S)) (key_serialize C h) = Some bs"
  shows "fst (get_transaction C L S h E) \<in> {Thrown, read_transaction C bs}"
proof -
  obtain o1 E1 where g: "db_get L (m_transactions S) (key_serialize C h) E = (o1, E1)" by fastforce
  have "m_transactions S \<in> set (storage_dbs S)" by (simp add: storage_dbs_def)
  note h = storage_handle [OF assms(3) this]
  have "o1 = Thrown \<or> o1 = Returned (SUCCESS, bs)"
    using db_read_stored(3) [OF assms(1,2) g [unfolded db_get_def]] assms(4)
    unfolding txn_get_eq [OF assms(1)] h by auto
  then show ?thesis
    using g by (auto simp: get_transaction_def read_transaction_def split: option.splits)
qed

end
