(* ===== verification/Transaction_Validator.thy ===== *)
theory Transaction_Validator
  imports Blockchain_Storage User_Checks Network_Fees
begin

text \<open>
  The transaction validator (\<open>src/core/transaction_validator.cpp\<close>): the stateless \<open>check\<close> of a
  transaction (its construction, its proof of work, its fee, and for the genesis transaction its
  outputs) and the \<open>validate\<close> that looks at the blockchain database besides. An exception of the
  fee calculation or of the database is \<open>Thrown\<close>.
\<close>

section \<open>The transactions\<close>

datatype ('s, 'r) uncommitted_transaction_t =
    UncommittedNormal "('s, 'r) uncommitted_normal_transaction_t"
  | UncommittedStake "('s, 'r) uncommitted_stake_transaction_t"
  | UncommittedRecall "('s, 'r) uncommitted_recall_stake_transaction_t"

section \<open>Checks without the database\<close>

definition check_pow_zeros :: "nat \<Rightarrow> ErrorCode" where
  "check_pow_zeros pow_zeros = (if pow_zeros < MINIMUM_POW_ZEROS then TX_MINIMUM_POW else SUCCESS)"

definition calculate_required_fee :: "nat \<Rightarrow> nat \<Rightarrow> u64 option" where
  "calculate_required_fee tx_size pow_zeros = calculate_transaction_fee (word_of_nat tx_size) pow_zeros"

text \<open>The visitor that all user transactions share: proof of work, then the fee.\<close>

definition check_pow_and_fee :: "nat \<Rightarrow> nat \<Rightarrow> u64 \<Rightarrow> ErrorCode outcome" where
  "check_pow_and_fee pow_zeros tx_size tx_fee_paid =
     (if failed (check_pow_zeros pow_zeros) then Returned (check_pow_zeros pow_zeros)
      else case calculate_required_fee tx_size pow_zeros of
             None \<Rightarrow> Thrown
           | Some required \<Rightarrow> if tx_fee_paid < required then Returned TX_LOW_FEE else Returned SUCCESS)"

fun uncommitted_check_construction where
  "uncommitted_check_construction (C :: ('s, 'r, 'z) proofs_scheme) (UncommittedNormal tx) =
     uncommitted_normal_check_construction C tx"
| "uncommitted_check_construction C (UncommittedStake tx) = uncommitted_stake_check_construction C tx"
| "uncommitted_check_construction C (UncommittedRecall tx) = uncommitted_recall_check_construction C tx"

fun uncommitted_pow_hash where
  "uncommitted_pow_hash (C :: ('s, 'r, 'z) proofs_scheme) (UncommittedNormal tx) = uncommitted_normal_pow_hash C tx"
| "uncommitted_pow_hash C (UncommittedStake tx) = uncommitted_stake_pow_hash C tx"
| "uncommitted_pow_hash C (UncommittedRecall tx) = uncommitted_recall_pow_hash C tx"

fun uncommitted_size where
  "uncommitted_size (C :: ('s, 'r, 'z) proofs_scheme) (UncommittedNormal tx) = uncommitted_normal_size C tx"
| "uncommitted_size C (UncommittedStake tx) = uncommitted_stake_size C tx"
| "uncommitted_size C (UncommittedRecall tx) = uncommitted_recall_size C tx"

fun uncommitted_digest where
  "uncommitted_digest (C :: ('s, 'r, 'z) proofs_scheme) (UncommittedNormal tx) = uncommitted_normal_digest C tx"
| "uncommitted_digest C (UncommittedStake tx) = uncommitted_stake_digest C tx"
| "uncommitted_digest C (UncommittedRecall tx) = uncommitted_recall_digest C tx"

fun uncommitted_body :: "('s, 'r) uncommitted_transaction_t \<Rightarrow> TransactionUserBody" where
  "uncommitted_body (UncommittedNormal tx) = tx_body tx"
| "uncommitted_body (UncommittedStake tx) = tx_body tx"
| "uncommitted_body (UncommittedRecall tx) = tx_body tx"

fun uncommitted_suffix ::
  "('s, 'r) uncommitted_transaction_t \<Rightarrow> ('s, 'r) UncommittedTransactionSuffix" where
  "uncommitted_suffix (UncommittedNormal tx) = tx_suffix tx"
| "uncommitted_suffix (UncommittedStake tx) = tx_suffix tx"
| "uncommitted_suffix (UncommittedRecall tx) = tx_suffix tx"

definition check_uncommitted ::
  "('s, 'r, 'z) proofs_scheme \<Rightarrow> ('s, 'r) uncommitted_transaction_t \<Rightarrow> ErrorCode outcome" where
  "check_uncommitted C tx =
     (let err = uncommitted_check_construction C tx in
      if failed err then Returned err
      else check_pow_and_fee (leading_zeros C (uncommitted_pow_hash C tx)) (uncommitted_size C tx)
             (fee (uncommitted_body tx)))"

text \<open>One round of the loop over the outputs of the genesis transaction.\<close>

definition check_genesis_output ::
  "'z crypto_scheme \<Rightarrow> crypto_public_key_t \<Rightarrow> 256 word \<Rightarrow> nat \<Rightarrow> TransactionOutput \<Rightarrow> ErrorCode" where
  "check_genesis_output C public_spend derivation i out =
     (let scalar = derivation_to_scalar C derivation i;
          blinding_factor = generate_commitment_blinding_factor C scalar;
          amount_mask = generate_amount_mask C scalar in
      if derive_public_key C scalar public_spend \<noteq> public_ephemeral out then TX_OUTPUT_PUBLIC_EPHEMERAL
      else if toggle_masked_amount C amount_mask (output_amount out) \<noteq> GENESIS_OUTPUT_AMOUNT
        then TX_OUTPUT_AMOUNT
      else if generate_pedersen_commitment C blinding_factor GENESIS_OUTPUT_AMOUNT \<noteq> commitment out
        then TX_OUTPUT_COMMITMENT
      else SUCCESS)"

definition check_genesis :: "'z crypto_scheme \<Rightarrow> genesis_transaction_t \<Rightarrow> ErrorCode" where
  "check_genesis C tx =
     (if gen_secret_key tx \<noteq> GENESIS_TX_PRIVATE_KEY then TX_SECRET_KEY
      else
        let (err, public_spend, public_view) = address_decode C GENESIS_DESTINATION_WALLET in
        if failed err then err
        else
          let key_derivation = generate_key_derivation C public_view (gen_secret_key tx) in
          first_error (\<lambda>i. check_genesis_output C public_spend key_derivation i (gen_outputs tx ! i))
            [0..<length (gen_outputs tx)])"

fun check_visited :: "'z crypto_scheme \<Rightarrow> transaction_t \<Rightarrow> ErrorCode outcome" where
  "check_visited C (Normal tx) =
     check_pow_and_fee (leading_zeros C (committed_normal_pow_hash C tx)) (committed_normal_size C tx) (tx_fee tx)"
| "check_visited C (Stake tx) =
     check_pow_and_fee (leading_zeros C (committed_stake_pow_hash C tx)) (committed_stake_size C tx) (tx_fee tx)"
| "check_visited C (RecallStake tx) =
     check_pow_and_fee (leading_zeros C (committed_recall_pow_hash C tx)) (committed_recall_size C tx) (tx_fee tx)"
| "check_visited C (Genesis tx) = Returned (check_genesis C tx)"
| "check_visited C (Staker tx) = Returned SUCCESS"
| "check_visited C (StakeRefund tx) = Returned SUCCESS"

definition check_committed :: "'z crypto_scheme \<Rightarrow> transaction_t \<Rightarrow> ErrorCode outcome" where
  "check_committed C tx =
     (let err = transaction_check_construction C tx in
      if failed err then Returned err else check_visited C tx)"

section \<open>Validation against the database\<close>

text \<open>The loop over the ring participants: an output that is locked cannot be part of the ring.\<close>

definition ring_locked :: "u64 \<Rightarrow> (TransactionOutput \<times> u64) list \<Rightarrow> bool" where
  "ring_locked index inputs \<longleftrightarrow> list_ex (\<lambda>(input, unlock). unlock < index) inputs"

definition validate_uncommitted where
  "validate_uncommitted (C :: ('s, 'r, 'z) proofs_scheme) (L :: ('e, 't, 'y) lmdb_scheme) S index tx E =
     (case check_uncommitted C tx of
        Thrown \<Rightarrow> (Thrown, E)
      | Returned err \<Rightarrow>
          if failed err then (Returned err, E)
          else
            let b = uncommitted_body tx; x = uncommitted_suffix tx;
                digest = uncommitted_digest C tx in
            if \<not> range_proof_verify C (range_proof x) (map commitment (outputs b))
              then (Returned TX_INVALID_RANGE_PROOF, E)
            else
              case key_images_exist C L S (key_images b) E of
                (Thrown, E) \<Rightarrow> (Thrown, E)
              | (Returned True, E) \<Rightarrow> (Returned TX_KEY_IMAGE_ALREADY_EXISTS, E)
              | (Returned False, E) \<Rightarrow>
                  (case get_transaction_outputs C L S (ring_participants x) E of
                     (Thrown, E) \<Rightarrow> (Thrown, E)
                   | (Returned (err, None), E) \<Rightarrow> (Returned err, E)
                   | (Returned (err, Some inputs), E) \<Rightarrow>
                       if failed err then (Returned err, E)
                       else if ring_locked index inputs then (Returned TX_OUTPUT_LOCKED, E)
                       else if list_ex (\<lambda>i. \<not> check_ring_signature C digest (key_images b ! i)
                                  (map (public_ephemeral \<circ> fst) inputs) (signatures x ! i)
                                  (map (commitment \<circ> fst) inputs)) [0..<length (signatures x)]
                         then (Returned TX_INVALID_RING_SIGNATURE, E)
                       else (Returned SUCCESS, E)))"

definition validate_committed where
  "validate_committed (C :: 'z crypto_scheme) (L :: ('e, 't, 'y) lmdb_scheme) S tx E =
     (case check_committed C tx of
        Thrown \<Rightarrow> (Thrown, E)
      | Returned err \<Rightarrow>
          if failed err then (Returned err, E)
          else
            case tx of
              Genesis _ \<Rightarrow>
                (case block_exists_index C L S 0 E of
                   (Thrown, E) \<Rightarrow> (Thrown, E)
                 | (Returned found, E) \<Rightarrow>
                     (Returned (if found then TX_GENESIS_ALREADY_EXISTS else SUCCESS), E))
            | Staker _ \<Rightarrow> (Returned SUCCESS, E)
            | StakeRefund _ \<Rightarrow> (Returned SUCCESS, E)
            | _ \<Rightarrow>
                (case key_images_exist C L S (spent_key_images tx) E of
                   (Thrown, E) \<Rightarrow> (Thrown, E)
                 | (Returned found, E) \<Rightarrow>
                     (Returned (if found then TX_KEY_IMAGE_ALREADY_EXISTS else SUCCESS), E)))"

section \<open>What is accepted\<close>

text \<open>Enough work, and the fee that goes with it.\<close>

definition well_paid :: "nat \<Rightarrow> nat \<Rightarrow> u64 \<Rightarrow> bool" where
  "well_paid zeros bytes_used paid \<longleftrightarrow> MINIMUM_POW_ZEROS \<le> zeros \<and>
     (\<exists>required. calculate_transaction_fee (word_of_nat bytes_used) zeros = Some required \<and>
        MINIMUM_FEE \<le> required \<and> required \<le> paid)"

lemma check_pow_and_fee_iff: "check_pow_and_fee zeros bytes_used paid = Returned SUCCESS \<longleftrightarrow> well_paid zeros bytes_used paid"
proof -
  have "MINIMUM_FEE \<le> f" if "calculate_transaction_fee s z = Some f" for s z f
    using that by (auto simp: calculate_transaction_fee_def Let_def split: if_splits Option.bind_splits)
  then show ?thesis
    by (auto simp: well_paid_def check_pow_and_fee_def check_pow_zeros_def calculate_required_fee_def
        split: option.split)
qed

lemma check_accepts:
  "check_committed C tx = Returned SUCCESS \<longleftrightarrow> transaction_check_construction C tx = SUCCESS \<and> check_visited C tx = Returned SUCCESS"
  "check_uncommitted P u = Returned SUCCESS \<longleftrightarrow> uncommitted_check_construction P u = SUCCESS \<and>
     well_paid (leading_zeros P (uncommitted_pow_hash P u)) (uncommitted_size P u) (fee (uncommitted_body u))"
  by (auto simp: check_committed_def check_uncommitted_def check_pow_and_fee_iff Let_def)

lemma check_pow_and_fee_success:
  assumes "check_pow_and_fee zeros bytes_used paid = Returned SUCCESS"
  obtains required where "1 \<le> zeros" "calculate_transaction_fee (word_of_nat bytes_used) zeros = Some required"
    "required \<le> paid"
  using assms
  by (auto simp: check_pow_and_fee_def check_pow_zeros_def calculate_required_fee_def config
      split: option.splits if_splits)

text \<open>A spent key image in the database is a double spend, and validation refuses it.\<close>

lemma validate_committed_double_spend:
  assumes L: "lmdb_laws L ev tv" and E: "stored ev E c" "storage_open S E"
    and ki: "ki \<in> set (spent_key_images tx)" "c (m_dbi (m_key_images S)) (key_serialize C ki) \<noteq> None"
    and r: "validate_committed C L S tx E = (r, E')"
  shows "r \<noteq> Returned SUCCESS"
proof -
  obtain o1 E1 where k: "key_images_exist C L S (spent_key_images tx) E = (o1, E1)" by fastforce
  have "o1 = Thrown \<or> o1 = Returned True"
    using key_images_exist_stored(3) [OF L E k] ki by auto
  then show ?thesis
    using r k ki(1)
    by (cases tx) (auto simp: validate_committed_def split: outcome.splits if_splits)
qed

lemma validate_uncommitted_double_spend:
  assumes L: "lmdb_laws L ev tv" and E: "stored ev E c" "storage_open S E"
    and ki: "ki \<in> set (key_images (uncommitted_body tx))"
      "c (m_dbi (m_key_images S)) (key_serialize C ki) \<noteq> None"
    and r: "validate_uncommitted C L S index tx E = (r, E')"
  shows "r \<noteq> Returned SUCCESS"
proof -
  obtain o1 E1 where k: "key_images_exist C L S (key_images (uncommitted_body tx)) E = (o1, E1)" by fastforce
  have "o1 = Thrown \<or> o1 = Returned True"
    using key_images_exist_stored(3) [OF L E k] ki by auto
  then show ?thesis
    using r k by (auto simp: validate_uncommitted_def Let_def split: outcome.splits if_splits)
qed

lemma validate_genesis_twice:
  assumes L: "lmdb_laws L ev tv" and E: "stored ev E c" "storage_open S E"
    and b: "c (m_dbi (m_block_indexes S)) (w_uint64 C 0) \<noteq> None"
    and r: "validate_committed C L S (Genesis tx) E = (r, E')"
  shows "r \<noteq> Returned SUCCESS"
proof -
  obtain o1 E1 where k: "db_exists L (m_block_indexes S) (w_uint64 C 0) E = (o1, E1)" by fastforce
  have "m_block_indexes S \<in> set (storage_dbs S)" by (simp add: storage_dbs_def)
  from db_exists_stored(3) [OF L E this k] have "o1 = Thrown \<or> o1 = Returned True" using b by auto
  then show ?thesis
    using r k by (auto simp: validate_committed_def block_exists_index_def split: outcome.splits if_splits)
qed

text \<open>The lookups of several outputs report success only with all of them.\<close>

lemma get_each_success:
  assumes "\<And>h t t'. get h t \<noteq> (Returned (SUCCESS, None), t')"
  shows "get_each get hs s \<noteq> (Returned (SUCCESS, None), s')"
proof (induction hs arbitrary: s s')
  case (Cons h hs)
  then show ?case using assms by (fastforce split: prod.splits outcome.splits option.splits if_splits)
qed simp

lemma get_transaction_outputs_success:
  "get_transaction_outputs C L S hs E \<noteq> (Returned (SUCCESS, None), E')"
  unfolding get_transaction_outputs_def
  by (rule get_each_success)
    (auto simp: get_transaction_output_def split: prod.splits outcome.splits option.splits if_splits)

text \<open>
  What \<open>validate\<close> establishes of an uncommitted transaction: it passed \<open>check\<close>, its range proof
  verifies, none of its key images is stored, and every ring signature verifies over the outputs
  that the database has for the ring.
\<close>

definition rings_verify ::
  "('s, 'r, 'z) proofs_scheme \<Rightarrow> ('s, 'r) uncommitted_transaction_t \<Rightarrow> (TransactionOutput \<times> u64) list \<Rightarrow> bool" where
  "rings_verify C tx inputs \<longleftrightarrow>
     (\<forall>i < length (signatures (uncommitted_suffix tx)).
        check_ring_signature C (uncommitted_digest C tx) (key_images (uncommitted_body tx) ! i)
          (map (public_ephemeral \<circ> fst) inputs) (signatures (uncommitted_suffix tx) ! i)
          (map (commitment \<circ> fst) inputs))"

lemma validate_uncommitted_success:
  assumes L: "lmdb_laws L ev tv" and E: "stored ev E c" "storage_open S E"
    and r: "validate_uncommitted C L S index tx E = (Returned SUCCESS, E')"
  obtains E1 inputs where "check_uncommitted C tx = Returned SUCCESS"
    "range_proof_verify C (range_proof (uncommitted_suffix tx)) (map commitment (outputs (uncommitted_body tx)))"
    "\<forall>ki \<in> set (key_images (uncommitted_body tx)). c (m_dbi (m_key_images S)) (key_serialize C ki) = None"
    "stored ev E1 c" "frame E E1"
    "get_transaction_outputs C L S (ring_participants (uncommitted_suffix tx)) E1 =
       (Returned (SUCCESS, Some inputs), E')"
    "\<not> ring_locked index inputs" "rings_verify C tx inputs"
proof -
  let ?b = "uncommitted_body tx" and ?x = "uncommitted_suffix tx"
  obtain o1 E1 where k: "key_images_exist C L S (key_images ?b) E = (o1, E1)" by fastforce
  obtain o2 E2 where g: "get_transaction_outputs C L S (ring_participants ?x) E1 = (o2, E2)" by fastforce
  note K = key_images_exist_stored [OF L E k]
  have check: "check_uncommitted C tx = Returned SUCCESS"
    using r by (auto simp: validate_uncommitted_def split: outcome.splits if_splits)
  have rp: "range_proof_verify C (range_proof ?x) (map commitment (outputs ?b))"
    using r check by (auto simp: validate_uncommitted_def Let_def split: if_splits)
  have o1: "o1 = Returned False"
    using r check rp k K(3) by (auto simp: validate_uncommitted_def Let_def split: outcome.splits bool.splits)
  have *: "\<exists>inputs. o2 = Returned (SUCCESS, Some inputs) \<and> E2 = E' \<and> \<not> ring_locked index inputs \<and>
      rings_verify C tx inputs"
    using r check rp k g o1
      get_transaction_outputs_success [of C L S "ring_participants ?x" E1 E2]
    by (auto simp: validate_uncommitted_def Let_def rings_verify_def list_ex_iff
        split: outcome.splits option.splits if_splits)
  have "\<forall>ki \<in> set (key_images ?b). c (m_dbi (m_key_images S)) (key_serialize C ki) = None"
    using K(3) o1 by auto
  then show ?thesis using * that check rp K(1,2) g by blast
qed

lemma check_uncommitted_success:
  assumes C: "crypto_laws C" and ok: "check_uncommitted C tx = Returned SUCCESS"
  shows "\<exists>p. good_body C p (uncommitted_body tx)" "good_proofs C (uncommitted_body tx) (uncommitted_suffix tx)"
    "\<exists>required. calculate_transaction_fee (word_of_nat (uncommitted_size C tx))
       (leading_zeros C (uncommitted_pow_hash C tx)) = Some required \<and> required \<le> fee (uncommitted_body tx)"
proof -
  have c: "uncommitted_check_construction C tx = SUCCESS"
    and pf: "check_pow_and_fee (leading_zeros C (uncommitted_pow_hash C tx)) (uncommitted_size C tx)
      (fee (uncommitted_body tx)) = Returned SUCCESS"
    using ok by (auto simp: check_uncommitted_def Let_def split: if_splits)
  show "\<exists>p. good_body C p (uncommitted_body tx)" "good_proofs C (uncommitted_body tx) (uncommitted_suffix tx)"
    using c C
    by (cases tx; auto simp: uncommitted_normal_check_construction_def uncommitted_stake_check_construction_def
        uncommitted_recall_check_construction_def check_success split: if_splits)+
  show "\<exists>required. calculate_transaction_fee (word_of_nat (uncommitted_size C tx))
       (leading_zeros C (uncommitted_pow_hash C tx)) = Some required \<and> required \<le> fee (uncommitted_body tx)"
    by (rule check_pow_and_fee_success [OF pf]) blast
qed

end
