(* ===== verification/Lmdb_Store.thy ===== *)
theory Lmdb_Store
  imports Lmdb_Progress
begin

text \<open>
  One LMDB database as the key-value store its clients (the staking engine and the peer database)
  use it as: the interface \<open>kv_store\<close> with the laws of its four operations, what follows from them
  for a client, and the interpretation by the operations of \<open>LMDBDatabase\<close>.
\<close>

section \<open>The interface\<close>

text \<open>
  \<open>holds p s m\<close>: in the state \<open>s\<close> the store \<open>p\<close> has the entries \<open>m\<close>. A write or a deletion that
  reports success has happened, any other has not; a lookup reports what is there, unless the
  library throws.
\<close>

locale kv_store =
  fixes lawful :: "'p \<Rightarrow> bool"
    and holds :: "'p \<Rightarrow> 's \<Rightarrow> (bytes \<Rightarrow> bytes option) \<Rightarrow> bool"
    and put :: "'p \<Rightarrow> bytes \<Rightarrow> bytes \<Rightarrow> 's \<Rightarrow> ('s \<times> ErrorCode outcome) option"
    and del :: "'p \<Rightarrow> bytes \<Rightarrow> 's \<Rightarrow> ('s \<times> ErrorCode outcome) option"
    and exists :: "'p \<Rightarrow> bytes \<Rightarrow> 's \<Rightarrow> bool outcome \<times> 's"
    and get :: "'p \<Rightarrow> bytes \<Rightarrow> 's \<Rightarrow> (ErrorCode \<times> bytes) outcome \<times> 's"
  assumes put_law: "lawful p \<Longrightarrow> holds p s m \<Longrightarrow> put p k v s = Some (s', r) \<Longrightarrow>
      holds p s' (if r = Returned SUCCESS then m(k \<mapsto> v) else m)"
    and del_law: "lawful p \<Longrightarrow> holds p s m \<Longrightarrow> del p k s = Some (s', r) \<Longrightarrow>
      holds p s' (if r = Returned SUCCESS then m(k := None) else m) \<and>
      (r = Returned SUCCESS \<longrightarrow> m k \<noteq> None)"
    and exists_law: "lawful p \<Longrightarrow> holds p s m \<Longrightarrow> exists p k s = (found, s') \<Longrightarrow>
      holds p s' m \<and> (found = Thrown \<or> found = Returned (m k \<noteq> None))"
    and get_law: "lawful p \<Longrightarrow> holds p s m \<Longrightarrow> get p k s = (entry, s') \<Longrightarrow>
      holds p s' m \<and>
      (entry = Thrown \<or> entry = Returned (case m k of None \<Rightarrow> (LMDB_NOTFOUND, []) | Some v \<Rightarrow> (SUCCESS, v)))"
begin

lemma get_after_put:
  assumes "lawful p" "holds p s m" "put p k v s = Some (s1, Returned SUCCESS)" "get p k s1 = (r, s2)"
  shows "r = Thrown \<or> r = Returned (SUCCESS, v)"
proof -
  have "holds p s1 (m(k \<mapsto> v))" using put_law [OF assms(1-3)] by simp
  from get_law [OF assms(1) this assms(4)] show ?thesis by simp
qed

lemma exists_after_del:
  assumes "lawful p" "holds p s m" "del p k s = Some (s1, Returned SUCCESS)" "exists p k s1 = (r, s2)"
  shows "r = Thrown \<or> r = Returned False"
proof -
  have "holds p s1 (m(k := None))" using del_law [OF assms(1-3)] by simp
  from exists_law [OF assms(1) this assms(4)] show ?thesis by simp
qed

text \<open>A write that is guarded by a test for the key, as the staking engine makes it.\<close>

lemma put_if_absent:
  assumes "lawful p" "holds p s m" "exists p k s = (Returned False, s1)" "put p k v s1 = Some (s2, r)"
  shows "m k = None \<and> holds p s2 (if r = Returned SUCCESS then m(k \<mapsto> v) else m)"
proof -
  have "holds p s1 m" "m k = None" using exists_law [OF assms(1-3)] by auto
  then show ?thesis using put_law [OF assms(1) _ assms(4)] by blast
qed

end

section \<open>The interpretation\<close>

type_synonym ('e, 't, 'y) store_param =
  "('e, 't, 'y) lmdb_scheme \<times> ('e \<Rightarrow> contents) \<times> ('t \<Rightarrow> contents) \<times> LMDBDatabase"

fun store_lawful :: "('e, 't, 'y) store_param \<Rightarrow> bool" where
  "store_lawful (L, ev, tv, D) \<longleftrightarrow> lmdb_laws L ev tv"

fun store_holds :: "('e, 't, 'y) store_param \<Rightarrow> 'e LMDB \<Rightarrow> (bytes \<Rightarrow> bytes option) \<Rightarrow> bool" where
  "store_holds (L, ev, tv, D) E m \<longleftrightarrow>
     (\<exists>c. stored ev E c \<and> c (m_dbi D) = m) \<and> m_open_txns E + 1 \<noteq> 0 \<and>
     tsm_at (m_databases E) (db_id D) = Some D"

fun store_put where
  "store_put ((L, ev, tv, D) :: ('e, 't, 'y) store_param) k v E = db_put L D k v 0 E"

fun store_del where
  "store_del ((L, ev, tv, D) :: ('e, 't, 'y) store_param) k E = db_del L D k E"

fun store_exists where
  "store_exists ((L, ev, tv, D) :: ('e, 't, 'y) store_param) k E = db_exists L D k E"

fun store_get where
  "store_get ((L, ev, tv, D) :: ('e, 't, 'y) store_param) k E = db_get L D k E"

lemma handle_open: "tsm_at M (db_id D) = Some D \<Longrightarrow> handle M D = m_dbi D"
  by (simp add: handle_def)

lemma store_holds_frame:
  "frame E E' \<Longrightarrow> store_holds (L, ev, tv, D) E m \<Longrightarrow> stored ev E' c' \<Longrightarrow> c' (m_dbi D) = m' \<Longrightarrow>
   store_holds (L, ev, tv, D) E' m'"
  by (auto simp: frameD)

lemma store_put_law:
  assumes "store_lawful p" "store_holds p E m" "store_put p k v E = Some (E', r)"
  shows "store_holds p E' (if r = Returned SUCCESS then m(k \<mapsto> v) else m)"
proof -
  obtain L ev tv D where p: "p = (L, ev, tv, D)" by (cases p)
  from assms(2) obtain c where E: "stored ev E c" "c (m_dbi D) = m" "m_open_txns E + 1 \<noteq> 0"
      "tsm_at (m_databases E) (db_id D) = Some D" by (auto simp: p)
  have L: "lmdb_laws L ev tv" "db_put L D k v 0 E = Some (E', r)" using assms by (simp_all add: p)
  obtain c' where "frame E E'" "stored ev E' c'" "atomic_result c [put_change (m_dbi D) k v] r c'"
    using db_put_atomic [OF L(1) E(1,3) L(2)] unfolding handle_open [OF E(4)] by blast
  then show ?thesis
    using store_holds_frame assms(2) E(2)
    by (auto simp: p atomic_result_def put_change_def frameD split: if_splits)
qed

lemma store_del_law:
  assumes "store_lawful p" "store_holds p E m" "store_del p k E = Some (E', r)"
  shows "store_holds p E' (if r = Returned SUCCESS then m(k := None) else m) \<and>
    (r = Returned SUCCESS \<longrightarrow> m k \<noteq> None)"
proof -
  obtain L ev tv D where p: "p = (L, ev, tv, D)" by (cases p)
  from assms(2) obtain c where E: "stored ev E c" "c (m_dbi D) = m" "m_open_txns E + 1 \<noteq> 0"
      "tsm_at (m_databases E) (db_id D) = Some D" by (auto simp: p)
  have L: "lmdb_laws L ev tv" "db_del L D k E = Some (E', r)" using assms by (simp_all add: p)
  obtain c' where "frame E E'" "stored ev E' c'" "atomic_result c [del_change (m_dbi D) k] r c'"
    using db_del_atomic [OF L(1) E(1,3) L(2)] unfolding handle_open [OF E(4)] by blast
  then show ?thesis
    using assms(2) E(2)
    by (auto simp: p atomic_result_def del_change_def frameD split: if_splits)
qed

lemma store_read_law:
  assumes "lmdb_laws L ev tv" "store_holds (L, ev, tv, D) E m" "db_read L D f E = (r, E')"
  shows "store_holds (L, ev, tv, D) E' m"
    and "r = Thrown \<or> (\<exists>T. r = Returned (f T) \<and> tv (txn_handle T) (txn_db T) = m)"
proof -
  from assms(2) obtain c where E: "stored ev E c" "c (m_dbi D) = m"
      "tsm_at (m_databases E) (db_id D) = Some D" by auto
  note R = db_read_stored [OF assms(1) E(1) assms(3), unfolded handle_open [OF E(3)]]
  show "store_holds (L, ev, tv, D) E' m" using R(1,2) assms(2) E by (auto simp: frameD)
  show "r = Thrown \<or> (\<exists>T. r = Returned (f T) \<and> tv (txn_handle T) (txn_db T) = m)"
    using R(3) E(2) by auto
qed

interpretation lmdb_store: kv_store store_lawful store_holds store_put store_del store_exists store_get
proof (unfold_locales, goal_cases)
  case (1 p s m k v s' r)
  then show ?case by (rule store_put_law)
next
  case (2 p s m k s' r)
  then show ?case by (rule store_del_law)
next
  case (3 p s m k r s')
  obtain L ev tv D where p: "p = (L, ev, tv, D)" by (cases p)
  show ?case
    using store_read_law [of L ev tv D s m "txn_exists L k" r s'] 3
    by (auto simp: p db_exists_def txn_exists_iff)
next
  case (4 p s m k r s')
  obtain L ev tv D where p: "p = (L, ev, tv, D)" by (cases p)
  show ?case
    using store_read_law [of L ev tv D s m "txn_get L k" r s'] 4
    by (auto simp: p db_get_def txn_get_eq)
qed

end
