(* ===== verification/Staking_Types.thy ===== *)
theory Staking_Types
  imports Wire Config
begin

text \<open>
  The two records of the staking engine's database, \<open>candidate_node_t\<close>
  (\<open>include/staking/candidate.h\<close>) and \<open>stake_t\<close> (\<open>include/staking/stake.h\<close>), with their
  serialization, hash and size, and the identifier under which a staker is stored.
\<close>

section \<open>Candidate nodes\<close>

record candidate_node_t =
  node_record_version :: u64
  node_public_signing_key :: crypto_public_key_t
  node_public_view_key :: crypto_public_key_t
  node_public_spend_key :: crypto_public_key_t
  node_initial_stake :: u64
  node_block_production_assigned :: u64
  node_block_validation_assigned :: u64
  node_blocks_produced :: u64
  node_blocks_validated :: u64

definition candidate_node ::
  "crypto_public_key_t \<Rightarrow> crypto_public_key_t \<Rightarrow> crypto_public_key_t \<Rightarrow> u64 \<Rightarrow> candidate_node_t" where
  "candidate_node signing view spend amount =
     \<lparr>node_record_version = CANDIDATE_RECORD_VERSION, node_public_signing_key = signing,
      node_public_view_key = view, node_public_spend_key = spend, node_initial_stake = amount,
      node_block_production_assigned = 0, node_block_validation_assigned = 0,
      node_blocks_produced = 0, node_blocks_validated = 0\<rparr>"

definition candidate_deserialize :: "'z codec_scheme \<Rightarrow> candidate_node_t reader" where
  "candidate_deserialize C bs =
     do { (rv, bs) \<leftarrow> r_varint C bs;
          (signing, bs) \<leftarrow> r_key C bs;
          (view, bs) \<leftarrow> r_key C bs;
          (spend, bs) \<leftarrow> r_key C bs;
          (initial, bs) \<leftarrow> r_varint C bs;
          (pa, bs) \<leftarrow> r_varint C bs;
          (va, bs) \<leftarrow> r_varint C bs;
          (bp, bs) \<leftarrow> r_varint C bs;
          (bv, bs) \<leftarrow> r_varint C bs;
          Some (\<lparr>node_record_version = rv, node_public_signing_key = signing,
                 node_public_view_key = view, node_public_spend_key = spend,
                 node_initial_stake = initial, node_block_production_assigned = pa,
                 node_block_validation_assigned = va, node_blocks_produced = bp,
                 node_blocks_validated = bv\<rparr>, bs) }"

definition candidate_serialize :: "'z codec_scheme \<Rightarrow> candidate_node_t \<Rightarrow> bytes" where
  "candidate_serialize C c =
     w_varint C (node_record_version c) @ key_serialize C (node_public_signing_key c) @
     key_serialize C (node_public_view_key c) @ key_serialize C (node_public_spend_key c) @
     w_varint C (node_initial_stake c) @ w_varint C (node_block_production_assigned c) @
     w_varint C (node_block_validation_assigned c) @ w_varint C (node_blocks_produced c) @
     w_varint C (node_blocks_validated c)"

definition candidate_hash :: "'z crypto_scheme \<Rightarrow> candidate_node_t \<Rightarrow> crypto_hash_t" where
  "candidate_hash C c = sha3 C (candidate_serialize C c)"

definition candidate_size :: "'z codec_scheme \<Rightarrow> candidate_node_t \<Rightarrow> nat" where
  "candidate_size C c = length (candidate_serialize C c)"

interpretation candidate: wire_format codec_laws "\<lambda>_ _. True" candidate_serialize candidate_deserialize
  by unfold_locales (simp add: candidate_serialize_def candidate_deserialize_def wire)

lemmas candidate_read_back [wire] = candidate.read_back [OF _ TrueI] candidate.read_back_all [OF _ TrueI]

section \<open>Stakes\<close>

record stake_t =
  st_record_version :: u64
  st_candidate_public_key :: crypto_public_key_t
  st_public_view_key :: crypto_public_key_t
  st_public_spend_key :: crypto_public_key_t
  st_stake :: u64

text \<open>The constructor leaves the candidate's key as the default constructor of a key makes it.\<close>

definition stake_make ::
  "'z crypto_scheme \<Rightarrow> crypto_public_key_t \<Rightarrow> crypto_public_key_t \<Rightarrow> u64 \<Rightarrow> stake_t" where
  "stake_make C view spend amount =
     \<lparr>st_record_version = STAKE_RECORD_VERSION, st_candidate_public_key = key_default C,
      st_public_view_key = view, st_public_spend_key = spend, st_stake = amount\<rparr>"

definition stake_deserialize :: "'z codec_scheme \<Rightarrow> stake_t reader" where
  "stake_deserialize C bs =
     do { (rv, bs) \<leftarrow> r_varint C bs;
          (candidate, bs) \<leftarrow> r_key C bs;
          (view, bs) \<leftarrow> r_key C bs;
          (spend, bs) \<leftarrow> r_key C bs;
          (amt, bs) \<leftarrow> r_varint C bs;
          Some (\<lparr>st_record_version = rv, st_candidate_public_key = candidate,
                 st_public_view_key = view, st_public_spend_key = spend,
                 st_stake = amt\<rparr>, bs) }"

definition stake_serialize :: "'z codec_scheme \<Rightarrow> stake_t \<Rightarrow> bytes" where
  "stake_serialize C s =
     w_varint C (st_record_version s) @ key_serialize C (st_candidate_public_key s) @
     key_serialize C (st_public_view_key s) @ key_serialize C (st_public_spend_key s) @
     w_varint C (st_stake s)"

definition stake_hash :: "'z crypto_scheme \<Rightarrow> stake_t \<Rightarrow> crypto_hash_t" where
  "stake_hash C s = sha3 C (stake_serialize C s)"

definition stake_id :: "'z crypto_scheme \<Rightarrow> stake_t \<Rightarrow> crypto_hash_t" where
  "stake_id C s =
     sha3 C (key_serialize C (st_public_view_key s) @ key_serialize C (st_public_spend_key s))"

definition stake_size :: "'z codec_scheme \<Rightarrow> stake_t \<Rightarrow> nat" where
  "stake_size C s = length (stake_serialize C s)"

interpretation stake: wire_format codec_laws "\<lambda>_ _. True" stake_serialize stake_deserialize
  by unfold_locales (simp add: stake_serialize_def stake_deserialize_def wire)

lemmas stake_read_back [wire] = stake.read_back [OF _ TrueI] stake.read_back_all [OF _ TrueI]

text \<open>
  The identifier is that of the staker's wallet: it does not depend on the candidate or on
  the amount, and where the hash does not collide on the two inputs, two stakes with the same
  identifier belong to the same wallet.
\<close>

abbreviation wallet_bytes :: "'z codec_scheme \<Rightarrow> stake_t \<Rightarrow> bytes" where
  "wallet_bytes C s \<equiv>
     key_serialize C (st_public_view_key s) @ key_serialize C (st_public_spend_key s)"

lemma stake_id_wallet:
  assumes C: "codec_laws C" and inj: "inj_on (sha3 C) {wallet_bytes C s, wallet_bytes C t}"
  shows "stake_id C s = stake_id C t \<longleftrightarrow>
    st_public_view_key s = st_public_view_key t \<and>
    st_public_spend_key s = st_public_spend_key t" (is "?L \<longleftrightarrow> ?R")
proof
  assume ?L
  then have eq: "wallet_bytes C s = wallet_bytes C t"
    using inj_onD [OF inj] unfolding stake_id_def by blast
  have "Some (st_public_view_key s, key_serialize C (st_public_spend_key s)) =
        Some (st_public_view_key t, key_serialize C (st_public_spend_key t))"
    using codec_read_back(5) [OF C] eq by metis
  then show ?R using codec_read_back_end(5) [OF C] by (metis Pair_inject option.inject)
qed (simp add: stake_id_def)

end
