(* ===== verification/Staking_Engine.thy ===== *)
theory Staking_Engine
  imports Lmdb_Store Staking_Types User_Transactions
begin

text \<open>
  The staking engine (\<open>src/core/staking_engine.cpp\<close>): the candidates and the stakes are two LMDB
  databases. \<open>add_stake\<close> is the one method with a body; \<open>del_stake\<close> and \<open>process_staker_tx\<close> return
  success without doing anything yet, as does a vote (version 2) that passes its checks.
\<close>

record StakingEngine =
  m_db_candidates :: LMDBDatabase
  m_db_stakes :: LMDBDatabase

definition add_stake ::
  "'z crypto_scheme \<Rightarrow> ('e, 't, 'y) lmdb_scheme \<Rightarrow> StakingEngine \<Rightarrow> committed_stake_transaction_t \<Rightarrow>
     'e LMDB \<Rightarrow> ('e LMDB \<times> ErrorCode outcome) option" where
  "add_stake C L SE tx E =
     (let d = tx_data tx; key = key_serialize C (stake_candidate_public_key d) in
      if tx_version tx = 1 then
        (case db_exists L (m_db_candidates SE) key E of
           (Thrown, E) \<Rightarrow> Some (E, Thrown)
         | (Returned found, E) \<Rightarrow>
             if found then Some (E, Returned STAKING_CANDIDATE_ALREADY_EXISTS)
             else if stake_amount d \<noteq> REQUIRED_CANDIDACY_AMOUNT
               then Some (E, Returned STAKING_CANDIDATE_AMOUNT_INVALID)
             else db_put L (m_db_candidates SE) key
                    (candidate_serialize C
                       (candidate_node (stake_candidate_public_key d) (staker_public_view_key d)
                          (staker_public_spend_key d) (stake_amount d))) 0 E)
      else if tx_version tx = 2 then
        (case db_exists L (m_db_candidates SE) key E of
           (Thrown, E) \<Rightarrow> Some (E, Thrown)
         | (Returned found, E) \<Rightarrow>
             if \<not> found then Some (E, Returned STAKING_CANDIDATE_NOT_FOUND)
             else if stake_amount d < MINIMUM_STAKE_AMOUNT then Some (E, Returned STAKING_STAKE_AMOUNT)
             else Some (E, Returned SUCCESS))
      else Some (E, Returned TX_INVALID_VERSION))"

definition del_stake :: "'e LMDB \<Rightarrow> 'e LMDB \<times> ErrorCode" where
  "del_stake E = (E, SUCCESS)"

definition process_staker_tx :: "'e LMDB \<Rightarrow> 'e LMDB \<times> ErrorCode" where
  "process_staker_tx E = (E, SUCCESS)"

section \<open>What \<open>add_stake\<close> does\<close>

abbreviation candidate_key :: "'z crypto_scheme \<Rightarrow> committed_stake_transaction_t \<Rightarrow> bytes" where
  "candidate_key C tx \<equiv> key_serialize C (stake_candidate_public_key (tx_data tx))"

abbreviation proposed :: "committed_stake_transaction_t \<Rightarrow> candidate_node_t" where
  "proposed tx \<equiv> candidate_node (stake_candidate_public_key (tx_data tx)) (staker_public_view_key (tx_data tx))
     (staker_public_spend_key (tx_data tx)) (stake_amount (tx_data tx))"

text \<open>The candidates \<open>m\<close> of the engine \<open>SE\<close> in the environment \<open>E\<close>.\<close>

definition candidates ::
  "('e, 't, 'y) lmdb_scheme \<Rightarrow> ('e \<Rightarrow> contents) \<Rightarrow> ('t \<Rightarrow> contents) \<Rightarrow> StakingEngine \<Rightarrow> 'e LMDB \<Rightarrow>
     (bytes \<Rightarrow> bytes option) \<Rightarrow> bool" where
  "candidates L ev tv SE E m \<longleftrightarrow> store_holds (L, ev, tv, m_db_candidates SE) E m"

lemma add_stake_candidacy:
  assumes L: "lmdb_laws L ev tv" and E: "candidates L ev tv SE E m"
    and v: "tx_version tx = 1" and r: "add_stake C L SE tx E = Some (E', Returned err)"
  shows "(m (candidate_key C tx) \<noteq> None \<longrightarrow> err = STAKING_CANDIDATE_ALREADY_EXISTS) \<and>
    (m (candidate_key C tx) = None \<and> stake_amount (tx_data tx) \<noteq> REQUIRED_CANDIDACY_AMOUNT \<longrightarrow>
       err = STAKING_CANDIDATE_AMOUNT_INVALID) \<and>
    candidates L ev tv SE E'
      (if err = SUCCESS then m(candidate_key C tx \<mapsto> candidate_serialize C (proposed tx)) else m)"
proof -
  let ?p = "(L, ev, tv, m_db_candidates SE)"
  have p: "store_lawful ?p" "store_holds ?p E m" using L E by (simp_all add: candidates_def)
  obtain o1 E1 where x: "store_exists ?p (candidate_key C tx) E = (o1, E1)" by fastforce
  note X = lmdb_store.exists_law [OF p x]
  have o1: "o1 \<noteq> Thrown" using r v x by (auto simp: add_stake_def Let_def)
  show ?thesis
  proof (cases "m (candidate_key C tx) \<noteq> None \<or> stake_amount (tx_data tx) \<noteq> REQUIRED_CANDIDACY_AMOUNT")
    case True
    then show ?thesis
      using X o1 r v x by (auto simp: add_stake_def Let_def candidates_def split: if_splits)
  next
    case False
    then have "store_exists ?p (candidate_key C tx) E = (Returned False, E1)" using X o1 x by auto
    moreover have "store_put ?p (candidate_key C tx) (candidate_serialize C (proposed tx)) E1 =
        Some (E', Returned err)"
      using False X o1 r v x by (auto simp: add_stake_def Let_def)
    ultimately show ?thesis
      using lmdb_store.put_if_absent [OF p] False by (fastforce simp: candidates_def)
  qed
qed

lemma add_stake_vote:
  assumes L: "lmdb_laws L ev tv" and E: "candidates L ev tv SE E m"
    and v: "tx_version tx \<noteq> 1" and r: "add_stake C L SE tx E = Some (E', Returned err)"
  shows "candidates L ev tv SE E' m \<and>
    err = (if tx_version tx \<noteq> 2 then TX_INVALID_VERSION
           else if m (candidate_key C tx) = None then STAKING_CANDIDATE_NOT_FOUND
           else if stake_amount (tx_data tx) < MINIMUM_STAKE_AMOUNT then STAKING_STAKE_AMOUNT
           else SUCCESS)"
proof (cases "tx_version tx = 2")
  case True
  let ?p = "(L, ev, tv, m_db_candidates SE)"
  have p: "store_lawful ?p" "store_holds ?p E m" using L E by (simp_all add: candidates_def)
  obtain o1 E1 where x: "store_exists ?p (candidate_key C tx) E = (o1, E1)" by fastforce
  note X = lmdb_store.exists_law [OF p x]
  have "o1 \<noteq> Thrown" using r True x by (auto simp: add_stake_def Let_def)
  then show ?thesis
    using X r True x by (auto simp: add_stake_def Let_def candidates_def split: if_splits)
next
  case False
  then show ?thesis using r v E by (auto simp: add_stake_def Let_def)
qed

end
