(* ===== verification/Network_Types.thy ===== *)
theory Network_Types
  imports Wire Config
begin

text \<open>
  The structures of the peer-to-peer protocol: \<open>ip_address_t\<close>
  (\<open>include/network/ip_address.h\<close>), \<open>network_peer_t\<close> (\<open>include/network/base_types.h\<close>) and the
  four packets (\<open>include/network/packet_*.h\<close>). The record \<open>network\<close> adds the external IP address parser to the
  parameters: its array bounds, its two flags and its conversions.
\<close>

section \<open>The address parser\<close>

text \<open>The members of the parser's \<open>ipv6_address_full_t\<close> that the program touches.\<close>

record ipv6_address_full_t =
  components :: "u16 list"
  ip_port :: u16
  ip_flags :: u32

record network = crypto +
  IPV6_NUM_COMPONENTS :: nat
  IPV4_NUM_COMPONENTS :: nat
  IPV4_EMBED_INDEX :: nat
  IPV6_FLAG_IPV4_COMPAT :: u32
  IPV6_FLAG_IPV4_EMBED :: u32
  str_to_ip :: "string \<Rightarrow> ipv6_address_full_t option"
  ip_to_str :: "ipv6_address_full_t \<Rightarrow> string option"

definition network_laws :: "'z network_scheme \<Rightarrow> bool" where
  "network_laws C \<longleftrightarrow>
     crypto_laws C \<and>
     IPV4_EMBED_INDEX C + IPV4_NUM_COMPONENTS C = IPV6_NUM_COMPONENTS C \<and>
     IPV4_NUM_COMPONENTS C < IPV4_EMBED_INDEX C \<and>
     IPV6_FLAG_IPV4_COMPAT C \<noteq> 0 \<and>
     and (IPV6_FLAG_IPV4_COMPAT C) (IPV6_FLAG_IPV4_EMBED C) = 0 \<and>
     (\<forall>s a. str_to_ip C s = Some a \<longrightarrow> length (components a) = IPV6_NUM_COMPONENTS C) \<and>
     key_empty C (hash_default C) \<and>
     (\<forall>x rest. r_varint C (w_varint16 C x @ rest) = Some (ucast x, rest))"

lemma network_lawsD:
  assumes "network_laws C"
  shows "crypto_laws C" "codec_laws C"
    and "IPV4_EMBED_INDEX C + IPV4_NUM_COMPONENTS C = IPV6_NUM_COMPONENTS C"
    and "IPV4_NUM_COMPONENTS C < IPV4_EMBED_INDEX C"
    and "IPV6_FLAG_IPV4_COMPAT C \<noteq> 0"
    and "and (IPV6_FLAG_IPV4_COMPAT C) (IPV6_FLAG_IPV4_EMBED C) = 0"
    and "str_to_ip C s = Some a \<Longrightarrow> length (components a) = IPV6_NUM_COMPONENTS C"
    and "key_empty C (hash_default C)"
    and "r_varint C (w_varint16 C x @ rest) = Some (ucast x, rest)"
  using assms unfolding network_laws_def crypto_laws_def by auto

section \<open>IP addresses\<close>

type_synonym ip_address_t = ipv6_address_full_t

text \<open>\<open>ipv6_address_full_t m_address = {}\<close>: everything zero.\<close>

definition ip_address_default :: "'z network_scheme \<Rightarrow> ip_address_t" where
  "ip_address_default C =
     \<lparr>components = replicate (IPV6_NUM_COMPONENTS C) 0, ip_port = 0, ip_flags = 0\<rparr>"

text \<open>The loop of \<open>normalize_v4_embedded\<close>, with \<open>n\<close> rounds to go.\<close>

fun shift_components :: "nat \<Rightarrow> nat \<Rightarrow> nat \<Rightarrow> u16 list \<Rightarrow> u16 list" where
  "shift_components 0 i k cs = cs"
| "shift_components (Suc n) i k cs =
     shift_components n (Suc i) (Suc k) (cs[k := cs ! i, i := 0])"

definition normalize_v4_embedded :: "'z network_scheme \<Rightarrow> ip_address_t \<Rightarrow> ip_address_t" where
  "normalize_v4_embedded C a =
     (if and (ip_flags a) (IPV6_FLAG_IPV4_COMPAT C) \<noteq> 0
      then a\<lparr>ip_flags := and (or (ip_flags a) (IPV6_FLAG_IPV4_EMBED C)) (not (IPV6_FLAG_IPV4_COMPAT C)),
             components :=
               (shift_components (IPV4_NUM_COMPONENTS C) 0 (IPV4_EMBED_INDEX C) (components a))
                 [IPV4_EMBED_INDEX C - 1 := 0xffff]\<rparr>
      else a)"

definition ip_address_of_string :: "'z network_scheme \<Rightarrow> string \<Rightarrow> ip_address_t option" where
  "ip_address_of_string C s = map_option (normalize_v4_embedded C) (str_to_ip C s)"

definition ip_deserialize :: "'z network_scheme \<Rightarrow> ip_address_t reader" where
  "ip_deserialize C bs =
     do { (cs, bs) \<leftarrow> read_many (IPV6_NUM_COMPONENTS C) (r_varint16 C) bs;
          (fl, bs) \<leftarrow> r_varint32 C bs;
          Some (normalize_v4_embedded C \<lparr>components = cs, ip_port = 0, ip_flags = fl\<rparr>, bs) }"

definition ip_serialize :: "'z network_scheme \<Rightarrow> ip_address_t \<Rightarrow> bytes" where
  "ip_serialize C a =
     concat (map (\<lambda>i. w_varint16 C (components a ! i)) [0..<IPV6_NUM_COMPONENTS C]) @
     w_varint32 C (ip_flags a)"

definition ip_hash :: "'z network_scheme \<Rightarrow> ip_address_t \<Rightarrow> crypto_hash_t" where
  "ip_hash C a = sha3 C (ip_serialize C a)"

definition is_v4 :: "'z network_scheme \<Rightarrow> ip_address_t \<Rightarrow> bool" where
  "is_v4 C a \<longleftrightarrow> list_all (\<lambda>i. components a ! i = 0) [4..<IPV6_NUM_COMPONENTS C]"

definition is_v6 :: "'z network_scheme \<Rightarrow> ip_address_t \<Rightarrow> bool" where
  "is_v6 C a \<longleftrightarrow> \<not> is_v4 C a"

definition ip_to_string :: "'z network_scheme \<Rightarrow> ip_address_t \<Rightarrow> string" where
  "ip_to_string C a = (case ip_to_str C a of None \<Rightarrow> [] | Some s \<Rightarrow> ''['' @ s @ '']'')"

text \<open>
  A well-formed address: what the constructors of the class leave behind, less the port, which
  the serialized form does not carry.
\<close>

definition wf_ip :: "'z network_scheme \<Rightarrow> ip_address_t \<Rightarrow> bool" where
  [wf_defs]: "wf_ip C a \<longleftrightarrow>
     length (components a) = IPV6_NUM_COMPONENTS C \<and> ip_port a = 0 \<and>
     and (ip_flags a) (IPV6_FLAG_IPV4_COMPAT C) = 0"

lemma normalize_normal:
  "and (ip_flags a) (IPV6_FLAG_IPV4_COMPAT C) = 0 \<Longrightarrow> normalize_v4_embedded C a = a"
  by (simp add: normalize_v4_embedded_def)

lemma and_or_not_clears: "and (and (or x e) (not c)) c = (0 :: 'a::len word)"
  by (simp add: and.assoc)

lemma normalize_clears: "and (ip_flags (normalize_v4_embedded C a)) (IPV6_FLAG_IPV4_COMPAT C) = 0"
  by (simp add: normalize_v4_embedded_def and_or_not_clears)

lemma normalize_idem:
  "normalize_v4_embedded C (normalize_v4_embedded C a) = normalize_v4_embedded C a"
  by (rule normalize_normal) (rule normalize_clears)

lemma length_shift_components [simp]: "length (shift_components n i k cs) = length cs"
  by (induction n i k cs rule: shift_components.induct) auto

lemma length_normalize [simp]:
  "length (components (normalize_v4_embedded C a)) = length (components a)"
  by (simp add: normalize_v4_embedded_def)

lemma ip_port_normalize [simp]: "ip_port (normalize_v4_embedded C a) = ip_port a"
  by (simp add: normalize_v4_embedded_def)

text \<open>The shift moves a block of components and clears where it was.\<close>

lemma shift_components_nth:
  assumes "i + n \<le> k" "k + n \<le> length cs" "j < length cs"
  shows "shift_components n i k cs ! j =
           (if k \<le> j \<and> j < k + n then cs ! (i + j - k)
            else if i \<le> j \<and> j < i + n then 0 else cs ! j)"
  using assms
proof (induction n i k cs rule: shift_components.induct)
  case (2 n i k cs)
  then show ?case
    by (cases "j = k"; cases "j = i") (auto simp: nth_list_update not_less_eq_eq)
qed auto

lemma ip_components_list:
  "length (components a) = IPV6_NUM_COMPONENTS C \<Longrightarrow>
   ip_serialize C a = concat (map (w_varint16 C) (components a)) @ w_varint32 C (ip_flags a)"
  unfolding ip_serialize_def
  by (rule arg_cong [where f = "\<lambda>xs. concat xs @ _"]) (rule nth_equalityI; simp)

lemma ip_read_back:
  assumes C: "network_laws C" and a: "wf_ip C a"
  shows "ip_deserialize C (ip_serialize C a @ rest) = Some (a, rest)"
proof -
  note L = network_lawsD(2) [OF C]
  have "read_many (length (components a)) (r_varint16 C)
      (concat (map (w_varint16 C) (components a)) @ s) = Some (components a, s)" for s
    by (rule read_many_back) (simp add: wire L)
  then show ?thesis using a
    by (simp add: ip_deserialize_def ip_components_list wf_ip_def wire L normalize_normal)
qed

interpretation ip: wire_format network_laws wf_ip ip_serialize ip_deserialize
  by unfold_locales (rule ip_read_back)

lemma ip_deserialize_wf: "ip_deserialize C bs = Some (a, rest) \<Longrightarrow> wf_ip C a"
  by (auto simp: ip_deserialize_def wf_ip_def normalize_clears
        dest!: read_many_length split: Option.bind_splits)

lemma ip_address_of_string_normal:
  assumes "network_laws C" "ip_address_of_string C s = Some a"
  shows "length (components a) = IPV6_NUM_COMPONENTS C"
    and "and (ip_flags a) (IPV6_FLAG_IPV4_COMPAT C) = 0"
  using assms network_lawsD(7) by (auto simp: ip_address_of_string_def normalize_clears)

text \<open>
  What normalizing an IPv4-compatible address gives: the two leading components move to the
  end behind the marker \<open>0xffff\<close>, and every other component before the marker is kept.
\<close>

lemma normalize_embeds:
  assumes C: "network_laws C" and len: "length (components a) = IPV6_NUM_COMPONENTS C"
    and compat: "and (ip_flags a) (IPV6_FLAG_IPV4_COMPAT C) \<noteq> 0"
  shows "i < IPV4_NUM_COMPONENTS C \<Longrightarrow>
           components (normalize_v4_embedded C a) ! (IPV4_EMBED_INDEX C + i) = components a ! i"
    and "i < IPV4_NUM_COMPONENTS C \<Longrightarrow> components (normalize_v4_embedded C a) ! i = 0"
    and "components (normalize_v4_embedded C a) ! (IPV4_EMBED_INDEX C - 1) = 0xffff"
  using network_lawsD(3,4) [OF C] len compat
  by (auto simp: normalize_v4_embedded_def shift_components_nth nth_list_update)

section \<open>Peers\<close>

record network_peer_t =
  peer_address :: ip_address_t
  peer_port :: u16
  peer_id :: crypto_hash_t
  peer_network_id :: crypto_hash_t
  last_seen :: u64

text \<open>The constructor stamps the entry with the time of the call.\<close>

definition network_peer ::
  "u64 \<Rightarrow> ip_address_t \<Rightarrow> crypto_hash_t \<Rightarrow> u16 \<Rightarrow> crypto_hash_t \<Rightarrow> network_peer_t" where
  "network_peer now a i p n =
     \<lparr>peer_address = a, peer_port = p, peer_id = i, peer_network_id = n, last_seen = now\<rparr>"

definition peer_deserialize :: "'z network_scheme \<Rightarrow> network_peer_t reader" where
  "peer_deserialize C bs =
     do { (a, bs) \<leftarrow> ip_deserialize C bs;
          (p, bs) \<leftarrow> r_varint16 C bs;
          (i, bs) \<leftarrow> r_key C bs;
          (n, bs) \<leftarrow> r_key C bs;
          (t, bs) \<leftarrow> r_varint C bs;
          Some (\<lparr>peer_address = a, peer_port = p, peer_id = i, peer_network_id = n, last_seen = t\<rparr>, bs) }"

definition peer_serialize :: "'z network_scheme \<Rightarrow> network_peer_t \<Rightarrow> bytes" where
  "peer_serialize C p =
     ip_serialize C (peer_address p) @ w_varint16 C (peer_port p) @ w_key C (peer_id p) @
     w_key C (peer_network_id p) @ w_varint C (last_seen p)"

definition peer_hash :: "'z network_scheme \<Rightarrow> network_peer_t \<Rightarrow> crypto_hash_t" where
  "peer_hash C p = sha3 C (peer_serialize C p)"

definition wf_peer :: "'z network_scheme \<Rightarrow> network_peer_t \<Rightarrow> bool" where
  [wf_defs]: "wf_peer C p \<longleftrightarrow> wf_ip C (peer_address p)"

lemma peer_read_back:
  assumes "network_laws C" "wf_peer C p"
  shows "peer_deserialize C (peer_serialize C p @ rest) = Some (p, rest)"
  using assms(2)
  by (simp add: peer_deserialize_def peer_serialize_def wf_peer_def ip.read_back assms(1)
        wire network_lawsD(2) [OF assms(1)])

interpretation peer: wire_format network_laws wf_peer peer_serialize peer_deserialize
  by unfold_locales (rule peer_read_back)

lemma peer_deserialize_wf: "peer_deserialize C bs = Some (p, rest) \<Longrightarrow> wf_peer C p"
  by (auto simp: peer_deserialize_def wf_peer_def dest!: ip_deserialize_wf split: Option.bind_splits)

section \<open>Packets\<close>

datatype NetworkPacketTypes =
  NETWORK_HANDSHAKE | NETWORK_KEEPALIVE | NETWORK_PEER_EXCHANGE | NETWORK_DATA

fun packet_type_number :: "NetworkPacketTypes \<Rightarrow> u16" where
  "packet_type_number NETWORK_HANDSHAKE = 1000"
| "packet_type_number NETWORK_KEEPALIVE = 1100"
| "packet_type_number NETWORK_PEER_EXCHANGE = 1200"
| "packet_type_number NETWORK_DATA = 3000"

lemma packet_type_number_inj: "packet_type_number s = packet_type_number t \<longleftrightarrow> s = t"
  by (cases s; cases t) simp_all

text \<open>
  \<open>NetworkPacketBase\<close>, and the members of each packet. The handshake and the peer exchange
  have the same members and the same wire form.
\<close>

record NetworkPacketBase =
  packet_type :: u16
  packet_version :: u16

record packet_peers_t = NetworkPacketBase +
  packet_peer_id :: crypto_hash_t
  packet_peer_port :: u16
  packet_network_id :: crypto_hash_t
  packet_peers :: "network_peer_t list"

type_synonym packet_handshake_t = packet_peers_t
type_synonym packet_peer_exchange_t = packet_peers_t

record packet_keepalive_t = NetworkPacketBase +
  keepalive_peer_id :: crypto_hash_t

record packet_data_t = NetworkPacketBase +
  data_network_id :: crypto_hash_t
  payload :: bytes

definition packet_handshake :: "crypto_hash_t \<Rightarrow> u16 \<Rightarrow> crypto_hash_t \<Rightarrow> packet_handshake_t" where
  "packet_handshake i p n =
     \<lparr>packet_type = packet_type_number NETWORK_HANDSHAKE, packet_version = P2P_VERSION,
      packet_peer_id = i, packet_peer_port = p, packet_network_id = n, packet_peers = []\<rparr>"

definition packet_peer_exchange :: "crypto_hash_t \<Rightarrow> u16 \<Rightarrow> crypto_hash_t \<Rightarrow> packet_peer_exchange_t" where
  "packet_peer_exchange i p n =
     \<lparr>packet_type = packet_type_number NETWORK_PEER_EXCHANGE, packet_version = P2P_VERSION,
      packet_peer_id = i, packet_peer_port = p, packet_network_id = n, packet_peers = []\<rparr>"

definition packet_keepalive :: "crypto_hash_t \<Rightarrow> packet_keepalive_t" where
  "packet_keepalive i =
     \<lparr>packet_type = packet_type_number NETWORK_KEEPALIVE, packet_version = P2P_VERSION,
      keepalive_peer_id = i\<rparr>"

definition packet_data :: "'z crypto_scheme \<Rightarrow> packet_data_t" where
  "packet_data C =
     \<lparr>packet_type = packet_type_number NETWORK_DATA, packet_version = P2P_VERSION,
      data_network_id = hash_default C, payload = []\<rparr>"

definition peers_packet_deserialize :: "'z network_scheme \<Rightarrow> packet_peers_t reader" where
  "peers_packet_deserialize C bs =
     do { (t, bs) \<leftarrow> r_varint16 C bs;
          (v, bs) \<leftarrow> r_varint16 C bs;
          (i, bs) \<leftarrow> r_key C bs;
          (p, bs) \<leftarrow> r_varint16 C bs;
          (n, bs) \<leftarrow> r_key C bs;
          (peer_count, bs) \<leftarrow> r_varint C bs;
          (ps, bs) \<leftarrow> read_many (unat peer_count) (peer_deserialize C) bs;
          Some (\<lparr>packet_type = t, packet_version = v, packet_peer_id = i, packet_peer_port = p,
                 packet_network_id = n, packet_peers = ps\<rparr>, bs) }"

definition peers_packet_serialize :: "'z network_scheme \<Rightarrow> packet_peers_t \<Rightarrow> bytes" where
  "peers_packet_serialize C p =
     w_varint16 C (packet_type p) @ w_varint16 C (packet_version p) @ w_key C (packet_peer_id p) @
     w_varint16 C (packet_peer_port p) @ w_key C (packet_network_id p) @
     w_varint C (word_of_nat (length (packet_peers p))) @
     concat (map (peer_serialize C) (packet_peers p))"

definition handshake_deserialize :: "'z network_scheme \<Rightarrow> packet_handshake_t reader" where
  "handshake_deserialize = peers_packet_deserialize"

definition handshake_serialize :: "'z network_scheme \<Rightarrow> packet_handshake_t \<Rightarrow> bytes" where
  "handshake_serialize = peers_packet_serialize"

definition peer_exchange_deserialize :: "'z network_scheme \<Rightarrow> packet_peer_exchange_t reader" where
  "peer_exchange_deserialize = peers_packet_deserialize"

definition peer_exchange_serialize :: "'z network_scheme \<Rightarrow> packet_peer_exchange_t \<Rightarrow> bytes" where
  "peer_exchange_serialize = peers_packet_serialize"

definition keepalive_deserialize :: "'z codec_scheme \<Rightarrow> packet_keepalive_t reader" where
  "keepalive_deserialize C bs =
     do { (t, bs) \<leftarrow> r_varint16 C bs;
          (v, bs) \<leftarrow> r_varint16 C bs;
          (i, bs) \<leftarrow> r_key C bs;
          Some (\<lparr>packet_type = t, packet_version = v, keepalive_peer_id = i\<rparr>, bs) }"

definition keepalive_serialize :: "'z codec_scheme \<Rightarrow> packet_keepalive_t \<Rightarrow> bytes" where
  "keepalive_serialize C p =
     w_varint16 C (packet_type p) @ w_varint16 C (packet_version p) @ w_key C (keepalive_peer_id p)"

definition data_deserialize :: "'z codec_scheme \<Rightarrow> packet_data_t reader" where
  "data_deserialize C bs =
     do { (t, bs) \<leftarrow> r_varint16 C bs;
          (v, bs) \<leftarrow> r_varint16 C bs;
          (n, bs) \<leftarrow> r_key C bs;
          (payload_bytes, bs) \<leftarrow> r_varint C bs;
          (body, bs) \<leftarrow> r_bytes C payload_bytes bs;
          Some (\<lparr>packet_type = t, packet_version = v, data_network_id = n, payload = body\<rparr>, bs) }"

definition data_serialize :: "'z codec_scheme \<Rightarrow> packet_data_t \<Rightarrow> bytes" where
  "data_serialize C p =
     w_varint16 C (packet_type p) @ w_varint16 C (packet_version p) @ w_key C (data_network_id p) @
     w_varint C (word_of_nat (length (payload p))) @ w_bytes C (payload p)"

definition wf_peers_packet :: "'z network_scheme \<Rightarrow> packet_peers_t \<Rightarrow> bool" where
  [wf_defs]: "wf_peers_packet C p \<longleftrightarrow>
     fits_u64 (packet_peers p) \<and> (\<forall>q \<in> set (packet_peers p). wf_peer C q)"

definition wf_data_packet :: "packet_data_t \<Rightarrow> bool" where
  [wf_defs]: "wf_data_packet p \<longleftrightarrow> fits_u64 (payload p)"

lemma peers_packet_read_back:
  assumes "network_laws C" "wf_peers_packet C p"
  shows "peers_packet_deserialize C (peers_packet_serialize C p @ rest) = Some (p, rest)"
  using assms(2)
  by (simp add: peers_packet_deserialize_def peers_packet_serialize_def wf_peers_packet_def
        peer.many_back assms(1) wire network_lawsD(2) [OF assms(1)])

interpretation handshake: wire_format network_laws wf_peers_packet handshake_serialize handshake_deserialize
  unfolding handshake_serialize_def handshake_deserialize_def
  by unfold_locales (rule peers_packet_read_back)

interpretation peer_exchange:
  wire_format network_laws wf_peers_packet peer_exchange_serialize peer_exchange_deserialize
  unfolding peer_exchange_serialize_def peer_exchange_deserialize_def
  by unfold_locales (rule peers_packet_read_back)

interpretation keepalive: wire_format codec_laws "\<lambda>_ _. True" keepalive_serialize keepalive_deserialize
  by unfold_locales (simp add: keepalive_serialize_def keepalive_deserialize_def wire)

interpretation data_packet: wire_format codec_laws "\<lambda>_. wf_data_packet" data_serialize data_deserialize
  by unfold_locales (simp add: data_serialize_def data_deserialize_def wf_data_packet_def wire)

end
