(* ===== verification/Reference_Codec.thy ===== *)
theory Reference_Codec
  imports Wire
begin

text \<open>
  A concrete instance of the parameters of the theory \<open>Wire\<close>, with which the witnesses of
  the development show that the hypotheses about the external library can hold together:
  variable-length integers in groups of seven bits, fixed-width little-endian keys, and
  arithmetic stand-ins for the hash and signature functions. Nothing in the model of the
  program depends on it.
\<close>

section \<open>Integers\<close>

fun leb :: "nat \<Rightarrow> bytes" where
  "leb n = (if n < 128 then [word_of_nat n] else word_of_nat (128 + n mod 128) # leb (n div 128))"

declare leb.simps [simp del]

fun unleb :: "bytes \<Rightarrow> (nat \<times> bytes) option" where
  "unleb [] = None"
| "unleb (b # bs) =
     (if unat b < 128 then Some (unat b, bs)
      else do { (n, bs) \<leftarrow> unleb bs; Some (unat b - 128 + 128 * n, bs) })"

lemma unat_byte: "n < 256 \<Longrightarrow> unat (word_of_nat n :: byte) = n"
  by (simp add: unat_of_nat take_bit_nat_eq_self)

lemma unleb_leb: "unleb (leb n @ rest) = Some (n, rest)"
proof (induction n rule: leb.induct)
  case (1 n)
  show ?case
  proof (cases "n < 128")
    case True
    then show ?thesis by (simp add: leb.simps [of n] unat_byte)
  next
    case False
    have "128 + n mod 128 < (256 :: nat)" using mod_less_divisor [of 128 n] by linarith
    then have "unat (word_of_nat (128 + n mod 128) :: byte) = 128 + n mod 128" by (rule unat_byte)
    then show ?thesis using 1 False by (simp add: leb.simps [of n])
  qed
qed

definition read_leb :: "nat \<Rightarrow> (nat \<Rightarrow> 'a) \<Rightarrow> 'a reader" where
  "read_leb bound f bs =
     do { (n, bs) \<leftarrow> unleb bs; if n < bound then Some (f n, bs) else None }"

lemma read_leb_back:
  "n < bound \<Longrightarrow> f n = x \<Longrightarrow> read_leb bound f (leb n @ rest) = Some (x, rest)"
  by (simp add: read_leb_def unleb_leb)

fun le_bytes :: "nat \<Rightarrow> nat \<Rightarrow> bytes" where
  "le_bytes 0 n = []"
| "le_bytes (Suc k) n = word_of_nat (n mod 256) # le_bytes k (n div 256)"

fun un_le :: "bytes \<Rightarrow> nat" where
  "un_le [] = 0"
| "un_le (b # bs) = unat b + 256 * un_le bs"

lemma length_le_bytes [simp]: "length (le_bytes k n) = k"
  by (induction k arbitrary: n) auto

lemma un_le_le_bytes: "n < 256 ^ k \<Longrightarrow> un_le (le_bytes k n) = n"
proof (induction k arbitrary: n)
  case 0
  then show ?case by simp
next
  case (Suc k)
  have "n mod 256 < (256 :: nat)" by simp
  then have "unat (word_of_nat (n mod 256) :: byte) = n mod 256" by (rule unat_byte)
  moreover have "n div 256 < 256 ^ k"
    using Suc.prems by (simp add: less_mult_imp_div_less mult.commute)
  ultimately show ?case using Suc.IH [of "n div 256"] by simp
qed

definition read_le :: "nat \<Rightarrow> (nat \<Rightarrow> 'a) \<Rightarrow> 'a reader" where
  "read_le k f bs = (if k \<le> length bs then Some (f (un_le (take k bs)), drop k bs) else None)"

lemma read_le_back:
  "n < 256 ^ k \<Longrightarrow> f n = x \<Longrightarrow> read_le k f (le_bytes k n @ rest) = Some (x, rest)"
  by (simp add: read_le_def un_le_le_bytes)

lemma unat_256: "unat (x :: 256 word) < 256 ^ 32"
  using unsigned_less [where 'a = nat, of x] by simp

lemma unat_512: "unat (x :: 512 word) < 256 ^ 64"
  using unsigned_less [where 'a = nat, of x] by simp

lemma unat_64: "unat (x :: u64) < 256 ^ 8" "unat (x :: u64) < 2 ^ 64"
  using unsigned_less [where 'a = nat, of x] by simp_all

section \<open>The instance\<close>

definition ref_w_key :: "256 word \<Rightarrow> bytes" where
  "ref_w_key k = le_bytes 32 (unat k)"

definition ref_r_key :: "256 word reader" where
  "ref_r_key = read_le 32 word_of_nat"

definition ref_w_signature :: "512 word \<Rightarrow> bytes" where
  "ref_w_signature s = le_bytes 64 (unat s)"

definition ref_r_signature :: "512 word reader" where
  "ref_r_signature = read_le 64 word_of_nat"

definition ref_r_keyV :: "256 word list reader" where
  "ref_r_keyV bs = do { (n, bs) \<leftarrow> unleb bs; read_many n ref_r_key bs }"

definition ref_r_bytes :: "u64 \<Rightarrow> bytes reader" where
  "ref_r_bytes n bs = (if unat n \<le> length bs then Some (take (unat n) bs, drop (unat n) bs) else None)"

definition ref_r_boolean :: "bool reader" where
  "ref_r_boolean bs = (case bs of [] \<Rightarrow> None | b # bs \<Rightarrow> Some (b \<noteq> 0, bs))"

definition ref_r_uint64 :: "u64 reader" where
  "ref_r_uint64 bs = (if 8 \<le> length bs then Some (word_of_nat (un_le (rev (take 8 bs))), drop 8 bs) else None)"

definition ref_sha3 :: "bytes \<Rightarrow> crypto_hash_t" where
  "ref_sha3 bs = foldl (\<lambda>h b. h * 257 + word_of_nat (unat b) + 1) 1 bs"

definition ref_check_signature :: "crypto_hash_t \<Rightarrow> crypto_public_key_t \<Rightarrow> crypto_signature_t \<Rightarrow> bool" where
  "ref_check_signature d p s \<longleftrightarrow> s = word_of_nat (unat d + unat p + 1)"

definition reference :: "(256 word, 256 word) proofs" where
  "reference =
     \<lparr>w_varint = (\<lambda>x. leb (unat x)), r_varint = read_leb (2 ^ 64) word_of_nat,
      w_varint32 = (\<lambda>x. leb (unat x)), r_varint32 = read_leb (2 ^ 32) word_of_nat,
      w_varint16 = (\<lambda>x. leb (unat x)), r_varint16 = read_leb (2 ^ 16) word_of_nat,
      w_key = ref_w_key, key_serialize = ref_w_key, r_key = ref_r_key,
      w_signature = ref_w_signature, sig_serialize = ref_w_signature,
      r_signature = ref_r_signature,
      w_keyV = (\<lambda>ks. leb (length ks) @ concat (map ref_w_key ks)), r_keyV = ref_r_keyV,
      w_bytes = (\<lambda>bs. bs), r_bytes = ref_r_bytes,
      w_boolean = (\<lambda>b. [if b then 1 else 0]), r_boolean = ref_r_boolean,
      w_uint64 = (\<lambda>x. rev (le_bytes 8 (unat x))), r_uint64 = ref_r_uint64,
      sha3 = ref_sha3, sha3_hashes = (\<lambda>hs. ref_sha3 (concat (map ref_w_key hs))),
      argon2id = (\<lambda>d _ _ _. d), leading_zeros = (\<lambda>h. unat h mod 4),
      key_empty = (\<lambda>k. k = 0), sig_empty = (\<lambda>s. s = 0), key_less = (<),
      key_default = 0, hash_default = 0, sig_default = 0, crypto_Z = 0,
      check_subgroup = (\<lambda>_. True), dedupe_sort = (\<lambda>ks. sort (remdups ks)),
      secret_key_to_public_key = (\<lambda>k. k),
      generate_signature = (\<lambda>_ d k. word_of_nat (unat d + unat k + 1)),
      check_signature = ref_check_signature,
      check_commitments_parity = (\<lambda>_ _ _. True),
      generate_key_derivation = (\<lambda>p s. p + s),
      derivation_to_scalar = (\<lambda>d i. d + word_of_nat i),
      derive_public_key = (\<lambda>s p. s + p + 1),
      generate_commitment_blinding_factor = (\<lambda>s. s + 2),
      generate_amount_mask = (\<lambda>s. s + 3),
      toggle_masked_amount = (\<lambda>_ a. a),
      generate_pedersen_commitment = (\<lambda>b a. b + word_of_nat (unat a)),
      base58_encode = (\<lambda>bs. map (\<lambda>b. char_of (unat b)) bs),
      base58_decode = (\<lambda>s. Some (map (\<lambda>c. word_of_nat (of_char c)) s)),
      w_clsag = ref_w_key, r_clsag = ref_r_key,
      clsag_check_construction = (\<lambda>_ _. True),
      check_ring_signature = (\<lambda>_ _ _ _ _. True),
      w_range_proof = ref_w_key, r_range_proof = ref_r_key,
      range_proof_digest = (\<lambda>r. r),
      range_proof_check_construction = (\<lambda>_. True),
      range_proof_verify = (\<lambda>_ _. True)\<rparr>"

lemma ref_key_back: "ref_r_key (ref_w_key k @ rest) = Some (k, rest)"
  by (simp add: ref_r_key_def ref_w_key_def read_le_back [OF unat_256])

lemma ref_signature_back: "ref_r_signature (ref_w_signature s @ rest) = Some (s, rest)"
  by (simp add: ref_r_signature_def ref_w_signature_def read_le_back [OF unat_512])

lemma ref_keyV_back:
  "ref_r_keyV ((leb (length ks) @ concat (map ref_w_key ks)) @ rest) = Some (ks, rest)"
  by (simp add: ref_r_keyV_def unleb_leb read_many_back ref_key_back)

lemma ref_varint_back:
  "read_leb (2 ^ 64) word_of_nat (leb (unat x) @ rest) = Some (x :: u64, rest)"
  "read_leb (2 ^ 32) word_of_nat (leb (unat y) @ rest) = Some (y :: u32, rest)"
  "read_leb (2 ^ 16) word_of_nat (leb (unat z) @ rest) = Some (z :: u16, rest)"
  "ref_r_uint64 (rev (le_bytes 8 (unat x)) @ rest) = Some (x, rest)"
  "read_leb (2 ^ 64) word_of_nat (leb (unat z) @ rest) = Some (ucast z :: u64, rest)"
  using unsigned_less [where 'a = nat, of y] unsigned_less [where 'a = nat, of z]
  by (simp_all add: read_leb_back ref_r_uint64_def un_le_le_bytes [OF unat_64(1)] unat_64(2) [simplified])

lemma reference_codec_laws: "codec_laws reference"
  unfolding codec_laws_def reference_def
  by (simp add: ref_varint_back [simplified] ref_key_back ref_signature_back
        ref_keyV_back [simplified] ref_r_bytes_def ref_r_boolean_def)

lemma reference_base58:
  "map (\<lambda>c. word_of_nat (of_char c)) (map (\<lambda>b. char_of (unat b)) bs) = (bs :: bytes)"
proof -
  have "unat b mod 256 = unat b" for b :: byte
    using unsigned_less [where 'a = nat, of b] by simp
  then show ?thesis by (simp add: comp_def)
qed

lemma reference_crypto_laws: "crypto_laws reference"
  using reference_codec_laws strict_total_less [where 'a = "256 word"] reference_base58
  by (simp add: crypto_laws_def reference_def ref_check_signature_def)

lemma reference_laws: "proof_laws reference"
  using reference_crypto_laws by (simp add: proof_laws_def) (simp add: reference_def ref_key_back)

lemma reference_key_width: "key_width reference"
  by (simp add: key_width_def reference_def ref_w_key_def)

end
