(* ===== verification/Reference_Lmdb.thy ===== *)
theory Reference_Lmdb
  imports Lmdb_Progress
begin

text \<open>
  A store that keeps the laws of the theories \<open>Lmdb\<close> and \<open>Lmdb_Progress\<close>: an environment is
  its contents with the size of its map, a transaction a copy of both. Writing fails with a full
  map until the map has 32 MB, so that the loop of the macro \<open>MDB_CHECK_TXN_EXPAND\<close> is taken.
\<close>

type_synonym ref_state = "contents \<times> u64"

definition ref_write :: "ref_state \<Rightarrow> ref_state \<Rightarrow> int \<times> ref_state" where
  "ref_write t t' = (if snd t < 33554432 then (- 30792, t) else (0, t'))"

definition reference_lmdb :: "(ref_state, ref_state) lmdb" where
  "reference_lmdb =
     \<lparr>mdb_env_sync = (\<lambda>e _. (0, e)), mdb_env_close = (\<lambda>_. ()),
      mdb_env_set_mapsize = (\<lambda>e n. (0, if n = 0 then e else (fst e, n))),
      mdb_env_info = (\<lambda>e. (0, snd e)), mdb_env_stat = (\<lambda>_. (0, 4096)),
      mdb_env_get_flags = (\<lambda>_. (0, 0)), mdb_env_set_flags = (\<lambda>e _ _. (0, e)),
      mdb_env_get_maxkeysize = (\<lambda>_. 511), mdb_env_get_maxreaders = (\<lambda>_. (0, 126)),
      mdb_txn_begin = (\<lambda>e _. (0, e, e)), mdb_txn_abort = (\<lambda>_ e. e),
      mdb_txn_commit = (\<lambda>t e. (0, (fst t, snd e))), mdb_txn_id = (\<lambda>_. 1), mdb_txn_renew = (\<lambda>t. (0, t)),
      mdb_put = (\<lambda>t d k v _. ref_write t ((fst t)(d := (fst t d)(k \<mapsto> v)), snd t)),
      mdb_get = (\<lambda>t d k. case fst t d k of None \<Rightarrow> (- 30798, []) | Some v \<Rightarrow> (0, v)),
      mdb_del = (\<lambda>t d k _. if fst t d k = None then (- 30798, t)
                           else ref_write t ((fst t)(d := (fst t d)(k := None)), snd t)),
      mdb_drop = (\<lambda>t d _. ref_write t ((fst t)(d := \<lambda>_. None), snd t))\<rparr>"

lemma reference_lmdb_ops:
  "mdb_env_set_mapsize reference_lmdb e n = (0, if n = 0 then e else (fst e, n))"
  "mdb_env_info reference_lmdb e = (0, snd e)" "mdb_env_stat reference_lmdb e = (0, 4096)"
  "mdb_txn_begin reference_lmdb e ro = (0, e, e)" "mdb_txn_abort reference_lmdb t e = e"
  "mdb_txn_commit reference_lmdb t e = (0, (fst t, snd e))"
  "mdb_put reference_lmdb t d k v f = ref_write t ((fst t)(d := (fst t d)(k \<mapsto> v)), snd t)"
  "mdb_get reference_lmdb t d k = (case fst t d k of None \<Rightarrow> (- 30798, []) | Some v \<Rightarrow> (0, v))"
  by (simp_all add: reference_lmdb_def)

lemma reference_lmdb_laws: "lmdb_laws reference_lmdb fst fst"
  by (auto simp: lmdb_laws_def reference_lmdb_def ref_write_def split: if_splits)

lemma reference_growth_laws: "growth_laws reference_lmdb (\<lambda>t. unat (snd t)) 33554432"
  by (auto simp: growth_laws_def reference_lmdb_def ref_write_def mapsize_def map_full_def
      word_less_nat_alt split: if_splits)

text \<open>An environment as \<open>LMDB::instance\<close> sets it up with the growth factor \<open>g\<close>, no database opened yet.\<close>

definition reference_env :: "u64 \<Rightarrow> (crypto_hash_t, LMDBDatabase) ThreadSafeMap \<Rightarrow> ref_state LMDB" where
  "reference_env g M =
     \<lparr>lmdb_id = 0, m_growth_factor = g, m_env = Some (\<lambda>_ _. None, g * 1024 * 1024),
      m_databases = M, m_open_txns = 0, m_registered = True\<rparr>"

lemma reference_env_facts:
  "stored fst (reference_env g M) (\<lambda>_ _. None)" "m_open_txns (reference_env g M) + 1 \<noteq> 0"
  "m_env (reference_env g M) \<noteq> None" "m_databases (reference_env g M) = M"
  "m_registered (reference_env g M)"
  "0 < g \<Longrightarrow> g < 2 ^ 40 \<Longrightarrow> grows (reference_env g M)"
  by (simp_all add: reference_env_def stored_def grows_def)

end
