(* ===== verification/Samples.thy ===== *)
theory Samples
  imports Transaction_Validator Staking_Engine Network_Types Reference_Codec Reference_Lmdb
begin

text \<open>
  Small concrete values of the program's types over the reference instances of its parameters.
  The witnesses of the properties apply the theorems to them.
\<close>

definition sample_prefix :: "TransactionType \<Rightarrow> TransactionPrefix" where
  "sample_prefix t = \<lparr>l_type = type_number t, version = 1, unlock_block = 3, public_key = 5\<rparr>"

definition sample_output :: TransactionOutput where
  "sample_output = \<lparr>public_ephemeral = 7, output_amount = 9, commitment = 11\<rparr>"

definition sample_body :: TransactionUserBody where
  "sample_body = \<lparr>nonce = 0, fee = 25, key_images = [13, 14], outputs = [sample_output, sample_output]\<rparr>"

definition sample_committed_suffix :: CommittedTransactionSuffix where
  "sample_committed_suffix = \<lparr>signature_hash = 17, range_proof_hash = 19\<rparr>"

definition sample_suffix :: "(256 word, 256 word) UncommittedTransactionSuffix" where
  "sample_suffix = \<lparr>pseudo_commitments = [21, 22], ring_participants = [23], signatures = [24, 25],
     range_proof = 26\<rparr>"

definition sample_stake_data :: StakeTransactionData where
  "sample_stake_data = \<lparr>stake_amount = 100000, stake_candidate_public_key = 31,
     staker_public_view_key = 32, staker_public_spend_key = 33\<rparr>"

definition sample_normal :: "(256 word, 256 word) uncommitted_normal_transaction_t" where
  "sample_normal = \<lparr>tx_prefix = sample_prefix NORMAL, tx_body = sample_body,
     tx_data = \<lparr>extra = [1, 2, 3]\<rparr>, tx_suffix = sample_suffix\<rparr>"

definition sample_stake :: "(256 word, 256 word) uncommitted_stake_transaction_t" where
  "sample_stake = \<lparr>tx_prefix = sample_prefix STAKE, tx_body = sample_body,
     tx_data = sample_stake_data, tx_suffix = sample_suffix\<rparr>"

definition sample_committed_normal :: committed_normal_transaction_t where
  "sample_committed_normal = \<lparr>tx_prefix = sample_prefix NORMAL, tx_body = sample_body,
     tx_data = \<lparr>extra = [1, 2, 3]\<rparr>, tx_suffix = sample_committed_suffix\<rparr>"

definition sample_committed_stake :: committed_stake_transaction_t where
  "sample_committed_stake = \<lparr>tx_prefix = sample_prefix STAKE, tx_body = sample_body,
     tx_data = sample_stake_data, tx_suffix = sample_committed_suffix\<rparr>"

definition sample_recall_data :: RecallStakeTransactionData where
  "sample_recall_data = \<lparr>recall_amount = 1, recall_candidate_public_key = 2, recall_staker_id = 3,
     view_signature = 4, spend_signature = 5\<rparr>"

definition sample_recall :: "(256 word, 256 word) uncommitted_recall_stake_transaction_t" where
  "sample_recall = \<lparr>tx_prefix = sample_prefix RECALL_STAKE, tx_body = sample_body,
     tx_data = sample_recall_data, tx_suffix = sample_suffix\<rparr>"

definition sample_committed_recall :: committed_recall_stake_transaction_t where
  "sample_committed_recall = \<lparr>tx_prefix = sample_prefix RECALL_STAKE, tx_body = sample_body,
     tx_data = sample_recall_data, tx_suffix = sample_committed_suffix\<rparr>"

text \<open>A transaction whose ring is empty.\<close>

definition sample_ringless :: "(256 word, 256 word) uncommitted_normal_transaction_t" where
  "sample_ringless = sample_normal\<lparr>tx_suffix := sample_suffix\<lparr>ring_participants := []\<rparr>\<rparr>"

definition sample_genesis :: genesis_transaction_t where
  "sample_genesis = \<lparr>gen_prefix = sample_prefix GENESIS, gen_secret_key = 5, gen_outputs = [sample_output]\<rparr>"

definition sample_block :: block_t where
  "sample_block = \<lparr>block_version = 1, timestamp = 1633492800, block_index = 0, previous_blockhash = 0,
     reward_tx = RewardGenesis sample_genesis, transactions = [], producer_public_key = 0,
     producer_signature = 0, validator_signatures = []\<rparr>"

definition sample_databases :: "(crypto_hash_t, LMDBDatabase) ThreadSafeMap" where
  "sample_databases = map (\<lambda>i. (word_of_nat i, \<lparr>db_id = word_of_nat i, m_dbi = i\<rparr>)) [2..<10]"

definition sample_database :: "nat \<Rightarrow> LMDBDatabase" where
  "sample_database i = \<lparr>db_id = word_of_nat i, m_dbi = i\<rparr>"

definition sample_storage :: BlockchainStorage where
  "sample_storage = \<lparr>m_blocks = sample_database 2, m_block_indexes = sample_database 3,
     m_block_timestamps = sample_database 4, m_transactions = sample_database 5,
     m_key_images = sample_database 6, m_transaction_outputs = sample_database 7\<rparr>"

definition sample_engine :: StakingEngine where
  "sample_engine = \<lparr>m_db_candidates = sample_database 8, m_db_stakes = sample_database 9\<rparr>"

definition sample_env :: "ref_state LMDB" where
  "sample_env = reference_env 16 sample_databases"

lemmas sample_defs =
  sample_prefix_def sample_output_def sample_body_def sample_committed_suffix_def sample_suffix_def
  sample_stake_data_def sample_normal_def sample_stake_def sample_committed_normal_def
  sample_committed_stake_def sample_recall_data_def sample_recall_def sample_committed_recall_def
  sample_ringless_def sample_genesis_def sample_block_def

lemma sample_storage_open: "storage_open sample_storage sample_env"
  by (simp add: storage_open_def storage_dbs_def sample_storage_def sample_database_def sample_env_def
      reference_env_def sample_databases_def tsm_at_def upt_conv_Cons)

lemmas sample_env_facts = reference_env_facts [of 16 sample_databases, folded sample_env_def]

lemma sample_env_grows: "grows sample_env"
  by (rule sample_env_facts(6)) simp_all

lemma sample_wf:
  "wf_transaction (Normal sample_committed_normal)" "wf_transaction (Genesis sample_genesis)"
  "wf_transaction (Stake sample_committed_stake)" "wf_block reference sample_block"
  by (simp_all add: sample_defs wf_defs sorted_map_def has_producer_def reference_def)

section \<open>A block written to the reference store\<close>

text \<open>In an environment whose map has room every write of the reference store succeeds.\<close>

definition sample_big_env :: "ref_state LMDB" where
  "sample_big_env = reference_env 64 sample_databases"

lemmas sample_big_env_facts = reference_env_facts [of 64 sample_databases, folded sample_big_env_def]

lemma sample_big_storage_open: "storage_open sample_storage sample_big_env"
  by (simp add: storage_open_def storage_dbs_def sample_storage_def sample_database_def sample_big_env_def
      reference_env_def sample_databases_def tsm_at_def upt_conv_Cons)

definition sure_step :: "ref_state txn_step \<Rightarrow> bool" where
  "sure_step f \<longleftrightarrow> (\<forall>T. \<not> snd (txn_handle T) < 33554432 \<longrightarrow>
     (\<exists>T'. f T = (SUCCESS, T') \<and> snd (txn_handle T') = snd (txn_handle T)))"

lemma sure_put: "sure_step (\<lambda>T. txn_put reference_lmdb k v f (set_database d T))"
  by (auto simp: sure_step_def txn_put_def set_database_def reference_lmdb_def ref_write_def)

lemma sure_steps:
  assumes "\<forall>f \<in> set fs. sure_step f" shows "sure_step (steps_until_error fs)"
  unfolding sure_step_def
proof (intro allI impI)
  fix T :: "ref_state LMDBTransaction" assume "\<not> snd (txn_handle T) < 33554432"
  then show "\<exists>T'. steps_until_error fs T = (SUCCESS, T') \<and> snd (txn_handle T') = snd (txn_handle T)"
    using assms
  proof (induction fs arbitrary: T)
    case (Cons f fs)
    then obtain T1 where "f T = (SUCCESS, T1)" "snd (txn_handle T1) = snd (txn_handle T)"
      by (auto simp: sure_step_def)
    then show ?case using Cons.IH [of T1] Cons.prems by simp
  qed simp
qed

lemma sure_run:
  assumes "\<forall>f \<in> set fs. sure_step f" "\<not> snd (txn_handle T) < 33554432" "m_env E \<noteq> None"
  shows "\<exists>E'. txn_run reference_lmdb fs T E = (E', Some (Returned SUCCESS))"
  using assms
proof (induction fs arbitrary: T)
  case Nil
  then show ?case by (auto simp: txn_commit_def reference_lmdb_def map_full_def)
next
  case (Cons f fs)
  then obtain T1 where "f T = (SUCCESS, T1)" "snd (txn_handle T1) = snd (txn_handle T)"
    by (auto simp: sure_step_def)
  then show ?case using Cons.IH [of T1] Cons.prems by (simp add: map_full_def)
qed

lemma sample_put_block:
  assumes "length txs = length (transactions b)"
    "sha3_hashes C (transactions b) = sha3_hashes C (map (transaction_hash C) txs)"
  shows "\<exists>E'. put_block C reference_lmdb S b txs sample_big_env = Some (E', Returned SUCCESS)"
proof -
  have tx: "sure_step (put_transaction_step C reference_lmdb S h tx)" for h tx
    unfolding put_transaction_step_eq
    by (rule sure_steps) (auto simp: put_key_image_def [abs_def] put_transaction_output_def [abs_def] sure_put)
  have "\<forall>f \<in> set (put_block_steps C reference_lmdb S b txs). sure_step f"
    by (auto simp: put_block_steps_def Let_def tx sure_put)
  then have "\<exists>E'. env_run reference_lmdb (put_block_steps C reference_lmdb S b txs) sample_big_env =
      (E', Some (Returned SUCCESS))"
    using sure_run
    by (auto simp: env_run_def lmdb_transaction_def txn_setup_def txn_setup_loop.simps sample_big_env_def
        reference_env_def reference_lmdb_def [THEN arg_cong [where f = mdb_txn_begin]])
  then show ?thesis using assms by (auto simp: put_block_def try_again.simps)
qed

definition sample_spending_block :: block_t where
  "sample_spending_block = sample_block\<lparr>transactions :=
     [transaction_hash reference (Normal sample_committed_normal)]\<rparr>"

lemma sample_spending_put_block:
  "\<exists>E'. put_block reference reference_lmdb sample_storage sample_spending_block
     [Normal sample_committed_normal] sample_big_env = Some (E', Returned SUCCESS)"
  by (rule sample_put_block) (simp_all add: sample_spending_block_def)

section \<open>A transaction the validator accepts\<close>

text \<open>The reference instance with a hash function whose outputs count as one leading zero.\<close>

definition sample_crypto :: "(256 word, 256 word) proofs" where
  "sample_crypto = reference\<lparr>leading_zeros := \<lambda>_. 1, dedupe_sort := remdups\<rparr>"

lemma sample_crypto_laws: "crypto_laws sample_crypto"
  using reference_crypto_laws by (simp add: crypto_laws_def codec_laws_def sample_crypto_def)

lemma sample_committed_size: "committed_normal_size sample_crypto sample_committed_normal \<le> 320"
  by (simp add: committed_normal_size_def committed_normal_serialize_def user_serialize_def
      serialize_prefix_def serialize_header_def serialize_body_def serialize_outputs_def
      TransactionOutput_serialize_def serialize_normal_data_def serialize_committed_suffix_def
      sample_crypto_def reference_def ref_w_key_def leb.simps sample_defs)

lemma fee_without_discount:
  assumes "s \<le> 320" shows "calculate_transaction_fee s (Suc 0) = Some 1"
  using assms
  by (simp add: calculate_transaction_fee_def calculate_transaction_discount_def
      calculate_base_transaction_fee_def config fl_round_def [of _ 0])

lemma sample_leading_zeros: "leading_zeros sample_crypto h = Suc 0"
  by (simp add: sample_crypto_def)

lemma sample_fee: "tx_fee sample_committed_normal = 25"
  by (simp add: sample_defs)

lemma sample_check_committed:
  "check_committed sample_crypto (Normal sample_committed_normal) = Returned SUCCESS"
proof -
  have "committed_normal_check_construction sample_crypto sample_committed_normal = SUCCESS"
    by (simp add: committed_normal_check_construction_def check_success sample_crypto_laws good_body_def)
      (simp add: sample_defs sample_crypto_def reference_def)
  moreover have "word_of_nat (committed_normal_size sample_crypto sample_committed_normal) \<le> (320 :: u64)"
    using sample_committed_size by (simp add: word_le_nat_alt)
  ultimately show ?thesis
    using sample_leading_zeros sample_fee
    by (simp add: check_committed_def check_pow_and_fee_def check_pow_zeros_def calculate_required_fee_def
        fee_without_discount config)
qed

section \<open>The reference instance of the network parameters\<close>

text \<open>
  Eight components, the last two of which hold an embedded IPv4 address, two flags that do not
  overlap, and a conversion that accepts four IPv4 addresses and prints the loopback address in the
  form that it accepts as well.
\<close>

definition sample_addresses :: "(string \<times> u16 list) list" where
  "sample_addresses =
     [(''127.0.0.1'', [0x7f00, 1]), (''161.35.102.211'', [0xa123, 0x66d3]), (''128.199.32.206'', [0x80c7, 0x20ce]),
      (''139.59.120.178'', [0x8b3b, 0x78b2])]"

definition loopback :: "u16 list" where
  "loopback = [0, 0, 0, 0, 0, 0xffff, 0x7f00, 1]"

definition sample_parse :: "string \<Rightarrow> ipv6_address_full_t option" where
  "sample_parse s =
     (if s = ''[::ffff:127.0.0.1]'' then Some \<lparr>components = loopback, ip_port = 0, ip_flags = 2\<rparr>
      else map_option (\<lambda>cs. \<lparr>components = cs @ replicate 6 0, ip_port = 0, ip_flags = 4\<rparr>) (map_of sample_addresses s))"

definition sample_print :: "ipv6_address_full_t \<Rightarrow> string option" where
  "sample_print a = (if components a = loopback then Some ''::ffff:127.0.0.1'' else None)"

lemma sample_parse_width: "sample_parse s = Some a \<Longrightarrow> length (components a) = 8"
proof -
  have "(s, cs) \<in> set sample_addresses \<Longrightarrow> length cs = 2" for cs by (auto simp: sample_addresses_def)
  then show "sample_parse s = Some a \<Longrightarrow> ?thesis" by (auto simp: sample_parse_def loopback_def dest!: map_of_SomeD split: if_splits)
qed

definition reference_network :: network where
  "reference_network = crypto.extend (crypto.truncate reference)
     (network.fields 8 2 6 4 2
        sample_parse sample_print)"

lemma reference_network_laws: "network_laws reference_network"
proof -
  have "r_varint reference (w_varint16 reference x @ rest) = Some (ucast x, rest)" for x rest
    using ref_varint_back(5) by (simp add: reference_def)
  moreover have "key_empty reference (hash_default reference)" by (simp add: reference_def)
  ultimately show ?thesis
    using reference_crypto_laws sample_parse_width
    by (simp add: network_laws_def crypto_laws_def codec_laws_def reference_network_def crypto.defs
        network.defs)
qed

definition sample_ip :: ip_address_t where
  "sample_ip = \<lparr>components = [0x2001, 0xdb8, 0, 0, 0, 0, 0, 1], ip_port = 0, ip_flags = 0\<rparr>"

definition sample_peer :: network_peer_t where
  "sample_peer = network_peer 1633492800 sample_ip 41 12897 43"

definition sample_handshake :: packet_handshake_t where
  "sample_handshake = (packet_handshake 41 12897 43)\<lparr>packet_peers := [sample_peer, sample_peer]\<rparr>"

lemma sample_handshake_wf: "wf_peers_packet reference_network sample_handshake"
  by (simp add: wf_peers_packet_def fits_u64_def wf_peer_def wf_ip_def sample_handshake_def packet_handshake_def
      sample_peer_def network_peer_def sample_ip_def reference_network_def crypto.defs network.defs)

section \<open>An uncommitted transaction that is validated\<close>

lemma sample_uncommitted_size: "uncommitted_normal_size sample_crypto sample_ringless \<le> 512"
  by (simp add: uncommitted_normal_size_def uncommitted_normal_serialize_def user_serialize_def
      serialize_prefix_def serialize_header_def serialize_body_def serialize_outputs_def
      TransactionOutput_serialize_def serialize_normal_data_def serialize_uncommitted_suffix_def
      sample_crypto_def reference_def ref_w_key_def leb.simps sample_defs)

lemma small_fee:
  assumes "s \<le> 512"
  obtains f where "calculate_transaction_fee s (Suc 0) = Some f" "f \<le> 25"
proof -
  have z: "Suc 0 \<le> 256" by simp
  obtain d where d: "calculate_transaction_discount (Suc 0) = Some d" "0 \<le> d"
      "d \<le> 3 / 10 * (1 + 1 / 2 ^ 24)" by (rule discount_bounds [OF z])
  let ?b = "unat (calculate_base_transaction_fee s)"
  obtain f where f: "calculate_transaction_fee s (Suc 0) = Some f"
      "int (unat f) = max (int ?b - fee_discount ?b d) (int (unat MINIMUM_FEE))"
    by (rule fee_eq [OF z d(1)])
  have "?b \<le> unat (calculate_base_transaction_fee 512)"
    using base_fee_mono [OF assms] by (simp add: word_le_nat_alt)
  also have "\<dots> = 7"
    using base_chunks_exact [of 192] by (simp add: base_fee_unat)
  finally have b: "?b \<le> 7" .
  have "unat MINIMUM_FEE = 1" by (simp add: config)
  then have "unat f \<le> 7" using b f(2) fee_discount_bounds(1) [OF d(2,3), of ?b] by linarith
  then show thesis using that f(1) by (simp add: word_le_nat_alt)
qed

lemma sample_check_uncommitted:
  "check_uncommitted sample_crypto (UncommittedNormal sample_ringless) = Returned SUCCESS"
proof -
  have "uncommitted_normal_check_construction sample_crypto sample_ringless = SUCCESS"
    by (simp add: uncommitted_normal_check_construction_def check_success sample_crypto_laws good_body_def
        good_proofs_def)
      (simp add: sample_defs sample_crypto_def reference_def)
  moreover obtain f where
    "calculate_transaction_fee (word_of_nat (uncommitted_normal_size sample_crypto sample_ringless)) (Suc 0) = Some f"
    "f \<le> 25"
    by (rule small_fee [of "word_of_nat (uncommitted_normal_size sample_crypto sample_ringless)"])
      (use sample_uncommitted_size in \<open>simp_all add: word_le_nat_alt unat_of_nat\<close>)
  moreover have "fee (tx_body sample_ringless) = 25" by (simp add: sample_defs)
  ultimately show ?thesis
    by (simp add: check_uncommitted_def check_pow_and_fee_def check_pow_zeros_def calculate_required_fee_def
        sample_leading_zeros config not_less)
qed

lemma sample_env_has:
  "tsm_at (m_databases sample_env) (db_id (sample_database 8)) = Some (sample_database 8)"
  "tsm_at (m_databases sample_big_env) (db_id (sample_database 8)) = Some (sample_database 8)"
  by (simp_all add: sample_env_def sample_big_env_def reference_env_def sample_databases_def sample_database_def
      tsm_at_def upt_conv_Cons)

lemma sample_transaction:
  assumes "m_databases E = sample_databases" "m_env E = Some e"
  shows "db_transaction reference_lmdb (sample_database 8) ro E =
    (Returned \<lparr>txn_readonly = ro, txn_db = 8, txn_handle = e\<rparr>, transaction_register ro E)"
  using assms
  by (simp add: db_transaction_def sample_database_def get_database_def sample_databases_def upt_conv_Cons
      tsm_at_def tsm_contains_def txn_setup_def txn_setup_loop.simps reference_lmdb_ops transaction_register_def)

lemma sample_put_in:
  assumes "m_databases E = sample_databases" "m_env E = Some (c, 67108864)"
  shows "\<exists>E'. db_put reference_lmdb (sample_database 8) k v 0 E = Some (E', Returned SUCCESS)"
proof -
  have "\<exists>E'. db_run reference_lmdb (sample_database 8) [txn_put reference_lmdb k v 0] E =
      (E', Some (Returned SUCCESS))"
    using assms
    by (simp add: db_run_def sample_transaction [OF assms] txn_put_def map_full_def txn_commit_def
        transaction_register_def reference_lmdb_ops ref_write_def)
  then show ?thesis by (auto simp: db_put_def try_again.simps)
qed

lemma sample_big_env_env:
  "m_databases sample_big_env = sample_databases" "m_env sample_big_env = Some (\<lambda>_ _. None, 67108864)"
  by (simp_all add: sample_big_env_def reference_env_def)

lemmas sample_put = sample_put_in [OF sample_big_env_env]

lemma sample_expand: "\<exists>E'. lmdb_expand reference_lmdb sample_env = (SUCCESS, E')"
  by (simp add: lmdb_expand_def memory_to_pages_def lmdb_stats_def lmdb_info_def expand_pages_def
      open_transactions_def sample_env_def reference_env_def reference_lmdb_ops Let_def)

lemma sample_candidates:
  "candidates reference_lmdb fst fst sample_engine sample_big_env (\<lambda>_. None)"
  using sample_big_env_facts(1,2) sample_env_has(2) by (auto simp: candidates_def sample_engine_def)

lemma sample_add_stake:
  "\<exists>E'. add_stake reference reference_lmdb sample_engine sample_committed_stake sample_big_env =
     Some (E', Returned SUCCESS)"
proof -
  have D: "m_db_candidates sample_engine = sample_database 8" by (simp add: sample_engine_def)
  define E1 where "E1 = txn_abort reference_lmdb
    (Some \<lparr>txn_readonly = True, txn_db = 8, txn_handle = (\<lambda>_ _. None, 67108864)\<rparr>)
    (transaction_register True sample_big_env)"
  have x: "db_exists reference_lmdb (sample_database 8) k sample_big_env = (Returned False, E1)" for k
    by (simp add: db_exists_def db_read_def sample_transaction [OF sample_big_env_env] E1_def txn_exists_def
        reference_lmdb_ops)
  have E1: "m_databases E1 = sample_databases" "m_env E1 = Some (\<lambda>_ _. None, 67108864)"
    by (simp_all add: E1_def txn_abort_def transaction_register_def transaction_unregister_def
        sample_big_env_env reference_lmdb_ops)
  have "tx_version sample_committed_stake = 1"
    "stake_amount (tx_data sample_committed_stake) = REQUIRED_CANDIDACY_AMOUNT"
    by (simp_all add: sample_defs config)
  then show ?thesis using sample_put_in [OF E1] x by (simp add: add_stake_def Let_def D)
qed

lemma sample_key_images_free:
  "\<exists>E'. key_images_exist C reference_lmdb sample_storage kis sample_big_env = (Returned False, E')"
  by (simp add: key_images_exist_def db_read_def db_transaction_def sample_storage_def sample_database_def
      get_database_def sample_big_env_def reference_env_def sample_databases_def upt_conv_Cons tsm_at_def
      tsm_contains_def txn_setup_def txn_setup_loop.simps foldl_found)
    (simp add: reference_lmdb_def txn_exists_def foldl_found)

lemma sample_validated:
  "\<exists>E'. validate_uncommitted sample_crypto reference_lmdb sample_storage 5 (UncommittedNormal sample_ringless)
     sample_big_env = (Returned SUCCESS, E')"
proof -
  obtain E' where "key_images_exist sample_crypto reference_lmdb sample_storage
      (key_images (tx_body sample_ringless)) sample_big_env = (Returned False, E')"
    using sample_key_images_free by blast
  moreover have "ring_participants (tx_suffix sample_ringless) = []" by (simp add: sample_ringless_def)
  ultimately show ?thesis
    using sample_check_uncommitted
    by (simp add: validate_uncommitted_def Let_def get_transaction_outputs_def ring_locked_def list_ex_iff)
      (simp add: sample_crypto_def reference_def)
qed

section \<open>A signed block\<close>

lemma word_of_small_nat: "0 < n \<Longrightarrow> n < 2 ^ 512 \<Longrightarrow> (word_of_nat n :: 512 word) \<noteq> 0"
  by (simp add: word_of_nat_eq_0_iff) (use dvd_imp_le in force)

lemma sample_signature_not_empty:
  assumes "producer_sign reference e secret b = Some (b', pk, sg)" shows "\<not> sig_empty reference sg"
proof -
  have lt: "unat d + unat k + 1 < 2 ^ 512" for d k :: "256 word"
    using unsigned_less [where 'a = nat, of d] unsigned_less [where 'a = nat, of k] by simp
  have "\<exists>d. sg = word_of_nat (unat (d :: 256 word) + unat secret + 1)"
    using assms by (auto simp: producer_sign_def producer_digest Let_def reference_def)
  then show ?thesis using word_of_small_nat [OF _ lt] by (force simp: reference_def)
qed

lemma sample_valid_block: "\<exists>b. validate_construction reference b = Some True"
proof -
  obtain b1 sg where p: "producer_sign reference 0 51 sample_block = Some (b1, 51, sg)"
    using producer_sign_returns [of reference 0 51 sample_block] by (auto simp: reference_def)
  note P = producer_sign_valid [OF reference_crypto_laws p]
  have "signed reference b1"
    using P sample_signature_not_empty [OF p]
    by (simp add: signed_def has_producer_def sorted_map_def sample_block_def) (simp add: reference_def)
  then obtain b2 where "signed reference b2" "producer_public_key b2 = 51" "reward_tx b2 = RewardGenesis sample_genesis"
      "fst ` set (validator_signatures b2) = {61}"
    using validators_sign_signed [OF reference_crypto_laws, of b1 "[(0, 61)]"] P
    by (auto simp: sample_block_def reference_def)
  then show ?thesis
    by (intro exI [of _ b2])
      (auto simp: validate_construction_iff signed_def reward_has_outputs_def sample_genesis_def)
qed

section \<open>A transaction that is misread\<close>

text \<open>
  The bytes of the sample transaction, read as a block hash followed by a transaction: the first
  32 bytes are taken for the hash, and the byte behind them, zero, for the type of a genesis
  transaction.
\<close>

lemma le_bytes_zero: "le_bytes k 0 = replicate k 0"
  by (induction k) simp_all

lemma le_bytes_small: "0 < k \<Longrightarrow> n < 256 \<Longrightarrow> le_bytes k n = word_of_nat n # replicate (k - 1) 0"
  by (cases k) (simp_all add: le_bytes_zero)

lemma reference_reads:
  "length bs = 32 \<Longrightarrow> r_key reference (bs @ rest) = Some (word_of_nat (un_le bs), rest)"
  "unat b < 128 \<Longrightarrow> r_varint reference (b # rest) = Some (word_of_nat (unat b), rest)"
  by (simp_all add: reference_def ref_r_key_def read_le_def read_leb_def)

lemma sample_transaction_bytes:
  "\<exists>bs. transaction_serialize reference (Normal sample_committed_normal) =
     ([2, 1, 3, 5] @ replicate 28 0) @ [0, 0, 0] @ ([0, 25, 2, 13] @ replicate 28 0) @ ([0, 0, 0, 14] @ replicate 28 0) @ 0 # bs"
proof -
  have "serialize_prefix reference (tx_prefix sample_committed_normal) = [2, 1, 3, 5] @ replicate 31 0"
    by (simp add: serialize_prefix_def serialize_header_def reference_def sample_defs leb.simps ref_w_key_def
        le_bytes_small)
  moreover have "\<exists>bs. serialize_body reference (tx_body sample_committed_normal) =
      [0, 25, 2, 13] @ replicate 31 0 @ [14] @ replicate 31 0 @ bs"
    by (simp add: serialize_body_def reference_def sample_defs leb.simps ref_w_key_def le_bytes_small)
  moreover have "replicate 31 (0 :: byte) = replicate 28 0 @ [0, 0, 0]" by (simp add: eval_nat_numeral)
  ultimately show ?thesis by (auto simp: committed_normal_serialize_def user_serialize_def)
qed

lemma sample_misread:
  "\<exists>tx h. read_transaction reference (transaction_serialize reference (Normal sample_committed_normal) @ rest) =
     Returned (SUCCESS, Some (Genesis tx, h))"
proof -
  obtain bs where bs: "transaction_serialize reference (Normal sample_committed_normal) @ rest =
     ([2, 1, 3, 5] @ replicate 28 0) @ [0, 0, 0] @ ([0, 25, 2, 13] @ replicate 28 0) @ ([0, 0, 0, 14] @ replicate 28 0) @ 0 # bs"
    using sample_transaction_bytes by auto
  have k: "length ([2, 1, 3, 5] @ replicate 28 (0 :: byte)) = 32" "length ([0, 25, 2, 13] @ replicate 28 (0 :: byte)) = 32"
    "length ([0, 0, 0, 14] @ replicate 28 (0 :: byte)) = 32" by simp_all
  note keys = k [THEN reference_reads(1)]
  show ?thesis
    unfolding bs read_transaction_def keys(1)
    by (simp add: transaction_deserialize_def genesis_deserialize_def deserialize_prefix_def deserialize_header_def
        deserialize_outputs_def reference_reads(2) keys(2,3) [simplified])
qed

lemma sample_lookup_returns:
  assumes "stored fst E c" "storage_open sample_storage E"
    "c (m_dbi (m_transactions sample_storage)) (key_serialize reference h) = Some bs"
  shows "fst (get_transaction reference reference_lmdb sample_storage h E) = read_transaction reference bs"
proof -
  have "tsm_at (m_databases E) (db_id (m_transactions sample_storage)) = Some (m_transactions sample_storage)"
    "m_dbi (m_transactions sample_storage) \<noteq> 0"
    using assms(2) by (auto simp: storage_open_def storage_dbs_def sample_storage_def sample_database_def)
  moreover obtain e where "m_env E = Some e" "fst e = c" using assms(1) by (auto simp: stored_def)
  moreover from calculation(1) have "tsm_contains (m_databases E) (db_id (m_transactions sample_storage))"
    by (auto simp: tsm_at_def tsm_contains_def filter_empty_conv dest: map_of_SomeD)
  ultimately have "fst (db_get reference_lmdb (m_transactions sample_storage) (key_serialize reference h) E) = Returned (SUCCESS, bs)"
    using assms(3)
    by (simp add: db_get_def db_read_def db_transaction_def txn_setup_def txn_setup_loop.simps get_database_def
        reference_lmdb_ops txn_get_def split: option.splits)
  then show ?thesis
    by (cases "db_get reference_lmdb (m_transactions sample_storage) (key_serialize reference h) E")
      (auto simp: get_transaction_def read_transaction_def split: option.splits)
qed

lemma sample_transaction_length:
  "32 \<le> length (transaction_serialize reference (Normal sample_committed_normal))"
  using sample_transaction_bytes by auto

end
