(* ===== verification/Programs.thy ===== *)
theory Programs
  imports Lmdb
begin

text \<open>
  Programs that work on a state, may throw and may fail to end: functions from the state to an
  optional pair of the new state and the outcome, with the rules for what holds when they end.
\<close>

section \<open>Programs over a state\<close>

type_synonym ('s, 'a) io = "'s \<Rightarrow> ('s \<times> 'a outcome) option"

definition io_return :: "'a \<Rightarrow> ('s, 'a) io" where
  "io_return x s = Some (s, Returned x)"

definition io_bind :: "('s, 'a) io \<Rightarrow> ('a \<Rightarrow> ('s, 'b) io) \<Rightarrow> ('s, 'b) io" where
  "io_bind m f s =
     (case m s of
        None \<Rightarrow> None
      | Some (s, Thrown) \<Rightarrow> Some (s, Thrown)
      | Some (s, Returned x) \<Rightarrow> f x s)"

text \<open>A call that always ends, and a loop over a list.\<close>

definition io_call :: "('s \<Rightarrow> 'a outcome \<times> 's) \<Rightarrow> ('s, 'a) io" where
  "io_call f s = (let (r, s) = f s in Some (s, r))"

fun io_each :: "('a \<Rightarrow> ('s, unit) io) \<Rightarrow> 'a list \<Rightarrow> ('s, unit) io" where
  "io_each f [] = io_return ()"
| "io_each f (x # xs) = io_bind (f x) (\<lambda>_. io_each f xs)"

text \<open>An exception, a look at the state, and a change of it.\<close>

definition io_throw :: "('s, 'a) io" where
  "io_throw s = Some (s, Thrown)"

definition io_gets :: "('s \<Rightarrow> 'a) \<Rightarrow> ('s, 'a) io" where
  "io_gets f s = Some (s, Returned (f s))"

definition io_modify :: "('s \<Rightarrow> 's) \<Rightarrow> ('s, unit) io" where
  "io_modify f s = Some (f s, Returned ())"

text \<open>
  \<open>io_post P m Q\<close>: when \<open>m\<close> ends from a state with \<open>P\<close>, its outcome and its state satisfy \<open>Q\<close>;
  \<open>io_ends P m\<close>: from such a state \<open>m\<close> ends.
\<close>

definition io_post :: "('s \<Rightarrow> bool) \<Rightarrow> ('s, 'a) io \<Rightarrow> ('a outcome \<Rightarrow> 's \<Rightarrow> bool) \<Rightarrow> bool" where
  "io_post P m Q \<longleftrightarrow> (\<forall>s s' r. P s \<longrightarrow> m s = Some (s', r) \<longrightarrow> Q r s')"

definition io_ends :: "('s \<Rightarrow> bool) \<Rightarrow> ('s, 'a) io \<Rightarrow> bool" where
  "io_ends P m \<longleftrightarrow> (\<forall>s. P s \<longrightarrow> m s \<noteq> None)"

lemma io_postI: "(\<And>s s' r. P s \<Longrightarrow> m s = Some (s', r) \<Longrightarrow> Q r s') \<Longrightarrow> io_post P m Q"
  by (simp add: io_post_def)

lemma io_postD: "io_post P m Q \<Longrightarrow> P s \<Longrightarrow> m s = Some (s', r) \<Longrightarrow> Q r s'"
  by (simp add: io_post_def)

lemma io_post_return: "(\<And>s. P s \<Longrightarrow> Q (Returned x) s) \<Longrightarrow> io_post P (io_return x) Q"
  by (simp add: io_post_def io_return_def)

lemma io_post_bind:
  assumes "io_post P m R" "\<And>s. R Thrown s \<Longrightarrow> Q Thrown s" "\<And>x. io_post (R (Returned x)) (f x) Q"
  shows "io_post P (io_bind m f) Q"
  using assms unfolding io_post_def io_bind_def
  by (fastforce split: option.splits prod.splits outcome.splits)

lemma io_post_weaken:
  "io_post P m Q \<Longrightarrow> (\<And>s. P' s \<Longrightarrow> P s) \<Longrightarrow> (\<And>r s. Q r s \<Longrightarrow> Q' r s) \<Longrightarrow> io_post P' m Q'"
  unfolding io_post_def by blast

lemma io_post_each:
  assumes "\<And>x. x \<in> set xs \<Longrightarrow> io_post I (f x) (\<lambda>_. I)"
  shows "io_post I (io_each f xs) (\<lambda>_. I)"
  using assms
proof (induction xs)
  case Nil
  then show ?case by (simp add: io_post_return)
next
  case (Cons x xs)
  then have "io_post I (f x) (\<lambda>_. I)" "io_post I (io_each f xs) (\<lambda>_. I)" by simp_all
  then show ?case by (auto intro: io_post_bind)
qed

lemma io_ends_bind:
  assumes "io_ends P m" "io_post P m (\<lambda>r s. case r of Thrown \<Rightarrow> True | Returned x \<Rightarrow> R x s)"
    "\<And>x. io_ends (R x) (f x)"
  shows "io_ends P (io_bind m f)"
  using assms unfolding io_ends_def io_post_def io_bind_def
  by (fastforce split: option.splits prod.splits outcome.splits)

section \<open>Programs that keep a relation\<close>

text \<open>\<open>io_rel R m\<close>: when \<open>m\<close> ends, with a value or an exception, its two states are related by \<open>R\<close>.\<close>

definition io_rel :: "('s \<Rightarrow> 's \<Rightarrow> bool) \<Rightarrow> ('s, 'a) io \<Rightarrow> bool" where
  "io_rel R m \<longleftrightarrow> (\<forall>s s' r. m s = Some (s', r) \<longrightarrow> R s s')"

lemma io_relI: "(\<And>s s' r. m s = Some (s', r) \<Longrightarrow> R s s') \<Longrightarrow> io_rel R m"
  by (simp add: io_rel_def)

lemma io_relD: "io_rel R m \<Longrightarrow> m s = Some (s', r) \<Longrightarrow> R s s'"
  by (simp add: io_rel_def)

lemma io_rel_basic:
  assumes "reflp R" shows "io_rel R (io_return x)" "io_rel R io_throw" "io_rel R (io_gets f)"
  using assms by (simp_all add: io_rel_def io_return_def io_throw_def io_gets_def reflpD)

lemma io_rel_modify: "(\<And>s. R s (f s)) \<Longrightarrow> io_rel R (io_modify f)"
  by (simp add: io_rel_def io_modify_def)

lemma io_rel_bind:
  assumes "transp R" "io_rel R m" "\<And>x. io_rel R (f x)" shows "io_rel R (io_bind m f)"
proof (rule io_relI)
  fix s s' r assume run: "io_bind m f s = Some (s', r)"
  then obtain s1 r1 where m: "m s = Some (s1, r1)" by (auto simp: io_bind_def split: option.splits)
  note R1 = io_relD [OF assms(2) m]
  show "R s s'"
  proof (cases r1)
    case (Returned x)
    then have "f x s1 = Some (s', r)" using run m by (simp add: io_bind_def)
    then show ?thesis using transpD [OF assms(1) R1] io_relD [OF assms(3)] by blast
  next
    case Thrown
    then show ?thesis using run m R1 by (simp add: io_bind_def)
  qed
qed

lemma io_rel_each:
  assumes "reflp R" "transp R" "\<And>x. x \<in> set xs \<Longrightarrow> io_rel R (f x)" shows "io_rel R (io_each f xs)"
  using assms(3) by (induction xs) (simp_all add: io_rel_basic assms(1) io_rel_bind assms(2))

lemma io_rel_mono: "io_rel R m \<Longrightarrow> (\<And>s s'. R s s' \<Longrightarrow> R' s s') \<Longrightarrow> io_rel R' m"
  by (auto simp: io_rel_def)

lemma io_rel_gets: "(\<And>s. io_rel R (f (g s))) \<Longrightarrow> io_rel R (io_bind (io_gets g) f)"
  by (auto simp: io_rel_def io_bind_def io_gets_def)

text \<open>A handler that returns at once unless its guards let it through.\<close>

lemma io_rel_guarded:
  assumes "reflp R" "io_rel R m" "\<And>s. h s = io_return () s \<or> h s = m s" shows "io_rel R h"
proof (rule io_relI)
  fix s s' r assume "h s = Some (s', r)"
  then show "R s s'"
    using assms(3) [of s] io_relD [OF assms(2)] io_relD [OF io_rel_basic(1) [OF assms(1)]] by metis
qed

end
