(* ===== verification/Lmdb_Cursor.thy ===== *)
theory Lmdb_Cursor
  imports Lmdb_Store Programs "HOL-Library.List_Lexorder"
begin

text \<open>
  Cursors (\<open>LMDBCursor\<close>) and the operations of \<open>LMDBDatabase\<close> that walk over all keys: \<open>count\<close>,
  \<open>list_keys\<close> and \<open>get_all\<close>. The library's cursor calls extend the parameter record; \<open>'c\<close> is the
  state of a cursor. The operations are programs over the environment.
\<close>

section \<open>The cursor calls of the library\<close>

datatype MDB_cursor_op = MDB_FIRST | MDB_NEXT | MDB_SET | MDB_SET_RANGE | MDB_NEXT_DUP

record ('e, 't, 'c) lmdb_cursors = "('e, 't) lmdb" +
  mdb_cursor_open :: "'t \<Rightarrow> nat \<Rightarrow> int \<times> 'c"
  mdb_cursor_get :: "'c \<Rightarrow> MDB_cursor_op \<Rightarrow> bytes \<Rightarrow> int \<times> bytes \<times> bytes \<times> 'c"

text \<open>
  Where an operation moves a cursor over the entries \<open>m\<close> that stands at \<open>p\<close>: to the least key
  that qualifies, in the order of the bytes. In a database without sorted duplicates there is no
  next duplicate.
\<close>

definition least_key :: "bytes set \<Rightarrow> bytes option" where
  "least_key S = (if S = {} then None else Some (Min S))"

fun cursor_move :: "(bytes \<Rightarrow> bytes option) \<Rightarrow> bytes option \<Rightarrow> MDB_cursor_op \<Rightarrow> bytes \<Rightarrow> bytes option" where
  "cursor_move m p MDB_FIRST k = least_key (dom m)"
| "cursor_move m p MDB_NEXT k = least_key {q \<in> dom m. \<forall>x. p = Some x \<longrightarrow> x < q}"
| "cursor_move m p MDB_SET k = (if m k = None then None else Some k)"
| "cursor_move m p MDB_SET_RANGE k = least_key {q \<in> dom m. k \<le> q}"
| "cursor_move m p MDB_NEXT_DUP k = None"

text \<open>
  What the library documents of them: a cursor that is opened sees the entries of its database in
  its transaction, the calls move it as above and report that nothing was found where there is no
  such key, and keep it on its entries; the entries are finitely many and no key is empty.
\<close>

definition cursor_laws ::
  "('e, 't, 'c, 'z) lmdb_cursors_scheme \<Rightarrow> ('t \<Rightarrow> contents) \<Rightarrow>
     ('c \<Rightarrow> (bytes \<Rightarrow> bytes option) \<times> bytes option) \<Rightarrow> bool" where
  "cursor_laws L tv cv \<longleftrightarrow>
     (\<forall>t d. finite (dom (tv t d)) \<and> tv t d [] = None) \<and>
     (\<forall>t d c. mdb_cursor_open L t d = (0, c) \<longrightarrow> cv c = (tv t d, None)) \<and>
     (\<forall>c opn k rc k' v c'. mdb_cursor_get L c opn k = (rc, k', v, c') \<longrightarrow>
        (case cursor_move (fst (cv c)) (snd (cv c)) opn k of
           None \<Rightarrow> rc = - 30798 \<and> fst (cv c') = fst (cv c)
         | Some q \<Rightarrow> rc = 0 \<and> k' = q \<and> fst (cv c) q = Some v \<and> cv c' = (fst (cv c), Some q)))"

lemma cursor_lawsD:
  assumes "cursor_laws L tv cv"
  shows "finite (dom (tv t d))" "tv t d [] = None"
    and "mdb_cursor_open L t d = (0, c) \<Longrightarrow> cv c = (tv t d, None)"
    and "mdb_cursor_get L c opn k = (rc, k', v, c') \<Longrightarrow>
      cursor_move (fst (cv c)) (snd (cv c)) opn k = None \<Longrightarrow> rc = - 30798"
    and "mdb_cursor_get L c opn k = (rc, k', v, c') \<Longrightarrow>
      cursor_move (fst (cv c)) (snd (cv c)) opn k = Some q \<Longrightarrow>
      rc = 0 \<and> k' = q \<and> fst (cv c) q = Some v \<and> cv c' = (fst (cv c), Some q)"
    and "mdb_cursor_get L c opn k = (rc, k', v, c') \<Longrightarrow> fst (cv c') = fst (cv c)"
proof -
  note C = assms [unfolded cursor_laws_def]
  show "finite (dom (tv t d))" "tv t d [] = None" using C by blast+
  show "mdb_cursor_open L t d = (0, c) \<Longrightarrow> cv c = (tv t d, None)" using C by blast
  note G = C [THEN conjunct2, THEN conjunct2, rule_format, of c opn k rc k' v c']
  show "mdb_cursor_get L c opn k = (rc, k', v, c') \<Longrightarrow>
      cursor_move (fst (cv c)) (snd (cv c)) opn k = None \<Longrightarrow> rc = - 30798" using G by simp
  show "mdb_cursor_get L c opn k = (rc, k', v, c') \<Longrightarrow>
      cursor_move (fst (cv c)) (snd (cv c)) opn k = Some q \<Longrightarrow>
      rc = 0 \<and> k' = q \<and> fst (cv c) q = Some v \<and> cv c' = (fst (cv c), Some q)" using G by simp
  show "mdb_cursor_get L c opn k = (rc, k', v, c') \<Longrightarrow> fst (cv c') = fst (cv c)"
    using G by (cases "cursor_move (fst (cv c)) (snd (cv c)) opn k") auto
qed

section \<open>Cursors\<close>

text \<open>\<open>None\<close> is the exception of the constructor.\<close>

definition txn_cursor ::
  "('e, 't, 'c, 'z) lmdb_cursors_scheme \<Rightarrow> 't LMDBTransaction \<Rightarrow> 'c option" where
  "txn_cursor L T =
     (let (rc, c) = mdb_cursor_open L (txn_handle T) (txn_db T) in if rc = 0 then Some c else None)"

definition cursor_get ::
  "('e, 't, 'c, 'z) lmdb_cursors_scheme \<Rightarrow> bytes \<Rightarrow> MDB_cursor_op \<Rightarrow> 'c \<Rightarrow>
     (ErrorCode \<times> bytes \<times> bytes) \<times> 'c" where
  "cursor_get L key opn c =
     (let (rc, k, v, c) = mdb_cursor_get L c opn key in
      if rc = 0 then ((ErrorCode rc, k, v), c) else ((ErrorCode rc, [], []), c))"

text \<open>\<open>get_all\<close> collects the values of one key; the loop ends with the first error.\<close>

partial_function (option) cursor_values ::
  "('e, 't, 'c, 'z) lmdb_cursors_scheme \<Rightarrow> bytes \<Rightarrow> bool \<Rightarrow> 'c \<Rightarrow> bytes list \<Rightarrow> bytes list option" where
  "cursor_values L key success c results =
     (let ((err, k, v), c) = cursor_get L key (if \<not> success then MDB_SET else MDB_NEXT_DUP) c in
      if failed err then Some results else cursor_values L key True c (results @ [v]))"

declare cursor_values.simps [code]

definition cursor_get_all ::
  "('e, 't, 'c, 'z) lmdb_cursors_scheme \<Rightarrow> bytes \<Rightarrow> 'c \<Rightarrow> (ErrorCode \<times> bytes \<times> bytes list) option" where
  "cursor_get_all L key c =
     map_option (\<lambda>results. (if results \<noteq> [] then SUCCESS else LMDB_EMPTY, key, results))
       (cursor_values L key False c [])"

section \<open>Walking over a database\<close>

partial_function (option) count_loop ::
  "('e, 't, 'c, 'z) lmdb_cursors_scheme \<Rightarrow> 'c \<Rightarrow> u64 \<Rightarrow> u64 option" where
  "count_loop L c n =
     (let (rc, k, v, c) = mdb_cursor_get L c (if n \<noteq> 0 then MDB_NEXT else MDB_FIRST) [] in
      if rc = 0 then count_loop L c (n + 1) else Some n)"

declare count_loop.simps [code]

partial_function (option) keys_loop ::
  "('e, 't, 'c, 'z) lmdb_cursors_scheme \<Rightarrow> bool \<Rightarrow> 'c \<Rightarrow> u64 \<Rightarrow> bytes \<Rightarrow> bytes list \<Rightarrow> bytes list option"
where
  "keys_loop L ignore_duplicates c n last_key results =
     (let (rc, k, v, c) = mdb_cursor_get L c (if n \<noteq> 0 then MDB_NEXT else MDB_FIRST) [] in
      if rc = 0 then
        if ignore_duplicates \<and> k = last_key then keys_loop L ignore_duplicates c n last_key results
        else keys_loop L ignore_duplicates c (n + 1) k (results @ [k])
      else Some results)"

declare keys_loop.simps [code]

text \<open>A read-only transaction with a cursor, closed when the method returns.\<close>

definition db_scan ::
  "('e, 't, 'c, 'z) lmdb_cursors_scheme \<Rightarrow> LMDBDatabase \<Rightarrow> ('c \<Rightarrow> 'a option) \<Rightarrow> ('e LMDB, 'a) io" where
  "db_scan L D f E =
     (case db_read L D (\<lambda>T. case txn_cursor L T of
                               None \<Rightarrow> Some Thrown
                             | Some c \<Rightarrow> map_option Returned (f c)) E of
        (Thrown, E) \<Rightarrow> Some (E, Thrown)
      | (Returned None, E) \<Rightarrow> None
      | (Returned (Some r), E) \<Rightarrow> Some (E, r))"

definition db_count :: "('e, 't, 'c, 'z) lmdb_cursors_scheme \<Rightarrow> LMDBDatabase \<Rightarrow> ('e LMDB, u64) io" where
  "db_count L D = db_scan L D (\<lambda>c. count_loop L c 0)"

definition list_keys ::
  "('e, 't, 'c, 'z) lmdb_cursors_scheme \<Rightarrow> LMDBDatabase \<Rightarrow> bool \<Rightarrow> ('e LMDB, bytes list) io" where
  "list_keys L D ignore_duplicates = db_scan L D (\<lambda>c. keys_loop L ignore_duplicates c 0 [] [])"

text \<open>\<open>get_all\<close>: each key in a transaction of its own; a key that is gone by then is passed over.\<close>

fun get_values ::
  "(bytes \<Rightarrow> 's \<Rightarrow> (ErrorCode \<times> bytes) outcome \<times> 's) \<Rightarrow> bytes list \<Rightarrow> ('s, bytes list) io" where
  "get_values get [] = io_return []"
| "get_values get (k # ks) =
     io_bind (io_call (get k))
       (\<lambda>(err, v). io_bind (get_values get ks) (\<lambda>vs. io_return (if \<not> failed err then v # vs else vs)))"

definition db_get_all :: "('e, 't, 'c, 'z) lmdb_cursors_scheme \<Rightarrow> LMDBDatabase \<Rightarrow> ('e LMDB, bytes list) io" where
  "db_get_all L D = io_bind (list_keys L D True) (get_values (db_get L D))"

text \<open>The typed forms: a value or key that cannot be read throws.\<close>

fun read_each :: "'v reader \<Rightarrow> bytes list \<Rightarrow> 'v list outcome" where
  "read_each rd [] = Returned []"
| "read_each rd (bs # bss) =
     (case rd bs of
        None \<Rightarrow> Thrown
      | Some (v, _) \<Rightarrow> (case read_each rd bss of Thrown \<Rightarrow> Thrown | Returned vs \<Rightarrow> Returned (v # vs)))"

definition db_get_all_values ::
  "('e, 't, 'c, 'z) lmdb_cursors_scheme \<Rightarrow> 'v reader \<Rightarrow> LMDBDatabase \<Rightarrow> ('e LMDB, 'v list) io" where
  "db_get_all_values L rd D = io_bind (db_get_all L D) (\<lambda>all s. Some (s, read_each rd all))"

definition list_keys_values ::
  "('e, 't, 'c, 'z) lmdb_cursors_scheme \<Rightarrow> 'v reader \<Rightarrow> LMDBDatabase \<Rightarrow> bool \<Rightarrow> ('e LMDB, 'v list) io" where
  "list_keys_values L rd D ignore_duplicates =
     io_bind (list_keys L D ignore_duplicates) (\<lambda>all s. Some (s, read_each rd all))"

section \<open>What the walks return\<close>

text \<open>The keys beyond the position of a cursor, in order.\<close>

definition keys_after :: "(bytes \<Rightarrow> bytes option) \<Rightarrow> bytes option \<Rightarrow> bytes set" where
  "keys_after m p = {q \<in> dom m. \<forall>x. p = Some x \<longrightarrow> x < q}"

lemma keys_after_None [simp]: "keys_after m None = dom m"
  by (simp add: keys_after_def)

lemma keys_after_step:
  assumes "finite (dom m)" "keys_after m p \<noteq> {}"
  shows "keys_after m (Some (Min (keys_after m p))) = keys_after m p - {Min (keys_after m p)}"
proof -
  define q where "q = Min (keys_after m p)"
  have f: "finite (keys_after m p)" using assms(1) by (simp add: keys_after_def)
  have q: "q \<in> keys_after m p" unfolding q_def by (rule Min_in [OF f assms(2)])
  have le: "q \<le> x" if "x \<in> keys_after m p" for x unfolding q_def by (rule Min_le [OF f that])
  have "keys_after m (Some q) = keys_after m p - {q}"
  proof (rule set_eqI)
    fix x
    have "q < x" if "x \<in> keys_after m p" "x \<noteq> q" using le [OF that(1)] that(2) by simp
    moreover have "x \<in> keys_after m p" if "x \<in> dom m" "q < x"
      using q that by (fastforce simp: keys_after_def)
    ultimately show "x \<in> keys_after m (Some q) \<longleftrightarrow> x \<in> keys_after m p - {q}"
      by (auto simp: keys_after_def)
  qed
  then show ?thesis by (simp only: q_def)
qed

lemma cursor_step:
  assumes C: "cursor_laws L tv cv" and c: "cv c = (m, p)" "finite (dom m)" "p = None \<longleftrightarrow> b"
    and g: "mdb_cursor_get L c (if \<not> b then MDB_NEXT else MDB_FIRST) [] = (rc, k, v, c')"
  shows "keys_after m p = {} \<Longrightarrow> rc \<noteq> 0"
    and "keys_after m p \<noteq> {} \<Longrightarrow> rc = 0 \<and> k = Min (keys_after m p) \<and> cv c' = (m, Some k) \<and>
      keys_after m (Some k) = keys_after m p - {k} \<and> k \<in> dom m"
proof -
  have move: "cursor_move m p (if \<not> b then MDB_NEXT else MDB_FIRST) [] = least_key (keys_after m p)"
    using c(3) by (cases p) (auto simp: keys_after_def)
  show "rc \<noteq> 0" if "keys_after m p = {}"
    using cursor_lawsD(4) [OF C g] move that c(1) by (simp add: least_key_def)
  show "rc = 0 \<and> k = Min (keys_after m p) \<and> cv c' = (m, Some k) \<and>
      keys_after m (Some k) = keys_after m p - {k} \<and> k \<in> dom m" if ne: "keys_after m p \<noteq> {}"
  proof -
    have "finite (keys_after m p)" using c(2) by (simp add: keys_after_def)
    then have "Min (keys_after m p) \<in> keys_after m p" using ne by (rule Min_in)
    then have "Min (keys_after m p) \<in> dom m" by (simp add: keys_after_def)
    then show ?thesis
      using cursor_lawsD(5) [OF C g] move ne c(1) keys_after_step [OF c(2) ne] by (simp add: least_key_def)
  qed
qed

lemma sorted_keys_step:
  assumes "finite (S :: bytes set)" "S \<noteq> {}"
  shows "sorted_list_of_set S = Min S # sorted_list_of_set (S - {Min S})"
  using assms by (rule sorted_list_of_set_nonempty)

lemma keys_loop_lists:
  assumes C: "cursor_laws L tv cv" and "cv c = (m, p)" "finite (dom m)" "m [] = None"
    "p = None \<longleftrightarrow> n = 0" "last_key = (case p of None \<Rightarrow> [] | Some x \<Rightarrow> x)"
    "unat n + card (keys_after m p) < 2 ^ 64"
  shows "keys_loop L ign c n last_key acc = Some (acc @ sorted_list_of_set (keys_after m p))"
  using assms(2-)
proof (induction "card (keys_after m p)" arbitrary: c n p last_key acc)
  case 0
  have f: "finite (keys_after m p)" using "0.prems"(2) by (simp add: keys_after_def)
  obtain rc k v c' where g: "mdb_cursor_get L c (if n \<noteq> 0 then MDB_NEXT else MDB_FIRST) [] = (rc, k, v, c')"
    by (metis prod_cases4)
  have "keys_after m p = {}" using 0 f by simp
  then show ?case
    using cursor_step(1) [OF C "0.prems"(1,2,4) g] g by (simp add: keys_loop.simps)
next
  case (Suc x)
  have f: "finite (keys_after m p)" using Suc.prems(2) by (simp add: keys_after_def)
  have ne: "keys_after m p \<noteq> {}" using Suc.hyps(2) by auto
  obtain rc k v c' where g: "mdb_cursor_get L c (if n \<noteq> 0 then MDB_NEXT else MDB_FIRST) [] = (rc, k, v, c')"
    by (metis prod_cases4)
  note S = cursor_step(2) [OF C Suc.prems(1,2,4) g ne]
  have k: "k \<in> keys_after m p" using S Min_in [OF f ne] by simp
  have last: "k \<noteq> last_key"
    using k Suc.prems(3,5) by (cases p) (auto simp: keys_after_def)
  have rest: "keys_after m (Some k) = keys_after m p - {k}" using S by blast
  have card: "card (keys_after m (Some k)) = x"
    unfolding rest card_Diff_singleton [OF k] using Suc.hyps(2) by simp
  have n: "unat (n + 1) = unat n + 1" using Suc.prems(6) Suc.hyps(2) by (intro unat_succ_bound) simp
  have n0: "n + 1 \<noteq> 0" using n by auto
  have bound: "unat (n + 1) + card (keys_after m (Some k)) < 2 ^ 64"
    using n card Suc.prems(6) Suc.hyps(2) by simp
  have "keys_loop L ign c' (n + 1) k (acc @ [k]) =
      Some ((acc @ [k]) @ sorted_list_of_set (keys_after m (Some k)))"
    by (rule Suc.hyps(1) [OF card [symmetric] _ Suc.prems(2,3) _ _ bound]) (use S n0 in simp_all)
  moreover have "sorted_list_of_set (keys_after m p) = k # sorted_list_of_set (keys_after m (Some k))"
    unfolding rest unfolding S [THEN conjunct2, THEN conjunct1] by (rule sorted_keys_step [OF f ne])
  moreover have "rc = 0" using S by simp
  ultimately show ?case
    unfolding keys_loop.simps [of L ign c n last_key acc] g Let_def using last by simp
qed

lemma count_loop_counts:
  assumes C: "cursor_laws L tv cv" and "cv c = (m, p)" "finite (dom m)" "p = None \<longleftrightarrow> n = 0"
    "unat n + card (keys_after m p) < 2 ^ 64"
  shows "count_loop L c n = Some (n + word_of_nat (card (keys_after m p)))"
  using assms(2-)
proof (induction "card (keys_after m p)" arbitrary: c n p)
  case 0
  have f: "finite (keys_after m p)" using "0.prems"(2) by (simp add: keys_after_def)
  obtain rc k v c' where g: "mdb_cursor_get L c (if n \<noteq> 0 then MDB_NEXT else MDB_FIRST) [] = (rc, k, v, c')"
    by (metis prod_cases4)
  have "keys_after m p = {}" using 0 f by simp
  then show ?case
    using cursor_step(1) [OF C "0.prems"(1-3) g] g by (simp add: count_loop.simps)
next
  case (Suc x)
  have f: "finite (keys_after m p)" using Suc.prems(2) by (simp add: keys_after_def)
  have ne: "keys_after m p \<noteq> {}" using Suc.hyps(2) by auto
  obtain rc k v c' where g: "mdb_cursor_get L c (if n \<noteq> 0 then MDB_NEXT else MDB_FIRST) [] = (rc, k, v, c')"
    by (metis prod_cases4)
  note S = cursor_step(2) [OF C Suc.prems(1-3) g ne]
  have k: "k \<in> keys_after m p" using S Min_in [OF f ne] by simp
  have rest: "keys_after m (Some k) = keys_after m p - {k}" using S by blast
  have card: "card (keys_after m (Some k)) = x"
    unfolding rest card_Diff_singleton [OF k] using Suc.hyps(2) by simp
  have n: "unat (n + 1) = unat n + 1" using Suc.prems(4) Suc.hyps(2) by (intro unat_succ_bound) simp
  have n0: "n + 1 \<noteq> 0" using n by auto
  have bound: "unat (n + 1) + card (keys_after m (Some k)) < 2 ^ 64"
    using n card Suc.prems(4) Suc.hyps(2) by simp
  have "count_loop L c' (n + 1) = Some ((n + 1) + word_of_nat (card (keys_after m (Some k))))"
    by (rule Suc.hyps(1) [OF card [symmetric] _ Suc.prems(2) _ bound]) (use S n0 in simp_all)
  moreover have "rc = 0" using S by simp
  ultimately show ?case
    unfolding count_loop.simps [of L c n] g Let_def card Suc.hyps(2) [symmetric] by simp
qed

lemma cursor_values_of:
  assumes C: "cursor_laws L tv cv" and c: "cv c = (m, None)"
  shows "cursor_get_all L key c =
    Some (case m key of None \<Rightarrow> (LMDB_EMPTY, key, []) | Some v \<Rightarrow> (SUCCESS, key, [v]))"
proof -
  obtain rc k v c' where g: "mdb_cursor_get L c MDB_SET key = (rc, k, v, c')" by (metis prod_cases4)
  obtain rc2 k2 v2 c2 where g2: "mdb_cursor_get L c' MDB_NEXT_DUP key = (rc2, k2, v2, c2)" by (metis prod_cases4)
  have "rc2 \<noteq> 0" using cursor_lawsD(4) [OF C g2] by simp
  then have stop: "cursor_values L key True c' acc = Some acc" for acc
    by (simp add: cursor_values.simps cursor_get_def g2)
  show ?thesis
  proof (cases "m key")
    case None
    then have "rc \<noteq> 0" using cursor_lawsD(4) [OF C g] c by simp
    then show ?thesis using None by (simp add: cursor_get_all_def cursor_values.simps cursor_get_def g)
  next
    case (Some w)
    then have "rc = 0 \<and> v = w" using cursor_lawsD(5) [OF C g, of key] c by simp
    then show ?thesis
      using Some stop by (simp add: cursor_get_all_def cursor_values.simps [of L key False] cursor_get_def g)
  qed
qed

section \<open>The interface of a store whose keys can be listed\<close>

locale kv_listing = kv_store +
  fixes keys :: "'p \<Rightarrow> ('s, bytes list) io"
  assumes keys_law: "lawful p \<Longrightarrow> holds p s m \<Longrightarrow> card (dom m) < 2 ^ 64 \<Longrightarrow> keys p s = Some (s', found) \<Longrightarrow>
      holds p s' m \<and> (found = Thrown \<or> finite (dom m) \<and> found = Returned (sorted_list_of_set (dom m)))"
    and keys_end: "lawful p \<Longrightarrow> holds p s m \<Longrightarrow> card (dom m) < 2 ^ 64 \<Longrightarrow> keys p s \<noteq> None"
    and keys_keep: "lawful p \<Longrightarrow> holds p s m \<Longrightarrow> keys p s = Some (s', found) \<Longrightarrow> holds p s' m"
begin

text \<open>Fetching the values key by key gives those that are there, in the order of the keys.\<close>

lemma get_values_law:
  assumes "lawful p"
  shows "io_post (\<lambda>s. holds p s m) (get_values (get p) ks)
    (\<lambda>vs s. holds p s m \<and> (vs = Thrown \<or> vs = Returned (List.map_filter m ks)))"
proof (induction ks)
  case Nil
  then show ?case by (auto simp: io_return_def io_post_def map_filter_def)
next
  case (Cons k ks)
  show ?case
  proof (rule io_postI)
    fix s s' r assume s: "holds p s m" and run: "get_values (get p) (k # ks) s = Some (s', r)"
    obtain o1 s1 where g: "get p k s = (o1, s1)" by fastforce
    note G = get_law [OF assms s g]
    show "holds p s' m \<and> (r = Thrown \<or> r = Returned (List.map_filter m (k # ks)))"
    proof (cases "o1 = Thrown")
      case True
      then show ?thesis using run g G by (auto simp: io_bind_def io_call_def)
    next
      case False
      then have o1: "o1 = Returned (case m k of None \<Rightarrow> (LMDB_NOTFOUND, []) | Some v \<Rightarrow> (SUCCESS, v))"
        using G by blast
      obtain o2 where v: "get_values (get p) ks s1 = Some (s', o2)"
        using run g o1 by (auto simp: io_bind_def io_call_def io_return_def split: option.splits outcome.splits prod.splits)
      have "holds p s' m \<and> (o2 = Thrown \<or> o2 = Returned (List.map_filter m ks))"
        using io_postD [OF Cons.IH _ v] G by blast
      then show ?thesis
        using run g o1 v
        by (auto simp: io_bind_def io_call_def io_return_def map_filter_def split: option.splits outcome.splits)
    qed
  qed
qed

lemma get_all_law:
  assumes "lawful p" "card (dom m) < 2 ^ 64"
  shows "io_post (\<lambda>s. holds p s m) (io_bind (keys p) (get_values (get p)))
    (\<lambda>vs s. holds p s m \<and>
      (vs = Thrown \<or> finite (dom m) \<and> vs = Returned (map (the \<circ> m) (sorted_list_of_set (dom m)))))"
proof (rule io_post_bind)
  show "io_post (\<lambda>s. holds p s m) (keys p) (\<lambda>ks s. holds p s m \<and>
      (ks = Thrown \<or> finite (dom m) \<and> ks = Returned (sorted_list_of_set (dom m))))"
    using keys_law [OF assms(1) _ assms(2)] by (auto simp: io_post_def)
  have "List.map_filter m ks = map (the \<circ> m) ks" if "set ks \<subseteq> dom m" for ks
    using that by (induction ks) (auto simp: map_filter_def)
  then show "io_post (\<lambda>s. holds p s m \<and> (Returned ks = Thrown \<or>
        finite (dom m) \<and> Returned ks = Returned (sorted_list_of_set (dom m)))) (get_values (get p) ks)
      (\<lambda>vs s. holds p s m \<and>
        (vs = Thrown \<or> finite (dom m) \<and> vs = Returned (map (the \<circ> m) (sorted_list_of_set (dom m)))))" for ks
    using get_values_law [OF assms(1), of m ks] by (force simp: io_post_def)
qed simp

lemma get_all_keeps:
  assumes "lawful p"
  shows "io_post (\<lambda>s. holds p s m) (io_bind (keys p) (get_values (get p))) (\<lambda>_ s. holds p s m)"
proof (rule io_post_bind)
  show "io_post (\<lambda>s. holds p s m) (keys p) (\<lambda>_ s. holds p s m)"
    using keys_keep [OF assms] by (auto simp: io_post_def)
  show "io_post (\<lambda>s. holds p s m) (get_values (get p) ks) (\<lambda>_ s. holds p s m)" for ks
    using get_values_law [OF assms, of m ks] by (auto simp: io_post_def)
qed simp

end

section \<open>The interpretation\<close>

type_synonym ('e, 't, 'c, 'y) listing_param =
  "('e, 't, 'c, 'y) lmdb_cursors_scheme \<times> ('e \<Rightarrow> contents) \<times> ('t \<Rightarrow> contents) \<times>
   ('c \<Rightarrow> (bytes \<Rightarrow> bytes option) \<times> bytes option) \<times> LMDBDatabase"

fun listing_lawful :: "('e, 't, 'c, 'y) listing_param \<Rightarrow> bool" where
  "listing_lawful (L, ev, tv, cv, D) \<longleftrightarrow> lmdb_laws L ev tv \<and> cursor_laws L tv cv"

fun listing_holds where
  "listing_holds ((L, ev, tv, cv, D) :: ('e, 't, 'c, 'y) listing_param) E m = store_holds (L, ev, tv, D) E m"

fun listing_put where
  "listing_put ((L, ev, tv, cv, D) :: ('e, 't, 'c, 'y) listing_param) k v E = db_put L D k v 0 E"

fun listing_del where
  "listing_del ((L, ev, tv, cv, D) :: ('e, 't, 'c, 'y) listing_param) k E = db_del L D k E"

fun listing_exists where
  "listing_exists ((L, ev, tv, cv, D) :: ('e, 't, 'c, 'y) listing_param) k E = db_exists L D k E"

fun listing_get where
  "listing_get ((L, ev, tv, cv, D) :: ('e, 't, 'c, 'y) listing_param) k E = db_get L D k E"

fun listing_keys where
  "listing_keys ((L, ev, tv, cv, D) :: ('e, 't, 'c, 'y) listing_param) = list_keys L D True"

lemma db_scan_law:
  assumes L: "lmdb_laws L ev tv" and C: "cursor_laws L tv cv" and E: "store_holds (L, ev, tv, D) E m"
    and f: "\<And>c. cv c = (m, None) \<Longrightarrow> finite (dom m) \<Longrightarrow> m [] = None \<Longrightarrow> f c = Some x"
  shows "\<exists>E' r. db_scan L D f E = Some (E', r) \<and> store_holds (L, ev, tv, D) E' m \<and>
    (r = Thrown \<or> finite (dom m) \<and> r = Returned x)"
proof -
  let ?g = "\<lambda>T. case txn_cursor L T of None \<Rightarrow> Some Thrown | Some c \<Rightarrow> map_option Returned (f c)"
  obtain o1 E1 where d: "db_read L D ?g E = (o1, E1)" by fastforce
  obtain c where c: "stored ev E c" "c (m_dbi D) = m" using E by auto
  note R = db_read_stored [OF L c(1) d]
  have E1: "store_holds (L, ev, tv, D) E1 m" by (rule store_holds_frame [OF R(2) E R(1) c(2)])
  consider "o1 = Thrown" | T where "o1 = Returned (?g T)" "tv (txn_handle T) = c" "txn_db T = m_dbi D"
    using R(3) handle_open [of "m_databases E" D] E by auto
  then show ?thesis
  proof cases
    case 1
    then show ?thesis using d E1 by (simp add: db_scan_def)
  next
    case (2 T)
    have fin: "finite (dom m)" "m [] = None"
      using cursor_lawsD(1,2) [OF C, of "txn_handle T" "m_dbi D"] 2 c(2) by auto
    show ?thesis
    proof (cases "txn_cursor L T")
      case None
      then show ?thesis using d E1 2 by (simp add: db_scan_def)
    next
      case (Some cur)
      then have "cv cur = (m, None)"
        using cursor_lawsD(3) [OF C] 2 c(2) by (auto simp: txn_cursor_def split: prod.splits if_splits)
      then have "f cur = Some x" using f fin by blast
      then show ?thesis using Some d E1 2 fin by (simp add: db_scan_def)
    qed
  qed
qed

lemma db_scan_keeps:
  assumes "lmdb_laws L ev tv" "store_holds (L, ev, tv, D) E m" "db_scan L D f E = Some (E', r)"
  shows "store_holds (L, ev, tv, D) E' m"
proof -
  let ?g = "\<lambda>T. case txn_cursor L T of None \<Rightarrow> Some Thrown | Some c \<Rightarrow> map_option Returned (f c)"
  obtain o1 E1 where d: "db_read L D ?g E = (o1, E1)" by fastforce
  have "E' = E1" using assms(3) d by (auto simp: db_scan_def split: outcome.splits option.splits)
  then show ?thesis using store_read_law(1) [OF assms(1,2) d] by simp
qed

lemma list_keys_law:
  assumes "lmdb_laws L ev tv" "cursor_laws L tv cv" "store_holds (L, ev, tv, D) E m" "card (dom m) < 2 ^ 64"
  shows "\<exists>E' r. list_keys L D ign E = Some (E', r) \<and> store_holds (L, ev, tv, D) E' m \<and>
    (r = Thrown \<or> finite (dom m) \<and> r = Returned (sorted_list_of_set (dom m)))"
  unfolding list_keys_def
  by (rule db_scan_law [OF assms(1-3)])
    (use keys_loop_lists [OF assms(2), where p = None and n = 0 and last_key = "[]" and acc = "[]"] assms(4) in simp)

lemma db_count_law:
  assumes "lmdb_laws L ev tv" "cursor_laws L tv cv" "store_holds (L, ev, tv, D) E m" "card (dom m) < 2 ^ 64"
  shows "\<exists>E' r. db_count L D E = Some (E', r) \<and> store_holds (L, ev, tv, D) E' m \<and>
    (r = Thrown \<or> finite (dom m) \<and> r = Returned (word_of_nat (card (dom m))))"
  unfolding db_count_def
  by (rule db_scan_law [OF assms(1-3)])
    (use count_loop_counts [OF assms(2), where p = None and n = 0] assms(4) in simp)

interpretation lmdb_listing:
  kv_listing listing_lawful listing_holds listing_put listing_del listing_exists listing_get listing_keys
proof unfold_locales
  fix p :: "('e, 't, 'c, 'y) listing_param" and s :: "'e LMDB" and m k v s' r
  assume p: "listing_lawful p" "listing_holds p s m"
  obtain L ev tv cv D where P: "p = (L, ev, tv, cv, D)" by (metis prod_cases5)
  have q: "store_lawful (L, ev, tv, D)" "store_holds (L, ev, tv, D) s m" using p by (simp_all add: P)
  show "listing_put p k v s = Some (s', r) \<Longrightarrow>
      listing_holds p s' (if r = Returned SUCCESS then m(k \<mapsto> v) else m)"
    using lmdb_store.put_law [OF q, of k v] by (simp add: P)
  show "listing_del p k s = Some (s', r) \<Longrightarrow>
      listing_holds p s' (if r = Returned SUCCESS then m(k := None) else m) \<and>
      (r = Returned SUCCESS \<longrightarrow> m k \<noteq> None)"
    using lmdb_store.del_law [OF q, of k] by (simp add: P)
next
  fix p :: "('e, 't, 'c, 'y) listing_param" and s :: "'e LMDB" and m k s' r
  assume p: "listing_lawful p" "listing_holds p s m"
  obtain L ev tv cv D where P: "p = (L, ev, tv, cv, D)" by (metis prod_cases5)
  have q: "store_lawful (L, ev, tv, D)" "store_holds (L, ev, tv, D) s m" using p by (simp_all add: P)
  show "listing_exists p k s = (r, s') \<Longrightarrow>
      listing_holds p s' m \<and> (r = Thrown \<or> r = Returned (m k \<noteq> None))"
    using lmdb_store.exists_law [OF q, of k] by (simp add: P)
next
  fix p :: "('e, 't, 'c, 'y) listing_param" and s :: "'e LMDB" and m k s' r
  assume p: "listing_lawful p" "listing_holds p s m"
  obtain L ev tv cv D where P: "p = (L, ev, tv, cv, D)" by (metis prod_cases5)
  have q: "store_lawful (L, ev, tv, D)" "store_holds (L, ev, tv, D) s m" using p by (simp_all add: P)
  show "listing_get p k s = (r, s') \<Longrightarrow> listing_holds p s' m \<and>
      (r = Thrown \<or> r = Returned (case m k of None \<Rightarrow> (LMDB_NOTFOUND, []) | Some v \<Rightarrow> (SUCCESS, v)))"
    using lmdb_store.get_law [OF q, of k] by (simp add: P)
next
  fix p :: "('e, 't, 'c, 'y) listing_param" and s :: "'e LMDB" and m s' r
  assume p: "listing_lawful p" "listing_holds p s m" "card (dom m) < 2 ^ 64"
  obtain L ev tv cv D where P: "p = (L, ev, tv, cv, D)" by (metis prod_cases5)
  note K = list_keys_law [of L ev tv cv D s m True]
  show "listing_keys p s = Some (s', r) \<Longrightarrow> listing_holds p s' m \<and>
      (r = Thrown \<or> finite (dom m) \<and> r = Returned (sorted_list_of_set (dom m)))"
    using K p by (auto simp: P)
  show "listing_keys p s \<noteq> None" using K p by (auto simp: P)
next
  fix p :: "('e, 't, 'c, 'y) listing_param" and s :: "'e LMDB" and m s' r
  assume p: "listing_lawful p" "listing_holds p s m" "listing_keys p s = Some (s', r)"
  obtain L ev tv cv D where P: "p = (L, ev, tv, cv, D)" by (metis prod_cases5)
  show "listing_holds p s' m"
    using p db_scan_keeps [of L ev tv D s m "\<lambda>c. keys_loop L True c 0 [] []" s' r] by (simp add: P list_keys_def)
qed

end
