(* ===== verification/Lmdb_Open.thy ===== *)
theory Lmdb_Open
  imports Lmdb_Cursor
begin

text \<open>
  Opening: \<open>LMDB::instance\<close> finds or creates the environment of a path, \<open>LMDB::open_database\<close>
  and the constructor of \<open>LMDBDatabase\<close> find or open a named database in it. The parameter record
  gets the calls of the library and of the file system this needs; \<open>'f\<close> is the state of the file
  system. The settings of an environment that are only passed on are here too.
\<close>

section \<open>The calls\<close>

record ('e, 't, 'c, 'f) lmdb_files = "('e, 't, 'c) lmdb_cursors" +
  MDB_NOSUBDIR :: u32
  MDB_RDONLY :: u32
  MDB_NOTLS :: u32
  MDB_CREATE :: u32
  fs_exists :: "'f \<Rightarrow> string \<Rightarrow> bool"
  fs_is_file :: "'f \<Rightarrow> string \<Rightarrow> bool"
  fs_is_directory :: "'f \<Rightarrow> string \<Rightarrow> bool"
  fs_create_directory :: "string \<Rightarrow> 'f \<Rightarrow> 'f"
  mdb_env_create :: "int \<times> 'e"
  mdb_env_set_maxdbs :: "'e \<Rightarrow> u32 \<Rightarrow> int \<times> 'e"
  mdb_env_open :: "'e \<Rightarrow> string \<Rightarrow> u32 \<Rightarrow> nat \<Rightarrow> 'f \<Rightarrow> int \<times> 'e \<times> 'f"
  mdb_dbi_open :: "'t \<Rightarrow> string option \<Rightarrow> u32 \<Rightarrow> int \<times> nat \<times> 't"
  mdb_dbi_flags :: "'t \<Rightarrow> nat \<Rightarrow> int \<times> u32"

text \<open>What the library documents of a handle: it is not zero, and opening it changes no entry.\<close>

definition open_laws :: "('e, 't, 'c, 'f, 'z) lmdb_files_scheme \<Rightarrow> ('t \<Rightarrow> contents) \<Rightarrow> bool" where
  "open_laws L tv \<longleftrightarrow>
     (\<forall>t name flags d t'. mdb_dbi_open L t name flags = (0, d, t') \<longrightarrow> d \<noteq> 0 \<and> tv t' = tv t)"

lemma open_lawsD:
  "open_laws L tv \<Longrightarrow> mdb_dbi_open L t name flags = (0, d, t') \<Longrightarrow> d \<noteq> 0 \<and> tv t' = tv t"
  unfolding open_laws_def by blast

section \<open>The table of environments\<close>

definition string_bytes :: "string \<Rightarrow> bytes" where
  "string_bytes s = map of_char s"

type_synonym 'e instances = "(crypto_hash_t, 'e LMDB) ThreadSafeMap"

text \<open>\<open>LMDB::instance(id)\<close>; \<open>None\<close> is the exception.\<close>

definition lmdb_find :: "crypto_hash_t \<Rightarrow> 'e instances \<Rightarrow> 'e LMDB option" where
  "lmdb_find key I = (if tsm_contains I key then tsm_at I key else None)"

text \<open>The path has to be a file, or a directory that is created when it is missing.\<close>

definition prepare_path ::
  "('e, 't, 'c, 'f, 'z) lmdb_files_scheme \<Rightarrow> string \<Rightarrow> u32 \<Rightarrow> 'f \<Rightarrow> unit outcome \<times> 'f" where
  "prepare_path L path flags f =
     (if and flags (MDB_NOSUBDIR L) \<noteq> 0
      then if fs_exists L f path \<and> \<not> fs_is_file L f path then (Thrown, f) else (Returned (), f)
      else if \<not> fs_is_directory L f path then (Returned (), fs_create_directory L path f)
           else (Returned (), f))"

definition lmdb_create ::
  "('e, 't, 'c, 'f, 'z) lmdb_files_scheme \<Rightarrow> crypto_hash_t \<Rightarrow> string \<Rightarrow> u32 \<Rightarrow> nat \<Rightarrow> u64 \<Rightarrow> u32 \<Rightarrow> 'f \<Rightarrow>
     'e LMDB outcome \<times> 'f" where
  "lmdb_create L key path flags mode growth_factor max_databases f =
     (case prepare_path L path flags f of
        (Thrown, f) \<Rightarrow> (Thrown, f)
      | (Returned _, f) \<Rightarrow>
          let (rc, e) = mdb_env_create L in
          if rc \<noteq> 0 then (Thrown, f)
          else let (rc, e) = mdb_env_set_mapsize L e (growth_factor * (1024 * 1024)) in
          if rc \<noteq> 0 then (Thrown, f)
          else let (rc, e) = mdb_env_set_maxdbs L e max_databases in
          if rc \<noteq> 0 then (Thrown, f)
          else let (rc, e, f) = mdb_env_open L e path (or flags (MDB_NOTLS L)) mode f in
          if rc \<noteq> 0 then (Thrown, f)
          else (Returned \<lparr>lmdb_id = key, m_growth_factor = growth_factor, m_env = Some e,
                          m_databases = [], m_open_txns = 0, m_registered = True\<rparr>, f))"

definition lmdb_instance ::
  "'y crypto_scheme \<Rightarrow> ('e, 't, 'c, 'f, 'z) lmdb_files_scheme \<Rightarrow> string \<Rightarrow> u32 \<Rightarrow> nat \<Rightarrow> u64 \<Rightarrow> u32 \<Rightarrow>
     'e instances \<Rightarrow> 'f \<Rightarrow> 'e LMDB outcome \<times> 'e instances \<times> 'f" where
  "lmdb_instance C L path flags mode growth_factor max_databases I f =
     (let key = sha3 C (string_bytes path) in
      if \<not> tsm_contains I key then
        case lmdb_create L key path flags mode growth_factor max_databases f of
          (Thrown, f) \<Rightarrow> (Thrown, I, f)
        | (Returned E, f) \<Rightarrow>
            let I = tsm_insert (key_less C) key E I in
            (case tsm_at I key of None \<Rightarrow> Thrown | Some E \<Rightarrow> Returned E, I, f)
      else (case tsm_at I key of None \<Rightarrow> Thrown | Some E \<Rightarrow> Returned E, I, f))"

text \<open>
  The static \<open>instance\<close> methods of the classes that keep a table of their objects by the hash of a
  path (\<open>BlockchainStorage\<close>, \<open>PeerDB\<close>), with \<open>ctor\<close> the constructor, and what their destructors do
  to the table.
\<close>

definition find_or_make ::
  "'y crypto_scheme \<Rightarrow> string \<Rightarrow> ('s, 'a) io \<Rightarrow> (crypto_hash_t, 'a) ThreadSafeMap \<Rightarrow>
     ('s, 'a \<times> (crypto_hash_t, 'a) ThreadSafeMap) io" where
  "find_or_make C path ctor I =
     (let key = sha3 C (string_bytes path) in
      if \<not> tsm_contains I key then
        io_bind ctor (\<lambda>x.
          let I = tsm_insert (key_less C) key x I in
          case tsm_at I key of None \<Rightarrow> io_throw | Some x \<Rightarrow> io_return (x, I))
      else (case tsm_at I key of None \<Rightarrow> io_throw | Some x \<Rightarrow> io_return (x, I)))"

definition forget_instance :: "crypto_hash_t \<Rightarrow> (crypto_hash_t, 'a) ThreadSafeMap \<Rightarrow> (crypto_hash_t, 'a) ThreadSafeMap" where
  "forget_instance key I = (if tsm_contains I key then tsm_erase key I else I)"

lemma forget_instance_gone: "tsm_at (forget_instance key I) key = None"
  by (simp add: forget_instance_def tsm_contains_at tsm.lookup_erase)

text \<open>The second call for a path returns the object of the first one and constructs nothing.\<close>

lemma find_or_make_again:
  assumes C: "strict_total (key_less C)" and I: "sorted_map (key_less C) I"
    and run: "find_or_make C path ctor I s = Some (s', Returned (x, I'))"
  shows "sorted_map (key_less C) I'" "tsm_at I' (sha3 C (string_bytes path)) = Some x"
    "find_or_make C path ctor' I' s2 = Some (s2, Returned (x, I'))"
    "key \<noteq> sha3 C (string_bytes path) \<Longrightarrow> tsm_at I' key = tsm_at I key"
proof -
  let ?k = "sha3 C (string_bytes path)"
  have "sorted_map (key_less C) I' \<and> tsm_at I' ?k = Some x \<and> (key \<noteq> ?k \<longrightarrow> tsm_at I' key = tsm_at I key)"
  proof (cases "tsm_at I ?k")
    case None
    then obtain y where "I' = tsm_insert (key_less C) ?k y I" "tsm_at I' ?k = Some x"
      using run
      by (auto simp: find_or_make_def tsm_contains_at io_bind_def io_return_def io_throw_def Let_def
          split: option.splits outcome.splits)
    then show ?thesis using tsm.lookup_insert [OF C I] tsm.inv_insert [OF C I] by auto
  next
    case (Some y)
    then show ?thesis using run I by (auto simp: find_or_make_def tsm_contains_at io_return_def)
  qed
  then show "sorted_map (key_less C) I'" "tsm_at I' ?k = Some x" "key \<noteq> ?k \<Longrightarrow> tsm_at I' key = tsm_at I key"
    "find_or_make C path ctor' I' s2 = Some (s2, Returned (x, I'))"
    by (auto simp: find_or_make_def tsm_contains_at io_return_def)
qed

section \<open>Settings\<close>

definition lmdb_get_flags :: "('e, 't, 'z) lmdb_scheme \<Rightarrow> 'e LMDB \<Rightarrow> ErrorCode \<times> u32" where
  "lmdb_get_flags L E =
     (case m_env E of
        None \<Rightarrow> (LMDB_ERROR, 0)
      | Some e \<Rightarrow> let (rc, env_flags) = mdb_env_get_flags L e in (ErrorCode rc, env_flags))"

text \<open>\<open>set_flags\<close> passes a null environment on to the library: \<open>None\<close>.\<close>

definition lmdb_set_flags ::
  "('e, 't, 'z) lmdb_scheme \<Rightarrow> u32 \<Rightarrow> bool \<Rightarrow> 'e LMDB \<Rightarrow> (ErrorCode \<times> 'e LMDB) option" where
  "lmdb_set_flags L flags flag_state E =
     map_option (\<lambda>e. let (rc, e) = mdb_env_set_flags L e flags flag_state in
                       (ErrorCode rc, E\<lparr>m_env := Some e\<rparr>)) (m_env E)"

definition max_key_size :: "('e, 't, 'z) lmdb_scheme \<Rightarrow> 'e LMDB \<Rightarrow> ErrorCode \<times> nat" where
  "max_key_size L E =
     (case m_env E of None \<Rightarrow> (LMDB_ERROR, 0) | Some e \<Rightarrow> (SUCCESS, mdb_env_get_maxkeysize L e))"

definition max_readers :: "('e, 't, 'z) lmdb_scheme \<Rightarrow> 'e LMDB \<Rightarrow> ErrorCode \<times> u32" where
  "max_readers L E =
     (case m_env E of
        None \<Rightarrow> (LMDB_ERROR, 0)
      | Some e \<Rightarrow> let (rc, readers) = mdb_env_get_maxreaders L e in (ErrorCode rc, readers))"

definition db_get_flags ::
  "('e, 't, 'c, 'f, 'z) lmdb_files_scheme \<Rightarrow> LMDBDatabase \<Rightarrow> 'e LMDB \<Rightarrow> (ErrorCode \<times> u32) outcome \<times> 'e LMDB"
where
  "db_get_flags L D =
     db_read L D (\<lambda>T. let (rc, dbi_flags) = mdb_dbi_flags L (txn_handle T) (m_dbi D) in
                        (ErrorCode rc, dbi_flags))"

section \<open>Opening a named database\<close>

text \<open>The constructor. The error of \<open>get_flags\<close> is not looked at; a null environment fails in \<open>txn_setup\<close>.\<close>

definition database_make ::
  "'y crypto_scheme \<Rightarrow> ('e, 't, 'c, 'f, 'z) lmdb_files_scheme \<Rightarrow> string \<Rightarrow> u32 \<Rightarrow> 'e LMDB \<Rightarrow>
     LMDBDatabase outcome \<times> 'e LMDB" where
  "database_make C L name flags E =
     (let (_, env_flags) = lmdb_get_flags L E; readonly = and env_flags (MDB_RDONLY L) \<noteq> 0 in
      case txn_setup L 0 readonly E of
        (Thrown, E) \<Rightarrow> (Thrown, E)
      | (Returned T, E) \<Rightarrow>
          let (rc, dbi, t) = mdb_dbi_open L (txn_handle T) (if name = [] then None else Some name)
                               (or flags (MDB_CREATE L));
              T = T\<lparr>txn_handle := t\<rparr>;
              D = \<lparr>db_id = sha3 C (string_bytes name), m_dbi = dbi\<rparr> in
          if rc \<noteq> 0 then (Thrown, txn_abort L (Some T) E)
          else if \<not> readonly then
            let (err, E) = txn_commit L (Some T) E in
            if err \<noteq> SUCCESS then (Thrown, E) else (Returned D, E)
          else (Returned D, txn_abort L (Some T) E))"

definition open_database ::
  "'y crypto_scheme \<Rightarrow> ('e, 't, 'c, 'f, 'z) lmdb_files_scheme \<Rightarrow> string \<Rightarrow> u32 \<Rightarrow> 'e LMDB \<Rightarrow>
     LMDBDatabase outcome \<times> 'e LMDB" where
  "open_database C L name flags E =
     (let key = sha3 C (string_bytes name) in
      if \<not> tsm_contains (m_databases E) key then
        if \<not> m_registered E then (Thrown, E)
        else case database_make C L name flags E of
               (Thrown, E) \<Rightarrow> (Thrown, E)
             | (Returned D, E) \<Rightarrow>
                 let E = E\<lparr>m_databases := tsm_insert (key_less C) key D (m_databases E)\<rparr> in
                 (case tsm_at (m_databases E) key of None \<Rightarrow> Thrown | Some D \<Rightarrow> Returned D, E)
      else (case tsm_at (m_databases E) key of None \<Rightarrow> Thrown | Some D \<Rightarrow> Returned D, E))"

section \<open>What opening gives\<close>

text \<open>The table of open databases: ordered, and every handle under the hash of its name.\<close>

definition databases_ok :: "'y crypto_scheme \<Rightarrow> 'e LMDB \<Rightarrow> bool" where
  "databases_ok C E \<longleftrightarrow>
     sorted_map (key_less C) (m_databases E) \<and>
     (\<forall>key D. tsm_at (m_databases E) key = Some D \<longrightarrow> db_id D = key \<and> m_dbi D \<noteq> 0)"

lemma lmdb_create_fresh:
  assumes "lmdb_create L key path flags mode g n f = (Returned E, f')"
  shows "m_open_txns E = 0" "m_databases E = []" "m_registered E" "m_env E \<noteq> None" "lmdb_id E = key"
    "m_growth_factor E = g"
  using assms by (auto simp: lmdb_create_def Let_def split: prod.splits outcome.splits if_splits)

lemma lmdb_create_ok: "lmdb_create L key path flags mode g n f = (Returned E, f') \<Longrightarrow> databases_ok C E"
  using lmdb_create_fresh(2) [of L key path flags mode g n f E f']
  by (simp add: databases_ok_def sorted_map_def tsm_at_def)

lemma database_make_stored:
  assumes L: "lmdb_laws L ev tv" and O: "open_laws L tv" and E: "stored ev E c" "m_open_txns E + 1 \<noteq> 0"
    and run: "database_make C L name flags E = (r, E')"
  shows "stored ev E' c" "frame E E'"
    "r = Returned D \<Longrightarrow> db_id D = sha3 C (string_bytes name) \<and> m_dbi D \<noteq> 0"
proof -
  obtain err fl where gf: "lmdb_get_flags L E = (err, fl)" by fastforce
  define ro where "ro \<longleftrightarrow> and fl (MDB_RDONLY L) \<noteq> 0"
  obtain r1 E1 where s: "txn_setup L 0 ro E = (r1, E1)" by fastforce
  note S = txn_setup_stored [OF L E(1) s]
  have "stored ev E' c \<and> frame E E' \<and>
    (r = Returned D \<longrightarrow> db_id D = sha3 C (string_bytes name) \<and> m_dbi D \<noteq> 0)"
  proof (cases r1)
    case Thrown
    then show ?thesis using run gf s S(1,2) by (auto simp: database_make_def ro_def)
  next
    case (Returned T)
    obtain rc d t where o: "mdb_dbi_open L (txn_handle T) (if name = [] then None else Some name)
        (or flags (MDB_CREATE L)) = (rc, d, t)" by (metis prod_cases3)
    define T' where "T' = T\<lparr>txn_handle := t\<rparr>"
    have T': "txn_readonly T' = ro" using S(4) Returned by (simp add: T'_def)
    have fr: "frame (transaction_register (txn_readonly T') E) E1" using S(3) Returned T' by simp
    note A = abort_stored [OF L S(1) fr E(2)]
    obtain err2 E2 where c2: "txn_commit L (Some T') E1 = (err2, E2)" by fastforce
    note K = commit_stored [OF L S(1) c2 fr E(2)]
    have d: "rc = 0 \<Longrightarrow> d \<noteq> 0 \<and> tv (txn_handle T') = c"
      using open_lawsD [OF O] o S(4) Returned by (auto simp: T'_def)
    show ?thesis
      using run gf s Returned o d A K c2
      by (auto simp: database_make_def ro_def [symmetric] T'_def [symmetric] Let_def split: if_splits)
  qed
  then show "stored ev E' c" "frame E E'"
    "r = Returned D \<Longrightarrow> db_id D = sha3 C (string_bytes name) \<and> m_dbi D \<noteq> 0" by blast+
qed

text \<open>
  Opening a database changes no entry and no other open database; what it returns is the open
  database of that name, and asking again gives the same one without another call of the library.
\<close>

lemma open_database_result:
  assumes C: "strict_total (key_less C)" and L: "lmdb_laws L ev tv" "open_laws L tv"
    and E: "stored ev E c" "m_open_txns E + 1 \<noteq> 0" "databases_ok C E"
    and run: "open_database C L name flags E = (r, E')"
  shows "stored ev E' c" "m_open_txns E' = m_open_txns E" "databases_ok C E'"
    "m_registered E' = m_registered E" "m_growth_factor E' = m_growth_factor E"
    "tsm_at (m_databases E) key = Some D0 \<Longrightarrow> tsm_at (m_databases E') key = Some D0"
    "r = Returned D \<Longrightarrow>
       db_id D = sha3 C (string_bytes name) \<and> m_dbi D \<noteq> 0 \<and> tsm_at (m_databases E') (db_id D) = Some D"
proof -
  let ?k = "sha3 C (string_bytes name)"
  have "stored ev E' c \<and> m_open_txns E' = m_open_txns E \<and> databases_ok C E' \<and>
    m_registered E' = m_registered E \<and> m_growth_factor E' = m_growth_factor E \<and>
    (tsm_at (m_databases E) key = Some D0 \<longrightarrow> tsm_at (m_databases E') key = Some D0) \<and>
    (r = Returned D \<longrightarrow> db_id D = ?k \<and> m_dbi D \<noteq> 0 \<and> tsm_at (m_databases E') (db_id D) = Some D)"
  proof (cases "tsm_at (m_databases E) ?k")
    case (Some D')
    then show ?thesis using E run by (auto simp: open_database_def tsm_contains_at databases_ok_def)
  next
    case None
    obtain r1 E1 where m: "database_make C L name flags E = (r1, E1)" by fastforce
    note M = database_make_stored [OF L E(1,2) m]
    have srt: "sorted_map (key_less C) (m_databases E1)" using E(3) M(2) by (simp add: databases_ok_def frameD)
    have at: "tsm_at (tsm_insert (key_less C) ?k x (m_databases E1)) key' =
        (if key' = ?k then Some x else tsm_at (m_databases E) key')" for x key'
      using None M(2) tsm.lookup_insert [OF C srt] by (simp add: frameD)
    have open1: "open_database C L name flags E =
        (if \<not> m_registered E then (Thrown, E)
         else case r1 of Thrown \<Rightarrow> (Thrown, E1)
              | Returned x \<Rightarrow> (Returned x, E1\<lparr>m_databases := tsm_insert (key_less C) ?k x (m_databases E1)\<rparr>))"
      using None m at by (auto simp: open_database_def tsm_contains_at Let_def split: outcome.splits)
    show ?thesis
    proof (cases "m_registered E")
      case False
      then show ?thesis using run open1 E by auto
    next
      case True
      show ?thesis
      proof (cases r1)
        case Thrown
        then show ?thesis using run open1 True E M by (auto simp: databases_ok_def frameD)
      next
        case (Returned x)
        have E': "r = Returned x" "E' = E1\<lparr>m_databases := tsm_insert (key_less C) ?k x (m_databases E1)\<rparr>"
          using run open1 True Returned by auto
        have "databases_ok C E'"
          using E(3) at tsm.inv_insert [OF C srt] M(3) [OF Returned] by (simp add: databases_ok_def E')
        then show ?thesis
          using E' M(1,2) M(3) [OF Returned] at None by (auto simp: frameD stored_def)
      qed
    qed
  qed
  then show "stored ev E' c" "m_open_txns E' = m_open_txns E" "databases_ok C E'"
    "m_registered E' = m_registered E" "m_growth_factor E' = m_growth_factor E"
    "tsm_at (m_databases E) key = Some D0 \<Longrightarrow> tsm_at (m_databases E') key = Some D0"
    "r = Returned D \<Longrightarrow>
       db_id D = ?k \<and> m_dbi D \<noteq> 0 \<and> tsm_at (m_databases E') (db_id D) = Some D" by blast+
qed

lemma open_database_again:
  assumes "tsm_at (m_databases E) (sha3 C (string_bytes name)) = Some D"
  shows "open_database C L name flags E = (Returned D, E)"
  using assms by (simp add: open_database_def tsm_contains_at)

text \<open>So an opened database is a store as its clients use it.\<close>

lemma open_database_store:
  assumes "strict_total (key_less C)" "lmdb_laws L ev tv" "open_laws L tv" "stored ev E c"
    "m_open_txns E + 1 \<noteq> 0" "databases_ok C E" "open_database C L name flags E = (Returned D, E')"
  shows "store_holds (L, ev, tv, D) E' (c (m_dbi D))"
  using open_database_result [OF assms(1-6,7)] assms(5) by auto

end
