(* ===== verification/Peer_Database.thy ===== *)
theory Peer_Database
  imports Lmdb_Open Network_Types "HOL-Library.Multiset"
begin

text \<open>
  The peer database (\<open>src/p2p/peer_database.cpp\<close>): the entries of the LMDB database
  \<open>peerlist\<close>, under their peer ids, with our own peer id kept in the database \<open>local\<close>. Every
  method is a program over the LMDB environment. Time and randomness are arguments: \<open>now\<close> is what
  \<open>time(nullptr)\<close> returns, \<open>random_id\<close> what \<open>Crypto::random_hash()\<close> returns, \<open>mix\<close> what
  \<open>std::shuffle\<close> does with a list.
\<close>

section \<open>The methods\<close>

record PeerDB =
  m_peer_id :: crypto_hash_t
  m_database :: LMDBDatabase

definition PEER_ID_IDENTIFIER :: crypto_hash_t where
  "PEER_ID_IDENTIFIER = 0x5440dd9b6683e3b2b0805eec3514ff3e23b7edea1bf29b434cd7a8447687650d"

text \<open>
  The end of the constructor: the recorded id, or a new one, is written back; what \<open>put\<close> reports
  is not looked at.
\<close>

definition own_peer_id ::
  "'z network_scheme \<Rightarrow> ('e, 't, 'y) lmdb_scheme \<Rightarrow> LMDBDatabase \<Rightarrow> crypto_hash_t \<Rightarrow> ('e LMDB, crypto_hash_t) io"
where
  "own_peer_id C L info random_id =
     io_bind (io_call (db_get_value L (r_key C) info (key_serialize C PEER_ID_IDENTIFIER)))
       (\<lambda>(err, found).
          let own = (if \<not> failed err then (case found of Some i \<Rightarrow> i | None \<Rightarrow> random_id) else random_id) in
          io_bind (db_put L info (key_serialize C PEER_ID_IDENTIFIER) (key_serialize C own) 0)
            (\<lambda>_. io_return own))"

text \<open>The constructor, behind the lookup of the environment.\<close>

definition peerdb_make ::
  "'z network_scheme \<Rightarrow> ('e, 't, 'c, 'f, 'y) lmdb_files_scheme \<Rightarrow> crypto_hash_t \<Rightarrow> ('e LMDB, PeerDB) io"
where
  "peerdb_make C L random_id =
     io_bind (io_call (open_database C L ''peerlist'' 0)) (\<lambda>D.
     io_bind (io_call (open_database C L ''local'' 0)) (\<lambda>info.
     io_bind (own_peer_id C L info random_id) (\<lambda>own.
     io_return \<lparr>m_peer_id = own, m_database = D\<rparr>)))"

definition peerdb_instance ::
  "'z network_scheme \<Rightarrow> ('e, 't, 'c, 'f, 'y) lmdb_files_scheme \<Rightarrow> crypto_hash_t \<Rightarrow> string \<Rightarrow>
     (crypto_hash_t, PeerDB) ThreadSafeMap \<Rightarrow> ('e LMDB, PeerDB \<times> (crypto_hash_t, PeerDB) ThreadSafeMap) io" where
  "peerdb_instance C L random_id path = find_or_make C path (peerdb_make C L random_id)"

definition prune_time :: "u64 \<Rightarrow> u64" where
  "prune_time now = now - PEER_PRUNE_TIME"

definition peerdb_add ::
  "'z network_scheme \<Rightarrow> ('e, 't, 'c, 'y) lmdb_cursors_scheme \<Rightarrow> PeerDB \<Rightarrow> u64 \<Rightarrow> network_peer_t \<Rightarrow>
     ('e LMDB, ErrorCode) io" where
  "peerdb_add C L P now entry =
     (if peer_id entry = m_peer_id P then io_return PEERLIST_ADD_FAILURE
      else if last_seen entry < prune_time now then io_return PEERLIST_ADD_FAILURE
      else db_put L (m_database P) (key_serialize C (peer_id entry)) (peer_serialize C entry) 0)"

definition peerdb_count ::
  "('e, 't, 'c, 'y) lmdb_cursors_scheme \<Rightarrow> PeerDB \<Rightarrow> ('e LMDB, u64) io" where
  "peerdb_count L P = db_count L (m_database P)"

definition peerdb_del ::
  "'z network_scheme \<Rightarrow> ('e, 't, 'c, 'y) lmdb_cursors_scheme \<Rightarrow> PeerDB \<Rightarrow> crypto_hash_t \<Rightarrow>
     ('e LMDB, ErrorCode) io" where
  "peerdb_del C L P i = db_del L (m_database P) (key_serialize C i)"

definition peerdb_del_entry ::
  "'z network_scheme \<Rightarrow> ('e, 't, 'c, 'y) lmdb_cursors_scheme \<Rightarrow> PeerDB \<Rightarrow> network_peer_t \<Rightarrow>
     ('e LMDB, ErrorCode) io" where
  "peerdb_del_entry C L P entry = db_del L (m_database P) (key_serialize C (peer_id entry))"

definition peerdb_exists ::
  "'z network_scheme \<Rightarrow> ('e, 't, 'c, 'y) lmdb_cursors_scheme \<Rightarrow> PeerDB \<Rightarrow> crypto_hash_t \<Rightarrow>
     ('e LMDB, bool) io" where
  "peerdb_exists C L P i = io_call (db_exists L (m_database P) (key_serialize C i))"

definition peerdb_get ::
  "'z network_scheme \<Rightarrow> ('e, 't, 'c, 'y) lmdb_cursors_scheme \<Rightarrow> PeerDB \<Rightarrow> crypto_hash_t \<Rightarrow>
     ('e LMDB, ErrorCode \<times> network_peer_t option) io" where
  "peerdb_get C L P i = io_call (db_get_value L (peer_deserialize C) (m_database P) (key_serialize C i))"

definition peer_ids ::
  "'z network_scheme \<Rightarrow> ('e, 't, 'c, 'y) lmdb_cursors_scheme \<Rightarrow> PeerDB \<Rightarrow> ('e LMDB, crypto_hash_t list) io" where
  "peer_ids C L P = list_keys_values L (r_key C) (m_database P) True"

text \<open>The part of \<open>peers\<close> behind the call of the database.\<close>

definition select_peers ::
  "'z network_scheme \<Rightarrow> (network_peer_t list \<Rightarrow> network_peer_t list) \<Rightarrow> u64 \<Rightarrow> crypto_hash_t \<Rightarrow>
     network_peer_t list \<Rightarrow> network_peer_t list" where
  "select_peers C mix n net ps =
     (let ps = (if \<not> key_empty C net then filter (\<lambda>q. peer_network_id q = net) ps else ps);
          ps = mix ps in
      if n \<noteq> 0 \<and> length ps > unat n then take (unat n) ps else ps)"

definition peerdb_peers ::
  "'z network_scheme \<Rightarrow> ('e, 't, 'c, 'y) lmdb_cursors_scheme \<Rightarrow> PeerDB \<Rightarrow>
     (network_peer_t list \<Rightarrow> network_peer_t list) \<Rightarrow> u64 \<Rightarrow> crypto_hash_t \<Rightarrow> ('e LMDB, network_peer_t list) io"
where
  "peerdb_peers C L P mix n net =
     io_bind (db_get_all_values L (peer_deserialize C) (m_database P))
       (\<lambda>ps. io_return (select_peers C mix n net ps))"

text \<open>\<open>prune\<close> logs the errors of the deletions and goes on.\<close>

definition peerdb_prune ::
  "'z network_scheme \<Rightarrow> ('e, 't, 'c, 'y) lmdb_cursors_scheme \<Rightarrow> PeerDB \<Rightarrow>
     (network_peer_t list \<Rightarrow> network_peer_t list) \<Rightarrow> u64 \<Rightarrow> ('e LMDB, unit) io" where
  "peerdb_prune C L P mix now =
     io_bind (peerdb_peers C L P mix 0 (hash_default C)) (\<lambda>all_peers.
       io_each (\<lambda>q. if last_seen q < prune_time now
                    then io_bind (peerdb_del C L P (peer_id q)) (\<lambda>_. io_return ())
                    else io_return ()) all_peers)"

text \<open>\<open>touch\<close> looks at the clock, and \<open>add\<close> again: \<open>now'\<close>.\<close>

definition peerdb_touch ::
  "'z network_scheme \<Rightarrow> ('e, 't, 'c, 'y) lmdb_cursors_scheme \<Rightarrow> PeerDB \<Rightarrow> u64 \<Rightarrow> u64 \<Rightarrow> crypto_hash_t \<Rightarrow>
     ('e LMDB, ErrorCode) io" where
  "peerdb_touch C L P now now' i =
     io_bind (peerdb_get C L P i) (\<lambda>(err, q).
       if failed err then io_return err
       else case q of
              None \<Rightarrow> io_return err
            | Some q \<Rightarrow> peerdb_add C L P now' (q\<lparr>last_seen := now\<rparr>))"

section \<open>The table of peers\<close>

text \<open>
  What the database stands for: a table of peers by their ids. The serialized form of an entry
  does not carry the port inside its address, so that the table has the entry without it.
\<close>

type_synonym peer_table = "crypto_hash_t \<Rightarrow> network_peer_t option"

definition drop_port :: "network_peer_t \<Rightarrow> network_peer_t" where
  "drop_port q = q\<lparr>peer_address := (peer_address q)\<lparr>ip_port := 0\<rparr>\<rparr>"

definition storable :: "'z network_scheme \<Rightarrow> network_peer_t \<Rightarrow> bool" where
  "storable C q \<longleftrightarrow> wf_peer C (drop_port q)"

definition table_of :: "'z network_scheme \<Rightarrow> (bytes \<Rightarrow> bytes option) \<Rightarrow> peer_table \<Rightarrow> bool" where
  "table_of C m t \<longleftrightarrow>
     m = (\<lambda>k. case r_key C k of
                None \<Rightarrow> None
              | Some (i, _) \<Rightarrow> if k = key_serialize C i then map_option (peer_serialize C) (t i) else None) \<and>
     (\<forall>i q. t i = Some q \<longrightarrow> peer_id q = i \<and> wf_peer C q)"

lemma drop_port_simps [simp]:
  "peer_id (drop_port q) = peer_id q" "last_seen (drop_port q) = last_seen q"
  "peer_network_id (drop_port q) = peer_network_id q" "peer_port (drop_port q) = peer_port q"
  by (simp_all add: drop_port_def)

lemma peer_serialize_drop_port: "peer_serialize C (drop_port q) = peer_serialize C q"
  by (simp add: peer_serialize_def drop_port_def ip_serialize_def)

lemma wf_peer_drop_port: "wf_peer C q \<Longrightarrow> drop_port q = q"
  by (cases q) (auto simp: wf_peer_def wf_ip_def drop_port_def)

lemma wf_peer_storable: "wf_peer C q \<Longrightarrow> storable C q"
  by (simp add: storable_def wf_peer_drop_port)

lemma table_lookup:
  assumes "network_laws C" "table_of C m t"
  shows "m (key_serialize C i) = map_option (peer_serialize C) (t i)"
  using assms by (simp add: table_of_def wire network_lawsD(2))

lemma table_entry: "table_of C m t \<Longrightarrow> t i = Some q \<Longrightarrow> peer_id q = i \<and> wf_peer C q"
  by (simp add: table_of_def)

lemma table_dom:
  assumes "network_laws C" "table_of C m t"
  shows "dom m = key_serialize C ` dom t"
proof -
  have "dom m \<subseteq> key_serialize C ` dom t"
    using assms(2) by (auto simp: table_of_def intro!: imageI split: option.splits if_splits)
  moreover have "key_serialize C i \<in> dom m" if "i \<in> dom t" for i
    using that table_lookup [OF assms] by auto
  ultimately show ?thesis by blast
qed

lemma key_serialize_inj:
  assumes "network_laws C" shows "inj (key_serialize C)"
proof (rule injI)
  fix i j assume "key_serialize C i = key_serialize C j"
  then show "i = j" using codec_read_back_end(5) [OF network_lawsD(2) [OF assms]] by (metis option.inject prod.inject)
qed

lemma table_card:
  assumes "network_laws C" "table_of C m t" shows "card (dom m) = card (dom t)"
  unfolding table_dom [OF assms] by (rule card_image) (rule inj_on_subset [OF key_serialize_inj [OF assms(1)]], simp)

lemma table_add:
  assumes "network_laws C" "table_of C m t" "storable C q"
  shows "table_of C (m(key_serialize C (peer_id q) \<mapsto> peer_serialize C q)) (t(peer_id q \<mapsto> drop_port q))"
  using assms
  by (auto simp: table_of_def storable_def peer_serialize_drop_port wire network_lawsD(2) fun_eq_iff
      split: option.splits)

lemma table_del:
  assumes "network_laws C" "table_of C m t"
  shows "table_of C (m(key_serialize C i := None)) (t(i := None))"
  using assms by (auto simp: table_of_def wire network_lawsD(2) fun_eq_iff split: option.splits)

section \<open>The interface of a directory of peers\<close>

text \<open>
  \<open>holds p s t\<close>: in the state \<open>s\<close> the directory \<open>p\<close> has the table \<open>t\<close>; \<open>accepts\<close> says which
  entries it can store. The laws are those of the four operations a client needs, and the lemmas
  show what the programs over them do: what \<open>touch\<close> and \<open>prune\<close> change, and that no program that
  only adds ever records our own id.
\<close>

locale peer_directory =
  fixes lawful :: "'p \<Rightarrow> bool"
    and holds :: "'p \<Rightarrow> 's \<Rightarrow> peer_table \<Rightarrow> bool"
    and self :: "'p \<Rightarrow> crypto_hash_t"
    and accepts :: "'p \<Rightarrow> network_peer_t \<Rightarrow> bool"
    and add :: "'p \<Rightarrow> u64 \<Rightarrow> network_peer_t \<Rightarrow> ('s, ErrorCode) io"
    and del :: "'p \<Rightarrow> crypto_hash_t \<Rightarrow> ('s, ErrorCode) io"
    and get :: "'p \<Rightarrow> crypto_hash_t \<Rightarrow> ('s, ErrorCode \<times> network_peer_t option) io"
    and listing :: "'p \<Rightarrow> (network_peer_t list \<Rightarrow> network_peer_t list) \<Rightarrow> u64 \<Rightarrow> crypto_hash_t \<Rightarrow>
      ('s, network_peer_t list) io"
  assumes entry: "lawful p \<Longrightarrow> holds p s t \<Longrightarrow> t i = Some q \<Longrightarrow>
      peer_id q = i \<and> accepts p (q\<lparr>last_seen := x\<rparr>) \<and> drop_port q = q"
    and add_law: "lawful p \<Longrightarrow> accepts p q \<Longrightarrow> io_post (\<lambda>s. holds p s t) (add p now q)
      (\<lambda>r s. holds p s (if r = Returned SUCCESS then t(peer_id q \<mapsto> drop_port q) else t) \<and>
             (r = Returned SUCCESS \<longrightarrow> peer_id q \<noteq> self p \<and> prune_time now \<le> last_seen q))"
    and del_law: "lawful p \<Longrightarrow> io_post (\<lambda>s. holds p s t) (del p i)
      (\<lambda>r s. holds p s (if r = Returned SUCCESS then t(i := None) else t))"
    and get_law: "lawful p \<Longrightarrow> io_post (\<lambda>s. holds p s t) (get p i)
      (\<lambda>r s. holds p s t \<and>
         (r = Thrown \<or> r = Returned (case t i of None \<Rightarrow> (LMDB_NOTFOUND, None) | Some q \<Rightarrow> (SUCCESS, Some q))))"
    and listing_law: "lawful p \<Longrightarrow> (\<And>ps. mset (mix ps) = mset ps) \<Longrightarrow>
      io_post (\<lambda>s. holds p s t) (listing p mix n net)
        (\<lambda>r s. holds p s t \<and> (\<forall>ps. r = Returned ps \<longrightarrow> set ps \<subseteq> ran t \<and> (n \<noteq> 0 \<longrightarrow> length ps \<le> unat n)))"
begin

text \<open>Some table without our own id is there.\<close>

definition other_peers :: "'p \<Rightarrow> 's \<Rightarrow> bool" where
  "other_peers p s \<longleftrightarrow> (\<exists>t. holds p s t \<and> t (self p) = None)"

lemma add_other:
  assumes "lawful p" "accepts p q"
  shows "io_post (other_peers p) (add p now q) (\<lambda>_. other_peers p)"
proof (rule io_postI)
  fix s s' r assume "other_peers p s" and run: "add p now q s = Some (s', r)"
  then obtain t where t: "holds p s t" "t (self p) = None" by (auto simp: other_peers_def)
  from io_postD [OF add_law [OF assms] t(1) run] show "other_peers p s'"
    using t(2) by (auto simp: other_peers_def split: if_splits)
qed

lemma each_add_other:
  assumes "lawful p" "\<And>q. q \<in> set qs \<Longrightarrow> accepts p q"
  shows "io_post (other_peers p) (io_each (\<lambda>q. io_bind (add p now q) (\<lambda>_. io_return ())) qs) (\<lambda>_. other_peers p)"
  using assms by (intro io_post_each io_post_bind [where R = "\<lambda>_. other_peers p"] add_other io_post_return) auto

lemma listing_other:
  assumes "lawful p" "\<And>ps. mset (mix ps) = mset ps"
  shows "io_post (other_peers p) (listing p mix n net)
    (\<lambda>r s. other_peers p s \<and> (\<forall>ps. r = Returned ps \<longrightarrow> (\<forall>q \<in> set ps. peer_id q \<noteq> self p)))"
proof (rule io_postI)
  fix s s' r assume "other_peers p s" and run: "listing p mix n net s = Some (s', r)"
  then obtain t where t: "holds p s t" "t (self p) = None" by (auto simp: other_peers_def)
  note L = io_postD [OF listing_law [OF assms] t(1) run]
  have "peer_id q \<noteq> self p" if "q \<in> ran t" for q
    using that t entry [OF assms(1) t(1)] by (auto simp: ran_def)
  then show "other_peers p s' \<and> (\<forall>ps. r = Returned ps \<longrightarrow> (\<forall>q \<in> set ps. peer_id q \<noteq> self p))"
    using L t(2) by (auto simp: other_peers_def)
qed

lemma touch_law:
  assumes "lawful p"
  shows "io_post (\<lambda>s. holds p s t)
    (io_bind (get p i) (\<lambda>(err, q). if failed err then io_return err
       else case q of None \<Rightarrow> io_return err | Some q \<Rightarrow> add p now' (q\<lparr>last_seen := now\<rparr>)))
    (\<lambda>r s. holds p s (if r = Returned SUCCESS then t(i \<mapsto> (the (t i))\<lparr>last_seen := now\<rparr>) else t) \<and>
           (r = Returned SUCCESS \<longrightarrow> t i \<noteq> None \<and> i \<noteq> self p))"
proof (rule io_postI)
  fix s s' r assume s: "holds p s t"
    and run: "io_bind (get p i) (\<lambda>(err, q). if failed err then io_return err
       else case q of None \<Rightarrow> io_return err | Some q \<Rightarrow> add p now' (q\<lparr>last_seen := now\<rparr>)) s = Some (s', r)"
  then obtain s1 r1 where g: "get p i s = Some (s1, r1)" by (auto simp: io_bind_def split: option.splits)
  note G = io_postD [OF get_law [OF assms] s g]
  show "holds p s' (if r = Returned SUCCESS then t(i \<mapsto> (the (t i))\<lparr>last_seen := now\<rparr>) else t) \<and>
      (r = Returned SUCCESS \<longrightarrow> t i \<noteq> None \<and> i \<noteq> self p)"
  proof (cases "r1 = Thrown \<or> t i = None")
    case True
    then show ?thesis using G g run by (auto simp: io_bind_def io_return_def)
  next
    case False
    then obtain q where q: "t i = Some q" "r1 = Returned (SUCCESS, Some q)" using G by auto
    then have a: "add p now' (q\<lparr>last_seen := now\<rparr>) s1 = Some (s', r)" using g run by (simp add: io_bind_def)
    have e: "peer_id q = i" "accepts p (q\<lparr>last_seen := now\<rparr>)" "drop_port q = q"
      using entry [OF assms s q(1)] by blast+
    have "drop_port (q\<lparr>last_seen := now\<rparr>) = (drop_port q)\<lparr>last_seen := now\<rparr>" by (simp add: drop_port_def)
    then show ?thesis
      using io_postD [OF add_law [OF assms e(2)] conjunct1 [OF G] a] e q(1) by auto
  qed
qed

text \<open>Deletions that each concern a stale entry.\<close>

definition pruned :: "u64 \<Rightarrow> peer_table \<Rightarrow> peer_table \<Rightarrow> bool" where
  "pruned now t t' \<longleftrightarrow> (\<forall>i. t' i = t i \<or> t' i = None \<and> (\<exists>q. t i = Some q \<and> last_seen q < prune_time now))"

lemma prune_law:
  assumes "lawful p" "\<And>ps. mset (mix ps) = mset ps"
  shows "io_post (\<lambda>s. holds p s t)
    (io_bind (listing p mix 0 net) (\<lambda>all_peers.
       io_each (\<lambda>q. if last_seen q < prune_time now then io_bind (del p (peer_id q)) (\<lambda>_. io_return ())
                    else io_return ()) all_peers))
    (\<lambda>_ s. \<exists>t'. holds p s t' \<and> pruned now t t')"
proof (rule io_post_bind)
  let ?I = "\<lambda>s. \<exists>t0 t'. holds p s t' \<and> pruned now t t' \<and> (t0 = t \<and> (\<exists>s0. holds p s0 t0))"
  show "io_post (\<lambda>s. holds p s t) (listing p mix 0 net)
      (\<lambda>r s. holds p s t \<and> (\<forall>ps. r = Returned ps \<longrightarrow> set ps \<subseteq> ran t))"
    using listing_law [OF assms, of t 0 net] by (auto simp: io_post_def)
  have step: "io_post ?I (if last_seen q < prune_time now then io_bind (del p (peer_id q)) (\<lambda>_. io_return ())
      else io_return ()) (\<lambda>_. ?I)" if q: "q \<in> ran t" for q
  proof (cases "last_seen q < prune_time now")
    case True
    have "io_post ?I (del p (peer_id q)) (\<lambda>_. ?I)"
    proof (rule io_postI)
      fix s s' r assume I: "?I s" and run: "del p (peer_id q) s = Some (s', r)"
      then obtain t' where t': "holds p s t'" "pruned now t t'" "\<exists>s0. holds p s0 t" by blast
      have "t (peer_id q) = Some q" using q t'(3) entry [OF assms(1)] by (auto simp: ran_def)
      then have "pruned now t (t'(peer_id q := None))" using t'(2) True by (auto simp: pruned_def)
      then show "?I s'" using io_postD [OF del_law [OF assms(1)] t'(1) run] t'(2,3) by (auto split: if_splits)
    qed
    then show ?thesis using True by (auto intro!: io_post_bind [where R = "\<lambda>_. ?I"] io_post_return)
  qed (auto intro: io_post_return)
  show "io_post (\<lambda>s. holds p s t \<and> (\<forall>ps. Returned all = Returned ps \<longrightarrow> set ps \<subseteq> ran t))
      (io_each (\<lambda>q. if last_seen q < prune_time now then io_bind (del p (peer_id q)) (\<lambda>_. io_return ())
         else io_return ()) all) (\<lambda>_ s. \<exists>t'. holds p s t' \<and> pruned now t t')" for all
  proof (cases "set all \<subseteq> ran t")
    case True
    then show ?thesis
      by (intro io_post_weaken [OF io_post_each [of all ?I]] step) (auto simp: pruned_def)
  qed (auto simp: io_post_def)
qed (auto simp: pruned_def)

end

section \<open>The interpretation\<close>

type_synonym ('z, 'e, 't, 'c, 'y) peerdb_param =
  "'z network_scheme \<times> ('e, 't, 'c, 'y) lmdb_cursors_scheme \<times> ('e \<Rightarrow> contents) \<times> ('t \<Rightarrow> contents) \<times>
   ('c \<Rightarrow> (bytes \<Rightarrow> bytes option) \<times> bytes option) \<times> PeerDB"

fun peerdb_lawful :: "('z, 'e, 't, 'c, 'y) peerdb_param \<Rightarrow> bool" where
  "peerdb_lawful (C, L, ev, tv, cv, P) \<longleftrightarrow> network_laws C \<and> lmdb_laws L ev tv \<and> cursor_laws L tv cv"

fun peerdb_holds :: "('z, 'e, 't, 'c, 'y) peerdb_param \<Rightarrow> 'e LMDB \<Rightarrow> peer_table \<Rightarrow> bool" where
  "peerdb_holds (C, L, ev, tv, cv, P) E t \<longleftrightarrow>
     (\<exists>m. store_holds (L, ev, tv, m_database P) E m \<and> table_of C m t)"

fun peerdb_self :: "('z, 'e, 't, 'c, 'y) peerdb_param \<Rightarrow> crypto_hash_t" where
  "peerdb_self (C, L, ev, tv, cv, P) = m_peer_id P"

fun peerdb_accepts :: "('z, 'e, 't, 'c, 'y) peerdb_param \<Rightarrow> network_peer_t \<Rightarrow> bool" where
  "peerdb_accepts (C, L, ev, tv, cv, P) q = storable C q"

fun directory_add where
  "directory_add ((C, L, ev, tv, cv, P) :: ('z, 'e, 't, 'c, 'y) peerdb_param) now q = peerdb_add C L P now q"

fun directory_del where
  "directory_del ((C, L, ev, tv, cv, P) :: ('z, 'e, 't, 'c, 'y) peerdb_param) i = peerdb_del C L P i"

fun directory_get where
  "directory_get ((C, L, ev, tv, cv, P) :: ('z, 'e, 't, 'c, 'y) peerdb_param) i = peerdb_get C L P i"

fun directory_peers where
  "directory_peers ((C, L, ev, tv, cv, P) :: ('z, 'e, 't, 'c, 'y) peerdb_param) mix n net =
     peerdb_peers C L P mix n net"

text \<open>Reading back what the table has.\<close>

lemma read_each_table:
  assumes C: "network_laws C" and m: "table_of C m t" and vs: "set vs \<subseteq> ran m"
  shows "\<exists>ps. read_each (peer_deserialize C) vs = Returned ps \<and> vs = map (peer_serialize C) ps \<and> set ps \<subseteq> ran t"
  using vs
proof (induction vs)
  case (Cons v vs)
  then obtain ps where ps: "read_each (peer_deserialize C) vs = Returned ps" "vs = map (peer_serialize C) ps"
    "set ps \<subseteq> ran t" by auto
  from Cons.prems obtain k where "m k = Some v" by (auto simp: ran_def)
  then obtain q i where q: "t i = Some q" "v = peer_serialize C q"
    using m by (auto simp: table_of_def split: option.splits if_splits)
  then have "peer_deserialize C v = Some (q, [])" using table_entry [OF m] peer.read_back_all [OF C] by simp
  then show ?case using ps q by (intro exI [of _ "q # ps"]) (auto simp: ran_def)
qed simp

lemma set_select_peers:
  assumes "\<And>ps. mset (mix ps) = mset ps"
  shows "set (select_peers C mix n net ps) \<subseteq> set ps" "n \<noteq> 0 \<Longrightarrow> length (select_peers C mix n net ps) \<le> unat n"
proof -
  have "set (mix xs) = set xs" for xs using assms by (metis set_mset_mset)
  then show "set (select_peers C mix n net ps) \<subseteq> set ps"
    by (auto simp: select_peers_def Let_def dest!: in_set_takeD)
  show "n \<noteq> 0 \<Longrightarrow> length (select_peers C mix n net ps) \<le> unat n"
    by (auto simp: select_peers_def Let_def)
qed

lemma map_filter_ran: "set (List.map_filter m ks) \<subseteq> ran m"
  by (induction ks) (auto simp: List.map_filter_simps ran_def split: option.splits)

lemma get_all_in:
  assumes "lmdb_laws L ev tv" "cursor_laws L tv cv" "store_holds (L, ev, tv, D) E m" "db_get_all L D E = Some (E', r)"
  shows "store_holds (L, ev, tv, D) E' m \<and> (\<forall>vs. r = Returned vs \<longrightarrow> set vs \<subseteq> ran m)"
proof -
  let ?p = "(L, ev, tv, cv, D)"
  have p: "listing_lawful ?p" "listing_holds ?p E m" using assms by simp_all
  obtain E1 r1 where k: "list_keys L D True E = Some (E1, r1)"
    using assms(4) by (auto simp: db_get_all_def io_bind_def split: option.splits)
  have E1: "listing_holds ?p E1 m" by (rule lmdb_listing.keys_keep [OF p]) (use k in simp)
  show ?thesis
  proof (cases r1)
    case Thrown
    then show ?thesis using assms(4) k E1 by (simp add: db_get_all_def io_bind_def)
  next
    case (Returned ks)
    have "listing_get ?p = db_get L D" by (simp add: fun_eq_iff)
    then have "get_values (listing_get ?p) ks E1 = Some (E', r)"
      using assms(4) k Returned by (simp add: db_get_all_def io_bind_def)
    from io_postD [OF lmdb_listing.get_values_law [OF p(1)] E1 this]
    show ?thesis using map_filter_ran [of m ks] by (auto simp del: store_holds.simps)
  qed
qed

lemma peers_law:
  assumes p: "peerdb_lawful (C, L, ev, tv, cv, P)" and E: "peerdb_holds (C, L, ev, tv, cv, P) E t"
    and mix: "\<And>ps. mset (mix ps) = mset ps" and run: "peerdb_peers C L P mix n net E = Some (E', r)"
  shows "peerdb_holds (C, L, ev, tv, cv, P) E' t \<and>
    (\<forall>ps. r = Returned ps \<longrightarrow> set ps \<subseteq> ran t \<and> (n \<noteq> 0 \<longrightarrow> length ps \<le> unat n))"
proof -
  obtain m where m: "store_holds (L, ev, tv, m_database P) E m" "table_of C m t" using E by auto
  have laws: "network_laws C" "lmdb_laws L ev tv" "cursor_laws L tv cv" using p by simp_all
  obtain E1 r1 where g: "db_get_all L (m_database P) E = Some (E1, r1)"
    using run by (auto simp: peerdb_peers_def db_get_all_values_def io_bind_def split: option.splits)
  note G = get_all_in [OF laws(2,3) m(1) g]
  show ?thesis
  proof (cases r1)
    case Thrown
    then show ?thesis using run g G m(2) by (auto simp: peerdb_peers_def db_get_all_values_def io_bind_def)
  next
    case (Returned vs)
    then obtain ps where ps: "read_each (peer_deserialize C) vs = Returned ps" "set ps \<subseteq> ran t"
      using read_each_table [OF laws(1) m(2)] G by blast
    then show ?thesis
      using run g G Returned m(2) set_select_peers [OF mix, where C = C and n = n and net = net and ps = ps]
      by (auto simp: peerdb_peers_def db_get_all_values_def io_bind_def io_return_def simp del: store_holds.simps)
  qed
qed

lemma get_value_law:
  assumes p: "peerdb_lawful (C, L, ev, tv, cv, P)" and E: "peerdb_holds (C, L, ev, tv, cv, P) E t"
    and run: "peerdb_get C L P i E = Some (E', r)"
  shows "peerdb_holds (C, L, ev, tv, cv, P) E' t \<and>
    (r = Thrown \<or> r = Returned (case t i of None \<Rightarrow> (LMDB_NOTFOUND, None) | Some q \<Rightarrow> (SUCCESS, Some q)))"
proof -
  obtain m where m: "store_holds (L, ev, tv, m_database P) E m" "table_of C m t" using E by auto
  have C: "network_laws C" and q: "store_lawful (L, ev, tv, m_database P)" using p by simp_all
  obtain r1 E1 where g: "db_get L (m_database P) (key_serialize C i) E = (r1, E1)" by fastforce
  then have "store_get (L, ev, tv, m_database P) (key_serialize C i) E = (r1, E1)" by simp
  note G = lmdb_store.get_law [OF q m(1) this]
  have "peer_deserialize C (peer_serialize C x) = Some (x, [])" if "t i = Some x" for x
    using table_entry [OF m(2) that] peer.read_back_all [OF C] by simp
  then show ?thesis
    using run g G m(2) table_lookup [OF C m(2), of i]
    by (cases "t i") (auto simp: peerdb_get_def io_call_def db_get_value_def simp del: store_holds.simps)
qed

interpretation pdb: peer_directory peerdb_lawful peerdb_holds peerdb_self peerdb_accepts
  directory_add directory_del directory_get directory_peers
proof (unfold_locales, goal_cases)
  case (1 p s t i q x)
  obtain C L ev tv cv P where P: "p = (C, L, ev, tv, cv, P)" by (metis prod_cases6)
  from 1 obtain m where "table_of C m t" by (auto simp: P)
  from table_entry [OF this 1(3)] show ?case
    using wf_peer_drop_port [of C q] by (auto simp: P storable_def wf_peer_def wf_ip_def drop_port_def)
next
  case (2 p q t now)
  obtain C L ev tv cv P where P: "p = (C, L, ev, tv, cv, P)" by (metis prod_cases6)
  have C: "network_laws C" "lmdb_laws L ev tv" "storable C q" using 2 by (simp_all add: P)
  have "io_post (\<lambda>E. peerdb_holds p E t) (db_put L (m_database P) (key_serialize C (peer_id q)) (peer_serialize C q) 0)
      (\<lambda>r E. peerdb_holds p E (if r = Returned SUCCESS then t(peer_id q \<mapsto> drop_port q) else t))"
  proof (rule io_postI)
    fix E E' r assume "peerdb_holds p E t"
      and run: "db_put L (m_database P) (key_serialize C (peer_id q)) (peer_serialize C q) 0 E = Some (E', r)"
    then obtain m where m: "store_holds (L, ev, tv, m_database P) E m" "table_of C m t" by (auto simp: P)
    have "store_holds (L, ev, tv, m_database P) E'
        (if r = Returned SUCCESS then m(key_serialize C (peer_id q) \<mapsto> peer_serialize C q) else m)"
      by (rule lmdb_store.put_law [OF _ m(1)]) (use C(2) run in simp_all)
    then show "peerdb_holds p E' (if r = Returned SUCCESS then t(peer_id q \<mapsto> drop_port q) else t)"
      using m(2) table_add [OF C(1) m(2) C(3)] unfolding P peerdb_holds.simps by (auto simp del: store_holds.simps)
  qed
  then show ?case by (auto simp: P peerdb_add_def io_post_def io_return_def not_less)
next
  case (3 p t i)
  obtain C L ev tv cv P where P: "p = (C, L, ev, tv, cv, P)" by (metis prod_cases6)
  have C: "network_laws C" "lmdb_laws L ev tv" using 3 by (simp_all add: P)
  show ?case
  proof (rule io_postI)
    fix E E' r assume "peerdb_holds p E t" and run: "directory_del p i E = Some (E', r)"
    then obtain m where m: "store_holds (L, ev, tv, m_database P) E m" "table_of C m t" by (auto simp: P)
    have "store_holds (L, ev, tv, m_database P) E'
        (if r = Returned SUCCESS then m(key_serialize C i := None) else m)"
      by (rule conjunct1 [OF lmdb_store.del_law [OF _ m(1)]]) (use C(2) run in \<open>simp_all add: P peerdb_del_def\<close>)
    then show "peerdb_holds p E' (if r = Returned SUCCESS then t(i := None) else t)"
      using m(2) table_del [OF C(1) m(2)] unfolding P peerdb_holds.simps by (auto simp del: store_holds.simps)
  qed
next
  case (4 p t i)
  obtain C L ev tv cv P where P: "p = (C, L, ev, tv, cv, P)" by (metis prod_cases6)
  show ?case using get_value_law 4 unfolding P io_post_def directory_get.simps by blast
next
  case (5 p mix t n net)
  obtain C L ev tv cv P where P: "p = (C, L, ev, tv, cv, P)" by (metis prod_cases6)
  show ?case using peers_law [OF _ _ 5(2)] 5(1) unfolding P io_post_def directory_peers.simps by blast
qed

section \<open>Complete listings\<close>

lemma distinct_ids:
  assumes m: "table_of C m t" and ks: "distinct ks" "set ks = dom m"
    and ps: "map (the \<circ> m) ks = map (peer_serialize C) ps" "set ps \<subseteq> ran t" and C: "network_laws C"
  shows "distinct (map peer_id ps)" "set ps = ran t"
proof -
  have wf: "wf_peer C q" "t (peer_id q) = Some q" if "q \<in> ran t" for q
    using that table_entry [OF m] by (auto simp: ran_def)
  have len: "length ps = length ks" using ps(1) by (metis length_map)
  have "ks ! n = key_serialize C (peer_id (ps ! n))" if "n < length ks" for n
  proof -
    from len have q: "ps ! n \<in> ran t" using ps(2) that by auto
    have "ks ! n \<in> dom m" using ks(2) that nth_mem by blast
    then obtain i where i: "ks ! n = key_serialize C i" "i \<in> dom t" using table_dom [OF C m] by auto
    then obtain x where x: "t i = Some x" by auto
    have "peer_serialize C (ps ! n) = peer_serialize C x"
      using ps(1) len that i x table_lookup [OF C m, of i]
      by (metis comp_apply nth_map option.map(2) option.sel)
    then have "ps ! n = x" using peer.ser_inject [OF C] wf [OF q] table_entry [OF m x] by blast
    then show ?thesis using i x table_entry [OF m x] by simp
  qed
  then have keys: "ks = map (key_serialize C \<circ> peer_id) ps"
    using len by (intro nth_equalityI) simp_all
  then show "distinct (map peer_id ps)"
    using ks(1) by (metis distinct_map map_map)
  have "q \<in> set ps" if "q \<in> ran t" for q
  proof -
    have "key_serialize C (peer_id q) \<in> dom m" using wf(2) [OF that] table_lookup [OF C m] by auto
    then obtain q' where q': "q' \<in> set ps" "key_serialize C (peer_id q) = key_serialize C (peer_id q')"
      using keys ks(2) by auto
    then have "peer_id q = peer_id q'" using key_serialize_inj [OF C] by (auto dest: injD)
    then show ?thesis using q'(1) ps(2) wf(2) [OF that] wf(2) [of q'] by auto
  qed
  then show "set ps = ran t" using ps(2) by blast
qed

lemma get_all_complete:
  assumes p: "peerdb_lawful (C, L, ev, tv, cv, P)" and E: "peerdb_holds (C, L, ev, tv, cv, P) E t"
    and card: "card (dom t) < 2 ^ 64"
    and run: "db_get_all_values L (peer_deserialize C) (m_database P) E = Some (E', Returned ps)"
  shows "distinct (map peer_id ps) \<and> set ps = ran t"
proof -
  let ?D = "m_database P"
  let ?p = "(L, ev, tv, cv, ?D)"
  have laws: "network_laws C" "listing_lawful ?p" using p by simp_all
  obtain m where m: "listing_holds ?p E m" "table_of C m t" using E by auto
  have cm: "card (dom m) < 2 ^ 64" using table_card [OF laws(1) m(2)] card by simp
  obtain vs where g: "db_get_all L ?D E = Some (E', Returned vs)" "read_each (peer_deserialize C) vs = Returned ps"
    using run by (auto simp: db_get_all_values_def io_bind_def split: option.splits outcome.splits)
  have "listing_get ?p = db_get L ?D" by (simp add: fun_eq_iff)
  then have "io_bind (listing_keys ?p) (get_values (listing_get ?p)) E = Some (E', Returned vs)"
    using g(1) by (simp add: db_get_all_def)
  from io_postD [OF lmdb_listing.get_all_law [OF laws(2) cm] m(1) this]
  have vs: "finite (dom m)" "vs = map (the \<circ> m) (sorted_list_of_set (dom m))" by auto
  then have "set vs \<subseteq> ran m" by (auto simp: ran_def)
  then obtain qs where qs: "read_each (peer_deserialize C) vs = Returned qs" "vs = map (peer_serialize C) qs"
    "set qs \<subseteq> ran t" using read_each_table [OF laws(1) m(2)] by blast
  have "ps = qs" using g(2) qs(1) by simp
  then show ?thesis
    using distinct_ids [OF m(2) _ _ _ _ laws(1), of "sorted_list_of_set (dom m)" qs] vs qs by auto
qed

text \<open>
  Asking for all peers gives every entry of the table once, or those of one network.
\<close>

lemma peers_complete:
  assumes p: "peerdb_lawful (C, L, ev, tv, cv, P)" and E: "peerdb_holds (C, L, ev, tv, cv, P) E t"
    and card: "card (dom t) < 2 ^ 64" and mix: "\<And>ps. mset (mix ps) = mset ps"
    and run: "peerdb_peers C L P mix 0 net E = Some (E', Returned ps)"
  shows "distinct (map peer_id ps)" "set ps = {q \<in> ran t. key_empty C net \<or> peer_network_id q = net}"
proof -
  obtain qs where g: "db_get_all_values L (peer_deserialize C) (m_database P) E = Some (E', Returned qs)"
    and ps: "ps = select_peers C mix 0 net qs"
    using run by (auto simp: peerdb_peers_def io_bind_def io_return_def split: option.splits outcome.splits)
  note Q = get_all_complete [OF p E card g]
  define fs where "fs = (if \<not> key_empty C net then filter (\<lambda>q. peer_network_id q = net) qs else qs)"
  have "ps = mix fs" by (simp add: ps select_peers_def fs_def Let_def)
  then have m: "mset ps = mset fs" using mix by simp
  then have "set ps = set fs" by (metis set_mset_mset)
  then show "set ps = {q \<in> ran t. key_empty C net \<or> peer_network_id q = net}"
    using Q by (auto simp: fs_def split: if_splits)
  have "mset (map peer_id ps) = mset (map peer_id fs)" using m by simp
  moreover have "distinct (map peer_id fs)" using Q by (auto simp: fs_def distinct_map_filter)
  ultimately show "distinct (map peer_id ps)" by (metis mset_eq_imp_distinct_iff)
qed

section \<open>Our own peer id\<close>

text \<open>
  What is recorded is what the constructor takes, and what it takes is what is recorded then,
  unless writing fails. Nothing else changes.
\<close>

abbreviation recorded_id :: "'z network_scheme \<Rightarrow> LMDBDatabase \<Rightarrow> contents \<Rightarrow> bytes option" where
  "recorded_id C d c \<equiv> c (m_dbi d) (key_serialize C PEER_ID_IDENTIFIER)"

lemma own_peer_id_result:
  assumes C: "network_laws C" and L: "lmdb_laws L ev tv"
    and E: "stored ev E c" "m_open_txns E + 1 \<noteq> 0" "tsm_at (m_databases E) (db_id d) = Some d"
    and run: "own_peer_id C L d random_id E = Some (E', Returned own)"
  shows "frame E E' \<and> (\<forall>i. recorded_id C d c = Some (key_serialize C i) \<longrightarrow> own = i) \<and>
    (\<exists>c'. stored ev E' c' \<and>
      (c' = c \<or> c' = c(m_dbi d := (c (m_dbi d))(key_serialize C PEER_ID_IDENTIFIER \<mapsto> key_serialize C own))))"
proof -
  let ?k = "key_serialize C PEER_ID_IDENTIFIER"
  obtain r1 E1 where g: "db_get L d ?k E = (r1, E1)" by fastforce
  note G = db_read_stored [OF L E(1) g [unfolded db_get_def]]
  have hold: "store_holds (L, ev, tv, d) E (c (m_dbi d))" using E by auto
  have "r1 = Thrown \<or> r1 = Returned (case c (m_dbi d) ?k of None \<Rightarrow> (LMDB_NOTFOUND, []) | Some v \<Rightarrow> (SUCCESS, v))"
    using lmdb_store.get_law [of "(L, ev, tv, d)" E "c (m_dbi d)" ?k r1 E1] hold g L by simp
  moreover have "r1 \<noteq> Thrown" using run g by (auto simp: own_peer_id_def io_bind_def io_call_def db_get_value_def)
  ultimately have r1: "r1 = Returned (case c (m_dbi d) ?k of None \<Rightarrow> (LMDB_NOTFOUND, []) | Some v \<Rightarrow> (SUCCESS, v))"
    by blast
  have own: "own = i" if "c (m_dbi d) ?k = Some (key_serialize C i)" for i
    using run g r1 that
    by (auto simp: own_peer_id_def io_bind_def io_call_def io_return_def db_get_value_def wire network_lawsD(2) [OF C]
        split: option.splits prod.splits outcome.splits)
  obtain r2 where p: "db_put L d ?k (key_serialize C own) 0 E1 = Some (E', r2)"
    using run g r1
    by (cases "c (m_dbi d) ?k")
      (auto simp: own_peer_id_def io_bind_def io_call_def io_return_def db_get_value_def Let_def
        split: option.splits prod.splits outcome.splits)
  have h: "handle (m_databases E1) d = m_dbi d" by (rule handle_open) (use G(2) E(3) in \<open>simp add: frameD\<close>)
  have "m_open_txns E1 + 1 \<noteq> 0" using G(2) E(2) by (simp add: frameD)
  from db_put_atomic [OF L G(1) this p, unfolded h] obtain c' where
    "frame E1 E'" "stored ev E' c'" "atomic_result c [put_change (m_dbi d) ?k (key_serialize C own)] r2 c'" by blast
  then show ?thesis
    using frame_trans [OF G(2)] own by (auto simp: atomic_result_def put_change_def split: if_splits)
qed

lemma peerdb_make_result:
  assumes C: "network_laws C" and L: "lmdb_laws L ev tv" "open_laws L tv"
    and E: "stored ev E c" "m_open_txns E + 1 \<noteq> 0" "databases_ok C E"
    and run: "peerdb_make C L random_id E = Some (E', Returned P)"
  shows "\<exists>d c'. stored ev E' c' \<and> databases_ok C E' \<and> m_open_txns E' = m_open_txns E \<and>
     store_holds (L, ev, tv, m_database P) E' (c' (m_dbi (m_database P))) \<and>
     tsm_at (m_databases E') (sha3 C (string_bytes ''local'')) = Some d \<and>
     (\<forall>d0. tsm_at (m_databases E) (sha3 C (string_bytes ''local'')) = Some d0 \<longrightarrow> d = d0) \<and>
     (\<forall>i. recorded_id C d c = Some (key_serialize C i) \<longrightarrow> m_peer_id P = i) \<and>
     (c' = c \<or> c' = c(m_dbi d := (c (m_dbi d))(key_serialize C PEER_ID_IDENTIFIER \<mapsto> key_serialize C (m_peer_id P))))"
proof -
  have st: "strict_total (key_less C)" by (rule crypto_lawsD(2) [OF network_lawsD(1) [OF C]])
  obtain r1 E1 where o1: "open_database C L ''peerlist'' 0 E = (r1, E1)" by fastforce
  obtain D where D: "r1 = Returned D" using run o1 by (cases r1) (auto simp: peerdb_make_def io_bind_def io_call_def)
  note O1 = open_database_result [OF st L E o1]
  have E1: "stored ev E1 c" "m_open_txns E1 + 1 \<noteq> 0" "databases_ok C E1" using O1(1-3) E(2) by simp_all
  obtain r2 E2 where o2: "open_database C L ''local'' 0 E1 = (r2, E2)" by fastforce
  obtain d where d: "r2 = Returned d" using run o1 D o2 by (cases r2) (auto simp: peerdb_make_def io_bind_def io_call_def)
  note O2 = open_database_result [OF st L E1 o2]
  have E2: "m_open_txns E2 + 1 \<noteq> 0" "tsm_at (m_databases E2) (db_id d) = Some d" "db_id d = sha3 C (string_bytes ''local'')"
    using O2(2) O2(7) [OF d] E1(2) by auto
  obtain own where own: "own_peer_id C L d random_id E2 = Some (E', Returned own)" "P = \<lparr>m_peer_id = own, m_database = D\<rparr>"
    using run o1 D o2 d
    by (auto simp: peerdb_make_def io_bind_def io_call_def io_return_def split: option.splits outcome.splits)
  obtain c' where R: "frame E2 E'" "\<forall>i. recorded_id C d c = Some (key_serialize C i) \<longrightarrow> own = i" "stored ev E' c'"
    "c' = c \<or> c' = c(m_dbi d := (c (m_dbi d))(key_serialize C PEER_ID_IDENTIFIER \<mapsto> key_serialize C own))"
    using own_peer_id_result [OF C L(1) O2(1) E2(1,2) own(1)] by blast
  have at: "tsm_at (m_databases E2) (db_id D) = Some D" using O2(6) O1(7) [OF D] by blast
  have "d = d0" if "tsm_at (m_databases E) (sha3 C (string_bytes ''local'')) = Some d0" for d0
    using O2(6) [OF O1(6) [OF that]] E2(2,3) by simp
  moreover have "databases_ok C E'" "m_open_txns E' = m_open_txns E"
    using O2(2,3) O1(2) R(1) by (simp_all add: frameD databases_ok_def)
  moreover have "store_holds (L, ev, tv, D) E' (c' (m_dbi D))"
    using R(1,3) E2(1) at by (auto simp: frameD)
  moreover have "tsm_at (m_databases E') (sha3 C (string_bytes ''local'')) = Some d"
    using R(1) E2(2,3) by (simp add: frameD)
  ultimately show ?thesis using R(2-4) unfolding own(2) PeerDB.simps by blast
qed

end
