(* ===== verification/Utilities.thy ===== *)
theory Utilities
  imports Network_Types
begin

text \<open>
  The string helpers of \<open>src/utilities/utilities.cpp\<close> and the normal form of a host and port that
  the node, the sockets and their monitor use. \<open>None\<close> is the exception of the address parser. The
  printing of tables is in \<open>Console\<close>.
\<close>

section \<open>Splitting and joining\<close>

text \<open>The loop of \<open>str_split\<close> over the positions of the separator.\<close>

function str_split :: "string \<Rightarrow> char \<Rightarrow> string list" where
  "str_split input ch =
     (let part = takeWhile (\<lambda>c. c \<noteq> ch) input in
      case dropWhile (\<lambda>c. c \<noteq> ch) input of
        [] \<Rightarrow> [part]
      | _ # rest \<Rightarrow> part # str_split rest ch)"
  by pat_completeness auto
termination
proof (relation "measure (\<lambda>(input, ch). length input)", simp)
  fix input rest :: string and ch x part
  assume "dropWhile (\<lambda>c. c \<noteq> ch) input = x # rest"
  then have "length (x # rest) \<le> length input" by (metis length_dropWhile_le)
  then show "((rest, ch), input, ch) \<in> measure (\<lambda>(input, ch). length input)" by simp
qed

declare str_split.simps [simp del]

definition str_join :: "string list \<Rightarrow> char \<Rightarrow> string" where
  "str_join input ch = butlast (concat (map (\<lambda>part. part @ [ch]) input))"

definition str_pad :: "string \<Rightarrow> nat \<Rightarrow> string" where
  "str_pad input n = (if length input < n then input @ replicate (n - length input) CHR '' '' else input)"

definition trim_chars :: "char set" where
  "trim_chars = {CHR 0x09, CHR 0x0A, CHR 0x0D, CHR 0x0C, CHR 0x0B}"

definition tolower :: "char \<Rightarrow> char" where
  "tolower c = (let n = of_char c :: nat in if 65 \<le> n \<and> n \<le> 90 then char_of (n + 32) else c)"

definition str_trim :: "string \<Rightarrow> bool \<Rightarrow> string" where
  "str_trim str to_lowercase =
     (let str = rev (dropWhile (\<lambda>c. c \<in> trim_chars) (rev str));
          str = dropWhile (\<lambda>c. c \<in> trim_chars) str in
      if to_lowercase then map tolower str else str)"

lemma str_split_last: "dropWhile (\<lambda>c. c \<noteq> ch) s = [] \<Longrightarrow> str_split s ch = [s]"
  using takeWhile_dropWhile_id [of "\<lambda>c. c \<noteq> ch" s] unfolding str_split.simps [of s ch] Let_def
  by (metis append_Nil2 list.case(1))

lemma str_split_part:
  "dropWhile (\<lambda>c. c \<noteq> ch) s = x # rest \<Longrightarrow> str_split s ch = takeWhile (\<lambda>c. c \<noteq> ch) s # str_split rest ch"
  unfolding str_split.simps [of s ch] Let_def by simp

lemma str_split_not_Nil: "str_split s ch \<noteq> []"
  by (subst str_split.simps) (simp add: Let_def split: list.splits)

lemma str_join_Cons: "ps \<noteq> [] \<Longrightarrow> str_join (p # ps) ch = p @ ch # str_join ps ch"
  by (cases ps) (simp_all add: str_join_def butlast_append)

lemma str_join_single [simp]: "str_join [p] ch = p"
  by (simp add: str_join_def)

lemma dropWhile_Cons_split:
  "dropWhile (\<lambda>c. c \<noteq> ch) s = x # rest \<Longrightarrow> s = takeWhile (\<lambda>c. c \<noteq> ch) s @ ch # rest"
  by (metis (mono_tags) dropWhile_eq_Cons_conv takeWhile_dropWhile_id)

lemma join_split: "str_join (str_split s ch) ch = s"
proof (induction "length s" arbitrary: s rule: less_induct)
  case less
  show ?case
  proof (cases "dropWhile (\<lambda>c. c \<noteq> ch) s")
    case Nil
    then show ?thesis unfolding str_split_last [OF Nil] by simp
  next
    case (Cons x rest)
    note s = dropWhile_Cons_split [OF Cons]
    have "length rest < length s" using arg_cong [OF s, of length] by simp
    then have "str_join (str_split rest ch) ch = rest" using less by blast
    then show ?thesis
      unfolding str_split_part [OF Cons] using s by (simp add: str_join_Cons str_split_not_Nil)
  qed
qed

lemma split_parts: "p \<in> set (str_split s ch) \<Longrightarrow> ch \<notin> set p"
proof (induction "length s" arbitrary: s rule: less_induct)
  case less
  show ?case
  proof (cases "dropWhile (\<lambda>c. c \<noteq> ch) s")
    case Nil
    then show ?thesis using less.prems unfolding str_split_last [OF Nil] by auto
  next
    case (Cons x rest)
    have "length rest < length s" using arg_cong [OF dropWhile_Cons_split [OF Cons], of length] by simp
    then show ?thesis
      using less unfolding str_split_part [OF Cons] by (auto dest: set_takeWhileD)
  qed
qed

lemma split_join:
  assumes "ps \<noteq> []" "\<forall>p \<in> set ps. ch \<notin> set p"
  shows "str_split (str_join ps ch) ch = ps"
  using assms
proof (induction ps)
  case (Cons p ps)
  have p: "takeWhile (\<lambda>c. c \<noteq> ch) (p @ ch # r) = p" "dropWhile (\<lambda>c. c \<noteq> ch) (p @ ch # r) = ch # r" for r
    using Cons.prems by (auto simp: takeWhile_append dropWhile_append)
  have q: "dropWhile (\<lambda>c. c \<noteq> ch) p = []" using Cons.prems by auto
  show ?case
  proof (cases "ps = []")
    case True
    then show ?thesis using str_split_last [OF q] by simp
  next
    case False
    then show ?thesis using Cons str_split_part [OF p(2)] p(1) by (simp add: str_join_Cons)
  qed
qed simp

section \<open>Hosts and ports\<close>

text \<open>\<open>std::stoi\<close>: blanks, a sign, then digits up to the first other character; \<open>None\<close> is its exception.\<close>

definition is_digit :: "char \<Rightarrow> bool" where
  "is_digit c \<longleftrightarrow> 48 \<le> (of_char c :: nat) \<and> (of_char c :: nat) \<le> 57"

definition digits_value :: "string \<Rightarrow> int" where
  "digits_value ds = foldl (\<lambda>n c. n * 10 + (of_char c - 48)) 0 ds"

definition stoi :: "string \<Rightarrow> int option" where
  "stoi s =
     (let s = dropWhile (\<lambda>c. c = CHR '' '' \<or> c \<in> trim_chars) s;
          negative = (case s of c # _ \<Rightarrow> c = CHR ''-'' | [] \<Rightarrow> False);
          s = (case s of c # r \<Rightarrow> if c = CHR ''-'' \<or> c = CHR ''+'' then r else s | [] \<Rightarrow> []);
          ds = takeWhile is_digit s;
          n = (if negative then - digits_value ds else digits_value ds) in
      if ds = [] \<or> n < - (2 ^ 31) \<or> 2 ^ 31 \<le> n then None else Some n)"

text \<open>What follows the first \<open>//\<close>.\<close>

fun after_slashes :: "string \<Rightarrow> string option" where
  "after_slashes [] = None"
| "after_slashes (c # s) =
     (case s of
        d # r \<Rightarrow> if c = CHR ''/'' \<and> d = CHR ''/'' then Some r else after_slashes s
      | [] \<Rightarrow> None)"

text \<open>The part behind the last colon is a port when it has no dot and a number can be read from it.\<close>

definition split_port :: "string \<Rightarrow> string \<times> u16" where
  "split_port host =
     (if CHR '':'' \<in> set host then
        let parts = str_split host CHR '':''; p = last parts in
        if CHR ''.'' \<notin> set p then
          (case stoi p of
             Some n \<Rightarrow> (str_join (butlast parts) CHR '':'', word_of_int n)
           | None \<Rightarrow> (str_join parts CHR '':'', 0))
        else (str_join parts CHR '':'', 0)
      else (host, 0))"

definition host_hash :: "'z network_scheme \<Rightarrow> string \<Rightarrow> u16 \<Rightarrow> crypto_hash_t" where
  "host_hash C host port = sha3 C (w_bytes C (map of_char host) @ w_varint16 C port)"

definition normalize_host ::
  "'z network_scheme \<Rightarrow> string \<Rightarrow> (string \<times> u16 \<times> crypto_hash_t) option" where
  "normalize_host C host =
     (let host = (case after_slashes host of None \<Rightarrow> host | Some r \<Rightarrow> r);
          (host, port) = split_port host in
      do { a \<leftarrow> ip_address_of_string C host;
           let host = ip_to_string C a;
           Some (host, port, host_hash C host port) })"

definition normalize_host_port ::
  "'z network_scheme \<Rightarrow> string \<Rightarrow> u16 \<Rightarrow> (string \<times> u16 \<times> crypto_hash_t) option" where
  "normalize_host_port C host port =
     do { (h, _, _) \<leftarrow> normalize_host C host; Some (h, port, host_hash C h port) }"

text \<open>A port that is written behind the host is found, and the host is left as it was.\<close>

fun dec :: "nat \<Rightarrow> string" where
  "dec n = (if n < 10 then [char_of (48 + n)] else dec (n div 10) @ [char_of (48 + n mod 10)])"

declare dec.simps [simp del]

lemma digits_value_snoc: "digits_value (ds @ [c]) = digits_value ds * 10 + (of_char c - 48)"
  by (simp add: digits_value_def)

lemma digit_char: "k < 10 \<Longrightarrow> is_digit (char_of (48 + k :: nat))" "k < 10 \<Longrightarrow> (of_char (char_of (48 + k :: nat)) :: int) = 48 + int k"
proof -
  have c: "(of_char (char_of (48 + k :: nat)) :: nat) = 48 + k" if "k < 10" using that by (simp add: of_char_of)
  then show "k < 10 \<Longrightarrow> is_digit (char_of (48 + k :: nat))" by (simp add: is_digit_def)
  have "(of_char (char_of (48 + k :: nat)) :: int) = int (of_char (char_of (48 + k :: nat)))"
    by (simp only: of_nat_of_char)
  then show "k < 10 \<Longrightarrow> (of_char (char_of (48 + k :: nat)) :: int) = 48 + int k" using c by simp
qed

lemma dec_digits: "\<forall>c \<in> set (dec n). is_digit c" "dec n \<noteq> []" "digits_value (dec n) = int n"
proof (induction n rule: dec.induct)
  case (1 n)
  have "int (n div 10) * 10 + int (n mod 10) = int n" using div_mult_mod_eq [of n 10] by linarith
  with 1 show "\<forall>c \<in> set (dec n). is_digit c" "dec n \<noteq> []" "digits_value (dec n) = int n"
    by (cases "n < 10"; subst dec.simps; simp add: digit_char digits_value_snoc; simp add: digits_value_def digit_char)+
qed

lemma split_append:
  assumes "ch \<notin> set d" shows "str_split (s @ ch # d) ch = str_split s ch @ [d]"
proof -
  have "str_split s ch @ [d] \<noteq> []" "\<forall>p \<in> set (str_split s ch @ [d]). ch \<notin> set p"
    using split_parts assms by auto
  from split_join [OF this] have "str_split (str_join (str_split s ch @ [d]) ch) ch = str_split s ch @ [d]" .
  moreover have "str_join (ps @ [d]) ch = str_join ps ch @ ch # d" if "ps \<noteq> []" for ps
    using that by (induction ps) (simp_all add: str_join_def butlast_append)
  ultimately show ?thesis by (simp add: str_split_not_Nil join_split)
qed

lemma digit_not: "is_digit c \<Longrightarrow> c \<noteq> CHR '':'' \<and> c \<noteq> CHR ''.'' \<and> c \<noteq> CHR ''-'' \<and> c \<noteq> CHR ''+'' \<and> c \<noteq> CHR '' ''"
  "is_digit c \<Longrightarrow> c \<notin> trim_chars"
  by (auto simp: is_digit_def trim_chars_def)

lemma stoi_dec: "n < 2 ^ 31 \<Longrightarrow> stoi (dec n) = Some (int n)"
proof -
  assume n: "n < 2 ^ 31"
  obtain c cs where c: "dec n = c # cs" using dec_digits(2) [of n] by (cases "dec n") auto
  then have d: "is_digit c" "\<forall>x \<in> set cs. is_digit x" using dec_digits(1) [of n] by auto
  have t: "takeWhile is_digit cs = cs" using d by (auto simp: takeWhile_eq_all_conv)
  have v: "digits_value (c # cs) = int n" using dec_digits(3) [of n] c by simp
  show ?thesis
    unfolding stoi_def c using d(1) digit_not [OF d(1)] v n by (simp add: Let_def t)
qed

lemma split_port_dec: "split_port (host @ CHR '':'' # dec (unat p)) = (host, p)"
proof -
  have c: "CHR '':'' \<notin> set (dec (unat p))" "CHR ''.'' \<notin> set (dec (unat p))"
    using dec_digits(1) [of "unat p"] digit_not by blast+
  have "unat p < 2 ^ 31" using unsigned_less [where 'a = nat, of p] by simp
  then show ?thesis using c by (simp add: split_port_def split_append stoi_dec join_split)
qed

end
