(* ===== verification/Sockets.thy ===== *)
theory Sockets
  imports Utilities Thread_Safe "HOL-Library.Char_ord" "HOL-Library.List_Lexorder"
begin

text \<open>
  The message envelope (\<open>include/network/zmq_message_envelope.h\<close>), the connection monitor
  (\<open>zmq_shared.cpp\<close>) and the two ends of a connection, \<open>ZMQServer\<close> and \<open>ZMQClient\<close>: the queues
  between the sockets and the node, the table of known connections, and one round of the thread
  that reads from and of the thread that writes to a socket. ZeroMQ itself is external: the record
  \<open>zmq\<close> has its calls, \<open>'k\<close> is the state of a socket.
\<close>

section \<open>Envelopes\<close>

record zmq_message_envelope_t =
  env_to :: crypto_hash_t
  env_from :: crypto_hash_t
  env_subject :: crypto_hash_t
  env_peer_address :: string
  env_payload :: bytes

definition envelope :: "'z crypto_scheme \<Rightarrow> bytes \<Rightarrow> zmq_message_envelope_t" where
  "envelope C data =
     \<lparr>env_to = hash_default C, env_from = hash_default C, env_subject = hash_default C,
      env_peer_address = [], env_payload = data\<rparr>"

definition envelope_to :: "'z crypto_scheme \<Rightarrow> crypto_hash_t \<Rightarrow> bytes \<Rightarrow> zmq_message_envelope_t" where
  "envelope_to C dest data = (envelope C data)\<lparr>env_to := dest\<rparr>"

definition envelope_routed ::
  "'z crypto_scheme \<Rightarrow> crypto_hash_t \<Rightarrow> crypto_hash_t \<Rightarrow> bytes \<Rightarrow> zmq_message_envelope_t" where
  "envelope_routed C dest source data = (envelope C data)\<lparr>env_to := dest, env_from := source\<rparr>"

section \<open>The library\<close>

text \<open>A part of a received message with the two properties the program asks for.\<close>

record zmq_part =
  part_data :: bytes
  part_peer_address :: string
  part_identity :: bytes

text \<open>
  A call that reports \<open>False\<close> throws \<open>zmq::error_t\<close>; \<open>hash_of_bytes\<close> is the constructor of a hash
  from a vector, \<open>hash_bytes\<close> the bytes of a hash, \<open>zmq_wait_connected\<close> whether the monitor saw the
  connection in time.
\<close>

record 'k zmq =
  zmq_bind :: "u16 \<Rightarrow> 'k \<Rightarrow> bool \<times> 'k"
  zmq_connect :: "string \<Rightarrow> 'k \<Rightarrow> bool \<times> 'k"
  zmq_wait_connected :: "'k \<Rightarrow> bool"
  zmq_recv :: "'k \<Rightarrow> zmq_part list option \<times> 'k"
  zmq_send :: "bytes list \<Rightarrow> 'k \<Rightarrow> bool \<times> 'k"
  hash_of_bytes :: "bytes \<Rightarrow> crypto_hash_t option"
  hash_bytes :: "crypto_hash_t \<Rightarrow> bytes"

section \<open>The connection monitor\<close>

datatype zmq_event =
  EVENT_CONNECTED | EVENT_CONNECT_DELAYED | EVENT_CONNECT_RETRIED | EVENT_LISTENING | EVENT_ACCEPTED |
  EVENT_CLOSED | EVENT_DISCONNECTED | EVENT_HANDSHAKE_SUCCEEDED | EVENT_HANDSHAKE_FAILED

record zmq_connection_monitor =
  m_listening :: bool
  m_connected_peers :: "string ThreadSafeSet"
  m_delayed_peers :: "string ThreadSafeSet"
  m_retried_peers :: "string ThreadSafeSet"

definition monitor_make :: zmq_connection_monitor where
  "monitor_make = \<lparr>m_listening = False, m_connected_peers = [], m_delayed_peers = [], m_retried_peers = []\<rparr>"

definition monitor_host :: "'z network_scheme \<Rightarrow> string \<Rightarrow> string option" where
  "monitor_host C addr =
     do { (host, port, _) \<leftarrow> normalize_host C addr; Some (host @ CHR '':'' # dec (unat port)) }"

fun monitor_event ::
  "'z network_scheme \<Rightarrow> zmq_event \<Rightarrow> string \<Rightarrow> zmq_connection_monitor \<Rightarrow> zmq_connection_monitor option" where
  "monitor_event C EVENT_CONNECTED addr M =
     do { host \<leftarrow> monitor_host C addr;
          Some (M\<lparr>m_connected_peers := tss_insert (<) host (m_connected_peers M),
                  m_delayed_peers := tss_erase host (m_delayed_peers M),
                  m_retried_peers := tss_erase host (m_retried_peers M)\<rparr>) }"
| "monitor_event C EVENT_CONNECT_DELAYED addr M =
     do { host \<leftarrow> monitor_host C addr;
          Some (M\<lparr>m_delayed_peers := tss_insert (<) host (m_delayed_peers M),
                  m_retried_peers := tss_erase host (m_retried_peers M),
                  m_connected_peers := tss_erase host (m_connected_peers M)\<rparr>) }"
| "monitor_event C EVENT_CONNECT_RETRIED addr M =
     do { host \<leftarrow> monitor_host C addr;
          Some (M\<lparr>m_retried_peers := tss_insert (<) host (m_retried_peers M),
                  m_delayed_peers := tss_erase host (m_delayed_peers M),
                  m_connected_peers := tss_erase host (m_connected_peers M)\<rparr>) }"
| "monitor_event C EVENT_LISTENING addr M = Some (M\<lparr>m_listening := True\<rparr>)"
| "monitor_event C EVENT_ACCEPTED addr M = Some M"
| "monitor_event C EVENT_CLOSED addr M =
     do { host \<leftarrow> monitor_host C addr;
          Some (M\<lparr>m_connected_peers := tss_erase host (m_connected_peers M)\<rparr>) }"
| "monitor_event C EVENT_DISCONNECTED addr M =
     do { host \<leftarrow> monitor_host C addr;
          Some (M\<lparr>m_connected_peers := tss_erase host (m_connected_peers M)\<rparr>) }"
| "monitor_event C EVENT_HANDSHAKE_SUCCEEDED addr M = Some M"
| "monitor_event C EVENT_HANDSHAKE_FAILED addr M = Some M"

text \<open>The states a monitor passes through, and that a peer is in one of the three sets at most.\<close>

inductive monitor_reach :: "'z network_scheme \<Rightarrow> zmq_connection_monitor \<Rightarrow> bool" for C where
  start: "monitor_reach C monitor_make"
| event: "monitor_reach C M \<Longrightarrow> monitor_event C ev addr M = Some M' \<Longrightarrow> monitor_reach C M'"

definition monitor_ok :: "zmq_connection_monitor \<Rightarrow> bool" where
  "monitor_ok M \<longleftrightarrow>
     set (m_connected_peers M) \<inter> set (m_delayed_peers M) = {} \<and>
     set (m_connected_peers M) \<inter> set (m_retried_peers M) = {} \<and>
     set (m_delayed_peers M) \<inter> set (m_retried_peers M) = {}"

lemma set_tss_insert [simp]: "set (tss_insert (<) (x :: string) s) = insert x (set s)"
  by (induction "(<) :: string \<Rightarrow> string \<Rightarrow> bool" x s rule: set_insert.induct) (auto simp: tss_insert_def)

lemma set_tss_erase [simp]: "set (tss_erase x s) = set s - {x}"
  by (auto simp: tss_erase_def set_erase_def)

lemma monitor_event_ok: "monitor_event C ev addr M = Some M' \<Longrightarrow> monitor_ok M \<Longrightarrow> monitor_ok M'"
  by (cases ev) (auto simp: monitor_ok_def split: Option.bind_splits)

lemma monitor_reach_ok: "monitor_reach C M \<Longrightarrow> monitor_ok M"
proof (induction rule: monitor_reach.induct)
  case start
  then show ?case by (simp add: monitor_ok_def monitor_make_def)
next
  case (event M ev addr M')
  then show ?case using monitor_event_ok by blast
qed

section \<open>The server\<close>

record ZMQServer =
  zs_port :: u16
  zs_identity :: crypto_hash_t
  zs_running :: bool
  zs_connections :: "(crypto_hash_t, string) ThreadSafeMap"
  zs_incoming :: "zmq_message_envelope_t ThreadSafeQueue"
  zs_outgoing :: "zmq_message_envelope_t ThreadSafeQueue"

definition server_make :: "u16 \<Rightarrow> crypto_hash_t \<Rightarrow> ZMQServer" where
  "server_make bind_port random_id =
     \<lparr>zs_port = bind_port, zs_identity = random_id, zs_running = False, zs_connections = [],
      zs_incoming = [], zs_outgoing = []\<rparr>"

definition server_bind :: "('k, 'y) zmq_scheme \<Rightarrow> ZMQServer \<Rightarrow> 'k \<Rightarrow> ErrorCode \<times> ZMQServer \<times> 'k" where
  "server_bind Z S k =
     (let (ok, k) = zmq_bind Z (zs_port S) k in
      if \<not> ok then (ZMQ_BIND_ERROR, S, k) else (SUCCESS, S\<lparr>zs_running := True\<rparr>, k))"

definition server_connected :: "ZMQServer \<Rightarrow> string list" where
  "server_connected S = tsm_each (zs_connections S) (\<lambda>_ addr results. results @ [addr]) []"

definition server_connections :: "ZMQServer \<Rightarrow> nat" where
  "server_connections S = tsm_size (zs_connections S)"

definition server_send :: "zmq_message_envelope_t \<Rightarrow> ZMQServer \<Rightarrow> ZMQServer" where
  "server_send message S =
     (if env_payload message \<noteq> [] \<and> zs_running S then S\<lparr>zs_outgoing := tsq_push message (zs_outgoing S)\<rparr>
      else S)"

text \<open>
  One round of \<open>incoming_thread\<close>. A receive that throws, and a message that is not made of two
  parts, change nothing; \<open>None\<close> is an exception that is not ZeroMQ's and leaves the thread.
\<close>

definition server_incoming ::
  "'z network_scheme \<Rightarrow> ('k, 'y) zmq_scheme \<Rightarrow> ZMQServer \<Rightarrow> 'k \<Rightarrow> (ZMQServer \<times> 'k) option" where
  "server_incoming C Z S k =
     (case zmq_recv Z k of
        (Some [ident, message], k) \<Rightarrow>
          if part_data message \<noteq> [] then
            do { source \<leftarrow> hash_of_bytes Z (part_data ident);
                 (host, _, _) \<leftarrow> normalize_host C (part_peer_address message);
                 let routable_msg =
                   (envelope_routed C (zs_identity S) source (part_data message))\<lparr>env_peer_address := host\<rparr>;
                 let S = (if \<not> tsm_contains (zs_connections S) source
                          then S\<lparr>zs_connections := tsm_insert (key_less C) source host (zs_connections S)\<rparr>
                          else S);
                 Some (S\<lparr>zs_incoming := tsq_push routable_msg (zs_incoming S)\<rparr>, k) }
          else Some (S, k)
      | (_, k) \<Rightarrow> Some (S, k))"

text \<open>Sending to each connection in turn, with the identities whose send failed.\<close>

fun send_each ::
  "('k, 'y) zmq_scheme \<Rightarrow> bytes \<Rightarrow> crypto_hash_t list \<Rightarrow> 'k \<Rightarrow> crypto_hash_t list \<times> 'k" where
  "send_each Z data [] k = ([], k)"
| "send_each Z data (dest # dests) k =
     (let (ok, k) = zmq_send Z [hash_bytes Z dest, data] k;
          (to_delete, k) = send_each Z data dests k in
      (if ok then to_delete else dest # to_delete, k))"

text \<open>One message of \<open>outgoing_thread\<close>: a message without a destination goes to every connection.\<close>

definition server_outgoing ::
  "'z crypto_scheme \<Rightarrow> ('k, 'y) zmq_scheme \<Rightarrow> ZMQServer \<Rightarrow> 'k \<Rightarrow> ZMQServer \<times> 'k" where
  "server_outgoing C Z S k =
     (case tsq_pop (zs_outgoing S) of
        None \<Rightarrow> (S, k)
      | Some (message, rest) \<Rightarrow>
          let S = S\<lparr>zs_outgoing := rest\<rparr> in
          if env_payload message = [] then (S, k)
          else
            let dests = (if key_empty C (env_to message) then map fst (zs_connections S) else [env_to message]);
                (to_delete, k) = send_each Z (env_payload message) dests k in
            (S\<lparr>zs_connections := foldl (\<lambda>cs i. tsm_erase i cs) (zs_connections S) to_delete\<rparr>, k))"

section \<open>The client\<close>

record ZMQClient =
  zc_identity :: crypto_hash_t
  zc_running :: bool
  zc_monitor :: zmq_connection_monitor
  zc_incoming :: "zmq_message_envelope_t ThreadSafeQueue"
  zc_outgoing :: "zmq_message_envelope_t ThreadSafeQueue"

definition client_make :: "crypto_hash_t \<Rightarrow> ZMQClient" where
  "client_make random_id =
     \<lparr>zc_identity = random_id, zc_running = False, zc_monitor = monitor_make, zc_incoming = [], zc_outgoing = []\<rparr>"

definition client_connect ::
  "('k, 'y) zmq_scheme \<Rightarrow> string \<Rightarrow> u16 \<Rightarrow> ZMQClient \<Rightarrow> 'k \<Rightarrow> ErrorCode \<times> ZMQClient \<times> 'k" where
  "client_connect Z host port S k =
     (let (ok, k) = zmq_connect Z (''tcp://'' @ host @ '':'' @ dec (unat port)) k in
      if \<not> ok then (ZMQ_CONNECT_ERROR, S, k)
      else if \<not> zmq_wait_connected Z k then (ZMQ_CONNECT_ERROR, S, k)
      else (SUCCESS, S\<lparr>zc_running := True\<rparr>, k))"

definition client_connected :: "ZMQClient \<Rightarrow> string list" where
  "client_connected S = tss_each (m_connected_peers (zc_monitor S)) (\<lambda>elem results. results @ [elem]) []"

definition client_is_connected :: "ZMQClient \<Rightarrow> bool" where
  "client_is_connected S \<longleftrightarrow> \<not> tss_empty (m_connected_peers (zc_monitor S))"

definition client_send :: "zmq_message_envelope_t \<Rightarrow> ZMQClient \<Rightarrow> ZMQClient" where
  "client_send message S =
     (if env_payload message \<noteq> [] \<and> zc_running S then S\<lparr>zc_outgoing := tsq_push message (zc_outgoing S)\<rparr>
      else S)"

definition client_incoming ::
  "'z network_scheme \<Rightarrow> ('k, 'y) zmq_scheme \<Rightarrow> ZMQClient \<Rightarrow> 'k \<Rightarrow> (ZMQClient \<times> 'k) option" where
  "client_incoming C Z S k =
     (case zmq_recv Z k of
        (Some [message], k) \<Rightarrow>
          if part_data message \<noteq> [] then
            do { source \<leftarrow> hash_of_bytes Z (part_identity message);
                 (host, _, _) \<leftarrow> normalize_host C (part_peer_address message);
                 let routable_msg =
                   (envelope_routed C (zc_identity S) source (part_data message))\<lparr>env_peer_address := host\<rparr>;
                 Some (S\<lparr>zc_incoming := tsq_push routable_msg (zc_incoming S)\<rparr>, k) }
          else Some (S, k)
      | (_, k) \<Rightarrow> Some (S, k))"

definition client_outgoing :: "('k, 'y) zmq_scheme \<Rightarrow> ZMQClient \<Rightarrow> 'k \<Rightarrow> ZMQClient \<times> 'k" where
  "client_outgoing Z S k =
     (case tsq_pop (zc_outgoing S) of
        None \<Rightarrow> (S, k)
      | Some (message, rest) \<Rightarrow>
          let S = S\<lparr>zc_outgoing := rest\<rparr> in
          if env_payload message = [] then (S, k) else (S, snd (zmq_send Z [env_payload message] k)))"

section \<open>The table of connections\<close>

text \<open>
  Sending forgets the connections whose send failed and no other; a message to one destination can
  only lose that one.
\<close>

lemma send_each_failed: "set (fst (send_each Z data dests k)) \<subseteq> set dests"
proof (induction dests arbitrary: k)
  case (Cons d dests)
  obtain ok k1 where s: "zmq_send Z [hash_bytes Z d, data] k = (ok, k1)" by fastforce
  obtain del k2 where e: "send_each Z data dests k1 = (del, k2)" by fastforce
  show ?case using Cons.IH [of k1] by (auto simp: s e)
qed simp

lemma erase_all_at:
  "tsm_at (foldl (\<lambda>cs i. tsm_erase i cs) cs is) j = (if j \<in> set is then None else tsm_at cs j)"
proof (induction "is" arbitrary: cs)
  case (Cons i "is")
  have "tsm_at (tsm_erase i cs) j = (if j = i then None else tsm_at cs j)"
    by (induction cs) (auto simp: tsm_at_def tsm_erase_def map_erase_def)
  then show ?case using Cons.IH [of "tsm_erase i cs"] by auto
qed simp

lemma server_outgoing_connections:
  assumes "server_outgoing C Z S k = (S', k')"
  shows "tsm_at (zs_connections S') j = tsm_at (zs_connections S) j \<or>
    tsm_at (zs_connections S') j = None \<and> (\<exists>message rest. tsq_pop (zs_outgoing S) = Some (message, rest) \<and>
      env_payload message \<noteq> [] \<and> (key_empty C (env_to message) \<or> env_to message = j))"
proof (cases "tsq_pop (zs_outgoing S)")
  case None
  then show ?thesis using assms by (simp add: server_outgoing_def)
next
  case (Some mr)
  obtain message rest where mr: "mr = (message, rest)" by fastforce
  define dests where "dests =
    (if key_empty C (env_to message) then map fst (zs_connections S) else [env_to message])"
  obtain del k2 where d: "send_each Z (env_payload message) dests k = (del, k2)" by fastforce
  have "set del \<subseteq> set dests" using send_each_failed [of Z "env_payload message" dests k] d by simp
  then have "j \<in> set del \<Longrightarrow> key_empty C (env_to message) \<or> env_to message = j"
    by (auto simp: dests_def split: if_splits)
  moreover have "zs_connections S' = (if env_payload message = [] then zs_connections S
      else foldl (\<lambda>cs i. tsm_erase i cs) (zs_connections S) del)"
    using assms Some mr d unfolding dests_def
    by (cases "key_empty C (env_to message)") (auto simp: server_outgoing_def Let_def)
  ultimately show ?thesis using Some mr by (auto simp: erase_all_at)
qed

end
