(* ===== verification/P2p_Node.thy ===== *)
theory P2p_Node
  imports Peer_Database Sockets
begin

text \<open>
  The peer-to-peer node (\<open>src/p2p/p2p_node.cpp\<close>): the packet handlers over the peer database, the
  connections it makes, the packets its threads send, and its start. Every method is a program over
  the node's state; what a thread does in one round is one program. The readings of the clock are
  part of the state, as the successive values \<open>node_clock\<close>; \<open>mix\<close> is the shuffle for a seed,
  \<open>dial\<close> gives the identity and the socket of a new client, \<open>Z\<close> are the calls of ZeroMQ.
\<close>

section \<open>The state\<close>

record network_msg_t =
  msg_from :: crypto_hash_t
  msg_packet :: packet_data_t
  msg_is_server :: bool

record 'e Node =
  node_running :: bool
  node_seed_mode :: bool
  node_peer_db :: PeerDB
  node_env :: "'e LMDB"
  node_server :: ZMQServer
  node_clients :: "(crypto_hash_t, ZMQClient) ThreadSafeMap"
  node_completed :: "crypto_hash_t ThreadSafeSet"
  node_messages :: "network_msg_t ThreadSafeQueue"
  node_network_id :: crypto_hash_t
  node_clock :: "nat \<Rightarrow> u64"
  node_ticks :: nat

type_synonym ('e, 'a) node_io = "('e Node, 'a) io"

type_synonym shuffle = "u64 \<Rightarrow> network_peer_t list \<Rightarrow> network_peer_t list"

definition node_time :: "('e, u64) node_io" where
  "node_time N = Some (N\<lparr>node_ticks := Suc (node_ticks N)\<rparr>, Returned (node_clock N (node_ticks N)))"

definition in_env :: "(PeerDB \<Rightarrow> ('e LMDB, 'a) io) \<Rightarrow> ('e, 'a) node_io" where
  "in_env f N = map_option (\<lambda>(E, r). (N\<lparr>node_env := E\<rparr>, r)) (f (node_peer_db N) (node_env N))"

section \<open>The peer database of the node\<close>

definition node_peers where
  "node_peers (C :: 'z network_scheme) (L :: ('e, 't, 'c, 'y) lmdb_cursors_scheme) (mix :: shuffle) n net =
     io_bind node_time (\<lambda>seed. in_env (\<lambda>P. peerdb_peers C L P (mix seed) n net))"

definition node_add where
  "node_add (C :: 'z network_scheme) (L :: ('e, 't, 'c, 'y) lmdb_cursors_scheme) q =
     io_bind node_time (\<lambda>now. in_env (\<lambda>P. peerdb_add C L P now q))"

definition node_touch where
  "node_touch (C :: 'z network_scheme) (L :: ('e, 't, 'c, 'y) lmdb_cursors_scheme) i =
     io_bind node_time (\<lambda>now. io_bind node_time (\<lambda>now'. in_env (\<lambda>P. peerdb_touch C L P now now' i)))"

definition build_peer_list where
  "build_peer_list (C :: 'z network_scheme) (L :: ('e, 't, 'c, 'y) lmdb_cursors_scheme) mix =
     io_bind (node_peers C L mix 0 (hash_default C))
       (\<lambda>results. io_return (if length results > MAXIMUM_PEERS_EXCHANGED
                             then take MAXIMUM_PEERS_EXCHANGED results else results))"

definition build_handshake where
  "build_handshake (C :: 'z network_scheme) (L :: ('e, 't, 'c, 'y) lmdb_cursors_scheme) mix =
     io_bind (io_gets (\<lambda>N. packet_handshake (m_peer_id (node_peer_db N)) (zs_port (node_server N)) (node_network_id N)))
       (\<lambda>packet. io_bind (build_peer_list C L mix) (\<lambda>ps. io_return (packet\<lparr>packet_peers := ps\<rparr>)))"

section \<open>Sending\<close>

definition node_reply :: "zmq_message_envelope_t \<Rightarrow> ('e, unit) node_io" where
  "node_reply message = io_modify (\<lambda>N. N\<lparr>node_server := server_send message (node_server N)\<rparr>)"

definition node_reply_data :: "'z network_scheme \<Rightarrow> crypto_hash_t \<Rightarrow> packet_data_t \<Rightarrow> ('e, unit) node_io" where
  "node_reply_data C dest packet = node_reply (envelope_to C dest (data_serialize C packet))"

definition node_send :: "zmq_message_envelope_t \<Rightarrow> ('e, unit) node_io" where
  "node_send message =
     io_modify (\<lambda>N. N\<lparr>node_clients := map (\<lambda>(i, client). (i, client_send message client)) (node_clients N)\<rparr>)"

definition node_send_data :: "'z network_scheme \<Rightarrow> packet_data_t \<Rightarrow> ('e, unit) node_io" where
  "node_send_data C packet = node_send (envelope C (data_serialize C packet))"

text \<open>One round of \<open>send_keepalives\<close> and of \<open>send_peer_exchanges\<close>.\<close>

definition send_keepalive :: "'z network_scheme \<Rightarrow> ('e, unit) node_io" where
  "send_keepalive C =
     io_bind (io_gets (\<lambda>N. packet_keepalive (m_peer_id (node_peer_db N))))
       (\<lambda>packet. io_bind (node_send (envelope C (keepalive_serialize C packet)))
          (\<lambda>_. node_reply (envelope C (keepalive_serialize C packet))))"

definition send_peer_exchange :: "'z network_scheme \<Rightarrow> ('e, unit) node_io" where
  "send_peer_exchange C =
     io_bind (io_gets (\<lambda>N. packet_peer_exchange (m_peer_id (node_peer_db N)) (zs_port (node_server N)) (node_network_id N)))
       (\<lambda>packet. node_send (envelope C (peer_exchange_serialize C packet)))"

section \<open>Receiving\<close>

text \<open>The sender itself and the peers it names, less itself, go to the database; errors are not looked at.\<close>

definition learn_peers where
  "learn_peers (C :: 'z network_scheme) (L :: ('e, 't, 'c, 'y) lmdb_cursors_scheme) address (packet :: packet_peers_t) =
     (case ip_address_of_string C address of
        None \<Rightarrow> io_throw
      | Some a \<Rightarrow>
          io_bind node_time (\<lambda>seen.
          io_bind (node_add C L (network_peer seen a (packet_peer_id packet) (packet_peer_port packet)
                                   (packet_network_id packet))) (\<lambda>_.
          io_each (\<lambda>q. if peer_id q = packet_peer_id packet then io_return ()
                       else io_bind (node_add C L q) (\<lambda>_. io_return ())) (packet_peers packet))))"

definition handle_handshake where
  "handle_handshake (C :: 'z network_scheme) (L :: ('e, 't, 'c, 'y) lmdb_cursors_scheme) mix source address
     (packet :: packet_handshake_t) is_server N =
     (if is_server \<and> tss_contains (node_completed N) source then io_return () N
      else if source = zs_identity (node_server N) \<or> packet_peer_id packet = m_peer_id (node_peer_db N)
        then io_return () N
      else if packet_version packet < P2P_MINIMUM_VERSION then io_return () N
      else if length (packet_peers packet) > MAXIMUM_PEERS_EXCHANGED then io_return () N
      else io_bind (learn_peers C L address packet) (\<lambda>_.
             if is_server then
               io_bind (build_handshake C L mix) (\<lambda>reply_handshake.
               io_bind (node_reply (envelope_to C source (handshake_serialize C reply_handshake))) (\<lambda>_.
               io_modify (\<lambda>N. N\<lparr>node_completed := tss_insert (key_less C) source (node_completed N)\<rparr>)))
             else io_return ()) N)"

definition handle_data where
  "handle_data source (packet :: packet_data_t) is_server (N :: 'e Node) =
     (if node_seed_mode N then io_return () N
      else if data_network_id packet \<noteq> node_network_id N then io_return () N
      else if \<not> tss_contains (node_completed N) source then io_return () N
      else if source = zs_identity (node_server N) then io_return () N
      else if packet_version packet < P2P_MINIMUM_VERSION then io_return () N
      else io_modify (\<lambda>N. N\<lparr>node_messages :=
             tsq_push \<lparr>msg_from = source, msg_packet = packet, msg_is_server = is_server\<rparr> (node_messages N)\<rparr>) N)"

definition handle_keepalive where
  "handle_keepalive (C :: 'z network_scheme) (L :: ('e, 't, 'c, 'y) lmdb_cursors_scheme) source
     (packet :: packet_keepalive_t) is_server N =
     (if \<not> is_server then io_bind (node_touch C L (keepalive_peer_id packet)) (\<lambda>_. io_return ()) N
      else if \<not> tss_contains (node_completed N) source then io_return () N
      else if source = zs_identity (node_server N) \<or> keepalive_peer_id packet = m_peer_id (node_peer_db N)
        then io_return () N
      else if packet_version packet < P2P_MINIMUM_VERSION then io_return () N
      else io_bind (io_gets (\<lambda>N. packet_keepalive (m_peer_id (node_peer_db N)))) (\<lambda>reply_keepalive.
           io_bind (node_reply (envelope_to C source (keepalive_serialize C reply_keepalive))) (\<lambda>_.
           io_bind (node_touch C L (keepalive_peer_id packet)) (\<lambda>_. io_return ()))) N)"

definition handle_peer_exchange where
  "handle_peer_exchange (C :: 'z network_scheme) (L :: ('e, 't, 'c, 'y) lmdb_cursors_scheme) mix source address
     (packet :: packet_peer_exchange_t) is_server N =
     (if is_server \<and> \<not> tss_contains (node_completed N) source then io_return () N
      else if source = zs_identity (node_server N) \<or> packet_peer_id packet = m_peer_id (node_peer_db N)
        then io_return () N
      else if packet_version packet < P2P_MINIMUM_VERSION then io_return () N
      else io_bind (learn_peers C L address packet) (\<lambda>_.
             if is_server then
               io_bind (io_gets (\<lambda>N. packet_peer_exchange (m_peer_id (node_peer_db N)) (zs_port (node_server N))
                                       (node_network_id N))) (\<lambda>reply_peer_exchange.
               io_bind (build_peer_list C L mix) (\<lambda>ps.
               node_reply (envelope_to C source
                 (peer_exchange_serialize C (reply_peer_exchange\<lparr>packet_peers := ps\<rparr>)))))
             else io_return ()) N)"

text \<open>The type is read as a 64-bit number without consuming it; the packet then reads it again.\<close>

definition handle_typed where
  "handle_typed (C :: 'z network_scheme) (L :: ('e, 't, 'c, 'y) lmdb_cursors_scheme) mix message is_server =
     (let reader = env_payload message in
      case r_varint C reader of
        None \<Rightarrow> io_throw
      | Some (ty, _) \<Rightarrow>
          if ty = ucast (packet_type_number NETWORK_HANDSHAKE) then
            (case handshake_deserialize C reader of
               None \<Rightarrow> io_throw
             | Some (packet, _) \<Rightarrow>
                 handle_handshake C L mix (env_from message) (env_peer_address message) packet is_server)
          else if ty = ucast (packet_type_number NETWORK_PEER_EXCHANGE) then
            (case peer_exchange_deserialize C reader of
               None \<Rightarrow> io_throw
             | Some (packet, _) \<Rightarrow>
                 handle_peer_exchange C L mix (env_from message) (env_peer_address message) packet is_server)
          else if ty = ucast (packet_type_number NETWORK_KEEPALIVE) then
            (case keepalive_deserialize C reader of
               None \<Rightarrow> io_throw
             | Some (packet, _) \<Rightarrow> handle_keepalive C L (env_from message) packet is_server)
          else if ty = ucast (packet_type_number NETWORK_DATA) then
            (case data_deserialize C reader of
               None \<Rightarrow> io_throw
             | Some (packet, _) \<Rightarrow> handle_data (env_from message) packet is_server)
          else io_throw)"

text \<open>Every exception is caught.\<close>

definition handle_incoming_message where
  "handle_incoming_message (C :: 'z network_scheme) (L :: ('e, 't, 'c, 'y) lmdb_cursors_scheme) mix message is_server N =
     map_option (\<lambda>(N, _). (N, Returned ())) (handle_typed C L mix message is_server N)"

text \<open>What the poller does with one message of the server and of a client.\<close>

definition poll_server where
  "poll_server (C :: 'z network_scheme) (L :: ('e, 't, 'c, 'y) lmdb_cursors_scheme) mix N =
     (case tsq_pop (zs_incoming (node_server N)) of
        None \<Rightarrow> io_return () N
      | Some (message, rest) \<Rightarrow>
          handle_incoming_message C L mix message True
            (N\<lparr>node_server := (node_server N)\<lparr>zs_incoming := rest\<rparr>\<rparr>))"

definition poll_client where
  "poll_client (C :: 'z network_scheme) (L :: ('e, 't, 'c, 'y) lmdb_cursors_scheme) mix i N =
     (case tsm_at (node_clients N) i of
        None \<Rightarrow> io_return () N
      | Some client \<Rightarrow>
          (case tsq_pop (zc_incoming client) of
             None \<Rightarrow> io_return () N
           | Some (message, rest) \<Rightarrow>
               handle_incoming_message C L mix message False
                 (N\<lparr>node_clients := tsm_insert_or_assign (key_less C) i (client\<lparr>zc_incoming := rest\<rparr>)
                      (node_clients N)\<rparr>)))"

section \<open>Connecting\<close>

definition node_connect where
  "node_connect (C :: 'z network_scheme) (L :: ('e, 't, 'c, 'y) lmdb_cursors_scheme) mix
     (Z :: ('k, 'x) zmq_scheme) (dial :: string \<Rightarrow> u16 \<Rightarrow> crypto_hash_t \<times> 'k) unsafe_host unsafe_port =
     (case normalize_host_port C unsafe_host unsafe_port of
        None \<Rightarrow> io_throw
      | Some (host, port, hash) \<Rightarrow>
          io_bind (io_gets (\<lambda>N. tsm_contains (node_clients N) hash)) (\<lambda>known.
            if known then io_return P2P_DUPE_CONNECT
            else
              let (random_id, k) = dial host port;
                  (err, client, k) = client_connect Z host port (client_make random_id) k in
              if failed err then io_return err
              else
                io_bind (build_handshake C L mix) (\<lambda>packet.
                let client = client_send (envelope C (handshake_serialize C packet)) client in
                io_bind (io_modify (\<lambda>N. N\<lparr>node_clients := tsm_insert (key_less C) hash client (node_clients N)\<rparr>))
                  (\<lambda>_. io_return SUCCESS))))"

text \<open>One round of \<open>connection_manager\<close>; the number of missing connections is a \<open>size_t\<close>.\<close>

definition delta_connections :: "nat \<Rightarrow> u64" where
  "delta_connections outgoing = word_of_nat DEFAULT_CONNECTION_COUNT - word_of_nat outgoing"

definition drop_disconnected :: "('e, unit) node_io" where
  "drop_disconnected =
     io_modify (\<lambda>N.
       let to_delete = tsm_each (node_clients N)
             (\<lambda>i client to_delete. if \<not> client_is_connected client then to_delete @ [i] else to_delete) [] in
       N\<lparr>node_clients := foldl (\<lambda>cs i. tsm_erase i cs) (node_clients N) to_delete\<rparr>)"

definition connection_manager where
  "connection_manager (C :: 'z network_scheme) (L :: ('e, 't, 'c, 'y) lmdb_cursors_scheme) mix
     (Z :: ('k, 'x) zmq_scheme) dial =
     io_bind drop_disconnected (\<lambda>_.
     io_bind (io_gets (\<lambda>N. (delta_connections (tsm_size (node_clients N)), node_seed_mode N, node_network_id N,
                              m_peer_id (node_peer_db N)))) (\<lambda>(delta, seed_mode, net, own).
       if delta > 0 then
         io_bind (node_peers C L mix delta (if seed_mode then hash_default C else net)) (\<lambda>ps.
           io_each (\<lambda>q. if peer_id q = own then io_return ()
                        else io_bind (node_connect C L mix Z dial (ip_to_string C (peer_address q)) (peer_port q))
                               (\<lambda>_. io_return ())) ps)
       else io_return ()))"

section \<open>Starting\<close>

definition node_make where
  "node_make (C :: 'z network_scheme) (L :: ('e, 't, 'c, 'y) lmdb_cursors_scheme) mix clock P E random_id bind_port
     seed_mode network_id =
     map_option (\<lambda>(E, r).
         case r of
           Thrown \<Rightarrow> Thrown
         | Returned _ \<Rightarrow>
             Returned \<lparr>node_running = False, node_seed_mode = seed_mode, node_peer_db = P, node_env = E,
                        node_server = server_make bind_port random_id, node_clients = [], node_completed = [],
                        node_messages = [], node_network_id = network_id, node_clock = clock, node_ticks = 2\<rparr>)
       (peerdb_prune C L P (mix (clock 0)) (clock 1) E)"

fun connect_each :: "('x \<Rightarrow> ('s, ErrorCode) io) \<Rightarrow> 'x list \<Rightarrow> bool \<Rightarrow> ('s, bool) io" where
  "connect_each f [] connected_to_seed = io_return connected_to_seed"
| "connect_each f (x # xs) connected_to_seed =
     io_bind (f x) (\<lambda>err. connect_each f xs (connected_to_seed \<or> (\<not> failed err \<and> err \<noteq> P2P_DUPE_CONNECT)))"

definition node_start where
  "node_start (C :: 'z network_scheme) (L :: ('e, 't, 'c, 'y) lmdb_cursors_scheme) mix (Z :: ('k, 'x) zmq_scheme) dial
     (k :: 'k) seed_nodes N =
     (if node_running N then io_return SUCCESS N
      else
        let (err, S, _) = server_bind Z (node_server N) k in
        if failed err then io_return err (N\<lparr>node_server := S\<rparr>)
        else
          io_bind (connect_each (\<lambda>(host, port). node_connect C L mix Z dial host port) SEED_NODES False) (\<lambda>b.
          io_bind (connect_each (\<lambda>seed_node.
              case ip_address_of_string C seed_node of
                None \<Rightarrow> io_throw
              | Some seed \<Rightarrow> node_connect C L mix Z dial (ip_to_string C seed)
                  (if ip_port seed \<noteq> 0 then ip_port seed else P2P_DEFAULT_BIND_PORT)) seed_nodes b) (\<lambda>b.
          io_bind (if \<not> node_seed_mode N \<and> \<not> b then in_env (\<lambda>P. peerdb_count L P) else io_return 1) (\<lambda>n.
            if n = 0
            then io_bind (io_modify (\<lambda>N. N\<lparr>node_running := False\<rparr>)) (\<lambda>_. io_return P2P_SEED_CONNECT)
            else io_return SUCCESS)))
          (N\<lparr>node_server := S, node_running := True\<rparr>))"

end
