(* ===== verification/P2p_Safety.thy ===== *)
theory P2p_Safety
  imports P2p_Node
begin

text \<open>
  What the node keeps, whatever arrives and in whatever order its threads run: every handler and
  every round of a thread makes only the changes of \<open>node_progress\<close>; the steps of the node and
  of its sockets are a transition relation, and the properties of its runs are proved by induction
  over it.
\<close>

section \<open>The database of the node never has the node itself\<close>

definition node_laws where
  "node_laws (C :: 'z network_scheme) (L :: ('e, 't, 'c, 'y) lmdb_cursors_scheme) ev tv cv (mix :: shuffle) \<longleftrightarrow>
     network_laws C \<and> lmdb_laws L ev tv \<and> cursor_laws L tv cv \<and> (\<forall>seed ps. mset (mix seed ps) = mset ps)"

text \<open>The peer database is readable and our own id is not in it.\<close>

definition db_ok where
  "db_ok (C :: 'z network_scheme) (L :: ('e, 't, 'c, 'y) lmdb_cursors_scheme) ev tv cv (N :: 'e Node) \<longleftrightarrow>
     pdb.other_peers (C, L, ev, tv, cv, node_peer_db N) (node_env N)"

definition db_step where
  "db_step (C :: 'z network_scheme) (L :: ('e, 't, 'c, 'y) lmdb_cursors_scheme) ev tv cv (N :: 'e Node) N' \<longleftrightarrow>
     N' = N\<lparr>node_env := node_env N', node_ticks := node_ticks N'\<rparr> \<and> (db_ok C L ev tv cv N \<longrightarrow> db_ok C L ev tv cv N')"

lemma db_step_refl: "reflp (db_step C L ev tv cv)"
  by (rule reflpI) (simp add: db_step_def)

lemma db_step_trans: "transp (db_step C L ev tv cv)"
proof (rule transpI)
  fix N1 N2 N3
  assume "db_step C L ev tv cv N1 N2" "db_step C L ev tv cv N2 N3"
  then show "db_step C L ev tv cv N1 N3" by (cases N1; cases N2; cases N3) (auto simp: db_step_def)
qed

lemma node_time_step: "io_rel (db_step C L ev tv cv) node_time"
  by (rule io_relI) (auto simp: node_time_def db_step_def db_ok_def)

lemma in_env_step:
  assumes "\<And>P. io_post (pdb.other_peers (C, L, ev, tv, cv, P)) (f P) (\<lambda>_. pdb.other_peers (C, L, ev, tv, cv, P))"
  shows "io_rel (db_step C L ev tv cv) (in_env f)"
proof (rule io_relI)
  fix N N' r assume "in_env f N = Some (N', r)"
  then obtain E where E: "f (node_peer_db N) (node_env N) = Some (E, r)" "N' = N\<lparr>node_env := E\<rparr>"
    by (auto simp: in_env_def)
  then show "db_step C L ev tv cv N N'"
    using io_postD [OF assms _ E(1)]
    by (auto simp: db_step_def db_ok_def)
qed

lemmas db_step_intros = io_rel_bind [OF db_step_trans] io_rel_basic [OF db_step_refl] node_time_step
  in_env_step io_rel_each [OF db_step_refl db_step_trans]

lemma node_add_step:
  assumes "node_laws C L ev tv cv mix" "storable C q"
  shows "io_rel (db_step C L ev tv cv) (node_add C L q)"
  unfolding node_add_def
  using pdb.add_other [of "(C, L, ev, tv, cv, P)" q for P] assms
  by (intro db_step_intros) (simp add: node_laws_def)

lemma node_peers_step:
  assumes "node_laws C L ev tv cv mix"
  shows "io_rel (db_step C L ev tv cv) (node_peers C L mix n net)"
proof -
  have "io_post (pdb.other_peers (C, L, ev, tv, cv, P)) (peerdb_peers C L P (mix seed) n net)
      (\<lambda>_. pdb.other_peers (C, L, ev, tv, cv, P))" for P seed
    using pdb.listing_other [of "(C, L, ev, tv, cv, P)" "mix seed" n net] assms
    by (auto simp: node_laws_def io_post_def)
  then show ?thesis unfolding node_peers_def by (intro db_step_intros)
qed

lemma node_touch_step:
  assumes "node_laws C L ev tv cv mix"
  shows "io_rel (db_step C L ev tv cv) (node_touch C L i)"
proof -
  have "io_post (pdb.other_peers (C, L, ev, tv, cv, P)) (peerdb_touch C L P now now' i)
      (\<lambda>_. pdb.other_peers (C, L, ev, tv, cv, P))" for P now now'
  proof (rule io_postI)
    let ?p = "(C, L, ev, tv, cv, P)"
    fix E E' r assume "pdb.other_peers ?p E" and run: "peerdb_touch C L P now now' i E = Some (E', r)"
    then obtain t where t: "peerdb_holds ?p E t" "t (peerdb_self ?p) = None" unfolding pdb.other_peers_def by blast
    have "peerdb_lawful ?p" using assms by (simp add: node_laws_def)
    moreover have "io_bind (directory_get ?p i) (\<lambda>(err, q). if failed err then io_return err
        else case q of None \<Rightarrow> io_return err | Some q \<Rightarrow> directory_add ?p now' (q\<lparr>last_seen := now\<rparr>)) E = Some (E', r)"
      using run unfolding peerdb_touch_def directory_add.simps directory_get.simps .
    ultimately have T: "peerdb_holds ?p E' (if r = Returned SUCCESS then t(i \<mapsto> (the (t i))\<lparr>last_seen := now\<rparr>) else t)"
        "r = Returned SUCCESS \<longrightarrow> t i \<noteq> None \<and> i \<noteq> peerdb_self ?p"
      using io_postD [OF pdb.touch_law t(1)] by blast+
    have "(if r = Returned SUCCESS then t(i \<mapsto> (the (t i))\<lparr>last_seen := now\<rparr>) else t) (peerdb_self ?p) = None"
      using t(2) T(2) by auto
    with T(1) show "pdb.other_peers ?p E'" unfolding pdb.other_peers_def by blast
  qed
  then show ?thesis unfolding node_touch_def by (intro db_step_intros)
qed

text \<open>What a packet brings can be stored: the peers in it as they were read, and the sender's address.\<close>

lemma network_peer_storable:
  assumes "network_laws C" "ip_address_of_string C s = Some a" shows "storable C (network_peer seen a i p n)"
  using ip_address_of_string_normal [OF assms]
  by (simp add: storable_def wf_peer_def wf_ip_def drop_port_def network_peer_def)

lemma learn_peers_step:
  assumes "node_laws C L ev tv cv mix" "\<forall>q \<in> set (packet_peers packet). wf_peer C q"
  shows "io_rel (db_step C L ev tv cv) (learn_peers C L address packet)"
proof (cases "ip_address_of_string C address")
  case None
  then show ?thesis unfolding learn_peers_def by (simp add: io_rel_basic db_step_refl)
next
  case (Some a)
  have "network_laws C" using assms(1) by (simp add: node_laws_def)
  note add = node_add_step [OF assms(1)] network_peer_storable [OF this Some]
  show ?thesis
    unfolding learn_peers_def Some option.case using assms(2)
    by (auto intro!: db_step_intros add wf_peer_storable)
qed

lemma build_peer_list_step:
  assumes "node_laws C L ev tv cv mix" shows "io_rel (db_step C L ev tv cv) (build_peer_list C L mix)"
  unfolding build_peer_list_def by (intro db_step_intros node_peers_step assms)

lemma build_handshake_step:
  assumes "node_laws C L ev tv cv mix" shows "io_rel (db_step C L ev tv cv) (build_handshake C L mix)"
  unfolding build_handshake_def by (intro db_step_intros build_peer_list_step assms)

section \<open>What a handler may do\<close>

text \<open>
  A data packet that may reach the application, and a reply that is a handshake: its type is read
  back as the receiver would read it.
\<close>

definition admissible :: "'e Node \<Rightarrow> network_msg_t \<Rightarrow> bool" where
  "admissible N m \<longleftrightarrow>
     \<not> node_seed_mode N \<and> data_network_id (msg_packet m) = node_network_id N \<and>
     msg_from m \<in> set (node_completed N) \<and> msg_from m \<noteq> zs_identity (node_server N) \<and>
     P2P_MINIMUM_VERSION \<le> packet_version (msg_packet m)"

definition handshake_for :: "'z network_scheme \<Rightarrow> crypto_hash_t \<Rightarrow> zmq_message_envelope_t \<Rightarrow> bool" where
  "handshake_for C h e \<longleftrightarrow> env_to e = h \<and>
     (\<exists>rest. r_varint C (env_payload e) = Some (ucast (packet_type_number NETWORK_HANDSHAKE), rest))"

definition handshakes :: "'z network_scheme \<Rightarrow> crypto_hash_t \<Rightarrow> zmq_message_envelope_t list \<Rightarrow> nat" where
  "handshakes C h out = length (filter (handshake_for C h) out)"

definition newly_completed :: "crypto_hash_t \<Rightarrow> 'e Node \<Rightarrow> 'e Node \<Rightarrow> nat" where
  "newly_completed h N N' = of_bool (h \<in> set (node_completed N') \<and> h \<notin> set (node_completed N))"

text \<open>
  One handler: the identity of the node stays, completed handshakes stay, what is queued for the
  application is admissible, a handshake reply completes the handshake of its receiver, and our own
  id stays out of the database.
\<close>

definition node_progress where
  "node_progress (C :: 'z network_scheme) (L :: ('e, 't, 'c, 'y) lmdb_cursors_scheme) ev tv cv (N :: 'e Node) N' \<longleftrightarrow>
     (node_peer_db N' = node_peer_db N \<and> node_network_id N' = node_network_id N \<and>
      node_seed_mode N' = node_seed_mode N \<and> zs_identity (node_server N') = zs_identity (node_server N)) \<and>
     set (node_completed N) \<subseteq> set (node_completed N') \<and>
     (\<exists>ms. node_messages N' = node_messages N @ ms \<and> (\<forall>m \<in> set ms. admissible N' m)) \<and>
     (\<exists>out. zs_outgoing (node_server N') = zs_outgoing (node_server N) @ out \<and>
        (\<forall>h. handshakes C h out \<le> newly_completed h N N')) \<and>
     (db_ok C L ev tv cv N \<longrightarrow> db_ok C L ev tv cv N')"

lemma handshakes_append [simp]: "handshakes C h (xs @ ys) = handshakes C h xs + handshakes C h ys"
  by (simp add: handshakes_def)

lemma handshakes_Nil [simp]: "handshakes C h [] = 0"
  by (simp add: handshakes_def)

lemma progress_refl: "reflp (node_progress C L ev tv cv)"
  by (rule reflpI) (simp add: node_progress_def)

lemma admissible_mono:
  "admissible N m \<Longrightarrow> node_network_id N' = node_network_id N \<Longrightarrow> node_seed_mode N' = node_seed_mode N \<Longrightarrow>
   zs_identity (node_server N') = zs_identity (node_server N) \<Longrightarrow>
   set (node_completed N) \<subseteq> set (node_completed N') \<Longrightarrow> admissible N' m"
  by (auto simp: admissible_def)

lemma progress_trans: "transp (node_progress C L ev tv cv)"
proof (rule transpI)
  fix N1 N2 N3
  assume A: "node_progress C L ev tv cv N1 N2" and B: "node_progress C L ev tv cv N2 N3"
  have sub: "set (node_completed N1) \<subseteq> set (node_completed N2)" "set (node_completed N2) \<subseteq> set (node_completed N3)"
    and same: "node_network_id N3 = node_network_id N2" "node_seed_mode N3 = node_seed_mode N2"
      "zs_identity (node_server N3) = zs_identity (node_server N2)"
    using A B by (simp_all add: node_progress_def)
  obtain ms1 out1 where 1: "node_messages N2 = node_messages N1 @ ms1" "\<forall>m \<in> set ms1. admissible N2 m"
      "zs_outgoing (node_server N2) = zs_outgoing (node_server N1) @ out1"
      "\<forall>h. handshakes C h out1 \<le> newly_completed h N1 N2"
    using A unfolding node_progress_def by blast
  obtain ms2 out2 where 2: "node_messages N3 = node_messages N2 @ ms2" "\<forall>m \<in> set ms2. admissible N3 m"
      "zs_outgoing (node_server N3) = zs_outgoing (node_server N2) @ out2"
      "\<forall>h. handshakes C h out2 \<le> newly_completed h N2 N3"
    using B unfolding node_progress_def by blast
  have "newly_completed h N1 N2 + newly_completed h N2 N3 \<le> newly_completed h N1 N3" for h
    using sub by (auto simp: newly_completed_def)
  then have "handshakes C h (out1 @ out2) \<le> newly_completed h N1 N3" for h
    using 1(4) 2(4) by (metis add_mono handshakes_append order_trans)
  moreover have "\<forall>m \<in> set (ms1 @ ms2). admissible N3 m" using 1(2) 2(2) admissible_mono [OF _ same sub(2)] by auto
  moreover have "node_messages N3 = node_messages N1 @ ms1 @ ms2"
    "zs_outgoing (node_server N3) = zs_outgoing (node_server N1) @ out1 @ out2" using 1(1,3) 2(1,3) by simp_all
  moreover have "node_peer_db N3 = node_peer_db N1" "db_ok C L ev tv cv N1 \<longrightarrow> db_ok C L ev tv cv N3"
    "node_network_id N3 = node_network_id N1" "node_seed_mode N3 = node_seed_mode N1"
    "zs_identity (node_server N3) = zs_identity (node_server N1)"
    using A B by (simp_all add: node_progress_def)
  ultimately show "node_progress C L ev tv cv N1 N3"
    unfolding node_progress_def using sub by blast
qed

lemma db_step_progress: "db_step C L ev tv cv N N' \<Longrightarrow> node_progress C L ev tv cv N N'"
  by (cases N; cases N') (auto simp: db_step_def node_progress_def)

lemma step_progress: "io_rel (db_step C L ev tv cv) m \<Longrightarrow> io_rel (node_progress C L ev tv cv) m"
  by (auto simp: io_rel_def intro: db_step_progress)

text \<open>A reply that is no handshake.\<close>

lemma reply_progress:
  assumes "\<not> handshake_for C (env_to e) e"
  shows "io_rel (node_progress C L ev tv cv) (node_reply e)"
proof -
  have "\<not> handshake_for C h e" for h using assms by (auto simp: handshake_for_def)
  then show ?thesis
    unfolding node_reply_def
    by (intro io_rel_modify) (auto simp: node_progress_def server_send_def tsq_push_def db_ok_def handshakes_def)
qed

lemma reply_kinds:
  assumes "network_laws C"
  shows "packet_type p = packet_type_number NETWORK_KEEPALIVE \<Longrightarrow>
      \<not> handshake_for C h (envelope_to C dest (keepalive_serialize C p))"
    and "packet_type p = packet_type_number NETWORK_KEEPALIVE \<Longrightarrow>
      \<not> handshake_for C h (envelope C (keepalive_serialize C p))"
    and "packet_type q = packet_type_number NETWORK_PEER_EXCHANGE \<Longrightarrow>
      \<not> handshake_for C h (envelope_to C dest (peer_exchange_serialize C q))"
    and "packet_type d = packet_type_number NETWORK_DATA \<Longrightarrow>
      \<not> handshake_for C h (envelope_to C dest (data_serialize C d))"
  by (simp_all add: handshake_for_def envelope_to_def envelope_def keepalive_serialize_def peer_exchange_serialize_def
      peers_packet_serialize_def data_serialize_def network_lawsD(9) [OF assms])

section \<open>The handlers\<close>

lemmas progress_intros = io_rel_bind [OF progress_trans] io_rel_basic [OF progress_refl]

lemma build_list_progress:
  assumes "node_laws C L ev tv cv mix" shows "io_rel (node_progress C L ev tv cv) (build_peer_list C L mix)"
  by (rule step_progress) (rule build_peer_list_step [OF assms])

lemma touch_progress:
  assumes "node_laws C L ev tv cv mix" shows "io_rel (node_progress C L ev tv cv) (node_touch C L i)"
  by (rule step_progress) (rule node_touch_step [OF assms])

lemma handle_keepalive_progress:
  assumes "node_laws C L ev tv cv mix"
  shows "io_rel (node_progress C L ev tv cv) (handle_keepalive C L source packet is_server)"
proof -
  have "network_laws C" using assms by (simp add: node_laws_def)
  note reply = reply_progress [OF reply_kinds(1) [OF this]]
  note touch = touch_progress [OF assms]
  show ?thesis
  proof (cases is_server)
    case True
    show ?thesis
    proof (rule io_rel_guarded [OF progress_refl])
      show "io_rel (node_progress C L ev tv cv) (io_bind (io_gets (\<lambda>N. packet_keepalive (m_peer_id (node_peer_db N)))) (\<lambda>p.
          io_bind (node_reply (envelope_to C source (keepalive_serialize C p))) (\<lambda>_.
          io_bind (node_touch C L (keepalive_peer_id packet)) (\<lambda>_. io_return ()))))"
        by (intro io_rel_gets progress_intros reply touch) (simp add: packet_keepalive_def)
    qed (use True in \<open>auto simp: handle_keepalive_def\<close>)
  next
    case False
    show ?thesis
      by (rule io_rel_guarded [OF progress_refl, where m = "io_bind (node_touch C L (keepalive_peer_id packet)) (\<lambda>_. io_return ())"])
        (use False in \<open>auto simp: handle_keepalive_def intro: progress_intros touch\<close>)
  qed
qed

lemma handle_data_progress:
  fixes L :: "('e, 't, 'c, 'y) lmdb_cursors_scheme"
  shows "io_rel (node_progress C L ev tv cv) (handle_data source packet is_server)"
proof (rule io_relI)
  fix N N' :: "'e Node" and r assume run: "handle_data source packet is_server N = Some (N', r)"
  show "node_progress C L ev tv cv N N'"
  proof (cases "N' = N")
    case True
    then show ?thesis using reflpD [OF progress_refl] by simp
  next
    case False
    then show ?thesis
      using run
      by (auto simp: handle_data_def io_return_def io_modify_def node_progress_def admissible_def tsq_push_def
          tss_contains_iff not_less db_ok_def newly_completed_def split: if_splits)
  qed
qed

lemma learn_progress:
  assumes "node_laws C L ev tv cv mix" "\<forall>q \<in> set (packet_peers packet). wf_peer C q"
  shows "io_rel (node_progress C L ev tv cv) (learn_peers C L address packet)"
  by (rule step_progress) (rule learn_peers_step [OF assms])

lemma handle_peer_exchange_progress:
  assumes "node_laws C L ev tv cv mix" "\<forall>q \<in> set (packet_peers packet). wf_peer C q"
  shows "io_rel (node_progress C L ev tv cv) (handle_peer_exchange C L mix source address packet is_server)"
proof (rule io_rel_guarded [OF progress_refl])
  have "network_laws C" using assms by (simp add: node_laws_def)
  note reply = reply_progress [OF reply_kinds(3) [OF this]]
  show "io_rel (node_progress C L ev tv cv) (io_bind (learn_peers C L address packet) (\<lambda>_.
       if is_server then
         io_bind (io_gets (\<lambda>N. packet_peer_exchange (m_peer_id (node_peer_db N)) (zs_port (node_server N))
                                 (node_network_id N))) (\<lambda>reply_peer_exchange.
         io_bind (build_peer_list C L mix) (\<lambda>ps.
         node_reply (envelope_to C source
           (peer_exchange_serialize C (reply_peer_exchange\<lparr>packet_peers := ps\<rparr>)))))
       else io_return ()))"
  proof (rule progress_intros(1) [OF learn_progress [OF assms]], cases is_server)
    case True
    then show "io_rel (node_progress C L ev tv cv) (if is_server then
         io_bind (io_gets (\<lambda>N. packet_peer_exchange (m_peer_id (node_peer_db N)) (zs_port (node_server N))
                                 (node_network_id N))) (\<lambda>reply_peer_exchange.
         io_bind (build_peer_list C L mix) (\<lambda>ps.
         node_reply (envelope_to C source
           (peer_exchange_serialize C (reply_peer_exchange\<lparr>packet_peers := ps\<rparr>)))))
       else io_return ())"
      by (simp, intro io_rel_gets progress_intros build_list_progress [OF assms(1)] reply)
        (simp add: packet_peer_exchange_def)
  qed (simp add: progress_intros)
qed (auto simp: handle_peer_exchange_def)

text \<open>
  The handshake: nothing is sent before the database is updated, and the reply and the completion
  belong together.
\<close>

lemma handshake_tail_progress:
  fixes L :: "('e, 't, 'c, 'y) lmdb_cursors_scheme" and N :: "'e Node"
  assumes laws: "node_laws C L ev tv cv mix" and fresh: "source \<notin> set (node_completed N)"
    and run: "io_bind (build_handshake C L mix) (\<lambda>p.
      io_bind (node_reply (envelope_to C source (handshake_serialize C p))) (\<lambda>_.
      io_modify (\<lambda>N. N\<lparr>node_completed := tss_insert (key_less C) source (node_completed N)\<rparr>))) N = Some (N', r)"
  shows "node_progress C L ev tv cv N N'"
proof -
  have C: "strict_total (key_less C)"
    using laws crypto_lawsD(2) [OF network_lawsD(1)] by (auto simp: node_laws_def)
  obtain N1 r1 where b: "build_handshake C L mix N = Some (N1, r1)"
    using run by (auto simp: io_bind_def split: option.splits)
  note S = io_relD [OF build_handshake_step [OF laws] b]
  show ?thesis
  proof (cases r1)
    case Thrown
    then show ?thesis using run b db_step_progress [OF S] by (simp add: io_bind_def)
  next
    case (Returned p)
    let ?e = "envelope_to C source (handshake_serialize C p)"
    have N': "N' = N1\<lparr>node_server := server_send ?e (node_server N1),
        node_completed := tss_insert (key_less C) source (node_completed N1)\<rparr>"
      using run b Returned by (simp add: io_bind_def node_reply_def io_modify_def)
    have N1: "node_completed N1 = node_completed N" "node_server N1 = node_server N" "node_messages N1 = node_messages N"
      "node_peer_db N1 = node_peer_db N" "node_network_id N1 = node_network_id N" "node_seed_mode N1 = node_seed_mode N"
      and ok: "db_ok C L ev tv cv N \<longrightarrow> db_ok C L ev tv cv N1"
      using S by (cases N; cases N1; simp add: db_step_def)+
    have out: "zs_outgoing (node_server N') = zs_outgoing (node_server N) @ (if handshake_serialize C p \<noteq> [] \<and>
        zs_running (node_server N) then [?e] else [])" "zs_identity (node_server N') = zs_identity (node_server N)"
      by (simp_all add: N' N1 server_send_def tsq_push_def envelope_to_def envelope_def)
    have comp: "set (node_completed N') = insert source (set (node_completed N))"
      using C by (simp add: N' N1 tss_insert_def set_set_insert)
    have "handshakes C h [?e] \<le> newly_completed h N N'" for h
      using comp fresh by (auto simp: handshakes_def handshake_for_def newly_completed_def envelope_to_def)
    moreover have "db_ok C L ev tv cv N' = db_ok C L ev tv cv N1" by (simp add: N' db_ok_def)
    ultimately show ?thesis
      using out comp ok by (auto simp: node_progress_def N' N1)
  qed
qed

lemma handle_handshake_progress:
  fixes L :: "('e, 't, 'c, 'y) lmdb_cursors_scheme"
  assumes laws: "node_laws C L ev tv cv mix" and wf: "\<forall>q \<in> set (packet_peers packet). wf_peer C q"
  shows "io_rel (node_progress C L ev tv cv) (handle_handshake C L mix source address packet is_server)"
proof (rule io_relI)
  fix N N' :: "'e Node" and r assume run: "handle_handshake C L mix source address packet is_server N = Some (N', r)"
  let ?tail = "if is_server then io_bind (build_handshake C L mix) (\<lambda>p.
      io_bind (node_reply (envelope_to C source (handshake_serialize C p))) (\<lambda>_.
      io_modify (\<lambda>N. N\<lparr>node_completed := tss_insert (key_less C) source (node_completed N)\<rparr>))) else io_return ()"
  consider "N' = N" | "is_server \<longrightarrow> source \<notin> set (node_completed N)"
      "io_bind (learn_peers C L address packet) (\<lambda>_. ?tail) N = Some (N', r)"
    using run unfolding handle_handshake_def by (auto simp: io_return_def tss_contains_iff split: if_splits)
  then show "node_progress C L ev tv cv N N'"
  proof cases
    case 1
    then show ?thesis using reflpD [OF progress_refl] by simp
  next
    case 2
    obtain N1 r1 where l: "learn_peers C L address packet N = Some (N1, r1)"
      using 2(2) by (auto simp: io_bind_def split: option.splits)
    note S = io_relD [OF learn_peers_step [OF laws wf] l]
    show ?thesis
    proof (cases r1)
      case Thrown
      then show ?thesis using 2(2) l db_step_progress [OF S] by (simp add: io_bind_def)
    next
      case (Returned x)
      then have t: "?tail N1 = Some (N', r)" using 2(2) l by (simp add: io_bind_def)
      have "node_completed N1 = node_completed N" using S by (cases N; cases N1; simp add: db_step_def)
      then have "node_progress C L ev tv cv N1 N'"
        using t 2(1) handshake_tail_progress [OF laws, of source N1] reflpD [OF progress_refl]
        by (cases is_server) (auto simp: io_return_def)
      then show ?thesis using transpD [OF progress_trans db_step_progress [OF S]] by blast
    qed
  qed
qed

lemma read_many_all:
  assumes "\<And>bs x rest. rd bs = Some (x, rest) \<Longrightarrow> P x" "read_many n rd bs = Some (xs, rest)"
  shows "\<forall>x \<in> set xs. P x"
  using assms(2)
proof (induction n arbitrary: bs xs rest)
  case (Suc n)
  then obtain x bs1 ys where "rd bs = Some (x, bs1)" "read_many n rd bs1 = Some (ys, rest)" "xs = x # ys"
    by (auto split: Option.bind_splits)
  then show ?case using Suc.IH assms(1) by auto
qed simp

lemma packet_peers_wf:
  assumes "peers_packet_deserialize C bs = Some (p, rest)" shows "\<forall>q \<in> set (packet_peers p). wf_peer C q"
  using assms
  using read_many_all [of "peer_deserialize C" "wf_peer C", OF peer_deserialize_wf]
  by (fastforce simp: peers_packet_deserialize_def split: Option.bind_splits)

lemma handle_typed_progress:
  assumes "node_laws C L ev tv cv mix"
  shows "io_rel (node_progress C L ev tv cv) (handle_typed C L mix message is_server)"
  using handle_handshake_progress [OF assms packet_peers_wf] handle_peer_exchange_progress [OF assms packet_peers_wf]
    handle_keepalive_progress [OF assms] handle_data_progress progress_intros(3)
  by (auto simp: handle_typed_def Let_def handshake_deserialize_def peer_exchange_deserialize_def
      split: option.split prod.split)

lemma handle_incoming_progress:
  assumes "node_laws C L ev tv cv mix"
  shows "io_rel (node_progress C L ev tv cv) (handle_incoming_message C L mix message is_server)"
  using handle_typed_progress [OF assms, of message is_server]
  unfolding io_rel_def handle_incoming_message_def by fastforce

text \<open>Changes of the queues of incoming messages and of the clients concern none of this.\<close>

lemma progress_server_in:
  assumes "zs_outgoing S = zs_outgoing (node_server N)" "zs_identity S = zs_identity (node_server N)"
  shows "node_progress C L ev tv cv N (N\<lparr>node_server := S\<rparr>)"
  using assms by (auto simp: node_progress_def db_ok_def)

lemma progress_clients: "node_progress C L ev tv cv N (N\<lparr>node_clients := cs\<rparr>)"
  by (auto simp: node_progress_def db_ok_def)

lemma progress_running: "node_progress C L ev tv cv N (N\<lparr>node_running := b\<rparr>)"
  by (auto simp: node_progress_def db_ok_def)

lemma running_progress: "io_rel (node_progress C L ev tv cv) (io_modify (\<lambda>N. N\<lparr>node_running := b\<rparr>))"
  by (rule io_rel_modify) (rule progress_running)

lemma poll_server_progress:
  assumes "node_laws C L ev tv cv mix" shows "io_rel (node_progress C L ev tv cv) (poll_server C L mix)"
proof (rule io_relI)
  fix N N' r assume run: "poll_server C L mix N = Some (N', r)"
  show "node_progress C L ev tv cv N N'"
  proof (cases "tsq_pop (zs_incoming (node_server N))")
    case None
    then show ?thesis using run reflpD [OF progress_refl] by (simp add: poll_server_def io_return_def)
  next
    case (Some mr)
    then show ?thesis
      using run io_relD [OF handle_incoming_progress [OF assms]]
        transpD [OF progress_trans progress_server_in [of "(node_server N)\<lparr>zs_incoming := snd mr\<rparr>" N]]
      by (cases mr) (fastforce simp: poll_server_def)
  qed
qed

lemma poll_client_progress:
  assumes "node_laws C L ev tv cv mix" shows "io_rel (node_progress C L ev tv cv) (poll_client C L mix i)"
proof (rule io_relI)
  fix N N' r assume run: "poll_client C L mix i N = Some (N', r)"
  show "node_progress C L ev tv cv N N'"
  proof (cases "\<exists>client message rest. tsm_at (node_clients N) i = Some client \<and> tsq_pop (zc_incoming client) = Some (message, rest)")
    case True
    then obtain client message rest where "tsm_at (node_clients N) i = Some client"
      "tsq_pop (zc_incoming client) = Some (message, rest)" by blast
    then have "handle_incoming_message C L mix message False (N\<lparr>node_clients :=
        tsm_insert_or_assign (key_less C) i (client\<lparr>zc_incoming := rest\<rparr>) (node_clients N)\<rparr>) = Some (N', r)"
      using run by (simp add: poll_client_def)
    from io_relD [OF handle_incoming_progress [OF assms] this] show ?thesis
      by (rule transpD [OF progress_trans progress_clients])
  next
    case False
    then have "N' = N" using run by (auto simp: poll_client_def io_return_def split: option.splits prod.splits)
    then show ?thesis using reflpD [OF progress_refl] by simp
  qed
qed

section \<open>The other threads\<close>

lemma clients_progress: "io_rel (node_progress C L ev tv cv) (io_modify (\<lambda>N. N\<lparr>node_clients := f N\<rparr>))"
  by (rule io_rel_modify) (rule progress_clients)

lemma node_send_progress: "io_rel (node_progress C L ev tv cv) (node_send e)"
  unfolding node_send_def by (rule clients_progress)

lemma build_handshake_progress:
  assumes "node_laws C L ev tv cv mix" shows "io_rel (node_progress C L ev tv cv) (build_handshake C L mix)"
  by (rule step_progress) (rule build_handshake_step [OF assms])

lemma send_keepalive_progress:
  assumes "node_laws C L ev tv cv mix" shows "io_rel (node_progress C L ev tv cv) (send_keepalive C)"
proof -
  have "network_laws C" using assms by (simp add: node_laws_def)
  note reply = reply_progress [OF reply_kinds(2) [OF this]]
  show ?thesis unfolding send_keepalive_def
    by (intro io_rel_gets progress_intros node_send_progress reply) (simp add: packet_keepalive_def)
qed

lemma send_peer_exchange_progress: "io_rel (node_progress C L ev tv cv) (send_peer_exchange C)"
  unfolding send_peer_exchange_def by (intro io_rel_gets node_send_progress)

lemma reply_data_progress:
  assumes "node_laws C L ev tv cv mix" "packet_type packet = packet_type_number NETWORK_DATA"
  shows "io_rel (node_progress C L ev tv cv) (node_reply_data C dest packet)"
  unfolding node_reply_data_def
  using assms by (intro reply_progress reply_kinds) (simp_all add: node_laws_def)

lemma node_connect_progress:
  assumes "node_laws C L ev tv cv mix"
  shows "io_rel (node_progress C L ev tv cv) (node_connect C L mix Z dial host port)"
  unfolding node_connect_def
  by (auto intro!: progress_intros clients_progress build_handshake_progress [OF assms] simp: Let_def
      split: option.split prod.split)

lemma connection_manager_progress:
  assumes "node_laws C L ev tv cv mix"
  shows "io_rel (node_progress C L ev tv cv) (connection_manager C L mix Z dial)"
proof -
  have drop: "io_rel (node_progress C L ev tv cv) drop_disconnected"
    unfolding drop_disconnected_def Let_def by (rule clients_progress)
  have each: "io_rel (node_progress C L ev tv cv) (io_each (\<lambda>q. if peer_id q = own then io_return ()
      else io_bind (node_connect C L mix Z dial (ip_to_string C (peer_address q)) (peer_port q)) (\<lambda>_. io_return ())) ps)"
    for own ps
    by (rule io_rel_each [OF progress_refl progress_trans])
      (simp add: progress_intros node_connect_progress [OF assms])
  show ?thesis
    unfolding connection_manager_def
    by (intro progress_intros(1) [OF drop] io_rel_gets)
      (auto intro!: progress_intros(1) [OF step_progress [OF node_peers_step [OF assms]]] each progress_intros(2))
qed

lemma connect_each_progress:
  assumes "\<And>x. io_rel (node_progress C L ev tv cv) (f x)" shows "io_rel (node_progress C L ev tv cv) (connect_each f xs b)"
  using assms by (induction xs arbitrary: b) (auto intro: progress_intros)

lemma count_progress:
  assumes "node_laws C L ev tv cv mix"
  shows "io_rel (node_progress C L ev tv cv) (in_env (\<lambda>P. peerdb_count L P))"
proof (rule step_progress, rule in_env_step, rule io_postI)
  fix P E E' r assume ok: "pdb.other_peers (C, L, ev, tv, cv, P) E" and run: "peerdb_count L P E = Some (E', r)"
  have L: "lmdb_laws L ev tv" using assms by (simp add: node_laws_def)
  from ok obtain t m where "store_holds (L, ev, tv, m_database P) E m" "table_of C m t" "t (m_peer_id P) = None"
    unfolding pdb.other_peers_def by auto
  moreover from db_scan_keeps [OF L this(1)] run have "store_holds (L, ev, tv, m_database P) E' m"
    by (simp add: peerdb_count_def db_count_def)
  ultimately show "pdb.other_peers (C, L, ev, tv, cv, P) E'" unfolding pdb.other_peers_def by auto
qed

lemma node_start_progress:
  assumes "node_laws C L ev tv cv mix"
  shows "io_rel (node_progress C L ev tv cv) (node_start C L mix Z dial k seed_nodes)"
proof (rule io_relI)
  fix N N' r assume run: "node_start C L mix Z dial k seed_nodes N = Some (N', r)"
  obtain err S k' where b: "server_bind Z (node_server N) k = (err, S, k')" by (metis prod_cases3)
  have S: "zs_outgoing S = zs_outgoing (node_server N)" "zs_identity S = zs_identity (node_server N)"
    using b by (auto simp: server_bind_def split: prod.splits if_splits)
  note S1 = progress_server_in [OF S, of C L ev tv cv]
  let ?m = "io_bind (connect_each (\<lambda>(host, port). node_connect C L mix Z dial host port) SEED_NODES False) (\<lambda>b.
      io_bind (connect_each (\<lambda>seed_node. case ip_address_of_string C seed_node of None \<Rightarrow> io_throw
          | Some seed \<Rightarrow> node_connect C L mix Z dial (ip_to_string C seed)
              (if ip_port seed \<noteq> 0 then ip_port seed else P2P_DEFAULT_BIND_PORT)) seed_nodes b) (\<lambda>b.
      io_bind (if \<not> node_seed_mode N \<and> \<not> b then in_env (\<lambda>P. peerdb_count L P) else io_return 1) (\<lambda>n.
        if n = 0
        then io_bind (io_modify (\<lambda>N. N\<lparr>node_running := False\<rparr>)) (\<lambda>_. io_return P2P_SEED_CONNECT)
        else io_return SUCCESS)))"
  have m: "io_rel (node_progress C L ev tv cv) ?m"
  proof (intro progress_intros(1) connect_each_progress)
    show "io_rel (node_progress C L ev tv cv) (case x of (host, port) \<Rightarrow> node_connect C L mix Z dial host port)" for x
      by (simp add: node_connect_progress [OF assms] split: prod.split)
    show "io_rel (node_progress C L ev tv cv) (case ip_address_of_string C seed_node of None \<Rightarrow> io_throw
        | Some seed \<Rightarrow> node_connect C L mix Z dial (ip_to_string C seed)
            (if ip_port seed \<noteq> 0 then ip_port seed else P2P_DEFAULT_BIND_PORT))" for seed_node
      by (simp add: node_connect_progress [OF assms] progress_intros split: option.split)
    show "io_rel (node_progress C L ev tv cv)
        (if \<not> node_seed_mode N \<and> \<not> b then in_env (\<lambda>P. peerdb_count L P) else io_return 1)" for b
      by (simp add: count_progress [OF assms] progress_intros)
    show "io_rel (node_progress C L ev tv cv) (if n = 0
        then io_bind (io_modify (\<lambda>N. N\<lparr>node_running := False\<rparr>)) (\<lambda>_. io_return P2P_SEED_CONNECT)
        else io_return SUCCESS)" for n :: u64
      by (simp add: progress_intros running_progress)
  qed
  consider "N' = N" | "N' = N\<lparr>node_server := S\<rparr>" | "?m (N\<lparr>node_server := S, node_running := True\<rparr>) = Some (N', r)"
    using run b unfolding node_start_def Let_def by (auto simp: io_return_def split: if_splits)
  then show "node_progress C L ev tv cv N N'"
  proof cases
    case 1
    then show ?thesis using reflpD [OF progress_refl] by simp
  next
    case 2
    then show ?thesis using S1 by simp
  next
    case 3
    have "node_progress C L ev tv cv N (N\<lparr>node_server := S, node_running := True\<rparr>)"
      using transpD [OF progress_trans S1 progress_running [of C L ev tv cv "N\<lparr>node_server := S\<rparr>" True]] by simp
    from transpD [OF progress_trans this io_relD [OF m, OF 3]] show ?thesis .
  qed
qed

section \<open>The runs of a node\<close>

text \<open>
  One step: a message is taken from the server or from a client, a thread makes its round, the
  application connects, sends, replies or takes a message, or a socket reads or writes. The
  application may send and reply with packets and with envelopes of its own (the overloads of
  \<open>Node::send\<close> and \<open>Node::reply\<close>); a handshake it leaves to the node. \<open>out\<close> is what the step queues
  for the server to send.
\<close>

abbreviation queues :: "'e Node \<Rightarrow> zmq_message_envelope_t list \<Rightarrow> 'e Node \<Rightarrow> bool" where
  "queues N out N' \<equiv> zs_outgoing (node_server N') = zs_outgoing (node_server N) @ out"

inductive node_step for C L mix Z dial where
  server_message: "poll_server C L mix N = Some (N', r) \<Longrightarrow> queues N out N' \<Longrightarrow> node_step C L mix Z dial N out N'"
| client_message: "poll_client C L mix i N = Some (N', r) \<Longrightarrow> queues N out N' \<Longrightarrow> node_step C L mix Z dial N out N'"
| keepalive: "send_keepalive C N = Some (N', r) \<Longrightarrow> queues N out N' \<Longrightarrow> node_step C L mix Z dial N out N'"
| peer_exchange: "send_peer_exchange C N = Some (N', r) \<Longrightarrow> queues N out N' \<Longrightarrow> node_step C L mix Z dial N out N'"
| manage: "connection_manager C L mix Z dial N = Some (N', r) \<Longrightarrow> queues N out N' \<Longrightarrow> node_step C L mix Z dial N out N'"
| connect: "node_connect C L mix Z dial host port N = Some (N', r) \<Longrightarrow> queues N out N' \<Longrightarrow>
    node_step C L mix Z dial N out N'"
| start: "node_start C L mix Z dial k seed_nodes N = Some (N', r) \<Longrightarrow> queues N out N' \<Longrightarrow>
    node_step C L mix Z dial N out N'"
| send: "node_send_data C packet N = Some (N', r) \<Longrightarrow> queues N out N' \<Longrightarrow> node_step C L mix Z dial N out N'"
| reply: "packet_type packet = packet_type_number NETWORK_DATA \<Longrightarrow>
    node_reply_data C dest packet N = Some (N', r) \<Longrightarrow> queues N out N' \<Longrightarrow> node_step C L mix Z dial N out N'"
| send_envelope: "node_send e N = Some (N', r) \<Longrightarrow> queues N out N' \<Longrightarrow> node_step C L mix Z dial N out N'"
| reply_envelope: "\<not> handshake_for C (env_to e) e \<Longrightarrow> node_reply e N = Some (N', r) \<Longrightarrow> queues N out N' \<Longrightarrow>
    node_step C L mix Z dial N out N'"
| take_message: "tsq_pop (node_messages N) = Some (m, rest) \<Longrightarrow>
    node_step C L mix Z dial N [] (N\<lparr>node_messages := rest\<rparr>)"
| server_reads: "server_incoming C Z (node_server N) k = Some (S, k') \<Longrightarrow>
    node_step C L mix Z dial N [] (N\<lparr>node_server := S\<rparr>)"
| server_writes: "server_outgoing C Z (node_server N) k = (S, k') \<Longrightarrow>
    node_step C L mix Z dial N [] (N\<lparr>node_server := S\<rparr>)"
| client_reads: "tsm_at (node_clients N) i = Some client \<Longrightarrow> client_incoming C Z client k = Some (client', k') \<Longrightarrow>
    node_step C L mix Z dial N [] (N\<lparr>node_clients := tsm_insert_or_assign (key_less C) i client' (node_clients N)\<rparr>)"
| client_writes: "tsm_at (node_clients N) i = Some client \<Longrightarrow> client_outgoing Z client k = (client', k') \<Longrightarrow>
    node_step C L mix Z dial N [] (N\<lparr>node_clients := tsm_insert_or_assign (key_less C) i client' (node_clients N)\<rparr>)"
| client_event: "tsm_at (node_clients N) i = Some client \<Longrightarrow> monitor_event C ev addr (zc_monitor client) = Some M \<Longrightarrow>
    node_step C L mix Z dial N []
      (N\<lparr>node_clients := tsm_insert_or_assign (key_less C) i (client\<lparr>zc_monitor := M\<rparr>) (node_clients N)\<rparr>)"

inductive node_run for C L mix Z dial where
  stop: "node_run C L mix Z dial N [] N"
| step: "node_run C L mix Z dial N outs N1 \<Longrightarrow> node_step C L mix Z dial N1 out N2 \<Longrightarrow>
    node_run C L mix Z dial N (outs @ out) N2"

text \<open>The invariant of a node.\<close>

definition node_ok where
  "node_ok (C :: 'z network_scheme) (L :: ('e, 't, 'c, 'y) lmdb_cursors_scheme) ev tv cv (N :: 'e Node) \<longleftrightarrow>
     (\<forall>m \<in> set (node_messages N). admissible N m) \<and> db_ok C L ev tv cv N"

definition step_safe where
  "step_safe (C :: 'z network_scheme) (L :: ('e, 't, 'c, 'y) lmdb_cursors_scheme) ev tv cv (N :: 'e Node) out N' \<longleftrightarrow>
     node_peer_db N' = node_peer_db N \<and>
     set (node_completed N) \<subseteq> set (node_completed N') \<and>
     (\<forall>h. handshakes C h out \<le> newly_completed h N N') \<and>
     (node_ok C L ev tv cv N \<longrightarrow> node_ok C L ev tv cv N')"

lemma progress_safe:
  assumes P: "node_progress C L ev tv cv N N'" and out: "queues N out N'" shows "step_safe C L ev tv cv N out N'"
proof -
  obtain out' where "queues N out' N'" "\<forall>h. handshakes C h out' \<le> newly_completed h N N'"
    using P unfolding node_progress_def by blast
  then have hs: "\<forall>h. handshakes C h out \<le> newly_completed h N N'" using out by simp
  obtain ms where ms: "node_messages N' = node_messages N @ ms" "\<forall>m \<in> set ms. admissible N' m"
    using P unfolding node_progress_def by blast
  have "node_ok C L ev tv cv N \<longrightarrow> node_ok C L ev tv cv N'"
    using P ms admissible_mono [of N _ N'] by (auto simp: node_ok_def node_progress_def)
  then show ?thesis using P hs by (simp add: step_safe_def node_progress_def)
qed

lemma quiet_safe:
  assumes "node_peer_db N' = node_peer_db N" "node_network_id N' = node_network_id N" "node_env N' = node_env N"
    "node_seed_mode N' = node_seed_mode N" "zs_identity (node_server N') = zs_identity (node_server N)"
    "node_completed N' = node_completed N" "set (node_messages N') \<subseteq> set (node_messages N)"
  shows "step_safe C L ev tv cv N [] N'"
  using assms by (auto simp: step_safe_def node_ok_def db_ok_def admissible_def)

lemma server_incoming_identity:
  "server_incoming C Z S k = Some (S', k') \<Longrightarrow> zs_identity S' = zs_identity S"
  by (auto simp: server_incoming_def Let_def split: prod.splits option.splits list.splits if_splits Option.bind_splits)

lemma server_outgoing_identity: "server_outgoing C Z S k = (S', k') \<Longrightarrow> zs_identity S' = zs_identity S"
  by (auto simp: server_outgoing_def Let_def split: prod.splits option.splits if_splits)

lemma program_safe:
  "io_rel (node_progress C L ev tv cv) m \<Longrightarrow> m N = Some (N', r) \<Longrightarrow> queues N out N' \<Longrightarrow>
   step_safe C L ev tv cv N out N'"
  by (auto simp: io_rel_def intro: progress_safe)

lemma clients_safe: "step_safe C L ev tv cv N [] (N\<lparr>node_clients := cs\<rparr>)"
  by (rule quiet_safe) simp_all

lemma node_step_safe:
  assumes laws: "node_laws C L ev tv cv mix" and st: "node_step C L mix Z dial N out N'"
  shows "step_safe C L ev tv cv N out N'"
  using st
proof (cases rule: node_step.cases)
  case (server_message r)
  then show ?thesis by (rule program_safe [OF poll_server_progress [OF laws]])
next
  case (client_message i r)
  then show ?thesis by (rule program_safe [OF poll_client_progress [OF laws]])
next
  case (keepalive r)
  then show ?thesis by (rule program_safe [OF send_keepalive_progress [OF laws]])
next
  case (peer_exchange r)
  then show ?thesis by (rule program_safe [OF send_peer_exchange_progress])
next
  case (manage r)
  then show ?thesis by (rule program_safe [OF connection_manager_progress [OF laws]])
next
  case (connect host port r)
  then show ?thesis by (rule program_safe [OF node_connect_progress [OF laws]])
next
  case (start k seed_nodes r)
  then show ?thesis by (rule program_safe [OF node_start_progress [OF laws]])
next
  case (send packet r)
  from send(1) have "node_send (envelope C (data_serialize C packet)) N = Some (N', r)"
    by (simp add: node_send_data_def)
  then show ?thesis using send(2) by (rule program_safe [OF node_send_progress])
next
  case (reply packet dest r)
  from reply(2,3) show ?thesis by (rule program_safe [OF reply_data_progress [OF laws reply(1)]])
next
  case (send_envelope e r)
  then show ?thesis by (rule program_safe [OF node_send_progress])
next
  case (reply_envelope e r)
  from reply_envelope(2,3) show ?thesis by (rule program_safe [OF reply_progress [OF reply_envelope(1)]])
next
  case (take_message m rest)
  then show ?thesis unfolding take_message(1,2) by (intro quiet_safe) (auto simp: tsq_pop_def split: list.splits)
next
  case (server_reads k S k')
  show ?thesis unfolding server_reads(1,2) using server_incoming_identity [OF server_reads(3)] by (intro quiet_safe) simp_all
next
  case (server_writes k S k')
  show ?thesis unfolding server_writes(1,2) using server_outgoing_identity [OF server_writes(3)] by (intro quiet_safe) simp_all
qed (simp_all add: clients_safe)

text \<open>Along a run the steps add up.\<close>

lemma node_run_safe:
  assumes laws: "node_laws C L ev tv cv mix" and run: "node_run C L mix Z dial N outs N'"
  shows "step_safe C L ev tv cv N outs N'"
  using run
proof (induction rule: node_run.induct)
  case (stop N)
  then show ?case by (simp add: step_safe_def)
next
  case (step N outs N1 out N2)
  note S = node_step_safe [OF laws step.hyps(2)] and I = step.IH
  have "newly_completed h N N1 + newly_completed h N1 N2 \<le> newly_completed h N N2" for h
    using I S by (auto simp: newly_completed_def step_safe_def)
  then have "handshakes C h (outs @ out) \<le> newly_completed h N N2" for h
    using I S unfolding step_safe_def by (metis add_mono handshakes_append order_trans)
  then show ?case using I S by (auto simp: step_safe_def)
qed

end
