(* ===== verification/P2p_Limits.thy ===== *)
theory P2p_Limits
  imports P2p_Safety
begin

text \<open>
  Bounds of the node: how many peers a packet of ours names, how many connections are asked for, and
  what the messages of our own outgoing connections can change.
\<close>

section \<open>Lists of peers\<close>

lemma build_peer_list_bounded:
  "build_peer_list C L mix N = Some (N', Returned ps) \<Longrightarrow> length ps \<le> MAXIMUM_PEERS_EXCHANGED"
  by (auto simp: build_peer_list_def io_bind_def io_return_def split: option.splits outcome.splits if_splits)

lemma build_handshake_bounded:
  assumes "build_handshake C L mix N = Some (N', Returned packet)"
  shows "length (packet_peers packet) \<le> MAXIMUM_PEERS_EXCHANGED \<and>
    packet_peer_id packet = m_peer_id (node_peer_db N) \<and> packet_network_id packet = node_network_id N \<and>
    packet_type packet = packet_type_number NETWORK_HANDSHAKE \<and> packet_version packet = P2P_VERSION \<and>
    packet_peer_port packet = zs_port (node_server N)"
  using assms build_peer_list_bounded [of C L mix N]
  by (auto simp: build_handshake_def packet_handshake_def io_gets_def io_bind_def io_return_def split: option.splits outcome.splits)

section \<open>The number of missing connections\<close>

lemma connection_count: "DEFAULT_CONNECTION_COUNT = 11"
  by (simp add: DEFAULT_CONNECTION_COUNT_def SEED_NODES_def)

lemma delta_connections_exact:
  "n \<le> DEFAULT_CONNECTION_COUNT \<Longrightarrow> unat (delta_connections n) = DEFAULT_CONNECTION_COUNT - n"
  by (simp add: delta_connections_def connection_count unat_sub_if_size unat_of_nat take_bit_nat_eq_self
      word_size word_le_nat_alt)

lemma delta_connections_wraps:
  assumes "DEFAULT_CONNECTION_COUNT < n" "n < 2 ^ 64"
  shows "unat (delta_connections n) = 2 ^ 64 + DEFAULT_CONNECTION_COUNT - n"
  using assms
  by (simp add: delta_connections_def connection_count unat_sub_if_size unat_of_nat take_bit_nat_eq_self
      word_size word_le_nat_alt)

section \<open>Messages of outgoing connections\<close>

text \<open>They complete no handshake, and without a completed handshake they bring the application nothing.\<close>

definition nothing_learnt :: "'e Node \<Rightarrow> 'e Node \<Rightarrow> bool" where
  "nothing_learnt N N' \<longleftrightarrow> node_completed N' = node_completed N \<and>
     (node_completed N = [] \<longrightarrow> node_messages N' = node_messages N)"

lemma nothing_refl: "reflp nothing_learnt"
  by (rule reflpI) (simp add: nothing_learnt_def)

lemma nothing_trans: "transp nothing_learnt"
  by (rule transpI) (auto simp: nothing_learnt_def)

lemma nothing_time: "io_rel nothing_learnt node_time"
  by (rule io_relI) (auto simp: node_time_def nothing_learnt_def)

lemma nothing_env: "io_rel nothing_learnt (in_env f)"
  by (rule io_relI) (auto simp: in_env_def nothing_learnt_def)

lemmas nothing_intros = io_rel_bind [OF nothing_trans] io_rel_basic [OF nothing_refl] nothing_time nothing_env
  io_rel_each [OF nothing_refl nothing_trans]

lemma nothing_touch: "io_rel nothing_learnt (node_touch C L i)"
  unfolding node_touch_def by (intro nothing_intros)

lemma nothing_learn: "io_rel nothing_learnt (learn_peers C L address packet)"
  unfolding learn_peers_def node_add_def by (auto intro!: nothing_intros split: option.split)

lemma nothing_guarded:
  "io_rel nothing_learnt m \<Longrightarrow> (\<And>N. h N = io_return () N \<or> h N = m N) \<Longrightarrow> io_rel nothing_learnt h"
  by (rule io_rel_guarded [OF nothing_refl])

lemma client_handshake: "io_rel nothing_learnt (handle_handshake C L mix source address packet False)"
  by (rule nothing_guarded [where m = "io_bind (learn_peers C L address packet) (\<lambda>_. io_return ())"])
    (auto simp: handle_handshake_def intro: nothing_intros nothing_learn)

lemma client_exchange: "io_rel nothing_learnt (handle_peer_exchange C L mix source address packet False)"
  by (rule nothing_guarded [where m = "io_bind (learn_peers C L address packet) (\<lambda>_. io_return ())"])
    (auto simp: handle_peer_exchange_def intro: nothing_intros nothing_learn)

lemma client_keepalive: "io_rel nothing_learnt (handle_keepalive C L source packet False)"
  by (rule nothing_guarded [where m = "io_bind (node_touch C L (keepalive_peer_id packet)) (\<lambda>_. io_return ())"])
    (auto simp: handle_keepalive_def intro: nothing_intros nothing_touch)

lemma client_data: "io_rel nothing_learnt (handle_data source packet is_server)"
  by (rule io_relI)
    (auto simp: handle_data_def io_return_def io_modify_def nothing_learnt_def tss_contains_iff split: if_splits)

lemma client_typed: "io_rel nothing_learnt (handle_typed C L mix message False)"
  unfolding handle_typed_def Let_def
  by (auto intro!: client_handshake client_exchange client_keepalive client_data nothing_intros split: option.split)

lemma poll_client_nothing: "io_rel nothing_learnt (poll_client C L mix i)"
proof (rule io_relI)
  fix N N' r assume run: "poll_client C L mix i N = Some (N', r)"
  show "nothing_learnt N N'"
  proof (cases "\<exists>client message rest. tsm_at (node_clients N) i = Some client \<and>
      tsq_pop (zc_incoming client) = Some (message, rest)")
    case True
    then obtain client message rest where q: "tsm_at (node_clients N) i = Some client"
        "tsq_pop (zc_incoming client) = Some (message, rest)" by blast
    define cs where "cs = tsm_insert_or_assign (key_less C) i (client\<lparr>zc_incoming := rest\<rparr>) (node_clients N)"
    obtain r1 where "handle_typed C L mix message False (N\<lparr>node_clients := cs\<rparr>) = Some (N', r1)"
      using run q by (auto simp: poll_client_def handle_incoming_message_def cs_def)
    from io_relD [OF client_typed this] show ?thesis by (simp add: nothing_learnt_def)
  next
    case False
    then show ?thesis
      using run by (auto simp: poll_client_def io_return_def nothing_learnt_def split: option.splits)
  qed
qed

lemma poll_clients_nothing: "io_rel nothing_learnt (io_each (poll_client C L mix) is)"
  by (intro nothing_intros poll_client_nothing)

section \<open>Peer exchanges of any length\<close>

text \<open>
  A handshake that names more than the maximum is dropped, a peer exchange is not: both of its
  branches go on to \<open>learn_peers\<close>, whatever the number of peers.
\<close>

lemma long_handshake_dropped:
  "length (packet_peers packet) > MAXIMUM_PEERS_EXCHANGED \<Longrightarrow>
   handle_handshake C L mix source address packet is_server N = Some (N, Returned ())"
  by (simp add: handle_handshake_def io_return_def)

lemma long_exchange_learnt:
  assumes "source \<noteq> zs_identity (node_server N)" "packet_peer_id packet \<noteq> m_peer_id (node_peer_db N)"
    "P2P_MINIMUM_VERSION \<le> packet_version packet"
  shows "handle_peer_exchange C L mix source address packet False N =
    io_bind (learn_peers C L address packet) (\<lambda>_. io_return ()) N"
  using assms by (simp add: handle_peer_exchange_def not_less [symmetric])

end
