(* ===== verification/Lmdb_Reliable.thy ===== *)
theory Lmdb_Reliable
  imports Lmdb_Open
begin

text \<open>
  The operations of a database while the library has no failure to report: the laws of the theories
  before say what holds whatever the library answers; here every operation ends, does not throw, and
  reports what it found. \<open>reliable\<close> is an idealisation of a library that does not fail: it asks for every
  handle and flag, and for keys of every length but zero, what the program needs for its own.
\<close>

definition reliable :: "('e, 't, 'c, 'z) lmdb_cursors_scheme \<Rightarrow> ('t \<Rightarrow> contents) \<Rightarrow> bool" where
  "reliable L tv \<longleftrightarrow>
     (\<forall>e ro. fst (mdb_txn_begin L e ro) = 0) \<and> (\<forall>t e. fst (mdb_txn_commit L t e) = 0) \<and>
     (\<forall>t d k v f. k \<noteq> [] \<longrightarrow> fst (mdb_put L t d k v f) = 0) \<and>
     (\<forall>t d k. tv t d k \<noteq> None \<longrightarrow> fst (mdb_del L t d k None) = 0) \<and>
     (\<forall>t d. fst (mdb_cursor_open L t d) = 0)"

lemma reliable_txn:
  assumes "reliable L tv" "m_env E \<noteq> None" "m_dbi D \<noteq> 0" "tsm_at (m_databases E) (db_id D) = Some D"
  obtains T E' where "db_transaction L D ro E = (Returned T, E')" "m_env E' \<noteq> None" "txn_db T = m_dbi D"
proof -
  from assms(2) obtain e where e: "m_env E = Some e" by blast
  obtain rc t e' where b: "mdb_txn_begin L e ro = (rc, t, e')" by (metis prod_cases3)
  have "rc = 0" using assms(1) b by (metis fst_conv reliable_def)
  then have "db_transaction L D ro E = (Returned \<lparr>txn_readonly = ro, txn_db = m_dbi D, txn_handle = t\<rparr>,
      transaction_register ro (E\<lparr>m_env := Some e'\<rparr>))"
    using assms(3,4) e b
    by (simp add: db_transaction_def get_database_def tsm_contains_at txn_setup_def txn_setup_loop.simps)
  then show thesis using that by (simp add: transaction_register_def)
qed

lemma reliable_run:
  assumes "reliable L tv" "m_env E \<noteq> None"
  shows "\<exists>E'. txn_run L [] T E = (E', Some (Returned SUCCESS))"
proof -
  obtain e where e: "m_env E = Some e" using assms(2) by blast
  obtain rc e' where c: "mdb_txn_commit L (txn_handle T) e = (rc, e')" by fastforce
  have "rc = 0" using assms(1) c by (metis fst_conv reliable_def)
  then show ?thesis using c e by (simp add: txn_commit_def map_full_def)
qed

lemma reliable_put:
  assumes "reliable L tv" "store_holds (L, ev, tv, D) E m" "m_dbi D \<noteq> 0" "k \<noteq> []"
  shows "\<exists>E'. db_put L D k v f E = Some (E', Returned SUCCESS)"
proof -
  have E: "m_env E \<noteq> None" "tsm_at (m_databases E) (db_id D) = Some D" using assms(2) by (auto simp: stored_def)
  obtain T E1 where t: "db_transaction L D False E = (Returned T, E1)" "m_env E1 \<noteq> None"
    by (rule reliable_txn [OF assms(1) E(1) assms(3) E(2)])
  obtain rc t' where p: "mdb_put L (txn_handle T) (txn_db T) k v f = (rc, t')" by fastforce
  have "rc = 0" using assms(1,4) p by (metis fst_conv reliable_def)
  then have "db_run L D [txn_put L k v f] E = txn_run L [] (T\<lparr>txn_handle := t'\<rparr>) E1"
    using t(1) p by (simp add: db_run_def txn_put_def map_full_def del: txn_run.simps(1))
  then show ?thesis
    using reliable_run [OF assms(1) t(2), of "T\<lparr>txn_handle := t'\<rparr>"] by (auto simp: db_put_def try_again.simps)
qed

lemma reliable_del:
  assumes "reliable L tv" "lmdb_laws L ev tv" "store_holds (L, ev, tv, D) E m" "m_dbi D \<noteq> 0"
  shows "\<exists>E'. db_del L D k E = Some (E', Returned (if m k = None then LMDB_NOTFOUND else SUCCESS))"
proof -
  have E: "m_env E \<noteq> None" "tsm_at (m_databases E) (db_id D) = Some D" using assms(3) by (auto simp: stored_def)
  obtain c where c: "stored ev E c" "c (m_dbi D) = m" using assms(3) by auto
  obtain T E1 where t: "db_transaction L D False E = (Returned T, E1)" "m_env E1 \<noteq> None" "txn_db T = m_dbi D"
    by (rule reliable_txn [OF assms(1) E(1) assms(4) E(2)])
  have "txn_setup L (m_dbi D) False E = (Returned T, E1)"
    using t(1) E(2) assms(4) by (simp add: db_transaction_def get_database_def tsm_contains_at)
  then have tv: "tv (txn_handle T) (txn_db T) = m"
    using txn_setup_stored(4) [OF assms(2) c(1)] c(2) t(3) by simp
  obtain rc t' where p: "mdb_del L (txn_handle T) (txn_db T) k None = (rc, t')" by fastforce
  show ?thesis
  proof (cases "m k = None")
    case True
    then have "rc = - 30798" using lmdb_lawsD(10) [OF assms(2), of "txn_handle T" "txn_db T" k None] p tv by simp
    then have "db_run L D [txn_del L k] E = (txn_abort L (Some (T\<lparr>txn_handle := t'\<rparr>)) E1, Some (Returned LMDB_NOTFOUND))"
      using t(1) p by (simp add: db_run_def txn_del_def map_full_def)
    then show ?thesis using True by (simp add: db_del_def try_again.simps)
  next
    case False
    then have "rc = 0" using assms(1) p tv unfolding reliable_def by (metis fst_conv)
    then have "db_run L D [txn_del L k] E = txn_run L [] (T\<lparr>txn_handle := t'\<rparr>) E1"
      using t(1) p by (simp add: db_run_def txn_del_def map_full_def del: txn_run.simps(1))
    then show ?thesis
      using reliable_run [OF assms(1) t(2), of "T\<lparr>txn_handle := t'\<rparr>"] False
      by (auto simp: db_del_def try_again.simps)
  qed
qed

text \<open>A read-only transaction returns what it computes.\<close>

lemma reliable_read:
  assumes "reliable L tv" "lmdb_laws L ev tv" "store_holds (L, ev, tv, D) E m" "m_dbi D \<noteq> 0"
  shows "\<exists>T E'. db_read L D f E = (Returned (f T), E') \<and> tv (txn_handle T) (txn_db T) = m \<and>
    store_holds (L, ev, tv, D) E' m"
proof -
  have E: "m_env E \<noteq> None" "tsm_at (m_databases E) (db_id D) = Some D" using assms(3) by (auto simp: stored_def)
  obtain T E1 where t: "db_transaction L D True E = (Returned T, E1)"
    by (rule reliable_txn [OF assms(1) E(1) assms(4) E(2)])
  then have r: "db_read L D f' E = (Returned (f' T), txn_abort L (Some T) E1)" for f' :: "'b LMDBTransaction \<Rightarrow> 'x"
    by (simp add: db_read_def)
  have "tv (txn_handle T) (txn_db T) = m"
    using store_read_law(2) [OF assms(2,3) r, of "\<lambda>T. T"] by auto
  moreover have "db_read L D f E = (Returned (f T), txn_abort L (Some T) E1)" using t by (simp add: db_read_def)
  ultimately show ?thesis using store_read_law(1) [OF assms(2,3)] by blast
qed

lemma reliable_get:
  assumes "reliable L tv" "lmdb_laws L ev tv" "store_holds (L, ev, tv, D) E m" "m_dbi D \<noteq> 0"
  shows "\<exists>E'. db_get L D k E = (Returned (case m k of None \<Rightarrow> (LMDB_NOTFOUND, []) | Some v \<Rightarrow> (SUCCESS, v)), E') \<and>
    store_holds (L, ev, tv, D) E' m"
  using reliable_read [OF assms, of "txn_get L k"] by (auto simp: db_get_def txn_get_eq [OF assms(2)])

lemma reliable_finite:
  assumes "reliable L tv" "lmdb_laws L ev tv" "cursor_laws L tv cv" "store_holds (L, ev, tv, D) E m" "m_dbi D \<noteq> 0"
  shows "finite (dom m)"
  using reliable_read [OF assms(1,2,4,5)] cursor_lawsD(1) [OF assms(3)] by metis

lemma reliable_scan:
  assumes R: "reliable L tv" and L: "lmdb_laws L ev tv" "cursor_laws L tv cv"
    and E: "store_holds (L, ev, tv, D) E m" "m_dbi D \<noteq> 0"
    and f: "\<And>c. cv c = (m, None) \<Longrightarrow> finite (dom m) \<Longrightarrow> m [] = None \<Longrightarrow> f c = Some x"
  shows "\<exists>E'. db_scan L D f E = Some (E', Returned x) \<and> store_holds (L, ev, tv, D) E' m"
proof -
  let ?g = "\<lambda>T. case txn_cursor L T of None \<Rightarrow> Some Thrown | Some c \<Rightarrow> map_option Returned (f c)"
  obtain T E' where T: "db_read L D ?g E = (Returned (?g T), E')" "tv (txn_handle T) (txn_db T) = m"
    "store_holds (L, ev, tv, D) E' m" using reliable_read [OF R L(1) E, of ?g] by blast
  obtain rc c where c: "mdb_cursor_open L (txn_handle T) (txn_db T) = (rc, c)" by fastforce
  have "rc = 0" using R c unfolding reliable_def by (metis fst_conv)
  then have "txn_cursor L T = Some c" "cv c = (m, None)"
    using c cursor_lawsD(3) [OF L(2)] T(2) by (simp_all add: txn_cursor_def)
  moreover have "f c = Some x"
    using f [OF calculation(2)] cursor_lawsD(1,2) [OF L(2), of "txn_handle T" "txn_db T"] T(2) by simp
  ultimately show ?thesis using T(1,3) by (simp add: db_scan_def)
qed

lemma reliable_keys:
  assumes "reliable L tv" "lmdb_laws L ev tv" "cursor_laws L tv cv" "store_holds (L, ev, tv, D) E m" "m_dbi D \<noteq> 0"
    "card (dom m) < 2 ^ 64"
  shows "\<exists>E'. list_keys L D ign E = Some (E', Returned (sorted_list_of_set (dom m))) \<and>
    store_holds (L, ev, tv, D) E' m"
  unfolding list_keys_def
  by (rule reliable_scan [OF assms(1-5)])
    (use keys_loop_lists [OF assms(3), where p = None and n = 0 and last_key = "[]" and acc = "[]"] assms(6) in simp)

lemma reliable_count:
  assumes "reliable L tv" "lmdb_laws L ev tv" "cursor_laws L tv cv" "store_holds (L, ev, tv, D) E m" "m_dbi D \<noteq> 0"
    "card (dom m) < 2 ^ 64"
  shows "\<exists>E'. db_count L D E = Some (E', Returned (word_of_nat (card (dom m)))) \<and> store_holds (L, ev, tv, D) E' m"
  unfolding db_count_def
  by (rule reliable_scan [OF assms(1-5)])
    (use count_loop_counts [OF assms(3), where p = None and n = 0] assms(6) in simp)

lemma reliable_values:
  assumes "reliable L tv" "lmdb_laws L ev tv" "m_dbi D \<noteq> 0" "store_holds (L, ev, tv, D) E m"
  shows "\<exists>E'. get_values (db_get L D) ks E = Some (E', Returned (List.map_filter m ks)) \<and> store_holds (L, ev, tv, D) E' m"
  using assms(4)
proof (induction ks arbitrary: E)
  case Nil
  then show ?case by (simp add: io_return_def map_filter_def)
next
  case (Cons k ks)
  obtain E1 where g: "db_get L D k E = (Returned (case m k of None \<Rightarrow> (LMDB_NOTFOUND, []) | Some v \<Rightarrow> (SUCCESS, v)), E1)"
    "store_holds (L, ev, tv, D) E1 m" using reliable_get [OF assms(1,2) Cons.prems assms(3), of k] by blast
  from Cons.IH [OF g(2)] show ?case
    using g(1) by (cases "m k") (auto simp: io_bind_def io_call_def io_return_def map_filter_def)
qed

lemma map_filter_dom: "set ks \<subseteq> dom m \<Longrightarrow> List.map_filter m ks = map (the \<circ> m) ks"
  by (induction ks) (auto simp: map_filter_def)

lemma reliable_get_all:
  assumes "reliable L tv" "lmdb_laws L ev tv" "cursor_laws L tv cv" "store_holds (L, ev, tv, D) E m" "m_dbi D \<noteq> 0"
    "card (dom m) < 2 ^ 64"
  shows "\<exists>E'. db_get_all L D E = Some (E', Returned (map (the \<circ> m) (sorted_list_of_set (dom m)))) \<and>
    store_holds (L, ev, tv, D) E' m"
proof -
  obtain E1 where k: "list_keys L D True E = Some (E1, Returned (sorted_list_of_set (dom m)))"
    "store_holds (L, ev, tv, D) E1 m" using reliable_keys [OF assms(1-6)] by blast
  have "List.map_filter m (sorted_list_of_set (dom m)) = map (the \<circ> m) (sorted_list_of_set (dom m))"
    using reliable_finite [OF assms(1-5)] by (intro map_filter_dom) simp
  then show ?thesis
    using k(1) reliable_values [OF assms(1,2,5) k(2), of "sorted_list_of_set (dom m)"]
    by (simp add: db_get_all_def io_bind_def)
qed

section \<open>Opening a database\<close>

text \<open>The library opens every handle it is asked for.\<close>

definition opens_all :: "('e, 't, 'c, 'f, 'z) lmdb_files_scheme \<Rightarrow> bool" where
  "opens_all L \<longleftrightarrow> (\<forall>t name flags. fst (mdb_dbi_open L t name flags) = 0)"

lemma database_make_returns:
  assumes R: "reliable L tv" "opens_all L" and env: "m_env E \<noteq> None"
  shows "\<exists>D E'. database_make C L name flags E = (Returned D, E')"
proof -
  obtain err fl where gf: "lmdb_get_flags L E = (err, fl)" by fastforce
  define ro where "ro \<longleftrightarrow> and fl (MDB_RDONLY L) \<noteq> 0"
  obtain e where e: "m_env E = Some e" using env by blast
  obtain rc t e' where b: "mdb_txn_begin L e ro = (rc, t, e')" by (metis prod_cases3)
  have "rc = 0" using R(1) b unfolding reliable_def by (metis fst_conv)
  then have s: "txn_setup L 0 ro E = (Returned \<lparr>txn_readonly = ro, txn_db = 0, txn_handle = t\<rparr>,
      transaction_register ro (E\<lparr>m_env := Some e'\<rparr>))"
    using e b by (simp add: txn_setup_def txn_setup_loop.simps)
  obtain rc2 d t2 where o: "mdb_dbi_open L t (if name = [] then None else Some name) (or flags (MDB_CREATE L)) = (rc2, d, t2)"
    by (metis prod_cases3)
  have o0: "rc2 = 0" using R(2) o unfolding opens_all_def by (metis fst_conv)
  obtain rc3 e3 where c: "mdb_txn_commit L t2 e' = (rc3, e3)" by fastforce
  have "rc3 = 0" using R(1) c unfolding reliable_def by (metis fst_conv)
  then show ?thesis
    unfolding database_make_def gf Let_def prod.case ro_def [symmetric] s
    using o o0 c by (simp add: txn_commit_def transaction_register_def)
qed

lemma open_database_returns:
  assumes C: "strict_total (key_less C)" and L: "lmdb_laws L ev tv" "open_laws L tv" "reliable L tv" "opens_all L"
    and E: "stored ev E c" "m_open_txns E + 1 \<noteq> 0" "databases_ok C E" "m_registered E"
  shows "\<exists>D E'. open_database C L name flags E = (Returned D, E')"
proof (cases "tsm_at (m_databases E) (sha3 C (string_bytes name))")
  case (Some D)
  then show ?thesis using open_database_again by blast
next
  case None
  let ?k = "sha3 C (string_bytes name)"
  have env: "m_env E \<noteq> None" using E(1) by (auto simp: stored_def)
  obtain D E1 where m: "database_make C L name flags E = (Returned D, E1)"
    using database_make_returns [OF L(3,4) env] by blast
  have srt: "sorted_map (key_less C) (m_databases E1)"
    using E(3) database_make_stored(2) [OF L(1,2) E(1,2) m] by (simp add: databases_ok_def frameD)
  have "tsm_at (m_databases E1) ?k = None" using None database_make_stored(2) [OF L(1,2) E(1,2) m] by (simp add: frameD)
  then have "tsm_at (tsm_insert (key_less C) ?k D (m_databases E1)) ?k = Some D"
    using tsm.lookup_insert [OF C srt] by simp
  then show ?thesis using None E(4) m by (simp add: open_database_def tsm_contains_at)
qed

end
