(* ===== verification/Peer_Table.thy ===== *)
theory Peer_Table
  imports Peer_Database Lmdb_Reliable
begin

text \<open>
  The peer database while the library has no failure to report: each method ends, and changes the
  table of peers exactly as its name says.
\<close>

fun peerdb_reliable :: "('z, 'e, 't, 'c, 'y) peerdb_param \<Rightarrow> bool" where
  "peerdb_reliable (C, L, ev, tv, cv, P) \<longleftrightarrow>
     peerdb_lawful (C, L, ev, tv, cv, P) \<and> reliable L tv \<and> m_dbi (m_database P) \<noteq> 0 \<and>
     (\<forall>i. key_serialize C i \<noteq> [])"

lemma add_succeeds:
  assumes p: "peerdb_reliable (C, L, ev, tv, cv, P)" and E: "peerdb_holds (C, L, ev, tv, cv, P) E t"
    and q: "storable C q" and ok: "peer_id q \<noteq> m_peer_id P" "prune_time now \<le> last_seen q"
  shows "\<exists>E'. peerdb_add C L P now q E = Some (E', Returned SUCCESS) \<and>
    peerdb_holds (C, L, ev, tv, cv, P) E' (t(peer_id q \<mapsto> drop_port q))"
proof -
  have law: "peerdb_lawful (C, L, ev, tv, cv, P)" using p by simp
  obtain m where "store_holds (L, ev, tv, m_database P) E m" using E by auto
  then obtain E' where "db_put L (m_database P) (key_serialize C (peer_id q)) (peer_serialize C q) 0 E =
      Some (E', Returned SUCCESS)"
    using reliable_put [of L tv ev "m_database P" E m "key_serialize C (peer_id q)" "peer_serialize C q" 0] p
    by (auto simp del: store_holds.simps)
  then have a: "peerdb_add C L P now q E = Some (E', Returned SUCCESS)" using ok by (simp add: peerdb_add_def not_less [symmetric])
  have "peerdb_accepts (C, L, ev, tv, cv, P) q" using q by simp
  from io_postD [OF pdb.add_law [OF law this] E] a show ?thesis by fastforce
qed

lemma add_refused:
  assumes "peer_id q = m_peer_id P \<or> last_seen q < prune_time now"
  shows "peerdb_add C L P now q E = Some (E, Returned PEERLIST_ADD_FAILURE)"
  using assms by (auto simp: peerdb_add_def io_return_def)

lemma del_succeeds:
  assumes p: "peerdb_reliable (C, L, ev, tv, cv, P)" and E: "peerdb_holds (C, L, ev, tv, cv, P) E t"
  shows "\<exists>E'. peerdb_del C L P i E = Some (E', Returned (if t i = None then LMDB_NOTFOUND else SUCCESS)) \<and>
    peerdb_holds (C, L, ev, tv, cv, P) E' (t(i := None))"
proof -
  have law: "peerdb_lawful (C, L, ev, tv, cv, P)" "network_laws C" using p by simp_all
  obtain m where m: "store_holds (L, ev, tv, m_database P) E m" "table_of C m t" using E by auto
  obtain E' where d: "peerdb_del C L P i E =
      Some (E', Returned (if m (key_serialize C i) = None then LMDB_NOTFOUND else SUCCESS))"
    using reliable_del [OF _ _ m(1), of "key_serialize C i"] p by (auto simp: peerdb_del_def)
  moreover have "m (key_serialize C i) = None \<longleftrightarrow> t i = None" using table_lookup [OF law(2) m(2)] by simp
  moreover have "t(i := None) = t" if "t i = None" using that by auto
  ultimately show ?thesis using io_postD [OF pdb.del_law [OF law(1)] E, of i] by fastforce
qed

lemma get_succeeds:
  assumes p: "peerdb_reliable (C, L, ev, tv, cv, P)" and E: "peerdb_holds (C, L, ev, tv, cv, P) E t"
  shows "\<exists>E'. peerdb_get C L P i E =
      Some (E', Returned (case t i of None \<Rightarrow> (LMDB_NOTFOUND, None) | Some q \<Rightarrow> (SUCCESS, Some q))) \<and>
    peerdb_holds (C, L, ev, tv, cv, P) E' t"
proof -
  have law: "peerdb_lawful (C, L, ev, tv, cv, P)" "network_laws C" using p by simp_all
  obtain m where m: "store_holds (L, ev, tv, m_database P) E m" "table_of C m t" using E by auto
  obtain E' where g: "db_get L (m_database P) (key_serialize C i) E =
      (Returned (case m (key_serialize C i) of None \<Rightarrow> (LMDB_NOTFOUND, []) | Some v \<Rightarrow> (SUCCESS, v)), E')"
    using reliable_get [OF _ _ m(1), of "key_serialize C i"] p by auto
  have "peer_deserialize C (peer_serialize C x) = Some (x, [])" if "t i = Some x" for x
    using table_entry [OF m(2) that] peer.read_back_all [OF law(2)] by simp
  then have r: "peerdb_get C L P i E =
      Some (E', Returned (case t i of None \<Rightarrow> (LMDB_NOTFOUND, None) | Some q \<Rightarrow> (SUCCESS, Some q)))"
    using g table_lookup [OF law(2) m(2), of i]
    by (cases "t i") (auto simp: peerdb_get_def io_call_def db_get_value_def)
  then show ?thesis using get_value_law [OF law(1) E r] by blast
qed

lemma peers_succeed:
  assumes p: "peerdb_reliable (C, L, ev, tv, cv, P)" and E: "peerdb_holds (C, L, ev, tv, cv, P) E t"
    and card: "card (dom t) < 2 ^ 64" and mix: "\<And>ps. mset (mix ps) = mset ps"
  shows "\<exists>E' ps. peerdb_peers C L P mix n net E = Some (E', Returned ps) \<and> peerdb_holds (C, L, ev, tv, cv, P) E' t"
proof -
  have law: "peerdb_lawful (C, L, ev, tv, cv, P)" "network_laws C" "lmdb_laws L ev tv" "cursor_laws L tv cv"
    "reliable L tv" "m_dbi (m_database P) \<noteq> 0" using p by simp_all
  obtain m where m: "store_holds (L, ev, tv, m_database P) E m" "table_of C m t" using E by auto
  have "card (dom m) < 2 ^ 64" using table_card [OF law(2) m(2)] card by simp
  then obtain E' where g: "db_get_all L (m_database P) E =
      Some (E', Returned (map (the \<circ> m) (sorted_list_of_set (dom m))))"
    using reliable_get_all [OF law(5,3,4) m(1) law(6)] by blast
  have "set (map (the \<circ> m) (sorted_list_of_set (dom m))) \<subseteq> ran m"
    using reliable_finite [OF law(5,3,4) m(1) law(6)] by (auto simp: ran_def)
  then obtain ps where "read_each (peer_deserialize C) (map (the \<circ> m) (sorted_list_of_set (dom m))) = Returned ps"
    using read_each_table [OF law(2) m(2)] by blast
  then have r: "peerdb_peers C L P mix n net E = Some (E', Returned (select_peers C mix n net ps))"
    using g by (simp add: peerdb_peers_def db_get_all_values_def io_bind_def io_return_def)
  then show ?thesis using peers_law [OF law(1) E mix r] by blast
qed

section \<open>Touching and pruning\<close>

lemma touch_succeeds:
  assumes p: "peerdb_reliable (C, L, ev, tv, cv, P)" and E: "peerdb_holds (C, L, ev, tv, cv, P) E t"
    and i: "t i = Some q" "i \<noteq> m_peer_id P" "prune_time now' \<le> now"
  shows "\<exists>E'. peerdb_touch C L P now now' i E = Some (E', Returned SUCCESS) \<and>
    peerdb_holds (C, L, ev, tv, cv, P) E' (t(i \<mapsto> q\<lparr>last_seen := now\<rparr>))"
proof -
  have law: "peerdb_lawful (C, L, ev, tv, cv, P)" using p by simp
  obtain E1 where g: "peerdb_get C L P i E = Some (E1, Returned (SUCCESS, Some q))"
    "peerdb_holds (C, L, ev, tv, cv, P) E1 t" using get_succeeds [OF p E, of i] i(1) by auto
  have e: "peer_id q = i" "storable C (q\<lparr>last_seen := now\<rparr>)" "drop_port q = q"
    using pdb.entry [OF law E i(1), of now] by simp_all
  have "drop_port (q\<lparr>last_seen := now\<rparr>) = q\<lparr>last_seen := now\<rparr>" using e(3) by (cases q) (simp add: drop_port_def)
  then obtain E' where "peerdb_add C L P now' (q\<lparr>last_seen := now\<rparr>) E1 = Some (E', Returned SUCCESS)"
    "peerdb_holds (C, L, ev, tv, cv, P) E' (t(i \<mapsto> q\<lparr>last_seen := now\<rparr>))"
    using add_succeeds [OF p g(2) e(2), of now'] e(1) i(2,3) by auto
  then show ?thesis using g(1) by (auto simp: peerdb_touch_def io_bind_def)
qed

lemma touch_unknown:
  assumes "peerdb_reliable (C, L, ev, tv, cv, P)" "peerdb_holds (C, L, ev, tv, cv, P) E t" "t i = None"
  shows "\<exists>E'. peerdb_touch C L P now now' i E = Some (E', Returned LMDB_NOTFOUND) \<and>
    peerdb_holds (C, L, ev, tv, cv, P) E' t"
  using get_succeeds [OF assms(1,2), of i] assms(3) by (auto simp: peerdb_touch_def io_bind_def io_return_def simp del: peerdb_holds.simps)

text \<open>The entries that pruning at \<open>now\<close> keeps.\<close>

definition fresh_peers :: "u64 \<Rightarrow> peer_table \<Rightarrow> peer_table" where
  "fresh_peers now t i = (case t i of None \<Rightarrow> None | Some q \<Rightarrow> if last_seen q < prune_time now then None else Some q)"

lemma del_stale_each:
  assumes p: "peerdb_reliable (C, L, ev, tv, cv, P)"
  shows "peerdb_holds (C, L, ev, tv, cv, P) E t \<Longrightarrow>
    \<exists>E'. io_each (\<lambda>q. if last_seen q < prune_time now then io_bind (peerdb_del C L P (peer_id q)) (\<lambda>_. io_return ())
          else io_return ()) qs E = Some (E', Returned ()) \<and>
      peerdb_holds (C, L, ev, tv, cv, P) E'
        (\<lambda>i. if \<exists>q \<in> set qs. peer_id q = i \<and> last_seen q < prune_time now then None else t i)"
proof (induction qs arbitrary: E t)
  case Nil
  then show ?case by (simp add: io_return_def)
next
  case (Cons q qs)
  show ?case
  proof (cases "last_seen q < prune_time now")
    case True
    obtain r E1 where d: "peerdb_del C L P (peer_id q) E = Some (E1, Returned r)"
      "peerdb_holds (C, L, ev, tv, cv, P) E1 (t(peer_id q := None))"
      using del_succeeds [OF p Cons.prems, of "peer_id q"] by blast
    have "(\<lambda>i. if \<exists>q' \<in> set qs. peer_id q' = i \<and> last_seen q' < prune_time now then None else (t(peer_id q := None)) i) =
        (\<lambda>i. if \<exists>q' \<in> set (q # qs). peer_id q' = i \<and> last_seen q' < prune_time now then None else t i)"
      using True by (auto simp: fun_eq_iff)
    then show ?thesis using Cons.IH [OF d(2)] True d(1) by (simp add: io_bind_def io_return_def)
  next
    case False
    have "(\<lambda>i. if \<exists>q' \<in> set qs. peer_id q' = i \<and> last_seen q' < prune_time now then None else t i) =
        (\<lambda>i. if \<exists>q' \<in> set (q # qs). peer_id q' = i \<and> last_seen q' < prune_time now then None else t i)"
      using False by (auto simp: fun_eq_iff)
    then show ?thesis using Cons.IH [OF Cons.prems] False by (simp add: io_bind_def io_return_def)
  qed
qed

lemma prune_succeeds:
  assumes p: "peerdb_reliable (C, L, ev, tv, cv, P)" and E: "peerdb_holds (C, L, ev, tv, cv, P) E t"
    and card: "card (dom t) < 2 ^ 64" and mix: "\<And>ps. mset (mix ps) = mset ps"
  shows "\<exists>E'. peerdb_prune C L P mix now E = Some (E', Returned ()) \<and>
    peerdb_holds (C, L, ev, tv, cv, P) E' (fresh_peers now t)"
proof -
  have law: "peerdb_lawful (C, L, ev, tv, cv, P)" "network_laws C" using p by simp_all
  obtain E1 ps where l: "peerdb_peers C L P mix 0 (hash_default C) E = Some (E1, Returned ps)"
    "peerdb_holds (C, L, ev, tv, cv, P) E1 t" using peers_succeed [OF p E card mix] by blast
  have ps: "set ps = ran t"
    using peers_complete(2) [OF law(1) E card mix l(1)] network_lawsD(8) [OF law(2)] by simp
  have "(\<lambda>i. if \<exists>q \<in> set ps. peer_id q = i \<and> last_seen q < prune_time now then None else t i) = fresh_peers now t"
  proof
    fix i
    have id: "peer_id q = j" if "t j = Some q" for q j using pdb.entry [OF law(1) E that, of 0] by simp
    then have "(\<exists>q \<in> ran t. peer_id q = i \<and> last_seen q < prune_time now) \<longleftrightarrow>
        (\<exists>q. t i = Some q \<and> last_seen q < prune_time now)" by (auto simp: ran_def)
    then show "(if \<exists>q \<in> set ps. peer_id q = i \<and> last_seen q < prune_time now then None else t i) = fresh_peers now t i"
      by (auto simp: ps fresh_peers_def split: option.split)
  qed
  then show ?thesis
    using del_stale_each [OF p l(2), of now ps] l(1) by (simp add: peerdb_prune_def io_bind_def)
qed

section \<open>Our own peer id is kept\<close>

lemma own_peer_id_recorded:
  assumes C: "network_laws C" "\<And>i. key_serialize C i \<noteq> []" and L: "lmdb_laws L ev tv" "reliable L tv"
    and E: "stored ev E c" "m_open_txns E + 1 \<noteq> 0" "tsm_at (m_databases E) (db_id d) = Some d" "m_dbi d \<noteq> 0"
    and run: "own_peer_id C L d random_id E = Some (E', Returned own)"
  shows "\<exists>c'. stored ev E' c' \<and> recorded_id C d c' = Some (key_serialize C own)"
proof -
  let ?k = "key_serialize C PEER_ID_IDENTIFIER"
  have hold: "store_holds (L, ev, tv, d) E (c (m_dbi d))" using E by auto
  obtain r1 E1 where g: "db_get_value L (r_key C) d ?k E = (r1, E1)" by fastforce
  obtain r0 E0 where g0: "db_get L d ?k E = (r0, E0)" by fastforce
  have "E1 = E0" using g unfolding db_get_value_def g0 by (auto split: outcome.splits if_splits option.splits prod.splits)
  with g0 have "db_get L d ?k E = (r0, E1)" by simp
  then have E1: "store_holds (L, ev, tv, d) E1 (c (m_dbi d))"
    using lmdb_store.get_law [of "(L, ev, tv, d)" E "c (m_dbi d)" ?k] hold L(1) by auto
  obtain E2 where p: "db_put L d ?k (key_serialize C own) 0 E1 = Some (E2, Returned SUCCESS)"
    using reliable_put [OF L(2) E1 E(4) C(2)] by blast
  obtain err found where r1: "r1 = Returned (err, found)"
    using run g by (cases r1) (auto simp: own_peer_id_def io_bind_def io_call_def)
  define own' where "own' = (if \<not> failed err then (case found of Some i \<Rightarrow> i | None \<Rightarrow> random_id) else random_id)"
  have "own_peer_id C L d random_id E =
      io_bind (db_put L d ?k (key_serialize C own') 0) (\<lambda>_. io_return own') E1"
    unfolding own_peer_id_def own'_def Let_def by (simp add: io_bind_def io_call_def g r1)
  then have "E' = E2"
    using run p by (auto simp: io_bind_def io_return_def split: option.splits outcome.splits)
  moreover have "store_put (L, ev, tv, d) ?k (key_serialize C own) E1 = Some (E2, Returned SUCCESS)" using p by simp
  from lmdb_store.put_law [OF _ E1 this] have "store_holds (L, ev, tv, d) E2 ((c (m_dbi d))(?k \<mapsto> key_serialize C own))"
    using L(1) by simp
  ultimately show ?thesis by auto
qed

lemma peerdb_make_recorded:
  assumes C: "network_laws C" "\<And>i. key_serialize C i \<noteq> []" and L: "lmdb_laws L ev tv" "open_laws L tv" "reliable L tv"
    and E: "stored ev E c" "m_open_txns E + 1 \<noteq> 0" "databases_ok C E"
    and run: "peerdb_make C L random_id E = Some (E', Returned P)"
  shows "\<exists>d c'. stored ev E' c' \<and> tsm_at (m_databases E') (sha3 C (string_bytes ''local'')) = Some d \<and>
    recorded_id C d c' = Some (key_serialize C (m_peer_id P)) \<and>
    tsm_at (m_databases E') (sha3 C (string_bytes ''peerlist'')) = Some (m_database P)"
proof -
  have st: "strict_total (key_less C)" by (rule crypto_lawsD(2) [OF network_lawsD(1) [OF C(1)]])
  obtain D E1 where o1: "open_database C L ''peerlist'' 0 E = (Returned D, E1)"
    using run by (cases "open_database C L ''peerlist'' 0 E")
      (auto simp: peerdb_make_def io_bind_def io_call_def split: outcome.splits)
  note O1 = open_database_result [OF st L(1,2) E o1]
  have E1: "stored ev E1 c" "m_open_txns E1 + 1 \<noteq> 0" "databases_ok C E1" using O1(1-3) E(2) by simp_all
  obtain d E2 where o2: "open_database C L ''local'' 0 E1 = (Returned d, E2)"
    using run o1 by (cases "open_database C L ''local'' 0 E1")
      (auto simp: peerdb_make_def io_bind_def io_call_def split: outcome.splits)
  note O2 = open_database_result [OF st L(1,2) E1 o2]
  have d: "m_open_txns E2 + 1 \<noteq> 0" "tsm_at (m_databases E2) (db_id d) = Some d" "m_dbi d \<noteq> 0"
      "db_id d = sha3 C (string_bytes ''local'')"
    using O2(2) O2(7) [OF refl] E1(2) by auto
  have D: "tsm_at (m_databases E2) (sha3 C (string_bytes ''peerlist'')) = Some D"
    using O2(6) O1(7) [OF refl] by auto
  obtain own where own: "own_peer_id C L d random_id E2 = Some (E', Returned own)" "P = \<lparr>m_peer_id = own, m_database = D\<rparr>"
    using run o1 o2
    by (auto simp: peerdb_make_def io_bind_def io_call_def io_return_def split: option.splits outcome.splits)
  have "frame E2 E'" using own_peer_id_result [OF C(1) L(1) O2(1) d(1,2) own(1)] by blast
  then show ?thesis
    using own_peer_id_recorded [OF C L(1,3) O2(1) d(1-3) own(1)] d(2,4) D own(2) by (auto simp: frameD)
qed

lemma peer_id_stable:
  assumes C: "network_laws C" "\<And>i. key_serialize C i \<noteq> []" and L: "lmdb_laws L ev tv" "open_laws L tv" "reliable L tv"
    and E: "stored ev E c" "m_open_txns E + 1 \<noteq> 0" "databases_ok C E"
    and run: "peerdb_make C L id1 E = Some (E1, Returned P1)" "peerdb_make C L id2 E1 = Some (E2, Returned P2)"
  shows "P2 = P1"
proof -
  obtain c0 where E1: "databases_ok C E1" "m_open_txns E1 = m_open_txns E" "stored ev E1 c0"
    using peerdb_make_result [OF C(1) L(1,2) E run(1)] by blast
  obtain d c1 where 1: "stored ev E1 c1" "tsm_at (m_databases E1) (sha3 C (string_bytes ''local'')) = Some d"
      "recorded_id C d c1 = Some (key_serialize C (m_peer_id P1))"
      "tsm_at (m_databases E1) (sha3 C (string_bytes ''peerlist'')) = Some (m_database P1)"
    using peerdb_make_recorded [OF C L E run(1)] by blast
  have n: "m_open_txns E1 + 1 \<noteq> 0" using E(2) E1(2) by simp
  have "m_peer_id P2 = m_peer_id P1"
    using peerdb_make_result [OF C(1) L(1,2) 1(1) n E1(1) run(2)] 1(2,3) by blast
  moreover have "m_database P2 = m_database P1"
    using run(2) open_database_again [OF 1(4), of L 0]
    by (auto simp: peerdb_make_def io_bind_def io_call_def io_return_def split: option.splits outcome.splits prod.splits)
  ultimately show ?thesis by simp
qed

section \<open>Opening the peer database\<close>

text \<open>What is recorded as our own id, in whatever database, is an id.\<close>

definition ids_readable :: "'z network_scheme \<Rightarrow> contents \<Rightarrow> bool" where
  "ids_readable C c \<longleftrightarrow> (\<forall>d v. c d (key_serialize C PEER_ID_IDENTIFIER) = Some v \<longrightarrow> v \<in> range (key_serialize C))"

lemma own_peer_id_returns:
  assumes C: "network_laws C" "\<And>i. key_serialize C i \<noteq> []" and L: "lmdb_laws L ev tv" "reliable L tv"
    and E: "stored ev E c" "m_open_txns E + 1 \<noteq> 0" "tsm_at (m_databases E) (db_id d) = Some d" "m_dbi d \<noteq> 0"
    and ids: "ids_readable C c"
  shows "\<exists>E' own. own_peer_id C L d random_id E = Some (E', Returned own)"
proof -
  let ?k = "key_serialize C PEER_ID_IDENTIFIER"
  have hold: "store_holds (L, ev, tv, d) E (c (m_dbi d))" using E by auto
  obtain E1 where g: "db_get L d ?k E = (Returned (case c (m_dbi d) ?k of None \<Rightarrow> (LMDB_NOTFOUND, []) | Some v \<Rightarrow> (SUCCESS, v)), E1)"
      "store_holds (L, ev, tv, d) E1 (c (m_dbi d))"
    using reliable_get [OF L(2,1) hold E(4)] by blast
  have "\<exists>err found. db_get_value L (r_key C) d ?k E = (Returned (err, found), E1)"
    using g(1) ids codec_read_back_end(5) [OF network_lawsD(2) [OF C(1)]]
    by (cases "c (m_dbi d) ?k") (force simp: db_get_value_def ids_readable_def)+
  then obtain err found where v: "db_get_value L (r_key C) d ?k E = (Returned (err, found), E1)" by blast
  define own where "own = (if \<not> failed err then (case found of Some i \<Rightarrow> i | None \<Rightarrow> random_id) else random_id)"
  obtain E2 where "db_put L d ?k (key_serialize C own) 0 E1 = Some (E2, Returned SUCCESS)"
    using reliable_put [OF L(2) g(2) E(4) C(2)] by blast
  moreover have "own_peer_id C L d random_id E = io_bind (db_put L d ?k (key_serialize C own) 0) (\<lambda>_. io_return own) E1"
    unfolding own_peer_id_def own_def Let_def by (simp add: io_bind_def io_call_def v)
  ultimately show ?thesis by (simp add: io_bind_def io_return_def)
qed

lemma peerdb_make_returns:
  assumes C: "network_laws C" "\<And>i. key_serialize C i \<noteq> []"
    and L: "lmdb_laws L ev tv" "open_laws L tv" "reliable L tv" "opens_all L"
    and E: "stored ev E c" "m_open_txns E + 1 \<noteq> 0" "databases_ok C E" "m_registered E" and ids: "ids_readable C c"
  shows "\<exists>E' P. peerdb_make C L random_id E = Some (E', Returned P)"
    and "peerdb_make C L random_id E = Some (E', Returned P) \<Longrightarrow> m_registered E'"
proof -
  have st: "strict_total (key_less C)" by (rule crypto_lawsD(2) [OF network_lawsD(1) [OF C(1)]])
  obtain D E1 where o1: "open_database C L ''peerlist'' 0 E = (Returned D, E1)"
    using open_database_returns [OF st L E] by blast
  note O1 = open_database_result [OF st L(1,2) E(1-3) o1]
  have E1: "stored ev E1 c" "m_open_txns E1 + 1 \<noteq> 0" "databases_ok C E1" "m_registered E1"
    using O1(1-4) E(2,4) by simp_all
  obtain d E2 where o2: "open_database C L ''local'' 0 E1 = (Returned d, E2)"
    using open_database_returns [OF st L E1] by blast
  note O2 = open_database_result [OF st L(1,2) E1(1-3) o2]
  have d: "m_open_txns E2 + 1 \<noteq> 0" "tsm_at (m_databases E2) (db_id d) = Some d" "m_dbi d \<noteq> 0" "m_registered E2"
    using O2(2,4) O2(7) [OF refl] E1(2,4) by auto
  obtain E3 own where own: "own_peer_id C L d random_id E2 = Some (E3, Returned own)"
    using own_peer_id_returns [OF C L(1,3) O2(1) d(1-3) ids] by blast
  then have m: "peerdb_make C L random_id E = Some (E3, Returned \<lparr>m_peer_id = own, m_database = D\<rparr>)"
    using o1 o2 by (simp add: peerdb_make_def io_bind_def io_call_def io_return_def)
  then show "\<exists>E' P. peerdb_make C L random_id E = Some (E', Returned P)" by blast
  have "frame E2 E3" using own_peer_id_result [OF C(1) L(1) O2(1) d(1,2) own] by blast
  then show "peerdb_make C L random_id E = Some (E', Returned P) \<Longrightarrow> m_registered E'"
    using m d(4) by (auto simp: frameD)
qed

lemma ids_readable_kept:
  assumes "ids_readable C c" "c' = c \<or> c' = c(d := (c d)(key_serialize C PEER_ID_IDENTIFIER \<mapsto> key_serialize C i))"
  shows "ids_readable C c'"
  using assms by (auto simp: ids_readable_def split: if_splits)

text \<open>
  The id is made once: every later construction on the environment takes the one that is recorded.
\<close>

text \<open>Several constructions, one after the other, each with the random hash that it draws.\<close>

fun peerdb_makes ::
  "'z network_scheme \<Rightarrow> ('e, 't, 'c, 'f, 'y) lmdb_files_scheme \<Rightarrow> crypto_hash_t list \<Rightarrow> ('e LMDB, PeerDB list) io" where
  "peerdb_makes C L [] = io_return []"
| "peerdb_makes C L (i # is) =
     io_bind (peerdb_make C L i) (\<lambda>P. io_bind (peerdb_makes C L is) (\<lambda>Ps. io_return (P # Ps)))"

text \<open>What the constructor needs of an environment, and leaves so.\<close>

definition constructible :: "'z network_scheme \<Rightarrow> ('e \<Rightarrow> contents) \<Rightarrow> 'e LMDB \<Rightarrow> bool" where
  "constructible C ev E \<longleftrightarrow> (\<exists>c. stored ev E c \<and> ids_readable C c) \<and> m_open_txns E + 1 \<noteq> 0 \<and> databases_ok C E \<and> m_registered E"

lemma peerdb_make_again:
  assumes C: "network_laws C" "\<And>i. key_serialize C i \<noteq> []"
    and L: "lmdb_laws L ev tv" "open_laws L tv" "reliable L tv" "opens_all L" and E: "constructible C ev E"
  shows "\<exists>E1 P. peerdb_make C L i E = Some (E1, Returned P) \<and> constructible C ev E1"
proof -
  obtain c where c: "stored ev E c" "ids_readable C c" "m_open_txns E + 1 \<noteq> 0" "databases_ok C E" "m_registered E"
    using E by (auto simp: constructible_def)
  obtain E1 P where m: "peerdb_make C L i E = Some (E1, Returned P)"
    using peerdb_make_returns(1) [OF C L c(1,3-5,2)] by blast
  obtain d :: LMDBDatabase and c1 where c1: "stored ev E1 c1" "databases_ok C E1" "m_open_txns E1 = m_open_txns E"
      "c1 = c \<or> c1 = c(m_dbi d := (c (m_dbi d))(key_serialize C PEER_ID_IDENTIFIER \<mapsto> key_serialize C (m_peer_id P)))"
    using peerdb_make_result [OF C(1) L(1,2) c(1,3,4) m] by blast
  have "constructible C ev E1"
    using c1(1-3) c(3) ids_readable_kept [OF c(2) c1(4)] peerdb_make_returns(2) [OF C L c(1,3-5,2) m]
    by (auto simp: constructible_def)
  then show ?thesis using m by blast
qed

lemma peerdb_makes_same:
  assumes C: "network_laws C" "\<And>i. key_serialize C i \<noteq> []"
    and L: "lmdb_laws L ev tv" "open_laws L tv" "reliable L tv" "opens_all L"
  shows "constructible C ev E \<Longrightarrow> peerdb_make C L i E = Some (E1, Returned P) \<Longrightarrow> constructible C ev E1 \<Longrightarrow>
    \<exists>E'. peerdb_makes C L is E1 = Some (E', Returned (replicate (length is) P)) \<and> constructible C ev E'"
proof (induction "is" arbitrary: i E E1)
  case Nil
  then show ?case by (simp add: io_return_def)
next
  case (Cons j "is")
  obtain E2 P2 where 2: "peerdb_make C L j E1 = Some (E2, Returned P2)" "constructible C ev E2"
    using peerdb_make_again [OF C L Cons.prems(3)] by blast
  obtain c where c: "stored ev E c" "m_open_txns E + 1 \<noteq> 0" "databases_ok C E"
    using Cons.prems(1) by (auto simp: constructible_def)
  have P: "P2 = P" by (rule peer_id_stable [OF C L(1-3) c Cons.prems(2) 2(1)])
  have "peerdb_make C L j E1 = Some (E2, Returned P)" using 2(1) P by simp
  from Cons.IH [OF Cons.prems(3) this 2(2)] show ?case
    using \<open>peerdb_make C L j E1 = Some (E2, Returned P)\<close> by (auto simp: io_bind_def io_return_def)
qed

end
