(* ===== verification/P2p_Service.thy ===== *)
theory P2p_Service
  imports P2p_Limits Peer_Table
begin

text \<open>
  What the node does for a peer that behaves, while the library has no failure to report: it learns
  the peer and answers its first handshake with its own one, which the peer can read.
\<close>

section \<open>The database of the node\<close>

text \<open>Only the environment and the clock of a node have moved.\<close>

abbreviation env_step :: "'e Node \<Rightarrow> 'e Node \<Rightarrow> bool" where
  "env_step N N' \<equiv> N' = N\<lparr>node_env := node_env N', node_ticks := node_ticks N'\<rparr>"

lemma env_step_trans: "env_step N1 N2 \<Longrightarrow> env_step N2 N3 \<Longrightarrow> env_step N1 N3"
  by (cases N1; cases N2; cases N3) auto

definition node_has where
  "node_has (C :: 'z network_scheme) (L :: ('e, 't, 'c, 'y) lmdb_cursors_scheme) ev tv cv (N :: 'e Node) t \<longleftrightarrow>
     peerdb_reliable (C, L, ev, tv, cv, node_peer_db N) \<and>
     peerdb_holds (C, L, ev, tv, cv, node_peer_db N) (node_env N) t"

lemma node_add_runs:
  assumes N: "node_has C L ev tv cv N t" and q: "storable C q"
  shows "\<exists>N' r. node_add C L q N = Some (N', Returned r) \<and> env_step N N' \<and> node_ticks N' = Suc (node_ticks N) \<and>
    node_has C L ev tv cv N'
      (if peer_id q = m_peer_id (node_peer_db N) \<or> last_seen q < prune_time (node_clock N (node_ticks N)) then t
       else t(peer_id q \<mapsto> drop_port q))"
proof -
  let ?P = "node_peer_db N" and ?now = "node_clock N (node_ticks N)"
  have p: "peerdb_reliable (C, L, ev, tv, cv, ?P)" "peerdb_holds (C, L, ev, tv, cv, ?P) (node_env N) t"
    using N by (simp_all add: node_has_def)
  obtain E' r where a: "peerdb_add C L ?P ?now q (node_env N) = Some (E', Returned r)"
    "peerdb_holds (C, L, ev, tv, cv, ?P) E'
      (if peer_id q = m_peer_id ?P \<or> last_seen q < prune_time ?now then t else t(peer_id q \<mapsto> drop_port q))"
    using add_refused [of q ?P ?now C L "node_env N"] add_succeeds [OF p q, of ?now] p(2)
    by (cases "peer_id q = m_peer_id ?P \<or> last_seen q < prune_time ?now") (auto simp: not_less simp del: peerdb_holds.simps)
  then show ?thesis
    using p(1) by (auto simp: node_add_def io_bind_def node_time_def in_env_def node_has_def
        simp del: peerdb_holds.simps peerdb_reliable.simps)
qed

lemma card_dom_upd: "card (dom (t(i \<mapsto> q))) \<le> Suc (card (dom t))"
  by (cases "finite (dom t)") (simp_all add: card_insert_if)

lemma learn_each_runs:
  assumes "\<forall>q \<in> set qs. storable C q"
  shows "node_has C L ev tv cv N t \<Longrightarrow>
    \<exists>N' t'. io_each (\<lambda>q. if peer_id q = i then io_return () else io_bind (node_add C L q) (\<lambda>_. io_return ())) qs N =
        Some (N', Returned ()) \<and> env_step N N' \<and> node_has C L ev tv cv N' t' \<and> t' i = t i \<and>
        card (dom t') \<le> card (dom t) + length qs"
  using assms
proof (induction qs arbitrary: N t)
  case Nil
  then show ?case by (auto simp: io_return_def)
next
  case (Cons q qs)
  show ?case
  proof (cases "peer_id q = i")
    case True
    have "\<forall>q \<in> set qs. storable C q" using Cons.prems by simp
    from Cons.IH [OF Cons.prems(1) this] show ?thesis using True by (fastforce simp: io_bind_def io_return_def)
  next
    case False
    define t1 where "t1 = (if peer_id q = m_peer_id (node_peer_db N) \<or> last_seen q < prune_time (node_clock N (node_ticks N))
      then t else t(peer_id q \<mapsto> drop_port q))"
    obtain N1 r where n: "node_add C L q N = Some (N1, Returned r)" "env_step N N1" "node_has C L ev tv cv N1 t1"
      using node_add_runs [OF Cons.prems(1), of q] Cons.prems(2) unfolding t1_def by auto
    have t1: "t1 i = t i" "card (dom t1) \<le> Suc (card (dom t))"
      using False card_dom_upd [of t "peer_id q" "drop_port q"] by (auto simp: t1_def)
    have "\<forall>q \<in> set qs. storable C q" using Cons.prems(2) by simp
    from Cons.IH [OF n(3) this] obtain N' t' where I:
      "io_each (\<lambda>q. if peer_id q = i then io_return () else io_bind (node_add C L q) (\<lambda>_. io_return ())) qs N1 =
        Some (N', Returned ())" "env_step N1 N'" "node_has C L ev tv cv N' t'" "t' i = t1 i"
      "card (dom t') \<le> card (dom t1) + length qs" by blast
    have "env_step N N'" by (rule env_step_trans [OF n(2) I(2)])
    moreover have "io_each (\<lambda>q. if peer_id q = i then io_return () else io_bind (node_add C L q) (\<lambda>_. io_return ()))
        (q # qs) N = Some (N', Returned ())" using n(1) I(1) False by (simp add: io_bind_def io_return_def)
    ultimately show ?thesis using I(3-5) t1 by (intro exI [of _ N'] exI [of _ t']) auto
  qed
qed

text \<open>The sender of a packet is recorded with its address and the time.\<close>

lemma learn_peers_runs:
  assumes N: "node_has C L ev tv cv N t" and C: "network_laws C" and a: "ip_address_of_string C address = Some a"
    and ps: "\<forall>q \<in> set (packet_peers packet). wf_peer C q"
    and other: "packet_peer_id packet \<noteq> m_peer_id (node_peer_db N)"
    and now: "prune_time (node_clock N (Suc (node_ticks N))) \<le> node_clock N (node_ticks N)"
  shows "\<exists>N' t'. learn_peers C L address packet N = Some (N', Returned ()) \<and> env_step N N' \<and>
    node_has C L ev tv cv N' t' \<and> card (dom t') \<le> card (dom t) + Suc (length (packet_peers packet)) \<and>
    t' (packet_peer_id packet) = Some (drop_port (network_peer (node_clock N (node_ticks N)) a
      (packet_peer_id packet) (packet_peer_port packet) (packet_network_id packet)))"
proof -
  let ?i = "packet_peer_id packet"
  let ?q = "network_peer (node_clock N (node_ticks N)) a ?i (packet_peer_port packet) (packet_network_id packet)"
  let ?N0 = "N\<lparr>node_ticks := Suc (node_ticks N)\<rparr>"
  have N0: "node_has C L ev tv cv ?N0 t" using N by (simp add: node_has_def)
  have q: "peer_id ?q = ?i" "last_seen ?q = node_clock N (node_ticks N)" by (simp_all add: network_peer_def)
  obtain N1 r where n: "node_add C L ?q ?N0 = Some (N1, Returned r)" "env_step ?N0 N1"
      "node_has C L ev tv cv N1 (t(?i \<mapsto> drop_port ?q))"
    using node_add_runs [OF N0 network_peer_storable [OF C a], of "node_clock N (node_ticks N)" ?i
        "packet_peer_port packet" "packet_network_id packet"] q other now by (auto simp: not_less [symmetric])
  have "\<forall>q \<in> set (packet_peers packet). storable C q" using ps wf_peer_storable by blast
  from learn_each_runs [OF this n(3), of ?i] obtain N' t' where I:
    "io_each (\<lambda>q. if peer_id q = ?i then io_return () else io_bind (node_add C L q) (\<lambda>_. io_return ()))
      (packet_peers packet) N1 = Some (N', Returned ())" "env_step N1 N'" "node_has C L ev tv cv N' t'"
    "t' ?i = Some (drop_port ?q)" "card (dom t') \<le> card (dom (t(?i \<mapsto> drop_port ?q))) + length (packet_peers packet)"
    by auto
  have "env_step N N'" using env_step_trans [OF _ env_step_trans [OF n(2) I(2)], of N] by simp
  moreover have "learn_peers C L address packet N = Some (N', Returned ())"
    using a n(1) I(1) by (simp add: learn_peers_def io_bind_def node_time_def)
  ultimately show ?thesis
    using I(3-5) card_dom_upd [of t ?i "drop_port ?q"] by (intro exI [of _ N'] exI [of _ t']) auto
qed

section \<open>The handshake of the node\<close>

lemma node_peers_runs:
  assumes N: "node_has C L ev tv cv N t" and card: "card (dom t) < 2 ^ 64" and mix: "\<And>seed ps. mset (mix seed ps) = mset ps"
  shows "\<exists>N' ps. node_peers C L mix n net N = Some (N', Returned ps) \<and> env_step N N' \<and> node_has C L ev tv cv N' t \<and>
    set ps \<subseteq> ran t"
proof -
  let ?P = "node_peer_db N" and ?m = "mix (node_clock N (node_ticks N))"
  have p: "peerdb_reliable (C, L, ev, tv, cv, ?P)" "peerdb_holds (C, L, ev, tv, cv, ?P) (node_env N) t"
    "peerdb_lawful (C, L, ev, tv, cv, ?P)"
    using N by (simp_all add: node_has_def)
  obtain E' ps where r: "peerdb_peers C L ?P ?m n net (node_env N) = Some (E', Returned ps)"
      "peerdb_holds (C, L, ev, tv, cv, ?P) E' t"
    using peers_succeed [OF p(1,2) card, of ?m n net] mix by blast
  have "set ps \<subseteq> ran t" using peers_law [OF p(3,2) _ r(1)] mix by blast
  then show ?thesis
    using r p(1) by (auto simp: node_peers_def io_bind_def node_time_def in_env_def node_has_def
        simp del: peerdb_holds.simps peerdb_reliable.simps)
qed

lemma build_handshake_runs:
  assumes N: "node_has C L ev tv cv N t" and card: "card (dom t) < 2 ^ 64" and mix: "\<And>seed ps. mset (mix seed ps) = mset ps"
  shows "\<exists>N' packet. build_handshake C L mix N = Some (N', Returned packet) \<and> env_step N N' \<and>
    node_has C L ev tv cv N' t \<and> wf_peers_packet C packet"
proof -
  obtain N' ps where r: "node_peers C L mix 0 (hash_default C) N = Some (N', Returned ps)" "env_step N N'"
      "node_has C L ev tv cv N' t" "set ps \<subseteq> ran t"
    using node_peers_runs [OF N card, of mix 0 "hash_default C"] mix by blast
  define qs where "qs = (if length ps > MAXIMUM_PEERS_EXCHANGED then take MAXIMUM_PEERS_EXCHANGED ps else ps)"
  have lawful: "peerdb_lawful (C, L, ev, tv, cv, node_peer_db N)" and
    holds: "peerdb_holds (C, L, ev, tv, cv, node_peer_db N) (node_env N) t" using N by (simp_all add: node_has_def)
  from holds obtain m where m: "table_of C m t" by auto
  have "wf_peer C q" if "q \<in> ran t" for q using that table_entry [OF m] by (auto simp: ran_def)
  moreover have "set qs \<subseteq> ran t" using r(4) by (auto simp: qs_def dest: in_set_takeD)
  moreover have "length qs < 2 ^ 64" by (simp add: qs_def config)
  ultimately have "wf_peers_packet C (p\<lparr>packet_peers := qs\<rparr>)" for p
    by (auto simp: wf_peers_packet_def fits_u64_def)
  moreover have "build_handshake C L mix N =
      Some (N', Returned ((packet_handshake (m_peer_id (node_peer_db N)) (zs_port (node_server N)) (node_network_id N))
        \<lparr>packet_peers := qs\<rparr>))"
    using r(1) by (simp add: build_handshake_def build_peer_list_def io_bind_def io_gets_def io_return_def qs_def)
  ultimately show ?thesis using r(2,3) by blast
qed

text \<open>
  The first handshake of a peer on the server's side: the peer is recorded, one reply is queued for
  it which it reads as our handshake, with our id and network and at most the maximum number of
  peers, and the handshake is completed.
\<close>

lemma handshake_answered:
  assumes N: "node_has C L ev tv cv N t" and laws: "node_laws C L ev tv cv mix" and width: "key_width C"
    and card: "card (dom t) + Suc (length (packet_peers packet)) < 2 ^ 64"
    and a: "ip_address_of_string C address = Some a" and ps: "\<forall>q \<in> set (packet_peers packet). wf_peer C q"
    and guard: "source \<notin> set (node_completed N)" "source \<noteq> zs_identity (node_server N)"
      "packet_peer_id packet \<noteq> m_peer_id (node_peer_db N)" "P2P_MINIMUM_VERSION \<le> packet_version packet"
      "length (packet_peers packet) \<le> MAXIMUM_PEERS_EXCHANGED"
    and running: "zs_running (node_server N)"
    and now: "prune_time (node_clock N (Suc (node_ticks N))) \<le> node_clock N (node_ticks N)"
  shows "\<exists>N' t' reply. handle_handshake C L mix source address packet True N = Some (N', Returned ()) \<and>
    node_has C L ev tv cv N' t' \<and>
    t' (packet_peer_id packet) = Some (drop_port (network_peer (node_clock N (node_ticks N)) a
      (packet_peer_id packet) (packet_peer_port packet) (packet_network_id packet))) \<and>
    set (node_completed N') = insert source (set (node_completed N)) \<and>
    zs_outgoing (node_server N') = zs_outgoing (node_server N) @ [envelope_to C source (handshake_serialize C reply)] \<and>
    handshake_deserialize C (handshake_serialize C reply) = Some (reply, []) \<and>
    packet_peer_id reply = m_peer_id (node_peer_db N) \<and> packet_network_id reply = node_network_id N \<and>
    length (packet_peers reply) \<le> MAXIMUM_PEERS_EXCHANGED \<and> packet_type reply = packet_type_number NETWORK_HANDSHAKE \<and>
    packet_peer_port reply = zs_port (node_server N) \<and> packet_version reply = P2P_VERSION \<and> wf_peers_packet C reply"
proof -
  have C: "network_laws C" and mix: "\<And>seed ps. mset (mix seed ps) = mset ps" using laws by (simp_all add: node_laws_def)
  obtain N1 t' where l: "learn_peers C L address packet N = Some (N1, Returned ())" "env_step N N1"
      "node_has C L ev tv cv N1 t'" "card (dom t') \<le> card (dom t) + Suc (length (packet_peers packet))"
      "t' (packet_peer_id packet) = Some (drop_port (network_peer (node_clock N (node_ticks N)) a
        (packet_peer_id packet) (packet_peer_port packet) (packet_network_id packet)))"
    using learn_peers_runs [OF N C a ps guard(3) now] by blast
  obtain N2 reply where b: "build_handshake C L mix N1 = Some (N2, Returned reply)" "env_step N1 N2"
      "node_has C L ev tv cv N2 t'" "wf_peers_packet C reply"
    using build_handshake_runs [OF l(3) le_less_trans [OF l(4) card], of mix] mix by blast
  note E = env_step_trans [OF l(2) b(2)]
  let ?e = "envelope_to C source (handshake_serialize C reply)"
  define N' where "N' = N2\<lparr>node_server := server_send ?e (node_server N2),
    node_completed := tss_insert (key_less C) source (node_completed N2)\<rparr>"
  have same: "node_completed N2 = node_completed N" "node_server N2 = node_server N" "node_peer_db N2 = node_peer_db N"
    using arg_cong [OF E, of node_completed] arg_cong [OF E, of node_server] arg_cong [OF E, of node_peer_db] by simp_all
  have same1: "node_peer_db N1 = node_peer_db N" "node_network_id N1 = node_network_id N"
      "node_server N1 = node_server N"
    using arg_cong [OF l(2), of node_peer_db] arg_cong [OF l(2), of node_network_id] arg_cong [OF l(2), of node_server]
    by simp_all
  have "length (w_key C (packet_peer_id reply)) = 32" using width by (simp add: key_width_def)
  then have ne: "handshake_serialize C reply \<noteq> []"
    by (auto simp: handshake_serialize_def peers_packet_serialize_def)
  have "handle_handshake C L mix source address packet True N = Some (N', Returned ())"
    using guard l(1) b(1)
    by (simp add: handle_handshake_def tss_contains_iff not_less [symmetric] io_bind_def io_modify_def node_reply_def N'_def)
  moreover have "node_has C L ev tv cv N' t'" using b(3) by (simp add: N'_def node_has_def)
  moreover have "set (node_completed N') = insert source (set (node_completed N))"
    using crypto_lawsD(2) [OF network_lawsD(1) [OF C]] by (simp add: N'_def tss_insert_def set_set_insert same)
  moreover have "zs_outgoing (node_server N') = zs_outgoing (node_server N) @ [?e]"
    using ne running by (simp add: N'_def server_send_def same tsq_push_def envelope_to_def envelope_def)
  moreover have "handshake_deserialize C (handshake_serialize C reply) = Some (reply, [])"
    by (rule handshake.read_back_all [OF C b(4)])
  moreover have "packet_peer_id reply = m_peer_id (node_peer_db N)" "packet_network_id reply = node_network_id N"
    "length (packet_peers reply) \<le> MAXIMUM_PEERS_EXCHANGED" "packet_type reply = packet_type_number NETWORK_HANDSHAKE"
    "packet_peer_port reply = zs_port (node_server N)" "packet_version reply = P2P_VERSION"
    using build_handshake_bounded [OF b(1)] same1 by simp_all
  ultimately show ?thesis using l(5) b(4) by blast
qed

end
