(* ===== verification/Storage_Queries.thy ===== *)
theory Storage_Queries
  imports Blockchain_Storage Lmdb_Open
begin

text \<open>
  The operations of the blockchain storage that open its databases, walk over them with a cursor,
  or repeat other operations: the constructor, \<open>get_block_by_timestamp\<close>, \<open>get_block_count\<close>,
  \<open>get_random_outputs\<close> and \<open>rewind\<close>. Random hashes come from the sequence \<open>rnd\<close>.
\<close>

section \<open>Opening\<close>

definition storage_make ::
  "'z crypto_scheme \<Rightarrow> ('e, 't, 'c, 'f, 'y) lmdb_files_scheme \<Rightarrow> ('e LMDB, BlockchainStorage) io" where
  "storage_make C L =
     io_bind (io_call (open_database C L ''blocks'' 0)) (\<lambda>D1.
     io_bind (io_call (open_database C L ''block_indexes'' 0)) (\<lambda>D2.
     io_bind (io_call (open_database C L ''block_timestamps'' 0)) (\<lambda>D3.
     io_bind (io_call (open_database C L ''transactions'' 0)) (\<lambda>D4.
     io_bind (io_call (open_database C L ''key_images'' 0)) (\<lambda>D5.
     io_bind (io_call (open_database C L ''transaction_outputs'' 0)) (\<lambda>D6.
     io_return \<lparr>m_blocks = D1, m_block_indexes = D2, m_block_timestamps = D3, m_transactions = D4,
       m_key_images = D5, m_transaction_outputs = D6\<rparr>))))))"

definition storage_instance ::
  "'z crypto_scheme \<Rightarrow> ('e, 't, 'c, 'f, 'y) lmdb_files_scheme \<Rightarrow> string \<Rightarrow>
     (crypto_hash_t, BlockchainStorage) ThreadSafeMap \<Rightarrow>
     ('e LMDB, BlockchainStorage \<times> (crypto_hash_t, BlockchainStorage) ThreadSafeMap) io" where
  "storage_instance C L db_path = find_or_make C db_path (storage_make C L)"

definition storage_destroy ::
  "'z crypto_scheme \<Rightarrow> string \<Rightarrow> (crypto_hash_t, BlockchainStorage) ThreadSafeMap \<Rightarrow>
     (crypto_hash_t, BlockchainStorage) ThreadSafeMap" where
  "storage_destroy C db_path = forget_instance (sha3 C (string_bytes db_path))"

section \<open>Queries\<close>

text \<open>The typed reads of a cursor at a key; \<open>None\<close> is the exception of a reader.\<close>

definition cursor_get_uint64 ::
  "'z codec_scheme \<Rightarrow> ('e, 't, 'c, 'y) lmdb_cursors_scheme \<Rightarrow> 'v reader \<Rightarrow> u64 \<Rightarrow> MDB_cursor_op \<Rightarrow> 'c \<Rightarrow>
     ((ErrorCode \<times> (u64 \<times> 'v) option) \<times> 'c) option" where
  "cursor_get_uint64 C L rd key opn c =
     (let ((err, k, v), c) = cursor_get L (w_uint64 C key) opn c in
      if failed err then Some ((err, None), c)
      else do { (key, _) \<leftarrow> r_uint64 C k; (x, _) \<leftarrow> rd v; Some ((err, Some (key, x)), c) })"

definition cursor_get_key ::
  "'z codec_scheme \<Rightarrow> ('e, 't, 'c, 'y) lmdb_cursors_scheme \<Rightarrow> 256 word \<Rightarrow> MDB_cursor_op \<Rightarrow> 'c \<Rightarrow>
     ((ErrorCode \<times> (256 word \<times> bytes) option) \<times> 'c) option" where
  "cursor_get_key C L key opn c =
     (let ((err, k, v), c) = cursor_get L (key_serialize C key) opn c in
      if failed err then Some ((err, None), c)
      else do { (key, _) \<leftarrow> r_key C k; Some ((err, Some (key, v)), c) })"

text \<open>A program inside one read-only transaction with a cursor, which may throw.\<close>

definition db_with_cursor ::
  "('e, 't, 'c, 'y) lmdb_cursors_scheme \<Rightarrow> LMDBDatabase \<Rightarrow> ('c \<Rightarrow> 'a outcome option) \<Rightarrow> ('e LMDB, 'a) io" where
  "db_with_cursor L D f =
     io_bind (db_scan L D f) (\<lambda>r s. Some (s, r))"

definition get_block_by_timestamp where
  "get_block_by_timestamp (C :: 'z crypto_scheme) (L :: ('e, 't, 'c, 'y) lmdb_cursors_scheme) S ts =
     db_with_cursor L (m_block_timestamps S) (\<lambda>c.
       Some (case cursor_get_uint64 C L (r_key C) ts MDB_SET_RANGE c of
               None \<Rightarrow> Thrown
             | Some ((err, found), _) \<Rightarrow>
                 (case found of
                    None \<Rightarrow> Returned (DB_BLOCK_NOT_FOUND, None)
                  | Some th \<Rightarrow> Returned (err, Some th))))"

definition get_block_count where
  "get_block_count (L :: ('e, 't, 'c, 'y) lmdb_cursors_scheme) S = db_count L (m_blocks S)"

definition output_count where
  "output_count (L :: ('e, 't, 'c, 'y) lmdb_cursors_scheme) S = db_count L (m_transaction_outputs S)"

text \<open>
  The loop of \<open>get_random_outputs\<close>: what was found so far, the random hashes drawn so far. It may
  never end.
\<close>

partial_function (option) random_outputs ::
  "'z crypto_scheme \<Rightarrow> ('e, 't, 'c, 'y) lmdb_cursors_scheme \<Rightarrow> (nat \<Rightarrow> crypto_hash_t) \<Rightarrow> u64 \<Rightarrow> nat \<Rightarrow> nat \<Rightarrow> 'c \<Rightarrow>
     TransactionOutput list \<Rightarrow> TransactionOutput list outcome option" where
  "random_outputs C L rnd index n i c results =
     (if n \<le> length results then Some (Returned results)
      else case cursor_get_key C L (rnd i) MDB_SET_RANGE c of
             None \<Rightarrow> Some Thrown
           | Some ((err, found), c) \<Rightarrow>
               if err = LMDB_NOTFOUND then random_outputs C L rnd index n (Suc i) c results
               else case found of
                 None \<Rightarrow> Some Thrown
               | Some (key, bs) \<Rightarrow>
                   (case do { (out, bs) \<leftarrow> TransactionOutput_deserialize C bs;
                              (unlock, bs) \<leftarrow> r_varint C bs;
                              Some (out, unlock) } of
                      None \<Rightarrow> Some Thrown
                    | Some (out, unlock) \<Rightarrow>
                        if TransactionOutput_hash C out \<noteq> key \<or> unlock < index
                        then random_outputs C L rnd index n (Suc i) c results
                        else random_outputs C L rnd index n (Suc i) c
                               (if list_ex (TransactionOutput_eq C out) results then results else results @ [out])))"

declare random_outputs.simps [code]

fun sort_insert :: "('a \<Rightarrow> 'a \<Rightarrow> bool) \<Rightarrow> 'a \<Rightarrow> 'a list \<Rightarrow> 'a list" where
  "sort_insert lt x [] = [x]"
| "sort_insert lt x (y # ys) = (if lt y x then y # sort_insert lt x ys else x # y # ys)"

definition get_random_outputs where
  "get_random_outputs (C :: 'z crypto_scheme) (L :: ('e, 't, 'c, 'y) lmdb_cursors_scheme) S rnd index (n :: u64) =
     io_bind (db_count L (m_transaction_outputs S)) (\<lambda>total.
       if total < n then io_return (DB_TRANSACTION_OUTPUT_NOT_FOUND, [])
       else io_bind (db_with_cursor L (m_transaction_outputs S) (\<lambda>c. random_outputs C L rnd index (unat n) 0 c []))
              (\<lambda>results. io_return (SUCCESS, foldr (sort_insert (TransactionOutput_less C)) results [])))"

section \<open>Rewinding\<close>

text \<open>The blocks \<open>index + n\<close> down to \<open>index + 1\<close>.\<close>

fun rewind_loop where
  "rewind_loop (C :: 'z crypto_scheme) (L :: ('e, 't, 'c, 'y) lmdb_cursors_scheme) S index 0 = io_return SUCCESS"
| "rewind_loop C L S index (Suc n) =
     io_bind (del_block C L S (index + word_of_nat (Suc n)))
       (\<lambda>err. if failed err then io_return err else rewind_loop C L S index n)"

definition rewind where
  "rewind (C :: 'z crypto_scheme) (L :: ('e, 't, 'c, 'y) lmdb_cursors_scheme) S index =
     io_bind (io_call (block_exists_index C L S index)) (\<lambda>found.
       if \<not> found then io_return DB_BLOCK_NOT_FOUND
       else io_bind (get_block_count L S) (\<lambda>block_count.
              rewind_loop C L S index (unat block_count - unat index)))"

section \<open>What opening gives\<close>

text \<open>One \<open>open_database\<close> of the constructor: the databases opened before stay open.\<close>

definition opened where
  "opened (C :: 'z crypto_scheme) ev (E :: 'e LMDB) c Ds \<longleftrightarrow>
     stored ev E c \<and> m_open_txns E + 1 \<noteq> 0 \<and> databases_ok C E \<and>
     (\<forall>D \<in> set Ds. tsm_at (m_databases E) (db_id D) = Some D \<and> m_dbi D \<noteq> 0)"

lemma open_one:
  assumes C: "strict_total (key_less C)" and L: "lmdb_laws L ev tv" "open_laws L tv"
    and step: "\<And>D. io_post (\<lambda>E. opened C ev E c (D # Ds)) (f D) Q" and thrown: "\<And>E. stored ev E c \<Longrightarrow> Q Thrown E"
  shows "io_post (\<lambda>E. opened C ev E c Ds) (io_bind (io_call (open_database C L name 0)) f) Q"
proof (rule io_postI)
  fix E E' r assume E: "opened C ev E c Ds"
    and run: "io_bind (io_call (open_database C L name 0)) f E = Some (E', r)"
  obtain r1 E1 where o: "open_database C L name 0 E = (r1, E1)" by fastforce
  have E0: "stored ev E c" "m_open_txns E + 1 \<noteq> 0" "databases_ok C E" using E by (simp_all add: opened_def)
  note O = open_database_result [OF C L E0 o]
  show "Q r E'"
  proof (cases r1)
    case Thrown
    then show ?thesis using run o O(1) thrown by (simp add: io_bind_def io_call_def)
  next
    case (Returned D)
    have "opened C ev E1 c (D # Ds)"
      using O(1-3) O(6) O(7) [OF Returned] E by (auto simp: opened_def)
    then show ?thesis
      using run o Returned io_postD [OF step] by (simp add: io_bind_def io_call_def)
  qed
qed

lemma storage_make_open:
  assumes "strict_total (key_less C)" "lmdb_laws L ev tv" "open_laws L tv"
  shows "io_post (\<lambda>E. opened C ev E c []) (storage_make C L)
    (\<lambda>r E. stored ev E c \<and> (\<forall>S. r = Returned S \<longrightarrow> distinct (map m_dbi (storage_dbs S)) \<longrightarrow> storage_open S E))"
  unfolding storage_make_def
  by (intro open_one [OF assms] io_post_return)
    (auto simp: opened_def storage_open_def storage_dbs_def)

section \<open>What the queries return\<close>

lemma db_with_cursor_law:
  assumes L: "lmdb_laws L ev tv" "cursor_laws L tv cv" and E: "store_holds (L, ev, tv, D) E m"
    and f: "\<And>c. cv c = (m, None) \<Longrightarrow> finite (dom m) \<Longrightarrow> m [] = None \<Longrightarrow> f c = Some x"
  shows "\<exists>E' r. db_with_cursor L D f E = Some (E', r) \<and> store_holds (L, ev, tv, D) E' m \<and> (r = Thrown \<or> r = x)"
proof -
  obtain E' r where d: "db_scan L D f E = Some (E', r)" "store_holds (L, ev, tv, D) E' m"
    "r = Thrown \<or> finite (dom m) \<and> r = Returned x"
    using db_scan_law [OF L E, of f x] f by blast
  then show ?thesis by (auto simp: db_with_cursor_def io_bind_def simp del: store_holds.simps)
qed

text \<open>
  The entries of \<open>block_timestamps\<close> as a table, and that the keys of the numbers are ordered as
  the numbers are (\<open>uint64\<close> writes the most significant byte first).
\<close>

definition uint64_ordered :: "'z codec_scheme \<Rightarrow> bool" where
  "uint64_ordered C \<longleftrightarrow> (\<forall>x y. w_uint64 C x < w_uint64 C y \<longleftrightarrow> x < y)"

definition timestamps_of :: "'z crypto_scheme \<Rightarrow> (bytes \<Rightarrow> bytes option) \<Rightarrow> (u64 \<Rightarrow> crypto_hash_t option) \<Rightarrow> bool" where
  "timestamps_of C m t \<longleftrightarrow>
     dom m = w_uint64 C ` dom t \<and> (\<forall>x. m (w_uint64 C x) = map_option (key_serialize C) (t x))"

definition first_at_or_after :: "(u64 \<Rightarrow> crypto_hash_t option) \<Rightarrow> u64 \<Rightarrow> (u64 \<times> crypto_hash_t) option" where
  "first_at_or_after t x =
     (let S = {y \<in> dom t. x \<le> y} in if S = {} then None else Some (Min S, the (t (Min S))))"

lemma least_timestamp:
  assumes C: "uint64_ordered C" "codec_laws C" and m: "timestamps_of C m t"
  shows "cursor_move m p MDB_SET_RANGE (w_uint64 C x) = map_option (\<lambda>(y, h). w_uint64 C y) (first_at_or_after t x)"
proof -
  let ?S = "{y \<in> dom t. x \<le> y}"
  have le: "w_uint64 C y \<le> w_uint64 C z \<longleftrightarrow> y \<le> z" for y z
    using C(1) unfolding uint64_ordered_def by (metis not_less)
  have S: "{q \<in> dom m. w_uint64 C x \<le> q} = w_uint64 C ` ?S" using m le by (auto simp: timestamps_of_def)
  have "mono (w_uint64 C)" using le by (simp add: mono_def)
  then have "?S \<noteq> {} \<Longrightarrow> Min (w_uint64 C ` ?S) = w_uint64 C (Min ?S)" by (metis (no_types, lifting) finite mono_Min_commute)
  then show ?thesis by (auto simp: S least_key_def first_at_or_after_def Let_def)
qed

text \<open>What the lookup of a time stamp gives with a cursor over the entries \<open>m\<close>.\<close>

lemma timestamp_lookup:
  assumes C: "crypto_laws C" "uint64_ordered C" and L: "cursor_laws L tv cv" and m: "timestamps_of C m t"
    and c: "cv c = (m, None)"
  shows "(case cursor_get_uint64 C L (r_key C) x MDB_SET_RANGE c of None \<Rightarrow> Thrown
     | Some ((err, found), _) \<Rightarrow> (case found of None \<Rightarrow> Returned (DB_BLOCK_NOT_FOUND, None)
        | Some th \<Rightarrow> Returned (err, Some th))) =
    Returned (case first_at_or_after t x of None \<Rightarrow> (DB_BLOCK_NOT_FOUND, None) | Some th \<Rightarrow> (SUCCESS, Some th))"
proof -
  have cl: "codec_laws C" by (rule crypto_lawsD(1) [OF C(1)])
  obtain rc k v c' where g: "mdb_cursor_get L c MDB_SET_RANGE (w_uint64 C x) = (rc, k, v, c')" by (metis prod_cases4)
  note move = least_timestamp [OF C(2) cl m, of None x]
  show ?thesis
  proof (cases "first_at_or_after t x")
    case None
    then have "rc = - 30798" using cursor_lawsD(4) [OF L g] c move by simp
    then show ?thesis using None by (simp add: cursor_get_uint64_def cursor_get_def g)
  next
    case (Some yh)
    obtain y h where yh: "yh = (y, h)" by fastforce
    have kv: "rc = 0" "k = w_uint64 C y" "m (w_uint64 C y) = Some v"
      using cursor_lawsD(5) [OF L g, of "w_uint64 C y"] c move Some yh by auto
    have "t y = Some h"
    proof -
      let ?S = "{y \<in> dom t. x \<le> y}"
      have "?S \<noteq> {}" "y = Min ?S" "h = the (t y)"
        using Some yh by (auto simp: first_at_or_after_def Let_def split: if_splits)
      moreover from this have "y \<in> ?S" using Min_in [of ?S] by simp
      ultimately show ?thesis by auto
    qed
    then have "v = key_serialize C h" using m kv(3) by (simp add: timestamps_of_def)
    then show ?thesis
      using Some yh kv by (simp add: cursor_get_uint64_def cursor_get_def g codec_read_back_end [OF cl])
  qed
qed

lemma get_block_by_timestamp_result:
  assumes C: "crypto_laws C" "uint64_ordered C" and L: "lmdb_laws L ev tv" "cursor_laws L tv cv"
    and E: "store_holds (L, ev, tv, m_block_timestamps S) E m" and m: "timestamps_of C m t"
  shows "\<exists>E' r. get_block_by_timestamp C L S x E = Some (E', r) \<and>
    store_holds (L, ev, tv, m_block_timestamps S) E' m \<and>
    (r = Thrown \<or> r = Returned (case first_at_or_after t x of
        None \<Rightarrow> (DB_BLOCK_NOT_FOUND, None) | Some th \<Rightarrow> (SUCCESS, Some th)))"
  unfolding get_block_by_timestamp_def
  by (rule db_with_cursor_law [OF L E]) (simp only: timestamp_lookup [OF C L(2) m])

section \<open>Random outputs\<close>

text \<open>
  An output that the loop may pick from the entries \<open>m\<close>: what the loop reads of an entry, an output and
  then an unlock block, with the hash the entry is stored under and an unlock block that is not below
  the index. \<open>put_transaction_output\<close> writes the two in the other order; the theory \<open>Stored_Layout\<close> says
  what this makes of the search.
\<close>

definition offered where
  "offered (C :: 'z crypto_scheme) m index out \<longleftrightarrow>
     (\<exists>k bs bs' unlock rest rest'. m k = Some bs \<and> r_key C k = Some (TransactionOutput_hash C out, rest) \<and>
        TransactionOutput_deserialize C bs = Some (out, bs') \<and> r_varint C bs' = Some (unlock, rest') \<and> \<not> unlock < index)"

definition picked where
  "picked (C :: 'z crypto_scheme) m index n outs \<longleftrightarrow>
     length outs \<le> n \<and> distinct (map (TransactionOutput_hash C) outs) \<and> (\<forall>out \<in> set outs. offered C m index out)"

lemma cursor_get_key_offers:
  assumes L: "cursor_laws L tv cv" and c: "fst (cv c) = m"
    and g: "cursor_get_key C L h opn c = Some ((err, found), c')"
  shows "fst (cv c') = m"
    "found = Some (key, bs) \<Longrightarrow> \<exists>k rest. m k = Some bs \<and> r_key C k = Some (key, rest)"
proof -
  obtain rc k v c1 where r: "mdb_cursor_get L c opn (key_serialize C h) = (rc, k, v, c1)" by (metis prod_cases4)
  have c1: "c' = c1" using g r by (auto simp: cursor_get_key_def cursor_get_def split: if_splits Option.bind_splits)
  then show "fst (cv c') = m" using cursor_lawsD(6) [OF L r] c by simp
  assume f: "found = Some (key, bs)"
  then have ok: "rc = 0" "v = bs" "\<exists>rest. r_key C k = Some (key, rest)"
    using g r by (auto simp: cursor_get_key_def cursor_get_def split: if_splits Option.bind_splits)
  obtain q where "cursor_move (fst (cv c)) (snd (cv c)) opn (key_serialize C h) = Some q"
    using cursor_lawsD(4) [OF L r] ok(1) by (cases "cursor_move (fst (cv c)) (snd (cv c)) opn (key_serialize C h)") auto
  from cursor_lawsD(5) [OF L r this] show "\<exists>k rest. m k = Some bs \<and> r_key C k = Some (key, rest)"
    using ok c by auto
qed

lemma random_outputs_sound:
  assumes L: "cursor_laws L tv cv"
    and "random_outputs C L rnd index n i c results = Some r" "fst (cv c) = m" "picked C m index n results"
  shows "\<forall>outs. r = Returned outs \<longrightarrow> picked C m index n outs \<and> length outs = n"
proof -
  define P where "P C0 L0 rnd0 index0 n0 (i :: nat) c results r \<longleftrightarrow>
    ((C0, L0, rnd0, index0, n0) = (C, L, rnd, index, n) \<longrightarrow> fst (cv c) = m \<longrightarrow> picked C m index n results \<longrightarrow>
     (\<forall>outs. r = Returned outs \<longrightarrow> picked C m index n outs \<and> length outs = n))"
    for C0 L0 rnd0 index0 n0 i c results r
  have "P C L rnd index n i c results r"
  proof (rule random_outputs.raw_induct [of P, OF _ assms(2)])
    fix f C0 L0 rnd0 index0 n0 i c results r
    assume IH: "\<And>C0 L0 rnd0 index0 n0 i c results r. f C0 L0 rnd0 index0 n0 i c results = Some r \<Longrightarrow>
        P C0 L0 rnd0 index0 n0 i c results r"
      and run: "(if n0 \<le> length results then Some (Returned results)
      else case cursor_get_key C0 L0 (rnd0 i) MDB_SET_RANGE c of
             None \<Rightarrow> Some Thrown
           | Some ((err, found), c) \<Rightarrow>
               if err = LMDB_NOTFOUND then f C0 L0 rnd0 index0 n0 (Suc i) c results
               else case found of
                 None \<Rightarrow> Some Thrown
               | Some (key, bs) \<Rightarrow>
                   (case do { (out, bs) \<leftarrow> TransactionOutput_deserialize C0 bs;
                              (unlock, bs) \<leftarrow> r_varint C0 bs;
                              Some (out, unlock) } of
                      None \<Rightarrow> Some Thrown
                    | Some (out, unlock) \<Rightarrow>
                        if TransactionOutput_hash C0 out \<noteq> key \<or> unlock < index0
                        then f C0 L0 rnd0 index0 n0 (Suc i) c results
                        else f C0 L0 rnd0 index0 n0 (Suc i) c
                               (if list_ex (TransactionOutput_eq C0 out) results then results else results @ [out]))) =
        Some r"
    show "P C0 L0 rnd0 index0 n0 i c results r"
      unfolding P_def
    proof (intro impI)
      assume eq: "(C0, L0, rnd0, index0, n0) = (C, L, rnd, index, n)" and c: "fst (cv c) = m"
        and ok: "picked C m index n results"
      have step: "\<forall>outs. r = Returned outs \<longrightarrow> picked C m index n outs \<and> length outs = n"
        if "f C L rnd index n (Suc i) c' results' = Some r" "fst (cv c') = m" "picked C m index n results'" for c' results'
        using IH [OF that(1)] that(2,3) by (simp add: P_def)
      show "\<forall>outs. r = Returned outs \<longrightarrow> picked C m index n outs \<and> length outs = n"
      proof (cases "n \<le> length results")
        case True
        then show ?thesis using run eq ok by (auto simp: picked_def)
      next
        case False
        show ?thesis
        proof (cases "cursor_get_key C L (rnd i) MDB_SET_RANGE c")
          case None
          then show ?thesis using run eq False by auto
        next
          case (Some x)
          obtain err found c1 where x: "x = ((err, found), c1)" by (metis prod.exhaust)
          note G = cursor_get_key_offers [OF L c Some [unfolded x]]
          show ?thesis
          proof (cases "\<exists>key bs out unlock bs' rest'. found = Some (key, bs) \<and> err \<noteq> LMDB_NOTFOUND \<and>
              TransactionOutput_deserialize C bs = Some (out, bs') \<and> r_varint C bs' = Some (unlock, rest') \<and>
              TransactionOutput_hash C out = key \<and> \<not> unlock < index")
            case True
            then obtain key bs out unlock bs' rest' where f: "found = Some (key, bs)" "err \<noteq> LMDB_NOTFOUND"
                "TransactionOutput_deserialize C bs = Some (out, bs')" "r_varint C bs' = Some (unlock, rest')"
                "TransactionOutput_hash C out = key" "\<not> unlock < index" by blast
            have "offered C m index out" using G(2) [OF f(1)] f(3-6) unfolding offered_def by blast
            then have "picked C m index n (if list_ex (TransactionOutput_eq C out) results then results else results @ [out])"
              using ok False by (auto simp: picked_def TransactionOutput_eq_def list_ex_iff)
            then show ?thesis using step [OF _ G(1)] run eq False Some x f by auto
          next
            case neg: False
            then have "r = Thrown \<or> f C L rnd index n (Suc i) c1 results = Some r"
              using run eq False Some x
              by (auto split: if_splits option.splits Option.bind_splits prod.splits)
            then show ?thesis using step [OF _ G(1) ok] by auto
          qed
        qed
      qed
    qed
  qed
  then show ?thesis using assms(3,4) by (simp add: P_def)
qed

lemma set_sort_insert: "set (sort_insert lt x xs) = insert x (set xs)" "length (sort_insert lt x xs) = Suc (length xs)"
  by (induction xs) auto

lemma sort_insert_sorted:
  assumes "strict_total (key_less C)" "sorted_wrt (TransactionOutput_less C) xs"
    "TransactionOutput_hash C x \<notin> TransactionOutput_hash C ` set xs"
  shows "sorted_wrt (TransactionOutput_less C) (sort_insert (TransactionOutput_less C) x xs)"
  using assms(2,3)
proof (induction xs)
  case (Cons y ys)
  have "TransactionOutput_less C y x \<or> TransactionOutput_less C x y"
    using Cons.prems strict_total_cases [OF assms(1), of "TransactionOutput_hash C x" "TransactionOutput_hash C y"]
    by (auto simp: TransactionOutput_less_def)
  then show ?case
    using Cons strict_total_trans [OF assms(1)] by (auto simp: set_sort_insert TransactionOutput_less_def)
qed simp

lemma sort_outputs:
  assumes "strict_total (key_less C)" "distinct (map (TransactionOutput_hash C) xs)"
  shows "sorted_wrt (TransactionOutput_less C) (foldr (sort_insert (TransactionOutput_less C)) xs [])"
    "set (foldr (sort_insert (TransactionOutput_less C)) xs []) = set xs"
    "length (foldr (sort_insert (TransactionOutput_less C)) xs []) = length xs"
  using assms(2) by (induction xs) (auto simp: set_sort_insert intro: sort_insert_sorted [OF assms(1)])

lemma get_random_outputs_result:
  assumes C: "crypto_laws C" and L: "lmdb_laws L ev tv" "cursor_laws L tv cv"
    and E: "store_holds (L, ev, tv, m_transaction_outputs S) E m"
    and run: "get_random_outputs C L S rnd index n E = Some (E', Returned (SUCCESS, outs))"
  shows "length outs = unat n \<and> sorted_wrt (TransactionOutput_less C) outs \<and> (\<forall>out \<in> set outs. offered C m index out)"
proof -
  let ?D = "m_transaction_outputs S"
  obtain E1 total where k: "db_count L ?D E = Some (E1, Returned total)" "\<not> total < n"
    using run
    by (auto simp: get_random_outputs_def io_bind_def io_return_def split: option.splits outcome.splits if_splits)
  have E1: "store_holds (L, ev, tv, ?D) E1 m" using db_scan_keeps [OF L(1) E] k(1) by (simp add: db_count_def)
  obtain results where d: "db_with_cursor L ?D (\<lambda>c. random_outputs C L rnd index (unat n) 0 c []) E1 = Some (E', Returned results)"
    and outs: "outs = foldr (sort_insert (TransactionOutput_less C)) results []"
    using run k
    by (auto simp: get_random_outputs_def io_bind_def io_return_def split: option.splits outcome.splits)
  let ?f = "\<lambda>c. random_outputs C L rnd index (unat n) 0 c []"
  let ?g = "\<lambda>T. case txn_cursor L T of None \<Rightarrow> Some Thrown | Some c \<Rightarrow> map_option Returned (?f c)"
  obtain o1 E2 where r: "db_read L ?D ?g E1 = (o1, E2)" by fastforce
  have "o1 = Thrown \<or> (\<exists>T. o1 = Returned (?g T) \<and> tv (txn_handle T) (txn_db T) = m)"
    by (rule store_read_law(2) [OF L(1) E1 r])
  then obtain T cur where T: "tv (txn_handle T) (txn_db T) = m" "txn_cursor L T = Some cur"
      "?f cur = Some (Returned results)"
    using d r
    by (auto simp: db_with_cursor_def db_scan_def io_bind_def split: option.splits outcome.splits dest!: sym [of "Some _" "map_option _ _"])
  have "cv cur = (m, None)"
    using cursor_lawsD(3) [OF L(2)] T(1,2) by (auto simp: txn_cursor_def split: prod.splits if_splits)
  then have "picked C m index (unat n) results \<and> length results = unat n"
    using random_outputs_sound [OF L(2) T(3), of m] by (simp add: picked_def)
  then show ?thesis
    using sort_outputs [OF crypto_lawsD(2) [OF C], of results] by (auto simp: outs picked_def)
qed

end
