(* ===== verification/Reference_Files.thy ===== *)
theory Reference_Files
  imports Storage_Queries Reference_Codec
begin

text \<open>
  A store with cursors, handles and files that keeps the laws of the theories \<open>Lmdb\<close>,
  \<open>Lmdb_Cursor\<close> and \<open>Lmdb_Open\<close>: the entries of all databases are one association list, a cursor
  is the entries of its database with its position, and a database has the length of its name as
  its number.
\<close>

type_synonym ref_entries = "((nat \<times> bytes) \<times> bytes) list"
type_synonym ref_cursor = "(bytes \<times> bytes) list \<times> bytes option"

text \<open>The entries of one database, without empty keys.\<close>

definition ref_view :: "ref_entries \<Rightarrow> contents" where
  "ref_view t d k = (if k = [] then None else map_of t (d, k))"

definition ref_list :: "ref_entries \<Rightarrow> nat \<Rightarrow> (bytes \<times> bytes) list" where
  "ref_list t d = map (\<lambda>((_, k), v). (k, v)) (filter (\<lambda>((d', k), v). d' = d \<and> k \<noteq> []) t)"

definition ref_cursor_view :: "ref_cursor \<Rightarrow> (bytes \<Rightarrow> bytes option) \<times> bytes option" where
  "ref_cursor_view c = (map_of (fst c), snd c)"

definition ref_cursor_get :: "ref_cursor \<Rightarrow> MDB_cursor_op \<Rightarrow> bytes \<Rightarrow> int \<times> bytes \<times> bytes \<times> ref_cursor" where
  "ref_cursor_get c opn k =
     (case cursor_move (map_of (fst c)) (snd c) opn k of
        None \<Rightarrow> (- 30798, [], [], c)
      | Some q \<Rightarrow> (0, q, the (map_of (fst c) q), (fst c, Some q)))"

definition ref_remove :: "nat \<Rightarrow> bytes \<Rightarrow> ref_entries \<Rightarrow> ref_entries" where
  "ref_remove d k t = filter (\<lambda>(dk, _). dk \<noteq> (d, k)) t"

definition reference_files :: "(ref_entries, ref_entries, ref_cursor, unit) lmdb_files" where
  "reference_files =
     \<lparr>mdb_env_sync = (\<lambda>e _. (0, e)), mdb_env_close = (\<lambda>_. ()),
      mdb_env_set_mapsize = (\<lambda>e _. (0, e)),
      mdb_env_info = (\<lambda>_. (0, 16777216)), mdb_env_stat = (\<lambda>_. (0, 4096)),
      mdb_env_get_flags = (\<lambda>_. (0, 0)), mdb_env_set_flags = (\<lambda>e _ _. (0, e)),
      mdb_env_get_maxkeysize = (\<lambda>_. 511), mdb_env_get_maxreaders = (\<lambda>_. (0, 126)),
      mdb_txn_begin = (\<lambda>e _. (0, e, e)), mdb_txn_abort = (\<lambda>_ e. e),
      mdb_txn_commit = (\<lambda>t _. (0, t)), mdb_txn_id = (\<lambda>_. 1), mdb_txn_renew = (\<lambda>t. (0, t)),
      mdb_put = (\<lambda>t d k v _. if k = [] then (- 30781, t) else (0, ((d, k), v) # t)),
      mdb_get = (\<lambda>t d k. case ref_view t d k of None \<Rightarrow> (- 30798, []) | Some v \<Rightarrow> (0, v)),
      mdb_del = (\<lambda>t d k _. if ref_view t d k = None then (- 30798, t) else (0, ref_remove d k t)),
      mdb_drop = (\<lambda>t d _. (0, filter (\<lambda>((d', _), _). d' \<noteq> d) t)),
      mdb_cursor_open = (\<lambda>t d. (0, (ref_list t d, None))), mdb_cursor_get = ref_cursor_get,
      MDB_NOSUBDIR = 0x4000, MDB_RDONLY = 0x20000, MDB_NOTLS = 0x200000, MDB_CREATE = 0x40000,
      fs_exists = (\<lambda>_ _. False), fs_is_file = (\<lambda>_ _. False), fs_is_directory = (\<lambda>_ _. True),
      fs_create_directory = (\<lambda>_ f. f), mdb_env_create = (0, []), mdb_env_set_maxdbs = (\<lambda>e _. (0, e)),
      mdb_env_open = (\<lambda>e _ _ _ f. (0, e, f)),
      mdb_dbi_open = (\<lambda>t name _. (0, case name of None \<Rightarrow> 1 | Some s \<Rightarrow> 2 + length s, t)),
      mdb_dbi_flags = (\<lambda>_ _. (0, 0))\<rparr>"

lemma map_of_remove: "map_of (ref_remove d k t) x = (if x = (d, k) then None else map_of t x)"
  by (induction t) (auto simp: ref_remove_def)

lemma ref_view_put: "k \<noteq> [] \<Longrightarrow> ref_view (((d, k), v) # t) = (ref_view t)(d := (ref_view t d)(k \<mapsto> v))"
  by (auto simp: ref_view_def fun_eq_iff)

lemma ref_view_remove: "ref_view (ref_remove d k t) = (ref_view t)(d := (ref_view t d)(k := None))"
  by (auto simp: ref_view_def fun_eq_iff map_of_remove)

lemma map_of_ref_list: "map_of (ref_list t d) = ref_view t d"
proof (induction t)
  case Nil
  then show ?case by (simp add: ref_list_def ref_view_def fun_eq_iff)
next
  case (Cons x t)
  obtain d' k v where x: "x = ((d', k), v)" by (metis prod.exhaust)
  show ?case
  proof
    fix y show "map_of (ref_list (x # t) d) y = ref_view (x # t) d y"
      using fun_cong [OF Cons, of y] by (auto simp: ref_list_def ref_view_def x)
  qed
qed

lemma reference_files_laws: "lmdb_laws reference_files ref_view ref_view"
  by (auto simp: lmdb_laws_def reference_files_def ref_view_put ref_view_remove split: if_splits)

lemma reference_open_laws: "open_laws reference_files ref_view"
  by (auto simp: open_laws_def reference_files_def split: option.splits)

lemma least_key_in: "least_key S = Some q \<Longrightarrow> finite S \<Longrightarrow> q \<in> S"
  by (metis Min_in least_key_def option.distinct(1) option.inject)

lemma cursor_move_in:
  assumes "finite (dom m)" "cursor_move m p opn k = Some q" shows "q \<in> dom m"
  using assms by (cases opn) (auto dest!: least_key_in split: if_splits)

lemma reference_cursor_laws: "cursor_laws reference_files ref_view ref_cursor_view"
proof -
  have "finite (dom (ref_view t d))" for t d
    using finite_dom_map_of [of "ref_list t d"] by (simp add: map_of_ref_list)
  moreover have "map_of xs q = Some (the (map_of xs q))" if "cursor_move (map_of xs) p opn k = Some q"
    for xs :: "(bytes \<times> bytes) list" and p opn k q
    using cursor_move_in [OF finite_dom_map_of that] by auto
  ultimately show ?thesis
    by (auto simp: cursor_laws_def reference_files_def ref_cursor_get_def ref_cursor_view_def map_of_ref_list
        ref_view_def [of _ _ "[]"] split: option.splits)
qed

text \<open>The numbers of the reference codec are written with the most significant byte first.\<close>

lemma snoc_less:
  "length xs = length ys \<Longrightarrow> xs @ [a] < ys @ [b :: byte] \<longleftrightarrow> xs < ys \<or> xs = ys \<and> a < b"
  by (induction xs ys rule: list_induct2) auto

lemma be_bytes_less:
  "n < 256 ^ k \<Longrightarrow> m < 256 ^ k \<Longrightarrow> rev (le_bytes k n) < rev (le_bytes k m) \<longleftrightarrow> n < m"
proof (induction k arbitrary: n m)
  case (Suc k)
  have b: "n div 256 < 256 ^ k" "m div 256 < 256 ^ k" using Suc.prems by (simp_all add: less_mult_imp_div_less mult.commute)
  have w: "(word_of_nat (x mod 256) :: byte) < word_of_nat (y mod 256) \<longleftrightarrow> x mod 256 < y mod 256" for x y
    by (simp add: word_less_nat_alt unat_byte)
  have "rev (le_bytes k (n div 256)) = rev (le_bytes k (m div 256)) \<longleftrightarrow> n div 256 = m div 256"
    using un_le_le_bytes [OF b(1)] un_le_le_bytes [OF b(2)] by (metis rev_is_rev_conv)
  then have "rev (le_bytes (Suc k) n) < rev (le_bytes (Suc k) m) \<longleftrightarrow>
      n div 256 < m div 256 \<or> n div 256 = m div 256 \<and> n mod 256 < m mod 256"
    using Suc.IH [OF b] by (simp add: snoc_less w)
  also have "\<dots> \<longleftrightarrow> n < m"
    using div_mult_mod_eq [of n 256] div_mult_mod_eq [of m 256] mod_less_divisor [of 256 n] mod_less_divisor [of 256 m]
    by linarith
  finally show ?case .
qed simp

lemma reference_uint64_ordered: "uint64_ordered reference"
  by (simp add: uint64_ordered_def reference_def be_bytes_less [OF unat_64(1) unat_64(1)] word_less_nat_alt)

text \<open>An environment with the databases \<open>Ds\<close> open and the entries \<open>t\<close>.\<close>

definition files_env :: "LMDBDatabase list \<Rightarrow> ref_entries \<Rightarrow> ref_entries LMDB" where
  "files_env Ds t =
     \<lparr>lmdb_id = 0, m_growth_factor = 16, m_env = Some t, m_databases = map (\<lambda>D. (db_id D, D)) Ds,
      m_open_txns = 0, m_registered = True\<rparr>"

lemma files_env_stored: "stored ref_view (files_env Ds t) (ref_view t)" "m_open_txns (files_env Ds t) + 1 \<noteq> 0"
  by (simp_all add: stored_def files_env_def)

end
