(* ===== verification/Storage_Progress.thy ===== *)
theory Storage_Progress
  imports Storage_Queries Lmdb_Reliable
begin

text \<open>
  How the operations of the storage that walk or repeat come to an end: the constructor opens all
  databases; \<open>rewind\<close> ends at once without deleting anything; \<open>get_random_outputs\<close> may not end.
\<close>

section \<open>The constructor\<close>

lemma open_step:
  assumes C: "strict_total (key_less C)" and L: "lmdb_laws L ev tv" "open_laws L tv" "reliable L tv" "opens_all L"
    and E: "opened C ev E c Ds" "m_registered E"
  shows "\<exists>D E'. io_call (open_database C L name 0) E = Some (E', Returned D) \<and> opened C ev E' c (D # Ds) \<and> m_registered E'"
proof -
  have E0: "stored ev E c" "m_open_txns E + 1 \<noteq> 0" "databases_ok C E" using E by (simp_all add: opened_def)
  obtain D E' where o: "open_database C L name 0 E = (Returned D, E')"
    using open_database_returns [OF C L E0 E(2)] by blast
  note O = open_database_result [OF C L(1,2) E0 o]
  have "opened C ev E' c (D # Ds)" using O(1-3) O(6) O(7) [OF refl] E by (auto simp: opened_def)
  then show ?thesis using o O(4) E(2) by (auto simp: io_call_def)
qed

lemma storage_make_returns:
  assumes C: "strict_total (key_less C)" and L: "lmdb_laws L ev tv" "open_laws L tv" "reliable L tv" "opens_all L"
    and E: "opened C ev E c []" "m_registered E"
  shows "\<exists>E' S. storage_make C L E = Some (E', Returned S) \<and> stored ev E' c \<and>
    (distinct (map m_dbi (storage_dbs S)) \<longrightarrow> storage_open S E')"
proof -
  note step = open_step [OF C L]
  obtain D1 E1 where 1: "io_call (open_database C L ''blocks'' 0) E = Some (E1, Returned D1)"
    "opened C ev E1 c [D1]" "m_registered E1" using step [OF E] by blast
  obtain D2 E2 where 2: "io_call (open_database C L ''block_indexes'' 0) E1 = Some (E2, Returned D2)"
    "opened C ev E2 c [D2, D1]" "m_registered E2" using step [OF 1(2,3)] by blast
  obtain D3 E3 where 3: "io_call (open_database C L ''block_timestamps'' 0) E2 = Some (E3, Returned D3)"
    "opened C ev E3 c [D3, D2, D1]" "m_registered E3" using step [OF 2(2,3)] by blast
  obtain D4 E4 where 4: "io_call (open_database C L ''transactions'' 0) E3 = Some (E4, Returned D4)"
    "opened C ev E4 c [D4, D3, D2, D1]" "m_registered E4" using step [OF 3(2,3)] by blast
  obtain D5 E5 where 5: "io_call (open_database C L ''key_images'' 0) E4 = Some (E5, Returned D5)"
    "opened C ev E5 c [D5, D4, D3, D2, D1]" "m_registered E5" using step [OF 4(2,3)] by blast
  obtain D6 E6 where 6: "io_call (open_database C L ''transaction_outputs'' 0) E5 = Some (E6, Returned D6)"
    using step [OF 5(2,3)] by blast
  have run: "storage_make C L E = Some (E6, Returned \<lparr>m_blocks = D1, m_block_indexes = D2, m_block_timestamps = D3,
      m_transactions = D4, m_key_images = D5, m_transaction_outputs = D6\<rparr>)"
    by (simp add: storage_make_def io_bind_def io_return_def 1(1) 2(1) 3(1) 4(1) 5(1) 6)
  from io_postD [OF storage_make_open [OF C L(1,2)] E(1) run] show ?thesis using run by blast
qed

section \<open>The lookup of a time stamp\<close>

lemma first_at_or_after_next:
  "first_at_or_after t x = None \<Longrightarrow> y \<in> dom t \<Longrightarrow> y < x"
  "first_at_or_after t x = Some (y, h) \<Longrightarrow> t y = Some h \<and> x \<le> y \<and> (\<forall>z \<in> dom t. x \<le> z \<longrightarrow> y \<le> z)"
proof -
  let ?S = "{y \<in> dom t. x \<le> y}"
  show "first_at_or_after t x = None \<Longrightarrow> y \<in> dom t \<Longrightarrow> y < x"
    by (auto simp: first_at_or_after_def Let_def not_less split: if_splits)
  assume "first_at_or_after t x = Some (y, h)"
  then have S: "?S \<noteq> {}" "y = Min ?S" "h = the (t y)" by (auto simp: first_at_or_after_def Let_def split: if_splits)
  have fin: "finite ?S" by simp
  from Min_in [OF fin S(1)] have "y \<in> ?S" unfolding S(2) .
  moreover have "y \<le> z" if "z \<in> ?S" for z unfolding S(2) by (rule Min_le [OF fin that])
  ultimately show "t y = Some h \<and> x \<le> y \<and> (\<forall>z \<in> dom t. x \<le> z \<longrightarrow> y \<le> z)" using S(3) by auto
qed

lemma get_block_by_timestamp_returns:
  assumes R: "reliable L tv" and C: "crypto_laws C" "uint64_ordered C" and L: "lmdb_laws L ev tv" "cursor_laws L tv cv"
    and E: "store_holds (L, ev, tv, m_block_timestamps S) E m" "m_dbi (m_block_timestamps S) \<noteq> 0"
    and m: "timestamps_of C m t"
  shows "\<exists>E'. get_block_by_timestamp C L S x E =
      Some (E', Returned (case first_at_or_after t x of None \<Rightarrow> (DB_BLOCK_NOT_FOUND, None) | Some th \<Rightarrow> (SUCCESS, Some th))) \<and>
    store_holds (L, ev, tv, m_block_timestamps S) E' m"
proof -
  let ?f = "\<lambda>c. Some (case cursor_get_uint64 C L (r_key C) x MDB_SET_RANGE c of None \<Rightarrow> Thrown
     | Some ((err, found), _) \<Rightarrow> (case found of None \<Rightarrow> Returned (DB_BLOCK_NOT_FOUND, None)
        | Some th \<Rightarrow> Returned (err, Some th)))"
  have "\<exists>E'. db_scan L (m_block_timestamps S) ?f E = Some (E', Returned (Returned (case first_at_or_after t x of
        None \<Rightarrow> (DB_BLOCK_NOT_FOUND, None) | Some th \<Rightarrow> (SUCCESS, Some th)))) \<and>
      store_holds (L, ev, tv, m_block_timestamps S) E' m"
    by (rule reliable_scan [OF R L E]) (simp only: timestamp_lookup [OF C L(2) m])
  then show ?thesis by (auto simp: get_block_by_timestamp_def db_with_cursor_def io_bind_def simp del: store_holds.simps)
qed

section \<open>Rewinding fails\<close>

text \<open>
  With \<open>n\<close> blocks at the indexes below \<open>n\<close>, the first block \<open>rewind\<close> asks to delete is the one at
  the index \<open>n\<close>, which does not exist: nothing is deleted.
\<close>

lemma del_block_missing:
  assumes L: "lmdb_laws L ev tv" and E: "stored ev E c" "storage_open S E"
    and none: "c (m_dbi (m_block_indexes S)) (w_uint64 C i) = None"
  shows "\<exists>E' r. del_block C L S i E = Some (E', r) \<and> stored ev E' c \<and> frame E E' \<and>
    (r = Thrown \<or> r = Returned DB_BLOCK_NOT_FOUND)"
proof -
  obtain r1 E1 where g: "db_get_value L (r_key C) (m_block_indexes S) (w_uint64 C i) E = (r1, E1)" by fastforce
  have "m_block_indexes S \<in> set (storage_dbs S)" by (simp add: storage_dbs_def)
  note R = db_get_value_stored [OF L E this g]
  have "r1 = Thrown \<or> r1 = Returned (LMDB_NOTFOUND, None)" using R(3) none by simp
  then have "\<exists>r. del_block C L S i E = Some (E1, r) \<and> (r = Thrown \<or> r = Returned DB_BLOCK_NOT_FOUND)"
    using g by (auto simp: del_block_def get_block_at_def)
  then show ?thesis using R(1,2) by blast
qed

lemma storage_holds:
  assumes "stored ev E c" "storage_open S E" "m_open_txns E + 1 \<noteq> 0" "D \<in> set (storage_dbs S)"
  shows "store_holds (L, ev, tv, D) E (c (m_dbi D))"
  using assms by (auto simp: storage_open_def)

lemma db_scan_stored:
  assumes "lmdb_laws L ev tv" "stored ev E c" "db_scan L D f E = Some (E', r)"
  shows "stored ev E' c" "frame E E'"
proof -
  let ?g = "\<lambda>T. case txn_cursor L T of None \<Rightarrow> Some Thrown | Some c \<Rightarrow> map_option Returned (f c)"
  obtain o1 E1 where d: "db_read L D ?g E = (o1, E1)" by fastforce
  have "E' = E1" using assms(3) d by (auto simp: db_scan_def split: outcome.splits option.splits)
  then show "stored ev E' c" "frame E E'" using db_read_stored(1,2) [OF assms(1,2) d] by simp_all
qed

lemma rewind_result:
  assumes L: "lmdb_laws L ev tv" "cursor_laws L tv cv" and E: "stored ev E c" "storage_open S E" "m_open_txns E + 1 \<noteq> 0"
    and n: "card (dom (c (m_dbi (m_blocks S)))) = n" "n < 2 ^ 64" "unat i < n"
    and none: "c (m_dbi (m_block_indexes S)) (w_uint64 C (word_of_nat n)) = None"
  shows "\<exists>E' r. rewind C L S i E = Some (E', r) \<and> stored ev E' c \<and> (r = Thrown \<or> r = Returned DB_BLOCK_NOT_FOUND)"
proof -
  have dbs: "m_block_indexes S \<in> set (storage_dbs S)" "m_blocks S \<in> set (storage_dbs S)" by (simp_all add: storage_dbs_def)
  obtain r1 E1 where x: "db_exists L (m_block_indexes S) (w_uint64 C i) E = (r1, E1)" by fastforce
  note X = db_exists_stored [OF L(1) E(1,2) dbs(1) x]
  have E1: "storage_open S E1" "m_open_txns E1 + 1 \<noteq> 0" using X(2) E by (simp_all add: storage_open_frame frameD)
  have h: "store_holds (L, ev, tv, m_blocks S) E1 (c (m_dbi (m_blocks S)))" by (rule storage_holds [OF X(1) E1 dbs(2)])
  obtain E2 r2 where k: "db_count L (m_blocks S) E1 = Some (E2, r2)" "r2 = Thrown \<or> r2 = Returned (word_of_nat n)"
    using db_count_law [OF L h] n by auto
  note K = db_scan_stored [OF L(1) X(1) k(1) [unfolded db_count_def]]
  have E2: "storage_open S E2" using K(2) E1 by (simp add: storage_open_frame)
  obtain E3 r3 where d: "del_block C L S (word_of_nat n) E2 = Some (E3, r3)" "stored ev E3 c"
      "r3 = Thrown \<or> r3 = Returned DB_BLOCK_NOT_FOUND"
    using del_block_missing [OF L(1) K(1) E2 none] by blast
  obtain j where j: "n - unat i = Suc j" "unat (word_of_nat n :: u64) - unat i = Suc j"
    using n(2,3) by (cases "n - unat i") auto
  have "i + word_of_nat (Suc j) = word_of_nat n"
  proof -
    have "n = unat i + Suc j" using j n(3) by simp
    then have "(word_of_nat n :: u64) = word_of_nat (unat i) + word_of_nat (Suc j)" by (simp only: of_nat_add)
    then show ?thesis by simp
  qed
  then have loop: "rewind_loop C L S i (Suc j) E2 = Some (E3, r3)" using d(1,3) by (auto simp: io_bind_def io_return_def)
  have "r1 = Thrown \<or> r1 = Returned True \<or> r1 = Returned False" using X(3) by auto
  then show ?thesis
    using x X(1) k K(1) d(2,3) loop j(2)
    by (auto simp: rewind_def block_exists_index_def io_bind_def io_call_def io_return_def get_block_count_def
        simp del: rewind_loop.simps)
qed

end
