(* ===== verification/Stored_Layout.thy ===== *)
theory Stored_Layout
  imports Storage_Progress
begin

text \<open>
  What the readers of the storage make of what \<open>put_block\<close> writes. A transaction is stored in front of
  the hash of its block, and an output behind its unlock block; \<open>get_transaction\<close> and
  \<open>get_random_outputs\<close> read the two parts the other way round. The layouts are invariants of the
  storage, and the readers are looked at on entries with that layout.
\<close>

section \<open>The layouts\<close>

definition transactions_as_written :: "'z crypto_scheme \<Rightarrow> (bytes \<rightharpoonup> bytes) \<Rightarrow> bool" where
  "transactions_as_written C m \<longleftrightarrow>
     (\<forall>k bs. m k = Some bs \<longrightarrow> (\<exists>tx h. k = key_serialize C (transaction_hash C tx) \<and>
        bs = transaction_serialize C tx @ w_key C h))"

definition outputs_as_written :: "'z crypto_scheme \<Rightarrow> (bytes \<rightharpoonup> bytes) \<Rightarrow> bool" where
  "outputs_as_written C m \<longleftrightarrow>
     (\<forall>k bs. m k = Some bs \<longrightarrow> (\<exists>out unlock. k = key_serialize C (TransactionOutput_hash C out) \<and>
        bs = w_varint C unlock @ TransactionOutput_serialize C out))"

text \<open>What every write of a transaction keeps of an entry, a block keeps, written or not.\<close>

lemma put_block_keeps:
  assumes c': "atomic_result c (block_changes C S b txs) r c'"
    and keep: "\<And>t g. g \<in> set (transaction_changes C S (block_hash C b) t) \<Longrightarrow> keeps_entry d k P g"
    and d: "d \<notin> {m_dbi (m_blocks S), m_dbi (m_block_indexes S), m_dbi (m_block_timestamps S)}" and P: "P (c d k)"
  shows "P (c' d k)"
proof -
  have "\<forall>g \<in> set (block_changes C S b txs). keeps_entry d k P g"
    using keep d by (auto simp: block_changes_def Let_def intro!: keeps_put keeps_all)
  from keeps_all [OF this] show ?thesis using c' P by (auto simp: keeps_entry_def atomic_result_def split: if_splits)
qed

lemma block_keeps_transactions:
  assumes S: "storage_open S E" and c': "atomic_result c (block_changes C S b txs) r c'"
    and c: "transactions_as_written C (c (m_dbi (m_transactions S)))"
  shows "transactions_as_written C (c' (m_dbi (m_transactions S)))"
proof -
  define P where "P k x \<longleftrightarrow> (\<forall>bs. x = Some bs \<longrightarrow> (\<exists>tx h. k = key_serialize C (transaction_hash C tx) \<and>
      bs = transaction_serialize C tx @ w_key C h))" for k x
  have written: "P (key_serialize C (transaction_hash C tx)) (Some (transaction_serialize C tx @ w_key C h))" for tx h
    unfolding P_def by blast
  have "P k (c' (m_dbi (m_transactions S)) k)" for k
  proof (rule put_block_keeps [OF c'])
    fix t g assume "g \<in> set (transaction_changes C S (block_hash C b) t)"
    then show "keeps_entry (m_dbi (m_transactions S)) k (P k) g"
      using S written by (auto simp: transaction_changes_def storage_open_def storage_dbs_def intro!: keeps_put)
  qed (use S c in \<open>auto simp: storage_open_def storage_dbs_def transactions_as_written_def P_def\<close>)
  then show ?thesis by (simp add: transactions_as_written_def P_def)
qed

lemma block_keeps_outputs:
  assumes S: "storage_open S E" and c': "atomic_result c (block_changes C S b txs) r c'"
    and c: "outputs_as_written C (c (m_dbi (m_transaction_outputs S)))"
  shows "outputs_as_written C (c' (m_dbi (m_transaction_outputs S)))"
proof -
  define P where "P k x \<longleftrightarrow> (\<forall>bs. x = Some bs \<longrightarrow> (\<exists>out unlock. k = key_serialize C (TransactionOutput_hash C out) \<and>
      bs = w_varint C unlock @ TransactionOutput_serialize C out))" for k x
  have written: "P (key_serialize C (TransactionOutput_hash C out)) (Some (w_varint C unlock @ TransactionOutput_serialize C out))"
    for out unlock unfolding P_def by blast
  have "P k (c' (m_dbi (m_transaction_outputs S)) k)" for k
  proof (rule put_block_keeps [OF c'])
    fix t g assume "g \<in> set (transaction_changes C S (block_hash C b) t)"
    then show "keeps_entry (m_dbi (m_transaction_outputs S)) k (P k) g"
      using S written by (auto simp: transaction_changes_def storage_open_def storage_dbs_def intro!: keeps_put)
  qed (use S c in \<open>auto simp: storage_open_def storage_dbs_def outputs_as_written_def P_def\<close>)
  then show ?thesis by (simp add: outputs_as_written_def P_def)
qed

section \<open>Keys as they are stored\<close>

text \<open>A key is its 32 bytes, and reading one takes the next 32 bytes as they are.\<close>

definition raw_keys :: "'z codec_scheme \<Rightarrow> bool" where
  "raw_keys C \<longleftrightarrow> (\<forall>k. length (w_key C k) = 32) \<and> (\<forall>bs k rest. r_key C bs = Some (k, rest) \<longrightarrow> bs = w_key C k @ rest)"

lemma raw_keysD: "raw_keys C \<Longrightarrow> r_key C bs = Some (k, rest) \<Longrightarrow> w_key C k = take 32 bs \<and> rest = drop 32 bs"
  by (metis append_eq_conv_conj raw_keys_def)

text \<open>
  \<open>get_transaction\<close> takes the first 32 bytes of the entry for the hash of the block. They are those of the
  hash that was stored only when the transaction begins with them.
\<close>

lemma get_transaction_misreads:
  assumes C: "raw_keys C" and L: "lmdb_laws L ev tv" and E: "stored ev E c" "storage_open S E"
    and c: "transactions_as_written C (c (m_dbi (m_transactions S)))"
    and run: "get_transaction C L S h E = (Returned (SUCCESS, Some (tx', bh)), E')"
  shows "\<exists>tx bh0 rest. key_serialize C h = key_serialize C (transaction_hash C tx) \<and>
    c (m_dbi (m_transactions S)) (key_serialize C h) = Some (transaction_serialize C tx @ w_key C bh0) \<and>
    w_key C bh = take 32 (transaction_serialize C tx @ w_key C bh0) \<and>
    transaction_deserialize C (drop 32 (transaction_serialize C tx @ w_key C bh0)) = Some (Some (tx', rest))"
proof (cases "c (m_dbi (m_transactions S)) (key_serialize C h)")
  case None
  have "m_transactions S \<in> set (storage_dbs S)" by (simp add: storage_dbs_def)
  note hd = storage_handle [OF E(2) this]
  obtain o1 E1 where g: "db_get L (m_transactions S) (key_serialize C h) E = (o1, E1)" by fastforce
  have "o1 = Thrown \<or> (\<exists>v. o1 = Returned (LMDB_NOTFOUND, v))"
    using db_read_stored(3) [OF L E(1) g [unfolded db_get_def]] None unfolding txn_get_eq [OF L] hd by auto
  then show ?thesis using run g by (auto simp: get_transaction_def)
next
  case (Some bs)
  obtain tx bh0 where b: "key_serialize C h = key_serialize C (transaction_hash C tx)" "bs = transaction_serialize C tx @ w_key C bh0"
    using c Some unfolding transactions_as_written_def by blast
  have "read_transaction C bs = Returned (SUCCESS, Some (tx', bh))"
    using get_transaction_stored [OF L E Some] run by auto
  then obtain rest rest' where r: "r_key C bs = Some (bh, rest)" "transaction_deserialize C rest = Some (Some (tx', rest'))"
    by (auto simp: read_transaction_def split: option.splits Option.bind_splits prod.splits)
  show ?thesis using raw_keysD [OF C r(1)] r(2) b Some by auto
qed

section \<open>The search for outputs\<close>

text \<open>
  An accident that would let the search find an output: its key begins with the bytes of the unlock
  block, repeated all along, or what is read in its place has the same hash.
\<close>

definition found_by_accident :: "'z crypto_scheme \<Rightarrow> u64 \<Rightarrow> TransactionOutput \<Rightarrow> bool" where
  "found_by_accident C unlock out \<longleftrightarrow>
     take 32 (w_varint C unlock @ w_key C (public_ephemeral out)) = w_key C (public_ephemeral out) \<or>
     (\<exists>out' rest. TransactionOutput_deserialize C (w_varint C unlock @ TransactionOutput_serialize C out) = Some (out', rest) \<and>
        out' \<noteq> out \<and> TransactionOutput_hash C out' = TransactionOutput_hash C out)"

lemma written_not_read:
  assumes "raw_keys C" "\<not> found_by_accident C unlock out"
    "TransactionOutput_deserialize C (w_varint C unlock @ TransactionOutput_serialize C out) = Some (out', rest)"
  shows "TransactionOutput_hash C out' \<noteq> TransactionOutput_hash C out"
proof -
  let ?bs = "w_varint C unlock @ TransactionOutput_serialize C out"
  obtain rest' where "r_key C ?bs = Some (public_ephemeral out', rest')"
    using assms(3) by (auto simp: TransactionOutput_deserialize_def split: Option.bind_splits prod.splits)
  from raw_keysD [OF assms(1) this] have k: "w_key C (public_ephemeral out') = take 32 ?bs" by simp
  have "take 32 ?bs = take 32 (w_varint C unlock @ w_key C (public_ephemeral out))"
    using assms(1) by (simp add: TransactionOutput_serialize_def raw_keys_def)
  then have "out' \<noteq> out" using k assms(2) by (auto simp: found_by_accident_def)
  then show ?thesis using assms(2,3) by (auto simp: found_by_accident_def)
qed

lemma written_not_offered:
  assumes C: "crypto_laws C" "raw_keys C" and m: "outputs_as_written C m"
    and "\<And>out unlock. m (key_serialize C (TransactionOutput_hash C out)) =
      Some (w_varint C unlock @ TransactionOutput_serialize C out) \<Longrightarrow> \<not> found_by_accident C unlock out"
  shows "\<not> offered C m index out"
proof
  assume "offered C m index out"
  then obtain k bs bs' rest where o: "m k = Some bs" "r_key C k = Some (TransactionOutput_hash C out, rest)"
      "TransactionOutput_deserialize C bs = Some (out, bs')" by (auto simp: offered_def)
  obtain out0 unlock where w: "k = key_serialize C (TransactionOutput_hash C out0)"
      "bs = w_varint C unlock @ TransactionOutput_serialize C out0"
    using m o(1) unfolding outputs_as_written_def by blast
  have "TransactionOutput_hash C out = TransactionOutput_hash C out0"
    using o(2) codec_read_back_end(5) [OF crypto_lawsD(1) [OF C(1)], of "TransactionOutput_hash C out0"] by (simp add: w(1))
  then show False using written_not_read [OF C(2) assms(4) o(3) [unfolded w(2)]] o(1) w by simp
qed

text \<open>So no search for an output succeeds, and one that begins, since enough are stored, does not return.\<close>

lemma get_random_outputs_never_succeeds:
  assumes C: "crypto_laws C" "raw_keys C" and L: "lmdb_laws L ev tv" "cursor_laws L tv cv"
    and E: "store_holds (L, ev, tv, m_transaction_outputs S) E m"
    and m: "outputs_as_written C m" "\<And>out unlock. m (key_serialize C (TransactionOutput_hash C out)) =
      Some (w_varint C unlock @ TransactionOutput_serialize C out) \<Longrightarrow> \<not> found_by_accident C unlock out"
    and n: "0 < n"
  shows "get_random_outputs C L S rnd index n E \<noteq> Some (E', Returned (SUCCESS, outs))"
proof
  assume run: "get_random_outputs C L S rnd index n E = Some (E', Returned (SUCCESS, outs))"
  note G = get_random_outputs_result [OF C(1) L E run]
  have "0 < unat n" using n by (simp add: word_less_nat_alt)
  then obtain out where "out \<in> set outs" using G by (cases outs) auto
  then show False using G written_not_offered [OF C m] by blast
qed

lemma get_random_outputs_starts:
  assumes R: "reliable L tv" and L: "lmdb_laws L ev tv" "cursor_laws L tv cv"
    and E: "store_holds (L, ev, tv, m_transaction_outputs S) E m" "m_dbi (m_transaction_outputs S) \<noteq> 0"
    and n: "unat n \<le> card (dom m)" "card (dom m) < 2 ^ 64"
    and run: "get_random_outputs C L S rnd index n E = Some (E', Returned x)"
  shows "\<exists>outs. x = (SUCCESS, outs)"
proof -
  obtain E1 where k: "db_count L (m_transaction_outputs S) E = Some (E1, Returned (word_of_nat (card (dom m))))"
    using reliable_count [OF R L E n(2)] by blast
  have "\<not> word_of_nat (card (dom m)) < n" using n by (simp add: word_less_nat_alt unat_of_nat)
  then show ?thesis
    using run k by (auto simp: get_random_outputs_def io_bind_def io_return_def split: option.splits outcome.splits)
qed

end
