(* ===== verification/Network_Samples.thy ===== *)
theory Network_Samples
  imports Samples P2p_Service Reference_Files Stored_Layout
begin

text \<open>
  Concrete databases with files and cursors, a peer database and a node over the reference instances,
  for the witnesses of the properties about peers, the network and the queries of the storage.
\<close>

section \<open>The peer database\<close>

lemma reference_reliable: "reliable reference_files ref_view"
  by (auto simp: reliable_def reference_files_def ref_view_def split: if_splits)

definition sample_peerdb :: PeerDB where
  "sample_peerdb = \<lparr>m_peer_id = 99, m_database = sample_database 2\<rparr>"

definition sample_peer_env :: "ref_entries LMDB" where
  "sample_peer_env = files_env [sample_database 2] []"

abbreviation sample_peers where
  "sample_peers \<equiv> (reference_network, reference_files, ref_view, ref_view, ref_cursor_view, sample_peerdb)"

lemma sample_peers_lawful: "peerdb_lawful sample_peers"
  by (simp add: reference_network_laws reference_files_laws reference_cursor_laws)

lemma sample_key_serialize: "key_serialize reference_network = ref_w_key" "w_key reference_network = ref_w_key"
  by (simp_all add: reference_network_def reference_def crypto.defs network.defs)

lemma sample_key_nonempty: "key_serialize reference_network i \<noteq> []"
  by (metis length_le_bytes list.size(3) ref_w_key_def sample_key_serialize(1) zero_neq_numeral)

lemma sample_peers_reliable: "peerdb_reliable sample_peers"
  unfolding peerdb_reliable.simps
  using sample_peers_lawful by (simp add: reference_reliable sample_peerdb_def sample_database_def sample_key_nonempty)

lemma sample_peers_hold: "peerdb_holds sample_peers sample_peer_env Map.empty"
proof -
  have "ref_view [] d = Map.empty" for d by (simp add: ref_view_def fun_eq_iff)
  moreover have "store_holds (reference_files, ref_view, ref_view, sample_database 2) sample_peer_env (ref_view [] 2)"
    using files_env_stored [of "[sample_database 2]" "[]"]
    by (auto simp: sample_peer_env_def sample_database_def files_env_def tsm_at_def)
  ultimately show ?thesis
    by (auto simp: sample_peerdb_def table_of_def fun_eq_iff split: option.split simp del: store_holds.simps)
qed

definition sample_now :: u64 where
  "sample_now = 1633492805"

lemma sample_peer_facts:
  "storable reference_network sample_peer" "peer_id sample_peer = 41" "drop_port sample_peer = sample_peer"
  "last_seen sample_peer = 1633492800" "prune_time sample_now \<le> 1633492800"
  by (simp_all add: storable_def drop_port_def wf_peer_def wf_ip_def sample_peer_def network_peer_def sample_ip_def
      reference_network_def crypto.defs network.defs prune_time_def sample_now_def config)

lemma sample_peer_added: "\<exists>E. peerdb_holds sample_peers E [41 \<mapsto> sample_peer]"
  using add_succeeds [OF sample_peers_reliable sample_peers_hold sample_peer_facts(1), of sample_now] sample_peer_facts
  by (auto simp: sample_peerdb_def simp del: peerdb_holds.simps)

section \<open>A node\<close>

definition sample_packet :: packet_handshake_t where
  "sample_packet = packet_handshake 41 12897 43"

definition sample_message :: zmq_message_envelope_t where
  "sample_message = (envelope_routed reference_network 77 55 (handshake_serialize reference_network sample_packet))
     \<lparr>env_peer_address := ''127.0.0.1''\<rparr>"

definition sample_server :: ZMQServer where
  "sample_server = (server_make 12897 77)\<lparr>zs_running := True, zs_incoming := [sample_message]\<rparr>"

definition sample_node :: "ref_entries Node" where
  "sample_node = \<lparr>node_running = True, node_seed_mode = False, node_peer_db = sample_peerdb,
     node_env = sample_peer_env, node_server = sample_server, node_clients = [], node_completed = [],
     node_messages = [], node_network_id = 43, node_clock = (\<lambda>_. sample_now), node_ticks = 0\<rparr>"

abbreviation sample_mix :: shuffle where
  "sample_mix \<equiv> \<lambda>_ ps. ps"

text \<open>A socket library that does nothing, and the identities and sockets of new clients.\<close>

definition sample_zmq :: "unit zmq" where
  "sample_zmq =
     \<lparr>zmq_bind = (\<lambda>_ k. (True, k)), zmq_connect = (\<lambda>_ k. (False, k)), zmq_wait_connected = (\<lambda>_. False),
      zmq_recv = (\<lambda>k. (None, k)), zmq_send = (\<lambda>_ k. (True, k)), hash_of_bytes = (\<lambda>_. None), hash_bytes = (\<lambda>_. [])\<rparr>"

definition sample_dial :: "string \<Rightarrow> u16 \<Rightarrow> crypto_hash_t \<times> unit" where
  "sample_dial host port = (88, ())"

lemma sample_node_laws: "node_laws reference_network reference_files ref_view ref_view ref_cursor_view sample_mix"
  by (simp add: node_laws_def reference_network_laws reference_files_laws reference_cursor_laws)

lemma sample_node_has:
  "node_has reference_network reference_files ref_view ref_view ref_cursor_view sample_node Map.empty"
  using sample_peers_reliable sample_peers_hold unfolding node_has_def
  by (simp add: sample_node_def del: peerdb_holds.simps peerdb_reliable.simps)

lemma sample_key_width: "key_width reference_network"
  by (simp add: key_width_def sample_key_serialize ref_w_key_def)

lemma sample_address: "\<exists>a. ip_address_of_string reference_network ''127.0.0.1'' = Some a"
  by (simp add: ip_address_of_string_def reference_network_def crypto.defs network.defs sample_parse_def
      sample_addresses_def)

lemma sample_node_guards:
  "55 \<notin> set (node_completed sample_node)" "55 \<noteq> zs_identity (node_server sample_node)"
  "packet_peer_id sample_packet \<noteq> m_peer_id (node_peer_db sample_node)" "P2P_MINIMUM_VERSION \<le> packet_version sample_packet"
  "packet_peers sample_packet = []" "zs_running (node_server sample_node)"
  "prune_time (node_clock sample_node (Suc (node_ticks sample_node))) \<le> node_clock sample_node (node_ticks sample_node)"
  by (simp_all add: sample_node_def sample_server_def server_make_def sample_packet_def packet_handshake_def
      sample_peerdb_def sample_now_def prune_time_def config)

text \<open>The message is a handshake from the peer 41, which the node answers.\<close>

lemma sample_typed:
  "handle_typed reference_network reference_files sample_mix sample_message True N =
   handle_handshake reference_network reference_files sample_mix 55 ''127.0.0.1'' sample_packet True N"
proof -
  have "wf_peers_packet reference_network sample_packet"
    by (simp add: wf_peers_packet_def fits_u64_def sample_packet_def packet_handshake_def)
  then have r: "handshake_deserialize reference_network (handshake_serialize reference_network sample_packet) =
      Some (sample_packet, [])" by (rule handshake.read_back_all [OF reference_network_laws])
  have t: "\<exists>rest. r_varint reference_network (handshake_serialize reference_network sample_packet) =
      Some (ucast (packet_type_number NETWORK_HANDSHAKE), rest)"
    by (simp add: handshake_serialize_def peers_packet_serialize_def network_lawsD(9) [OF reference_network_laws])
      (simp add: sample_packet_def packet_handshake_def)
  have m: "env_payload sample_message = handshake_serialize reference_network sample_packet"
    "env_from sample_message = 55" "env_peer_address sample_message = ''127.0.0.1''"
    by (simp_all add: sample_message_def envelope_routed_def envelope_def)
  from t obtain rest where "r_varint reference_network (handshake_serialize reference_network sample_packet) =
      Some (ucast (packet_type_number NETWORK_HANDSHAKE), rest)" by blast
  then show ?thesis unfolding handle_typed_def m Let_def using r by simp
qed

lemma sample_polled:
  obtains N' reply t where
    "poll_server reference_network reference_files sample_mix sample_node = Some (N', Returned ())"
    "set (node_completed N') = {55}"
    "zs_outgoing (node_server N') = [envelope_to reference_network 55 (handshake_serialize reference_network reply)]"
    "packet_type reply = packet_type_number NETWORK_HANDSHAKE"
    "node_has reference_network reference_files ref_view ref_view ref_cursor_view N' t" "41 \<in> dom t"
proof -
  let ?N = "sample_node\<lparr>node_server := sample_server\<lparr>zs_incoming := []\<rparr>\<rparr>"
  have has: "node_has reference_network reference_files ref_view ref_view ref_cursor_view ?N Map.empty"
    using sample_node_has by (simp add: node_has_def)
  have srv: "node_server sample_node = sample_server" "zs_incoming sample_server = [sample_message]"
    "zs_outgoing sample_server = []" "node_completed sample_node = []" "packet_peer_id sample_packet = 41"
    by (simp_all add: sample_node_def sample_server_def server_make_def sample_packet_def packet_handshake_def)
  obtain a where a: "ip_address_of_string reference_network ''127.0.0.1'' = Some a" using sample_address by blast
  obtain N' t' reply where r: "handle_handshake reference_network reference_files sample_mix 55 ''127.0.0.1'' sample_packet
      True ?N = Some (N', Returned ())"
    "node_has reference_network reference_files ref_view ref_view ref_cursor_view N' t'"
    "t' (packet_peer_id sample_packet) \<noteq> None" "set (node_completed N') = {55}"
    "zs_outgoing (node_server N') = [envelope_to reference_network 55 (handshake_serialize reference_network reply)]"
    "packet_type reply = packet_type_number NETWORK_HANDSHAKE"
    using handshake_answered [OF has sample_node_laws sample_key_width _ a, of sample_packet 55] sample_node_guards srv
    by (fastforce simp: config)
  then have "poll_server reference_network reference_files sample_mix sample_node = Some (N', Returned ())"
    by (simp add: poll_server_def srv tsq_pop_def handle_incoming_message_def sample_typed)
  then show thesis using that r srv(5) by (metis domIff)
qed

text \<open>A data packet of our network that a client received.\<close>

definition sample_data :: packet_data_t where
  "sample_data = (packet_data reference_network)\<lparr>data_network_id := 43, payload := [1, 2]\<rparr>"

definition sample_data_message :: zmq_message_envelope_t where
  "sample_data_message = envelope_routed reference_network 88 55 (data_serialize reference_network sample_data)"

definition sample_client_node :: "ref_entries Node" where
  "sample_client_node =
     sample_node\<lparr>node_clients := [(7, (client_make 88)\<lparr>zc_running := True, zc_incoming := [sample_data_message]\<rparr>)]\<rparr>"

lemma sample_data_dropped:
  "\<exists>N'. poll_client reference_network reference_files sample_mix 7 sample_client_node = Some (N', Returned ()) \<and>
     zc_incoming (snd (hd (node_clients N'))) = []"
proof -
  have "wf_data_packet sample_data" by (simp add: wf_data_packet_def sample_data_def fits_u64_def)
  then have r: "data_deserialize reference_network (data_serialize reference_network sample_data) = Some (sample_data, [])"
    by (rule data_packet.read_back_all [OF network_lawsD(2) [OF reference_network_laws]])
  obtain rest where t: "r_varint reference_network (data_serialize reference_network sample_data) =
      Some (ucast (packet_type_number NETWORK_DATA), rest)"
    using network_lawsD(9) [OF reference_network_laws]
    by (simp add: data_serialize_def) (simp add: sample_data_def packet_data_def)
  have m: "env_payload sample_data_message = data_serialize reference_network sample_data" "env_from sample_data_message = 55"
    by (simp_all add: sample_data_message_def envelope_routed_def envelope_def)
  have h: "handle_typed reference_network reference_files sample_mix sample_data_message False N =
      handle_data 55 sample_data False N" for N :: "ref_entries Node"
    unfolding handle_typed_def m Let_def t using r by simp
  have d: "handle_data 55 sample_data False N = Some (N, Returned ())" if "node_completed N = []" for N :: "ref_entries Node"
    using that by (simp add: handle_data_def io_return_def tss_contains_iff)
  have "node_completed sample_client_node = []" "node_clients sample_client_node =
      [(7, (client_make 88)\<lparr>zc_running := True, zc_incoming := [sample_data_message]\<rparr>)]"
    by (simp_all add: sample_client_node_def sample_node_def)
  then show ?thesis
    by (simp add: poll_client_def tsm_at_def tsq_pop_def handle_incoming_message_def h d tsm_insert_or_assign_def)
qed

section \<open>A storage with cursors\<close>

text \<open>Two time stamps, one block at the index 0, and one output whose unlock block is 3.\<close>

definition sample_output_entry :: bytes where
  "sample_output_entry = w_varint reference 3 @ TransactionOutput_serialize reference sample_output"

definition sample_entries :: ref_entries where
  "sample_entries =
     [((4, w_uint64 reference 10), key_serialize reference 71), ((4, w_uint64 reference 20), key_serialize reference 72),
      ((3, w_uint64 reference 0), key_serialize reference 71), ((2, key_serialize reference 71), [1]),
      ((7, key_serialize reference (TransactionOutput_hash reference sample_output)), sample_output_entry)]"

definition sample_files :: "ref_entries LMDB" where
  "sample_files = files_env (map sample_database [2..<8]) sample_entries"

lemma sample_files_open: "storage_open sample_storage sample_files"
  by (simp add: storage_open_def storage_dbs_def sample_storage_def sample_database_def sample_files_def
      files_env_def tsm_at_def upt_conv_Cons)

lemmas sample_files_stored = files_env_stored [of "map sample_database [2..<8]" sample_entries, folded sample_files_def]

lemma sample_files_hold:
  assumes "D \<in> set (storage_dbs sample_storage)"
  shows "store_holds (reference_files, ref_view, ref_view, D) sample_files (ref_view sample_entries (m_dbi D))"
  by (rule storage_holds [OF sample_files_stored(1) sample_files_open sample_files_stored(2) assms])

lemma ref_uint64: "w_uint64 reference x = rev (le_bytes 8 (unat x))" "key_serialize reference = ref_w_key"
  "ref_w_key k \<noteq> []" "le_bytes 8 n \<noteq> []"
  by (simp_all add: reference_def ref_w_key_def) (metis length_le_bytes list.size(3) zero_neq_numeral)+

lemma ref_uint64_inj: "w_uint64 reference x = w_uint64 reference y \<longleftrightarrow> x = y"
  using codec_read_back_end [OF reference_codec_laws] by (metis option.inject prod.inject)

lemma sample_views:
  "ref_view sample_entries 4 k = (if k = w_uint64 reference 10 then Some (key_serialize reference 71)
     else if k = w_uint64 reference 20 then Some (key_serialize reference 72) else None)"
  "ref_view sample_entries 3 k = (if k = w_uint64 reference 0 then Some (key_serialize reference 71) else None)"
  "ref_view sample_entries 2 k = (if k = key_serialize reference 71 then Some [1] else None)"
  "ref_view sample_entries 7 k = (if k = key_serialize reference (TransactionOutput_hash reference sample_output)
     then Some sample_output_entry else None)"
  by (auto simp: ref_view_def sample_entries_def ref_uint64)

lemma sample_timestamps: "timestamps_of reference (ref_view sample_entries 4) [10 \<mapsto> 71, 20 \<mapsto> 72]"
proof -
  have "dom (ref_view sample_entries 4) = w_uint64 reference ` {10, 20}"
    by (auto simp: dom_def sample_views split: if_splits)
  then show ?thesis by (auto simp: timestamps_of_def sample_views ref_uint64_inj)
qed

lemma sample_doms:
  "dom (ref_view sample_entries 2) = {key_serialize reference 71}"
  "dom (ref_view sample_entries 7) = {key_serialize reference (TransactionOutput_hash reference sample_output)}"
  by (auto simp: dom_def sample_views split: if_splits)

lemma sample_index_free: "ref_view sample_entries 3 (w_uint64 reference 1) = None"
  by (simp add: sample_views ref_uint64_inj)

section \<open>Entries as the program writes them\<close>

text \<open>The keys of the reference instance are their 32 bytes.\<close>

lemma le_bytes_un_le: "le_bytes (length bs) (un_le bs) = bs"
proof (induction bs)
  case (Cons b bs)
  have "unat b < 256" using unsigned_less [of b] by simp
  then have "(unat b + 256 * un_le bs) mod 256 = unat b" "(unat b + 256 * un_le bs) div 256 = un_le bs" by simp_all
  then show ?case using Cons by simp
qed simp

lemma un_le_less: "un_le bs < 256 ^ length bs"
proof (induction bs)
  case (Cons b bs)
  have "unat b < 256" using unsigned_less [of b] by simp
  then show ?case using Cons by simp
qed simp

lemma reference_raw_keys: "raw_keys reference"
proof -
  have "le_bytes 32 (unat (word_of_nat (un_le (take 32 bs)) :: 256 word)) = take 32 bs" if "32 \<le> length bs" for bs :: bytes
    using that un_le_less [of "take 32 bs"] le_bytes_un_le [of "take 32 bs"] by (simp add: unat_of_nat take_bit_nat_eq_self)
  then show ?thesis by (auto simp: raw_keys_def reference_def ref_w_key_def ref_r_key_def read_le_def split: if_splits)
qed

lemma reference_read_write: "r_key reference bs = Some (k, rest) \<Longrightarrow> w_key reference k @ rest = bs"
  using reference_raw_keys by (auto simp: raw_keys_def)

text \<open>The output is stored as it is written.\<close>

lemma sample_outputs_written: "outputs_as_written reference (ref_view sample_entries 7)"
  unfolding outputs_as_written_def sample_views sample_output_entry_def by auto

lemma sample_entry_parts:
  assumes "ref_view sample_entries 7 (key_serialize reference (TransactionOutput_hash reference out)) =
    Some (w_varint reference unlock @ TransactionOutput_serialize reference out)"
  shows "unlock = 3 \<and> out = sample_output"
proof -
  have "r_varint reference (w_varint reference unlock @ TransactionOutput_serialize reference out) =
      r_varint reference (w_varint reference 3 @ TransactionOutput_serialize reference sample_output)"
    using assms by (simp add: sample_views sample_output_entry_def split: if_splits)
  then have e: "unlock = 3" "TransactionOutput_serialize reference out = TransactionOutput_serialize reference sample_output"
    by (simp_all add: wire reference_codec_laws)
  have "Some (out, []) = Some (sample_output, [] :: bytes)"
    using tx_output.read_back_all [of reference out] tx_output.read_back_all [of reference sample_output] e(2)
    by (simp add: reference_codec_laws)
  then show ?thesis using e by simp
qed

text \<open>
  What is read in its place is another output with another hash: the hash of the reference instance,
  up to multiples of 256, sums the bytes.
\<close>

lemma unat_mod_256: "unat (word_of_nat n :: 256 word) mod 256 = n mod 256"
proof -
  have "(256 :: nat) dvd 2 ^ 256" using le_imp_power_dvd [of 8 256 "2 :: nat"] by simp
  moreover have "unat (word_of_nat n :: 256 word) = n mod 2 ^ 256" by (simp add: unat_of_nat take_bit_eq_mod)
  ultimately show ?thesis by (metis mod_mod_cancel)
qed

lemma mix_mod: "(x * 257 + b + 1) mod 256 = (x mod 256 + b + 1) mod (256 :: nat)"
proof -
  have "x * 257 + b + 1 = (x + b + 1) + 256 * x" by simp
  then have "(x * 257 + b + 1) mod 256 = (x + b + 1) mod 256" by (metis mod_mult_self2)
  then show ?thesis by (metis add.assoc mod_add_left_eq)
qed

lemma add_mod: "(a mod 256 + b + 1) mod 256 = (a + (b + 1)) mod (256 :: nat)"
  by (metis add.assoc mod_add_left_eq)

lemma sum_snoc: "1 + sum_list (map f (bs @ [b])) = (1 + sum_list (map f bs)) + (f b :: nat)"
  by simp

lemma ref_sha3_sum: "unat (ref_sha3 bs) mod 256 = (1 + (\<Sum>b \<leftarrow> bs. unat b + 1)) mod 256"
proof (induction bs rule: rev_induct)
  case (snoc b bs)
  have "ref_sha3 (bs @ [b]) = word_of_nat (unat (ref_sha3 bs) * 257 + unat b + 1)" by (simp add: ref_sha3_def)
  then have "unat (ref_sha3 (bs @ [b])) mod 256 = (unat (ref_sha3 bs) mod 256 + unat b + 1) mod 256"
    by (metis unat_mod_256 mix_mod)
  also have "\<dots> = ((1 + (\<Sum>b \<leftarrow> bs. unat b + 1)) + (unat b + 1)) mod 256"
    unfolding snoc by (rule add_mod)
  also have "(1 + (\<Sum>b \<leftarrow> bs. unat b + 1)) + (unat b + 1) = 1 + (\<Sum>b \<leftarrow> bs @ [b]. unat b + 1)"
    by (rule sum_snoc [symmetric])
  finally show ?case .
qed (simp add: ref_sha3_def)

lemma reference_sha3: "sha3 reference = ref_sha3" by (simp add: reference_def)

lemma sample_output_lost: "\<not> found_by_accident reference 3 sample_output"
proof -
  have bytes: "w_varint reference 3 @ TransactionOutput_serialize reference sample_output =
      ([3, 7] @ replicate 30 0) @ 0 # ([9, 11] @ replicate 30 0) @ [0]"
    by (simp add: TransactionOutput_serialize_def reference_def sample_defs leb.simps ref_w_key_def le_bytes_small)
       (simp add: eval_nat_numeral)
  have k: "length ([3, 7] @ replicate 30 (0 :: byte)) = 32" "length ([9, 11] @ replicate 30 (0 :: byte)) = 32" by simp_all
  note keys = k [THEN reference_reads(1)]
  define out' where "out' = \<lparr>public_ephemeral = word_of_nat (un_le ([3, 7] @ replicate 30 0)), output_amount = 0,
      commitment = word_of_nat (un_le ([9, 11] @ replicate 30 0))\<rparr>"
  have "TransactionOutput_deserialize reference (([3, 7] @ replicate 30 0) @ 0 # ([9, 11] @ replicate 30 0) @ [0]) = Some (out', [0])"
    unfolding TransactionOutput_deserialize_def keys
    by (simp add: reference_reads(2) keys [simplified] out'_def)
  moreover have "TransactionOutput_hash reference out' \<noteq> TransactionOutput_hash reference sample_output"
  proof -
    have "TransactionOutput_serialize reference out' = ([3, 7] @ replicate 30 0) @ 0 # ([9, 11] @ replicate 30 0)"
      using keys [of "[]", THEN reference_read_write]
      by (simp add: TransactionOutput_serialize_def out'_def) (simp add: reference_def leb.simps)
    moreover have "TransactionOutput_serialize reference sample_output = 7 # replicate 31 0 @ 9 # 11 # replicate 31 0"
      by (simp add: TransactionOutput_serialize_def reference_def sample_defs leb.simps ref_w_key_def le_bytes_small)
    ultimately have "unat (TransactionOutput_hash reference out') mod 256 \<noteq> unat (TransactionOutput_hash reference sample_output) mod 256"
      by (simp add: TransactionOutput_hash_def reference_sha3 ref_sha3_sum sum_list_replicate)
    then show ?thesis by metis
  qed
  moreover have "take 32 (w_varint reference 3 @ w_key reference (public_ephemeral sample_output)) \<noteq> w_key reference (public_ephemeral sample_output)"
    by (simp add: reference_def sample_defs leb.simps ref_w_key_def le_bytes_small)
  ultimately show ?thesis unfolding found_by_accident_def bytes by auto
qed

abbreviation sample_draws :: "nat \<Rightarrow> crypto_hash_t" where
  "sample_draws \<equiv> \<lambda>_. TransactionOutput_hash reference sample_output"

end
