(* ===== verification/Staking_Open.thy ===== *)
theory Staking_Open
  imports Staking_Engine Lmdb_Reliable
begin

text \<open>
  The constructor, the table of instances and the destructor of the staking engine
  (\<open>src/core/staking_engine.cpp\<close>). \<open>MDB_DUPSORT\<close> is the flag of the library for sorted duplicates.
\<close>

definition staking_make ::
  "'z crypto_scheme \<Rightarrow> ('e, 't, 'c, 'f, 'y) lmdb_files_scheme \<Rightarrow> u32 \<Rightarrow> ('e LMDB, StakingEngine) io" where
  "staking_make C L MDB_DUPSORT =
     io_bind (io_call (open_database C L ''candidates'' 0)) (\<lambda>D1.
     io_bind (io_call (open_database C L ''stakes'' (or (MDB_CREATE L) MDB_DUPSORT))) (\<lambda>D2.
     io_return \<lparr>m_db_candidates = D1, m_db_stakes = D2\<rparr>))"

definition staking_instance ::
  "'z crypto_scheme \<Rightarrow> ('e, 't, 'c, 'f, 'y) lmdb_files_scheme \<Rightarrow> u32 \<Rightarrow> string \<Rightarrow>
     (crypto_hash_t, StakingEngine) ThreadSafeMap \<Rightarrow>
     ('e LMDB, StakingEngine \<times> (crypto_hash_t, StakingEngine) ThreadSafeMap) io" where
  "staking_instance C L MDB_DUPSORT db_path = find_or_make C db_path (staking_make C L MDB_DUPSORT)"

definition staking_destroy ::
  "'z crypto_scheme \<Rightarrow> string \<Rightarrow> (crypto_hash_t, StakingEngine) ThreadSafeMap \<Rightarrow>
     (crypto_hash_t, StakingEngine) ThreadSafeMap" where
  "staking_destroy C db_path = forget_instance (sha3 C (string_bytes db_path))"

text \<open>
  While the library does not fail, the engine is constructed and no entry changes; its table of
  candidates is then what the environment stores under its handle.
\<close>

lemma staking_make_returns:
  assumes C: "strict_total (key_less C)" and L: "lmdb_laws L ev tv" "open_laws L tv" "reliable L tv" "opens_all L"
    and E: "stored ev E c" "m_open_txns E + 1 \<noteq> 0" "databases_ok C E" "m_registered E"
  shows "\<exists>E' SE. staking_make C L dup E = Some (E', Returned SE) \<and> stored ev E' c \<and>
    candidates L ev tv SE E' (c (m_dbi (m_db_candidates SE))) \<and>
    m_dbi (m_db_candidates SE) \<noteq> 0 \<and> m_dbi (m_db_stakes SE) \<noteq> 0"
proof -
  obtain D1 E1 where o1: "open_database C L ''candidates'' 0 E = (Returned D1, E1)"
    using open_database_returns [OF C L E] by blast
  note O1 = open_database_result [OF C L(1,2) E(1-3) o1]
  have E1: "stored ev E1 c" "m_open_txns E1 + 1 \<noteq> 0" "databases_ok C E1" "m_registered E1" using O1(1-4) E(2,4) by simp_all
  obtain D2 E2 where o2: "open_database C L ''stakes'' (or (MDB_CREATE L) dup) E1 = (Returned D2, E2)"
    using open_database_returns [OF C L E1] by blast
  note O2 = open_database_result [OF C L(1,2) E1(1-3) o2]
  have d: "m_dbi D1 \<noteq> 0" "tsm_at (m_databases E2) (db_id D1) = Some D1" "m_dbi D2 \<noteq> 0" "m_open_txns E2 + 1 \<noteq> 0"
    using O1(7) [OF refl] O2(2,6) O2(7) [OF refl] E1(2) by auto
  have "staking_make C L dup E = Some (E2, Returned \<lparr>m_db_candidates = D1, m_db_stakes = D2\<rparr>)"
    using o1 o2 by (simp add: staking_make_def io_bind_def io_call_def io_return_def)
  moreover have "candidates L ev tv \<lparr>m_db_candidates = D1, m_db_stakes = D2\<rparr> E2 (c (m_dbi D1))"
    unfolding candidates_def using O2(1) d by auto
  ultimately show ?thesis using O2(1) d(1,3) by fastforce
qed

text \<open>The engine of a path is constructed once, until it is destroyed.\<close>

lemma staking_opened_once:
  assumes C: "strict_total (key_less C)" and I: "sorted_map (key_less C) I"
    and run: "staking_instance C L dup path I E = Some (E', Returned (SE, I'))"
  shows "staking_instance C L dup path I' E2 = Some (E2, Returned (SE, I'))"
    and "tsm_at (staking_destroy C path I') (sha3 C (string_bytes path)) = None"
proof -
  note again = find_or_make_again [OF C I run [unfolded staking_instance_def]]
  show "staking_instance C L dup path I' E2 = Some (E2, Returned (SE, I'))"
    unfolding staking_instance_def by (rule again(3))
  show "tsm_at (staking_destroy C path I') (sha3 C (string_bytes path)) = None"
    unfolding staking_destroy_def by (rule forget_instance_gone)
qed

end
