(* ===== verification/P2p_Meeting.thy ===== *)
theory P2p_Meeting
  imports P2p_Service
begin

text \<open>
  Two nodes meet: one connects to the other (\<open>Node::connect\<close>), and the handshake goes from the
  queue of its client over the sockets to the poller of the other node, and the answer the same
  way back. The steps are the rounds of the threads of both nodes, in the order in which the messages
  travel. The sockets of the connection are a parameter with the laws \<open>dealer_router_laws\<close>.
\<close>

section \<open>The rounds of the threads\<close>

definition client_writes where
  "client_writes (C :: 'z network_scheme) (Z :: ('k, 'y) zmq_scheme) i (N :: 'e Node) k =
     (case tsm_at (node_clients N) i of
        None \<Rightarrow> (N, k)
      | Some client \<Rightarrow>
          let (client, k) = client_outgoing Z client k in
          (N\<lparr>node_clients := tsm_insert_or_assign (key_less C) i client (node_clients N)\<rparr>, k))"

definition client_reads where
  "client_reads (C :: 'z network_scheme) (Z :: ('k, 'y) zmq_scheme) i (N :: 'e Node) k =
     (case tsm_at (node_clients N) i of
        None \<Rightarrow> Some (N, k)
      | Some client \<Rightarrow>
          map_option (\<lambda>(client, k).
              (N\<lparr>node_clients := tsm_insert_or_assign (key_less C) i client (node_clients N)\<rparr>, k))
            (client_incoming C Z client k))"

definition server_writes where
  "server_writes (C :: 'z network_scheme) (Z :: ('k, 'y) zmq_scheme) (N :: 'e Node) k =
     (let (S, k) = server_outgoing C Z (node_server N) k in (N\<lparr>node_server := S\<rparr>, k))"

definition server_reads where
  "server_reads (C :: 'z network_scheme) (Z :: ('k, 'y) zmq_scheme) (N :: 'e Node) k =
     map_option (\<lambda>(S, k). (N\<lparr>node_server := S\<rparr>, k)) (server_incoming C Z (node_server N) k)"

text \<open>
  The exchange between \<open>A\<close>, whose client \<open>i\<close> is connected to \<open>B\<close>, and \<open>B\<close>; \<open>Zc\<close> and \<open>Zs\<close> are the
  calls on the two sockets, \<open>k\<close> is the state of both and what is under way between them. The server
  reads twice: the client has \<open>probe_router\<close> set, so that an empty message is in front of the handshake.
\<close>

definition exchange_handshakes where
  "exchange_handshakes (C :: 'z network_scheme) (L :: ('e, 't, 'c, 'y) lmdb_cursors_scheme) mix
     (Zc :: ('k, 'u) zmq_scheme) (Zs :: ('k, 'v) zmq_scheme) i A B k =
     (let (A, k) = client_writes C Zc i A k in
      do { (B, k) \<leftarrow> server_reads C Zs B k;
           (B, k) \<leftarrow> server_reads C Zs B k;
           (B, _) \<leftarrow> poll_server C L mix B;
           let (B, k) = server_writes C Zs B k;
           (A, k) \<leftarrow> client_reads C Zc i A k;
           (A, _) \<leftarrow> poll_client C L mix i A;
           Some (A, B, k) })"

section \<open>The sockets\<close>

text \<open>
  A dealer socket with the routing id \<open>cid\<close>, seen under the address \<open>ca\<close>, and a router socket that
  the other end sees with the identity \<open>sid\<close> under the address \<open>sa\<close>; \<open>up\<close> and \<open>down\<close> are the
  payloads under way. A connection begins with the empty message of \<open>ZMQ_PROBE_ROUTER\<close>. Nothing is lost,
  the router puts the routing id in front of what it receives and takes it from what it sends.
\<close>

definition dealer_router_laws where
  "dealer_router_laws (Zc :: ('k, 'u) zmq_scheme) (Zs :: ('k, 'v) zmq_scheme) cid sid ca sa
     (up :: 'k \<Rightarrow> bytes list) (down :: 'k \<Rightarrow> bytes list) \<longleftrightarrow>
     hash_of_bytes Zs (hash_bytes Zs cid) = Some cid \<and>
     (\<forall>endpoint k k'. zmq_connect Zc endpoint k = (True, k') \<longrightarrow> up k' = up k @ [[]] \<and> down k' = down k) \<and>
     (\<forall>d k. \<exists>k'. zmq_send Zc [d] k = (True, k') \<and> up k' = up k @ [d] \<and> down k' = down k) \<and>
     (\<forall>k d rest. up k = d # rest \<longrightarrow>
        (\<exists>p m k'. zmq_recv Zs k = (Some [p, m], k') \<and> part_data p = hash_bytes Zs cid \<and> part_data m = d \<and>
           part_peer_address m = ca \<and> up k' = rest \<and> down k' = down k)) \<and>
     (\<forall>d k. \<exists>k'. zmq_send Zs [hash_bytes Zs cid, d] k = (True, k') \<and> down k' = down k @ [d] \<and> up k' = up k) \<and>
     (\<forall>k d rest. down k = d # rest \<longrightarrow>
        (\<exists>m k'. zmq_recv Zc k = (Some [m], k') \<and> part_data m = d \<and> hash_of_bytes Zc (part_identity m) = Some sid \<and>
           part_peer_address m = sa \<and> down k' = rest \<and> up k' = up k))"

lemma dealer_router_lawsD:
  assumes "dealer_router_laws Zc Zs cid sid ca sa up down"
  shows "hash_of_bytes Zs (hash_bytes Zs cid) = Some cid"
    and "\<exists>k'. zmq_send Zc [d] k = (True, k') \<and> up k' = up k @ [d] \<and> down k' = down k"
    and "up k = d # rest \<Longrightarrow> \<exists>p m k'. zmq_recv Zs k = (Some [p, m], k') \<and> part_data p = hash_bytes Zs cid \<and>
      part_data m = d \<and> part_peer_address m = ca \<and> up k' = rest \<and> down k' = down k"
    and "\<exists>k'. zmq_send Zs [hash_bytes Zs cid, d] k = (True, k') \<and> down k' = down k @ [d] \<and> up k' = up k"
    and "down k = d # rest \<Longrightarrow> \<exists>m k'. zmq_recv Zc k = (Some [m], k') \<and> part_data m = d \<and>
      hash_of_bytes Zc (part_identity m) = Some sid \<and> part_peer_address m = sa \<and> down k' = rest \<and> up k' = up k"
    and "zmq_connect Zc endpoint k = (True, k') \<Longrightarrow> up k' = up k @ [[]] \<and> down k' = down k"
  using assms unfolding dealer_router_laws_def by blast+

section \<open>The packets on their way\<close>

text \<open>A handshake that was serialized is handled as the handshake it is.\<close>

lemma handshake_dispatched:
  assumes C: "network_laws C" and p: "wf_peers_packet C p" "packet_type p = packet_type_number NETWORK_HANDSHAKE"
    and m: "env_payload m = handshake_serialize C p"
  shows "handle_incoming_message C L mix m is_server N =
    map_option (\<lambda>(N, _). (N, Returned ()))
      (handle_handshake C L mix (env_from m) (env_peer_address m) p is_server N)"
proof -
  have r: "handshake_deserialize C (handshake_serialize C p) = Some (p, [])" by (rule handshake.read_back_all [OF C p(1)])
  obtain rest where "r_varint C (handshake_serialize C p) = Some (ucast (packet_type_number NETWORK_HANDSHAKE), rest)"
    by (simp add: handshake_serialize_def peers_packet_serialize_def network_lawsD(9) [OF C] p(2))
  then show ?thesis unfolding handle_incoming_message_def handle_typed_def m Let_def using r by simp
qed

lemma handshake_nonempty: "key_width C \<Longrightarrow> handshake_serialize C p \<noteq> []"
  by (auto simp: key_width_def handshake_serialize_def peers_packet_serialize_def dest!: spec [of _ "packet_peer_id p"])

text \<open>On the side of the client a handshake is only learnt from.\<close>

lemma client_learns:
  assumes N: "node_has C L ev tv cv N t" and C: "network_laws C" and a: "ip_address_of_string C address = Some a"
    and p: "wf_peers_packet C p" "length (packet_peers p) \<le> MAXIMUM_PEERS_EXCHANGED" "P2P_MINIMUM_VERSION \<le> packet_version p"
    and other: "packet_peer_id p \<noteq> m_peer_id (node_peer_db N)" "source \<noteq> zs_identity (node_server N)"
    and now: "prune_time (node_clock N (Suc (node_ticks N))) \<le> node_clock N (node_ticks N)"
  shows "\<exists>N' t'. handle_handshake C L mix source address p False N = Some (N', Returned ()) \<and> env_step N N' \<and>
    node_has C L ev tv cv N' t' \<and> card (dom t') \<le> card (dom t) + Suc (length (packet_peers p)) \<and>
    t' (packet_peer_id p) = Some (drop_port (network_peer (node_clock N (node_ticks N)) a
      (packet_peer_id p) (packet_peer_port p) (packet_network_id p)))"
proof -
  have ps: "\<forall>q \<in> set (packet_peers p). wf_peer C q" using p(1) by (simp add: wf_peers_packet_def)
  obtain N' t' where l: "learn_peers C L address p N = Some (N', Returned ())" "env_step N N'"
      "node_has C L ev tv cv N' t'" "card (dom t') \<le> card (dom t) + Suc (length (packet_peers p))"
      "t' (packet_peer_id p) = Some (drop_port (network_peer (node_clock N (node_ticks N)) a
        (packet_peer_id p) (packet_peer_port p) (packet_network_id p)))"
    using learn_peers_runs [OF N C a ps other(1) now] by blast
  have "handle_handshake C L mix source address p False N = Some (N', Returned ())"
    using l(1) p(2,3) other by (simp add: handle_handshake_def not_less [symmetric] io_bind_def io_return_def)
  then show ?thesis using l by blast
qed

section \<open>One leg after the other\<close>

lemma node_has_same: "node_env N' = node_env N \<Longrightarrow> node_peer_db N' = node_peer_db N \<Longrightarrow>
  node_has C L ev tv cv N' t \<longleftrightarrow> node_has C L ev tv cv N t"
  by (simp add: node_has_def)

text \<open>Connecting leaves the handshake of the node in the queue of a new client.\<close>

lemma node_connect_queues:
  assumes N: "node_has C L ev tv cv N t" and laws: "node_laws C L ev tv cv mix" and width: "key_width C"
    and card: "card (dom t) < 2 ^ 64" and host: "normalize_host_port C host port = Some (h, p, i)"
    and new: "tsm_at (node_clients N) i = None" "sorted_map (key_less C) (node_clients N)"
    and dial: "dial h p = (cid, k)" "client_connect Z h p (client_make cid) k = (SUCCESS, client, k')"
  shows "\<exists>N' packet. node_connect C L mix Z dial host port N = Some (N', Returned SUCCESS) \<and>
    node_has C L ev tv cv N' t \<and> wf_peers_packet C packet \<and>
    packet_type packet = packet_type_number NETWORK_HANDSHAKE \<and> packet_version packet = P2P_VERSION \<and>
    length (packet_peers packet) \<le> MAXIMUM_PEERS_EXCHANGED \<and> packet_peer_id packet = m_peer_id (node_peer_db N) \<and>
    packet_peer_port packet = zs_port (node_server N) \<and> packet_network_id packet = node_network_id N \<and>
    node_server N' = node_server N \<and> node_peer_db N' = node_peer_db N \<and> node_clock N' = node_clock N \<and>
    sorted_map (key_less C) (node_clients N') \<and>
    tsm_at (node_clients N') i = Some ((client_make cid)\<lparr>zc_running := True,
      zc_outgoing := [envelope C (handshake_serialize C packet)]\<rparr>)"
proof -
  have C: "network_laws C" and mix: "\<And>seed ps. mset (mix seed ps) = mset ps" using laws by (simp_all add: node_laws_def)
  have st: "strict_total (key_less C)" by (rule crypto_lawsD(2) [OF network_lawsD(1) [OF C]])
  obtain N1 packet where b: "build_handshake C L mix N = Some (N1, Returned packet)" "env_step N N1"
      "node_has C L ev tv cv N1 t" "wf_peers_packet C packet"
    using build_handshake_runs [where mix = mix, OF N card mix] by blast
  have same: "node_clients N1 = node_clients N" "node_server N1 = node_server N" "node_peer_db N1 = node_peer_db N"
      "node_clock N1 = node_clock N"
    using arg_cong [OF b(2), of node_clients] arg_cong [OF b(2), of node_server] arg_cong [OF b(2), of node_peer_db]
      arg_cong [OF b(2), of node_clock] by simp_all
  have client: "client = (client_make cid)\<lparr>zc_running := True\<rparr>"
    using dial(2) by (auto simp: client_connect_def Let_def split: prod.splits if_splits)
  let ?c = "(client_make cid)\<lparr>zc_running := True, zc_outgoing := [envelope C (handshake_serialize C packet)]\<rparr>"
  have send: "client_send (envelope C (handshake_serialize C packet)) client = ?c"
    using handshake_nonempty [OF width, of packet]
    by (simp add: client client_send_def envelope_def client_make_def tsq_push_def)
  let ?N = "N1\<lparr>node_clients := tsm_insert (key_less C) i ?c (node_clients N1)\<rparr>"
  have "node_connect C L mix Z dial host port N = Some (?N, Returned SUCCESS)"
    using host new(1) dial b(1) unfolding node_connect_def
    by (simp add: io_bind_def io_gets_def io_return_def io_modify_def tsm_contains_at send)
  moreover have "tsm_at (node_clients ?N) i = Some ?c" "sorted_map (key_less C) (node_clients ?N)"
    using tsm.lookup_insert [OF st new(2)] tsm.inv_insert [OF st new(2)] new(1) same(1) by simp_all
  moreover have "node_has C L ev tv cv ?N t" using b(3) by (simp add: node_has_def)
  ultimately show ?thesis using b(4) build_handshake_bounded [OF b(1)] same by (intro exI [of _ ?N] exI [of _ packet]) simp
qed

lemma client_writes_sends:
  assumes K: "dealer_router_laws Zc Zs cid sid ca sa up down" and c: "tsm_at (node_clients N) i = Some c"
    and m: "zc_outgoing c = [m]" "env_payload m \<noteq> []"
  shows "\<exists>k'. client_writes C Zc i N k =
      (N\<lparr>node_clients := tsm_insert_or_assign (key_less C) i (c\<lparr>zc_outgoing := []\<rparr>) (node_clients N)\<rparr>, k') \<and>
    up k' = up k @ [env_payload m] \<and> down k' = down k"
proof -
  obtain k' where "zmq_send Zc [env_payload m] k = (True, k')" "up k' = up k @ [env_payload m]" "down k' = down k"
    using dealer_router_lawsD(2) [OF K] by blast
  then show ?thesis using c m by (simp add: client_writes_def client_outgoing_def tsq_pop_def)
qed

text \<open>The probe is under way once the client is connected, and the server drops it.\<close>

lemma client_connect_probes:
  assumes K: "dealer_router_laws Zc Zs cid sid ca sa up down" and c: "client_connect Zc h p S k = (SUCCESS, S', k')"
  shows "up k' = up k @ [[]]" "down k' = down k"
proof -
  obtain ok k1 where z: "zmq_connect Zc (''tcp://'' @ h @ '':'' @ dec (unat p)) k = (ok, k1)" by fastforce
  then have "ok" "k' = k1" using c by (auto simp: client_connect_def split: if_splits)
  then show "up k' = up k @ [[]]" "down k' = down k" using dealer_router_lawsD(6) [OF K] z by auto
qed

lemma server_reads_probe:
  assumes K: "dealer_router_laws Zc Zs cid sid ca sa up down" and k: "up k = [] # rest"
  shows "\<exists>k'. server_reads C Zs N k = Some (N, k') \<and> up k' = rest \<and> down k' = down k"
proof -
  obtain p m k' where "zmq_recv Zs k = (Some [p, m], k')" "part_data m = []" "up k' = rest" "down k' = down k"
    using dealer_router_lawsD(3) [OF K k] by blast
  then show ?thesis by (simp add: server_reads_def server_incoming_def)
qed

lemma server_reads_gets:
  assumes K: "dealer_router_laws Zc Zs cid sid ca sa up down" and k: "up k = d # rest" "d \<noteq> []"
    and host: "normalize_host C ca = Some (h, pt, hs)" and empty: "zs_incoming (node_server N) = []"
  shows "\<exists>S k' m. server_reads C Zs N k = Some (N\<lparr>node_server := S\<rparr>, k') \<and> up k' = rest \<and> down k' = down k \<and>
    zs_incoming S = [m] \<and> env_payload m = d \<and> env_from m = cid \<and> env_peer_address m = h \<and>
    zs_identity S = zs_identity (node_server N) \<and> zs_running S = zs_running (node_server N) \<and>
    zs_port S = zs_port (node_server N) \<and> zs_outgoing S = zs_outgoing (node_server N)"
proof -
  obtain p m k' where "zmq_recv Zs k = (Some [p, m], k')" "part_data p = hash_bytes Zs cid" "part_data m = d"
      "part_peer_address m = ca" "up k' = rest" "down k' = down k"
    using dealer_router_lawsD(3) [OF K k(1)] by blast
  then show ?thesis using k(2) host empty dealer_router_lawsD(1) [OF K]
    by (simp add: server_reads_def server_incoming_def Let_def tsq_push_def envelope_routed_def envelope_def)
      (intro conjI impI; rule exI, rule conjI, rule refl, simp)
qed

lemma server_writes_sends:
  assumes K: "dealer_router_laws Zc Zs cid sid ca sa up down"
    and m: "zs_outgoing (node_server N) = [envelope_to C cid d]" "d \<noteq> []" "\<not> key_empty C cid"
  shows "\<exists>S k'. server_writes C Zs N k = (N\<lparr>node_server := S\<rparr>, k') \<and> down k' = down k @ [d] \<and> up k' = up k"
proof -
  obtain k' where "zmq_send Zs [hash_bytes Zs cid, d] k = (True, k')" "down k' = down k @ [d]" "up k' = up k"
    using dealer_router_lawsD(4) [OF K] by blast
  then show ?thesis using m
    by (simp add: server_writes_def server_outgoing_def tsq_pop_def envelope_to_def envelope_def Let_def) blast
qed

lemma client_reads_gets:
  assumes K: "dealer_router_laws Zc Zs cid sid ca sa up down" and k: "down k = d # rest" "d \<noteq> []"
    and host: "normalize_host C sa = Some (h, pt, hs)"
    and c: "tsm_at (node_clients N) i = Some c" "zc_incoming c = []"
  shows "\<exists>c' k' m. client_reads C Zc i N k =
      Some (N\<lparr>node_clients := tsm_insert_or_assign (key_less C) i c' (node_clients N)\<rparr>, k') \<and> down k' = rest \<and>
    up k' = up k \<and> zc_incoming c' = [m] \<and> env_payload m = d \<and> env_from m = sid \<and> env_peer_address m = h"
proof -
  obtain m k' where "zmq_recv Zc k = (Some [m], k')" "part_data m = d" "hash_of_bytes Zc (part_identity m) = Some sid"
      "part_peer_address m = sa" "down k' = rest" "up k' = up k"
    using dealer_router_lawsD(5) [OF K k(1)] by blast
  then show ?thesis using k(2) host c
    by (simp add: client_reads_def client_incoming_def Let_def tsq_push_def envelope_routed_def envelope_def)
      (rule exI, rule conjI, rule refl, simp)
qed

text \<open>The poller of the node that was dialled answers, the poller of the other one learns.\<close>

lemma poll_server_answers:
  assumes N: "node_has C L ev tv cv N t" and laws: "node_laws C L ev tv cv mix" and width: "key_width C"
    and card: "card (dom t) + Suc MAXIMUM_PEERS_EXCHANGED < 2 ^ 64"
    and m: "zs_incoming (node_server N) = [m]" "zs_outgoing (node_server N) = []" "env_payload m = handshake_serialize C p"
    and p: "wf_peers_packet C p" "packet_type p = packet_type_number NETWORK_HANDSHAKE" "packet_version p = P2P_VERSION"
      "length (packet_peers p) \<le> MAXIMUM_PEERS_EXCHANGED" "packet_peer_id p \<noteq> m_peer_id (node_peer_db N)"
    and a: "ip_address_of_string C (env_peer_address m) = Some a"
    and guard: "env_from m \<notin> set (node_completed N)" "env_from m \<noteq> zs_identity (node_server N)"
    and running: "zs_running (node_server N)"
    and now: "prune_time (node_clock N (Suc (node_ticks N))) \<le> node_clock N (node_ticks N)"
  shows "\<exists>N' t' reply. poll_server C L mix N = Some (N', Returned ()) \<and> node_has C L ev tv cv N' t' \<and>
    t' (packet_peer_id p) = Some (drop_port (network_peer (node_clock N (node_ticks N)) a
      (packet_peer_id p) (packet_peer_port p) (packet_network_id p))) \<and>
    env_from m \<in> set (node_completed N') \<and>
    zs_outgoing (node_server N') = [envelope_to C (env_from m) (handshake_serialize C reply)] \<and>
    wf_peers_packet C reply \<and> packet_type reply = packet_type_number NETWORK_HANDSHAKE \<and>
    packet_version reply = P2P_VERSION \<and> length (packet_peers reply) \<le> MAXIMUM_PEERS_EXCHANGED \<and>
    packet_peer_id reply = m_peer_id (node_peer_db N) \<and> packet_peer_port reply = zs_port (node_server N) \<and>
    packet_network_id reply = node_network_id N"
proof -
  let ?N = "N\<lparr>node_server := (node_server N)\<lparr>zs_incoming := []\<rparr>\<rparr>"
  have C: "network_laws C" using laws by (simp add: node_laws_def)
  have has: "node_has C L ev tv cv ?N t" using N by (simp add: node_has_def)
  have ps: "\<forall>q \<in> set (packet_peers p). wf_peer C q" using p(1) by (simp add: wf_peers_packet_def)
  have c: "card (dom t) + Suc (length (packet_peers p)) < 2 ^ 64" using card p(4) by linarith
  have v: "P2P_MINIMUM_VERSION \<le> packet_version p" by (simp add: p(3) config)
  obtain N' t' reply where r: "handle_handshake C L mix (env_from m) (env_peer_address m) p True ?N = Some (N', Returned ())"
      "node_has C L ev tv cv N' t'"
      "t' (packet_peer_id p) = Some (drop_port (network_peer (node_clock N (node_ticks N)) a
        (packet_peer_id p) (packet_peer_port p) (packet_network_id p)))"
      "set (node_completed N') = insert (env_from m) (set (node_completed N))"
      "zs_outgoing (node_server N') = [envelope_to C (env_from m) (handshake_serialize C reply)]"
      "packet_peer_id reply = m_peer_id (node_peer_db N)" "packet_network_id reply = node_network_id N"
      "length (packet_peers reply) \<le> MAXIMUM_PEERS_EXCHANGED" "packet_type reply = packet_type_number NETWORK_HANDSHAKE"
      "packet_peer_port reply = zs_port (node_server N)" "packet_version reply = P2P_VERSION" "wf_peers_packet C reply"
    using handshake_answered [OF has laws width c a ps _ _ _ v p(4), of "env_from m"] guard p(5) running now m(2)
    by simp blast
  have "poll_server C L mix N = Some (N', Returned ())"
    using r(1) by (simp add: poll_server_def m(1) tsq_pop_def handshake_dispatched [OF C p(1,2) m(3)])
  then show ?thesis using r by blast
qed

lemma poll_client_learns:
  assumes N: "node_has C L ev tv cv N t" and C: "network_laws C"
    and m: "tsm_at (node_clients N) i = Some c" "zc_incoming c = [m]" "env_payload m = handshake_serialize C p"
    and p: "wf_peers_packet C p" "packet_type p = packet_type_number NETWORK_HANDSHAKE" "packet_version p = P2P_VERSION"
      "length (packet_peers p) \<le> MAXIMUM_PEERS_EXCHANGED" "packet_peer_id p \<noteq> m_peer_id (node_peer_db N)"
    and a: "ip_address_of_string C (env_peer_address m) = Some a" and guard: "env_from m \<noteq> zs_identity (node_server N)"
    and now: "prune_time (node_clock N (Suc (node_ticks N))) \<le> node_clock N (node_ticks N)"
  shows "\<exists>N' t'. poll_client C L mix i N = Some (N', Returned ()) \<and> node_has C L ev tv cv N' t' \<and>
    t' (packet_peer_id p) = Some (drop_port (network_peer (node_clock N (node_ticks N)) a
      (packet_peer_id p) (packet_peer_port p) (packet_network_id p)))"
proof -
  let ?N = "N\<lparr>node_clients := tsm_insert_or_assign (key_less C) i (c\<lparr>zc_incoming := []\<rparr>) (node_clients N)\<rparr>"
  have has: "node_has C L ev tv cv ?N t" using N by (simp add: node_has_def)
  have v: "P2P_MINIMUM_VERSION \<le> packet_version p" by (simp add: p(3) config)
  obtain N' t' where r: "handle_handshake C L mix (env_from m) (env_peer_address m) p False ?N = Some (N', Returned ())"
      "node_has C L ev tv cv N' t'"
      "t' (packet_peer_id p) = Some (drop_port (network_peer (node_clock N (node_ticks N)) a
        (packet_peer_id p) (packet_peer_port p) (packet_network_id p)))"
    using client_learns [OF has C a p(1,4) v, of "env_from m" mix] p(5) guard now
    by simp blast
  have "poll_client C L mix i N = Some (N', Returned ())"
    using r(1) by (simp add: poll_client_def m(1,2) tsq_pop_def handshake_dispatched [OF C p(1,2) m(3)])
  then show ?thesis using r by blast
qed

section \<open>There and back\<close>

text \<open>A packet that \<open>build_handshake\<close> makes for the node \<open>N\<close>.\<close>

definition handshake_of :: "'z network_scheme \<Rightarrow> 'e Node \<Rightarrow> packet_handshake_t \<Rightarrow> bool" where
  "handshake_of C N p \<longleftrightarrow> wf_peers_packet C p \<and> packet_type p = packet_type_number NETWORK_HANDSHAKE \<and>
     packet_version p = P2P_VERSION \<and> length (packet_peers p) \<le> MAXIMUM_PEERS_EXCHANGED \<and>
     packet_peer_id p = m_peer_id (node_peer_db N) \<and> packet_peer_port p = zs_port (node_server N) \<and>
     packet_network_id p = node_network_id N"

text \<open>The node \<open>N\<close> as a peer that was seen at the address \<open>a\<close>.\<close>

definition peer_of :: "u64 \<Rightarrow> ip_address_t \<Rightarrow> 'e Node \<Rightarrow> network_peer_t" where
  "peer_of now a N = drop_port (network_peer now a (m_peer_id (node_peer_db N)) (zs_port (node_server N)) (node_network_id N))"

lemma handshake_goes_up:
  assumes laws: "node_laws C L ev tv cv mix" and width: "key_width C"
    and K: "dealer_router_laws Zc Zs cid sid ca sa up down" "up k = [[]]" "down k = []"
    and hs: "handshake_of C A hs" "tsm_at (node_clients A1) i = Some c" "zc_outgoing c = [envelope C (handshake_serialize C hs)]"
    and B: "node_has C L ev tv cv B tB" "card (dom tB) + Suc MAXIMUM_PEERS_EXCHANGED < 2 ^ 64" "zs_running (node_server B)"
      "zs_incoming (node_server B) = []" "zs_outgoing (node_server B) = []" "cid \<notin> set (node_completed B)"
      "cid \<noteq> zs_identity (node_server B)"
    and ids: "m_peer_id (node_peer_db A) \<noteq> m_peer_id (node_peer_db B)"
    and seen: "normalize_host C ca = Some (h, q, j)" "ip_address_of_string C h = Some a"
    and clock: "\<And>n. prune_time (node_clock B (Suc n)) \<le> node_clock B n"
  shows "\<exists>k1 k0 B1 k2 B2 t' now reply. client_writes C Zc i A1 k =
      (A1\<lparr>node_clients := tsm_insert_or_assign (key_less C) i (c\<lparr>zc_outgoing := []\<rparr>) (node_clients A1)\<rparr>, k1) \<and>
    server_reads C Zs B k1 = Some (B, k0) \<and> server_reads C Zs B k0 = Some (B1, k2) \<and> down k2 = [] \<and> poll_server C L mix B1 = Some (B2, Returned ()) \<and>
    node_has C L ev tv cv B2 t' \<and> t' (m_peer_id (node_peer_db A)) = Some (peer_of now a A) \<and>
    cid \<in> set (node_completed B2) \<and> handshake_of C B reply \<and>
    zs_outgoing (node_server B2) = [envelope_to C cid (handshake_serialize C reply)]"
proof -
  note nonempty = handshake_nonempty [OF width]
  note p = hs(1) [unfolded handshake_of_def]
  obtain k1 where w: "client_writes C Zc i A1 k =
      (A1\<lparr>node_clients := tsm_insert_or_assign (key_less C) i (c\<lparr>zc_outgoing := []\<rparr>) (node_clients A1)\<rparr>, k1)"
      "up k1 = [[], handshake_serialize C hs]" "down k1 = []"
    using client_writes_sends [OF K(1) hs(2,3), of C k] nonempty [of hs] K(2,3) by (auto simp: envelope_def)
  obtain k0 where q: "server_reads C Zs B k1 = Some (B, k0)" "up k0 = [handshake_serialize C hs]" "down k0 = []"
    using server_reads_probe [OF K(1) w(2)] w(3) by auto
  obtain S k2 m where r: "server_reads C Zs B k0 = Some (B\<lparr>node_server := S\<rparr>, k2)" "down k2 = []"
      "zs_incoming S = [m]" "env_payload m = handshake_serialize C hs" "env_from m = cid" "env_peer_address m = h"
      "zs_identity S = zs_identity (node_server B)" "zs_running S" "zs_port S = zs_port (node_server B)" "zs_outgoing S = []"
    using server_reads_gets [OF K(1) q(2) nonempty seen(1) B(4)] q(3) B(3,5) by auto
  have has: "node_has C L ev tv cv (B\<lparr>node_server := S\<rparr>) tB" using B(1) by (simp add: node_has_def)
  have "\<exists>B2 t' reply. poll_server C L mix (B\<lparr>node_server := S\<rparr>) = Some (B2, Returned ()) \<and>
      node_has C L ev tv cv B2 t' \<and> t' (m_peer_id (node_peer_db A)) = Some (peer_of (node_clock B (node_ticks B)) a A) \<and>
      cid \<in> set (node_completed B2) \<and> handshake_of C B reply \<and>
      zs_outgoing (node_server B2) = [envelope_to C cid (handshake_serialize C reply)]"
    using poll_server_answers [where mix = mix and p = hs, OF has laws width B(2) _ _ r(4)] p ids r B(6,7) seen(2) clock
    by (simp add: handshake_of_def peer_of_def) blast
  then show ?thesis using w(1) q(1) r(1,2) by blast
qed

lemma handshake_comes_down:
  assumes C: "network_laws C" and width: "key_width C"
    and K: "dealer_router_laws Zc Zs cid sid ca sa up down" "\<not> key_empty C cid" "down k = []"
    and reply: "handshake_of C B reply" "zs_outgoing (node_server B2) = [envelope_to C cid (handshake_serialize C reply)]"
    and A: "node_has C L ev tv cv A t" "sorted_map (key_less C) (node_clients A)" "tsm_at (node_clients A) i = Some c"
      "zc_incoming c = []" "sid \<noteq> zs_identity (node_server A)"
    and ids: "m_peer_id (node_peer_db A) \<noteq> m_peer_id (node_peer_db B)"
    and seen: "normalize_host C sa = Some (h, q, j)" "ip_address_of_string C h = Some b"
    and clock: "\<And>n. prune_time (node_clock A (Suc n)) \<le> node_clock A n"
  shows "\<exists>S k1 A1 k2 A2 t' now. server_writes C Zs B2 k = (B2\<lparr>node_server := S\<rparr>, k1) \<and>
    client_reads C Zc i A k1 = Some (A1, k2) \<and> poll_client C L mix i A1 = Some (A2, Returned ()) \<and>
    node_has C L ev tv cv A2 t' \<and> t' (m_peer_id (node_peer_db B)) = Some (peer_of now b B)"
proof -
  note nonempty = handshake_nonempty [OF width]
  note p = reply(1) [unfolded handshake_of_def]
  have st: "strict_total (key_less C)" by (rule crypto_lawsD(2) [OF network_lawsD(1) [OF C]])
  obtain S k1 where u: "server_writes C Zs B2 k = (B2\<lparr>node_server := S\<rparr>, k1)" "down k1 = [handshake_serialize C reply]"
    using server_writes_sends [OF K(1) reply(2) nonempty K(2)] K(3) by force
  obtain c' k2 m where v: "client_reads C Zc i A k1 =
        Some (A\<lparr>node_clients := tsm_insert_or_assign (key_less C) i c' (node_clients A)\<rparr>, k2)"
      "zc_incoming c' = [m]" "env_payload m = handshake_serialize C reply" "env_from m = sid" "env_peer_address m = h"
    using client_reads_gets [OF K(1) u(2) nonempty seen(1) A(3,4)] by blast
  let ?A = "A\<lparr>node_clients := tsm_insert_or_assign (key_less C) i c' (node_clients A)\<rparr>"
  have at: "tsm_at (node_clients ?A) i = Some c'" by (simp add: tsm_at_insert_or_assign [OF st A(2)])
  have has: "node_has C L ev tv cv ?A t" using A(1) by (simp add: node_has_def)
  have "\<exists>A2 t'. poll_client C L mix i ?A = Some (A2, Returned ()) \<and> node_has C L ev tv cv A2 t' \<and>
      t' (m_peer_id (node_peer_db B)) = Some (peer_of (node_clock A (node_ticks A)) b B)"
    using poll_client_learns [where mix = mix, OF has C at v(2,3)] p ids A(5) v(4,5) seen(2) clock
    by (simp add: peer_of_def) 
  then show ?thesis using u(1) v(1) by blast
qed

end
