(* ===== verification/Json.thy ===== *)
theory Json
  imports Prelude
begin

text \<open>
  JSON, the second form in which the structures of the program are written. A \<open>toJSON\<close>
  method calls the methods of a \<open>rapidjson::Writer\<close>; the model of such a method is the
  sequence of the calls it makes. A \<open>fromJSON\<close> method reads a parsed document through the
  helper functions and macros of the cryptographic library; the model of such a method is a
  function of the document, \<open>None\<close> where it throws. The library itself is the parameter
  record \<open>json\<close>, and \<open>json_laws\<close> says what the program relies on: what a writer that has
  received a sequence of calls has printed (\<open>prints\<close>), that the parser reads it, and what
  the helpers give on the values of the document. The two locales are the interfaces that
  the structures implement: \<open>json_members\<close> for the parts of a class that write into an
  object that is open, \<open>json_format\<close> for what is written as a value of its own.
\<close>

section \<open>The calls of the writer and the values of a document\<close>

datatype json_event =
    StartObject | EndObject | StartArray | EndArray
  | Key string | String string | Uint u32 | Uint64 u64 | Int64 u64

datatype JSONValue =
    JNull | JBool bool | JNumber int | JString string
  | JArray "JSONValue list" | JObject "(string \<times> JSONValue) list"

text \<open>
  The value that a sequence of calls prints. \<open>Key\<close> and \<open>String\<close> are the same operation of
  the writer, which puts the separators by counting, so a \<open>Key\<close> in the place of a value
  prints a string.
\<close>

inductive prints :: "json_event list \<Rightarrow> JSONValue \<Rightarrow> bool"
  and prints_elements :: "json_event list \<Rightarrow> JSONValue list \<Rightarrow> bool"
  and prints_members :: "json_event list \<Rightarrow> (string \<times> JSONValue) list \<Rightarrow> bool" where
  prints_Uint: "prints [Uint n] (JNumber (uint n))"
| prints_Uint64: "prints [Uint64 m] (JNumber (uint m))"
| prints_Int64: "prints [Int64 m] (JNumber (sint m))"
| prints_String: "prints [String s] (JString s)"
| prints_Key: "prints [Key s] (JString s)"
| prints_array: "prints_elements es vs \<Longrightarrow> prints (StartArray # es @ [EndArray]) (JArray vs)"
| prints_object: "prints_members es ms \<Longrightarrow> prints (StartObject # es @ [EndObject]) (JObject ms)"
| elements_Nil: "prints_elements [] []"
| elements_Cons: "prints es v \<Longrightarrow> prints_elements fs vs \<Longrightarrow> prints_elements (es @ fs) (v # vs)"
| members_Nil: "prints_members [] []"
| members_Cons: "prints es v \<Longrightarrow> prints_members fs ms \<Longrightarrow> prints_members (Key n # es @ fs) ((n, v) # ms)"

lemmas prints_intros =
  prints_Uint prints_Uint64 prints_Int64 prints_String prints_Key prints_array prints_object

lemma prints_members_append:
  assumes "prints_members es ms" "prints_members fs ns"
  shows "prints_members (es @ fs) (ms @ ns)"
proof -
  have "prints a v \<Longrightarrow> True" "prints_elements b vs \<Longrightarrow> True"
    "prints_members es ms \<Longrightarrow> prints_members (es @ fs) (ms @ ns)" for a v b vs
    using assms(2)
    by (induction rule: prints_prints_elements_prints_members.inducts)
      (auto intro: prints_prints_elements_prints_members.intros)
  then show ?thesis using assms(1) by blast
qed

lemma prints_member:
  assumes "prints es v" shows "prints_members (Key n # es) [(n, v)]"
  using members_Cons [OF assms members_Nil] by simp

text \<open>The form in which the members of a class are put together.\<close>

lemma prints_cat:
  "prints_members es ms \<Longrightarrow> prints_members fs ns \<Longrightarrow> zs = ms @ ns \<Longrightarrow> prints_members (es @ fs) zs"
  by (simp add: prints_members_append)

section \<open>The library\<close>

text \<open>
  \<open>json_parse\<close> is parsing what a fresh writer has printed. \<open>object_or_throw\<close> and
  \<open>member_or_throw\<close> are \<open>JSON_OBJECT_OR_THROW\<close> and \<open>JSON_MEMBER_OR_THROW\<close>, \<open>get_json_string\<close>
  with and without a member's name are two fields. \<open>key_toJSON\<close>, \<open>sig_toJSON\<close>,
  \<open>key_to_string\<close>, \<open>sig_to_string\<close> are the methods of the keys and hashes and of the
  signatures, \<open>key_of_string\<close> and \<open>sig_of_string\<close> their constructors from a string.
  The macros \<open>X_TO_JSON\<close> and \<open>LOAD_X_FROM_JSON\<close> take the name of the member; \<open>KEY\<close> is used
  of keys and of signatures.
\<close>

record json =
  json_parse :: "json_event list \<Rightarrow> JSONValue option"
  object_or_throw :: "JSONValue \<Rightarrow> unit option"
  member_or_throw :: "JSONValue \<Rightarrow> string \<Rightarrow> unit option"
  has_member :: "JSONValue \<Rightarrow> string \<Rightarrow> bool"
  get_json_value :: "JSONValue \<Rightarrow> string \<Rightarrow> JSONValue option"
  get_json_array :: "JSONValue \<Rightarrow> string \<Rightarrow> JSONValue list option"
  get_json_string :: "JSONValue \<Rightarrow> string option"
  get_json_string_member :: "JSONValue \<Rightarrow> string \<Rightarrow> string option"
  get_json_uint64_t :: "JSONValue \<Rightarrow> string \<Rightarrow> u64 option"
  get_json_uint32_t :: "JSONValue \<Rightarrow> string \<Rightarrow> u32 option"
  to_hex :: "bytes \<Rightarrow> string"
  from_hex :: "string \<Rightarrow> bytes option"
  key_to_string :: "256 word \<Rightarrow> string"
  key_of_string :: "string \<Rightarrow> 256 word option"
  sig_to_string :: "512 word \<Rightarrow> string"
  sig_of_string :: "string \<Rightarrow> 512 word option"
  key_toJSON :: "256 word \<Rightarrow> json_event list"
  sig_toJSON :: "512 word \<Rightarrow> json_event list"
  U64_TO_JSON :: "string \<Rightarrow> u64 \<Rightarrow> json_event list"
  U32_TO_JSON :: "string \<Rightarrow> u32 \<Rightarrow> json_event list"
  KEY_TO_JSON :: "string \<Rightarrow> 256 word \<Rightarrow> json_event list"
  SIG_TO_JSON :: "string \<Rightarrow> 512 word \<Rightarrow> json_event list"
  KEYV_TO_JSON :: "string \<Rightarrow> 256 word list \<Rightarrow> json_event list"
  LOAD_U64_FROM_JSON :: "JSONValue \<Rightarrow> string \<Rightarrow> u64 option"
  LOAD_U32_FROM_JSON :: "JSONValue \<Rightarrow> string \<Rightarrow> u32 option"
  LOAD_KEY_FROM_JSON :: "JSONValue \<Rightarrow> string \<Rightarrow> 256 word option"
  LOAD_SIG_FROM_JSON :: "JSONValue \<Rightarrow> string \<Rightarrow> 512 word option"
  LOAD_KEYV_FROM_JSON :: "JSONValue \<Rightarrow> string \<Rightarrow> 256 word list option"

text \<open>How the values of the fixed-size types appear in a document.\<close>

definition key_value :: "'z json_scheme \<Rightarrow> 256 word \<Rightarrow> JSONValue" where
  "key_value J k = JString (key_to_string J k)"

definition sig_value :: "'z json_scheme \<Rightarrow> 512 word \<Rightarrow> JSONValue" where
  "sig_value J s = JString (sig_to_string J s)"

definition keys_value :: "'z json_scheme \<Rightarrow> 256 word list \<Rightarrow> JSONValue" where
  "keys_value J ks = JArray (map (key_value J) ks)"

definition json_print_laws :: "'z json_scheme \<Rightarrow> bool" where
  "json_print_laws J \<longleftrightarrow>
     (\<forall>es v. prints es v \<longrightarrow> json_parse J es = Some v) \<and>
     (\<forall>k. prints (key_toJSON J k) (key_value J k)) \<and>
     (\<forall>s. prints (sig_toJSON J s) (sig_value J s)) \<and>
     (\<forall>n x. prints_members (U64_TO_JSON J n x) [(n, JNumber (uint x))]) \<and>
     (\<forall>n x. prints_members (U32_TO_JSON J n x) [(n, JNumber (uint x))]) \<and>
     (\<forall>n k. prints_members (KEY_TO_JSON J n k) [(n, key_value J k)]) \<and>
     (\<forall>n s. prints_members (SIG_TO_JSON J n s) [(n, sig_value J s)]) \<and>
     (\<forall>n ks. prints_members (KEYV_TO_JSON J n ks) [(n, keys_value J ks)])"

definition json_read_laws :: "'z json_scheme \<Rightarrow> bool" where
  "json_read_laws J \<longleftrightarrow>
     (\<forall>v. object_or_throw J v = (case v of JObject _ \<Rightarrow> Some () | _ \<Rightarrow> None)) \<and>
     (\<forall>ms n. member_or_throw J (JObject ms) n = (if map_of ms n = None then None else Some ())) \<and>
     (\<forall>ms n. has_member J (JObject ms) n \<longleftrightarrow> map_of ms n \<noteq> None) \<and>
     (\<forall>ms n v. map_of ms n = Some v \<longrightarrow> get_json_value J (JObject ms) n = Some v) \<and>
     (\<forall>ms n vs. map_of ms n = Some (JArray vs) \<longrightarrow> get_json_array J (JObject ms) n = Some vs) \<and>
     (\<forall>s. get_json_string J (JString s) = Some s) \<and>
     (\<forall>ms n s. map_of ms n = Some (JString s) \<longrightarrow> get_json_string_member J (JObject ms) n = Some s) \<and>
     (\<forall>ms n x. map_of ms n = Some (JNumber (uint x)) \<longrightarrow> get_json_uint64_t J (JObject ms) n = Some x) \<and>
     (\<forall>ms n x. map_of ms n = Some (JNumber (uint x)) \<longrightarrow> get_json_uint32_t J (JObject ms) n = Some x) \<and>
     (\<forall>bs. from_hex J (to_hex J bs) = Some bs) \<and>
     (\<forall>k. key_of_string J (key_to_string J k) = Some k) \<and>
     (\<forall>s. sig_of_string J (sig_to_string J s) = Some s)"

definition json_load_laws :: "'z json_scheme \<Rightarrow> bool" where
  "json_load_laws J \<longleftrightarrow>
     (\<forall>ms n. map_of ms n = None \<longrightarrow>
        LOAD_U64_FROM_JSON J (JObject ms) n = None \<and> LOAD_KEY_FROM_JSON J (JObject ms) n = None) \<and>
     (\<forall>ms n x. map_of ms n = Some (JNumber (uint x)) \<longrightarrow> LOAD_U64_FROM_JSON J (JObject ms) n = Some x) \<and>
     (\<forall>ms n x. map_of ms n = Some (JNumber (uint x)) \<longrightarrow> LOAD_U32_FROM_JSON J (JObject ms) n = Some x) \<and>
     (\<forall>ms n k. map_of ms n = Some (key_value J k) \<longrightarrow> LOAD_KEY_FROM_JSON J (JObject ms) n = Some k) \<and>
     (\<forall>ms n s. map_of ms n = Some (sig_value J s) \<longrightarrow> LOAD_SIG_FROM_JSON J (JObject ms) n = Some s) \<and>
     (\<forall>ms n ks. map_of ms n = Some (keys_value J ks) \<longrightarrow> LOAD_KEYV_FROM_JSON J (JObject ms) n = Some ks)"

definition json_laws :: "'z json_scheme \<Rightarrow> bool" where
  "json_laws J \<longleftrightarrow> json_print_laws J \<and> json_read_laws J \<and> json_load_laws J"

named_theorems json "what the JSON library prints and reads"

lemma json_prints [json]:
  assumes "json_laws J"
  shows "prints es v \<Longrightarrow> json_parse J es = Some v"
    and "prints (key_toJSON J k) (key_value J k)"
    and "prints (sig_toJSON J s) (sig_value J s)"
    and "prints_members (U64_TO_JSON J n x) [(n, JNumber (uint x))]"
    and "prints_members (U32_TO_JSON J n y) [(n, JNumber (uint y))]"
    and "prints_members (KEY_TO_JSON J n k) [(n, key_value J k)]"
    and "prints_members (SIG_TO_JSON J n s) [(n, sig_value J s)]"
    and "prints_members (KEYV_TO_JSON J n ks) [(n, keys_value J ks)]"
  using assms unfolding json_laws_def json_print_laws_def by blast+

lemma json_reads [json]:
  assumes "json_laws J"
  shows "object_or_throw J (JObject ms) = Some ()"
    and "map_of ms n = Some v \<Longrightarrow> member_or_throw J (JObject ms) n = Some ()"
    and "has_member J (JObject ms) n \<longleftrightarrow> map_of ms n \<noteq> None"
    and "map_of ms n = Some v \<Longrightarrow> get_json_value J (JObject ms) n = Some v"
    and "map_of ms n = Some (JArray vs) \<Longrightarrow> get_json_array J (JObject ms) n = Some vs"
    and "get_json_string J (JString t) = Some t"
    and "map_of ms n = Some (JString t) \<Longrightarrow> get_json_string_member J (JObject ms) n = Some t"
    and "map_of ms n = Some (JNumber (uint x)) \<Longrightarrow> get_json_uint64_t J (JObject ms) n = Some x"
    and "map_of ms n = Some (JNumber (uint y)) \<Longrightarrow> get_json_uint32_t J (JObject ms) n = Some y"
    and "from_hex J (to_hex J bs) = Some bs"
    and "key_of_string J (key_to_string J k) = Some k"
    and "sig_of_string J (sig_to_string J s) = Some s"
    and "map_of ms n = Some (JNumber (uint x)) \<Longrightarrow> LOAD_U64_FROM_JSON J (JObject ms) n = Some x"
    and "map_of ms n = Some (JNumber (uint y)) \<Longrightarrow> LOAD_U32_FROM_JSON J (JObject ms) n = Some y"
    and "map_of ms n = Some (key_value J k) \<Longrightarrow> LOAD_KEY_FROM_JSON J (JObject ms) n = Some k"
    and "map_of ms n = Some (sig_value J s) \<Longrightarrow> LOAD_SIG_FROM_JSON J (JObject ms) n = Some s"
    and "map_of ms n = Some (keys_value J ks) \<Longrightarrow> LOAD_KEYV_FROM_JSON J (JObject ms) n = Some ks"
  using assms unfolding json_laws_def json_read_laws_def json_load_laws_def by auto

text \<open>What is missing or of another kind is an exception.\<close>

lemma json_throws:
  assumes "json_laws J"
  shows "\<forall>ms. v \<noteq> JObject ms \<Longrightarrow> object_or_throw J v = None"
    and "map_of ms n = None \<Longrightarrow> member_or_throw J (JObject ms) n = None"
    and "map_of ms n = None \<Longrightarrow> LOAD_U64_FROM_JSON J (JObject ms) n = None"
    and "map_of ms n = None \<Longrightarrow> LOAD_KEY_FROM_JSON J (JObject ms) n = None"
  using assms unfolding json_laws_def json_read_laws_def json_load_laws_def
  by (auto split: JSONValue.splits)

text \<open>The ring signatures and range proofs have forms of their own.\<close>

record ('s, 'r) json_proofs = json +
  clsag_value :: "'s \<Rightarrow> JSONValue"
  CLSAGV_TO_JSON :: "string \<Rightarrow> 's list \<Rightarrow> json_event list"
  LOAD_CLSAGV_FROM_JSON :: "JSONValue \<Rightarrow> string \<Rightarrow> 's list option"
  range_proof_value :: "'r \<Rightarrow> JSONValue"
  range_proof_toJSON :: "'r \<Rightarrow> json_event list"
  range_proof_fromJSON :: "JSONValue \<Rightarrow> string \<Rightarrow> 'r option"

definition json_proof_laws :: "('s, 'r, 'z) json_proofs_scheme \<Rightarrow> bool" where
  "json_proof_laws J \<longleftrightarrow>
     json_laws J \<and>
     (\<forall>n xs. prints_members (CLSAGV_TO_JSON J n xs) [(n, JArray (map (clsag_value J) xs))]) \<and>
     (\<forall>ms n xs. map_of ms n = Some (JArray (map (clsag_value J) xs)) \<longrightarrow>
        LOAD_CLSAGV_FROM_JSON J (JObject ms) n = Some xs) \<and>
     (\<forall>x. prints (range_proof_toJSON J x) (range_proof_value J x)) \<and>
     (\<forall>ms n x. map_of ms n = Some (range_proof_value J x) \<longrightarrow>
        range_proof_fromJSON J (JObject ms) n = Some x)"

lemma json_proof_lawsD [json]:
  assumes "json_proof_laws J"
  shows "json_laws J"
    and "prints_members (CLSAGV_TO_JSON J n xs) [(n, JArray (map (clsag_value J) xs))]"
    and "map_of ms n = Some (JArray (map (clsag_value J) xs)) \<Longrightarrow>
         LOAD_CLSAGV_FROM_JSON J (JObject ms) n = Some xs"
    and "prints (range_proof_toJSON J x) (range_proof_value J x)"
    and "map_of ms n = Some (range_proof_value J x) \<Longrightarrow>
         range_proof_fromJSON J (JObject ms) n = Some x"
  using assms unfolding json_proof_laws_def by auto

section \<open>The interfaces\<close>

text \<open>The loops over \<open>get_json_array\<close>: an element that throws ends the whole.\<close>

fun load_each :: "(JSONValue \<Rightarrow> 'a option) \<Rightarrow> JSONValue list \<Rightarrow> 'a list option" where
  "load_each rd [] = Some []"
| "load_each rd (v # vs) = do { x \<leftarrow> rd v; xs \<leftarrow> load_each rd vs; Some (x # xs) }"

lemma load_each_map:
  "(\<And>x. x \<in> set xs \<Longrightarrow> rd (f x) = Some (g x)) \<Longrightarrow> load_each rd (map f xs) = Some (map g xs)"
  by (induction xs) auto

lemma prints_elements_map:
  "(\<And>x. x \<in> set xs \<Longrightarrow> prints (wr x) (f x)) \<Longrightarrow> prints_elements (concat (map wr xs)) (map f xs)"
  by (induction xs) (auto intro: elements_Nil elements_Cons)

text \<open>An object that has the given members, and possibly others.\<close>

definition has_members :: "(string \<times> JSONValue) list \<Rightarrow> (string \<times> JSONValue) list \<Rightarrow> bool" where
  "has_members ms xs \<longleftrightarrow> (\<forall>(n, v) \<in> set xs. map_of ms n = Some v)"

lemma has_members_simps [simp]:
  "has_members ms []"
  "has_members ms ((n, v) # xs) \<longleftrightarrow> map_of ms n = Some v \<and> has_members ms xs"
  "has_members ms (xs @ ys) \<longleftrightarrow> has_members ms xs \<and> has_members ms ys"
  by (auto simp: has_members_def)

lemma has_members_self: "distinct (map fst xs) \<Longrightarrow> has_members xs xs"
  by (auto simp: has_members_def)

locale json_members =
  fixes laws :: "'c \<Rightarrow> bool"
    and wf :: "'c \<Rightarrow> 'a \<Rightarrow> bool"
    and put :: "'c \<Rightarrow> 'a \<Rightarrow> json_event list"
    and load :: "'c \<Rightarrow> JSONValue \<Rightarrow> 'a option"
    and members :: "'c \<Rightarrow> 'a \<Rightarrow> (string \<times> JSONValue) list"
  assumes put_members: "laws J \<Longrightarrow> prints_members (put J x) (members J x)"
    and load_members:
      "laws J \<Longrightarrow> wf J x \<Longrightarrow> has_members ms (members J x) \<Longrightarrow> load J (JObject ms) = Some x"
begin

text \<open>The members between \<open>StartObject\<close> and \<open>EndObject\<close> are an object.\<close>

lemma put_object: "laws J \<Longrightarrow> prints (StartObject # put J x @ [EndObject]) (JObject (members J x))"
  by (rule prints_object) (rule put_members)

lemma load_object:
  "laws J \<Longrightarrow> wf J x \<Longrightarrow> distinct (map fst (members J x)) \<Longrightarrow> load J (JObject (members J x)) = Some x"
  by (rule load_members) (simp_all add: has_members_self)

end

locale json_format =
  fixes laws :: "'c \<Rightarrow> bool"
    and parse :: "'c \<Rightarrow> json_event list \<Rightarrow> JSONValue option"
    and wf :: "'c \<Rightarrow> 'a \<Rightarrow> bool"
    and put :: "'c \<Rightarrow> 'a \<Rightarrow> json_event list"
    and load :: "'c \<Rightarrow> JSONValue \<Rightarrow> 'a option"
    and shape :: "'c \<Rightarrow> 'a \<Rightarrow> JSONValue"
  assumes parse_law: "laws J \<Longrightarrow> prints es v \<Longrightarrow> parse J es = Some v"
    and put_shape: "laws J \<Longrightarrow> prints (put J x) (shape J x)"
    and load_shape: "laws J \<Longrightarrow> wf J x \<Longrightarrow> load J (shape J x) = Some x"
begin

lemma round_trip: "laws J \<Longrightarrow> wf J x \<Longrightarrow> Option.bind (parse J (put J x)) (load J) = Some x"
  using parse_law [OF _ put_shape] load_shape by simp

lemma put_each: "laws J \<Longrightarrow> prints_elements (concat (map (put J) xs)) (map (shape J) xs)"
  by (rule prints_elements_map) (rule put_shape)

lemma put_array:
  "laws J \<Longrightarrow> prints (StartArray # concat (map (put J) xs) @ [EndArray]) (JArray (map (shape J) xs))"
  by (rule prints_array) (rule put_each)

lemma load_array: "laws J \<Longrightarrow> \<forall>x \<in> set xs. wf J x \<Longrightarrow> load_each (load J) (map (shape J) xs) = Some xs"
  using load_each_map [of xs "load J" "shape J" "\<lambda>x. x"] load_shape by simp

text \<open>Structures that print the same text are the same.\<close>

lemma injective: "laws J \<Longrightarrow> wf J x \<Longrightarrow> wf J y \<Longrightarrow> put J x = put J y \<Longrightarrow> x = y"
  using round_trip [of J x] round_trip [of J y] by (metis option.inject)

end

end
