(* ===== verification/Reference_Json.thy ===== *)
theory Reference_Json
  imports Json Reference_Codec
begin

text \<open>
  A JSON library with every operation given by a definition that computes, and the proof
  that it has the properties \<open>json_laws\<close> and \<open>json_proof_laws\<close> which the theorems on the
  JSON forms suppose. The parser keeps a stack of the arrays and objects that are open.
\<close>

section \<open>A parser of the writer's calls\<close>

datatype json_frame =
    TopFrame "JSONValue option"
  | ArrayFrame "JSONValue list"
  | ObjectFrame "(string \<times> JSONValue) list" "string option"

text \<open>A complete value goes to the frame that waits for it.\<close>

fun ref_push :: "JSONValue \<Rightarrow> json_frame list \<Rightarrow> json_frame list" where
  "ref_push v (TopFrame None # st) = TopFrame (Some v) # st"
| "ref_push v (ArrayFrame vs # st) = ArrayFrame (vs @ [v]) # st"
| "ref_push v (ObjectFrame ms (Some n) # st) = ObjectFrame (ms @ [(n, v)]) None # st"
| "ref_push v _ = []"

fun ref_feed :: "json_frame list \<Rightarrow> json_event \<Rightarrow> json_frame list" where
  "ref_feed st StartObject = ObjectFrame [] None # st"
| "ref_feed st StartArray = ArrayFrame [] # st"
| "ref_feed (ObjectFrame ms None # st) EndObject = ref_push (JObject ms) st"
| "ref_feed (ArrayFrame vs # st) EndArray = ref_push (JArray vs) st"
| "ref_feed (ObjectFrame ms None # st) (Key n) = ObjectFrame ms (Some n) # st"
| "ref_feed st (Key s) = ref_push (JString s) st"
| "ref_feed st (String s) = ref_push (JString s) st"
| "ref_feed st (Uint n) = ref_push (JNumber (uint n)) st"
| "ref_feed st (Uint64 n) = ref_push (JNumber (uint n)) st"
| "ref_feed st (Int64 n) = ref_push (JNumber (sint n)) st"
| "ref_feed st _ = []"

definition ref_json_parse :: "json_event list \<Rightarrow> JSONValue option" where
  "ref_json_parse es =
     (case foldl ref_feed [TopFrame None] es of [TopFrame v] \<Rightarrow> v | _ \<Rightarrow> None)"

text \<open>The frames that wait for a value.\<close>

fun ref_ready :: "json_frame list \<Rightarrow> bool" where
  "ref_ready (TopFrame None # st) = True"
| "ref_ready (ArrayFrame vs # st) = True"
| "ref_ready (ObjectFrame ms (Some n) # st) = True"
| "ref_ready _ = False"

lemma ref_feed_Key: "ref_ready st \<Longrightarrow> ref_feed st (Key s) = ref_push (JString s) st"
  by (cases st rule: ref_ready.cases) simp_all

lemma ref_feed_prints:
  "prints es v \<Longrightarrow> ref_ready st \<Longrightarrow> foldl ref_feed st es = ref_push v st"
  "prints_elements fs vs \<Longrightarrow>
     foldl ref_feed (ArrayFrame us # st) fs = ArrayFrame (us @ vs) # st"
  "prints_members gs ms \<Longrightarrow>
     foldl ref_feed (ObjectFrame ns None # st) gs = ObjectFrame (ns @ ms) None # st"
proof (induction arbitrary: st and st us and st ns rule: prints_prints_elements_prints_members.inducts)
  case (prints_Key s)
  then show ?case by (simp add: ref_feed_Key)
qed simp_all

lemma ref_json_parse_prints: "prints es v \<Longrightarrow> ref_json_parse es = Some v"
  by (simp add: ref_json_parse_def ref_feed_prints(1))

section \<open>Hexadecimal strings\<close>

definition ref_digits :: string where
  "ref_digits = ''0123456789abcdef''"

fun ref_undigit :: "nat \<Rightarrow> string \<Rightarrow> char \<Rightarrow> nat option" where
  "ref_undigit i [] c = None"
| "ref_undigit i (d # ds) c = (if c = d then Some i else ref_undigit (Suc i) ds c)"

definition ref_to_hex :: "bytes \<Rightarrow> string" where
  "ref_to_hex bs =
     concat (map (\<lambda>b. [ref_digits ! (unat b div 16), ref_digits ! (unat b mod 16)]) bs)"

fun ref_from_hex :: "string \<Rightarrow> bytes option" where
  "ref_from_hex [] = Some []"
| "ref_from_hex (c # d # cs) =
     do { i \<leftarrow> ref_undigit 0 ref_digits c; j \<leftarrow> ref_undigit 0 ref_digits d;
          bs \<leftarrow> ref_from_hex cs; Some (word_of_nat (16 * i + j) # bs) }"
| "ref_from_hex [c] = None"

lemma ref_undigit_digit: "i < 16 \<Longrightarrow> ref_undigit 0 ref_digits (ref_digits ! i) = Some i"
proof -
  assume "i < 16"
  then have "i \<in> set [0..<16]" by simp
  moreover have "\<forall>i \<in> set [0..<16]. ref_undigit 0 ref_digits (ref_digits ! i) = Some i"
    by (simp add: ref_digits_def upt_rec)
  ultimately show ?thesis by blast
qed

lemma ref_hex_back: "ref_from_hex (ref_to_hex bs) = Some bs"
proof (induction bs)
  case (Cons b bs)
  have "unat b < 256" using unsigned_less [of b, where 'a = nat] by simp
  then have "ref_undigit 0 ref_digits (ref_digits ! (unat b div 16)) = Some (unat b div 16)"
    "ref_undigit 0 ref_digits (ref_digits ! (unat b mod 16)) = Some (unat b mod 16)"
    by (simp_all add: ref_undigit_digit less_mult_imp_div_less)
  moreover have "word_of_nat (16 * (unat b div 16) + unat b mod 16) = b" by (simp only: mult_div_mod_eq) simp
  ultimately show ?case using Cons by (simp add: ref_to_hex_def del: of_nat_add of_nat_mult)
qed (simp add: ref_to_hex_def)

section \<open>The library\<close>

definition ref_key_of_string :: "string \<Rightarrow> 256 word option" where
  "ref_key_of_string s = do { bs \<leftarrow> ref_from_hex s; map_option fst (ref_r_key bs) }"

definition ref_sig_of_string :: "string \<Rightarrow> 512 word option" where
  "ref_sig_of_string s = do { bs \<leftarrow> ref_from_hex s; map_option fst (ref_r_signature bs) }"

definition ref_key_string :: "256 word \<Rightarrow> string" where
  "ref_key_string k = ref_to_hex (ref_w_key k)"

definition ref_sig_string :: "512 word \<Rightarrow> string" where
  "ref_sig_string s = ref_to_hex (ref_w_signature s)"

fun ref_member :: "JSONValue \<Rightarrow> string \<Rightarrow> JSONValue option" where
  "ref_member (JObject ms) n = map_of ms n"
| "ref_member v n = None"

fun ref_number :: "JSONValue \<Rightarrow> int option" where
  "ref_number (JNumber i) = Some i"
| "ref_number v = None"

fun ref_string :: "JSONValue \<Rightarrow> string option" where
  "ref_string (JString s) = Some s"
| "ref_string v = None"

fun ref_array :: "JSONValue \<Rightarrow> JSONValue list option" where
  "ref_array (JArray vs) = Some vs"
| "ref_array v = None"

definition ref_load_key :: "JSONValue \<Rightarrow> 256 word option" where
  "ref_load_key v = do { s \<leftarrow> ref_string v; ref_key_of_string s }"

definition ref_load_sig :: "JSONValue \<Rightarrow> 512 word option" where
  "ref_load_sig v = do { s \<leftarrow> ref_string v; ref_sig_of_string s }"

definition ref_load_keys :: "JSONValue \<Rightarrow> 256 word list option" where
  "ref_load_keys v = do { vs \<leftarrow> ref_array v; load_each ref_load_key vs }"

definition ref_keys_events :: "256 word list \<Rightarrow> json_event list" where
  "ref_keys_events ks = StartArray # concat (map (\<lambda>k. [String (ref_key_string k)]) ks) @ [EndArray]"

definition reference_json :: "(256 word, 256 word) json_proofs" where
  "reference_json =
     \<lparr>json_parse = ref_json_parse,
      object_or_throw = (\<lambda>v. case v of JObject _ \<Rightarrow> Some () | _ \<Rightarrow> None),
      member_or_throw = (\<lambda>v n. if ref_member v n = None then None else Some ()),
      has_member = (\<lambda>v n. ref_member v n \<noteq> None),
      get_json_value = ref_member,
      get_json_array = (\<lambda>v n. Option.bind (ref_member v n) ref_array),
      get_json_string = ref_string,
      get_json_string_member = (\<lambda>v n. Option.bind (ref_member v n) ref_string),
      get_json_uint64_t = (\<lambda>v n. map_option word_of_int (Option.bind (ref_member v n) ref_number)),
      get_json_uint32_t = (\<lambda>v n. map_option word_of_int (Option.bind (ref_member v n) ref_number)),
      to_hex = ref_to_hex, from_hex = ref_from_hex,
      key_to_string = ref_key_string, key_of_string = ref_key_of_string,
      sig_to_string = ref_sig_string, sig_of_string = ref_sig_of_string,
      key_toJSON = (\<lambda>k. [String (ref_key_string k)]), sig_toJSON = (\<lambda>s. [String (ref_sig_string s)]),
      U64_TO_JSON = (\<lambda>n x. [Key n, Uint64 x]), U32_TO_JSON = (\<lambda>n x. [Key n, Uint x]),
      KEY_TO_JSON = (\<lambda>n k. [Key n, String (ref_key_string k)]),
      SIG_TO_JSON = (\<lambda>n s. [Key n, String (ref_sig_string s)]),
      KEYV_TO_JSON = (\<lambda>n ks. Key n # ref_keys_events ks),
      LOAD_U64_FROM_JSON = (\<lambda>v n. map_option word_of_int (Option.bind (ref_member v n) ref_number)),
      LOAD_U32_FROM_JSON = (\<lambda>v n. map_option word_of_int (Option.bind (ref_member v n) ref_number)),
      LOAD_KEY_FROM_JSON = (\<lambda>v n. Option.bind (ref_member v n) ref_load_key),
      LOAD_SIG_FROM_JSON = (\<lambda>v n. Option.bind (ref_member v n) ref_load_sig),
      LOAD_KEYV_FROM_JSON = (\<lambda>v n. Option.bind (ref_member v n) ref_load_keys),
      clsag_value = (\<lambda>k. JString (ref_key_string k)),
      CLSAGV_TO_JSON = (\<lambda>n ks. Key n # ref_keys_events ks),
      LOAD_CLSAGV_FROM_JSON = (\<lambda>v n. Option.bind (ref_member v n) ref_load_keys),
      range_proof_value = (\<lambda>k. JString (ref_key_string k)),
      range_proof_toJSON = (\<lambda>k. [String (ref_key_string k)]),
      range_proof_fromJSON = (\<lambda>v n. Option.bind (ref_member v n) ref_load_key)\<rparr>"

lemma ref_key_string_back: "ref_key_of_string (ref_key_string k) = Some k"
  using ref_key_back [of k "[]"] by (simp add: ref_key_of_string_def ref_key_string_def ref_hex_back)

lemma ref_sig_string_back: "ref_sig_of_string (ref_sig_string s) = Some s"
  using ref_signature_back [of s "[]"]
  by (simp add: ref_sig_of_string_def ref_sig_string_def ref_hex_back)

lemma ref_load_back:
  "ref_load_key (JString (ref_key_string k)) = Some k"
  "ref_load_sig (JString (ref_sig_string s)) = Some s"
  by (simp_all add: ref_load_key_def ref_load_sig_def ref_key_string_back ref_sig_string_back)

lemma ref_load_keys_back: "ref_load_keys (JArray (map (\<lambda>k. JString (ref_key_string k)) ks)) = Some ks"
  using load_each_map [of ks ref_load_key "\<lambda>k. JString (ref_key_string k)" "\<lambda>k. k"]
  by (simp add: ref_load_keys_def ref_load_back)

lemma ref_keys_print: "prints (ref_keys_events ks) (JArray (map (\<lambda>k. JString (ref_key_string k)) ks))"
  unfolding ref_keys_events_def by (rule prints_array, rule prints_elements_map) (rule prints_String)

lemma reference_values:
  "key_value reference_json k = JString (ref_key_string k)"
  "sig_value reference_json s = JString (ref_sig_string s)"
  "keys_value reference_json ks = JArray (map (\<lambda>k. JString (ref_key_string k)) ks)"
  by (simp_all add: key_value_def sig_value_def keys_value_def reference_json_def cong: map_cong)

lemma reference_json_laws: "json_laws reference_json"
proof -
  have "json_print_laws reference_json" unfolding json_print_laws_def reference_values
    by (auto simp: reference_json_def
        intro: ref_json_parse_prints ref_keys_print prints_member prints_intros)
  moreover have "json_read_laws reference_json" unfolding json_read_laws_def
    by (simp add: reference_json_def ref_hex_back ref_key_string_back ref_sig_string_back)
  moreover have "json_load_laws reference_json" unfolding json_load_laws_def reference_values
    by (simp add: reference_json_def ref_load_back ref_load_keys_back)
  ultimately show ?thesis by (simp add: json_laws_def)
qed

lemma reference_json_proof_laws: "json_proof_laws reference_json"
  unfolding json_proof_laws_def using reference_json_laws
  by (auto simp: reference_json_def ref_load_back ref_load_keys_back
      intro: ref_keys_print prints_member prints_intros)

end
