(* ===== verification/Json_Types.thy ===== *)
theory Json_Types
  imports Json Blocks Staking_Types
begin

text \<open>
  The JSON forms of the structures of the chain: the parts of \<open>base_types.h\<close> in the order
  of the file, the user and system transactions, the block and the staking records. An
  \<open>_toJSON\<close> definition is the sequence of the writer's calls, an \<open>_fromJSON\<close> definition reads
  a document; \<open>_members\<close> and \<open>_value\<close> say what the document looks like. Every structure
  interprets \<open>json_members\<close> or \<open>json_format\<close>.
\<close>

section \<open>Header, prefix and outputs\<close>

abbreviation u64_value :: "u64 \<Rightarrow> JSONValue" where
  "u64_value x \<equiv> JNumber (uint x)"

definition header_toJSON :: "'z json_scheme \<Rightarrow> 'h TransactionHeader_scheme \<Rightarrow> json_event list" where
  "header_toJSON J h = (Key ''type'' # [Uint64 (l_type h)]) @ U64_TO_JSON J ''version'' (version h)"

definition header_fromJSON :: "'z json_scheme \<Rightarrow> JSONValue \<Rightarrow> TransactionHeader option" where
  "header_fromJSON J j =
     do { object_or_throw J j;
          member_or_throw J j ''type'';
          t \<leftarrow> get_json_uint64_t J j ''type'';
          v \<leftarrow> LOAD_U64_FROM_JSON J j ''version'';
          Some \<lparr>l_type = t, version = v\<rparr> }"

definition header_members ::
  "'z json_scheme \<Rightarrow> 'h TransactionHeader_scheme \<Rightarrow> (string \<times> JSONValue) list" where
  "header_members J h = [(''type'', u64_value (l_type h)), (''version'', u64_value (version h))]"

lemmas json_put = prints_cat prints_member prints_intros json_prints

lemma header_prints: "json_laws J \<Longrightarrow> prints_members (header_toJSON J h) (header_members J h)"
  unfolding header_toJSON_def header_members_def by (rule json_put | assumption | simp)+

lemma header_loads:
  "json_laws J \<Longrightarrow> has_members ms (header_members J h) \<Longrightarrow>
   header_fromJSON J (JObject ms) = Some \<lparr>l_type = l_type h, version = version h\<rparr>"
  by (simp add: header_fromJSON_def header_members_def json)

interpretation header_json: json_members json_laws "\<lambda>_ _. True" header_toJSON header_fromJSON header_members
  by unfold_locales (simp_all add: header_prints header_loads)

definition prefix_toJSON :: "'z json_scheme \<Rightarrow> 'p TransactionPrefix_scheme \<Rightarrow> json_event list" where
  "prefix_toJSON J p =
     header_toJSON J p @ U64_TO_JSON J ''unlock_block'' (unlock_block p) @
     KEY_TO_JSON J ''public_key'' (public_key p)"

definition prefix_fromJSON :: "'z json_scheme \<Rightarrow> JSONValue \<Rightarrow> TransactionPrefix option" where
  "prefix_fromJSON J j =
     do { object_or_throw J j;
          h \<leftarrow> header_fromJSON J j;
          u \<leftarrow> LOAD_U64_FROM_JSON J j ''unlock_block'';
          k \<leftarrow> LOAD_KEY_FROM_JSON J j ''public_key'';
          Some \<lparr>l_type = l_type h, version = version h, unlock_block = u, public_key = k\<rparr> }"

definition prefix_members ::
  "'z json_scheme \<Rightarrow> 'p TransactionPrefix_scheme \<Rightarrow> (string \<times> JSONValue) list" where
  "prefix_members J p =
     header_members J p @
     [(''unlock_block'', u64_value (unlock_block p)), (''public_key'', key_value J (public_key p))]"

lemma prefix_prints: "json_laws J \<Longrightarrow> prints_members (prefix_toJSON J p) (prefix_members J p)"
  unfolding prefix_toJSON_def prefix_members_def by (rule json_put header_prints | assumption | simp)+

interpretation prefix_json: json_members json_laws "\<lambda>_ _. True" prefix_toJSON prefix_fromJSON prefix_members
  by (unfold_locales, erule prefix_prints)
    (simp add: prefix_fromJSON_def prefix_members_def header_fromJSON_def header_members_def json)

definition StakerOutput_toJSON :: "'z json_scheme \<Rightarrow> StakerOutput \<Rightarrow> json_event list" where
  "StakerOutput_toJSON J x =
     StartObject #
       (KEY_TO_JSON J ''staker_id'' (staker_id x) @ U64_TO_JSON J ''amount'' (staker_amount x)) @
     [EndObject]"

definition StakerOutput_fromJSON :: "'z json_scheme \<Rightarrow> JSONValue \<Rightarrow> StakerOutput option" where
  "StakerOutput_fromJSON J j =
     do { object_or_throw J j;
          i \<leftarrow> LOAD_KEY_FROM_JSON J j ''staker_id'';
          a \<leftarrow> LOAD_U64_FROM_JSON J j ''amount'';
          Some \<lparr>staker_id = i, staker_amount = a\<rparr> }"

definition StakerOutput_value :: "'z json_scheme \<Rightarrow> StakerOutput \<Rightarrow> JSONValue" where
  "StakerOutput_value J x =
     JObject [(''staker_id'', key_value J (staker_id x)), (''amount'', u64_value (staker_amount x))]"

interpretation staker_output_json: json_format json_laws json_parse "\<lambda>_ _. True"
  StakerOutput_toJSON StakerOutput_fromJSON StakerOutput_value
proof unfold_locales
  show "json_laws J \<Longrightarrow> prints (StakerOutput_toJSON J x) (StakerOutput_value J x)"
    for J :: "'z json_scheme" and x
    unfolding StakerOutput_toJSON_def StakerOutput_value_def by (rule json_put | assumption | simp)+
qed (simp_all add: StakerOutput_fromJSON_def StakerOutput_value_def json)

definition TransactionOutput_toJSON :: "'z json_scheme \<Rightarrow> TransactionOutput \<Rightarrow> json_event list" where
  "TransactionOutput_toJSON J x =
     StartObject #
       (KEY_TO_JSON J ''public_ephemeral'' (public_ephemeral x) @
        U64_TO_JSON J ''amount'' (output_amount x) @
        KEY_TO_JSON J ''commitment'' (commitment x)) @
     [EndObject]"

definition TransactionOutput_fromJSON :: "'z json_scheme \<Rightarrow> JSONValue \<Rightarrow> TransactionOutput option" where
  "TransactionOutput_fromJSON J j =
     do { object_or_throw J j;
          p \<leftarrow> LOAD_KEY_FROM_JSON J j ''public_ephemeral'';
          a \<leftarrow> LOAD_U64_FROM_JSON J j ''amount'';
          c \<leftarrow> LOAD_KEY_FROM_JSON J j ''commitment'';
          Some \<lparr>public_ephemeral = p, output_amount = a, commitment = c\<rparr> }"

definition TransactionOutput_value :: "'z json_scheme \<Rightarrow> TransactionOutput \<Rightarrow> JSONValue" where
  "TransactionOutput_value J x =
     JObject [(''public_ephemeral'', key_value J (public_ephemeral x)),
              (''amount'', u64_value (output_amount x)), (''commitment'', key_value J (commitment x))]"

interpretation output_json: json_format json_laws json_parse "\<lambda>_ _. True"
  TransactionOutput_toJSON TransactionOutput_fromJSON TransactionOutput_value
proof unfold_locales
  show "json_laws J \<Longrightarrow> prints (TransactionOutput_toJSON J x) (TransactionOutput_value J x)"
    for J :: "'z json_scheme" and x
    unfolding TransactionOutput_toJSON_def TransactionOutput_value_def by (rule json_put | assumption | simp)+
qed (simp_all add: TransactionOutput_fromJSON_def TransactionOutput_value_def json)

text \<open>The array of outputs that several structures write, and the loop that reads it.\<close>

definition outputs_toJSON :: "'z json_scheme \<Rightarrow> TransactionOutput list \<Rightarrow> json_event list" where
  "outputs_toJSON J os = StartArray # concat (map (TransactionOutput_toJSON J) os) @ [EndArray]"

definition outputs_fromJSON :: "'z json_scheme \<Rightarrow> JSONValue \<Rightarrow> TransactionOutput list option" where
  "outputs_fromJSON J j =
     do { member_or_throw J j ''outputs'';
          elems \<leftarrow> get_json_array J j ''outputs'';
          load_each (TransactionOutput_fromJSON J) elems }"

abbreviation outputs_value :: "'z json_scheme \<Rightarrow> TransactionOutput list \<Rightarrow> JSONValue" where
  "outputs_value J os \<equiv> JArray (map (TransactionOutput_value J) os)"

lemma outputs_print: "json_laws J \<Longrightarrow> prints (outputs_toJSON J os) (outputs_value J os)"
  unfolding outputs_toJSON_def by (rule output_json.put_array)

lemma outputs_load [json]:
  "json_laws J \<Longrightarrow> map_of ms ''outputs'' = Some (outputs_value J os) \<Longrightarrow>
   outputs_fromJSON J (JObject ms) = Some os"
  by (simp add: outputs_fromJSON_def json output_json.load_array)

section \<open>The parts of a user transaction\<close>

definition body_toJSON :: "'z json_scheme \<Rightarrow> TransactionUserBody \<Rightarrow> json_event list" where
  "body_toJSON J b =
     U64_TO_JSON J ''nonce'' (nonce b) @ U64_TO_JSON J ''fee'' (fee b) @
     KEYV_TO_JSON J ''key_images'' (key_images b) @ (Key ''outputs'' # outputs_toJSON J (outputs b))"

definition body_fromJSON :: "'z json_scheme \<Rightarrow> JSONValue \<Rightarrow> TransactionUserBody option" where
  "body_fromJSON J j =
     do { object_or_throw J j;
          n \<leftarrow> LOAD_U64_FROM_JSON J j ''nonce'';
          f \<leftarrow> LOAD_U64_FROM_JSON J j ''fee'';
          ks \<leftarrow> LOAD_KEYV_FROM_JSON J j ''key_images'';
          os \<leftarrow> outputs_fromJSON J j;
          Some \<lparr>nonce = n, fee = f, key_images = ks, outputs = os\<rparr> }"

definition body_members :: "'z json_scheme \<Rightarrow> TransactionUserBody \<Rightarrow> (string \<times> JSONValue) list" where
  "body_members J b =
     [(''nonce'', u64_value (nonce b)), (''fee'', u64_value (fee b)),
      (''key_images'', keys_value J (key_images b)), (''outputs'', outputs_value J (outputs b))]"

lemma body_prints: "json_laws J \<Longrightarrow> prints_members (body_toJSON J b) (body_members J b)"
  unfolding body_toJSON_def body_members_def by (rule json_put outputs_print | assumption | simp)+

interpretation body_json: json_members json_laws "\<lambda>_ _. True" body_toJSON body_fromJSON body_members
  by (unfold_locales, erule body_prints) (simp add: body_fromJSON_def body_members_def json)

definition uncommitted_suffix_toJSON ::
  "('s, 'r, 'z) json_proofs_scheme \<Rightarrow> ('s, 'r) UncommittedTransactionSuffix \<Rightarrow> json_event list" where
  "uncommitted_suffix_toJSON J x =
     KEYV_TO_JSON J ''pseudo_commitments'' (pseudo_commitments x) @
     KEYV_TO_JSON J ''ring_participants'' (ring_participants x) @
     CLSAGV_TO_JSON J ''signatures'' (signatures x) @
     (Key ''range_proof'' # range_proof_toJSON J (range_proof x))"

definition uncommitted_suffix_fromJSON ::
  "('s, 'r, 'z) json_proofs_scheme \<Rightarrow> JSONValue \<Rightarrow> ('s, 'r) UncommittedTransactionSuffix option" where
  "uncommitted_suffix_fromJSON J j =
     do { object_or_throw J j;
          ps \<leftarrow> LOAD_KEYV_FROM_JSON J j ''pseudo_commitments'';
          rs \<leftarrow> LOAD_KEYV_FROM_JSON J j ''ring_participants'';
          ss \<leftarrow> LOAD_CLSAGV_FROM_JSON J j ''signatures'';
          member_or_throw J j ''range_proof'';
          rp \<leftarrow> range_proof_fromJSON J j ''range_proof'';
          Some \<lparr>pseudo_commitments = ps, ring_participants = rs, signatures = ss, range_proof = rp\<rparr> }"

definition uncommitted_suffix_members ::
  "('s, 'r, 'z) json_proofs_scheme \<Rightarrow> ('s, 'r) UncommittedTransactionSuffix \<Rightarrow> (string \<times> JSONValue) list"
where
  "uncommitted_suffix_members J x =
     [(''pseudo_commitments'', keys_value J (pseudo_commitments x)),
      (''ring_participants'', keys_value J (ring_participants x)),
      (''signatures'', JArray (map (clsag_value J) (signatures x))),
      (''range_proof'', range_proof_value J (range_proof x))]"

lemma uncommitted_suffix_prints:
  "json_proof_laws J \<Longrightarrow> prints_members (uncommitted_suffix_toJSON J x) (uncommitted_suffix_members J x)"
  unfolding uncommitted_suffix_toJSON_def uncommitted_suffix_members_def
  by (rule json_put json_proof_lawsD(2,4) | erule json_proof_lawsD(1) | assumption | simp)+

interpretation uncommitted_suffix_json: json_members json_proof_laws "\<lambda>_ _. True"
  uncommitted_suffix_toJSON uncommitted_suffix_fromJSON uncommitted_suffix_members
  by (unfold_locales, erule uncommitted_suffix_prints)
    (simp add: uncommitted_suffix_fromJSON_def uncommitted_suffix_members_def json)

definition committed_suffix_toJSON ::
  "'z json_scheme \<Rightarrow> CommittedTransactionSuffix \<Rightarrow> json_event list" where
  "committed_suffix_toJSON J x =
     KEY_TO_JSON J ''signature_hash'' (signature_hash x) @
     KEY_TO_JSON J ''range_proof_hash'' (range_proof_hash x)"

definition committed_suffix_fromJSON ::
  "'z json_scheme \<Rightarrow> JSONValue \<Rightarrow> CommittedTransactionSuffix option" where
  "committed_suffix_fromJSON J j =
     do { object_or_throw J j;
          s \<leftarrow> LOAD_KEY_FROM_JSON J j ''signature_hash'';
          r \<leftarrow> LOAD_KEY_FROM_JSON J j ''range_proof_hash'';
          Some \<lparr>signature_hash = s, range_proof_hash = r\<rparr> }"

definition committed_suffix_members ::
  "'z json_scheme \<Rightarrow> CommittedTransactionSuffix \<Rightarrow> (string \<times> JSONValue) list" where
  "committed_suffix_members J x =
     [(''signature_hash'', key_value J (signature_hash x)),
      (''range_proof_hash'', key_value J (range_proof_hash x))]"

lemma committed_suffix_prints:
  "json_laws J \<Longrightarrow> prints_members (committed_suffix_toJSON J x) (committed_suffix_members J x)"
  unfolding committed_suffix_toJSON_def committed_suffix_members_def
  by (rule json_put | assumption | simp)+

interpretation committed_suffix_json: json_members json_laws "\<lambda>_ _. True"
  committed_suffix_toJSON committed_suffix_fromJSON committed_suffix_members
  by (unfold_locales, erule committed_suffix_prints)
    (simp add: committed_suffix_fromJSON_def committed_suffix_members_def json)

text \<open>\<open>data_toJSON\<close> of a normal transaction writes the hexadecimal data with \<open>writer.Key\<close>.\<close>

definition normal_data_toJSON :: "'z json_scheme \<Rightarrow> NormalTransactionData \<Rightarrow> json_event list" where
  "normal_data_toJSON J d = Key ''extra'' # [Key (to_hex J (extra d))]"

definition normal_data_fromJSON :: "'z json_scheme \<Rightarrow> JSONValue \<Rightarrow> NormalTransactionData option" where
  "normal_data_fromJSON J j =
     do { object_or_throw J j;
          member_or_throw J j ''extra'';
          data \<leftarrow> get_json_string_member J j ''extra'';
          e \<leftarrow> from_hex J data;
          Some \<lparr>extra = e\<rparr> }"

definition normal_data_members ::
  "'z json_scheme \<Rightarrow> NormalTransactionData \<Rightarrow> (string \<times> JSONValue) list" where
  "normal_data_members J d = [(''extra'', JString (to_hex J (extra d)))]"

interpretation normal_data_json: json_members json_laws "\<lambda>_ _. True"
  normal_data_toJSON normal_data_fromJSON normal_data_members
proof unfold_locales
  show "prints_members (normal_data_toJSON J x) (normal_data_members J x)" for J :: "'z json_scheme" and x
    unfolding normal_data_toJSON_def normal_data_members_def by (rule prints_member) (rule prints_Key)
qed (simp add: normal_data_fromJSON_def normal_data_members_def json)

definition stake_data_toJSON :: "'z json_scheme \<Rightarrow> StakeTransactionData \<Rightarrow> json_event list" where
  "stake_data_toJSON J d =
     U64_TO_JSON J ''stake_amount'' (stake_amount d) @
     KEY_TO_JSON J ''candidate_public_key'' (stake_candidate_public_key d) @
     KEY_TO_JSON J ''staker_public_view_key'' (staker_public_view_key d) @
     KEY_TO_JSON J ''staker_public_spend_key'' (staker_public_spend_key d)"

definition stake_data_fromJSON :: "'z json_scheme \<Rightarrow> JSONValue \<Rightarrow> StakeTransactionData option" where
  "stake_data_fromJSON J j =
     do { object_or_throw J j;
          a \<leftarrow> LOAD_U64_FROM_JSON J j ''stake_amount'';
          c \<leftarrow> LOAD_KEY_FROM_JSON J j ''candidate_public_key'';
          v \<leftarrow> LOAD_KEY_FROM_JSON J j ''staker_public_view_key'';
          s \<leftarrow> LOAD_KEY_FROM_JSON J j ''staker_public_spend_key'';
          Some \<lparr>stake_amount = a, stake_candidate_public_key = c, staker_public_view_key = v,
                staker_public_spend_key = s\<rparr> }"

definition stake_data_members ::
  "'z json_scheme \<Rightarrow> StakeTransactionData \<Rightarrow> (string \<times> JSONValue) list" where
  "stake_data_members J d =
     [(''stake_amount'', u64_value (stake_amount d)),
      (''candidate_public_key'', key_value J (stake_candidate_public_key d)),
      (''staker_public_view_key'', key_value J (staker_public_view_key d)),
      (''staker_public_spend_key'', key_value J (staker_public_spend_key d))]"

lemma stake_data_prints:
  "json_laws J \<Longrightarrow> prints_members (stake_data_toJSON J d) (stake_data_members J d)"
  unfolding stake_data_toJSON_def stake_data_members_def by (rule json_put | assumption | simp)+

interpretation stake_data_json: json_members json_laws "\<lambda>_ _. True"
  stake_data_toJSON stake_data_fromJSON stake_data_members
  by (unfold_locales, erule stake_data_prints)
    (simp add: stake_data_fromJSON_def stake_data_members_def json)

definition recall_data_toJSON :: "'z json_scheme \<Rightarrow> RecallStakeTransactionData \<Rightarrow> json_event list" where
  "recall_data_toJSON J d =
     U64_TO_JSON J ''stake_amount'' (recall_amount d) @
     KEY_TO_JSON J ''candidate_public_key'' (recall_candidate_public_key d) @
     KEY_TO_JSON J ''staker_id'' (recall_staker_id d) @
     SIG_TO_JSON J ''view_signature'' (view_signature d) @
     SIG_TO_JSON J ''spend_signature'' (spend_signature d)"

definition recall_data_fromJSON ::
  "'z json_scheme \<Rightarrow> JSONValue \<Rightarrow> RecallStakeTransactionData option" where
  "recall_data_fromJSON J j =
     do { object_or_throw J j;
          a \<leftarrow> LOAD_U64_FROM_JSON J j ''stake_amount'';
          c \<leftarrow> LOAD_KEY_FROM_JSON J j ''candidate_public_key'';
          i \<leftarrow> LOAD_KEY_FROM_JSON J j ''staker_id'';
          v \<leftarrow> LOAD_SIG_FROM_JSON J j ''view_signature'';
          s \<leftarrow> LOAD_SIG_FROM_JSON J j ''spend_signature'';
          Some \<lparr>recall_amount = a, recall_candidate_public_key = c, recall_staker_id = i,
                view_signature = v, spend_signature = s\<rparr> }"

definition recall_data_members ::
  "'z json_scheme \<Rightarrow> RecallStakeTransactionData \<Rightarrow> (string \<times> JSONValue) list" where
  "recall_data_members J d =
     [(''stake_amount'', u64_value (recall_amount d)),
      (''candidate_public_key'', key_value J (recall_candidate_public_key d)),
      (''staker_id'', key_value J (recall_staker_id d)),
      (''view_signature'', sig_value J (view_signature d)),
      (''spend_signature'', sig_value J (spend_signature d))]"

lemma recall_data_prints:
  "json_laws J \<Longrightarrow> prints_members (recall_data_toJSON J d) (recall_data_members J d)"
  unfolding recall_data_toJSON_def recall_data_members_def by (rule json_put | assumption | simp)+

interpretation recall_data_json: json_members json_laws "\<lambda>_ _. True"
  recall_data_toJSON recall_data_fromJSON recall_data_members
  by (unfold_locales, erule recall_data_prints)
    (simp add: recall_data_fromJSON_def recall_data_members_def json)

end
