(* ===== verification/Json_Transactions.thy ===== *)
theory Json_Transactions
  imports Json_Types
begin

text \<open>
  The JSON forms of the transactions, which put the parts of \<open>Json_Types\<close> together. The
  six classes of user transactions (normal, stake and recall stake, each committed and
  uncommitted) write a prefix, a body, data and a suffix; the locale \<open>user_json\<close> shows once
  what they share, for any data and suffix whose members have names of their own. The system
  transactions, the candidates and the stakes follow.
\<close>

section \<open>User transactions\<close>

definition user_toJSON ::
  "'z json_scheme \<Rightarrow> ('d \<Rightarrow> json_event list) \<Rightarrow> ('x \<Rightarrow> json_event list) \<Rightarrow>
     ('d, 'x) user_transaction \<Rightarrow> json_event list" where
  "user_toJSON J data_toJSON suffix_toJSON tx =
     StartObject #
       (prefix_toJSON J (tx_prefix tx) @ body_toJSON J (tx_body tx) @ data_toJSON (tx_data tx) @
        suffix_toJSON (tx_suffix tx)) @
     [EndObject]"

definition user_fromJSON ::
  "'z json_scheme \<Rightarrow> (JSONValue \<Rightarrow> 'd option) \<Rightarrow> (JSONValue \<Rightarrow> 'x option) \<Rightarrow>
     JSONValue \<Rightarrow> ('d, 'x) user_transaction option" where
  "user_fromJSON J data_fromJSON suffix_fromJSON j =
     do { object_or_throw J j;
          p \<leftarrow> prefix_fromJSON J j;
          b \<leftarrow> body_fromJSON J j;
          d \<leftarrow> data_fromJSON j;
          x \<leftarrow> suffix_fromJSON j;
          Some \<lparr>tx_prefix = p, tx_body = b, tx_data = d, tx_suffix = x\<rparr> }"

definition user_members ::
  "'z json_scheme \<Rightarrow> ('d \<Rightarrow> (string \<times> JSONValue) list) \<Rightarrow> ('x \<Rightarrow> (string \<times> JSONValue) list) \<Rightarrow>
     ('d, 'x) user_transaction \<Rightarrow> (string \<times> JSONValue) list" where
  "user_members J data_members suffix_members tx =
     prefix_members J (tx_prefix tx) @ body_members J (tx_body tx) @ data_members (tx_data tx) @
     suffix_members (tx_suffix tx)"

locale user_json =
  data: json_members json_laws "\<lambda>_ _. True" data_toJSON data_fromJSON data_members +
  suffix: json_members laws "\<lambda>_ _. True" suffix_toJSON suffix_fromJSON suffix_members
  for laws :: "'z json_scheme \<Rightarrow> bool"
    and data_toJSON :: "'z json_scheme \<Rightarrow> 'd \<Rightarrow> json_event list"
    and data_fromJSON data_members
    and suffix_toJSON :: "'z json_scheme \<Rightarrow> 'x \<Rightarrow> json_event list"
    and suffix_fromJSON suffix_members +
  assumes laws: "laws J \<Longrightarrow> json_laws J"
    and names: "distinct (map fst (user_members J (data_members J) (suffix_members J) tx))"
begin

lemma user_prints:
  assumes "laws J"
  shows "prints (user_toJSON J (data_toJSON J) (suffix_toJSON J) tx)
           (JObject (user_members J (data_members J) (suffix_members J) tx))"
  unfolding user_toJSON_def user_members_def
  using assms laws [OF assms]
  by (intro prints_object prints_members_append prefix_prints body_prints data.put_members
      suffix.put_members) simp_all

lemma user_loads:
  assumes "laws J"
  shows "user_fromJSON J (data_fromJSON J) (suffix_fromJSON J)
           (JObject (user_members J (data_members J) (suffix_members J) tx)) = Some tx"
proof -
  let ?ms = "user_members J (data_members J) (suffix_members J) tx"
  note L = laws [OF assms]
  have "has_members ?ms ?ms" by (rule has_members_self) (rule names)
  then have parts: "has_members ?ms (prefix_members J (tx_prefix tx))"
    "has_members ?ms (body_members J (tx_body tx))" "has_members ?ms (data_members J (tx_data tx))"
    "has_members ?ms (suffix_members J (tx_suffix tx))"
    unfolding user_members_def by simp_all
  show ?thesis
    unfolding user_fromJSON_def
    using prefix_json.load_members [OF L _ parts(1)] body_json.load_members [OF L _ parts(2)]
      data.load_members [OF L _ parts(3)] suffix.load_members [OF assms _ parts(4)]
    by (simp add: json L)
qed

end

sublocale user_json \<subseteq> json_format laws json_parse "\<lambda>_ _. True"
  "\<lambda>J. user_toJSON J (data_toJSON J) (suffix_toJSON J)"
  "\<lambda>J. user_fromJSON J (data_fromJSON J) (suffix_fromJSON J)"
  "\<lambda>J tx. JObject (user_members J (data_members J) (suffix_members J) tx)"
  by unfold_locales (auto intro: user_prints user_loads dest: laws json_prints(1))

lemmas member_names =
  user_members_def prefix_members_def header_members_def body_members_def normal_data_members_def
  stake_data_members_def recall_data_members_def committed_suffix_members_def
  uncommitted_suffix_members_def

interpretation committed_normal_json: user_json json_laws
  normal_data_toJSON normal_data_fromJSON normal_data_members
  committed_suffix_toJSON committed_suffix_fromJSON committed_suffix_members
  by unfold_locales (simp_all add: member_names)

interpretation committed_stake_json: user_json json_laws
  stake_data_toJSON stake_data_fromJSON stake_data_members
  committed_suffix_toJSON committed_suffix_fromJSON committed_suffix_members
  by unfold_locales (simp_all add: member_names)

interpretation committed_recall_json: user_json json_laws
  recall_data_toJSON recall_data_fromJSON recall_data_members
  committed_suffix_toJSON committed_suffix_fromJSON committed_suffix_members
  by unfold_locales (simp_all add: member_names)

interpretation uncommitted_normal_json: user_json json_proof_laws
  normal_data_toJSON normal_data_fromJSON normal_data_members
  uncommitted_suffix_toJSON uncommitted_suffix_fromJSON uncommitted_suffix_members
  by unfold_locales (simp_all add: member_names json_proof_lawsD)

interpretation uncommitted_stake_json: user_json json_proof_laws
  stake_data_toJSON stake_data_fromJSON stake_data_members
  uncommitted_suffix_toJSON uncommitted_suffix_fromJSON uncommitted_suffix_members
  by unfold_locales (simp_all add: member_names json_proof_lawsD)

interpretation uncommitted_recall_json: user_json json_proof_laws
  recall_data_toJSON recall_data_fromJSON recall_data_members
  uncommitted_suffix_toJSON uncommitted_suffix_fromJSON uncommitted_suffix_members
  by unfold_locales (simp_all add: member_names json_proof_lawsD)

text \<open>The \<open>toJSON\<close> and \<open>fromJSON\<close> of the six classes.\<close>

definition committed_normal_toJSON where
  "committed_normal_toJSON (J :: 'z json_scheme) =
     user_toJSON J (normal_data_toJSON J) (committed_suffix_toJSON J)"

definition committed_normal_fromJSON where
  "committed_normal_fromJSON (J :: 'z json_scheme) =
     user_fromJSON J (normal_data_fromJSON J) (committed_suffix_fromJSON J)"

definition committed_stake_toJSON where
  "committed_stake_toJSON (J :: 'z json_scheme) =
     user_toJSON J (stake_data_toJSON J) (committed_suffix_toJSON J)"

definition committed_stake_fromJSON where
  "committed_stake_fromJSON (J :: 'z json_scheme) =
     user_fromJSON J (stake_data_fromJSON J) (committed_suffix_fromJSON J)"

definition committed_recall_toJSON where
  "committed_recall_toJSON (J :: 'z json_scheme) =
     user_toJSON J (recall_data_toJSON J) (committed_suffix_toJSON J)"

definition committed_recall_fromJSON where
  "committed_recall_fromJSON (J :: 'z json_scheme) =
     user_fromJSON J (recall_data_fromJSON J) (committed_suffix_fromJSON J)"

definition uncommitted_normal_toJSON where
  "uncommitted_normal_toJSON (J :: ('s, 'r, 'z) json_proofs_scheme) =
     user_toJSON J (normal_data_toJSON J) (uncommitted_suffix_toJSON J)"

definition uncommitted_normal_fromJSON where
  "uncommitted_normal_fromJSON (J :: ('s, 'r, 'z) json_proofs_scheme) =
     user_fromJSON J (normal_data_fromJSON J) (uncommitted_suffix_fromJSON J)"

definition uncommitted_stake_toJSON where
  "uncommitted_stake_toJSON (J :: ('s, 'r, 'z) json_proofs_scheme) =
     user_toJSON J (stake_data_toJSON J) (uncommitted_suffix_toJSON J)"

definition uncommitted_stake_fromJSON where
  "uncommitted_stake_fromJSON (J :: ('s, 'r, 'z) json_proofs_scheme) =
     user_fromJSON J (stake_data_fromJSON J) (uncommitted_suffix_fromJSON J)"

definition uncommitted_recall_toJSON where
  "uncommitted_recall_toJSON (J :: ('s, 'r, 'z) json_proofs_scheme) =
     user_toJSON J (recall_data_toJSON J) (uncommitted_suffix_toJSON J)"

definition uncommitted_recall_fromJSON where
  "uncommitted_recall_fromJSON (J :: ('s, 'r, 'z) json_proofs_scheme) =
     user_fromJSON J (recall_data_fromJSON J) (uncommitted_suffix_fromJSON J)"

lemmas user_toJSON_defs =
  committed_normal_toJSON_def committed_normal_fromJSON_def committed_stake_toJSON_def
  committed_stake_fromJSON_def committed_recall_toJSON_def committed_recall_fromJSON_def
  uncommitted_normal_toJSON_def uncommitted_normal_fromJSON_def uncommitted_stake_toJSON_def
  uncommitted_stake_fromJSON_def uncommitted_recall_toJSON_def uncommitted_recall_fromJSON_def

section \<open>System transactions\<close>

definition genesis_toJSON :: "'z json_scheme \<Rightarrow> genesis_transaction_t \<Rightarrow> json_event list" where
  "genesis_toJSON J tx =
     StartObject #
       (prefix_toJSON J (gen_prefix tx) @ KEY_TO_JSON J ''secret_key'' (gen_secret_key tx) @
        (Key ''outputs'' # outputs_toJSON J (gen_outputs tx))) @
     [EndObject]"

definition genesis_fromJSON :: "'z json_scheme \<Rightarrow> JSONValue \<Rightarrow> genesis_transaction_t option" where
  "genesis_fromJSON J j =
     do { object_or_throw J j;
          p \<leftarrow> prefix_fromJSON J j;
          k \<leftarrow> LOAD_KEY_FROM_JSON J j ''secret_key'';
          os \<leftarrow> outputs_fromJSON J j;
          Some \<lparr>gen_prefix = p, gen_secret_key = k, gen_outputs = os\<rparr> }"

definition genesis_value :: "'z json_scheme \<Rightarrow> genesis_transaction_t \<Rightarrow> JSONValue" where
  "genesis_value J tx =
     JObject (prefix_members J (gen_prefix tx) @
       [(''secret_key'', key_value J (gen_secret_key tx)),
        (''outputs'', outputs_value J (gen_outputs tx))])"

lemma genesis_prints: "json_laws J \<Longrightarrow> prints (genesis_toJSON J tx) (genesis_value J tx)"
  unfolding genesis_toJSON_def genesis_value_def
  by (rule json_put prefix_prints outputs_print | assumption | simp)+

lemmas prefix_reads = prefix_fromJSON_def prefix_members_def header_fromJSON_def header_members_def

interpretation genesis_json: json_format json_laws json_parse "\<lambda>_ _. True"
  genesis_toJSON genesis_fromJSON genesis_value
  by (unfold_locales, erule (1) json_prints, erule genesis_prints)
    (simp add: genesis_fromJSON_def genesis_value_def prefix_reads json)

definition refund_toJSON :: "'z json_scheme \<Rightarrow> stake_refund_transaction_t \<Rightarrow> json_event list" where
  "refund_toJSON J tx =
     StartObject #
       (prefix_toJSON J (ref_prefix tx) @ KEY_TO_JSON J ''secret_key'' (ref_secret_key tx) @
        KEY_TO_JSON J ''recall_stake_tx'' (recall_stake_tx tx) @
        (Key ''outputs'' # outputs_toJSON J (ref_outputs tx))) @
     [EndObject]"

definition refund_fromJSON :: "'z json_scheme \<Rightarrow> JSONValue \<Rightarrow> stake_refund_transaction_t option" where
  "refund_fromJSON J j =
     do { object_or_throw J j;
          p \<leftarrow> prefix_fromJSON J j;
          k \<leftarrow> LOAD_KEY_FROM_JSON J j ''secret_key'';
          r \<leftarrow> LOAD_KEY_FROM_JSON J j ''recall_stake_tx'';
          os \<leftarrow> outputs_fromJSON J j;
          Some \<lparr>ref_prefix = p, ref_secret_key = k, recall_stake_tx = r, ref_outputs = os\<rparr> }"

definition refund_value :: "'z json_scheme \<Rightarrow> stake_refund_transaction_t \<Rightarrow> JSONValue" where
  "refund_value J tx =
     JObject (prefix_members J (ref_prefix tx) @
       [(''secret_key'', key_value J (ref_secret_key tx)),
        (''recall_stake_tx'', key_value J (recall_stake_tx tx)),
        (''outputs'', outputs_value J (ref_outputs tx))])"

lemma refund_prints: "json_laws J \<Longrightarrow> prints (refund_toJSON J tx) (refund_value J tx)"
  unfolding refund_toJSON_def refund_value_def
  by (rule json_put prefix_prints outputs_print | assumption | simp)+

interpretation refund_json: json_format json_laws json_parse "\<lambda>_ _. True"
  refund_toJSON refund_fromJSON refund_value
  by (unfold_locales, erule (1) json_prints, erule refund_prints)
    (simp add: refund_fromJSON_def refund_value_def prefix_reads json)

text \<open>A staker transaction has two arrays of staker outputs.\<close>

definition staker_outputs_toJSON :: "'z json_scheme \<Rightarrow> StakerOutput list \<Rightarrow> json_event list" where
  "staker_outputs_toJSON J os = StartArray # concat (map (StakerOutput_toJSON J) os) @ [EndArray]"

definition staker_outputs_fromJSON ::
  "'z json_scheme \<Rightarrow> JSONValue \<Rightarrow> string \<Rightarrow> StakerOutput list option" where
  "staker_outputs_fromJSON J j name =
     do { member_or_throw J j name;
          elems \<leftarrow> get_json_array J j name;
          load_each (StakerOutput_fromJSON J) elems }"

lemma staker_outputs_load [json]:
  "json_laws J \<Longrightarrow> map_of ms name = Some (JArray (map (StakerOutput_value J) os)) \<Longrightarrow>
   staker_outputs_fromJSON J (JObject ms) name = Some os"
  by (simp add: staker_outputs_fromJSON_def json staker_output_json.load_array)

definition staker_toJSON :: "'z json_scheme \<Rightarrow> staker_transaction_t \<Rightarrow> json_event list" where
  "staker_toJSON J tx =
     StartObject #
       (header_toJSON J (stk_header tx) @
        (Key ''staker_outputs'' # staker_outputs_toJSON J (staker_outputs tx)) @
        (Key ''staker_penalties'' # staker_outputs_toJSON J (staker_penalties tx))) @
     [EndObject]"

definition staker_fromJSON :: "'z json_scheme \<Rightarrow> JSONValue \<Rightarrow> staker_transaction_t option" where
  "staker_fromJSON J j =
     do { object_or_throw J j;
          h \<leftarrow> header_fromJSON J j;
          os \<leftarrow> staker_outputs_fromJSON J j ''staker_outputs'';
          ps \<leftarrow> staker_outputs_fromJSON J j ''staker_penalties'';
          Some \<lparr>stk_header = h, staker_outputs = os, staker_penalties = ps\<rparr> }"

definition staker_value :: "'z json_scheme \<Rightarrow> staker_transaction_t \<Rightarrow> JSONValue" where
  "staker_value J tx =
     JObject (header_members J (stk_header tx) @
       [(''staker_outputs'', JArray (map (StakerOutput_value J) (staker_outputs tx))),
        (''staker_penalties'', JArray (map (StakerOutput_value J) (staker_penalties tx)))])"

lemma staker_prints: "json_laws J \<Longrightarrow> prints (staker_toJSON J tx) (staker_value J tx)"
  unfolding staker_toJSON_def staker_value_def staker_outputs_toJSON_def
  by (rule prints_cat prints_member prints_object header_prints staker_output_json.put_array
      | assumption | simp)+

interpretation staker_json: json_format json_laws json_parse "\<lambda>_ _. True"
  staker_toJSON staker_fromJSON staker_value
  by (unfold_locales, erule (1) json_prints, erule staker_prints)
    (simp add: staker_fromJSON_def staker_value_def header_fromJSON_def header_members_def json)

section \<open>Candidates and stakes\<close>

definition candidate_toJSON :: "'z json_scheme \<Rightarrow> candidate_node_t \<Rightarrow> json_event list" where
  "candidate_toJSON J c =
     StartObject #
       (U64_TO_JSON J ''record_version'' (node_record_version c) @
        KEY_TO_JSON J ''public_signing_key'' (node_public_signing_key c) @
        KEY_TO_JSON J ''public_view_key'' (node_public_view_key c) @
        KEY_TO_JSON J ''public_spend_key'' (node_public_spend_key c) @
        U64_TO_JSON J ''initial_stake'' (node_initial_stake c) @
        U64_TO_JSON J ''block_production_assigned'' (node_block_production_assigned c) @
        U64_TO_JSON J ''block_validation_assigned'' (node_block_validation_assigned c) @
        U64_TO_JSON J ''blocks_produced'' (node_blocks_produced c) @
        U64_TO_JSON J ''blocks_validated'' (node_blocks_validated c)) @
     [EndObject]"

definition candidate_fromJSON :: "'z json_scheme \<Rightarrow> JSONValue \<Rightarrow> candidate_node_t option" where
  "candidate_fromJSON J j =
     do { object_or_throw J j;
          rv \<leftarrow> LOAD_U64_FROM_JSON J j ''record_version'';
          sk \<leftarrow> LOAD_KEY_FROM_JSON J j ''public_signing_key'';
          vk \<leftarrow> LOAD_KEY_FROM_JSON J j ''public_view_key'';
          pk \<leftarrow> LOAD_KEY_FROM_JSON J j ''public_spend_key'';
          is \<leftarrow> LOAD_U64_FROM_JSON J j ''initial_stake'';
          pa \<leftarrow> LOAD_U64_FROM_JSON J j ''block_production_assigned'';
          va \<leftarrow> LOAD_U64_FROM_JSON J j ''block_validation_assigned'';
          bp \<leftarrow> LOAD_U64_FROM_JSON J j ''blocks_produced'';
          bv \<leftarrow> LOAD_U64_FROM_JSON J j ''blocks_validated'';
          Some \<lparr>node_record_version = rv, node_public_signing_key = sk, node_public_view_key = vk,
                node_public_spend_key = pk, node_initial_stake = is,
                node_block_production_assigned = pa, node_block_validation_assigned = va,
                node_blocks_produced = bp, node_blocks_validated = bv\<rparr> }"

definition candidate_value :: "'z json_scheme \<Rightarrow> candidate_node_t \<Rightarrow> JSONValue" where
  "candidate_value J c =
     JObject
       [(''record_version'', u64_value (node_record_version c)),
        (''public_signing_key'', key_value J (node_public_signing_key c)),
        (''public_view_key'', key_value J (node_public_view_key c)),
        (''public_spend_key'', key_value J (node_public_spend_key c)),
        (''initial_stake'', u64_value (node_initial_stake c)),
        (''block_production_assigned'', u64_value (node_block_production_assigned c)),
        (''block_validation_assigned'', u64_value (node_block_validation_assigned c)),
        (''blocks_produced'', u64_value (node_blocks_produced c)),
        (''blocks_validated'', u64_value (node_blocks_validated c))]"

lemma candidate_prints: "json_laws J \<Longrightarrow> prints (candidate_toJSON J c) (candidate_value J c)"
  unfolding candidate_toJSON_def candidate_value_def by (rule json_put | assumption | simp)+

interpretation candidate_json: json_format json_laws json_parse "\<lambda>_ _. True"
  candidate_toJSON candidate_fromJSON candidate_value
  by (unfold_locales, erule (1) json_prints, erule candidate_prints)
    (simp add: candidate_fromJSON_def candidate_value_def json)

definition stake_toJSON :: "'z json_scheme \<Rightarrow> stake_t \<Rightarrow> json_event list" where
  "stake_toJSON J s =
     StartObject #
       (U64_TO_JSON J ''record_version'' (st_record_version s) @
        KEY_TO_JSON J ''candidate_public_key'' (st_candidate_public_key s) @
        KEY_TO_JSON J ''public_view_key'' (st_public_view_key s) @
        KEY_TO_JSON J ''public_spend_key'' (st_public_spend_key s) @
        U64_TO_JSON J ''stake'' (st_stake s)) @
     [EndObject]"

definition stake_fromJSON :: "'z json_scheme \<Rightarrow> JSONValue \<Rightarrow> stake_t option" where
  "stake_fromJSON J j =
     do { object_or_throw J j;
          rv \<leftarrow> LOAD_U64_FROM_JSON J j ''record_version'';
          ck \<leftarrow> LOAD_KEY_FROM_JSON J j ''candidate_public_key'';
          vk \<leftarrow> LOAD_KEY_FROM_JSON J j ''public_view_key'';
          pk \<leftarrow> LOAD_KEY_FROM_JSON J j ''public_spend_key'';
          a \<leftarrow> LOAD_U64_FROM_JSON J j ''stake'';
          Some \<lparr>st_record_version = rv, st_candidate_public_key = ck, st_public_view_key = vk,
                st_public_spend_key = pk, st_stake = a\<rparr> }"

definition stake_value :: "'z json_scheme \<Rightarrow> stake_t \<Rightarrow> JSONValue" where
  "stake_value J s =
     JObject
       [(''record_version'', u64_value (st_record_version s)),
        (''candidate_public_key'', key_value J (st_candidate_public_key s)),
        (''public_view_key'', key_value J (st_public_view_key s)),
        (''public_spend_key'', key_value J (st_public_spend_key s)),
        (''stake'', u64_value (st_stake s))]"

lemma stake_prints: "json_laws J \<Longrightarrow> prints (stake_toJSON J s) (stake_value J s)"
  unfolding stake_toJSON_def stake_value_def by (rule json_put | assumption | simp)+

interpretation stake_json: json_format json_laws json_parse "\<lambda>_ _. True"
  stake_toJSON stake_fromJSON stake_value
  by (unfold_locales, erule (1) json_prints, erule stake_prints)
    (simp add: stake_fromJSON_def stake_value_def json)

end
