(* ===== verification/Json_Blocks.thy ===== *)
theory Json_Blocks
  imports Json_Transactions
begin

text \<open>
  The JSON form of a block. The reader makes a block of what the document has; the writer
  puts, for every validator, the key and the signature of the producer, so what comes back
  has the producer as its only validator (\<open>block_json_result\<close>).
\<close>

definition reward_toJSON :: "'z json_scheme \<Rightarrow> block_transaction_t \<Rightarrow> json_event list" where
  "reward_toJSON J r =
     (case r of RewardGenesis tx \<Rightarrow> genesis_toJSON J tx | RewardStaker tx \<Rightarrow> staker_toJSON J tx)"

definition detect_json_type :: "'z json_scheme \<Rightarrow> JSONValue \<Rightarrow> u64 option" where
  "detect_json_type J j =
     do { object_or_throw J j; member_or_throw J j ''type''; get_json_uint64_t J j ''type'' }"

definition reward_fromJSON :: "'z json_scheme \<Rightarrow> JSONValue \<Rightarrow> block_transaction_t option" where
  "reward_fromJSON J elem =
     do { type \<leftarrow> detect_json_type J elem;
          if type = type_number GENESIS then map_option RewardGenesis (genesis_fromJSON J elem)
          else if type = type_number STAKER then map_option RewardStaker (staker_fromJSON J elem)
          else None }"

definition reward_value :: "'z json_scheme \<Rightarrow> block_transaction_t \<Rightarrow> JSONValue" where
  "reward_value J r =
     (case r of RewardGenesis tx \<Rightarrow> genesis_value J tx | RewardStaker tx \<Rightarrow> staker_value J tx)"

lemma reward_prints: "json_laws J \<Longrightarrow> prints (reward_toJSON J r) (reward_value J r)"
  by (simp add: reward_toJSON_def reward_value_def genesis_prints staker_prints
      split: block_transaction_t.splits)

lemma reward_loads:
  assumes "json_laws J" "wf_reward r" shows "reward_fromJSON J (reward_value J r) = Some r"
proof (cases r)
  case (RewardGenesis tx)
  have "detect_json_type J (genesis_value J tx) = Some (l_type (gen_prefix tx))"
    using assms(1) by (simp add: detect_json_type_def genesis_value_def prefix_members_def
        header_members_def json)
  then show ?thesis using RewardGenesis assms genesis_json.load_shape [OF assms(1)]
    by (simp add: reward_fromJSON_def reward_value_def wf_defs)
next
  case (RewardStaker tx)
  have "detect_json_type J (staker_value J tx) = Some (l_type (stk_header tx))"
    using assms(1) by (simp add: detect_json_type_def staker_value_def header_members_def json)
  then show ?thesis using RewardStaker assms staker_json.load_shape [OF assms(1)]
    by (simp add: reward_fromJSON_def reward_value_def wf_defs)
qed

text \<open>An object with the key and the signature of a signer.\<close>

definition signer_toJSON ::
  "'z json_scheme \<Rightarrow> crypto_public_key_t \<Rightarrow> crypto_signature_t \<Rightarrow> json_event list" where
  "signer_toJSON J pk sg =
     StartObject # ((Key ''public_key'' # key_toJSON J pk) @ (Key ''signature'' # sig_toJSON J sg)) @
     [EndObject]"

definition signer_fromJSON ::
  "'z json_scheme \<Rightarrow> JSONValue \<Rightarrow> (crypto_public_key_t \<times> crypto_signature_t) option" where
  "signer_fromJSON J elem =
     (if \<not> has_member J elem ''public_key'' \<or> \<not> has_member J elem ''signature'' then None
      else do { k \<leftarrow> get_json_string_member J elem ''public_key'';
                pk \<leftarrow> key_of_string J k;
                s \<leftarrow> get_json_string_member J elem ''signature'';
                sg \<leftarrow> sig_of_string J s;
                Some (pk, sg) })"

definition signer_value ::
  "'z json_scheme \<Rightarrow> crypto_public_key_t \<Rightarrow> crypto_signature_t \<Rightarrow> JSONValue" where
  "signer_value J pk sg = JObject [(''public_key'', key_value J pk), (''signature'', sig_value J sg)]"

interpretation signer_json: json_format json_laws json_parse "\<lambda>_ _. True"
  "\<lambda>J (pk, sg). signer_toJSON J pk sg" signer_fromJSON "\<lambda>J (pk, sg). signer_value J pk sg"
proof unfold_locales
  show "json_laws J \<Longrightarrow> prints (case x of (pk, sg) \<Rightarrow> signer_toJSON J pk sg)
      (case x of (pk, sg) \<Rightarrow> signer_value J pk sg)" for J :: "'z json_scheme" and x
    unfolding signer_toJSON_def signer_value_def
    by (cases x, simp only: prod.case) (rule json_put | assumption | simp)+
qed (auto simp: signer_fromJSON_def signer_value_def key_value_def sig_value_def json)

definition block_toJSON :: "'y crypto_scheme \<Rightarrow> 'z json_scheme \<Rightarrow> block_t \<Rightarrow> json_event list" where
  "block_toJSON C J b =
     StartObject #
       (U64_TO_JSON J ''version'' (block_version b) @
        KEY_TO_JSON J ''previous_blockhash'' (previous_blockhash b) @
        U64_TO_JSON J ''timestamp'' (timestamp b) @
        U64_TO_JSON J ''block_index'' (block_index b) @
        (Key ''reward_tx'' # reward_toJSON J (reward_tx b)) @
        (Key ''transactions'' #
           (StartArray # concat (map (key_toJSON J) (transactions b)) @ [EndArray])) @
        (if has_producer C b
         then Key ''producer_signature'' #
                signer_toJSON J (producer_public_key b) (producer_signature b)
         else []) @
        (if validator_signatures b \<noteq> []
         then Key ''validator_signatures'' #
                (StartArray #
                   concat (map (\<lambda>(pk, sg). signer_toJSON J (producer_public_key b) (producer_signature b))
                             (validator_signatures b)) @ [EndArray])
         else [])) @
     [EndObject]"

text \<open>
  \<open>fromJSON\<close> on a block that has just been made: without a producer in the document its key
  and its signature stay what their constructors made them.
\<close>

definition load_hash :: "'z json_scheme \<Rightarrow> JSONValue \<Rightarrow> crypto_hash_t option" where
  "load_hash J elem = do { s \<leftarrow> get_json_string J elem; key_of_string J s }"

definition block_fromJSON :: "'y crypto_scheme \<Rightarrow> 'z json_scheme \<Rightarrow> JSONValue \<Rightarrow> block_t option" where
  "block_fromJSON C J j =
     do { object_or_throw J j;
          v \<leftarrow> LOAD_U64_FROM_JSON J j ''version'';
          prev \<leftarrow> LOAD_KEY_FROM_JSON J j ''previous_blockhash'';
          ts \<leftarrow> LOAD_U64_FROM_JSON J j ''timestamp'';
          idx \<leftarrow> LOAD_U64_FROM_JSON J j ''block_index'';
          member_or_throw J j ''reward_tx'';
          elem \<leftarrow> get_json_value J j ''reward_tx'';
          reward \<leftarrow> reward_fromJSON J elem;
          member_or_throw J j ''transactions'';
          elems \<leftarrow> get_json_array J j ''transactions'';
          txs \<leftarrow> load_each (load_hash J) elems;
          (pk, sg) \<leftarrow> (if has_member J j ''producer_signature''
                       then do { elem \<leftarrow> get_json_value J j ''producer_signature'';
                                 signer_fromJSON J elem }
                       else Some (key_default C, sig_default C));
          vs \<leftarrow> (if has_member J j ''validator_signatures''
                 then do { elems \<leftarrow> get_json_array J j ''validator_signatures'';
                           load_each (signer_fromJSON J) elems }
                 else Some []);
          Some (foldl (\<lambda>b (pk, sg). append_validator_signature C pk sg b)
                  \<lparr>block_version = v, timestamp = ts, block_index = idx, previous_blockhash = prev,
                   reward_tx = reward, transactions = set_of_list (key_less C) txs,
                   producer_public_key = pk, producer_signature = sg, validator_signatures = []\<rparr> vs) }"

section \<open>What reading a written block gives\<close>

definition block_value :: "'y crypto_scheme \<Rightarrow> 'z json_scheme \<Rightarrow> block_t \<Rightarrow> JSONValue" where
  "block_value C J b =
     JObject
       ([(''version'', u64_value (block_version b)),
         (''previous_blockhash'', key_value J (previous_blockhash b)),
         (''timestamp'', u64_value (timestamp b)),
         (''block_index'', u64_value (block_index b)),
         (''reward_tx'', reward_value J (reward_tx b)),
         (''transactions'', JArray (map (key_value J) (transactions b)))] @
        (if has_producer C b
         then [(''producer_signature'', signer_value J (producer_public_key b) (producer_signature b))]
         else []) @
        (if validator_signatures b \<noteq> []
         then [(''validator_signatures'',
                JArray (map (\<lambda>_. signer_value J (producer_public_key b) (producer_signature b))
                          (validator_signatures b)))]
         else []))"

lemma optional_prints:
  "prints_members es ms \<Longrightarrow> prints_members (if c then es else []) (if c then ms else [])"
  by (simp add: members_Nil)

lemma signer_prints: "json_laws J \<Longrightarrow> prints (signer_toJSON J pk sg) (signer_value J pk sg)"
  using signer_json.put_shape [of J "(pk, sg)"] by simp

lemma block_prints:
  assumes L: "json_laws J" shows "prints (block_toJSON C J b) (block_value C J b)"
proof -
  have txs: "prints (StartArray # concat (map (key_toJSON J) ts) @ [EndArray])
      (JArray (map (key_value J) ts))" for ts
    by (rule prints_array, rule prints_elements_map) (simp add: json L)
  have vs: "prints (StartArray # concat (map (\<lambda>(pk, sg). signer_toJSON J k s) ws) @ [EndArray])
      (JArray (map (\<lambda>_. signer_value J k s) ws))"
      for k s and ws :: "(crypto_public_key_t \<times> crypto_signature_t) list"
    by (rule prints_array, rule prints_elements_map) (auto simp: signer_prints L)
  show ?thesis unfolding block_toJSON_def block_value_def
    by (rule prints_object prints_cat optional_prints prints_member txs vs reward_prints signer_prints
        json_prints L | simp)+
qed

lemma load_hashes: "json_laws J \<Longrightarrow> load_each (load_hash J) (map (key_value J) ts) = Some ts"
  using load_each_map [of ts "load_hash J" "key_value J" "\<lambda>x. x"]
  by (simp add: load_hash_def key_value_def json)

lemma load_signer: "json_laws J \<Longrightarrow> signer_fromJSON J (signer_value J pk sg) = Some (pk, sg)"
  using signer_json.load_shape [of J "(pk, sg)"] by simp

lemma load_signers:
  "json_laws J \<Longrightarrow>
   load_each (signer_fromJSON J) (map (\<lambda>_. signer_value J pk sg) ws) = Some (map (\<lambda>_. (pk, sg)) ws)"
  using load_each_map [of ws "signer_fromJSON J" "\<lambda>_. signer_value J pk sg" "\<lambda>_. (pk, sg)"]
  by (simp add: load_signer)

lemma append_same_signer:
  "map_of (validator_signatures b) pk \<noteq> None \<Longrightarrow>
   foldl (\<lambda>b (pk, sg). append_validator_signature C pk sg b) b (map (\<lambda>_. (pk, sg)) ws) = b"
  by (induction ws) (auto simp: append_validator_signature_def)

text \<open>What is left of the validators: nothing, or the producer.\<close>

definition written_validators :: "block_t \<Rightarrow> (crypto_public_key_t \<times> crypto_signature_t) list" where
  "written_validators b =
     (if validator_signatures b = [] then [] else [(producer_public_key b, producer_signature b)])"

lemma append_signers:
  assumes "validator_signatures b = []"
  shows "foldl (\<lambda>b (pk, sg). append_validator_signature C pk sg b) b (map (\<lambda>_. (pk, sg)) ws) =
         b\<lparr>validator_signatures := if ws = [] then [] else [(pk, sg)]\<rparr>"
proof (cases ws)
  case (Cons w ws')
  have "append_validator_signature C pk sg b = b\<lparr>validator_signatures := [(pk, sg)]\<rparr>"
    using assms by (simp add: append_validator_signature_def)
  then show ?thesis using Cons by (simp add: append_same_signer)
qed (use assms in simp)

lemma block_json_result:
  assumes C: "crypto_laws C" and L: "json_laws J" and b: "wf_block C b"
  shows "Option.bind (json_parse J (block_toJSON C J b)) (block_fromJSON C J) =
         Some (b\<lparr>validator_signatures := written_validators b\<rparr>)"
proof -
  have txs: "set_of_list (key_less C) (transactions b) = transactions b"
    using b crypto_lawsD(2) [OF C] by (simp add: wf_block_def set_of_list_sorted)
  have "block_fromJSON C J (block_value C J b) =
      Some (b\<lparr>validator_signatures := written_validators b\<rparr>)"
    using b unfolding block_fromJSON_def block_value_def
    by (cases "has_producer C b")
      (simp_all add: json L wf_block_def reward_loads load_hashes load_signer load_signers txs
        append_signers written_validators_def)
  then show ?thesis using json_prints(1) [OF L block_prints [OF L, of C b]] by simp
qed

text \<open>What is accepted has validators, so it is changed.\<close>

lemma validated_has_validators: "validate_construction C b = Some True \<Longrightarrow> validator_signatures b \<noteq> []"
  by (simp add: validate_construction_iff validate_validator_signatures_iff)

end
