(* ===== verification/Json_Network.thy ===== *)
theory Json_Network
  imports Json Network_Types
begin

text \<open>
  The JSON forms of the error, of the addresses and peers, and of the packets of the
  peer-to-peer network. An address is written as the text that the IP parser makes of it,
  in brackets; reading it back depends on the parser taking that text (\<open>readable_ip\<close>).
\<close>

section \<open>Addresses and peers\<close>

definition ip_toJSON :: "'y network_scheme \<Rightarrow> ip_address_t \<Rightarrow> json_event list" where
  "ip_toJSON C a = StartObject # (Key ''address'' # [String (ip_to_string C a)]) @ [EndObject]"

definition ip_fromJSON :: "'y network_scheme \<Rightarrow> 'z json_scheme \<Rightarrow> JSONValue \<Rightarrow> ip_address_t option" where
  "ip_fromJSON C J j =
     do { object_or_throw J j;
          member_or_throw J j ''address'';
          str \<leftarrow> get_json_string_member J j ''address'';
          address \<leftarrow> str_to_ip C str;
          Some (normalize_v4_embedded C address) }"

definition readable_ip :: "'y network_scheme \<Rightarrow> ip_address_t \<Rightarrow> bool" where
  "readable_ip C a \<longleftrightarrow> ip_address_of_string C (ip_to_string C a) = Some a"

definition ip_value :: "'y network_scheme \<Rightarrow> ip_address_t \<Rightarrow> JSONValue" where
  "ip_value C a = JObject [(''address'', JString (ip_to_string C a))]"

lemmas json_put_network = prints_cat prints_member prints_intros json_prints

lemma ip_prints: "prints (ip_toJSON C a) (ip_value C a)"
  unfolding ip_toJSON_def ip_value_def by (rule prints_object prints_member prints_String)+

lemma ip_loads:
  "json_laws J \<Longrightarrow> ip_fromJSON C J (ip_value C a) = ip_address_of_string C (ip_to_string C a)"
  by (simp add: ip_fromJSON_def ip_value_def json ip_address_of_string_def map_conv_bind_option comp_def)

text \<open>The structures are indexed by the pair of the two libraries.\<close>

interpretation ip_json: json_format "\<lambda>(C, J). json_laws J" "\<lambda>(C, J). json_parse J"
  "\<lambda>(C, J). readable_ip C" "\<lambda>(C, J). ip_toJSON C" "\<lambda>(C, J). ip_fromJSON C J" "\<lambda>(C, J). ip_value C"
  by unfold_locales (auto simp: ip_prints ip_loads readable_ip_def json_prints)

text \<open>The port is written and read as a \<open>uint32_t\<close> and kept as a \<open>uint16_t\<close>.\<close>

definition peer_toJSON ::
  "'y network_scheme \<Rightarrow> 'z json_scheme \<Rightarrow> network_peer_t \<Rightarrow> json_event list" where
  "peer_toJSON C J p =
     StartObject #
       ((Key ''address'' # [String (ip_to_string C (peer_address p))]) @
        U32_TO_JSON J ''port'' (ucast (peer_port p)) @
        KEY_TO_JSON J ''peer_id'' (peer_id p) @
        KEY_TO_JSON J ''network_id'' (peer_network_id p) @
        U64_TO_JSON J ''last_seen'' (last_seen p)) @
     [EndObject]"

definition peer_fromJSON ::
  "'y network_scheme \<Rightarrow> 'z json_scheme \<Rightarrow> JSONValue \<Rightarrow> network_peer_t option" where
  "peer_fromJSON C J j =
     do { object_or_throw J j;
          member_or_throw J j ''address'';
          str \<leftarrow> get_json_string_member J j ''address'';
          address \<leftarrow> ip_address_of_string C str;
          port \<leftarrow> LOAD_U32_FROM_JSON J j ''port'';
          i \<leftarrow> LOAD_KEY_FROM_JSON J j ''peer_id'';
          n \<leftarrow> LOAD_KEY_FROM_JSON J j ''network_id'';
          seen \<leftarrow> LOAD_U64_FROM_JSON J j ''last_seen'';
          Some \<lparr>peer_address = address, peer_port = ucast port, peer_id = i, peer_network_id = n,
                last_seen = seen\<rparr> }"

definition peer_value :: "'y network_scheme \<Rightarrow> 'z json_scheme \<Rightarrow> network_peer_t \<Rightarrow> JSONValue" where
  "peer_value C J p =
     JObject
       [(''address'', JString (ip_to_string C (peer_address p))),
        (''port'', JNumber (uint (ucast (peer_port p) :: u32))),
        (''peer_id'', key_value J (peer_id p)), (''network_id'', key_value J (peer_network_id p)),
        (''last_seen'', JNumber (uint (last_seen p)))]"

lemma u16_u32_u16 [simp]: "ucast (ucast (x :: u16) :: u32) = x"
  by (rule bit_word_eqI) (simp add: bit_simps)

lemma peer_prints: "json_laws J \<Longrightarrow> prints (peer_toJSON C J p) (peer_value C J p)"
  unfolding peer_toJSON_def peer_value_def by (rule json_put_network | assumption | simp)+

lemma peer_loads:
  "json_laws J \<Longrightarrow> readable_ip C (peer_address p) \<Longrightarrow> peer_fromJSON C J (peer_value C J p) = Some p"
  unfolding peer_fromJSON_def peer_value_def readable_ip_def
  by (simp add: json_reads(1,2,7,15)) (simp add: json)

interpretation peer_json: json_format "\<lambda>(C, J). json_laws J" "\<lambda>(C, J). json_parse J"
  "\<lambda>(C, J) p. readable_ip C (peer_address p)" "\<lambda>(C, J). peer_toJSON C J" "\<lambda>(C, J). peer_fromJSON C J"
  "\<lambda>(C, J). peer_value C J"
  by unfold_locales (auto simp: peer_prints peer_loads json_prints)

section \<open>Packets\<close>

text \<open>
  The type of a packet is written with \<open>writer.Uint\<close> and read with \<open>get_json_uint32_t\<close>;
  \<open>version\<close> goes through the macros of 32 bits. Both are \<open>uint16_t\<close> in the packet.
\<close>

definition packet_base_toJSON ::
  "'z json_scheme \<Rightarrow> 'p NetworkPacketBase_scheme \<Rightarrow> json_event list" where
  "packet_base_toJSON J p =
     (Key ''type'' # [Uint (ucast (packet_type p))]) @
     U32_TO_JSON J ''version'' (ucast (packet_version p))"

definition packet_base_fromJSON :: "'z json_scheme \<Rightarrow> JSONValue \<Rightarrow> (u16 \<times> u16) option" where
  "packet_base_fromJSON J j =
     do { object_or_throw J j;
          member_or_throw J j ''type'';
          t \<leftarrow> get_json_uint32_t J j ''type'';
          v \<leftarrow> LOAD_U32_FROM_JSON J j ''version'';
          Some (ucast t, ucast v) }"

definition packet_base_members :: "'p NetworkPacketBase_scheme \<Rightarrow> (string \<times> JSONValue) list" where
  "packet_base_members p =
     [(''type'', JNumber (uint (ucast (packet_type p) :: u32))),
      (''version'', JNumber (uint (ucast (packet_version p) :: u32)))]"

lemma packet_base_prints:
  "json_laws J \<Longrightarrow> prints_members (packet_base_toJSON J p) (packet_base_members p)"
  unfolding packet_base_toJSON_def packet_base_members_def
  by (rule json_put_network | assumption | simp)+

lemma packet_base_loads:
  assumes "json_laws J" "has_members ms (packet_base_members p)"
  shows "packet_base_fromJSON J (JObject ms) = Some (packet_type p, packet_version p)"
proof -
  have ms: "map_of ms ''type'' = Some (JNumber (uint (ucast (packet_type p) :: u32)))"
    "map_of ms ''version'' = Some (JNumber (uint (ucast (packet_version p) :: u32)))"
    using assms(2) by (simp_all add: packet_base_members_def)
  show ?thesis unfolding packet_base_fromJSON_def
    using json_reads(9) [OF assms(1) ms(1)] json_reads(14) [OF assms(1) ms(2)]
      json_reads(1) [OF assms(1)] json_reads(2) [OF assms(1) ms(1)] by simp
qed

lemma packet_base_first:
  assumes "json_laws J"
  shows "packet_base_fromJSON J (JObject (packet_base_members p @ xs)) = Some (packet_type p, packet_version p)"
  by (rule packet_base_loads [OF assms]) (simp add: packet_base_members_def)

text \<open>The handshake and the peer exchange write and read the same members.\<close>

definition peers_packet_toJSON ::
  "'y network_scheme \<Rightarrow> 'z json_scheme \<Rightarrow> packet_peers_t \<Rightarrow> json_event list" where
  "peers_packet_toJSON C J p =
     StartObject #
       (packet_base_toJSON J p @
        KEY_TO_JSON J ''peer_id'' (packet_peer_id p) @
        (Key ''peer_port'' # [Uint (ucast (packet_peer_port p))]) @
        KEY_TO_JSON J ''network_id'' (packet_network_id p) @
        (Key ''peers'' # (StartArray # concat (map (peer_toJSON C J) (packet_peers p)) @ [EndArray]))) @
     [EndObject]"

definition peers_packet_fromJSON ::
  "'y network_scheme \<Rightarrow> 'z json_scheme \<Rightarrow> JSONValue \<Rightarrow> packet_peers_t option" where
  "peers_packet_fromJSON C J j =
     do { (t, v) \<leftarrow> packet_base_fromJSON J j;
          i \<leftarrow> LOAD_KEY_FROM_JSON J j ''peer_id'';
          n \<leftarrow> LOAD_KEY_FROM_JSON J j ''network_id'';
          member_or_throw J j ''peer_port'';
          port \<leftarrow> get_json_uint32_t J j ''peer_port'';
          member_or_throw J j ''peers'';
          elems \<leftarrow> get_json_array J j ''peers'';
          ps \<leftarrow> load_each (peer_fromJSON C J) elems;
          Some \<lparr>packet_type = t, packet_version = v, packet_peer_id = i, packet_peer_port = ucast port,
                packet_network_id = n, packet_peers = ps\<rparr> }"

definition handshake_toJSON where
  "handshake_toJSON (C :: 'y network_scheme) (J :: 'z json_scheme) (p :: packet_handshake_t) =
     peers_packet_toJSON C J p"

definition handshake_fromJSON ::
  "'y network_scheme \<Rightarrow> 'z json_scheme \<Rightarrow> JSONValue \<Rightarrow> packet_handshake_t option" where
  "handshake_fromJSON C J j = peers_packet_fromJSON C J j"

definition peer_exchange_toJSON where
  "peer_exchange_toJSON (C :: 'y network_scheme) (J :: 'z json_scheme) (p :: packet_peer_exchange_t) =
     peers_packet_toJSON C J p"

definition peer_exchange_fromJSON ::
  "'y network_scheme \<Rightarrow> 'z json_scheme \<Rightarrow> JSONValue \<Rightarrow> packet_peer_exchange_t option" where
  "peer_exchange_fromJSON C J j = peers_packet_fromJSON C J j"

definition peers_packet_value ::
  "'y network_scheme \<Rightarrow> 'z json_scheme \<Rightarrow> packet_peers_t \<Rightarrow> JSONValue" where
  "peers_packet_value C J p =
     JObject (packet_base_members p @
       [(''peer_id'', key_value J (packet_peer_id p)),
        (''peer_port'', JNumber (uint (ucast (packet_peer_port p) :: u32))),
        (''network_id'', key_value J (packet_network_id p)),
        (''peers'', JArray (map (peer_value C J) (packet_peers p)))])"

lemma peers_packet_prints:
  assumes "json_laws J" shows "prints (peers_packet_toJSON C J p) (peers_packet_value C J p)"
proof -
  have peers: "prints (StartArray # concat (map (peer_toJSON C J) ps) @ [EndArray])
      (JArray (map (peer_value C J) ps))" for ps
    using peer_json.put_array [of "(C, J)" ps] assms by simp
  show ?thesis unfolding peers_packet_toJSON_def peers_packet_value_def
    by (rule json_put_network packet_base_prints peers assms | simp)+
qed

lemma peers_packet_loads:
  assumes L: "json_laws J" and ps: "\<forall>q \<in> set (packet_peers p). readable_ip C (peer_address q)"
  shows "peers_packet_fromJSON C J (peers_packet_value C J p) = Some p"
proof -
  define ms where "ms = packet_base_members p @
       [(''peer_id'', key_value J (packet_peer_id p)),
        (''peer_port'', JNumber (uint (ucast (packet_peer_port p) :: u32))),
        (''network_id'', key_value J (packet_network_id p)),
        (''peers'', JArray (map (peer_value C J) (packet_peers p)))]"
  have base: "packet_base_fromJSON J (JObject ms) = Some (packet_type p, packet_version p)"
    unfolding ms_def by (rule packet_base_first [OF L])
  have m: "map_of ms ''peer_id'' = Some (key_value J (packet_peer_id p))"
    "map_of ms ''peer_port'' = Some (JNumber (uint (ucast (packet_peer_port p) :: u32)))"
    "map_of ms ''network_id'' = Some (key_value J (packet_network_id p))"
    "map_of ms ''peers'' = Some (JArray (map (peer_value C J) (packet_peers p)))"
    unfolding ms_def packet_base_members_def by simp_all
  have "load_each (peer_fromJSON C J) (map (peer_value C J) (packet_peers p)) = Some (packet_peers p)"
    using peer_json.load_array [of "(C, J)" "packet_peers p"] L ps by simp
  then show ?thesis
    unfolding peers_packet_fromJSON_def peers_packet_value_def ms_def [symmetric]
    using base m json_reads(15) [OF L m(1)] json_reads(15) [OF L m(3)] json_reads(9) [OF L m(2)]
      json_reads(2) [OF L m(2)] json_reads(2) [OF L m(4)] json_reads(5) [OF L m(4)] by simp
qed

interpretation peers_packet_json: json_format "\<lambda>(C, J). json_laws J" "\<lambda>(C, J). json_parse J"
  "\<lambda>(C, J) p. \<forall>q \<in> set (packet_peers p). readable_ip C (peer_address q)"
  "\<lambda>(C, J). peers_packet_toJSON C J" "\<lambda>(C, J). peers_packet_fromJSON C J"
  "\<lambda>(C, J). peers_packet_value C J"
  by unfold_locales (auto simp: peers_packet_prints peers_packet_loads json_prints)

definition keepalive_toJSON :: "'z json_scheme \<Rightarrow> packet_keepalive_t \<Rightarrow> json_event list" where
  "keepalive_toJSON J p =
     StartObject #
       (packet_base_toJSON J p @ KEY_TO_JSON J ''peer_id'' (keepalive_peer_id p)) @
     [EndObject]"

definition keepalive_fromJSON :: "'z json_scheme \<Rightarrow> JSONValue \<Rightarrow> packet_keepalive_t option" where
  "keepalive_fromJSON J j =
     do { (t, v) \<leftarrow> packet_base_fromJSON J j;
          i \<leftarrow> LOAD_KEY_FROM_JSON J j ''peer_id'';
          Some \<lparr>packet_type = t, packet_version = v, keepalive_peer_id = i\<rparr> }"

definition keepalive_value :: "'z json_scheme \<Rightarrow> packet_keepalive_t \<Rightarrow> JSONValue" where
  "keepalive_value J p =
     JObject (packet_base_members p @ [(''peer_id'', key_value J (keepalive_peer_id p))])"

lemma keepalive_prints: "json_laws J \<Longrightarrow> prints (keepalive_toJSON J p) (keepalive_value J p)"
  unfolding keepalive_toJSON_def keepalive_value_def
  by (rule json_put_network packet_base_prints | assumption | simp)+

interpretation keepalive_json: json_format json_laws json_parse "\<lambda>_ _. True"
  keepalive_toJSON keepalive_fromJSON keepalive_value
  by (unfold_locales, erule (1) json_prints, erule keepalive_prints)
    (simp add: keepalive_fromJSON_def keepalive_value_def packet_base_first,
     simp add: packet_base_members_def json)

definition data_packet_toJSON :: "'z json_scheme \<Rightarrow> packet_data_t \<Rightarrow> json_event list" where
  "data_packet_toJSON J p =
     StartObject #
       (packet_base_toJSON J p @ KEY_TO_JSON J ''network_id'' (data_network_id p) @
        (Key ''payload'' # [String (to_hex J (payload p))])) @
     [EndObject]"

definition data_packet_fromJSON :: "'z json_scheme \<Rightarrow> JSONValue \<Rightarrow> packet_data_t option" where
  "data_packet_fromJSON J j =
     do { (t, v) \<leftarrow> packet_base_fromJSON J j;
          n \<leftarrow> LOAD_KEY_FROM_JSON J j ''network_id'';
          member_or_throw J j ''payload'';
          s \<leftarrow> get_json_string_member J j ''payload'';
          bs \<leftarrow> from_hex J s;
          Some \<lparr>packet_type = t, packet_version = v, data_network_id = n, payload = bs\<rparr> }"

definition data_packet_value :: "'z json_scheme \<Rightarrow> packet_data_t \<Rightarrow> JSONValue" where
  "data_packet_value J p =
     JObject (packet_base_members p @
       [(''network_id'', key_value J (data_network_id p)), (''payload'', JString (to_hex J (payload p)))])"

lemma data_packet_prints: "json_laws J \<Longrightarrow> prints (data_packet_toJSON J p) (data_packet_value J p)"
  unfolding data_packet_toJSON_def data_packet_value_def
  by (rule json_put_network packet_base_prints | assumption | simp)+

interpretation data_packet_json: json_format json_laws json_parse "\<lambda>_ _. True"
  data_packet_toJSON data_packet_fromJSON data_packet_value
  by (unfold_locales, erule (1) json_prints, erule data_packet_prints)
    (simp add: data_packet_fromJSON_def data_packet_value_def packet_base_first,
     simp add: packet_base_members_def json)

section \<open>Errors\<close>

text \<open>\<open>Error::toJSON\<close>; there is no reader.\<close>

definition Error_toJSON :: "Error \<Rightarrow> json_event list" where
  "Error_toJSON e =
     StartObject #
       (Key ''error'' #
          (StartObject #
             ((Key ''code'' # [Int64 (word_of_int (int_of_code (m_error_code e)))]) @
              (Key ''message'' # [String (Error_to_string e)])) @
           [EndObject])) @
     [EndObject]"

lemma Error_prints:
  "prints (Error_toJSON e)
     (JObject [(''error'', JObject
        [(''code'', JNumber (sint (word_of_int (int_of_code (m_error_code e)) :: u64))),
         (''message'', JString (Error_to_string e))])])"
  unfolding Error_toJSON_def by (rule prints_object prints_cat prints_member prints_intros | simp)+

end
