(* ===== verification/Upnp.thy ===== *)
theory Upnp
  imports Utilities Error_Codes
begin

text \<open>
  The port forward that a listening socket asks of the gateway (\<open>src/networking/upnp.cpp\<close>): found
  and added by the constructor, removed by the destructor. The UPnP library is the parameter
  record \<open>upnp_library\<close>: \<open>'d\<close> is the list of devices it discovers, \<open>'g\<close> the gateway it chooses,
  \<open>'w\<close> the network with the state of the gateways. \<open>upnp_laws\<close> says what adding and deleting a
  mapping do to the ports that the gateway forwards.
\<close>

record ('d, 'g, 'w) upnp_library =
  upnpDiscover :: "int \<Rightarrow> bool \<Rightarrow> 'w \<Rightarrow> 'd option \<times> int"
  UPNP_GetValidIGD :: "'d \<Rightarrow> 'w \<Rightarrow> int \<times> 'g \<times> string"
  UPNP_AddPortMapping :: "'g \<Rightarrow> string \<Rightarrow> string \<Rightarrow> string \<Rightarrow> string \<Rightarrow> 'w \<Rightarrow> int \<times> 'w"
  UPNP_DeletePortMapping :: "'g \<Rightarrow> string \<Rightarrow> 'w \<Rightarrow> int \<times> 'w"
  UPNP_GetExternalIPAddress :: "'g \<Rightarrow> 'w \<Rightarrow> int \<times> string"
  no_gateway :: 'g

record 'g UPNP =
  up_lan_address :: string
  up_service_name :: string
  up_wan_address :: string
  up_v6 :: bool
  up_active :: bool
  up_timeout :: int
  up_port :: u16
  up_gateway :: 'g

definition upnp_add ::
  "('d, 'g, 'w, 'z) upnp_library_scheme \<Rightarrow> 'g UPNP \<Rightarrow> 'w \<Rightarrow> ErrorCode \<times> 'w" where
  "upnp_add U u w =
     (let port_string = dec (unat (up_port u));
          (result, w) = UPNP_AddPortMapping U (up_gateway u) port_string port_string (up_lan_address u)
                          (up_service_name u) w in
      if result = 0 then (SUCCESS, w) else (UPNP_FAILURE, w))"

definition upnp_del ::
  "('d, 'g, 'w, 'z) upnp_library_scheme \<Rightarrow> 'g UPNP \<Rightarrow> 'w \<Rightarrow> ErrorCode \<times> 'w" where
  "upnp_del U u w =
     (if \<not> up_active u then (UPNP_NOT_SUPPORTED, w)
      else
        let port_string = dec (unat (up_port u));
            (result, w) = UPNP_DeletePortMapping U (up_gateway u) port_string w in
        if result = 0 then (SUCCESS, w) else (UPNP_FAILURE, w))"

definition upnp_get_external_address ::
  "('d, 'g, 'w, 'z) upnp_library_scheme \<Rightarrow> 'g UPNP \<Rightarrow> 'w \<Rightarrow> ErrorCode \<times> string" where
  "upnp_get_external_address U u w =
     (if \<not> up_active u then (UPNP_NOT_SUPPORTED, [])
      else
        let (result, wan_address) = UPNP_GetExternalIPAddress U (up_gateway u) w in
        if result = 0 then (SUCCESS, wan_address) else (UPNP_FAILURE, []))"

text \<open>The last two steps of the constructor, with a gateway found: the mapping and the address.\<close>

definition upnp_setup ::
  "('d, 'g, 'w, 'z) upnp_library_scheme \<Rightarrow> 'g UPNP \<Rightarrow> 'w \<Rightarrow> 'g UPNP \<times> 'w" where
  "upnp_setup U u w =
     (let (err, w) = upnp_add U u w;
          u = (if \<not> failed err then u\<lparr>up_active := True\<rparr> else u);
          (err, wan_address) = upnp_get_external_address U u w in
      (if \<not> failed err then u\<lparr>up_wan_address := wan_address\<rparr> else u, w))"

text \<open>The constructor; it never fails, it leaves the object inactive.\<close>

definition upnp_make ::
  "('d, 'g, 'w, 'z) upnp_library_scheme \<Rightarrow> u16 \<Rightarrow> string \<Rightarrow> int \<Rightarrow> bool \<Rightarrow> 'w \<Rightarrow> 'g UPNP \<times> 'w" where
  "upnp_make U port service_name timeout v6 w =
     (let u = \<lparr>up_lan_address = [], up_service_name = service_name, up_wan_address = [], up_v6 = v6,
               up_active = False, up_timeout = timeout, up_port = port, up_gateway = no_gateway U\<rparr> in
      case upnpDiscover U timeout v6 w of
        (None, _) \<Rightarrow> (u, w)
      | (Some device_list, result) \<Rightarrow>
          if result \<noteq> 0 then (u, w)
          else
            let (result, gateway, lan_address) = UPNP_GetValidIGD U device_list w;
                u = u\<lparr>up_gateway := gateway\<rparr> in
            if result \<noteq> 1 then (u, w)
            else upnp_setup U (u\<lparr>up_lan_address := lan_address\<rparr>) w)"

definition upnp_destroy ::
  "('d, 'g, 'w, 'z) upnp_library_scheme \<Rightarrow> 'g UPNP \<Rightarrow> 'w \<Rightarrow> 'g UPNP \<times> 'w" where
  "upnp_destroy U u w =
     (let (err, w) = upnp_del U u w in (if \<not> failed err then u\<lparr>up_active := False\<rparr> else u, w))"

section \<open>What is forwarded\<close>


text \<open>
  \<open>forwards w\<close>: the gateways and ports of the network \<open>w\<close> that have a mapping. A call that
  reports success has made or removed the mapping, any other has changed nothing.
\<close>

definition upnp_laws ::
  "('d, 'g, 'w, 'z) upnp_library_scheme \<Rightarrow> ('w \<Rightarrow> ('g \<times> string) set) \<Rightarrow> bool" where
  "upnp_laws U forwards \<longleftrightarrow>
     (\<forall>g p q l n w r w'. UPNP_AddPortMapping U g p q l n w = (r, w') \<longrightarrow>
        forwards w' = (if r = 0 then insert (g, p) (forwards w) else forwards w)) \<and>
     (\<forall>g p w r w'. UPNP_DeletePortMapping U g p w = (r, w') \<longrightarrow>
        forwards w' = (if r = 0 then forwards w - {(g, p)} else forwards w))"

abbreviation mapping_of :: "'g UPNP \<Rightarrow> 'g \<times> string" where
  "mapping_of u \<equiv> (up_gateway u, dec (unat (up_port u)))"

lemma upnp_lawsD:
  assumes "upnp_laws U forwards"
  shows "UPNP_AddPortMapping U g p q l n w = (r, w') \<Longrightarrow>
      forwards w' = (if r = 0 then insert (g, p) (forwards w) else forwards w)"
    and "UPNP_DeletePortMapping U g p w = (r, w') \<Longrightarrow>
      forwards w' = (if r = 0 then forwards w - {(g, p)} else forwards w)"
  using assms unfolding upnp_laws_def by blast+

lemma upnp_add_result:
  assumes U: "upnp_laws U forwards" and r: "upnp_add U u w = (err, w')"
  shows "forwards w' = (if failed err then forwards w else insert (mapping_of u) (forwards w))"
proof -
  let ?p = "dec (unat (up_port u))"
  obtain res w1 where c: "UPNP_AddPortMapping U (up_gateway u) ?p ?p (up_lan_address u)
      (up_service_name u) w = (res, w1)" by fastforce
  have "w' = w1" "err = (if res = 0 then SUCCESS else UPNP_FAILURE)"
    using r c by (simp_all add: upnp_add_def Let_def split: if_splits)
  then show ?thesis using upnp_lawsD(1) [OF U c] by (cases "res = 0") simp_all
qed

lemma upnp_del_result:
  assumes U: "upnp_laws U forwards" and r: "upnp_del U u w = (err, w')"
  shows "forwards w' = (if failed err then forwards w else forwards w - {mapping_of u})"
    and "\<not> up_active u \<Longrightarrow> w' = w \<and> failed err"
proof -
  obtain res w1 where c: "UPNP_DeletePortMapping U (up_gateway u) (dec (unat (up_port u))) w = (res, w1)"
    by fastforce
  have "up_active u \<Longrightarrow> w' = w1 \<and> err = (if res = 0 then SUCCESS else UPNP_FAILURE)"
    "\<not> up_active u \<Longrightarrow> w' = w \<and> err = UPNP_NOT_SUPPORTED"
    using r c by (simp_all add: upnp_del_def Let_def split: if_splits)
  then show "forwards w' = (if failed err then forwards w else forwards w - {mapping_of u})"
    using upnp_lawsD(2) [OF U c] by (cases "up_active u"; cases "res = 0") simp_all
  show "\<not> up_active u \<Longrightarrow> w' = w \<and> failed err" using r by (auto simp: upnp_del_def)
qed

text \<open>The object is active exactly when it has added its mapping, and knows an address only then.\<close>

lemma upnp_setup_result:
  assumes U: "upnp_laws U forwards" and r: "upnp_setup U u w = (u', w')"
    and u: "\<not> up_active u" "up_wan_address u = []"
  shows "up_port u' = up_port u \<and>
    forwards w' = (if up_active u' then insert (mapping_of u') (forwards w) else forwards w) \<and>
    (up_wan_address u' \<noteq> [] \<longrightarrow> up_active u')"
proof -
  obtain err w1 where a: "upnp_add U u w = (err, w1)" by fastforce
  show ?thesis
  proof (cases "failed err")
    case True
    then have "u' = u" "w' = w1"
      using r a u by (simp_all add: upnp_setup_def Let_def upnp_get_external_address_def)
    then show ?thesis using upnp_add_result [OF U a] True u by simp
  next
    case False
    obtain err2 wan where x: "upnp_get_external_address U (u\<lparr>up_active := True\<rparr>) w1 = (err2, wan)" by fastforce
    have "w' = w1" "u' = (if \<not> failed err2 then u\<lparr>up_active := True, up_wan_address := wan\<rparr>
        else u\<lparr>up_active := True\<rparr>)"
      using r a x False unfolding upnp_setup_def Let_def by (cases "failed err2"; simp)+
    then show ?thesis using upnp_add_result [OF U a] False by (cases "failed err2") simp_all
  qed
qed

lemma upnp_make_result:
  assumes U: "upnp_laws U forwards" and r: "upnp_make U port name timeout v6 w = (u, w')"
  shows "up_port u = port \<and>
    forwards w' = (if up_active u then insert (mapping_of u) (forwards w) else forwards w) \<and>
    (up_wan_address u \<noteq> [] \<longrightarrow> up_active u)"
proof -
  define u0 where "u0 = \<lparr>up_lan_address = [], up_service_name = name, up_wan_address = [], up_v6 = v6,
    up_active = False, up_timeout = timeout, up_port = port, up_gateway = no_gateway U\<rparr>"
  obtain devices res where d: "upnpDiscover U timeout v6 w = (devices, res)" by fastforce
  consider "devices = None \<or> res \<noteq> 0" | dl where "devices = Some dl" "res = 0" by (cases devices) auto
  then show ?thesis
  proof cases
    case 1
    then have "u = u0" "w' = w" using r d by (auto simp: upnp_make_def u0_def Let_def split: option.splits)
    then show ?thesis by (simp add: u0_def)
  next
    case (2 dl)
    obtain igd g lan where i: "UPNP_GetValidIGD U dl w = (igd, g, lan)" by (cases "UPNP_GetValidIGD U dl w")
    have r': "(u, w') = (if igd \<noteq> 1 then (u0\<lparr>up_gateway := g\<rparr>, w)
        else upnp_setup U (u0\<lparr>up_gateway := g, up_lan_address := lan\<rparr>) w)"
      using r d 2 i unfolding upnp_make_def u0_def [symmetric] Let_def by simp
    show ?thesis
    proof (cases "igd = 1")
      case True
      then have "upnp_setup U (u0\<lparr>up_gateway := g, up_lan_address := lan\<rparr>) w = (u, w')" using r' by simp
      from upnp_setup_result [OF U this] show ?thesis by (simp add: u0_def)
    next
      case False
      then show ?thesis using r' by (simp add: u0_def)
    qed
  qed
qed

end
