(* ===== verification/Pub_Sub.thy ===== *)
theory Pub_Sub
  imports Sockets Upnp Config
begin

text \<open>
  The notifier of the program, \<open>ZMQPublisher\<close> and \<open>ZMQSubscriber\<close>: the publisher's queue and the
  thread that empties it, the subscriber's thread and its queue. The calls of ZeroMQ that only
  they make extend the record \<open>zmq\<close>. The section at the end puts the two together over a socket
  that delivers what is sent (\<open>link_laws\<close>).
\<close>

section \<open>The library\<close>

record 'k zmq_subscriptions = "'k zmq" +
  zmq_subscribe :: "bytes \<Rightarrow> 'k \<Rightarrow> 'k"
  zmq_unsubscribe :: "bytes \<Rightarrow> 'k \<Rightarrow> 'k"
  zmq_disconnect :: "string \<Rightarrow> 'k \<Rightarrow> bool \<times> 'k"

text \<open>The parts of a message that the envelope makes.\<close>

definition subject_msg :: "('k, 'y) zmq_scheme \<Rightarrow> zmq_message_envelope_t \<Rightarrow> bytes" where
  "subject_msg Z m = hash_bytes Z (env_subject m)"

definition payload_msg :: "zmq_message_envelope_t \<Rightarrow> bytes" where
  "payload_msg m = env_payload m"

section \<open>The publisher\<close>

record 'g ZMQPublisher =
  zp_port :: u16
  zp_running :: bool
  zp_monitor :: zmq_connection_monitor
  zp_outgoing :: "zmq_message_envelope_t ThreadSafeQueue"
  zp_upnp :: "'g UPNP option"

definition publisher_make :: "u16 \<Rightarrow> 'g ZMQPublisher" where
  "publisher_make bind_port =
     \<lparr>zp_port = bind_port, zp_running = False, zp_monitor = monitor_make, zp_outgoing = [], zp_upnp = None\<rparr>"

definition publisher_bind ::
  "('k, 'y) zmq_scheme \<Rightarrow> ('d, 'g, 'w, 'z) upnp_library_scheme \<Rightarrow> 'g ZMQPublisher \<Rightarrow> 'k \<Rightarrow> 'w \<Rightarrow>
     ErrorCode \<times> 'g ZMQPublisher \<times> 'k \<times> 'w" where
  "publisher_bind Z U P k w =
     (let (ok, k) = zmq_bind Z (zp_port P) k in
      if \<not> ok then (ZMQ_BIND_ERROR, P, k, w)
      else if \<not> zp_running P then
        let (u, w) = upnp_make U (zp_port P) (PROJECT_NAME @ '': ZMQ Publisher'') 1000 False w in
        (SUCCESS, P\<lparr>zp_upnp := Some u, zp_running := True\<rparr>, k, w)
      else (SUCCESS, P, k, w))"

definition publisher_connected :: "'g ZMQPublisher \<Rightarrow> string list" where
  "publisher_connected P = tss_each (m_connected_peers (zp_monitor P)) (\<lambda>elem results. results @ [elem]) []"

definition publisher_external_address :: "'g ZMQPublisher \<Rightarrow> string" where
  "publisher_external_address P = (case zp_upnp P of None \<Rightarrow> [] | Some u \<Rightarrow> up_wan_address u)"

definition publisher_upnp_active :: "'g ZMQPublisher \<Rightarrow> bool" where
  "publisher_upnp_active P = (case zp_upnp P of None \<Rightarrow> False | Some u \<Rightarrow> up_active u)"

definition publisher_send :: "zmq_message_envelope_t \<Rightarrow> 'g ZMQPublisher \<Rightarrow> 'g ZMQPublisher" where
  "publisher_send message P =
     (if env_payload message \<noteq> [] \<and> zp_running P then P\<lparr>zp_outgoing := tsq_push message (zp_outgoing P)\<rparr>
      else P)"

text \<open>
  One message of \<open>outgoing_thread\<close>, and the inner loop, which goes on until the queue is empty or
  the publisher has been stopped. A send that throws is passed over.
\<close>

definition publisher_outgoing ::
  "('k, 'y) zmq_scheme \<Rightarrow> 'g ZMQPublisher \<Rightarrow> 'k \<Rightarrow> 'g ZMQPublisher \<times> 'k" where
  "publisher_outgoing Z P k =
     (case tsq_pop (zp_outgoing P) of
        None \<Rightarrow> (P, k)
      | Some (message, rest) \<Rightarrow>
          let P = P\<lparr>zp_outgoing := rest\<rparr> in
          if env_payload message = [] then (P, k)
          else (P, snd (zmq_send Z [subject_msg Z message, payload_msg message] k)))"

function publisher_drain ::
  "('k, 'y) zmq_scheme \<Rightarrow> 'g ZMQPublisher \<Rightarrow> 'k \<Rightarrow> 'g ZMQPublisher \<times> 'k" where
  "publisher_drain Z P k =
     (if tsq_empty (zp_outgoing P) then (P, k)
      else if \<not> zp_running P then (P, k)
      else let (P', k') = publisher_outgoing Z P k in publisher_drain Z P' k')"
  by pat_completeness auto
termination
  by (relation "measure (\<lambda>(Z, P, k). length (zp_outgoing P))")
    (auto simp: publisher_outgoing_def tsq_pop_def tsq_empty_def Let_def split: list.splits if_splits)

declare publisher_drain.simps [simp del]

definition publisher_destroy ::
  "('d, 'g, 'w, 'z) upnp_library_scheme \<Rightarrow> 'g ZMQPublisher \<Rightarrow> 'w \<Rightarrow> 'g ZMQPublisher \<times> 'w" where
  "publisher_destroy U P w =
     (let P = P\<lparr>zp_running := False\<rparr> in
      case zp_upnp P of
        None \<Rightarrow> (P, w)
      | Some u \<Rightarrow> let (_, w) = upnp_destroy U u w in (P\<lparr>zp_upnp := None\<rparr>, w))"

section \<open>The subscriber\<close>

record ZMQSubscriber =
  zu_identity :: crypto_hash_t
  zu_running :: bool
  zu_monitor :: zmq_connection_monitor
  zu_incoming :: "zmq_message_envelope_t ThreadSafeQueue"

definition subscriber_make :: "crypto_hash_t \<Rightarrow> ZMQSubscriber" where
  "subscriber_make random_id =
     \<lparr>zu_identity = random_id, zu_running = False, zu_monitor = monitor_make, zu_incoming = []\<rparr>"

definition subscriber_connect ::
  "('k, 'y) zmq_scheme \<Rightarrow> string \<Rightarrow> u16 \<Rightarrow> ZMQSubscriber \<Rightarrow> 'k \<Rightarrow> ErrorCode \<times> ZMQSubscriber \<times> 'k" where
  "subscriber_connect Z host port S k =
     (let (ok, k) = zmq_connect Z (''tcp://'' @ host @ '':'' @ dec (unat port)) k in
      if \<not> ok then (ZMQ_CONNECT_ERROR, S, k)
      else if \<not> zmq_wait_connected Z k then (ZMQ_CONNECT_ERROR, S, k)
      else (SUCCESS, S\<lparr>zu_running := True\<rparr>, k))"

definition subscriber_connected :: "ZMQSubscriber \<Rightarrow> string list" where
  "subscriber_connected S = tss_each (m_connected_peers (zu_monitor S)) (\<lambda>elem results. results @ [elem]) []"

definition subscriber_disconnect ::
  "('k, 'y) zmq_subscriptions_scheme \<Rightarrow> string \<Rightarrow> u16 \<Rightarrow> 'k \<Rightarrow> 'k" where
  "subscriber_disconnect Z host port k =
     snd (zmq_disconnect Z (''tcp://'' @ host @ '':'' @ dec (unat port)) k)"

definition subscriber_is_connected :: "ZMQSubscriber \<Rightarrow> bool" where
  "subscriber_is_connected S \<longleftrightarrow> \<not> tss_empty (m_connected_peers (zu_monitor S))"

text \<open>One round of \<open>incoming_thread\<close>; \<open>None\<close> is an exception that is not ZeroMQ's.\<close>

definition subscriber_incoming ::
  "'z network_scheme \<Rightarrow> ('k, 'y) zmq_scheme \<Rightarrow> ZMQSubscriber \<Rightarrow> 'k \<Rightarrow> (ZMQSubscriber \<times> 'k) option" where
  "subscriber_incoming C Z S k =
     (case zmq_recv Z k of
        (Some [first, message], k) \<Rightarrow>
          if part_data message \<noteq> [] then
            do { subject \<leftarrow> hash_of_bytes Z (part_data first);
                 (host, _, _) \<leftarrow> normalize_host C (part_peer_address message);
                 let routable_msg =
                   (envelope_to C (zu_identity S) (part_data message))
                     \<lparr>env_subject := subject, env_peer_address := host\<rparr>;
                 Some (S\<lparr>zu_incoming := tsq_push routable_msg (zu_incoming S)\<rparr>, k) }
          else Some (S, k)
      | (_, k) \<Rightarrow> Some (S, k))"

definition subscriber_subscribe ::
  "('k, 'y) zmq_subscriptions_scheme \<Rightarrow> crypto_hash_t \<Rightarrow> 'k \<Rightarrow> 'k" where
  "subscriber_subscribe Z subject k = zmq_subscribe Z (hash_bytes Z subject) k"

definition subscriber_unsubscribe ::
  "('k, 'y) zmq_subscriptions_scheme \<Rightarrow> crypto_hash_t \<Rightarrow> 'k \<Rightarrow> 'k" where
  "subscriber_unsubscribe Z subject k = zmq_unsubscribe Z (hash_bytes Z subject) k"

section \<open>From the publisher to the subscriber\<close>

text \<open>
  A socket pair that loses nothing, seen from both ends: \<open>q k\<close> are the messages under way, which
  are received whole and in the order in which they were sent, from a host with a valid address.
\<close>

definition link_laws ::
  "'z network_scheme \<Rightarrow> ('k, 'y) zmq_scheme \<Rightarrow> ('k \<Rightarrow> bytes list list) \<Rightarrow> bool" where
  "link_laws C Z q \<longleftrightarrow>
     (\<forall>h. hash_of_bytes Z (hash_bytes Z h) = Some h) \<and>
     (\<forall>ps k. \<exists>k'. zmq_send Z ps k = (True, k') \<and> q k' = q k @ [ps]) \<and>
     (\<forall>k ps rest. q k = ps # rest \<longrightarrow>
        (\<exists>parts k'. zmq_recv Z k = (Some parts, k') \<and> map part_data parts = ps \<and> q k' = rest \<and>
           (\<forall>p \<in> set parts. normalize_host C (part_peer_address p) \<noteq> None)))"

lemma link_lawsD:
  assumes "link_laws C Z q"
  shows "hash_of_bytes Z (hash_bytes Z h) = Some h"
    and "\<exists>k'. zmq_send Z ps k = (True, k') \<and> q k' = q k @ [ps]"
    and "q k = ps # rest \<Longrightarrow> \<exists>parts k'. zmq_recv Z k = (Some parts, k') \<and> map part_data parts = ps \<and>
      q k' = rest \<and> (\<forall>p \<in> set parts. normalize_host C (part_peer_address p) \<noteq> None)"
  using assms unfolding link_laws_def by blast+

abbreviation published :: "('k, 'y) zmq_scheme \<Rightarrow> zmq_message_envelope_t list \<Rightarrow> bytes list list" where
  "published Z ms \<equiv> map (\<lambda>m. [subject_msg Z m, payload_msg m]) (filter (\<lambda>m. env_payload m \<noteq> []) ms)"

text \<open>The loop of the publisher hands everything over and empties the queue.\<close>

lemma publisher_drain_sends:
  assumes L: "link_laws C Z q" and r: "zp_running P" and d: "publisher_drain Z P k = (P', k')"
  shows "q k' = q k @ published Z (zp_outgoing P) \<and> P' = P\<lparr>zp_outgoing := []\<rparr>"
  using L r d
proof (induction Z P k arbitrary: P' k' rule: publisher_drain.induct [case_names step])
  case (step Z P k)
  show ?case
  proof (cases "zp_outgoing P")
    case Nil
    then show ?thesis using step.prems
      by (subst (asm) publisher_drain.simps) (auto simp: tsq_empty_def)
  next
    case (Cons m ms)
    obtain P1 k1 where o: "publisher_outgoing Z P k = (P1, k1)" by fastforce
    have rest: "publisher_drain Z P1 k1 = (P', k')"
      using step.prems Cons o by (subst (asm) publisher_drain.simps) (simp add: tsq_empty_def)
    have P1: "P1 = P\<lparr>zp_outgoing := ms\<rparr>" "q k1 = q k @ published Z [m]"
      using o Cons link_lawsD(2) [OF step.prems(1), of "[subject_msg Z m, payload_msg m]" k] 
      by (auto simp: publisher_outgoing_def tsq_pop_def Let_def split: if_splits)
    have "q k' = q k1 @ published Z (zp_outgoing P1) \<and> P' = P1\<lparr>zp_outgoing := []\<rparr>"
      using step.IH [OF _ _ o [symmetric] refl] step.prems Cons rest P1 by (simp add: tsq_empty_def)
    then show ?thesis using P1 Cons by simp
  qed
qed

text \<open>Rounds of the subscriber, one for each message.\<close>

fun subscriber_rounds ::
  "'z network_scheme \<Rightarrow> ('k, 'y) zmq_scheme \<Rightarrow> nat \<Rightarrow> ZMQSubscriber \<Rightarrow> 'k \<Rightarrow> (ZMQSubscriber \<times> 'k) option" where
  "subscriber_rounds C Z 0 S k = Some (S, k)"
| "subscriber_rounds C Z (Suc n) S k =
     do { (S, k) \<leftarrow> subscriber_incoming C Z S k; subscriber_rounds C Z n S k }"

abbreviation news :: "zmq_message_envelope_t list \<Rightarrow> (crypto_hash_t \<times> bytes) list" where
  "news ms \<equiv> map (\<lambda>m. (env_subject m, env_payload m)) ms"

lemma subscriber_incoming_receives:
  assumes L: "link_laws C Z q" and k: "q k = [subject_msg Z m, payload_msg m] # rest"
    and m: "env_payload m \<noteq> []"
  shows "\<exists>S' k'. subscriber_incoming C Z S k = Some (S', k') \<and> q k' = rest \<and>
    news (zu_incoming S') = news (zu_incoming S) @ news [m]"
proof -
  obtain parts k' where p: "zmq_recv Z k = (Some parts, k')" "q k' = rest"
      "map part_data parts = [subject_msg Z m, payload_msg m]"
      "\<forall>p \<in> set parts. normalize_host C (part_peer_address p) \<noteq> None"
    using link_lawsD(3) [OF L k] by (elim exE conjE) (rule that)
  then obtain a b where ab: "parts = [a, b]" "part_data a = subject_msg Z m" "part_data b = payload_msg m"
    by auto
  obtain h pt hs where "normalize_host C (part_peer_address b) = Some (h, pt, hs)"
    using p(4) ab by fastforce
  then show ?thesis using p ab m link_lawsD(1) [OF L]
    by (auto simp: subscriber_incoming_def subject_msg_def payload_msg_def envelope_to_def envelope_def
        tsq_push_def Let_def)
qed

lemma subscriber_rounds_receive:
  assumes L: "link_laws C Z q"
  shows "q k = published Z ms @ rest \<Longrightarrow>
    \<exists>S' k'. subscriber_rounds C Z (length (published Z ms)) S k = Some (S', k') \<and> q k' = rest \<and>
      news (zu_incoming S') = news (zu_incoming S) @ news (filter (\<lambda>m. env_payload m \<noteq> []) ms)"
proof (induction ms arbitrary: S k)
  case (Cons m ms)
  show ?case
  proof (cases "env_payload m = []")
    case False
    then obtain S1 k1 where s: "subscriber_incoming C Z S k = Some (S1, k1)" "q k1 = published Z ms @ rest"
        "news (zu_incoming S1) = news (zu_incoming S) @ news [m]"
      using subscriber_incoming_receives [OF L, of k m "published Z ms @ rest" S] Cons.prems by auto
    then show ?thesis using Cons.IH [OF s(2), of S1] False by (auto simp: s(1))
  qed (use Cons in simp)
qed simp

lemma publisher_send_all:
  "zp_running P \<Longrightarrow>
   foldl (\<lambda>P m. publisher_send m P) P ms =
     P\<lparr>zp_outgoing := zp_outgoing P @ filter (\<lambda>m. env_payload m \<noteq> []) ms\<rparr>"
  by (induction ms arbitrary: P) (simp_all add: publisher_send_def tsq_push_def)

end
