(* ===== verification/Lmdb_Typed.thy ===== *)
theory Lmdb_Typed
  imports Lmdb_Cursor Wire
begin

text \<open>
  The overloads of the LMDB wrapper that take keys and values as objects, in the order of the
  header: those of \<open>LMDBDatabase\<close>, \<open>LMDBTransaction\<close> and \<open>LMDBCursor\<close>, and the writing
  operations of a cursor. An object is written with its \<open>serialize\<close> method and read with its
  \<open>deserialize\<close> method, the arguments \<open>wk\<close>, \<open>wv\<close> and \<open>rk\<close>, \<open>rv\<close> of the definitions; a
  \<open>uint64_t\<close> key is written big-endian. The interface \<open>typed_store\<close> says what a client of the
  typed operations can rely on.
\<close>

section \<open>Databases\<close>

definition db_del_key where
  "db_del_key (L :: ('e, 't, 'y) lmdb_scheme) wk D key = db_del L D (wk key)"

definition db_del_uint64 where
  "db_del_uint64 (C :: 'z codec_scheme) (L :: ('e, 't, 'y) lmdb_scheme) D key = db_del L D (w_uint64 C key)"

definition db_del_key_value where
  "db_del_key_value (L :: ('e, 't, 'y) lmdb_scheme) wk wv D key v = db_del_value L D (wk key) (wv v)"

definition db_del_uint64_bytes where
  "db_del_uint64_bytes (C :: 'z codec_scheme) (L :: ('e, 't, 'y) lmdb_scheme) D key v =
     db_del_value L D (w_uint64 C key) v"

definition db_del_uint64_value where
  "db_del_uint64_value (C :: 'z codec_scheme) (L :: ('e, 't, 'y) lmdb_scheme) wv D key v =
     db_del_uint64_bytes C L D key (wv v)"

definition db_exists_key where
  "db_exists_key (L :: ('e, 't, 'y) lmdb_scheme) wk D key = db_exists L D (wk key)"

definition db_exists_uint64 where
  "db_exists_uint64 (C :: 'z codec_scheme) (L :: ('e, 't, 'y) lmdb_scheme) D key =
     db_exists L D (w_uint64 C key)"

definition db_get_key where
  "db_get_key (L :: ('e, 't, 'y) lmdb_scheme) wk D key E =
     (case db_get L D (wk key) E of
        (Thrown, E) \<Rightarrow> (Thrown, E)
      | (Returned (err, bs), E) \<Rightarrow> (Returned (if failed err then (err, []) else (err, bs)), E))"

definition db_get_key_value where
  "db_get_key_value (L :: ('e, 't, 'y) lmdb_scheme) wk rv D key = db_get_value L rv D (wk key)"

definition db_get_uint64 where
  "db_get_uint64 (C :: 'z codec_scheme) (L :: ('e, 't, 'y) lmdb_scheme) D key = db_get L D (w_uint64 C key)"

definition db_get_uint64_value where
  "db_get_uint64_value (C :: 'z codec_scheme) (L :: ('e, 't, 'y) lmdb_scheme) rv D key E =
     (case db_get_uint64 C L D key E of
        (Thrown, E) \<Rightarrow> (Thrown, E)
      | (Returned (err, bs), E) \<Rightarrow>
          if failed err then (Returned (err, None), E)
          else (case rv bs of
                  None \<Rightarrow> (Thrown, E)
                | Some (v, _) \<Rightarrow> (Returned (err, Some v), E)))"

definition db_put_key_value where
  "db_put_key_value (L :: ('e, 't, 'y) lmdb_scheme) wk wv D key v flags =
     db_put L D (wk key) (wv v) flags"

definition db_put_uint64 where
  "db_put_uint64 (C :: 'z codec_scheme) (L :: ('e, 't, 'y) lmdb_scheme) D key v flags =
     db_put L D (w_uint64 C key) v flags"

definition db_put_uint64_value where
  "db_put_uint64_value (C :: 'z codec_scheme) (L :: ('e, 't, 'y) lmdb_scheme) wv D key v flags =
     db_put_uint64 C L D key (wv v) flags"

section \<open>Transactions\<close>

definition txn_del_key where
  "txn_del_key (L :: ('e, 't, 'y) lmdb_scheme) wk key T = txn_del L (wk key) T"

definition txn_del_key_value where
  "txn_del_key_value (L :: ('e, 't, 'y) lmdb_scheme) wk wv key v T = txn_del_value L (wk key) (wv v) T"

definition txn_del_uint64 where
  "txn_del_uint64 (C :: 'z codec_scheme) (L :: ('e, 't, 'y) lmdb_scheme) key T =
     txn_del L (w_uint64 C key) T"

definition txn_del_uint64_bytes where
  "txn_del_uint64_bytes (C :: 'z codec_scheme) (L :: ('e, 't, 'y) lmdb_scheme) key v T =
     txn_del_value L (w_uint64 C key) v T"

definition txn_del_uint64_value where
  "txn_del_uint64_value (C :: 'z codec_scheme) (L :: ('e, 't, 'y) lmdb_scheme) wv key v T =
     txn_del_uint64_bytes C L key (wv v) T"

definition txn_exists_key where
  "txn_exists_key (L :: ('e, 't, 'y) lmdb_scheme) wk key T = txn_exists L (wk key) T"

definition txn_exists_uint64 where
  "txn_exists_uint64 (C :: 'z codec_scheme) (L :: ('e, 't, 'y) lmdb_scheme) key T =
     txn_exists L (w_uint64 C key) T"

definition txn_get_key where
  "txn_get_key (L :: ('e, 't, 'y) lmdb_scheme) wk key T = txn_get L (wk key) T"

text \<open>\<open>get<Value>(key)\<close>: the outer \<open>None\<close> is the exception of the reader.\<close>

definition txn_get_key_value where
  "txn_get_key_value (L :: ('e, 't, 'y) lmdb_scheme) wk rv key T =
     (let (err, bs) = txn_get L (wk key) T in
      if failed err then Some (err, None) else map_option (\<lambda>(v, _). (err, Some v)) (rv bs))"

definition txn_get_uint64 where
  "txn_get_uint64 (C :: 'z codec_scheme) (L :: ('e, 't, 'y) lmdb_scheme) key T =
     txn_get L (w_uint64 C key) T"

definition txn_put_key where
  "txn_put_key (L :: ('e, 't, 'y) lmdb_scheme) wk key flags T = txn_put L (wk key) [] flags T"

definition txn_put_key_bytes where
  "txn_put_key_bytes (L :: ('e, 't, 'y) lmdb_scheme) wk key v flags T = txn_put L (wk key) v flags T"

definition txn_put_key_value where
  "txn_put_key_value (L :: ('e, 't, 'y) lmdb_scheme) wk wv key v flags T =
     txn_put L (wk key) (wv v) flags T"

definition txn_put_uint64 where
  "txn_put_uint64 (C :: 'z codec_scheme) (L :: ('e, 't, 'y) lmdb_scheme) key v flags T =
     txn_put L (w_uint64 C key) v flags T"

definition txn_put_uint64_value where
  "txn_put_uint64_value (C :: 'z codec_scheme) (L :: ('e, 't, 'y) lmdb_scheme) wv key v flags T =
     txn_put_uint64 C L key (wv v) flags T"

text \<open>\<open>reset\<close> calls \<open>mdb_txn_renew\<close>, as \<open>renew\<close> does; nothing calls \<open>mdb_txn_reset\<close>.\<close>

definition txn_reset ::
  "('e, 't, 'z) lmdb_scheme \<Rightarrow> 't LMDBTransaction option \<Rightarrow> ErrorCode \<times> 't LMDBTransaction option" where
  "txn_reset L T =
     (case T of
        None \<Rightarrow> (LMDB_BAD_TXN, T)
      | Some T \<Rightarrow>
          if \<not> txn_readonly T then (LMDB_BAD_TXN, Some T)
          else let (rc, t) = mdb_txn_renew L (txn_handle T) in (ErrorCode rc, Some (T\<lparr>txn_handle := t\<rparr>)))"

lemma txn_reset_renews: "txn_reset L T = txn_renew L T"
  by (simp add: txn_reset_def txn_renew_def)

section \<open>Cursors\<close>

text \<open>
  The remaining cursor calls of the library. A cursor writes into its transaction, so they take
  and return both. \<open>LMDBCursor\<close> has the pointer to the cursor, \<open>None\<close> for the null pointer.
\<close>

record ('e, 't, 'c) lmdb_cursor_writes = "('e, 't, 'c) lmdb_cursors" +
  mdb_cursor_count :: "'c \<Rightarrow> int \<times> nat"
  mdb_cursor_del :: "'t \<Rightarrow> 'c \<Rightarrow> u32 \<Rightarrow> int \<times> 't \<times> 'c"
  mdb_cursor_put :: "'t \<Rightarrow> 'c \<Rightarrow> bytes \<Rightarrow> bytes \<Rightarrow> u32 \<Rightarrow> int \<times> 't \<times> 'c"
  mdb_cursor_renew :: "'t \<Rightarrow> 'c \<Rightarrow> int \<times> 'c"

record 'c LMDBCursor =
  m_cursor :: "'c option"
  cur_readonly :: bool

definition cursor_make where
  "cursor_make (L :: ('e, 't, 'c, 'z) lmdb_cursors_scheme) T =
     map_option (\<lambda>c. \<lparr>m_cursor = Some c, cur_readonly = txn_readonly T\<rparr>) (txn_cursor L T)"

definition cursor_count ::
  "('e, 't, 'c, 'z) lmdb_cursor_writes_scheme \<Rightarrow> 'c LMDBCursor \<Rightarrow> ErrorCode \<times> nat" where
  "cursor_count L X =
     (case m_cursor X of
        None \<Rightarrow> (LMDB_ERROR, 0)
      | Some c \<Rightarrow> let (rc, n) = mdb_cursor_count L c in (ErrorCode rc, n))"

definition cursor_del ::
  "('e, 't, 'c, 'z) lmdb_cursor_writes_scheme \<Rightarrow> u32 \<Rightarrow> 't \<Rightarrow> 'c LMDBCursor \<Rightarrow>
     ErrorCode \<times> 't \<times> 'c LMDBCursor" where
  "cursor_del L flags t X =
     (case m_cursor X of
        None \<Rightarrow> (LMDB_ERROR, t, X)
      | Some c \<Rightarrow> let (rc, t, c) = mdb_cursor_del L t c flags in (ErrorCode rc, t, X\<lparr>m_cursor := Some c\<rparr>))"

text \<open>\<open>get(op)\<close> with no key; \<open>mdb_cursor_get\<close> sets the key.\<close>

definition cursor_get_op ::
  "('e, 't, 'c, 'z) lmdb_cursors_scheme \<Rightarrow> MDB_cursor_op \<Rightarrow> 'c LMDBCursor \<Rightarrow>
     (ErrorCode \<times> bytes \<times> bytes) \<times> 'c LMDBCursor" where
  "cursor_get_op L opn X =
     (case m_cursor X of
        None \<Rightarrow> ((LMDB_ERROR, [], []), X)
      | Some c \<Rightarrow>
          let (rc, k, v, c) = mdb_cursor_get L c opn [] in
          (if rc = 0 then (ErrorCode rc, k, v) else (ErrorCode rc, [], []), X\<lparr>m_cursor := Some c\<rparr>))"

text \<open>The typed forms of \<open>get\<close>; the outer \<open>None\<close> is the exception of a reader.\<close>

definition cursor_get_op_key where
  "cursor_get_op_key (L :: ('e, 't, 'c, 'z) lmdb_cursors_scheme) rk opn X =
     (let ((err, k, v), X) = cursor_get_op L opn X in
      if failed err then Some ((err, None), X)
      else map_option (\<lambda>(key, _). ((err, Some (key, v)), X)) (rk k))"

definition cursor_get_op_key_value where
  "cursor_get_op_key_value (L :: ('e, 't, 'c, 'z) lmdb_cursors_scheme) rk rv opn X =
     (let ((err, k, v), X) = cursor_get_op L opn X in
      if failed err then Some ((err, None), X)
      else do { (key, _) \<leftarrow> rk k; (x, _) \<leftarrow> rv v; Some ((err, Some (key, x)), X) })"

definition cursor_get_key_value where
  "cursor_get_key_value (L :: ('e, 't, 'c, 'z) lmdb_cursors_scheme) wk rk rv key opn c =
     (let ((err, k, v), c) = cursor_get L (wk key) opn c in
      if failed err then Some ((err, None), c)
      else do { (key, _) \<leftarrow> rk k; (x, _) \<leftarrow> rv v; Some ((err, Some (key, x)), c) })"

definition cursor_get_uint64_bytes where
  "cursor_get_uint64_bytes (C :: 'y codec_scheme) (L :: ('e, 't, 'c, 'z) lmdb_cursors_scheme) key opn c =
     (let ((err, k, v), c) = cursor_get L (w_uint64 C key) opn c in
      if failed err then Some ((err, None), c)
      else map_option (\<lambda>(key, _). ((err, Some (key, v)), c)) (r_uint64 C k))"

text \<open>
  \<open>get_all\<close>: the outer \<open>None\<close> is a loop that does not end, \<open>Thrown\<close> a key or a value that
  cannot be read.
\<close>

definition cursor_get_all_values where
  "cursor_get_all_values (L :: ('e, 't, 'c, 'z) lmdb_cursors_scheme) wk rk rv key c =
     map_option (\<lambda>(err, k, vs).
       if failed err then Returned (err, None)
       else (case rk k of
               None \<Rightarrow> Thrown
             | Some (fk, _) \<Rightarrow>
                 (case read_each rv vs of Thrown \<Rightarrow> Thrown | Returned xs \<Rightarrow> Returned (err, Some (fk, xs)))))
       (cursor_get_all L (wk key) c)"

definition cursor_get_all_uint64 where
  "cursor_get_all_uint64 (C :: 'y codec_scheme) (L :: ('e, 't, 'c, 'z) lmdb_cursors_scheme) key c =
     map_option (\<lambda>(err, k, vs).
       if failed err then Returned (err, None)
       else (case r_uint64 C k of
               None \<Rightarrow> Thrown
             | Some (fk, _) \<Rightarrow> Returned (err, Some (fk, vs))))
       (cursor_get_all L (w_uint64 C key) c)"

definition cursor_get_all_uint64_values where
  "cursor_get_all_uint64_values (C :: 'y codec_scheme) (L :: ('e, 't, 'c, 'z) lmdb_cursors_scheme) rv key c =
     map_option (\<lambda>r.
       case r of
         Thrown \<Rightarrow> Thrown
       | Returned (err, None) \<Rightarrow> Returned (err, None)
       | Returned (err, Some (fk, vs)) \<Rightarrow>
           (case read_each rv vs of Thrown \<Rightarrow> Thrown | Returned xs \<Rightarrow> Returned (err, Some (fk, xs))))
       (cursor_get_all_uint64 C L key c)"

text \<open>\<open>put\<close> does not look at the pointer: \<open>None\<close> is what the program has no meaning for.\<close>

definition cursor_put ::
  "('e, 't, 'c, 'z) lmdb_cursor_writes_scheme \<Rightarrow> bytes \<Rightarrow> bytes \<Rightarrow> u32 \<Rightarrow> 't \<Rightarrow> 'c LMDBCursor \<Rightarrow>
     (ErrorCode \<times> 't \<times> 'c LMDBCursor) option" where
  "cursor_put L key v flags t X =
     map_option (\<lambda>c. let (rc, t, c) = mdb_cursor_put L t c key v flags in
                     (ErrorCode rc, t, X\<lparr>m_cursor := Some c\<rparr>))
       (m_cursor X)"

definition cursor_put_key where
  "cursor_put_key (L :: ('e, 't, 'c, 'z) lmdb_cursor_writes_scheme) wk key flags =
     cursor_put L (wk key) [] flags"

definition cursor_put_key_bytes where
  "cursor_put_key_bytes (L :: ('e, 't, 'c, 'z) lmdb_cursor_writes_scheme) wk key v flags =
     cursor_put L (wk key) v flags"

definition cursor_put_key_value where
  "cursor_put_key_value (L :: ('e, 't, 'c, 'z) lmdb_cursor_writes_scheme) wk wv key v flags =
     cursor_put L (wk key) (wv v) flags"

definition cursor_put_uint64 where
  "cursor_put_uint64 (C :: 'y codec_scheme) (L :: ('e, 't, 'c, 'z) lmdb_cursor_writes_scheme) key v flags =
     cursor_put L (w_uint64 C key) v flags"

definition cursor_put_uint64_value where
  "cursor_put_uint64_value (C :: 'y codec_scheme) (L :: ('e, 't, 'c, 'z) lmdb_cursor_writes_scheme)
     wv key v flags =
     cursor_put_uint64 C L key (wv v) flags"

definition cursor_renew ::
  "('e, 't, 'c, 'z) lmdb_cursor_writes_scheme \<Rightarrow> 't \<Rightarrow> 'c LMDBCursor \<Rightarrow> ErrorCode \<times> 'c LMDBCursor" where
  "cursor_renew L t X =
     (case m_cursor X of
        None \<Rightarrow> (LMDB_ERROR, X)
      | Some c \<Rightarrow>
          if \<not> cur_readonly X then (LMDB_ERROR, X)
          else let (rc, c) = mdb_cursor_renew L t c in (ErrorCode rc, X\<lparr>m_cursor := Some c\<rparr>))"

text \<open>The destructor closes the cursor of a read-only transaction; the others die with theirs.\<close>

definition cursor_destroy :: "'c LMDBCursor \<Rightarrow> 'c LMDBCursor" where
  "cursor_destroy X = (if m_cursor X = None \<or> \<not> cur_readonly X then X else X\<lparr>m_cursor := None\<rparr>)"

section \<open>Typed tables\<close>

text \<open>
  A store whose keys and values are objects that are written unambiguously is a table of
  objects: \<open>table p s f\<close> says that the store \<open>p\<close> has the entries \<open>f\<close>.
\<close>

locale typed_store = kv_store lawful holds put del exists get
  for lawful :: "'p \<Rightarrow> bool" and holds :: "'p \<Rightarrow> 's \<Rightarrow> (bytes \<Rightarrow> bytes option) \<Rightarrow> bool"
    and put del exists get +
  fixes wk :: "'p \<Rightarrow> 'k \<Rightarrow> bytes" and wv :: "'p \<Rightarrow> 'v \<Rightarrow> bytes" and rv :: "'p \<Rightarrow> 'v reader"
  assumes key_law: "lawful p \<Longrightarrow> wk p k = wk p k' \<Longrightarrow> k = k'"
    and value_law: "lawful p \<Longrightarrow> rv p (wv p v) = Some (v, [])"
begin

definition table :: "'p \<Rightarrow> 's \<Rightarrow> ('k \<Rightarrow> 'v option) \<Rightarrow> bool" where
  "table p s f \<longleftrightarrow> (\<exists>m. holds p s m \<and> (\<forall>k. m (wk p k) = map_option (wv p) (f k)))"

lemma typed_put:
  assumes p: "lawful p" and s: "table p s f" and r: "put p (wk p k) (wv p v) s = Some (s', r)"
  shows "table p s' (if r = Returned SUCCESS then f(k \<mapsto> v) else f)"
proof -
  from s obtain m where m: "holds p s m" "\<forall>k. m (wk p k) = map_option (wv p) (f k)"
    unfolding table_def by blast
  have "holds p s' (if r = Returned SUCCESS then m(wk p k \<mapsto> wv p v) else m)"
    using put_law [OF p m(1) r] .
  then show ?thesis unfolding table_def using m(2) key_law [OF p]
    by (auto intro!: exI [of _ "if r = Returned SUCCESS then m(wk p k \<mapsto> wv p v) else m"])
qed

lemma typed_del:
  assumes p: "lawful p" and s: "table p s f" and r: "del p (wk p k) s = Some (s', r)"
  shows "table p s' (if r = Returned SUCCESS then f(k := None) else f) \<and>
    (r = Returned SUCCESS \<longrightarrow> f k \<noteq> None)"
proof -
  from s obtain m where m: "holds p s m" "\<forall>k. m (wk p k) = map_option (wv p) (f k)"
    unfolding table_def by blast
  have "holds p s' (if r = Returned SUCCESS then m(wk p k := None) else m)"
    "r = Returned SUCCESS \<longrightarrow> m (wk p k) \<noteq> None"
    using del_law [OF p m(1) r] by auto
  then show ?thesis unfolding table_def using m(2) key_law [OF p]
    by (auto intro!: exI [of _ "if r = Returned SUCCESS then m(wk p k := None) else m"])
qed

lemma typed_get:
  assumes p: "lawful p" and s: "table p s f" and r: "get p (wk p k) s = (entry, s')"
  shows "table p s' f \<and>
    (entry = Thrown \<or>
     entry = Returned (case f k of None \<Rightarrow> (LMDB_NOTFOUND, []) | Some v \<Rightarrow> (SUCCESS, wv p v)))"
proof -
  from s obtain m where m: "holds p s m" "\<forall>k. m (wk p k) = map_option (wv p) (f k)"
    unfolding table_def by blast
  from get_law [OF p m(1) r] m(2) show ?thesis
    unfolding table_def by (auto split: option.splits)
qed

end

text \<open>
  The tables with \<open>uint64_t\<close> keys and hashes as values, as the storage keeps its block times
  and indexes. The parameter of the store is extended by the serializer.
\<close>

type_synonym ('z, 'e, 't, 'y) typed_param = "'z codec_scheme \<times> ('e, 't, 'y) store_param"

lemma w_uint64_inj: "codec_laws C \<Longrightarrow> w_uint64 C k = w_uint64 C k' \<Longrightarrow> k = k'"
  using codec_read_back_end(9) by (metis option.inject prod.inject)

fun typed_lawful :: "('z, 'e, 't, 'y) typed_param \<Rightarrow> bool" where
  "typed_lawful (C, p) \<longleftrightarrow> codec_laws C \<and> store_lawful p"

interpretation hash_table: typed_store typed_lawful
  "\<lambda>(C, p). store_holds p" "\<lambda>(C, p). store_put p" "\<lambda>(C, p). store_del p" "\<lambda>(C, p). store_exists p"
  "\<lambda>(C, p). store_get p" "\<lambda>(C, p). w_uint64 C" "\<lambda>(C, p). key_serialize C" "\<lambda>(C, p). r_key C"
proof (unfold_locales, goal_cases)
  case (1 p s m k v s' r)
  then show ?case
    by (cases p, simp only: prod.case typed_lawful.simps) (rule lmdb_store.put_law; blast)
next
  case (2 p s m k s' r)
  then show ?case
    by (cases p, simp only: prod.case typed_lawful.simps) (rule lmdb_store.del_law; blast)
next
  case (3 p s m k found s')
  then show ?case
    by (cases p, simp only: prod.case typed_lawful.simps) (rule lmdb_store.exists_law; blast)
next
  case (4 p s m k entry s')
  then show ?case
    by (cases p, simp only: prod.case typed_lawful.simps) (rule lmdb_store.get_law; blast)
next
  case (5 p k k')
  then show ?case by (cases p) (auto dest: w_uint64_inj)
next
  case (6 p v)
  then show ?case by (cases p) (simp add: wire)
qed

text \<open>The entries of such a table in the environment \<open>E\<close>, and what the operations do to them.\<close>

definition hash_entries ::
  "'z codec_scheme \<Rightarrow> ('e, 't, 'y) store_param \<Rightarrow> 'e LMDB \<Rightarrow> (u64 \<rightharpoonup> crypto_hash_t) \<Rightarrow> bool" where
  "hash_entries C p E f \<longleftrightarrow> hash_table.table (C, p) E f"

lemma hash_entries_start:
  "codec_laws C \<Longrightarrow> store_holds p E Map.empty \<Longrightarrow> hash_entries C p E Map.empty"
  unfolding hash_entries_def hash_table.table_def by (intro exI [of _ Map.empty]) (simp add: split_beta)

lemma hash_entries_put:
  assumes "codec_laws C" "lmdb_laws L ev tv" "hash_entries C (L, ev, tv, D) E f"
    "db_put_uint64_value C L (key_serialize C) D k v 0 E = Some (E', r)"
  shows "hash_entries C (L, ev, tv, D) E' (if r = Returned SUCCESS then f(k \<mapsto> v) else f)"
  using assms hash_table.typed_put [of "(C, L, ev, tv, D)" E f k v E' r]
  by (simp add: hash_entries_def db_put_uint64_value_def db_put_uint64_def)

lemma hash_entries_del:
  assumes "codec_laws C" "lmdb_laws L ev tv" "hash_entries C (L, ev, tv, D) E f"
    "db_del_uint64 C L D k E = Some (E', r)"
  shows "hash_entries C (L, ev, tv, D) E' (if r = Returned SUCCESS then f(k := None) else f) \<and>
    (r = Returned SUCCESS \<longrightarrow> f k \<noteq> None)"
  using assms hash_table.typed_del [of "(C, L, ev, tv, D)" E f k E' r]
  by (simp add: hash_entries_def db_del_uint64_def)

lemma hash_entries_get:
  assumes "codec_laws C" "lmdb_laws L ev tv" "hash_entries C (L, ev, tv, D) E f"
    "db_get_uint64_value C L (r_key C) D k E = (entry, E')"
  shows "hash_entries C (L, ev, tv, D) E' f \<and>
    (entry = Thrown \<or>
     entry = Returned (case f k of None \<Rightarrow> (LMDB_NOTFOUND, None) | Some v \<Rightarrow> (SUCCESS, Some v)))"
proof -
  obtain r E1 where g: "db_get L D (w_uint64 C k) E = (r, E1)" by fastforce
  have "hash_entries C (L, ev, tv, D) E1 f \<and>
    (r = Thrown \<or>
     r = Returned (case f k of None \<Rightarrow> (LMDB_NOTFOUND, []) | Some v \<Rightarrow> (SUCCESS, key_serialize C v)))"
    using assms(1-3) g hash_table.typed_get [of "(C, L, ev, tv, D)" E f k r E1]
    by (cases "f k") (simp_all add: hash_entries_def)
  moreover have "r_key C (key_serialize C v) = Some (v, [])" for v
    using hash_table.value_law [of "(C, L, ev, tv, D)" v] assms(1,2) by simp
  ultimately show ?thesis using assms(4) g
    by (auto simp: db_get_uint64_value_def db_get_uint64_def split: option.splits if_splits)
qed

end
