(* ===== verification/Format_Samples.thy ===== *)
theory Format_Samples
  imports Network_Samples P2p_Meeting Reference_Json Json_Blocks Json_Network Pub_Sub Lmdb_Typed
begin

text \<open>
  Concrete values for the properties of the JSON forms, the notifier and the port forward: a signed
  block, a network whose addresses print and parse, a socket pair that keeps what is sent in a queue,
  and a gateway that keeps the set of its mappings.
\<close>

section \<open>JSON\<close>

lemma sample_signed_block: "\<exists>b. wf_block reference b \<and> validate_construction reference b = Some True"
proof -
  obtain b1 sg where p: "producer_sign reference 0 51 sample_block = Some (b1, 51, sg)"
    using producer_sign_returns [of reference 0 51 sample_block] by (auto simp: reference_def)
  note P = producer_sign_valid [OF reference_crypto_laws p]
  have b1: "b1 = sample_block\<lparr>producer_public_key := 51, producer_signature := sg\<rparr>"
    using p by (auto simp: producer_sign_def producer_digest Let_def)
  have s1: "signed reference b1"
    using P sample_signature_not_empty [OF p]
    by (simp add: signed_def has_producer_def sorted_map_def sample_block_def) (simp add: reference_def)
  then have "has_producer reference b1" by (simp add: signed_def)
  then obtain b2 pk sg2 where v: "validator_sign reference 0 61 b1 = Some (b2, pk, sg2)"
    using validator_sign_None by (metis not_Some_eq prod_cases3)
  have b2: "b2 = b1\<lparr>validator_signatures := [(61, sg2)]\<rparr>"
    using v by (auto simp: validator_sign_def Let_def b1 sample_block_def reference_def bind_eq_Some_conv)
  have "signed reference b2" using validator_sign_signed(1) [OF reference_crypto_laws s1 v] .
  then have "wf_block reference b2 \<and> validate_construction reference b2 = Some True"
    using sample_wf(4)
    by (auto simp: b2 b1 signed_def wf_block_def validate_construction_iff fits_u64_def
        reward_has_outputs_def sample_block_def sample_genesis_def)
  then show ?thesis by blast
qed

text \<open>The network of \<open>reference_network\<close> with a parser that takes the text which the printer makes.\<close>

definition sample_text_network :: network where
  "sample_text_network = reference_network
     \<lparr>ip_to_str := (\<lambda>a. if a = sample_ip then Some ''2001:db8::1'' else None),
      str_to_ip := (\<lambda>s. if s = ''[2001:db8::1]'' then Some sample_ip else None)\<rparr>"

lemma sample_readable:
  "\<forall>q \<in> set (packet_peers sample_handshake). readable_ip sample_text_network (peer_address q)"
  "readable_ip sample_text_network (peer_address sample_peer)"
  by (simp_all add: readable_ip_def ip_address_of_string_def ip_to_string_def sample_text_network_def
      sample_handshake_def sample_peer_def network_peer_def normalize_v4_embedded_def sample_ip_def
      reference_network_def crypto.defs network.defs)

section \<open>A socket pair and a gateway\<close>

definition sample_link :: "bytes list list zmq" where
  "sample_link =
     \<lparr>zmq_bind = (\<lambda>_ k. (True, k)), zmq_connect = (\<lambda>_ k. (True, k)), zmq_wait_connected = (\<lambda>_. True),
      zmq_recv = (\<lambda>k. case k of [] \<Rightarrow> (None, k)
        | ps # rest \<Rightarrow>
            (Some (map (\<lambda>p. \<lparr>part_data = p, part_peer_address = ''127.0.0.1'', part_identity = []\<rparr>) ps), rest)),
      zmq_send = (\<lambda>ps k. (True, k @ [ps])),
      hash_of_bytes = (\<lambda>bs. map_option fst (ref_r_key bs)), hash_bytes = ref_w_key\<rparr>"

lemma sample_hosts:
  assumes "(s, cs) \<in> set sample_addresses" shows "normalize_host reference_network s \<noteq> None"
proof -
  have "\<forall>(s, cs) \<in> set sample_addresses. after_slashes s = None \<and> split_port s = (s, 0)" by code_simp
  moreover have "sample_parse s \<noteq> None" using assms by (auto simp: sample_parse_def weak_map_of_SomeI)
  ultimately show ?thesis using assms
    by (auto simp: normalize_host_def Let_def ip_address_of_string_def reference_network_def crypto.defs network.defs)
qed

lemma sample_link_laws: "link_laws reference_network sample_link (\<lambda>k. k)"
proof -
  have h: "hash_of_bytes sample_link (hash_bytes sample_link h) = Some h" for h
    using ref_key_back [of h "[]"] by (simp add: sample_link_def)
  have a: "normalize_host reference_network ''127.0.0.1'' \<noteq> None"
    by (rule sample_hosts) (simp add: sample_addresses_def)
  show ?thesis unfolding link_laws_def using h a by (auto simp: sample_link_def comp_def)
qed

text \<open>One gateway, whose state is the set of the ports that are forwarded.\<close>

definition sample_gateway :: "(unit, unit, string set) upnp_library" where
  "sample_gateway =
     \<lparr>upnpDiscover = (\<lambda>_ _ _. (Some (), 0)), UPNP_GetValidIGD = (\<lambda>_ _. (1, (), ''192.168.0.2'')),
      UPNP_AddPortMapping = (\<lambda>_ p _ _ _ w. (0, insert p w)),
      UPNP_DeletePortMapping = (\<lambda>_ p w. (0, w - {p})),
      UPNP_GetExternalIPAddress = (\<lambda>_ _. (0, ''203.0.113.7'')), no_gateway = ()\<rparr>"

lemma sample_gateway_laws: "upnp_laws sample_gateway (image (Pair ()))"
  unfolding upnp_laws_def by (auto simp: sample_gateway_def)

lemma sample_forward:
  "upnp_make sample_gateway 12897 ''test'' 1000 False {} =
     (\<lparr>up_lan_address = ''192.168.0.2'', up_service_name = ''test'', up_wan_address = ''203.0.113.7'',
       up_v6 = False, up_active = True, up_timeout = 1000, up_port = 12897, up_gateway = ()\<rparr>,
      {dec 12897})"
  by (simp add: upnp_make_def upnp_setup_def upnp_add_def upnp_get_external_address_def Let_def
      sample_gateway_def)

section \<open>Two nodes\<close>

text \<open>A dealer and a router socket: the payloads under way from the dealer and to it.\<close>

definition sample_dealer :: "(bytes list \<times> bytes list) zmq" where
  "sample_dealer =
     \<lparr>zmq_bind = (\<lambda>_ k. (False, k)), zmq_connect = (\<lambda>_ (up, down). (True, up @ [[]], down)),
      zmq_wait_connected = (\<lambda>_. True),
      zmq_recv = (\<lambda>(up, down). case down of [] \<Rightarrow> (None, up, down)
        | d # rest \<Rightarrow> (Some [\<lparr>part_data = d, part_peer_address = ''127.0.0.1'', part_identity = ref_w_key 0\<rparr>], up, rest)),
      zmq_send = (\<lambda>ps (up, down). (True, up @ ps, down)),
      hash_of_bytes = (\<lambda>bs. map_option fst (ref_r_key bs)), hash_bytes = ref_w_key\<rparr>"

definition sample_router :: "(bytes list \<times> bytes list) zmq" where
  "sample_router =
     \<lparr>zmq_bind = (\<lambda>_ k. (True, k)), zmq_connect = (\<lambda>_ k. (False, k)), zmq_wait_connected = (\<lambda>_. False),
      zmq_recv = (\<lambda>(up, down). case up of [] \<Rightarrow> (None, up, down)
        | d # rest \<Rightarrow> (Some (map (\<lambda>p. \<lparr>part_data = p, part_peer_address = ''127.0.0.1'', part_identity = []\<rparr>)
            [ref_w_key 88, d]), rest, down)),
      zmq_send = (\<lambda>ps (up, down). (True, up, down @ tl ps)),
      hash_of_bytes = (\<lambda>bs. map_option fst (ref_r_key bs)), hash_bytes = ref_w_key\<rparr>"

lemma sample_dealer_router:
  "dealer_router_laws sample_dealer sample_router 88 0 ''127.0.0.1'' ''127.0.0.1'' fst snd"
proof -
  have "map_option fst (ref_r_key (ref_w_key h)) = Some h" for h using ref_key_back [of h "[]"] by simp
  then show ?thesis unfolding dealer_router_laws_def by (auto simp: sample_dealer_def sample_router_def)
qed

text \<open>The node that is dialled, with the peer id 99, and the node that dials, with the id 98.\<close>

definition sample_dialled :: "ref_entries Node" where
  "sample_dialled = sample_node\<lparr>node_server := (server_make 12897 77)\<lparr>zs_running := True\<rparr>\<rparr>"

definition sample_dialler :: "ref_entries Node" where
  "sample_dialler = sample_node\<lparr>node_peer_db := sample_peerdb\<lparr>m_peer_id := 98\<rparr>, node_server := server_make 12898 78\<rparr>"

lemma sample_nodes_have:
  "node_has reference_network reference_files ref_view ref_view ref_cursor_view sample_dialled Map.empty"
  "node_has reference_network reference_files ref_view ref_view ref_cursor_view sample_dialler Map.empty"
  using sample_node_has by (simp_all add: node_has_def sample_dialled_def sample_dialler_def sample_node_def)

lemma sample_loopback:
  "normalize_host reference_network ''127.0.0.1'' =
     Some (''[::ffff:127.0.0.1]'', 0, host_hash reference_network ''[::ffff:127.0.0.1]'' 0)"
  "ip_address_of_string reference_network ''[::ffff:127.0.0.1]'' = Some \<lparr>components = loopback, ip_port = 0, ip_flags = 2\<rparr>"
proof -
  note f = reference_network_def crypto.defs network.defs
  have "after_slashes ''127.0.0.1'' = None" "split_port ''127.0.0.1'' = (''127.0.0.1'', 0)" by code_simp+
  moreover have "(shift_components 2 0 6 (0x7f00 # 1 # replicate 6 0))[5 := 0xffff] = loopback" by code_simp
  then have "ip_address_of_string reference_network ''127.0.0.1'' = Some \<lparr>components = loopback, ip_port = 0, ip_flags = 2\<rparr>"
    by (simp add: ip_address_of_string_def sample_parse_def sample_addresses_def normalize_v4_embedded_def f)
  moreover have "ip_to_string reference_network \<lparr>components = loopback, ip_port = 0, ip_flags = 2\<rparr> = ''[::ffff:127.0.0.1]''"
    by (simp add: ip_to_string_def sample_print_def f)
  ultimately show "normalize_host reference_network ''127.0.0.1'' =
     Some (''[::ffff:127.0.0.1]'', 0, host_hash reference_network ''[::ffff:127.0.0.1]'' 0)"
    by (simp add: normalize_host_def Let_def)
  show "ip_address_of_string reference_network ''[::ffff:127.0.0.1]'' = Some \<lparr>components = loopback, ip_port = 0, ip_flags = 2\<rparr>"
    by (simp add: ip_address_of_string_def sample_parse_def normalize_v4_embedded_def f)
qed

end
