(* ===== verification/Priority_Queue.thy ===== *)
theory Priority_Queue
  imports Main "HOL-Library.Multiset"
begin

text \<open>
  \<open>ThreadSafePriorityQueue\<close> (\<open>include/tools/thread_safe_priority_queue.h\<close>) over
  \<open>std::priority_queue\<close> with the comparison \<open>lt\<close>. Every operation holds the lock for its whole
  body, so each is one step. The container is the sequence of its elements; \<open>top\<close> is an element
  that is less than no other, and of elements that the comparison does not tell apart the
  first. \<open>top\<close> and \<open>pop\<close> of an empty queue have no meaning in C++, here \<open>None\<close>.
\<close>

section \<open>The operations\<close>

type_synonym 't ThreadSafePriorityQueue = "'t list"

text \<open>The element at the top of a queue that begins with \<open>x\<close>.\<close>

fun pq_best :: "('t \<Rightarrow> 't \<Rightarrow> bool) \<Rightarrow> 't \<Rightarrow> 't list \<Rightarrow> 't" where
  "pq_best lt x [] = x"
| "pq_best lt x (y # ys) = pq_best lt (if lt x y then y else x) ys"

definition tpq_clear :: "'t ThreadSafePriorityQueue \<Rightarrow> 't ThreadSafePriorityQueue" where
  "tpq_clear q = []"

definition tpq_empty :: "'t ThreadSafePriorityQueue \<Rightarrow> bool" where
  "tpq_empty q \<longleftrightarrow> q = []"

definition tpq_top :: "('t \<Rightarrow> 't \<Rightarrow> bool) \<Rightarrow> 't ThreadSafePriorityQueue \<Rightarrow> 't option" where
  "tpq_top lt q = (case q of [] \<Rightarrow> None | x # xs \<Rightarrow> Some (pq_best lt x xs))"

definition tpq_pop ::
  "('t \<Rightarrow> 't \<Rightarrow> bool) \<Rightarrow> 't ThreadSafePriorityQueue \<Rightarrow> ('t \<times> 't ThreadSafePriorityQueue) option" where
  "tpq_pop lt q = map_option (\<lambda>item. (item, remove1 item q)) (tpq_top lt q)"

definition tpq_push :: "'t \<Rightarrow> 't ThreadSafePriorityQueue \<Rightarrow> 't ThreadSafePriorityQueue" where
  "tpq_push item q = q @ [item]"

definition tpq_push_all :: "'t list \<Rightarrow> 't ThreadSafePriorityQueue \<Rightarrow> 't ThreadSafePriorityQueue" where
  "tpq_push_all items q = foldl (\<lambda>q item. tpq_push item q) q items"

definition tpq_size :: "'t ThreadSafePriorityQueue \<Rightarrow> nat" where
  "tpq_size q = length q"

section \<open>The contract\<close>

text \<open>What C++ asks of a comparison.\<close>

definition strict_weak :: "('t \<Rightarrow> 't \<Rightarrow> bool) \<Rightarrow> bool" where
  "strict_weak lt \<longleftrightarrow> (\<forall>x. \<not> lt x x) \<and> (\<forall>x y z. lt x y \<longrightarrow> lt y z \<longrightarrow> lt x z) \<and>
     (\<forall>x y z. lt x y \<longrightarrow> lt x z \<or> lt z y)"

lemma strict_weakD:
  assumes "strict_weak lt"
  shows "\<not> lt x x" "lt x y \<Longrightarrow> lt y z \<Longrightarrow> lt x z" "lt x y \<Longrightarrow> lt x z \<or> lt z y"
  using assms unfolding strict_weak_def by blast+

lemma pq_best_in: "pq_best lt x xs \<in> insert x (set xs)"
  by (induction xs arbitrary: x) fastforce+

lemma pq_best_greatest:
  assumes "strict_weak lt" "y \<in> insert x (set xs)" shows "\<not> lt (pq_best lt x xs) y"
  using assms(2)
proof (induction xs arbitrary: x y)
  case Nil
  then show ?case using strict_weakD(1) [OF assms(1)] by simp
next
  case (Cons z zs)
  note W = strict_weakD [OF assms(1)]
  let ?m = "if lt x z then z else x"
  have top: "\<not> lt (pq_best lt ?m zs) ?m" using Cons.IH [of ?m ?m] by simp
  have rest: "\<not> lt (pq_best lt ?m zs) y" if "y \<in> set zs" using Cons.IH [of y ?m] that by simp
  have "\<not> lt (pq_best lt ?m zs) x" "\<not> lt (pq_best lt ?m zs) z"
    using top W(1) [of x] W(2,3) by (metis (full_types))+
  then show ?case using Cons.prems rest by auto
qed

text \<open>Taking out all elements, one after the other; \<open>n\<close> is how many are left to take.\<close>

fun pop_all :: "('q \<Rightarrow> ('t \<times> 'q) option) \<Rightarrow> nat \<Rightarrow> 'q \<Rightarrow> 't list" where
  "pop_all pop 0 q = []"
| "pop_all pop (Suc n) q = (case pop q of None \<Rightarrow> [] | Some (x, q') \<Rightarrow> x # pop_all pop n q')"

text \<open>
  A priority queue by its contents: \<open>contents q\<close> is the multiset of its elements, \<open>pop\<close> takes out
  one that is less than no other.
\<close>

locale priority_queue =
  fixes lt :: "'t \<Rightarrow> 't \<Rightarrow> bool"
    and contents :: "'q \<Rightarrow> 't multiset"
    and push :: "'t \<Rightarrow> 'q \<Rightarrow> 'q"
    and pop :: "'q \<Rightarrow> ('t \<times> 'q) option"
  assumes push_law: "contents (push x q) = add_mset x (contents q)"
    and pop_None: "pop q = None \<longleftrightarrow> contents q = {#}"
    and pop_law: "strict_weak lt \<Longrightarrow> pop q = Some (x, q') \<Longrightarrow>
      contents q = add_mset x (contents q') \<and> (\<forall>y \<in># contents q. \<not> lt x y)"
begin

lemma push_all: "contents (foldl (\<lambda>q x. push x q) q xs) = contents q + mset xs"
  by (induction xs arbitrary: q) (simp_all add: push_law)

lemma pop_all_sorted:
  assumes "strict_weak lt"
  shows "size (contents q) \<le> n \<Longrightarrow>
    mset (pop_all pop n q) = contents q \<and> sorted_wrt (\<lambda>x y. \<not> lt x y) (pop_all pop n q)"
proof (induction n arbitrary: q)
  case (Suc n)
  show ?case
  proof (cases "pop q")
    case None
    then show ?thesis using pop_None [of q] by simp
  next
    case (Some xq)
    obtain x q' where xq: "xq = (x, q')" by fastforce
    note law = pop_law [OF assms Some [unfolded xq]]
    have "size (contents q') \<le> n" using Suc.prems law by simp
    note IH = Suc.IH [OF this]
    have "set (pop_all pop n q') = set_mset (contents q')" using IH by (metis set_mset_mset)
    then show ?thesis using IH law Some xq by simp
  qed
qed (simp add: size_eq_0_iff_empty)

end

interpretation tpq: priority_queue lt mset tpq_push "tpq_pop lt" for lt :: "'t \<Rightarrow> 't \<Rightarrow> bool"
proof unfold_locales
  show "mset (tpq_push x q) = add_mset x (mset q)" for x :: 't and q
    by (simp add: tpq_push_def)
  show "tpq_pop lt q = None \<longleftrightarrow> mset q = {#}" for q
    by (simp add: tpq_pop_def tpq_top_def split: list.splits)
  show "mset q = add_mset x (mset q') \<and> (\<forall>y \<in># mset q. \<not> lt x y)"
    if lt: "strict_weak lt" and p: "tpq_pop lt q = Some (x, q')" for q x q'
  proof (cases q)
    case (Cons z zs)
    then have "x = pq_best lt z zs" "q' = remove1 x q" using p by (auto simp: tpq_pop_def tpq_top_def)
    moreover have "x \<in> set q" using pq_best_in [of lt z zs] Cons calculation(1) by simp
    ultimately show ?thesis using pq_best_greatest [OF lt, of _ z zs] Cons by auto
  qed (use p in \<open>simp add: tpq_pop_def tpq_top_def\<close>)
qed

end
