(* ===== verification/Hex_Forms.thy ===== *)
theory Hex_Forms
  imports Json Blocks Staking_Types Network_Types
begin

text \<open>
  The ways in which the structures are made of raw data: the constructors that read a structure
  from bytes (a reader, an initializer list, a vector) or from a hexadecimal string, and the
  \<open>to_string\<close> methods, which write the serialized form in hexadecimal. Data behind the structure
  is not looked at. The structures are those of the preceding theories, in their order.
\<close>

definition of_bytes :: "'a reader \<Rightarrow> bytes \<Rightarrow> 'a option" where
  "of_bytes rd data = map_option fst (rd data)"

definition of_hex :: "'y json_scheme \<Rightarrow> 'a reader \<Rightarrow> string \<Rightarrow> 'a option" where
  "of_hex J rd hex = do { data \<leftarrow> from_hex J hex; of_bytes rd data }"

text \<open>
  What a structure was printed as makes the structure again, for every wire format; and only the
  structure counts, not what follows it.
\<close>

lemma of_bytes_back: "rd (wr x @ rest) = Some (x, rest) \<Longrightarrow> of_bytes rd (wr x @ rest) = Some x"
  by (simp add: of_bytes_def)

lemma of_hex_back:
  assumes "json_laws J" "\<And>rest. rd (wr x @ rest) = Some (x, rest)"
  shows "of_hex J rd (to_hex J (wr x @ rest)) = Some x"
  using assms(2) [of rest] by (simp add: of_hex_def of_bytes_def json assms(1))

lemma of_hex_all: "json_laws J \<Longrightarrow> rd (wr x) = Some (x, []) \<Longrightarrow> of_hex J rd (to_hex J (wr x)) = Some x"
  by (simp add: of_hex_def of_bytes_def json)

section \<open>The classes\<close>

definition StakerOutput_of_bytes where
  "StakerOutput_of_bytes (C :: 'z codec_scheme) = of_bytes (StakerOutput_deserialize C)"

definition StakerOutput_to_string where
  "StakerOutput_to_string (C :: 'z codec_scheme) (J :: 'y json_scheme) x = to_hex J (StakerOutput_serialize C x)"

definition TransactionOutput_of_bytes where
  "TransactionOutput_of_bytes (C :: 'z codec_scheme) = of_bytes (TransactionOutput_deserialize C)"

definition TransactionOutput_to_string where
  "TransactionOutput_to_string (C :: 'z codec_scheme) (J :: 'y json_scheme) x = to_hex J (TransactionOutput_serialize C x)"

definition committed_normal_of_bytes where
  "committed_normal_of_bytes (C :: 'z codec_scheme) = of_bytes (committed_normal_deserialize C)"

definition committed_normal_of_hex where
  "committed_normal_of_hex (C :: 'z codec_scheme) (J :: 'y json_scheme) = of_hex J (committed_normal_deserialize C)"

definition committed_normal_to_string where
  "committed_normal_to_string (C :: 'z codec_scheme) (J :: 'y json_scheme) x = to_hex J (committed_normal_serialize C x)"

definition uncommitted_normal_of_bytes where
  "uncommitted_normal_of_bytes (C :: ('s, 'r, 'z) proofs_scheme) = of_bytes (uncommitted_normal_deserialize C)"

definition uncommitted_normal_of_hex where
  "uncommitted_normal_of_hex (C :: ('s, 'r, 'z) proofs_scheme) (J :: 'y json_scheme) = of_hex J (uncommitted_normal_deserialize C)"

definition uncommitted_normal_to_string where
  "uncommitted_normal_to_string (C :: ('s, 'r, 'z) proofs_scheme) (J :: 'y json_scheme) x = to_hex J (uncommitted_normal_serialize C x)"

definition committed_stake_of_bytes where
  "committed_stake_of_bytes (C :: 'z codec_scheme) = of_bytes (committed_stake_deserialize C)"

definition committed_stake_of_hex where
  "committed_stake_of_hex (C :: 'z codec_scheme) (J :: 'y json_scheme) = of_hex J (committed_stake_deserialize C)"

definition committed_stake_to_string where
  "committed_stake_to_string (C :: 'z codec_scheme) (J :: 'y json_scheme) x = to_hex J (committed_stake_serialize C x)"

definition uncommitted_stake_of_bytes where
  "uncommitted_stake_of_bytes (C :: ('s, 'r, 'z) proofs_scheme) = of_bytes (uncommitted_stake_deserialize C)"

definition uncommitted_stake_of_hex where
  "uncommitted_stake_of_hex (C :: ('s, 'r, 'z) proofs_scheme) (J :: 'y json_scheme) = of_hex J (uncommitted_stake_deserialize C)"

definition uncommitted_stake_to_string where
  "uncommitted_stake_to_string (C :: ('s, 'r, 'z) proofs_scheme) (J :: 'y json_scheme) x = to_hex J (uncommitted_stake_serialize C x)"

definition committed_recall_of_bytes where
  "committed_recall_of_bytes (C :: 'z codec_scheme) = of_bytes (committed_recall_deserialize C)"

definition committed_recall_of_hex where
  "committed_recall_of_hex (C :: 'z codec_scheme) (J :: 'y json_scheme) = of_hex J (committed_recall_deserialize C)"

definition committed_recall_to_string where
  "committed_recall_to_string (C :: 'z codec_scheme) (J :: 'y json_scheme) x = to_hex J (committed_recall_serialize C x)"

definition uncommitted_recall_of_bytes where
  "uncommitted_recall_of_bytes (C :: ('s, 'r, 'z) proofs_scheme) = of_bytes (uncommitted_recall_deserialize C)"

definition uncommitted_recall_of_hex where
  "uncommitted_recall_of_hex (C :: ('s, 'r, 'z) proofs_scheme) (J :: 'y json_scheme) = of_hex J (uncommitted_recall_deserialize C)"

definition uncommitted_recall_to_string where
  "uncommitted_recall_to_string (C :: ('s, 'r, 'z) proofs_scheme) (J :: 'y json_scheme) x = to_hex J (uncommitted_recall_serialize C x)"

definition genesis_of_bytes where
  "genesis_of_bytes (C :: 'z codec_scheme) = of_bytes (genesis_deserialize C)"

definition genesis_of_hex where
  "genesis_of_hex (C :: 'z codec_scheme) (J :: 'y json_scheme) = of_hex J (genesis_deserialize C)"

definition genesis_to_string where
  "genesis_to_string (C :: 'z codec_scheme) (J :: 'y json_scheme) x = to_hex J (genesis_serialize C x)"

definition staker_of_bytes where
  "staker_of_bytes (C :: 'z codec_scheme) = of_bytes (staker_deserialize C)"

definition staker_of_hex where
  "staker_of_hex (C :: 'z codec_scheme) (J :: 'y json_scheme) = of_hex J (staker_deserialize C)"

definition staker_to_string where
  "staker_to_string (C :: 'z codec_scheme) (J :: 'y json_scheme) x = to_hex J (staker_serialize C x)"

definition refund_of_bytes where
  "refund_of_bytes (C :: 'z codec_scheme) = of_bytes (refund_deserialize C)"

definition refund_of_hex where
  "refund_of_hex (C :: 'z codec_scheme) (J :: 'y json_scheme) = of_hex J (refund_deserialize C)"

definition refund_to_string where
  "refund_to_string (C :: 'z codec_scheme) (J :: 'y json_scheme) x = to_hex J (refund_serialize C x)"

definition block_of_bytes where
  "block_of_bytes (C :: 'z crypto_scheme) = of_bytes (block_deserialize C)"

definition block_of_hex where
  "block_of_hex (C :: 'z crypto_scheme) (J :: 'y json_scheme) = of_hex J (block_deserialize C)"

definition block_to_string where
  "block_to_string (C :: 'z crypto_scheme) (J :: 'y json_scheme) x = to_hex J (block_bytes C x)"

definition candidate_of_bytes where
  "candidate_of_bytes (C :: 'z codec_scheme) = of_bytes (candidate_deserialize C)"

definition candidate_to_string where
  "candidate_to_string (C :: 'z codec_scheme) (J :: 'y json_scheme) x = to_hex J (candidate_serialize C x)"

definition stake_of_bytes where
  "stake_of_bytes (C :: 'z codec_scheme) = of_bytes (stake_deserialize C)"

definition stake_to_string where
  "stake_to_string (C :: 'z codec_scheme) (J :: 'y json_scheme) x = to_hex J (stake_serialize C x)"

definition peer_of_bytes where
  "peer_of_bytes (C :: 'z network_scheme) = of_bytes (peer_deserialize C)"

definition peer_to_string where
  "peer_to_string (C :: 'z network_scheme) (J :: 'y json_scheme) x = to_hex J (peer_serialize C x)"

definition handshake_of_bytes where
  "handshake_of_bytes (C :: 'z network_scheme) = of_bytes (handshake_deserialize C)"

definition handshake_to_string where
  "handshake_to_string (C :: 'z network_scheme) (J :: 'y json_scheme) x = to_hex J (handshake_serialize C x)"

definition peer_exchange_of_bytes where
  "peer_exchange_of_bytes (C :: 'z network_scheme) = of_bytes (peer_exchange_deserialize C)"

definition peer_exchange_to_string where
  "peer_exchange_to_string (C :: 'z network_scheme) (J :: 'y json_scheme) x = to_hex J (peer_exchange_serialize C x)"

definition keepalive_of_bytes where
  "keepalive_of_bytes (C :: 'z codec_scheme) = of_bytes (keepalive_deserialize C)"

definition keepalive_to_string where
  "keepalive_to_string (C :: 'z codec_scheme) (J :: 'y json_scheme) x = to_hex J (keepalive_serialize C x)"

definition data_packet_of_bytes where
  "data_packet_of_bytes (C :: 'z codec_scheme) = of_bytes (data_deserialize C)"

definition data_packet_to_string where
  "data_packet_to_string (C :: 'z codec_scheme) (J :: 'y json_scheme) x = to_hex J (data_serialize C x)"

lemmas hex_form_defs =
  committed_normal_of_hex_def committed_normal_to_string_def
  uncommitted_normal_of_hex_def uncommitted_normal_to_string_def
  committed_stake_of_hex_def committed_stake_to_string_def
  uncommitted_stake_of_hex_def uncommitted_stake_to_string_def
  committed_recall_of_hex_def committed_recall_to_string_def
  uncommitted_recall_of_hex_def uncommitted_recall_to_string_def
  genesis_of_hex_def genesis_to_string_def
  staker_of_hex_def staker_to_string_def
  refund_of_hex_def refund_to_string_def
  block_of_hex_def block_to_string_def

text \<open>What the classes that have a constructor from a string read of their own bytes.\<close>

lemmas whole_read_back =
  block.read_back_all genesis.read_back_all staker.read_back_all refund.read_back_all
  committed_normal.read_back_all committed_stake.read_back_all committed_recall.read_back_all
  uncommitted_normal.read_back_all uncommitted_stake.read_back_all uncommitted_recall.read_back_all

section \<open>Hashes and sizes of the packets\<close>

definition handshake_hash where
  "handshake_hash (C :: 'z network_scheme) p = sha3 C (handshake_serialize C p)"

definition handshake_size where
  "handshake_size (C :: 'z network_scheme) p = length (handshake_serialize C p)"

definition peer_exchange_hash where
  "peer_exchange_hash (C :: 'z network_scheme) p = sha3 C (peer_exchange_serialize C p)"

definition peer_exchange_size where
  "peer_exchange_size (C :: 'z network_scheme) p = length (peer_exchange_serialize C p)"

definition keepalive_hash where
  "keepalive_hash (C :: 'z crypto_scheme) p = sha3 C (keepalive_serialize C p)"

definition keepalive_size where
  "keepalive_size (C :: 'z crypto_scheme) p = length (keepalive_serialize C p)"

definition data_packet_hash where
  "data_packet_hash (C :: 'z crypto_scheme) p = sha3 C (data_serialize C p)"

definition data_packet_size where
  "data_packet_size (C :: 'z crypto_scheme) p = length (data_serialize C p)"

section \<open>Addresses\<close>

text \<open>Both constructors normalize once more what \<open>deserialize\<close> has normalized.\<close>

definition ip_of_bytes :: "'z network_scheme \<Rightarrow> bytes \<Rightarrow> ip_address_t option" where
  "ip_of_bytes C data = map_option (normalize_v4_embedded C) (of_bytes (ip_deserialize C) data)"

lemma ip_of_bytes_once: "ip_of_bytes C data = of_bytes (ip_deserialize C) data"
  by (cases "ip_deserialize C data")
    (auto simp: ip_of_bytes_def of_bytes_def dest!: ip_deserialize_wf intro!: normalize_normal simp: wf_ip_def)

end
