(* ===== verification/Http.thy ===== *)
theory Http
  imports Json Upnp Config
begin

text \<open>
  The HTTP server and client of \<open>src/networking\<close>: what they make of the body of a message, the
  headers the server adds to every answer, and the life of the listening thread. The HTTP library
  is the parameter record \<open>http_library\<close> over its state \<open>'k\<close>; the parser of JSON texts is an
  argument.
\<close>

section \<open>Bodies\<close>

datatype HTTPBodyMode = HTTP_BODY_NOT_REQUIRED | HTTP_BODY_REQUIRED

text \<open>\<open>Parse\<close> gets a C string, which ends at the first null character.\<close>

definition c_str :: "string \<Rightarrow> string" where
  "c_str s = takeWhile (\<lambda>c. c \<noteq> CHR 0x00) s"

text \<open>A document that was not parsed is null.\<close>

definition parse_json_body ::
  "(string \<Rightarrow> JSONValue option) \<Rightarrow> string \<Rightarrow> HTTPBodyMode \<Rightarrow> ErrorCode \<times> JSONValue" where
  "parse_json_body parse body body_mode =
     (if body_mode = HTTP_BODY_NOT_REQUIRED then (SUCCESS, JNull)
      else if body = [] then (HTTP_BODY_REQUIRED_BUT_NOT_FOUND, JNull)
      else
        let body_as_json_string = [CHR 0x22] @ body @ [CHR 0x22] in
        case parse (c_str body) of
          Some json_body \<Rightarrow> (SUCCESS, json_body)
        | None \<Rightarrow>
            (case parse (c_str body_as_json_string) of
               Some json_body \<Rightarrow> (SUCCESS, json_body)
             | None \<Rightarrow> (JSON_PARSE_ERROR, JNull)))"

definition parse_text_body :: "string \<Rightarrow> HTTPBodyMode \<Rightarrow> ErrorCode \<times> string" where
  "parse_text_body body body_mode =
     (if body_mode = HTTP_BODY_NOT_REQUIRED then (SUCCESS, [])
      else if body = [] then (HTTP_BODY_REQUIRED_BUT_NOT_FOUND, [])
      else (SUCCESS, body))"

text \<open>
  With a parser that reads quoted texts, a body that is no JSON document by itself is a string.
\<close>

lemma plain_text_is_a_string:
  assumes "\<And>t. CHR 0x22 \<notin> set t \<Longrightarrow> CHR 0x00 \<notin> set t \<Longrightarrow> parse ([CHR 0x22] @ t @ [CHR 0x22]) = Some (JString t)"
    "body \<noteq> []" "CHR 0x22 \<notin> set body" "CHR 0x00 \<notin> set body" "parse body = None"
  shows "parse_json_body parse body HTTP_BODY_REQUIRED = (SUCCESS, JString body)"
proof -
  have "c_str body = body" "c_str ([CHR 0x22] @ body @ [CHR 0x22]) = [CHR 0x22] @ body @ [CHR 0x22]"
    using assms(4) unfolding c_str_def by (auto simp: takeWhile_eq_all_conv simp del: append_Cons append_Nil)
  then show ?thesis using assms by (simp add: parse_json_body_def del: append_Cons append_Nil)
qed

section \<open>The client\<close>

text \<open>
  What a client is made with. TLS is taken only where the library was built with it
  (\<open>openssl\<close>).
\<close>

record HTTPClient =
  client_host :: string
  client_port :: u16
  client_ssl :: bool
  client_timeout :: int
  client_keep_alive :: bool

definition create_client :: "bool \<Rightarrow> string \<Rightarrow> u16 \<Rightarrow> bool \<Rightarrow> bool \<Rightarrow> int \<Rightarrow> HTTPClient" where
  "create_client openssl host port keepalive ssl timeout =
     \<lparr>client_host = c_str host, client_port = port, client_ssl = (openssl \<and> ssl), client_timeout = timeout,
      client_keep_alive = keepalive\<rparr>"

text \<open>
  The result of a request has a response with a body, or none. The body is read without a look at
  that; \<open>None\<close>: a missing response is read, which has no meaning in C++.
\<close>

definition client_parse_json_body ::
  "(string \<Rightarrow> JSONValue option) \<Rightarrow> string option \<Rightarrow> HTTPBodyMode \<Rightarrow> (ErrorCode \<times> JSONValue) option" where
  "client_parse_json_body parse result body_mode =
     (if body_mode = HTTP_BODY_NOT_REQUIRED then Some (SUCCESS, JNull)
      else case result of
             None \<Rightarrow> None
           | Some body \<Rightarrow>
               if body = [] then Some (HTTP_BODY_REQUIRED_BUT_NOT_FOUND, JNull)
               else
                 let body_as_json_string = [CHR 0x22] @ body @ [CHR 0x22] in
                 case parse (c_str body) of
                   Some json_body \<Rightarrow> Some (SUCCESS, json_body)
                 | None \<Rightarrow>
                     (case parse (c_str body_as_json_string) of
                        Some json_body \<Rightarrow> Some (SUCCESS, json_body)
                      | None \<Rightarrow> Some (JSON_PARSE_ERROR, JNull)))"

definition client_parse_text_body :: "string option \<Rightarrow> HTTPBodyMode \<Rightarrow> (ErrorCode \<times> string) option" where
  "client_parse_text_body result body_mode =
     (if body_mode = HTTP_BODY_NOT_REQUIRED then Some (SUCCESS, [])
      else case result of
             None \<Rightarrow> None
           | Some body \<Rightarrow>
               if body = [] then Some (HTTP_BODY_REQUIRED_BUT_NOT_FOUND, []) else Some (SUCCESS, body))"

text \<open>Client and server make the same of a body; only the client may have none to look at.\<close>

lemma client_and_server_agree:
  "client_parse_json_body parse (Some body) mode = Some (parse_json_body parse body mode)"
  "client_parse_text_body (Some body) mode = Some (parse_text_body body mode)"
  by (simp_all add: client_parse_json_body_def parse_json_body_def client_parse_text_body_def parse_text_body_def Let_def
      split: option.split)

lemma client_reads_missing_response:
  "client_parse_json_body parse result mode = None \<longleftrightarrow> mode = HTTP_BODY_REQUIRED \<and> result = None"
  "client_parse_text_body result mode = None \<longleftrightarrow> mode = HTTP_BODY_REQUIRED \<and> result = None"
  by (cases mode; auto simp: client_parse_json_body_def client_parse_text_body_def Let_def split: option.split)+

section \<open>The server\<close>

record ('k, 'r) http_library =
  bind_to_port :: "string \<Rightarrow> int \<Rightarrow> int \<Rightarrow> 'k \<Rightarrow> bool \<times> 'k"
  listen_after_bind :: "'k \<Rightarrow> bool \<times> 'k"
  is_running :: "'k \<Rightarrow> bool"
  stop :: "'k \<Rightarrow> 'k"
  set_header :: "string \<Rightarrow> string \<Rightarrow> 'r \<Rightarrow> 'r"

text \<open>\<open>http_thread\<close>: whether the thread object can be joined.\<close>

record 'g HTTPServer =
  http_cors_domain :: string
  http_port :: u16
  http_host :: string
  http_upnp :: "'g UPNP option"
  http_thread :: bool

definition http_make :: "string \<Rightarrow> 'g HTTPServer" where
  "http_make cors_domain =
     \<lparr>http_cors_domain = cors_domain, http_port = 0, http_host = [], http_upnp = None, http_thread = False\<rparr>"

text \<open>The handler that runs after the routes.\<close>

definition http_headers :: "'g HTTPServer \<Rightarrow> (string \<times> string) list" where
  "http_headers S =
     [(''Access-Control-Allow-Origin'', http_cors_domain S),
      (''X-Requested-With'', ''*''),
      (''Access-Control-Allow-Headers'', ''Origin, X-Requested-With, Content-Type, Accept, User-Agent''),
      (''Access-Control-Allow-Methods'', ''GET, DELETE, HEAD, POST, PUT, PATCH, OPTIONS''),
      (''Referrer-Policy'', ''no-referrer''),
      (''Content-Security-Policy'', ''default-src '' @ [CHR 0x27] @ ''none'' @ [CHR 0x27]),
      (''Feature-Policy'',
       ''geolocation none;midi none;notifications none;push none;sync-xhr none;microphone none;camera '' @
       ''none;magnetometer none;gyroscope none;speaker self;vibrate none;fullscreen self;payment none;''),
      (''Permissions-Policy'',
       ''geolocation=(), midi=(), notifications=(), push=(), sync-xhr=(), microphone=(), camera=(), '' @
       ''magnetometer=(), gyroscope=(), speaker=(self), vibrate=(), fullscreen=(self), payment=()''),
      (''X-Frame-Options'', ''SAMEORIGIN''),
      (''X-Content-Type-Options'', ''nosniff'')]"

definition http_post_routing :: "('k, 'r, 'z) http_library_scheme \<Rightarrow> 'g HTTPServer \<Rightarrow> 'r \<Rightarrow> 'r" where
  "http_post_routing K S res = foldl (\<lambda>res (name, v). set_header K name v res) res (http_headers S)"

text \<open>
  \<open>listen\<close>: the result \<open>None\<close> is the end of the program, which C++ prescribes when a thread object
  that can be joined is assigned to. The new forward is made before the old one is destroyed.
\<close>

definition http_listen ::
  "('k, 'r, 'y) http_library_scheme \<Rightarrow> ('d, 'g, 'w, 'z) upnp_library_scheme \<Rightarrow> string \<Rightarrow> int \<Rightarrow> int \<Rightarrow>
     'g HTTPServer \<Rightarrow> 'k \<Rightarrow> 'w \<Rightarrow> (bool \<times> 'g HTTPServer \<times> 'k \<times> 'w) option" where
  "http_listen K U host port socket_flags S k w =
     (let (bound, k) = bind_to_port K host port socket_flags k in
      if \<not> bound then
        let w = (case http_upnp S of None \<Rightarrow> w | Some u \<Rightarrow> snd (upnp_destroy U u w)) in
        Some (False, S\<lparr>http_upnp := None\<rparr>, k, w)
      else
        let (u, w) = upnp_make U (word_of_int port) (PROJECT_NAME @ '': HTTP Server'') 1000 False w;
            w = (case http_upnp S of None \<Rightarrow> w | Some old \<Rightarrow> snd (upnp_destroy U old w)) in
        if http_thread S then None
        else Some (True, S\<lparr>http_port := word_of_int port, http_host := host, http_upnp := Some u,
                           http_thread := True\<rparr>, k, w))"

text \<open>
  \<open>shutdown\<close>, called by the listening thread itself (\<open>own\<close>) or by another. A thread that joins
  itself gets an exception that nothing catches: \<open>None\<close>.
\<close>

definition http_shutdown ::
  "('k, 'r, 'y) http_library_scheme \<Rightarrow> bool \<Rightarrow> 'g HTTPServer \<Rightarrow> 'k \<Rightarrow> ('g HTTPServer \<times> 'k) option" where
  "http_shutdown K own S k =
     (let k = (if is_running K k then stop K k else k) in
      if http_thread S then (if own then None else Some (S\<lparr>http_thread := False\<rparr>, k))
      else Some (S, k))"

definition http_server_listener ::
  "('k, 'r, 'y) http_library_scheme \<Rightarrow> 'g HTTPServer \<Rightarrow> 'k \<Rightarrow> ('g HTTPServer \<times> 'k) option" where
  "http_server_listener K S k =
     (let (ok, k) = listen_after_bind K k in if \<not> ok then http_shutdown K True S k else Some (S, k))"

definition http_destroy ::
  "('k, 'r, 'y) http_library_scheme \<Rightarrow> ('d, 'g, 'w, 'z) upnp_library_scheme \<Rightarrow> 'g HTTPServer \<Rightarrow> 'k \<Rightarrow> 'w \<Rightarrow>
     ('g HTTPServer \<times> 'k \<times> 'w) option" where
  "http_destroy K U S k w =
     (let w = (case http_upnp S of None \<Rightarrow> w | Some u \<Rightarrow> snd (upnp_destroy U u w));
          S = S\<lparr>http_upnp := None\<rparr> in
      map_option (\<lambda>(S, k). (S, k, w)) (http_shutdown K False S k))"

definition http_external_address :: "'g HTTPServer \<Rightarrow> string" where
  "http_external_address S = (case http_upnp S of None \<Rightarrow> [] | Some u \<Rightarrow> up_wan_address u)"

definition http_upnp_active :: "'g HTTPServer \<Rightarrow> bool" where
  "http_upnp_active S = (case http_upnp S of None \<Rightarrow> False | Some u \<Rightarrow> up_active u)"

text \<open>
  When listening fails after the port was bound, the listening thread shuts the server down, waits
  for itself and ends the program.
\<close>

lemma failed_listener_ends_the_program:
  assumes "http_listen K U host port flags S k w = Some (True, S', k', w')" "listen_after_bind K k' = (False, k'')"
  shows "http_server_listener K S' k' = None"
  using assms by (auto simp: http_listen_def http_server_listener_def http_shutdown_def Let_def split: prod.splits if_splits)

text \<open>The destructor always returns, and afterwards nothing listens or is forwarded.\<close>

lemma http_destroy_returns:
  "\<exists>S' k' w'. http_destroy K U S k w = Some (S', k', w') \<and> \<not> http_thread S' \<and> http_upnp S' = None"
  by (auto simp: http_destroy_def http_shutdown_def Let_def)

end
