(* ===== verification/Listeners.thy ===== *)
theory Listeners
  imports Pub_Sub Http
begin

text \<open>
  The components that listen on a port and have it forwarded: the ZeroMQ server with its port
  forward, the publisher and the HTTP server. The interface \<open>port_listener\<close> says what they share
  and what follows for the gateway. The ends of the sockets and their keys are here as well.
\<close>

section \<open>The server with its forward\<close>

record 'g served =
  sv_server :: ZMQServer
  sv_upnp :: "'g UPNP option"

text \<open>\<open>bind\<close>: the first one that succeeds asks for the forward.\<close>

definition served_bind ::
  "('k, 'y) zmq_scheme \<Rightarrow> ('d, 'g, 'w, 'z) upnp_library_scheme \<Rightarrow> 'g served \<Rightarrow> 'k \<Rightarrow> 'w \<Rightarrow>
     ErrorCode \<times> 'g served \<times> 'k \<times> 'w" where
  "served_bind Z U V k w =
     (let (ok, k) = zmq_bind Z (zs_port (sv_server V)) k in
      if \<not> ok then (ZMQ_BIND_ERROR, V, k, w)
      else if \<not> zs_running (sv_server V) then
        let (u, w) = upnp_make U (zs_port (sv_server V)) (PROJECT_NAME @ '': ZMQ Server'') 1000 False w in
        (SUCCESS, V\<lparr>sv_upnp := Some u, sv_server := (sv_server V)\<lparr>zs_running := True\<rparr>\<rparr>, k, w)
      else (SUCCESS, V, k, w))"

definition served_destroy ::
  "('d, 'g, 'w, 'z) upnp_library_scheme \<Rightarrow> 'g served \<Rightarrow> 'w \<Rightarrow> 'g served \<times> 'w" where
  "served_destroy U V w =
     (let V = V\<lparr>sv_server := (sv_server V)\<lparr>zs_running := False\<rparr>\<rparr> in
      case sv_upnp V of
        None \<Rightarrow> (V, w)
      | Some u \<Rightarrow> (V\<lparr>sv_upnp := None\<rparr>, snd (upnp_destroy U u w)))"

definition served_external_address :: "'g served \<Rightarrow> string" where
  "served_external_address V = (case sv_upnp V of None \<Rightarrow> [] | Some u \<Rightarrow> up_wan_address u)"

definition served_upnp_active :: "'g served \<Rightarrow> bool" where
  "served_upnp_active V = (case sv_upnp V of None \<Rightarrow> False | Some u \<Rightarrow> up_active u)"

text \<open>The server inside is the one that the node uses.\<close>

lemma served_bind_server:
  "served_bind Z U V k w = (err, V', k', w') \<Longrightarrow> server_bind Z (sv_server V) k = (err, sv_server V', k')"
  by (cases "sv_server V") (auto simp: served_bind_def server_bind_def Let_def split: prod.splits if_splits)

section \<open>Ends and keys\<close>

definition client_destroy :: "ZMQClient \<Rightarrow> ZMQClient" where
  "client_destroy S = S\<lparr>zc_running := False\<rparr>"

definition subscriber_destroy :: "ZMQSubscriber \<Rightarrow> ZMQSubscriber" where
  "subscriber_destroy S = S\<lparr>zu_running := False\<rparr>"

text \<open>\<open>zmq_curve_keypair\<close> and \<open>zmq_curve_public\<close> are arguments: a return code and the texts.\<close>

definition zmq_generate_keypair :: "int \<times> string \<times> string \<Rightarrow> ErrorCode \<times> string \<times> string" where
  "zmq_generate_keypair curve_keypair =
     (case curve_keypair of (rc, public_text, secret_text) \<Rightarrow>
        if rc \<noteq> 0 then (ZMQ_GENERIC_ERROR, [], []) else (SUCCESS, public_text, secret_text))"

definition zmq_generate_public_key :: "(string \<Rightarrow> int \<times> string) \<Rightarrow> string \<Rightarrow> ErrorCode \<times> string" where
  "zmq_generate_public_key curve_public secret_text =
     (case curve_public secret_text of (rc, public_text) \<Rightarrow>
        if rc \<noteq> 0 then (ZMQ_GENERIC_ERROR, []) else (SUCCESS, public_text))"

text \<open>A gateway that is found and makes the mappings it is asked for.\<close>

definition accepting_gateway :: "('d, 'g, 'w, 'z) upnp_library_scheme \<Rightarrow> 'w \<Rightarrow> 'g \<Rightarrow> bool" where
  "accepting_gateway U w g \<longleftrightarrow>
     (\<exists>devices lan. upnpDiscover U 1000 False w = (Some devices, 0) \<and> UPNP_GetValidIGD U devices w = (1, g, lan)) \<and>
     (\<forall>q q' l n. fst (UPNP_AddPortMapping U g q q' l n w) = 0)"

lemma upnp_make_forwards:
  assumes laws: "upnp_laws U forwards" and g: "accepting_gateway U w g"
  shows "forwards (snd (upnp_make U p name 1000 False w)) = insert (g, dec (unat p)) (forwards w)"
proof -
  obtain devices lan where d: "upnpDiscover U 1000 False w = (Some devices, 0)" "UPNP_GetValidIGD U devices w = (1, g, lan)"
    using g by (auto simp: accepting_gateway_def)
  have "fst (UPNP_AddPortMapping U g q q' l n w) = 0" for q q' l n using g by (auto simp: accepting_gateway_def)
  then have ok: "upnp_add U u w = (SUCCESS, snd (upnp_add U u w))" if "up_gateway u = g" for u
    using that by (simp add: upnp_add_def split_beta Let_def)
  have "forwards (snd (upnp_add U u w)) = insert (g, dec (unat (up_port u))) (forwards w)" if "up_gateway u = g" for u
    using upnp_add_result [OF laws ok [OF that]] that by simp
  then show ?thesis by (simp add: upnp_make_def d upnp_setup_def split_beta Let_def)
qed

section \<open>What listening does to the gateway\<close>

text \<open>
  \<open>begins U S w S' w'\<close>: the component has begun to listen, \<open>finish\<close> is its destructor. What the
  interface asks: beginning makes a forward for the port, ending destroys the one there is.
\<close>

locale port_listener =
  fixes helper :: "'s \<Rightarrow> 'g UPNP option"
    and begins :: "('d, 'g, 'w, 'z) upnp_library_scheme \<Rightarrow> u16 \<Rightarrow> 's \<Rightarrow> 'w \<Rightarrow> 's \<Rightarrow> 'w \<Rightarrow> bool"
    and finish :: "('d, 'g, 'w, 'z) upnp_library_scheme \<Rightarrow> 's \<Rightarrow> 'w \<Rightarrow> 's \<times> 'w"
  assumes begin_law: "begins U p S w S' w' \<Longrightarrow>
      \<exists>name. helper S' = Some (fst (upnp_make U p name 1000 False w)) \<and>
        w' = snd (upnp_make U p name 1000 False w)"
    and finish_law: "finish U S w = (S', w') \<Longrightarrow>
      helper S' = None \<and> w' = (case helper S of None \<Rightarrow> w | Some u \<Rightarrow> snd (upnp_destroy U u w))"
begin

lemma forwarded:
  assumes "upnp_laws U forwards" "begins U p S w S' w'"
  shows "\<exists>u. helper S' = Some u \<and>
    forwards w' = (if up_active u then insert (up_gateway u, dec (unat p)) (forwards w) else forwards w)"
proof -
  obtain name u where u: "upnp_make U p name 1000 False w = (u, w')" "helper S' = Some u"
    using begin_law [OF assms(2)] by fastforce
  then show ?thesis using upnp_make_result [OF assms(1) u(1)] by auto
qed

lemma forwarded_by_gateway:
  assumes "upnp_laws U forwards" "accepting_gateway U w g" "begins U p S w S' w'"
  shows "forwards w' = insert (g, dec (unat p)) (forwards w)"
  using begin_law [OF assms(3)] upnp_make_forwards [OF assms(1,2)] by auto

text \<open>When the gateway deletes what it is asked to, ending leaves the forwards as they were before.\<close>

lemma released:
  assumes laws: "upnp_laws U forwards" and obeys: "\<And>g q w. fst (UPNP_DeletePortMapping U g q w) = 0"
    and b: "begins U p S w S1 w1" and f: "finish U S1 w1 = (S2, w2)"
    and fresh: "\<And>g. (g, dec (unat p)) \<notin> forwards w"
  shows "helper S2 = None \<and> forwards w2 = forwards w"
proof -
  obtain name u where u: "upnp_make U p name 1000 False w = (u, w1)" "helper S1 = Some u"
    using begin_law [OF b] by fastforce
  note made = upnp_make_result [OF laws u(1)]
  have e: "helper S2 = None" "w2 = snd (upnp_destroy U u w1)" using finish_law [OF f] u(2) by auto
  obtain err w' where d: "upnp_del U u w1 = (err, w')" by fastforce
  then have w': "w' = w2" using e(2) by (simp add: upnp_destroy_def)
  note deleted = upnp_del_result [OF laws d]
  show ?thesis
  proof (cases "up_active u")
    case True
    then have "\<not> failed err"
      using d obeys [of "up_gateway u" "dec (unat (up_port u))" w1]
      by (auto simp: upnp_del_def Let_def split: prod.splits if_splits)
    then show ?thesis using True made deleted(1) w' e(1) fresh by simp
  next
    case False
    then show ?thesis using made deleted(2) w' e(1) by simp
  qed
qed

end

definition served_begins where
  "served_begins Z U p V w V' w' \<longleftrightarrow>
     p = zs_port (sv_server V) \<and> \<not> zs_running (sv_server V) \<and>
     (\<exists>k k'. served_bind (Z :: ('k, 'y) zmq_scheme) U V k w = (SUCCESS, V', k', w'))"

definition publisher_begins where
  "publisher_begins Z U p P w P' w' \<longleftrightarrow>
     p = zp_port P \<and> \<not> zp_running P \<and>
     (\<exists>k k'. publisher_bind (Z :: ('k, 'y) zmq_scheme) U P k w = (SUCCESS, P', k', w'))"

definition http_begins where
  "http_begins K U p S w S' w' \<longleftrightarrow>
     http_upnp S = None \<and>
     (\<exists>host port flags k k'. p = word_of_int port \<and>
        http_listen (K :: ('k, 'r, 'y) http_library_scheme) U host port flags S k w = Some (True, S', k', w'))"

definition http_finish where
  "http_finish K k U S w =
     (case http_destroy (K :: ('k, 'r, 'y) http_library_scheme) U S k w of Some (S, _, w) \<Rightarrow> (S, w) | None \<Rightarrow> (S, w))"

interpretation served_listener: port_listener sv_upnp "served_begins Z" served_destroy
  for Z :: "('k, 'y) zmq_scheme"
  by unfold_locales
    (auto simp: served_begins_def served_bind_def served_destroy_def Let_def split_beta split: if_splits option.splits)

interpretation publisher_listener: port_listener zp_upnp "publisher_begins Z" publisher_destroy
  for Z :: "('k, 'y) zmq_scheme"
  by unfold_locales
    (auto simp: publisher_begins_def publisher_bind_def publisher_destroy_def Let_def split_beta
      split: if_splits option.splits)

interpretation http_listener: port_listener http_upnp "http_begins K" "http_finish K k"
  for K :: "('k, 'r, 'y) http_library_scheme" and k
proof (unfold_locales, goal_cases)
  case 1
  then show ?case by (auto simp: http_begins_def http_listen_def Let_def split_beta split: if_splits)
next
  case 2
  then show ?case
    by (auto simp: http_finish_def http_destroy_def http_shutdown_def Let_def split: option.splits if_splits)
qed

end
