(* ===== verification/Console.thy ===== *)
theory Console
  imports Utilities "HOL-Library.Char_ord" "HOL-Library.List_Lexorder"
begin

text \<open>
  The terminal side of the programs: the printing of tables (\<open>print_table\<close> of
  \<open>src/utilities/utilities.cpp\<close>), the interactive console (\<open>src/utilities/console.cpp\<close>) and the log
  levels (\<open>src/logger/logger.cpp\<close>). What is written to the terminal is the sequence of the values
  that go to the stream. The line editor is an argument: the sequence of the lines that are typed.
\<close>

section \<open>Tables\<close>

datatype COLOR =
    grey | red | green | yellow | blue | magenta | cyan | white
  | on_grey | on_red | on_green | on_yellow | on_blue | on_magenta | on_cyan | on_white
  | reset

datatype piece = Colour COLOR | Text string | Endl

definition table_rule :: "nat \<Rightarrow> piece list" where
  "table_rule total_width = [Colour white, Text (replicate total_width CHR ''=''), Colour reset, Endl]"

text \<open>
  A line of a table with its columns: the entry, the width of the column and its colour.
\<close>

fun table_columns :: "(string \<times> nat \<times> COLOR) list \<Rightarrow> piece list" where
  "table_columns [] = []"
| "table_columns [(s, n, c)] = [Colour c, Text (str_pad s n), Colour white, Text '' |'', Endl]"
| "table_columns ((s, n, c) # cols) =
     [Colour c, Text (str_pad s n), Colour white, Text '' | ''] @ table_columns cols"

definition table_row :: "(string \<times> nat \<times> COLOR) list \<Rightarrow> piece list" where
  "table_row cols = [Colour white, Text ''| ''] @ table_columns cols"

definition longest :: "string list \<Rightarrow> nat" where
  "longest ss = foldl (\<lambda>n s. max n (length s)) 0 ss"

text \<open>
  The frame of the three functions. \<open>None\<close>: the header of a table without rows is read, which
  has no meaning in C++.
\<close>

definition print_rows :: "('r \<Rightarrow> piece list) \<Rightarrow> nat \<Rightarrow> 'r list \<Rightarrow> bool \<Rightarrow> piece list option" where
  "print_rows row total_width rows has_header =
     (if has_header \<and> rows = [] then None
      else
        Some (table_rule total_width @
              (if has_header then row (hd rows) @ table_rule total_width else []) @
              concat (map row (if has_header then tl rows else rows)) @
              table_rule total_width @ [Endl]))"

definition print_table :: "string list \<Rightarrow> bool \<Rightarrow> piece list option" where
  "print_table rows =
     (let long_left = longest rows in
      print_rows (\<lambda>elem. table_row [(elem, long_left, yellow)]) (long_left + 4) rows)"

definition print_table2 :: "(string \<times> string) list \<Rightarrow> bool \<Rightarrow> piece list option" where
  "print_table2 rows =
     (let long_left = longest (map fst rows); long_right = longest (map snd rows) in
      print_rows (\<lambda>(left, right). table_row [(left, long_left, yellow), (right, long_right, green)])
        (long_left + long_right + 7) rows)"

definition print_table3 :: "(string \<times> string \<times> string) list \<Rightarrow> bool \<Rightarrow> piece list option" where
  "print_table3 rows =
     (let long_left = longest (map fst rows); long_middle = longest (map (fst \<circ> snd) rows);
          long_right = longest (map (snd \<circ> snd) rows) in
      print_rows
        (\<lambda>(left, middle, right).
           table_row [(left, long_left, yellow), (middle, long_middle, green), (right, long_right, cyan)])
        (long_left + long_middle + long_right + 10) rows)"

text \<open>The lines that one sees: the texts up to each end of line.\<close>

fun shown_lines :: "string \<Rightarrow> piece list \<Rightarrow> string list" where
  "shown_lines cur [] = (if cur = [] then [] else [cur])"
| "shown_lines cur (Colour c # ps) = shown_lines cur ps"
| "shown_lines cur (Text s # ps) = shown_lines (cur @ s) ps"
| "shown_lines cur (Endl # ps) = cur # shown_lines [] ps"

lemma longest_from: "m \<le> foldl (\<lambda>n s. max n (length s)) m ss"
  by (induction ss arbitrary: m) (simp, metis foldl_Cons max.bounded_iff)

lemma longest_max: "s \<in> set ss \<Longrightarrow> length s \<le> longest ss"
proof -
  have "s \<in> set ss \<Longrightarrow> length s \<le> foldl (\<lambda>n s. max n (length s)) m ss" for m
  proof (induction ss arbitrary: m)
    case (Cons t ss)
    then show ?case using longest_from [of "max m (length t)" ss] by (cases "s = t") auto
  qed simp
  then show "s \<in> set ss \<Longrightarrow> length s \<le> longest ss" by (simp add: longest_def)
qed

text \<open>What is printed as one line of the width \<open>w\<close>.\<close>

definition whole_line :: "nat \<Rightarrow> piece list \<Rightarrow> bool" where
  "whole_line w p \<longleftrightarrow> (\<forall>ps. \<exists>l. shown_lines [] (p @ ps) = l # shown_lines [] ps \<and> length l = w)"

lemma whole_lineD: "whole_line w p \<Longrightarrow> \<exists>l. shown_lines [] (p @ ps) = l # shown_lines [] ps \<and> length l = w"
  unfolding whole_line_def by blast

text \<open>A line of a table is whole, and as long as its columns say when the entries fit.\<close>

definition fitting :: "(string \<times> nat \<times> COLOR) list \<Rightarrow> bool" where
  "fitting cols \<longleftrightarrow> cols \<noteq> [] \<and> (\<forall>(s, n, c) \<in> set cols. length s \<le> n)"

lemma shown_columns:
  "fitting cols \<Longrightarrow> \<exists>l. shown_lines cur (table_columns cols @ ps) = (cur @ l) # shown_lines [] ps \<and>
     length l + 1 = (\<Sum>(s, n, c) \<leftarrow> cols. n + 3)"
proof (induction cols arbitrary: cur rule: table_columns.induct)
  case (3 s n c col cols)
  let ?cur = "cur @ str_pad s n @ '' | ''"
  have "fitting (col # cols)" "length s \<le> n" using 3(2) by (auto simp: fitting_def)
  then obtain l where "shown_lines ?cur (table_columns (col # cols) @ ps) = (?cur @ l) # shown_lines [] ps"
      "length l + 1 = (\<Sum>(s, n, c) \<leftarrow> col # cols. n + 3)" using 3(1) [of ?cur] by blast
  then show ?case using \<open>length s \<le> n\<close>
    by (intro exI [of _ "str_pad s n @ '' | '' @ l"]) (simp add: str_pad_def)
qed (auto simp: fitting_def str_pad_def)

lemma whole_row: "fitting cols \<Longrightarrow> w = (\<Sum>(s, n, c) \<leftarrow> cols. n + 3) + 1 \<Longrightarrow> whole_line w (table_row cols)"
  unfolding whole_line_def
  using shown_columns [of cols "''| ''"] by (fastforce simp: table_row_def)

lemma whole_rule: "whole_line w (table_rule w)"
  by (simp add: whole_line_def table_rule_def)

lemma whole_lines:
  assumes "\<forall>p \<in> set parts. whole_line w p"
  shows "\<exists>ls. shown_lines [] (concat parts @ ps) = ls @ shown_lines [] ps \<and>
    length ls = length parts \<and> (\<forall>l \<in> set ls. length l = w)"
  using assms
proof (induction parts)
  case (Cons p parts)
  then obtain ls where ls: "shown_lines [] (concat parts @ ps) = ls @ shown_lines [] ps"
      "length ls = length parts" "\<forall>l \<in> set ls. length l = w" by auto
  have "whole_line w p" using Cons.prems by simp
  from whole_lineD [OF this, of "concat parts @ ps"] obtain l where
    "shown_lines [] (p @ concat parts @ ps) = l # shown_lines [] (concat parts @ ps)" "length l = w" by blast
  then show ?case using ls by (intro exI [of _ "l # ls"]) simp
qed simp

text \<open>A table is its rules and rows, and an empty line at the end.\<close>

lemma print_rows_aligned:
  assumes "print_rows row w rows h = Some out" "\<forall>r \<in> set rows. whole_line w (row r)"
  shows "\<exists>ls. shown_lines [] out = ls @ [[]] \<and> length ls = length rows + (if h then 3 else 2) \<and>
    (\<forall>l \<in> set ls. length l = w)"
proof -
  define parts where "parts = [table_rule w] @
    (if h then [row (hd rows), table_rule w] else []) @ map row (if h then tl rows else rows) @ [table_rule w]"
  have "out = concat parts @ [Endl]" using assms(1)
    by (auto simp: print_rows_def parts_def split: if_splits)
  moreover have "\<forall>p \<in> set parts. whole_line w p"
    using assms by (cases rows) (auto simp: parts_def whole_rule print_rows_def split: if_splits)
  moreover have "length parts = length rows + (if h then 3 else 2)"
    using assms(1) by (cases rows) (auto simp: parts_def print_rows_def)
  ultimately show ?thesis using whole_lines [of parts w "[Endl]"] by auto
qed

text \<open>All lines of a table are equally long: the entries are aligned.\<close>

lemma print_table_aligned:
  "print_table rows h = Some out \<Longrightarrow>
     \<exists>ls w. shown_lines [] out = ls @ [[]] \<and> length ls = length rows + (if h then 3 else 2) \<and>
       (\<forall>l \<in> set ls. length l = w)"
  unfolding print_table_def Let_def
  by (drule print_rows_aligned, auto intro!: whole_row simp: fitting_def longest_max)

lemma print_table2_aligned:
  "print_table2 rows h = Some out \<Longrightarrow>
     \<exists>ls w. shown_lines [] out = ls @ [[]] \<and> length ls = length rows + (if h then 3 else 2) \<and>
       (\<forall>l \<in> set ls. length l = w)"
  unfolding print_table2_def Let_def
  by (drule print_rows_aligned, auto intro!: whole_row longest_max simp: fitting_def rev_image_eqI)

lemma print_table3_aligned:
  "print_table3 rows h = Some out \<Longrightarrow>
     \<exists>ls w. shown_lines [] out = ls @ [[]] \<and> length ls = length rows + (if h then 3 else 2) \<and>
       (\<forall>l \<in> set ls. length l = w)"
  unfolding print_table3_def Let_def
  by (drule print_rows_aligned, auto intro!: whole_row longest_max simp: fitting_def rev_image_eqI)

section \<open>The console\<close>

text \<open>
  A callback is a function on the state of the application, with or without the words behind the
  command. The map of commands is ordered by the command.
\<close>

datatype 'a callback_t = Plain "'a \<Rightarrow> 'a" | WithArguments "string list \<Rightarrow> 'a \<Rightarrow> 'a"

record 'a console_command_t =
  cmd_command :: string
  cmd_description :: string
  cmd_callback :: "'a callback_t"

record 'a ConsoleHandler =
  m_commands :: "(string \<times> 'a console_command_t) list"
  m_command_names :: "string list"
  m_name :: string
  m_break :: bool
  m_generate_help :: bool

definition console_make :: "string \<Rightarrow> 'a ConsoleHandler" where
  "console_make application_name =
     \<lparr>m_commands = [], m_command_names = [''exit'', ''help'', ''quit''], m_name = application_name,
      m_break = False, m_generate_help = True\<rparr>"

text \<open>The map keeps the first of two commands with one name; the list of names has both.\<close>

definition register_command ::
  "string \<Rightarrow> string \<Rightarrow> 'a callback_t \<Rightarrow> 'a ConsoleHandler \<Rightarrow> 'a ConsoleHandler" where
  "register_command command description callback H =
     (let command = str_trim command True in
      if command = [] \<or> command = ''exit'' \<or> command = ''quit'' then H
      else
        let H = (if command = ''help'' then H\<lparr>m_generate_help := False\<rparr> else H);
            H = H\<lparr>m_command_names := m_command_names H @ [command]\<rparr>;
            handler = \<lparr>cmd_command = command, cmd_description = description, cmd_callback = callback\<rparr> in
        H\<lparr>m_commands := map_insert (<) command handler (m_commands H)\<rparr>)"

definition maximum_command_length :: "'a ConsoleHandler \<Rightarrow> nat" where
  "maximum_command_length H = foldl (\<lambda>n command. max (length command) n) 0 (m_command_names H)"

definition help_rows :: "'a ConsoleHandler \<Rightarrow> (string \<times> string) list" where
  "help_rows H =
     [(''Command'', ''Description'')] @ map (\<lambda>(command, option). (command, cmd_description option)) (m_commands H) @
     [(''exit'', ''Exits the program''), (''help'', ''Displays this help message'')]"

definition display_help :: "'a ConsoleHandler \<Rightarrow> piece list" where
  "display_help H =
     [Endl, Colour white, Text (m_name H), Text '' Help Menu'', Colour reset, Endl] @
     the (print_table2 (help_rows H) True)"

lemma help_is_printed: "\<exists>out. print_table2 (help_rows H) True = Some out"
  by (simp add: help_rows_def print_table2_def print_rows_def Let_def)

text \<open>What the completion offers for what has been typed.\<close>

definition completions :: "'a ConsoleHandler \<Rightarrow> string \<Rightarrow> string list" where
  "completions H inp = filter (\<lambda>command. take (length inp) command = inp) (m_command_names H)"

text \<open>
  What \<open>Readline\<close> gives: whether the input has ended, whether the signal handler has run while it
  waited, and the line.
\<close>

record console_line =
  line_quit :: bool
  line_signal :: bool
  line_text :: string

text \<open>The state of the application, the terminal and the history of the editor.\<close>

record 'a console =
  con_app :: 'a
  con_output :: "piece list"
  con_history :: "string list"

definition con_write :: "piece list \<Rightarrow> 'a console \<Rightarrow> 'a console" where
  "con_write ps S = S\<lparr>con_output := con_output S @ ps\<rparr>"

definition graceful_exit :: "piece list" where
  "graceful_exit = [Endl, Colour yellow, Text ''Attempting graceful exit...'', Colour reset, Endl, Endl]"

definition command_not_found :: "piece list" where
  "command_not_found =
     [Colour red, Text ''Command not found. Please check the spelling and try again.'', Colour reset, Endl]"

definition run_callback :: "'a callback_t \<Rightarrow> string list \<Rightarrow> 'a \<Rightarrow> 'a" where
  "run_callback callback arguments a =
     (case callback of Plain f \<Rightarrow> f a | WithArguments f \<Rightarrow> f arguments a)"

text \<open>One round of the loop of \<open>run\<close>; the first result is whether the loop goes on.\<close>

definition console_step ::
  "'a ConsoleHandler \<Rightarrow> console_line \<Rightarrow> 'a console \<Rightarrow> bool \<times> 'a ConsoleHandler \<times> 'a console" where
  "console_step H l S =
     (let H = (if line_signal l then H\<lparr>m_break := True\<rparr> else H) in
      if line_quit l \<or> m_break H then (False, H, con_write graceful_exit S)
      else
        let command_parts = str_split (str_trim (line_text l) True) CHR '' '';
            command = hd command_parts in
        if command = [] then (True, H, S)
        else
          let command = (if command = ''?'' then ''help'' else command);
              command_parts = tl command_parts in
          if command = ''exit'' \<or> command = ''quit'' then
            (False, H\<lparr>m_break := True\<rparr>, con_write graceful_exit S)
          else if command = ''help'' \<and> m_generate_help H then (True, H, con_write (display_help H) S)
          else
            (case map_of (m_commands H) command of
               Some option \<Rightarrow>
                 (True, H, S\<lparr>con_history := con_history S @ [command],
                             con_app := run_callback (cmd_callback option) command_parts (con_app S)\<rparr>)
             | None \<Rightarrow> (True, H, con_write command_not_found S)))"

text \<open>\<open>run\<close> on a sequence of lines; \<open>False\<close>: the lines are used up and the console still waits.\<close>

fun console_loop ::
  "'a ConsoleHandler \<Rightarrow> console_line list \<Rightarrow> 'a console \<Rightarrow> bool \<times> 'a ConsoleHandler \<times> 'a console" where
  "console_loop H [] S = (m_break H, H, S)"
| "console_loop H (l # ls) S =
     (if m_break H then (True, H, S)
      else let (on, H, S) = console_step H l S in if on then console_loop H ls S else (True, H, S))"

definition console_run ::
  "'a ConsoleHandler \<Rightarrow> console_line list \<Rightarrow> 'a console \<Rightarrow> bool \<times> 'a ConsoleHandler \<times> 'a console" where
  "console_run H ls S = console_loop (H\<lparr>m_break := False\<rparr>) ls S"

text \<open>
  What registering keeps: the map is ordered, every command in it is offered by the completion,
  none of them is one of the words that end the program, and the help is generated unless there
  is a command of that name.
\<close>

definition console_ok :: "'a ConsoleHandler \<Rightarrow> bool" where
  "console_ok H \<longleftrightarrow>
     sorted_map (<) (m_commands H) \<and> fst ` set (m_commands H) \<subseteq> set (m_command_names H) \<and>
     map_of (m_commands H) ''exit'' = None \<and> map_of (m_commands H) ''quit'' = None \<and>
     map_of (m_commands H) [] = None \<and>
     (m_generate_help H \<longleftrightarrow> map_of (m_commands H) ''help'' = None)"

lemma string_less: "strict_total ((<) :: string \<Rightarrow> string \<Rightarrow> bool)"
  by (rule strict_total_less)

lemma console_make_ok: "console_ok (console_make n)"
  by (simp add: console_ok_def console_make_def sorted_map_def)

lemma register_command_ok:
  assumes "console_ok H" shows "console_ok (register_command c d f H)"
proof -
  define ex qu he where w: "ex = ''exit''" "qu = ''quit''" "he = ''help''"
  define k where "k = str_trim c True"
  let ?m = "m_commands H" and ?h = "\<lparr>cmd_command = k, cmd_description = d, cmd_callback = f\<rparr>"
  have s: "sorted_map (<) ?m" using assms by (simp add: console_ok_def)
  note m = s map_of_map_insert [OF string_less s, of k ?h]
  have "fst ` set (map_insert (<) k ?h ?m) = insert k (fst ` set ?m)"
    using arg_cong [OF map_fst_insert [of "(<)" k ?h ?m], of set] by (simp add: set_set_insert string_less)
  then show ?thesis using assms m
    unfolding console_ok_def register_command_def Let_def w [symmetric] k_def [symmetric]
    by (cases "k = [] \<or> k = ex \<or> k = qu"; cases "k = he")
      (auto simp: sorted_map_insert string_less)
qed

text \<open>A registered command is there, unless there was one of that name, which stays.\<close>

lemma register_command_finds:
  assumes "console_ok H" "str_trim c True = c" "c \<notin> {[], ''exit'', ''quit''}"
  shows "map_of (m_commands (register_command c d f H)) =
    (if map_of (m_commands H) c = None
     then (map_of (m_commands H))(c \<mapsto> \<lparr>cmd_command = c, cmd_description = d, cmd_callback = f\<rparr>)
     else map_of (m_commands H))"
proof -
  have s: "sorted_map (<) (m_commands H)" using assms(1) by (simp add: console_ok_def)
  have c: "\<not> (c = [] \<or> c = ''exit'' \<or> c = ''quit'')" using assms(3) by simp
  show ?thesis unfolding register_command_def assms(2) Let_def if_not_P [OF c]
    using map_of_map_insert [OF string_less s] by simp
qed

text \<open>
  The words of a line that was trimmed and is in lower case; a line that begins with a blank
  has an empty first word.
\<close>

lemma typed_words:
  assumes "str_trim t True = t" "t = str_join (c # args) CHR '' ''" "\<forall>w \<in> set (c # args). CHR '' '' \<notin> set w"
  shows "str_split (str_trim t True) CHR '' '' = c # args"
  unfolding assms(1) unfolding assms(2) by (rule split_join) (use assms(3) in auto)

lemma blank_first:
  "t = CHR '' '' # r \<Longrightarrow> hd (str_split (str_trim t True) CHR '' '') = []"
proof -
  assume t: "t = CHR '' '' # r"
  have b: "CHR '' '' \<notin> trim_chars" by (simp add: trim_chars_def)
  have "\<not> P x \<Longrightarrow> dropWhile P (xs @ [x]) = dropWhile P xs @ [x]" for P and x :: char and xs
    by (induction xs) auto
  then obtain q where q: "rev (dropWhile (\<lambda>c. c \<in> trim_chars) (rev t)) = CHR '' '' # q"
    using b by (simp add: t)
  have "str_trim t True = CHR '' '' # map tolower q"
    unfolding str_trim_def Let_def q using b by (simp add: tolower_def)
  then show ?thesis by (simp add: str_split.simps)
qed

lemma console_step_runs:
  assumes "console_ok H" "\<not> m_break H" "\<not> line_quit l" "\<not> line_signal l"
    "str_split (str_trim (line_text l) True) CHR '' '' = c # args" "c \<noteq> ''?''" "map_of (m_commands H) c = Some k"
  shows "console_step H l S =
    (True, H, S\<lparr>con_history := con_history S @ [c], con_app := run_callback (cmd_callback k) args (con_app S)\<rparr>)"
proof -
  have c: "c \<noteq> []" "c \<noteq> ''exit''" "c \<noteq> ''quit''" "\<not> (c = ''help'' \<and> m_generate_help H)"
    using assms(1,7) by (auto simp: console_ok_def)
  then show ?thesis using assms by (auto simp: console_step_def Let_def)
qed

lemma console_step_blank:
  assumes "\<not> m_break H" "\<not> line_quit l" "\<not> line_signal l" "line_text l = CHR '' '' # r"
  shows "console_step H l S = (True, H, S)"
  using assms blank_first [OF assms(4)] by (simp add: console_step_def Let_def)

text \<open>The console ends with the first line that asks for it, at the latest.\<close>

definition asks_to_leave :: "console_line \<Rightarrow> bool" where
  "asks_to_leave l \<longleftrightarrow> line_quit l \<or> line_signal l \<or> str_trim (line_text l) True \<in> {''exit'', ''quit''}"

lemma console_step_leaves: "asks_to_leave l \<Longrightarrow> \<exists>H' S'. console_step H l S = (False, H', S')"
proof -
  assume a: "asks_to_leave l"
  have "str_split ''exit'' CHR '' '' = [''exit'']" "str_split ''quit'' CHR '' '' = [''quit'']"
    by (simp_all add: str_split.simps)
  then show ?thesis using a by (auto simp: console_step_def asks_to_leave_def Let_def)
qed

lemma console_loop_ends: "\<exists>l \<in> set ls. asks_to_leave l \<Longrightarrow> \<exists>H' S'. console_loop H ls S = (True, H', S')"
proof (induction ls arbitrary: H S)
  case (Cons l ls)
  obtain on H1 S1 where s: "console_step H l S = (on, H1, S1)" by (cases "console_step H l S")
  show ?case
  proof (cases "m_break H \<or> \<not> on")
    case True
    then show ?thesis using s by auto
  next
    case False
    then have "\<not> asks_to_leave l" using console_step_leaves [of l H S] s by auto
    then show ?thesis using Cons False s by simp
  qed
qed simp

text \<open>What a line may do to the application: run one of the callbacks, or nothing.\<close>

lemma console_step_handler: "console_step H l S = (on, H', S') \<Longrightarrow> m_commands H' = m_commands H"
  by (auto simp: console_step_def Let_def split: if_splits option.splits)

lemma console_step_app:
  assumes "console_step H l S = (on, H', S')"
  shows "con_app S' = con_app S \<or>
    (\<exists>c k args. (c, k) \<in> set (m_commands H) \<and> con_app S' = run_callback (cmd_callback k) args (con_app S))"
proof -
  define first rest where "first = hd (str_split (str_trim (line_text l) True) CHR '' '')"
    and "rest = tl (str_split (str_trim (line_text l) True) CHR '' '')"
  define c where "c = (if first = ''?'' then ''help'' else first)"
  have "con_app S' = con_app S \<or>
      (\<exists>k. map_of (m_commands H) c = Some k \<and> con_app S' = run_callback (cmd_callback k) rest (con_app S))"
    using assms unfolding console_step_def Let_def first_def [symmetric] rest_def [symmetric] c_def [symmetric]
    by (cases "map_of (m_commands H) c") (auto simp: con_write_def split: if_splits)
  then show ?thesis using map_of_SomeD by metis
qed

lemma registered_commands:
  "(c', k) \<in> set (m_commands (register_command c d f H)) \<Longrightarrow>
     (c', k) \<in> set (m_commands H) \<or> cmd_callback k = f"
proof -
  have "set (map_insert lt c v m) \<subseteq> insert (c, v) (set m)" for lt c and v :: "'a console_command_t" and m
    by (induction m) (auto split: if_splits)
  then show "(c', k) \<in> set (m_commands (register_command c d f H)) \<Longrightarrow> ?thesis"
    by (fastforce simp: register_command_def Let_def split: if_splits)
qed

section \<open>Log levels\<close>

datatype logging_level = LogOff | LogCritical | LogErr | LogWarn | LogInfo | LogDebug | LogTrace

definition get_log_level :: "u64 \<Rightarrow> logging_level option" where
  "get_log_level level =
     (if level = 0 then Some LogOff else if level = 1 then Some LogCritical
      else if level = 2 then Some LogErr else if level = 3 then Some LogWarn
      else if level = 4 then Some LogInfo else if level = 5 then Some LogDebug
      else if level = 6 then Some LogTrace else None)"

text \<open>The number is an \<open>int\<close> that becomes a \<open>size_t\<close>.\<close>

definition get_log_level_string :: "string \<Rightarrow> logging_level option" where
  "get_log_level_string level = do { temp \<leftarrow> stoi level; get_log_level (word_of_int temp) }"

lemma get_log_level_defined: "get_log_level n \<noteq> None \<longleftrightarrow> n \<le> 6"
proof -
  have "n \<le> 6 \<longleftrightarrow> unat n \<in> {0, 1, 2, 3, 4, 5, 6}" by (auto simp: word_le_nat_alt)
  then show ?thesis by (auto simp: get_log_level_def word_unat_eq_iff)
qed

lemma negative_levels_are_refused:
  "stoi s = Some i \<Longrightarrow> i < 0 \<Longrightarrow> get_log_level_string s = None"
proof -
  assume s: "stoi s = Some i" and i: "i < 0"
  have "- (2 ^ 31) \<le> i" using s by (auto simp: stoi_def Let_def split: if_splits)
  then have "(i + 2 ^ 64) mod 2 ^ 64 = i + 2 ^ 64" using i by (intro mod_pos_pos_trivial) simp_all
  then have "uint (word_of_int i :: u64) = i + 2 ^ 64" by (simp add: uint_word_of_int)
  then show ?thesis using s i get_log_level_defined [of "word_of_int i"] \<open>- (2 ^ 31) \<le> i\<close>
    by (auto simp: get_log_level_string_def word_le_def)
qed

end
