(* ===== verification/Command_Line.thy ===== *)
theory Command_Line
  imports Console Config Lmdb_Open
begin

text \<open>
  What the programs do before they start to work: the command line (\<open>src/utilities/cli_helper.cpp\<close>)
  and the encryption of texts (\<open>src/utilities/aes_helper.cpp\<close>). The option parser, the file system
  and the cipher are parameters.
\<close>

section \<open>The options\<close>

text \<open>
  The parser: what it makes of the arguments, or the message of its exception; how often an option
  was given; and its value as a text and as a number, \<open>None\<close> where the conversion throws.
\<close>

record ('o, 'v) option_parser =
  options_parse :: "string list \<Rightarrow> string + 'o"
  options_count :: "'o \<Rightarrow> string \<Rightarrow> nat"
  option_value :: "'o \<Rightarrow> string \<Rightarrow> 'v option"
  option_number :: "'o \<Rightarrow> string \<Rightarrow> u64 option"
  options_help :: string

record 'o CLIHelper =
  cli_log_level :: logging_level
  cli_parse_result :: "'o option"

definition cli_make :: "'o CLIHelper" where
  "cli_make = \<lparr>cli_log_level = LogOff, cli_parse_result = None\<rparr>"

definition argument_exists :: "('o, 'v, 'z) option_parser_scheme \<Rightarrow> 'o \<Rightarrow> string \<Rightarrow> bool" where
  "argument_exists K parse_result opt \<longleftrightarrow> options_count K parse_result opt > 0"

text \<open>\<open>argument_load\<close>: \<open>None\<close> is the exception of the conversion.\<close>

definition argument_load :: "('o, 'v, 'z) option_parser_scheme \<Rightarrow> 'o \<Rightarrow> string \<Rightarrow> 'v \<Rightarrow> 'v option" where
  "argument_load K parse_result opt target =
     (if argument_exists K parse_result opt then option_value K parse_result opt else Some target)"

section \<open>The header\<close>

definition get_version :: string where
  "get_version =
     ''v'' @ dec VERSION_MAJOR @ ''.'' @ dec VERSION_MINOR @ ''.'' @ dec VERSION_PATCH @ '' ('' @ dec VERSION_BUILD @ '')''"

text \<open>The picture of \<open>ascii.h\<close> is an argument.\<close>

definition get_cli_header :: "string \<Rightarrow> string" where
  "get_cli_header asciiArt =
     concat (map (\<lambda>l. l @ [CHR 0x0A])
       ['''', asciiArt, '' '' @ PROJECT_NAME @ '' '' @ get_version, '''',
        '' This software is distributed under the TRTL-OSLv1 License'', '''',
        '' '' @ COPYRIGHT, '''',
        '' Additional Copyright(s) may apply, please see the included LICENSE '',
        '' file for more information.'', '''',
        '' If you did not receive a copy of the LICENSE, please visit: '',
        '' '' @ LICENSE_URL, '''',
        ''----------------------------------------------------------------------'', ''''])"

definition print_cli_header :: "string \<Rightarrow> piece list" where
  "print_cli_header asciiArt = [Colour green, Text (get_cli_header asciiArt), Colour reset]"

section \<open>Parsing\<close>

text \<open>The program ends with an exit code or goes on.\<close>

datatype 'a cli_end = Exit nat | Continue 'a

definition cli_parse ::
  "('o, 'v, 'z) option_parser_scheme \<Rightarrow> string \<Rightarrow> string \<Rightarrow> string list \<Rightarrow> 'o CLIHelper \<Rightarrow>
     piece list \<times> 'o CLIHelper cli_end" where
  "cli_parse K asciiArt program_credits argv H =
     (let header = print_cli_header asciiArt;
          usage = [Text (options_help K), Endl] in
      case options_parse K argv of
        Inl what \<Rightarrow>
          (header @ usage @
             [Colour red, Text ''Unable to parse command line argument options: '', Text what, Colour reset, Endl, Endl],
           Exit 1)
      | Inr parse_result \<Rightarrow>
          if options_count K parse_result ''help'' > 0 then (header @ usage, Exit 0)
          else if options_count K parse_result ''credits'' > 0 then
            (header @ [Text program_credits, Endl, Endl], Exit 0)
          else if options_count K parse_result ''version'' > 0 then (header, Exit 0)
          else
            (case Option.bind (option_number K parse_result ''log-level'') get_log_level of
               None \<Rightarrow>
                 (header @ usage @ [Colour red, Text ''Invalid log level specified'', Colour reset, Endl, Endl], Exit 1)
             | Some level \<Rightarrow>
                 (header, Continue (H\<lparr>cli_log_level := level, cli_parse_result := Some parse_result\<rparr>))))"

text \<open>
  The header is always the first thing that is shown. The program goes on exactly with options that
  were parsed, none of which asks for a text, and with a level from 0 to 6.
\<close>

lemma cli_parse_shows_header:
  "\<exists>more. fst (cli_parse K art credits argv H) = print_cli_header art @ more"
  by (auto simp: cli_parse_def Let_def split: sum.splits option.splits)

lemma cli_parse_continues:
  "snd (cli_parse K art credits argv H) = Continue H' \<longleftrightarrow>
     (\<exists>opts n level. options_parse K argv = Inr opts \<and>
        \<not> argument_exists K opts ''help'' \<and> \<not> argument_exists K opts ''credits'' \<and> \<not> argument_exists K opts ''version'' \<and>
        option_number K opts ''log-level'' = Some n \<and> n \<le> 6 \<and> get_log_level n = Some level \<and>
        H' = H\<lparr>cli_log_level := level, cli_parse_result := Some opts\<rparr>)"
proof -
  have "get_log_level n = Some level \<Longrightarrow> n \<le> 6" for n level using get_log_level_defined [of n] by simp
  then show ?thesis
    by (auto simp: cli_parse_def Let_def argument_exists_def split: sum.splits option.splits Option.bind_splits)
qed

lemma cli_parse_exits:
  "snd (cli_parse K art credits argv H) = Exit n \<Longrightarrow> n \<le> 1"
  by (auto simp: cli_parse_def Let_def split: sum.splits option.splits if_splits)

section \<open>Paths\<close>

text \<open>The file system that LMDB uses, with the calls for paths that only the programs make.\<close>

record ('e, 't, 'c, 'f) program_files = "('e, 't, 'c, 'f) lmdb_files" +
  fs_remove :: "string \<Rightarrow> 'f \<Rightarrow> string + 'f"
  fs_resolved :: "string \<Rightarrow> string"
  fs_home :: string

definition get_db_path ::
  "('e, 't, 'c, 'f, 'z) program_files_scheme \<Rightarrow> string \<Rightarrow> string \<Rightarrow> 'f \<Rightarrow> string \<times> 'f" where
  "get_db_path F directory name f =
     (let f = (if \<not> fs_exists F f directory \<or> \<not> fs_is_directory F f directory
               then fs_create_directory F directory f else f) in
      (fs_resolved F (directory @ ''/'' @ name), f))"

definition get_home_directory :: "('e, 't, 'c, 'f, 'z) program_files_scheme \<Rightarrow> string" where
  "get_home_directory F = fs_home F"

definition get_default_db_directory :: "('e, 't, 'c, 'f, 'z) program_files_scheme \<Rightarrow> string" where
  "get_default_db_directory F = fs_resolved F (get_home_directory F @ ''/'' @ DEFAULT_DATA_DIR)"

section \<open>Encrypted texts\<close>

text \<open>The cipher of the crypto library is an argument, \<open>Inl\<close> the message of its exception; \<open>file\<close> is the
  name of the source file as the compiler gives it.\<close>

definition aes_decrypt ::
  "(string \<Rightarrow> string \<Rightarrow> u64 \<Rightarrow> string + string) \<Rightarrow> string \<Rightarrow> string \<Rightarrow> string \<Rightarrow> u64 \<Rightarrow> Error \<times> string" where
  "aes_decrypt decrypt file inp password iterations =
     (case decrypt inp password iterations of
        Inr decrypted \<Rightarrow> (MAKE_ERROR SUCCESS 17 file, decrypted)
      | Inl what \<Rightarrow> (MAKE_ERROR_MSG AES_DECRYPTION_ERROR what 21 file, []))"

definition aes_encrypt ::
  "(string \<Rightarrow> string \<Rightarrow> u64 \<Rightarrow> string) \<Rightarrow> string \<Rightarrow> string \<Rightarrow> u64 \<Rightarrow> string" where
  "aes_encrypt encrypt inp password iterations = encrypt inp password iterations"

end
