(* ===== verification/Seed_Node.thy ===== *)
theory Seed_Node
  imports Listeners Command_Line P2p_Service
begin

text \<open>
  What the programs see of a node: the accessors and the destructor of \<open>Node\<close>, and the commands
  that the seed node (\<open>src/seed_node/node.cpp\<close>) registers with the console. A command is a program
  over the node that ends with what it shows, on the terminal or in the log.
\<close>

section \<open>Accessors of the node\<close>

definition incoming_connected :: "'e Node \<Rightarrow> string list" where
  "incoming_connected N = server_connected (node_server N)"

definition incoming_connections :: "'e Node \<Rightarrow> nat" where
  "incoming_connections N = server_connections (node_server N)"

definition outgoing_connected :: "'e Node \<Rightarrow> string list" where
  "outgoing_connected N =
     tsm_each (node_clients N) (\<lambda>_ client results. results @ client_connected client) []"

definition outgoing_connections :: "'e Node \<Rightarrow> nat" where
  "outgoing_connections N = tsm_size (node_clients N)"

definition node_peer_id :: "'e Node \<Rightarrow> crypto_hash_t" where
  "node_peer_id N = m_peer_id (node_peer_db N)"

definition node_port :: "'e Node \<Rightarrow> u16" where
  "node_port N = zs_port (node_server N)"

text \<open>The destructor: the threads see that the node is not running, the server and the clients end.\<close>

definition node_destroy :: "'e Node \<Rightarrow> 'e Node" where
  "node_destroy N =
     N\<lparr>node_running := False, node_server := (node_server N)\<lparr>zs_running := False\<rparr>, node_clients := []\<rparr>"

lemma outgoing_connected_all:
  "set (outgoing_connected N) = (\<Union>(_, client) \<in> set (node_clients N). set (client_connected client))"
proof -
  have "set (foldl (\<lambda>s (key, v). s @ client_connected v) acc cs) =
      set acc \<union> (\<Union>(_, client) \<in> set cs. set (client_connected client))"
    for acc and cs :: "(crypto_hash_t \<times> ZMQClient) list"
    by (induction cs arbitrary: acc) auto
  then show ?thesis by (simp add: outgoing_connected_def tsm_each_def)
qed

text \<open>A node that has been destroyed sends nothing more.\<close>

lemma destroyed_is_silent:
  "node_server (node_destroy N) = server_send m (node_server (node_destroy N))"
  "outgoing_connected (node_destroy N) = []"
  by (simp_all add: node_destroy_def server_send_def outgoing_connected_def tsm_each_def)

section \<open>The commands of the seed node\<close>

datatype shown = Table "piece list" | Log string

definition status_rows :: "'z json_scheme \<Rightarrow> 'e Node \<Rightarrow> string \<Rightarrow> u64 \<Rightarrow> (string \<times> string) list" where
  "status_rows J N external_address known =
     [(''Item'', ''Value''),
      (''Version'', get_version),
      (''P2P Version'', dec (unat P2P_VERSION)),
      (''Minimum P2P Version'', dec (unat P2P_MINIMUM_VERSION)),
      (''Peer ID'', key_to_string J (node_peer_id N)),
      (''Port'', dec (unat (node_port N))),
      (''Incoming Connections'', dec (incoming_connections N)),
      (''Outgoing Connections'', dec (outgoing_connections N)),
      (''Known Peers'', dec (unat known))] @
     (if external_address \<noteq> [] then [(''External IP'', external_address)] else [])"

definition seed_status where
  "seed_status (J :: 'z json_scheme) (L :: ('e, 't, 'c, 'y) lmdb_cursors_scheme) external_address =
     io_bind (in_env (peerdb_count L)) (\<lambda>known.
       io_gets (\<lambda>N. Table (the (print_table2 (status_rows J N external_address known) True))))"

definition seed_incoming :: "('e, shown) node_io" where
  "seed_incoming = io_gets (\<lambda>N. Table (the (print_table (''Address'' # incoming_connected N) True)))"

definition seed_outgoing :: "('e, shown) node_io" where
  "seed_outgoing = io_gets (\<lambda>N. Table (the (print_table (''Address'' # outgoing_connected N) True)))"

definition peer_row :: "'y network_scheme \<Rightarrow> 'z json_scheme \<Rightarrow> network_peer_t \<Rightarrow> string \<times> string \<times> string" where
  "peer_row C J q =
     (key_to_string J (peer_id q), ip_to_string C (peer_address q) @ '':'' @ dec (unat (peer_port q)),
      dec (unat (last_seen q)))"

definition show_peers :: "'y network_scheme \<Rightarrow> 'z json_scheme \<Rightarrow> network_peer_t list \<Rightarrow> shown" where
  "show_peers C J peers =
     (if peers \<noteq> []
      then Table (the (print_table3 ((''Peer ID'', ''IP:Port'', ''Last Seen'') # map (peer_row C J) peers) True))
      else Log ''Peer list is empty'')"

definition seed_peers where
  "seed_peers (C :: 'x network_scheme) (J :: 'z json_scheme) (L :: ('e, 't, 'c, 'y) lmdb_cursors_scheme) mix =
     io_bind (node_peers C L mix 0 (hash_default C)) (\<lambda>peers. io_return (show_peers C J peers))"

text \<open>\<open>prune\<close> reads the list, whose shuffle looks at the clock, and then the clock.\<close>

definition seed_prune where
  "seed_prune (C :: 'x network_scheme) (L :: ('e, 't, 'c, 'y) lmdb_cursors_scheme) (mix :: shuffle) =
     io_bind node_time (\<lambda>seed. io_bind node_time (\<lambda>now.
       io_bind (in_env (\<lambda>P. peerdb_prune C L P (mix seed) now)) (\<lambda>_. io_return (Log ''Pruned peer list''))))"

definition seed_set_log :: "string list \<Rightarrow> logging_level \<Rightarrow> logging_level \<times> shown" where
  "seed_set_log args level =
     (if args = [] then (level, Log ''Must supply a log level with this command [0-6]'')
      else case get_log_level_string (hd args) of
             Some new_level \<Rightarrow> (new_level, Log (''Changed logging level to: '' @ hd args))
           | None \<Rightarrow>
               (level, Log (''Could not set new logging level: '' @
                  (if stoi (hd args) = None then ''Logging level supplied is not a number''
                   else ''Unknown log level supplied''))))"

section \<open>What the commands show\<close>

lemma peer_rows_aligned:
  assumes "ps \<noteq> []" "show_peers C J ps = Table out"
  shows "\<exists>ls w. shown_lines [] out = ls @ [[]] \<and> length ls = length ps + 4 \<and> (\<forall>l \<in> set ls. length l = w)"
proof -
  let ?rows = "(''Peer ID'', ''IP:Port'', ''Last Seen'') # map (peer_row C J) ps"
  obtain tab where tab: "print_table3 ?rows True = Some tab" by (simp add: print_table3_def print_rows_def Let_def)
  then have "out = tab" using assms by (simp add: show_peers_def)
  then show ?thesis using print_table3_aligned [OF tab] by auto
qed

lemma seed_peers_runs:
  assumes N: "node_has C L ev tv cv N t" and card: "card (dom t) < 2 ^ 64" and mix: "\<And>s ps. mset (mix s ps) = mset ps"
  shows "\<exists>N' ps. seed_peers C J L mix N = Some (N', Returned (show_peers C J ps)) \<and> node_has C L ev tv cv N' t \<and>
    set ps = ran t \<and> distinct (map peer_id ps)"
proof -
  let ?P = "node_peer_db N" and ?mix = "mix (node_clock N (node_ticks N))" and ?net = "hash_default C"
  have p: "peerdb_reliable (C, L, ev, tv, cv, ?P)" "peerdb_holds (C, L, ev, tv, cv, ?P) (node_env N) t"
    using N by (simp_all add: node_has_def)
  have law: "peerdb_lawful (C, L, ev, tv, cv, ?P)" "network_laws C" using p(1) by simp_all
  obtain E' ps where r: "peerdb_peers C L ?P ?mix 0 ?net (node_env N) = Some (E', Returned ps)"
      "peerdb_holds (C, L, ev, tv, cv, ?P) E' t"
    using peers_succeed [OF p card, of ?mix 0 ?net] mix by blast
  note q = peers_complete [OF law(1) p(2) card _ r(1)]
  have "key_empty C ?net" using law(2) by (simp add: network_laws_def)
  then have "set ps = ran t" "distinct (map peer_id ps)" using q mix by auto
  moreover have "seed_peers C J L mix N =
      Some (N\<lparr>node_ticks := Suc (node_ticks N), node_env := E'\<rparr>, Returned (show_peers C J ps))"
    using r(1) by (simp add: seed_peers_def node_peers_def io_bind_def node_time_def in_env_def io_return_def)
  ultimately show ?thesis using p(1) r(2)
    by (intro exI [of _ "N\<lparr>node_ticks := Suc (node_ticks N), node_env := E'\<rparr>"] exI [of _ ps])
      (simp add: node_has_def del: peerdb_holds.simps peerdb_reliable.simps)
qed

end
