(* ===== verification/Seed_Console.thy ===== *)
theory Seed_Console
  imports Seed_Node Command_Line
begin

text \<open>
  The seed node as a program (\<open>main\<close> of \<open>src/seed_node/node.cpp\<close>): the options, the peer database,
  the node, its commands at the console, and the way to the end. What the threads of the node do
  while the console waits for a line is an argument; the runs of the theory \<open>P2p_Safety\<close> say what that
  may be.
\<close>

section \<open>The commands at the console\<close>

text \<open>
  What the callbacks work on: the node, the log level and what has been shown. A command that does
  not return, or throws, ends the program: \<open>app_alive\<close> is false and nothing happens any more.
\<close>

record 'e seed_app =
  app_node :: "'e Node"
  app_level :: logging_level
  app_shown :: "shown list"
  app_alive :: bool

definition seed_call :: "('e, shown) node_io \<Rightarrow> 'e seed_app \<Rightarrow> 'e seed_app" where
  "seed_call m A =
     (if \<not> app_alive A then A
      else case m (app_node A) of
             Some (N, Returned x) \<Rightarrow> A\<lparr>app_node := N, app_shown := app_shown A @ [x]\<rparr>
           | Some (N, Thrown) \<Rightarrow> A\<lparr>app_node := N, app_alive := False\<rparr>
           | None \<Rightarrow> A\<lparr>app_alive := False\<rparr>)"

definition seed_log :: "string list \<Rightarrow> 'e seed_app \<Rightarrow> 'e seed_app" where
  "seed_log args A =
     (if \<not> app_alive A then A
      else let (level, x) = seed_set_log args (app_level A) in
           A\<lparr>app_level := level, app_shown := app_shown A @ [x]\<rparr>)"

definition seed_console where
  "seed_console (C :: 'x network_scheme) (J :: 'z json_scheme) (L :: ('e, 't, 'c, 'y) lmdb_cursors_scheme) mix
     external_address =
     foldl (\<lambda>H (command, description, callback). register_command command description callback H)
       (console_make (PROJECT_NAME @ '' Seed Node''))
       [(''status'', ''Displays the current node status'', Plain (seed_call (seed_status J L external_address))),
        (''incoming_connections'', ''Displays the current incoming connections'', Plain (seed_call seed_incoming)),
        (''outgoing_connections'', ''Displays the current outgoing connections'', Plain (seed_call seed_outgoing)),
        (''peers'', ''Prints the full list of known peers'', Plain (seed_call (seed_peers C J L mix))),
        (''prune_peers'', ''Performs a pruning of our peer list'', Plain (seed_call (seed_prune C L mix))),
        (''set_log'', ''Sets the log level to <#>'', WithArguments seed_log)]"

section \<open>The program\<close>

text \<open>How the program ends: with an exit code, or because of an exception that nothing catches.\<close>

datatype 'a seed_end = Seed_Exit nat | Seed_Abort | Seed_Waits 'a | Seed_Done 'a

text \<open>
  The console of a program whose node has threads: every line comes with what these have made of the
  node by the time the line has been read. A line is handled as \<open>console_step\<close> does it. A thread that
  throws ends the process, and there is no further line.
\<close>

definition seed_threads :: "('e Node \<Rightarrow> 'e Node) \<Rightarrow> 'e seed_app console \<Rightarrow> 'e seed_app console" where
  "seed_threads others S =
     (if app_alive (con_app S) then S\<lparr>con_app := (con_app S)\<lparr>app_node := others (app_node (con_app S))\<rparr>\<rparr> else S)"

fun seed_loop ::
  "'e seed_app ConsoleHandler \<Rightarrow> (('e Node \<Rightarrow> 'e Node) \<times> console_line) list \<Rightarrow> 'e seed_app console \<Rightarrow>
     bool \<times> 'e seed_app ConsoleHandler \<times> 'e seed_app console" where
  "seed_loop H [] S = (m_break H, H, S)"
| "seed_loop H ((others, l) # ls) S =
     (if m_break H then (True, H, S)
      else let (on, H, S) = console_step H l (seed_threads others S) in if on then seed_loop H ls S else (True, H, S))"

definition seed_run ::
  "'e seed_app ConsoleHandler \<Rightarrow> (('e Node \<Rightarrow> 'e Node) \<times> console_line) list \<Rightarrow> 'e seed_app console \<Rightarrow>
     bool \<times> 'e seed_app ConsoleHandler \<times> 'e seed_app console" where
  "seed_run H ls S = seed_loop (H\<lparr>m_break := False\<rparr>) ls S"

text \<open>With threads that do nothing it is \<open>ConsoleHandler::run\<close>.\<close>

lemma seed_run_alone: "seed_run H (map (Pair id) ls) S = console_run H ls S"
proof -
  have "seed_loop H (map (Pair id) ls) S = console_loop H ls S" for H
    by (induction ls arbitrary: H S) (auto simp: seed_threads_def split: prod.split)
  then show ?thesis by (simp add: seed_run_def console_run_def)
qed

text \<open>
  From the construction of the node on: \<open>start\<close>, and the console until the lines that are typed
  are used up (\<open>Seed_Waits\<close>) or one asks to leave (\<open>Seed_Done\<close>). \<open>None\<close> is a call that does not
  return.
\<close>

definition seed_serve where
  "seed_serve (C :: 'x network_scheme) (J :: 'z json_scheme) (L :: ('e, 't, 'c, 'y) lmdb_cursors_scheme) mix
     (Z :: ('k, 'w) zmq_scheme) dial k clock P E random_id server_port seed_nodes external_address level lines =
     (case node_make C L mix clock P E random_id server_port True NETWORK_ID of
        None \<Rightarrow> None
      | Some Thrown \<Rightarrow> Some Seed_Abort
      | Some (Returned N) \<Rightarrow>
          (case node_start C L mix Z dial k seed_nodes N of
             None \<Rightarrow> None
           | Some (N, Thrown) \<Rightarrow> Some Seed_Abort
           | Some (N, Returned err) \<Rightarrow>
               if failed err then Some (Seed_Exit 1)
               else
                 let (left, H, S) = seed_run (seed_console C J L mix external_address) lines
                       \<lparr>con_app = \<lparr>app_node = N, app_level = level, app_shown = [], app_alive = True\<rparr>,
                        con_output = [], con_history = []\<rparr> in
                 if \<not> app_alive (con_app S) then Some Seed_Abort
                 else Some (if left then Seed_Done (con_app S) else Seed_Waits (con_app S))))"

text \<open>The variables that the option parser fills.\<close>

record seed_options =
  opt_db_path :: string
  opt_port :: u16
  opt_reset :: bool
  opt_seed_nodes :: "string list"

text \<open>
  The whole of \<open>main\<close>. The environment of the database is made with the default settings of
  \<open>LMDB::instance\<close>; the tables of instances are empty when a program begins.
\<close>

definition seed_main where
  "seed_main (K :: ('o, string, 'q) option_parser_scheme) asciiArt program_credits (bound :: 'o \<Rightarrow> seed_options) argv
     (C :: 'x network_scheme) (J :: 'z json_scheme) (F :: ('e, 't, 'c, 'f, 'y) program_files_scheme) mix
     (Z :: ('k, 'w) zmq_scheme) dial k clock new_peer_id random_id external_address lines (f :: 'f) =
     (case snd (cli_parse K asciiArt program_credits argv cli_make) of
        Exit n \<Rightarrow> Some (Seed_Exit n)
      | Continue cli \<Rightarrow>
          (case cli_parse_result cli of
             None \<Rightarrow> Some Seed_Abort
           | Some parse_result \<Rightarrow>
               (case argument_load K parse_result ''log-file'' [] of
                  None \<Rightarrow> Some Seed_Abort
                | Some log_path \<Rightarrow>
                    let opts = bound parse_result;
                        (database_path, f) = get_db_path F (opt_db_path opts) ''peerlist'' f in
                    (case (if opt_reset opts then fs_remove F database_path f else Inr f) of
                       Inl what \<Rightarrow> Some (Seed_Exit 1)
                     | Inr f \<Rightarrow>
                         (case lmdb_instance C F database_path (MDB_NOSUBDIR F) 384 8 8 [] f of
                            (Thrown, I, f) \<Rightarrow> Some Seed_Abort
                          | (Returned E, I, f) \<Rightarrow>
                              (case peerdb_instance C F new_peer_id database_path [] E of
                                 None \<Rightarrow> None
                               | Some (E, Thrown) \<Rightarrow> Some Seed_Abort
                               | Some (E, Returned (P, instances)) \<Rightarrow>
                                   seed_serve C J F mix Z dial k clock P E random_id (opt_port opts)
                                     (opt_seed_nodes opts) external_address (cli_log_level cli) lines))))))"

section \<open>What the commands do to the table of peers\<close>

text \<open>A part of a table that lacks only entries that were too old at some time of the clock.\<close>

definition pruned_of :: "(nat \<Rightarrow> u64) \<Rightarrow> peer_table \<Rightarrow> peer_table \<Rightarrow> bool" where
  "pruned_of clock t t' \<longleftrightarrow>
     t' \<subseteq>\<^sub>m t \<and> (\<forall>i q. t i = Some q \<and> t' i = None \<longrightarrow> (\<exists>n. last_seen q < prune_time (clock n)))"

lemma pruned_of_refl: "pruned_of clock t t"
  by (auto simp: pruned_of_def)

lemma pruned_of_fresh: "pruned_of clock t (fresh_peers (clock n) t)"
  by (auto simp: pruned_of_def fresh_peers_def map_le_def split: option.splits if_splits)

lemma pruned_of_trans: "pruned_of clock t t1 \<Longrightarrow> pruned_of clock t1 t2 \<Longrightarrow> pruned_of clock t t2"
  unfolding pruned_of_def map_le_def dom_def by (smt (verit) mem_Collect_eq not_None_eq)

lemma node_has_finite: "node_has C L ev tv cv N t \<Longrightarrow> finite (dom t)"
proof -
  let ?P = "node_peer_db N"
  assume "node_has C L ev tv cv N t"
  then have p: "peerdb_reliable (C, L, ev, tv, cv, ?P)" "peerdb_holds (C, L, ev, tv, cv, ?P) (node_env N) t"
    by (simp_all add: node_has_def)
  then obtain m where m: "store_holds (L, ev, tv, m_database ?P) (node_env N) m" "table_of C m t" by auto
  have law: "network_laws C" "lmdb_laws L ev tv" "cursor_laws L tv cv" "reliable L tv" "m_dbi (m_database ?P) \<noteq> 0"
    using p(1) by simp_all
  have "finite (key_serialize C ` dom t)"
    using reliable_finite [OF law(4,2,3) m(1) law(5)] table_dom [OF law(1) m(2)] by simp
  then show ?thesis by (rule finite_imageD) (rule inj_on_subset [OF key_serialize_inj [OF law(1)]], simp)
qed

lemma pruned_of_card: "pruned_of clock t t' \<Longrightarrow> finite (dom t) \<Longrightarrow> card (dom t) < n \<Longrightarrow> card (dom t') < n"
  unfolding pruned_of_def by (meson card_mono le_less_trans map_le_implies_dom_le)

text \<open>A command that answers and at most prunes.\<close>

definition answers where
  "answers (C :: 'z network_scheme) (L :: ('e, 't, 'c, 'y) lmdb_cursors_scheme) ev tv cv (m :: ('e, shown) node_io) \<longleftrightarrow>
     (\<forall>N t. node_has C L ev tv cv N t \<and> card (dom t) < 2 ^ 64 \<longrightarrow>
        (\<exists>N' x t'. m N = Some (N', Returned x) \<and> env_step N N' \<and> node_has C L ev tv cv N' t' \<and>
           pruned_of (node_clock N) t t'))"

lemma seed_incoming_answers: "answers C L ev tv cv seed_incoming" "answers C L ev tv cv seed_outgoing"
  by (auto simp: answers_def seed_incoming_def seed_outgoing_def io_gets_def intro: pruned_of_refl)

lemma seed_status_answers: "answers C L ev tv cv (seed_status J L external_address)"
  unfolding answers_def
proof (intro allI impI, elim conjE)
  fix N t assume N: "node_has C L ev tv cv N t" and card: "card (dom t) < 2 ^ 64"
  let ?P = "node_peer_db N"
  have p: "peerdb_reliable (C, L, ev, tv, cv, ?P)" "peerdb_holds (C, L, ev, tv, cv, ?P) (node_env N) t"
    using N by (simp_all add: node_has_def)
  then obtain m where m: "store_holds (L, ev, tv, m_database ?P) (node_env N) m" "table_of C m t" by auto
  have law: "network_laws C" "lmdb_laws L ev tv" "cursor_laws L tv cv" "reliable L tv" "m_dbi (m_database ?P) \<noteq> 0"
    using p(1) by simp_all
  have "card (dom m) < 2 ^ 64" using table_card [OF law(1) m(2)] card by simp
  then obtain E' where r: "peerdb_count L ?P (node_env N) = Some (E', Returned (word_of_nat (card (dom m))))"
      "store_holds (L, ev, tv, m_database ?P) E' m"
    using reliable_count [OF law(4,2,3) m(1) law(5)] unfolding peerdb_count_def by blast
  then have "peerdb_holds (C, L, ev, tv, cv, ?P) E' t" using m(2) by auto
  then have "node_has C L ev tv cv (N\<lparr>node_env := E'\<rparr>) t" using p(1)
    by (simp add: node_has_def del: peerdb_holds.simps peerdb_reliable.simps)
  then show "\<exists>N' x t'. seed_status J L external_address N = Some (N', Returned x) \<and> env_step N N' \<and>
      node_has C L ev tv cv N' t' \<and> pruned_of (node_clock N) t t'"
    using r(1) pruned_of_refl [of "node_clock N" t]
    by (intro exI [of _ "N\<lparr>node_env := E'\<rparr>"]) (auto simp: seed_status_def io_bind_def in_env_def io_gets_def)
qed

lemma seed_peers_answers:
  assumes "\<And>s ps. mset (mix s ps) = mset ps" shows "answers C L ev tv cv (seed_peers C J L mix)"
  unfolding answers_def
proof (intro allI impI, elim conjE)
  fix N t assume N: "node_has C L ev tv cv N t" and card: "card (dom t) < 2 ^ 64"
  obtain N' ps where "node_peers C L mix 0 (hash_default C) N = Some (N', Returned ps)" "env_step N N'"
      "node_has C L ev tv cv N' t"
    using node_peers_runs [OF N card, of mix 0 "hash_default C"] assms by blast
  then show "\<exists>N' x t'. seed_peers C J L mix N = Some (N', Returned x) \<and> env_step N N' \<and>
      node_has C L ev tv cv N' t' \<and> pruned_of (node_clock N) t t'"
    using pruned_of_refl [of "node_clock N" t] by (auto simp: seed_peers_def io_bind_def io_return_def)
qed

lemma seed_prune_answers:
  assumes "\<And>s ps. mset (mix s ps) = mset ps" shows "answers C L ev tv cv (seed_prune C L mix)"
  unfolding answers_def
proof (intro allI impI, elim conjE)
  fix N t assume N: "node_has C L ev tv cv N t" and card: "card (dom t) < 2 ^ 64"
  let ?P = "node_peer_db N" and ?mix = "mix (node_clock N (node_ticks N))"
    and ?now = "node_clock N (Suc (node_ticks N))"
  have p: "peerdb_reliable (C, L, ev, tv, cv, ?P)" "peerdb_holds (C, L, ev, tv, cv, ?P) (node_env N) t"
    using N by (simp_all add: node_has_def)
  obtain E' where r: "peerdb_prune C L ?P ?mix ?now (node_env N) = Some (E', Returned ())"
      "peerdb_holds (C, L, ev, tv, cv, ?P) E' (fresh_peers ?now t)"
    using prune_succeeds [OF p card, of ?mix ?now] assms by blast
  let ?N = "N\<lparr>node_ticks := Suc (Suc (node_ticks N)), node_env := E'\<rparr>"
  have "node_has C L ev tv cv ?N (fresh_peers ?now t)" using p(1) r(2)
    by (simp add: node_has_def del: peerdb_holds.simps peerdb_reliable.simps)
  moreover have "seed_prune C L mix N = Some (?N, Returned (Log ''Pruned peer list''))"
    using r(1) by (simp add: seed_prune_def io_bind_def node_time_def in_env_def io_return_def)
  ultimately show "\<exists>N' x t'. seed_prune C L mix N = Some (N', Returned x) \<and> env_step N N' \<and>
      node_has C L ev tv cv N' t' \<and> pruned_of (node_clock N) t t'"
    using pruned_of_fresh by fastforce
qed

section \<open>What the console does\<close>

text \<open>
  A program that is alive: its node has the peer database it began with, what the node keeps in every
  run, and a table of fewer than \<open>2 ^ 64\<close> peers.
\<close>

definition seed_safe where
  "seed_safe (C :: 'z network_scheme) (L :: ('e, 't, 'c, 'y) lmdb_cursors_scheme) ev tv cv P (A :: 'e seed_app) \<longleftrightarrow>
     app_alive A \<and> node_peer_db (app_node A) = P \<and> node_ok C L ev tv cv (app_node A) \<and>
     (\<exists>t. node_has C L ev tv cv (app_node A) t \<and> card (dom t) < 2 ^ 64 \<and> t (m_peer_id P) = None)"

lemma node_ok_env:
  assumes "node_ok C L ev tv cv N" "env_step N N'" "node_has C L ev tv cv N' t" "t (m_peer_id (node_peer_db N)) = None"
  shows "node_ok C L ev tv cv N'"
proof -
  have same: "node_messages N' = node_messages N" "node_peer_db N' = node_peer_db N" "node_completed N' = node_completed N"
    "node_seed_mode N' = node_seed_mode N" "node_network_id N' = node_network_id N" "node_server N' = node_server N"
    by (subst assms(2), simp)+
  then have "admissible N' m \<longleftrightarrow> admissible N m" for m by (simp add: admissible_def)
  moreover have "db_ok C L ev tv cv N'"
    using assms(3,4) same(2) by (auto simp: db_ok_def node_has_def pdb.other_peers_def simp del: peerdb_holds.simps)
  ultimately show ?thesis using assms(1) same(1) by (simp add: node_ok_def)
qed

lemma seed_call_safe:
  assumes "answers C L ev tv cv m" "seed_safe C L ev tv cv P A"
  shows "seed_safe C L ev tv cv P (seed_call m A)"
proof -
  obtain t where A: "app_alive A" "node_peer_db (app_node A) = P" "node_ok C L ev tv cv (app_node A)"
      "node_has C L ev tv cv (app_node A) t" "card (dom t) < 2 ^ 64" "t (m_peer_id P) = None"
    using assms(2) by (auto simp: seed_safe_def)
  obtain N' x t' where r: "m (app_node A) = Some (N', Returned x)" "env_step (app_node A) N'"
      "node_has C L ev tv cv N' t'" "pruned_of (node_clock (app_node A)) t t'"
    using assms(1) A(4,5) unfolding answers_def by blast
  have t': "card (dom t') < 2 ^ 64" "t' (m_peer_id P) = None"
    using pruned_of_card [OF r(4) node_has_finite [OF A(4)] A(5)] r(4) A(6)
    by (simp, auto simp: pruned_of_def map_le_def dom_def)
  have "node_peer_db N' = P" using arg_cong [OF r(2), of node_peer_db] A(2) by simp
  moreover have "node_ok C L ev tv cv N'" by (rule node_ok_env [OF A(3) r(2,3)]) (use t'(2) A(2) in simp)
  ultimately show ?thesis using A(1) r(1,3) t' by (auto simp: seed_safe_def seed_call_def)
qed

lemma seed_log_safe: "seed_safe C L ev tv cv P A \<Longrightarrow> seed_safe C L ev tv cv P (seed_log args A)"
  by (simp add: seed_safe_def seed_log_def split_beta)

text \<open>
  What the threads may do between two lines: any run of the node, which leaves a table of fewer than
  \<open>2 ^ 64\<close> peers with fewer than \<open>2 ^ 64\<close>.
\<close>

definition thread_rounds where
  "thread_rounds (C :: 'z network_scheme) (L :: ('e, 't, 'c, 'y) lmdb_cursors_scheme) ev tv cv mix Z dial others \<longleftrightarrow>
     (\<forall>N. \<exists>outs. node_run C L mix Z dial N outs (others N)) \<and>
     (\<forall>N t t'. node_has C L ev tv cv N t \<and> card (dom t) < 2 ^ 64 \<and> node_has C L ev tv cv (others N) t' \<longrightarrow> card (dom t') < 2 ^ 64)"

lemma seed_threads_safe:
  assumes laws: "node_laws C L ev tv cv mix" and others: "thread_rounds C L ev tv cv mix Z dial others"
    and S: "seed_safe C L ev tv cv P (con_app S)"
  shows "seed_safe C L ev tv cv P (con_app (seed_threads others S))"
proof -
  let ?N = "app_node (con_app S)"
  obtain t where A: "app_alive (con_app S)" "node_peer_db ?N = P" "node_ok C L ev tv cv ?N"
      "node_has C L ev tv cv ?N t" "card (dom t) < 2 ^ 64"
    using S by (auto simp: seed_safe_def)
  obtain outs where "node_run C L mix Z dial ?N outs (others ?N)" using others unfolding thread_rounds_def by blast
  from node_run_safe [OF laws this] have r: "node_peer_db (others ?N) = P" "node_ok C L ev tv cv (others ?N)"
    using A(2,3) by (simp_all add: step_safe_def)
  then obtain t' where t': "node_has C L ev tv cv (others ?N) t'" "t' (m_peer_id P) = None"
    using A(2,4) by (auto simp: node_ok_def db_ok_def node_has_def pdb.other_peers_def simp del: peerdb_holds.simps peerdb_reliable.simps)
  moreover have "card (dom t') < 2 ^ 64" using others A(4,5) t'(1) unfolding thread_rounds_def by blast
  ultimately show ?thesis using A(1) r by (auto simp: seed_safe_def seed_threads_def)
qed

text \<open>Such is a round of the keep-alive thread, for one.\<close>

definition keepalive_round :: "'z network_scheme \<Rightarrow> 'e Node \<Rightarrow> 'e Node" where
  "keepalive_round C N = (case send_keepalive C N of None \<Rightarrow> N | Some (N', _) \<Rightarrow> N')"

lemma node_has_card:
  assumes "node_has C L ev tv cv N t" "node_has C L ev tv cv N' t'" "node_peer_db N' = node_peer_db N" "node_env N' = node_env N"
  shows "card (dom t') = card (dom t)"
proof -
  let ?P = "node_peer_db N"
  obtain m m' where m: "store_holds (L, ev, tv, m_database ?P) (node_env N) m" "table_of C m t"
      "store_holds (L, ev, tv, m_database ?P) (node_env N) m'" "table_of C m' t'" "network_laws C"
    using assms by (auto simp: node_has_def simp del: store_holds.simps)
  then have "m' = m" by (auto simp: stored_def)
  then show ?thesis using table_card [OF m(5,2)] table_card [OF m(5,4)] by simp
qed

lemma keepalive_rounds:
  fixes L :: "('e, 't, 'c, 'y) lmdb_cursors_scheme"
  assumes laws: "node_laws C L ev tv cv mix"
  shows "thread_rounds C L ev tv cv mix Z dial (keepalive_round C)"
proof -
  have s: "\<exists>N' r. send_keepalive C N = Some (N', r) \<and> node_peer_db N' = node_peer_db N \<and> node_env N' = node_env N" for N :: "'e Node"
    by (simp add: send_keepalive_def io_bind_def io_gets_def node_send_def node_reply_def io_modify_def)
  have "\<exists>outs. node_run C L mix Z dial N outs (keepalive_round C N)" for N
  proof -
    obtain N' r where r: "send_keepalive C N = Some (N', r)" using s [of N] by blast
    obtain out where "queues N out N'"
      using io_relD [OF send_keepalive_progress [OF laws], of N N' r] r unfolding node_progress_def by blast
    from node_run.step [OF node_run.stop node_step.keepalive [OF r this], of L mix Z dial] show ?thesis
      using r unfolding keepalive_round_def by fastforce
  qed
  moreover have "node_peer_db (keepalive_round C N) = node_peer_db N \<and> node_env (keepalive_round C N) = node_env N" for N :: "'e Node"
    using s [of N] by (auto simp: keepalive_round_def)
  ultimately show ?thesis unfolding thread_rounds_def by (metis node_has_card)
qed

text \<open>What every callback keeps, and the threads, the console keeps; it ends when it is asked to.\<close>

lemma seed_loop_keeps:
  assumes "\<And>c k args a. (c, k) \<in> set (m_commands H) \<Longrightarrow> I a \<Longrightarrow> I (run_callback (cmd_callback k) args a)"
    and "\<And>others l S. (others, l) \<in> set ls \<Longrightarrow> I (con_app S) \<Longrightarrow> I (con_app (seed_threads others S))"
    and "I (con_app S)" "seed_loop H ls S = (left, H', S')"
  shows "I (con_app S') \<and> ((\<exists>(_, l) \<in> set ls. asks_to_leave l) \<longrightarrow> left)"
  using assms
proof (induction ls arbitrary: H S)
  case (Cons x ls)
  obtain others l where x: "x = (others, l)" by (cases x)
  let ?S = "seed_threads others S"
  obtain on H1 S1 where s: "console_step H l ?S = (on, H1, S1)" by (cases "console_step H l ?S")
  have "I (con_app ?S)" by (rule Cons.prems(2) [of others l]) (use x Cons.prems(3) in simp_all)
  then have S1: "I (con_app S1)" using console_step_app [OF s] Cons.prems(1) by auto
  have H1: "m_commands H1 = m_commands H" by (rule console_step_handler [OF s])
  show ?case
  proof (cases "m_break H \<or> \<not> on")
    case True
    then show ?thesis using Cons.prems(3,4) s S1 x by (auto split: if_splits)
  next
    case False
    then have "seed_loop H1 ls S1 = (left, H', S')" "\<not> asks_to_leave l"
      using Cons.prems(4) s x console_step_leaves [of l H ?S] by auto
    moreover have "I (con_app (seed_threads o1 S2))" if "(o1, l1) \<in> set ls" "I (con_app S2)" for o1 l1 S2
      by (rule Cons.prems(2) [of o1 l1]) (use that in simp_all)
    ultimately show ?thesis using Cons.IH [of H1 S1] Cons.prems(1) S1 x by (simp add: H1)
  qed
qed auto

lemma foldl_registered:
  "(c, k) \<in> set (m_commands (foldl (\<lambda>H (command, description, callback). register_command command description callback H)
       H cs)) \<Longrightarrow> (c, k) \<in> set (m_commands H) \<or> cmd_callback k \<in> (\<lambda>(_, _, f). f) ` set cs"
proof (induction cs arbitrary: H)
  case (Cons x cs)
  obtain command description callback where "x = (command, description, callback)" by (cases x)
  then show ?case using Cons registered_commands [of c k command description callback H] by auto
qed simp

lemma seed_console_callbacks:
  "(c, k) \<in> set (m_commands (seed_console C J L mix external_address)) \<Longrightarrow>
     (\<exists>m \<in> {seed_status J L external_address, seed_incoming, seed_outgoing, seed_peers C J L mix, seed_prune C L mix}.
        cmd_callback k = Plain (seed_call m)) \<or> cmd_callback k = WithArguments seed_log"
  unfolding seed_console_def by (drule foldl_registered) (auto simp: console_make_def)

text \<open>Whatever is typed and whatever the threads do meanwhile, every command returns.\<close>

lemma seed_console_safe:
  fixes L :: "('e, 't, 'c, 'y) lmdb_cursors_scheme" and S :: "'e seed_app console"
  assumes laws: "node_laws C L ev tv cv mix" and lines: "\<forall>(others, l) \<in> set lines. thread_rounds C L ev tv cv mix Z dial others"
    and start: "seed_safe C L ev tv cv P (con_app S)"
    and run: "seed_run (seed_console C J L mix external_address) lines S = (left, H, S')"
  shows "seed_safe C L ev tv cv P (con_app S') \<and> ((\<exists>(_, l) \<in> set lines. asks_to_leave l) \<longrightarrow> left)"
proof (rule seed_loop_keeps [where I = "seed_safe C L ev tv cv P", OF _ _ start run [unfolded seed_run_def]])
  fix others l and S :: "'e seed_app console" assume "(others, l) \<in> set lines" "seed_safe C L ev tv cv P (con_app S)"
  then show "seed_safe C L ev tv cv P (con_app (seed_threads others S))"
    using seed_threads_safe [OF laws] lines by blast
next
  fix c k args a
  assume "(c, k) \<in> set (m_commands ((seed_console C J L mix external_address)\<lparr>m_break := False\<rparr>))"
    and a: "seed_safe C L ev tv cv P a"
  then have "(c, k) \<in> set (m_commands (seed_console C J L mix external_address))" by simp
  note f = seed_console_callbacks [OF this]
  have mix: "mset (mix s ps) = mset ps" for s ps using laws by (simp add: node_laws_def)
  have "answers C L ev tv cv (seed_peers C J L mix)" "answers C L ev tv cv (seed_prune C L mix)"
    by (rule seed_peers_answers, rule mix) (rule seed_prune_answers, rule mix)
  with f consider m where "answers C L ev tv cv m" "cmd_callback k = Plain (seed_call m)"
    | "cmd_callback k = WithArguments seed_log"
    using seed_incoming_answers [of C L ev tv cv] seed_status_answers [of C L ev tv cv J external_address] by blast
  then show "seed_safe C L ev tv cv P (run_callback (cmd_callback k) args a)"
    using seed_call_safe [OF _ a] seed_log_safe [OF a] by cases (simp_all add: run_callback_def)
qed

section \<open>Starting\<close>

text \<open>The addresses that the node connects to at its start can be read.\<close>

definition seeds_parse :: "'z network_scheme \<Rightarrow> string list \<Rightarrow> bool" where
  "seeds_parse C seed_nodes \<longleftrightarrow>
     (\<forall>(host, port) \<in> set SEED_NODES. normalize_host_port C host port \<noteq> None) \<and>
     (\<forall>s \<in> set seed_nodes. \<exists>a. ip_address_of_string C s = Some a \<and>
        normalize_host_port C (ip_to_string C a) (if ip_port a \<noteq> 0 then ip_port a else P2P_DEFAULT_BIND_PORT) \<noteq> None)"

text \<open>What connecting keeps: the peer database, the clock, the mode of the node and the table.\<close>

definition connects where
  "connects (C :: 'z network_scheme) (L :: ('e, 't, 'c, 'y) lmdb_cursors_scheme) ev tv cv t (m :: ('e, 'a) node_io) \<longleftrightarrow>
     (\<forall>N. node_has C L ev tv cv N t \<longrightarrow>
        (\<exists>N' x. m N = Some (N', Returned x) \<and> node_has C L ev tv cv N' t \<and> node_peer_db N' = node_peer_db N \<and>
           node_clock N' = node_clock N \<and> node_seed_mode N' = node_seed_mode N \<and> node_running N' = node_running N))"

lemma connectsD:
  "connects C L ev tv cv t m \<Longrightarrow> node_has C L ev tv cv N t \<Longrightarrow>
     \<exists>N' x. m N = Some (N', Returned x) \<and> node_has C L ev tv cv N' t \<and> node_peer_db N' = node_peer_db N \<and>
       node_clock N' = node_clock N \<and> node_seed_mode N' = node_seed_mode N \<and> node_running N' = node_running N"
  by (simp add: connects_def)

lemma connects_return: "connects C L ev tv cv t (io_return x)"
  by (simp add: connects_def io_return_def)

lemma connects_bind:
  assumes "connects C L ev tv cv t m" "\<And>x. connects C L ev tv cv t (f x)"
  shows "connects C L ev tv cv t (io_bind m f)"
  unfolding connects_def
proof (intro allI impI)
  fix N assume "node_has C L ev tv cv N t"
  from connectsD [OF assms(1) this] obtain N1 x where 1: "m N = Some (N1, Returned x)" "node_has C L ev tv cv N1 t"
      "node_peer_db N1 = node_peer_db N" "node_clock N1 = node_clock N" "node_seed_mode N1 = node_seed_mode N"
      "node_running N1 = node_running N" by blast
  from connectsD [OF assms(2) 1(2), of x] 1
  show "\<exists>N' x. io_bind m f N = Some (N', Returned x) \<and> node_has C L ev tv cv N' t \<and> node_peer_db N' = node_peer_db N \<and>
      node_clock N' = node_clock N \<and> node_seed_mode N' = node_seed_mode N \<and> node_running N' = node_running N"
    by (simp add: io_bind_def)
qed

lemma connects_each: "(\<And>x. x \<in> set xs \<Longrightarrow> connects C L ev tv cv t (f x)) \<Longrightarrow> connects C L ev tv cv t (connect_each f xs b)"
  by (induction xs arbitrary: b) (simp_all add: connects_return connects_bind)

lemma connects_handshake:
  assumes "card (dom t) < 2 ^ 64" "\<And>s ps. mset (mix s ps) = mset ps"
  shows "connects C L ev tv cv t (build_handshake C L mix)"
  unfolding connects_def
proof (intro allI impI)
  fix N assume "node_has C L ev tv cv N t"
  then obtain N' packet where r: "build_handshake C L mix N = Some (N', Returned packet)" "env_step N N'"
      "node_has C L ev tv cv N' t" using build_handshake_runs [of C L ev tv cv N t mix] assms by blast
  have "node_peer_db N' = node_peer_db N" "node_clock N' = node_clock N" "node_seed_mode N' = node_seed_mode N"
    "node_running N' = node_running N"
    using arg_cong [OF r(2), of node_peer_db] arg_cong [OF r(2), of node_clock] arg_cong [OF r(2), of node_seed_mode]
      arg_cong [OF r(2), of node_running] by simp_all
  then show "\<exists>N' x. build_handshake C L mix N = Some (N', Returned x) \<and> node_has C L ev tv cv N' t \<and>
      node_peer_db N' = node_peer_db N \<and> node_clock N' = node_clock N \<and> node_seed_mode N' = node_seed_mode N \<and>
      node_running N' = node_running N" using r by blast
qed

lemma node_connect_connects:
  assumes "normalize_host_port C host port \<noteq> None" "card (dom t) < 2 ^ 64" "\<And>s ps. mset (mix s ps) = mset ps"
  shows "connects C L ev tv cv t (node_connect C L mix Z dial host port)"
proof -
  have "connects C L ev tv cv t (io_gets g)" for g :: "_ \<Rightarrow> bool" by (simp add: connects_def io_gets_def)
  moreover have "connects C L ev tv cv t (io_modify (\<lambda>N. N\<lparr>node_clients := g N\<rparr>))" for g
    by (simp add: connects_def io_modify_def node_has_def)
  ultimately show ?thesis using assms connects_handshake [OF assms(2,3), of C L ev tv cv]
    by (auto simp: node_connect_def split_beta Let_def intro!: connects_bind connects_return)
qed

lemma node_start_runs:
  assumes N: "node_has C L ev tv cv N t" and card: "card (dom t) < 2 ^ 64" and mix: "\<And>s ps. mset (mix s ps) = mset ps"
    and seeds: "seeds_parse C seed_nodes" and node: "\<not> node_running N" "node_seed_mode N"
    and bound: "fst (zmq_bind Z (zs_port (node_server N)) k)"
  shows "\<exists>N'. node_start C L mix Z dial k seed_nodes N = Some (N', Returned SUCCESS) \<and> node_has C L ev tv cv N' t \<and>
    node_running N' \<and> node_clock N' = node_clock N \<and> node_peer_db N' = node_peer_db N"
proof -
  define first where "first = connect_each (\<lambda>(host, port). node_connect C L mix Z dial host port) SEED_NODES False"
  define second where "second = connect_each (\<lambda>seed_node. case ip_address_of_string C seed_node of None \<Rightarrow> io_throw
    | Some seed \<Rightarrow> node_connect C L mix Z dial (ip_to_string C seed)
        (if ip_port seed \<noteq> 0 then ip_port seed else P2P_DEFAULT_BIND_PORT)) seed_nodes"
  have c: "connects C L ev tv cv t (node_connect C L mix Z dial host port)"
    if "normalize_host_port C host port \<noteq> None" for host port
    by (rule node_connect_connects [where mix = mix, OF that card mix])
  have 1: "connects C L ev tv cv t first" unfolding first_def
    by (rule connects_each) (use seeds c in \<open>auto simp: seeds_parse_def\<close>)
  have 2: "connects C L ev tv cv t (second b)" for b unfolding second_def
  proof (rule connects_each, goal_cases)
    case (1 s)
    then obtain a where "ip_address_of_string C s = Some a"
      "normalize_host_port C (ip_to_string C a) (if ip_port a \<noteq> 0 then ip_port a else P2P_DEFAULT_BIND_PORT) \<noteq> None"
      using seeds by (auto simp: seeds_parse_def)
    then show ?case using c by simp
  qed
  obtain S' k' where S': "server_bind Z (node_server N) k = (SUCCESS, S', k')"
    using bound by (cases "server_bind Z (node_server N) k")
      (auto simp: server_bind_def Let_def split: if_splits prod.splits)
  let ?N = "N\<lparr>node_server := S', node_running := True\<rparr>"
  have "node_has C L ev tv cv ?N t" using N by (simp add: node_has_def)
  from connectsD [OF 1 this] obtain N1 b where 1: "first ?N = Some (N1, Returned b)" "node_has C L ev tv cv N1 t"
      "node_peer_db N1 = node_peer_db ?N" "node_clock N1 = node_clock ?N" "node_running N1" by auto
  from connectsD [OF 2 1(2), of b] obtain N2 b' where 2: "second b N1 = Some (N2, Returned b')" "node_has C L ev tv cv N2 t"
      "node_peer_db N2 = node_peer_db N1" "node_clock N2 = node_clock N1" "node_running N2" using 1(5) by auto
  have "node_start C L mix Z dial k seed_nodes N = Some (N2, Returned SUCCESS)"
    unfolding node_start_def first_def [symmetric] second_def [symmetric] S'
    using node 1(1) 2(1) by (simp add: io_bind_def io_return_def)
  then show ?thesis using 1(3,4) 2 by simp
qed

lemma node_start_ok:
  assumes laws: "node_laws C L ev tv cv mix" and run: "node_start C L mix Z dial k seed_nodes N = Some (N', r)"
    and ok: "node_ok C L ev tv cv N"
  shows "node_ok C L ev tv cv N'"
proof -
  have P: "node_progress C L ev tv cv N N'" by (rule io_relD [OF node_start_progress [OF laws] run])
  then obtain out where "queues N out N'" unfolding node_progress_def by blast
  from progress_safe [OF P this] show ?thesis using ok by (simp add: step_safe_def)
qed

section \<open>The ways to the end\<close>

text \<open>
  \<open>main\<close> reaches the node only when the options let it go on and the reset, if it was asked for,
  has removed the database; it ends with an exit code before that otherwise.
\<close>

lemma seed_main_exits:
  assumes "snd (cli_parse K art credits argv cli_make) = Exit n"
  shows "seed_main K art credits opts argv C J F mix Z dial k clock new_id random_id external lines f = Some (Seed_Exit n)"
  using assms by (simp add: seed_main_def)

lemma seed_main_serves:
  assumes cli: "snd (cli_parse K art credits argv cli_make) = Continue cli" "cli_parse_result cli = Some o1"
      "\<not> argument_exists K o1 ''log-file''"
    and opts: "opts o1 = \<lparr>opt_db_path = path, opt_port = port, opt_reset = False, opt_seed_nodes = seeds\<rparr>"
    and env: "get_db_path F path ''peerlist'' f = (db, f1)"
      "lmdb_instance C F db (MDB_NOSUBDIR F) 384 8 8 [] f1 = (Returned E, I, f2)"
      "peerdb_instance C F new_id db [] E = Some (E', Returned (P, instances))"
  shows "seed_main K art credits opts argv C J F mix Z dial k clock new_id random_id external lines f =
    seed_serve C J F mix Z dial k clock P E' random_id port seeds external (cli_log_level cli) lines"
  using assms by (simp add: seed_main_def argument_load_def)

lemma seed_main_reset_fails:
  assumes "snd (cli_parse K art credits argv cli_make) = Continue cli" "cli_parse_result cli = Some o1"
      "\<not> argument_exists K o1 ''log-file''" "opt_reset (opts o1)"
      "get_db_path F (opt_db_path (opts o1)) ''peerlist'' f = (db, f1)" "fs_remove F db f1 = Inl what"
  shows "seed_main K art credits opts argv C J F mix Z dial k clock new_id random_id external lines f = Some (Seed_Exit 1)"
  using assms by (simp add: seed_main_def argument_load_def)

end
