(* ===== verification/Display.thy ===== *)
theory Display
  imports Hex_Forms Pub_Sub Error_Codes
begin

text \<open>
  The stream operators of the structures: the texts that the programs print of transactions,
  blocks, staking records, peers and packets. How the types of the cryptographic library are
  printed is the parameter record \<open>printers\<close>. A text is what \<open>operator<<\<close> puts on the stream.
\<close>

record ('s, 'r) printers =
  os_key :: "256 word \<Rightarrow> string"
  os_signature :: "512 word \<Rightarrow> string"
  os_clsag :: "'s \<Rightarrow> string"
  os_range_proof :: "'r \<Rightarrow> string"
  os_hex :: "bytes \<Rightarrow> string"

definition std_endl :: string where "std_endl = [CHR 0x0A]"

definition tabs :: "nat \<Rightarrow> string" where "tabs n = replicate n CHR 0x09"

text \<open>One line: a name behind \<open>n\<close> tabulators, and a value.\<close>

definition field :: "nat \<Rightarrow> string \<Rightarrow> string \<Rightarrow> string" where
  "field n name v = tabs n @ name @ '': '' @ v @ std_endl"

definition heading :: "nat \<Rightarrow> string \<Rightarrow> string" where
  "heading n name = tabs n @ name @ '':'' @ std_endl"

definition sized :: "string \<Rightarrow> nat \<Rightarrow> string" where
  "sized name n = name @ '' ['' @ dec n @ '' bytes]'' @ std_endl"

definition each :: "('a \<Rightarrow> string) \<Rightarrow> 'a list \<Rightarrow> string" where
  "each f xs = concat (map f xs)"

section \<open>Outputs and staking records\<close>

definition TransactionOutput_text where
  "TransactionOutput_text (C :: 'z crypto_scheme) (S :: ('s, 'r, 'y) printers_scheme) x =
     tabs 1 @ ''Transaction Output'' @ std_endl @
     field 2 ''Hash'' (os_key S (TransactionOutput_hash C x)) @
     field 2 ''Public Ephemeral'' (os_key S (public_ephemeral x)) @
     field 2 ''Amount'' (dec (unat (output_amount x))) @
     field 2 ''Commitment'' (os_key S (commitment x))"

definition StakerOutput_text where
  "StakerOutput_text (S :: ('s, 'r, 'y) printers_scheme) x =
     tabs 1 @ ''Staker Output'' @ std_endl @
     field 2 ''Staker ID'' (os_key S (staker_id x)) @
     field 2 ''Amount'' (dec (unat (staker_amount x)))"

text \<open>The line of the assigned validations has the number of the assigned productions.\<close>

definition candidate_text where
  "candidate_text (S :: ('s, 'r, 'y) printers_scheme) x =
     ''Candidate Node [v'' @ dec (unat (node_record_version x)) @ '']'' @ std_endl @
     field 1 ''Public Signing Key'' (os_key S (node_public_signing_key x)) @
     field 1 ''Public View Key'' (os_key S (node_public_view_key x)) @
     field 1 ''Public Spend Key'' (os_key S (node_public_spend_key x)) @
     field 1 ''Initial Stake'' (dec (unat (node_initial_stake x))) @
     field 1 ''Block Productions Assigned'' (dec (unat (node_block_production_assigned x))) @
     field 1 ''Blocks Produced'' (dec (unat (node_blocks_produced x))) @
     field 1 ''Block Validations Assigned'' (dec (unat (node_block_production_assigned x))) @
     field 1 ''Blocks Validated'' (dec (unat (node_blocks_validated x)))"

definition stake_text where
  "stake_text (C :: 'z crypto_scheme) (S :: ('s, 'r, 'y) printers_scheme) x =
     ''Stake [v'' @ dec (unat (st_record_version x)) @ '']'' @ std_endl @
     field 0 ''Staker ID'' (os_key S (stake_id C x)) @
     field 0 ''Candidate Public Key'' (os_key S (st_candidate_public_key x)) @
     field 0 ''Staker Public View Key'' (os_key S (st_public_view_key x)) @
     field 0 ''Staker Public Spend Key'' (os_key S (st_public_spend_key x)) @
     field 0 ''Stake Amount'' (dec (unat (st_stake x)))"

section \<open>User transactions\<close>

text \<open>
  The lines that all six classes share: from the hash to the fee, and the key images and outputs.
\<close>

definition user_head_text where
  "user_head_text (C :: 'z crypto_scheme) (S :: ('s, 'r, 'y) printers_scheme) hash digest sh rh pow_hash
     (tx :: ('d, 'x) user_transaction) =
     field 1 ''Hash'' (os_key S hash) @
     field 1 ''Digest'' (os_key S digest) @
     field 1 ''Signature Hash'' (os_key S sh) @
     field 1 ''Range Proof Hash'' (os_key S rh) @
     field 1 ''PoW Hash'' (os_key S pow_hash) @
     field 1 ''PoW Zeros'' (dec (leading_zeros C pow_hash)) @
     field 1 ''Version'' (dec (unat (version (tx_prefix tx)))) @
     field 1 ''Unlock Block'' (dec (unat (unlock_block (tx_prefix tx)))) @
     field 1 ''Public Key'' (os_key S (public_key (tx_prefix tx))) @
     field 1 ''Nonce'' (dec (unat (nonce (tx_body tx)))) @
     field 1 ''Fee'' (dec (unat (fee (tx_body tx))))"

definition user_body_text where
  "user_body_text (C :: 'z crypto_scheme) (S :: ('s, 'r, 'y) printers_scheme) (tx :: ('d, 'x) user_transaction) =
     heading 1 ''Input Key Images'' @
     each (\<lambda>key_image. tabs 2 @ os_key S key_image @ std_endl) (key_images (tx_body tx)) @
     std_endl @ heading 1 ''Outputs'' @
     each (\<lambda>x. TransactionOutput_text C S x @ std_endl) (outputs (tx_body tx))"

definition uncommitted_suffix_text where
  "uncommitted_suffix_text (S :: ('s, 'r, 'y) printers_scheme) (x :: ('s, 'r) UncommittedTransactionSuffix) =
     heading 1 ''Ring Participants'' @
     each (\<lambda>elem. tabs 2 @ os_key S elem @ std_endl) (ring_participants x) @
     each (\<lambda>s. os_clsag S s @ std_endl) (signatures x) @
     os_range_proof S (range_proof x) @ std_endl"

definition stake_data_text where
  "stake_data_text (S :: ('s, 'r, 'y) printers_scheme) d =
     field 1 ''Stake Amount'' (dec (unat (stake_amount d))) @
     field 1 ''Candidate Public Key'' (os_key S (stake_candidate_public_key d)) @
     field 1 ''Staker Public View Key'' (os_key S (staker_public_view_key d)) @
     field 1 ''Staker Public Spend Key'' (os_key S (staker_public_spend_key d))"

definition recall_data_text where
  "recall_data_text (S :: ('s, 'r, 'y) printers_scheme) d =
     field 1 ''Staker Recall Amount'' (dec (unat (recall_amount d))) @
     field 1 ''Candidate Public Key'' (os_key S (recall_candidate_public_key d)) @
     field 1 ''Staker ID'' (os_key S (recall_staker_id d)) @
     field 1 ''Staker View Signature'' (os_signature S (view_signature d)) @
     field 1 ''Staker Spend Signature'' (os_signature S (spend_signature d)) @ std_endl"

definition committed_normal_text where
  "committed_normal_text (C :: 'z crypto_scheme) (S :: ('s, 'r, 'y) printers_scheme) tx =
     sized ''Committed Normal Transaction'' (committed_normal_size C tx) @
     user_head_text C S (committed_normal_hash C tx) (committed_normal_digest C tx) (signature_hash (tx_suffix tx))
       (range_proof_hash (tx_suffix tx)) (committed_normal_pow_hash C tx) tx @
     user_body_text C S tx @
     field 1 ''Extra'' (os_hex S (extra (tx_data tx)))"

definition uncommitted_normal_text where
  "uncommitted_normal_text (C :: ('s, 'r, 'z) proofs_scheme) (S :: ('s, 'r, 'y) printers_scheme) tx =
     sized ''Uncommitted Normal Transaction'' (uncommitted_normal_size C tx) @
     field 1 ''Committed Size'' (dec (uncommitted_normal_committed_size C tx) @ '' bytes'') @
     user_head_text C S (uncommitted_normal_hash C tx) (uncommitted_normal_digest C tx)
       (uncommitted_signature_hash C (tx_suffix tx)) (uncommitted_range_proof_hash C (tx_suffix tx))
       (uncommitted_normal_pow_hash C tx) tx @
     user_body_text C S tx @
     field 1 ''Extra'' (os_hex S (extra (tx_data tx))) @ std_endl @
     uncommitted_suffix_text S (tx_suffix tx)"

definition committed_stake_text where
  "committed_stake_text (C :: 'z crypto_scheme) (S :: ('s, 'r, 'y) printers_scheme) tx =
     sized ''Committed Stake Transaction'' (committed_stake_size C tx) @
     user_head_text C S (committed_stake_hash C tx) (committed_stake_digest C tx) (signature_hash (tx_suffix tx))
       (range_proof_hash (tx_suffix tx)) (committed_stake_pow_hash C tx) tx @
     user_body_text C S tx @
     stake_data_text S (tx_data tx)"

definition uncommitted_stake_text where
  "uncommitted_stake_text (C :: ('s, 'r, 'z) proofs_scheme) (S :: ('s, 'r, 'y) printers_scheme) tx =
     sized ''Uncommitted Stake Transaction'' (uncommitted_stake_size C tx) @
     field 1 ''Committed Size'' (dec (uncommitted_stake_committed_size C tx) @ '' bytes'') @
     user_head_text C S (uncommitted_stake_hash C tx) (uncommitted_stake_digest C tx)
       (uncommitted_signature_hash C (tx_suffix tx)) (uncommitted_range_proof_hash C (tx_suffix tx))
       (uncommitted_stake_pow_hash C tx) tx @
     user_body_text C S tx @
     stake_data_text S (tx_data tx) @ std_endl @
     uncommitted_suffix_text S (tx_suffix tx)"

text \<open>The committed recall announces input offsets and prints none.\<close>

definition committed_recall_text where
  "committed_recall_text (C :: 'z crypto_scheme) (S :: ('s, 'r, 'y) printers_scheme) tx =
     sized ''Committed Recall Stake Transaction'' (committed_recall_size C tx) @
     user_head_text C S (committed_recall_hash C tx) (committed_recall_digest C tx) (signature_hash (tx_suffix tx))
       (range_proof_hash (tx_suffix tx)) (committed_recall_pow_hash C tx) tx @
     heading 1 ''Input Offsets'' @
     user_body_text C S tx @
     recall_data_text S (tx_data tx)"

definition uncommitted_recall_text where
  "uncommitted_recall_text (C :: ('s, 'r, 'z) proofs_scheme) (S :: ('s, 'r, 'y) printers_scheme) tx =
     sized ''Uncommitted Recall Stake Transaction'' (uncommitted_recall_size C tx) @
     field 1 ''Committed Size'' (dec (uncommitted_recall_committed_size C tx) @ '' bytes'') @
     user_head_text C S (uncommitted_recall_hash C tx) (uncommitted_recall_digest C tx)
       (uncommitted_signature_hash C (tx_suffix tx)) (uncommitted_range_proof_hash C (tx_suffix tx))
       (uncommitted_recall_pow_hash C tx) tx @
     user_body_text C S tx @
     recall_data_text S (tx_data tx) @
     uncommitted_suffix_text S (tx_suffix tx)"

section \<open>System transactions and blocks\<close>

definition genesis_text where
  "genesis_text (C :: 'z crypto_scheme) (S :: ('s, 'r, 'y) printers_scheme) tx =
     sized ''Genesis Transaction'' (genesis_size C tx) @
     field 1 ''Hash'' (os_key S (genesis_hash C tx)) @
     field 1 ''Version'' (dec (unat (version (gen_prefix tx)))) @
     field 1 ''Unlock Block'' (dec (unat (unlock_block (gen_prefix tx)))) @
     field 1 ''Public Key'' (os_key S (public_key (gen_prefix tx))) @
     field 1 ''Secret Key'' (os_key S (gen_secret_key tx)) @
     heading 1 ''Outputs'' @
     each (\<lambda>x. TransactionOutput_text C S x @ std_endl) (gen_outputs tx)"

definition staker_text where
  "staker_text (C :: 'z crypto_scheme) (S :: ('s, 'r, 'y) printers_scheme) tx =
     sized ''Staker Transaction'' (staker_size C tx) @
     field 1 ''Hash'' (os_key S (staker_hash C tx)) @
     field 1 ''Version'' (dec (unat (version (stk_header tx)))) @
     heading 1 ''Outputs'' @
     each (\<lambda>x. StakerOutput_text S x @ std_endl) (staker_outputs tx) @
     heading 1 ''Penalties'' @
     each (\<lambda>x. StakerOutput_text S x @ std_endl) (staker_penalties tx)"

definition refund_text where
  "refund_text (C :: 'z crypto_scheme) (S :: ('s, 'r, 'y) printers_scheme) tx =
     sized ''Stake Refund Transaction'' (refund_size C tx) @
     field 1 ''Hash'' (os_key S (refund_hash C tx)) @
     field 1 ''Version'' (dec (unat (version (ref_prefix tx)))) @
     field 1 ''Unlock Block'' (dec (unat (unlock_block (ref_prefix tx)))) @
     field 1 ''Public Key'' (os_key S (public_key (ref_prefix tx))) @
     field 1 ''Secret key'' (os_key S (ref_secret_key tx)) @
     field 1 ''Recall Stake Tx'' (os_key S (recall_stake_tx tx)) @
     std_endl @ heading 1 ''Outputs'' @
     each (\<lambda>x. TransactionOutput_text C S x @ std_endl) (ref_outputs tx)"

definition block_text where
  "block_text (C :: 'z crypto_scheme) (S :: ('s, 'r, 'y) printers_scheme) b =
     sized ''Block'' (block_size C b) @
     field 1 ''Hash'' (os_key S (block_hash C b)) @
     field 1 ''Version'' (dec (unat (block_version b))) @
     field 1 ''Previous Block Hash'' (os_key S (previous_blockhash b)) @
     field 1 ''Timestamp'' (dec (unat (timestamp b))) @
     field 1 ''Block Index'' (dec (unat (block_index b))) @ std_endl @
     (case reward_tx b of RewardGenesis tx \<Rightarrow> genesis_text C S tx | RewardStaker tx \<Rightarrow> staker_text C S tx) @
     std_endl @ std_endl @ heading 1 ''Block Transactions'' @
     each (\<lambda>tx. tabs 2 @ os_key S tx @ std_endl) (transactions b) @
     field 1 ''Producer Public Key'' (os_key S (producer_public_key b)) @
     field 1 ''Producer Signature'' (os_signature S (producer_signature b)) @
     heading 1 ''Validators'' @
     each (\<lambda>(k, s). field 2 ''Public Key'' (os_key S k) @ field 2 ''Signature'' (os_signature S s) @ std_endl)
       (validator_signatures b)"

section \<open>Peers, packets and errors\<close>

definition peer_size where
  "peer_size (C :: 'z network_scheme) q = length (peer_serialize C q)"

definition peer_text where
  "peer_text (C :: 'z network_scheme) (S :: ('s, 'r, 'y) printers_scheme) q =
     tabs 1 @ ''Peer Entry: ['' @ dec (peer_size C q) @ '' bytes]'' @ std_endl @
     field 2 ''Peer ID'' (os_key S (peer_id q)) @
     field 2 ''IP Address'' (ip_to_string C (peer_address q)) @
     field 2 ''Port'' (dec (unat (peer_port q))) @
     field 1 ''Network ID'' (os_key S (peer_network_id q)) @
     field 2 ''Last Seen'' (dec (unat (last_seen q)))"

definition ip_text where
  "ip_text (C :: 'z network_scheme) a = ip_to_string C a"

definition packet_base_text where
  "packet_base_text (p :: 'a NetworkPacketBase_scheme) =
     field 1 ''Type'' (dec (unat (packet_type p))) @ field 1 ''Version'' (dec (unat (packet_version p)))"

definition peers_packet_text where
  "peers_packet_text (C :: 'z network_scheme) (S :: ('s, 'r, 'y) printers_scheme) (p :: packet_peers_t) =
     packet_base_text p @
     field 1 ''Peer ID'' (os_key S (packet_peer_id p)) @
     field 1 ''Peer Port'' (dec (unat (packet_peer_port p))) @
     field 1 ''Peer Network ID'' (os_key S (packet_network_id p)) @
     tabs 1 @ ''Peers: '' @ std_endl @
     each (\<lambda>q. peer_text C S q @ std_endl) (packet_peers p)"

definition handshake_text where
  "handshake_text (C :: 'z network_scheme) (S :: ('s, 'r, 'y) printers_scheme) p =
     sized ''Handshake Packet'' (handshake_size C p) @ peers_packet_text C S p"

definition peer_exchange_text where
  "peer_exchange_text (C :: 'z network_scheme) (S :: ('s, 'r, 'y) printers_scheme) p =
     sized ''Peer Exchange Packet'' (peer_exchange_size C p) @ peers_packet_text C S p"

definition keepalive_text where
  "keepalive_text (C :: 'z crypto_scheme) (S :: ('s, 'r, 'y) printers_scheme) p =
     sized ''Keepalive Packet'' (keepalive_size C p) @ packet_base_text p @
     field 1 ''Peer ID'' (os_key S (keepalive_peer_id p))"

definition data_packet_text where
  "data_packet_text (C :: 'z crypto_scheme) (S :: ('s, 'r, 'y) printers_scheme) p =
     sized ''Data Packet'' (data_packet_size C p) @ packet_base_text p @
     field 1 ''Network ID'' (os_key S (data_network_id p)) @
     field 1 ''Payload'' (os_hex S (payload p))"

text \<open>The size and the text of an envelope; the size leaves the subject out. A hash has 32 bytes.\<close>

definition from_msg :: "('k, 'y) zmq_scheme \<Rightarrow> zmq_message_envelope_t \<Rightarrow> bytes" where
  "from_msg Z m = hash_bytes Z (env_from m)"

definition to_msg :: "('k, 'y) zmq_scheme \<Rightarrow> zmq_message_envelope_t \<Rightarrow> bytes" where
  "to_msg Z m = hash_bytes Z (env_to m)"

definition envelope_size :: "zmq_message_envelope_t \<Rightarrow> nat" where
  "envelope_size m = 32 + 32 + length (env_peer_address m) + length (env_payload m)"

definition envelope_text where
  "envelope_text (S :: ('s, 'r, 'y) printers_scheme) m =
     sized ''ZMQ Message Envelope'' (envelope_size m) @
     field 0 ''To'' (os_key S (env_to m)) @
     field 0 ''From'' (os_key S (env_from m)) @
     field 0 ''Subject'' (os_key S (env_subject m)) @
     field 0 ''Peer Address'' (env_peer_address m) @
     ''Payload ['' @ dec (length (env_payload m)) @ '' bytes]: '' @ os_hex S (env_payload m) @ std_endl"

definition dec_int :: "int \<Rightarrow> string" where
  "dec_int i = (if i < 0 then ''-'' @ dec (nat (- i)) else dec (nat i))"

definition Error_text :: "Error \<Rightarrow> string" where
  "Error_text e =
     (if m_file_name e \<noteq> [] then m_file_name e @ '' L#'' @ dec (m_line_number e) @ '' '' else []) @
     ''Error #'' @ dec_int (int_of_code (m_error_code e)) @ '': '' @ Error_to_string e"

section \<open>What the texts show\<close>

text \<open>Numbers are shown so that they can be told apart.\<close>

lemma dec_inj: "dec m = dec n \<longleftrightarrow> m = n"
  using dec_digits(3) by (metis of_nat_eq_iff)

lemma field_inj: "field n name v = field n name w \<longleftrightarrow> v = w"
  by (simp add: field_def)

text \<open>A transaction is shown with the same hashes, work and fee, key images and outputs after its commitment.\<close>

lemma commit_keeps_text:
  assumes "tx_type tx = type_number t"
  shows "user_head_text C S h d sh rh p (user_to_committed C t tx) = user_head_text C S h d sh rh p tx"
    and "user_body_text C S (user_to_committed C t tx) = user_body_text C S tx"
  by (simp_all add: user_head_text_def user_body_text_def user_to_committed_def)

text \<open>The text of a candidate does not show the validations it was assigned.\<close>

lemma candidate_text_hides_validations:
  "candidate_text S (x\<lparr>node_block_validation_assigned := n\<rparr>) = candidate_text S x"
  by (simp add: candidate_text_def)

text \<open>Two errors of one place that are shown alike have the same code and message.\<close>

lemma dec_no_sign: "dec n = c # r \<Longrightarrow> c \<noteq> CHR ''-''"
  using dec_digits(1) [of n] by (auto simp: is_digit_def)

lemma dec_int_inj: "dec_int i = dec_int j \<longleftrightarrow> i = j"
proof -
  have "dec m \<noteq> CHR ''-'' # dec n" for m n using dec_no_sign [of m] by blast
  then show ?thesis by (auto simp: dec_int_def dec_inj) (metis nat_0_le not_less)+
qed

lemma dec_int_colon: "CHR '':'' \<notin> set (dec_int i)"
proof -
  have "\<not> is_digit CHR '':''" by (simp add: is_digit_def)
  then show ?thesis using dec_digits(1) by (auto simp: dec_int_def)
qed

lemma Error_text_inj:
  assumes "Error_text e = Error_text e'" "m_file_name e = m_file_name e'" "m_line_number e = m_line_number e'"
  shows "int_of_code (m_error_code e) = int_of_code (m_error_code e') \<and> Error_to_string e = Error_to_string e'"
proof -
  have s: "a = b \<and> r = s" if "a @ CHR '':'' # r = b @ CHR '':'' # s" "CHR '':'' \<notin> set a" "CHR '':'' \<notin> set b"
    for a b r s :: string
    using that by (induction a arbitrary: b) (case_tac b; auto)+
  have "dec_int (int_of_code (m_error_code e)) @ CHR '':'' # (CHR '' '' # Error_to_string e) =
      dec_int (int_of_code (m_error_code e')) @ CHR '':'' # (CHR '' '' # Error_to_string e')"
    using assms by (simp add: Error_text_def split: if_splits)
  from s [OF this dec_int_colon dec_int_colon] show ?thesis by (simp add: dec_int_inj)
qed

end
