(* ===== verification/Socket_Options.thy ===== *)
theory Socket_Options
  imports Listeners
begin

text \<open>
  The options that the constructors of the four socket classes set (\<open>zmq_server.cpp\<close>,
  \<open>zmq_client.cpp\<close>, \<open>zmq_publisher.cpp\<close>, \<open>zmq_subscriber.cpp\<close>), in their order, and what they say of
  encryption: who dials knows the public key of who listens. The functions for the keys of ZeroMQ
  are arguments, as in \<open>zmq_generate_keypair\<close>.
\<close>

datatype socket_type = Router | Dealer | Pub | Sub

datatype sockopt =
    curve_secretkey string | curve_publickey string | curve_serverkey string | curve_server bool
  | connect_timeout int | immediate bool | routing_id crypto_hash_t | router_mandatory bool | probe_router bool
  | ipv6 bool | linger int

definition server_options :: "crypto_hash_t \<Rightarrow> socket_type \<times> sockopt list" where
  "server_options identity =
     (Router, [curve_secretkey SERVER_SECRET_KEY, curve_server True, immediate True, routing_id identity,
               router_mandatory True, ipv6 True, linger 0])"

definition publisher_options :: "socket_type \<times> sockopt list" where
  "publisher_options =
     (Pub, [curve_secretkey SERVER_SECRET_KEY, curve_server True, immediate True, ipv6 True, linger 0])"

text \<open>A failure of the key functions is an exception of the constructor, \<open>None\<close>.\<close>

definition client_options ::
  "(string \<Rightarrow> int \<times> string) \<Rightarrow> int \<times> string \<times> string \<Rightarrow> crypto_hash_t \<Rightarrow> int \<Rightarrow>
     (socket_type \<times> sockopt list) option" where
  "client_options curve_public curve_keypair identity timeout =
     (let (err, server_key) = zmq_generate_public_key curve_public SERVER_SECRET_KEY in
      if failed err then None
      else let (err, public_text, secret_text) = zmq_generate_keypair curve_keypair in
      if failed err then None
      else Some
        (Dealer, [curve_serverkey server_key, curve_publickey public_text, curve_secretkey secret_text,
                  connect_timeout timeout, immediate False, routing_id identity, ipv6 True, linger 0,
                  probe_router True]))"

definition subscriber_options ::
  "(string \<Rightarrow> int \<times> string) \<Rightarrow> int \<times> string \<times> string \<Rightarrow> int \<Rightarrow> (socket_type \<times> sockopt list) option" where
  "subscriber_options curve_public curve_keypair timeout =
     (let (err, server_key) = zmq_generate_public_key curve_public SERVER_SECRET_KEY in
      if failed err then None
      else let (err, public_text, secret_text) = zmq_generate_keypair curve_keypair in
      if failed err then None
      else Some
        (Sub, [curve_serverkey server_key, curve_publickey public_text, curve_secretkey secret_text,
               connect_timeout timeout, immediate True, ipv6 True, linger 0]))"

section \<open>The keys of the two ends\<close>

text \<open>
  A listener that holds a secret key as a server, and a dialer made with the key functions.
\<close>

locale curve_ends =
  fixes listener :: "sockopt list" and dialer :: "(string \<Rightarrow> int \<times> string) \<Rightarrow> int \<times> string \<times> string \<Rightarrow>
    (socket_type \<times> sockopt list) option"
  assumes listens: "curve_server True \<in> set listener" "curve_secretkey SERVER_SECRET_KEY \<in> set listener"
    and one_secret: "curve_secretkey s \<in> set listener \<Longrightarrow> s = SERVER_SECRET_KEY"
    and dials: "dialer pub pair = Some (t, os) \<Longrightarrow> fst (pub SERVER_SECRET_KEY) = 0 \<and>
      fst pair = 0 \<and> curve_serverkey k \<in> set os = (k = snd (pub SERVER_SECRET_KEY))"
    and made: "fst (pub SERVER_SECRET_KEY) = 0 \<Longrightarrow> fst pair = 0 \<Longrightarrow> \<exists>t os. dialer pub pair = Some (t, os)"
begin

text \<open>The dialer expects exactly the public key that belongs to the secret key of the listener.\<close>

lemma dialer_expects_listener:
  assumes "dialer pub pair = Some (t, os)" "curve_secretkey s \<in> set listener"
  shows "curve_serverkey k \<in> set os \<longleftrightarrow> k = snd (pub s)"
  using dials [OF assms(1)] one_secret [OF assms(2)] by simp

lemma dialer_is_made: "(\<exists>t os. dialer pub pair = Some (t, os)) \<longleftrightarrow> fst (pub SERVER_SECRET_KEY) = 0 \<and> fst pair = 0"
  using dials made by blast

end

lemmas key_functions = zmq_generate_public_key_def zmq_generate_keypair_def

interpretation server_client: curve_ends "snd (server_options i)" "\<lambda>pub pair. client_options pub pair j timeout" for i j timeout
  by unfold_locales (auto simp: server_options_def client_options_def key_functions split: prod.splits if_splits)

interpretation publisher_subscriber: curve_ends "snd publisher_options" "\<lambda>pub pair. subscriber_options pub pair timeout" for timeout
  by unfold_locales (auto simp: publisher_options_def subscriber_options_def key_functions split: prod.splits if_splits)

end
