(* ===== verification/Node_Threads.thy ===== *)
theory Node_Threads
  imports P2p_Service
begin

text \<open>
  The threads of the node as a whole: \<open>thread_sleep\<close> (\<open>include/tools/thread_helper.h\<close>), the signal
  handler (\<open>include/tools/signal_handler.h\<close>), the poller with its loops over the queues, and the loops
  around the rounds of the other threads. The poller ends each of its rounds with empty queues, and a
  round is a run of the node.
\<close>

section \<open>Programs that end within a budget\<close>

text \<open>
  The database can count fewer than \<open>2 ^ 64\<close> peers. \<open>room b N\<close>: there is room for \<open>b\<close> more. A program
  \<open>costs n\<close> when it ends, with a value or an exception, with room for all but \<open>n\<close> of what there was,
  and leaves the queues of incoming messages and the clients alone.
\<close>

definition room where
  "room (C :: 'z network_scheme) (L :: ('e, 't, 'c, 'y) lmdb_cursors_scheme) ev tv cv b (N :: 'e Node) \<longleftrightarrow>
     (\<exists>t. node_has C L ev tv cv N t \<and> card (dom t) + b < 2 ^ 64)"

definition same_inboxes :: "'e Node \<Rightarrow> 'e Node \<Rightarrow> bool" where
  "same_inboxes N N' \<longleftrightarrow>
     zs_incoming (node_server N') = zs_incoming (node_server N) \<and> node_clients N' = node_clients N"

definition costs where
  "costs (C :: 'z network_scheme) (L :: ('e, 't, 'c, 'y) lmdb_cursors_scheme) ev tv cv n (m :: ('e, 'a) node_io) \<longleftrightarrow>
     (\<forall>b N. room C L ev tv cv (b + n) N \<longrightarrow>
        (\<exists>N' r. m N = Some (N', r) \<and> room C L ev tv cv b N' \<and> same_inboxes N N'))"

lemma room_mono: "room C L ev tv cv b N \<Longrightarrow> a \<le> b \<Longrightarrow> room C L ev tv cv a N"
  by (fastforce simp: room_def)

lemma room_same: "node_env N' = node_env N \<Longrightarrow> node_peer_db N' = node_peer_db N \<Longrightarrow>
  room C L ev tv cv b N' \<longleftrightarrow> room C L ev tv cv b N"
  by (simp add: room_def node_has_def)

lemma env_step_inboxes: "env_step N N' \<Longrightarrow> same_inboxes N N'"
  by (cases N; cases N') (auto simp: same_inboxes_def)

lemma costsI:
  assumes "\<And>b N. room C L ev tv cv (b + n) N \<Longrightarrow> \<exists>N' r. m N = Some (N', r) \<and> room C L ev tv cv b N' \<and> same_inboxes N N'"
  shows "costs C L ev tv cv n m"
  using assms by (simp add: costs_def)

lemma costsD:
  assumes "costs C L ev tv cv n m" "room C L ev tv cv (b + n) N"
  obtains N' r where "m N = Some (N', r)" "room C L ev tv cv b N'" "same_inboxes N N'"
  using assms unfolding costs_def by blast

lemma costs_more: "costs C L ev tv cv n m \<Longrightarrow> n \<le> n' \<Longrightarrow> costs C L ev tv cv n' m"
  unfolding costs_def using room_mono by (metis add_left_mono)

lemma costs_quiet:
  assumes "\<And>N. \<exists>N' r. m N = Some (N', r) \<and> node_env N' = node_env N \<and> node_peer_db N' = node_peer_db N \<and> same_inboxes N N'"
  shows "costs C L ev tv cv 0 m"
proof (rule costsI)
  fix b N assume "room C L ev tv cv (b + 0) N"
  then show "\<exists>N' r. m N = Some (N', r) \<and> room C L ev tv cv b N' \<and> same_inboxes N N'"
    using assms [of N] room_same by fastforce
qed

lemma costs_basic:
  "costs C L ev tv cv 0 (io_return x)" "costs C L ev tv cv 0 io_throw" "costs C L ev tv cv 0 (io_gets g)"
  "costs C L ev tv cv 0 node_time"
  by (rule costs_quiet; simp add: io_return_def io_throw_def io_gets_def node_time_def same_inboxes_def)+

lemma costs_bind:
  assumes m: "costs C L ev tv cv n m" and f: "\<And>x. costs C L ev tv cv k (f x)"
  shows "costs C L ev tv cv (n + k) (io_bind m f)"
proof (rule costsI)
  fix b N assume "room C L ev tv cv (b + (n + k)) N"
  then have "room C L ev tv cv (b + k + n) N" by (simp add: ac_simps)
  then obtain N1 r where 1: "m N = Some (N1, r)" "room C L ev tv cv (b + k) N1" "same_inboxes N N1" by (rule costsD [OF m])
  show "\<exists>N' r. io_bind m f N = Some (N', r) \<and> room C L ev tv cv b N' \<and> same_inboxes N N'"
  proof (cases r)
    case (Returned x)
    obtain N2 r' where "f x N1 = Some (N2, r')" "room C L ev tv cv b N2" "same_inboxes N1 N2" by (rule costsD [OF f 1(2)])
    then show ?thesis using 1 Returned by (auto simp: io_bind_def same_inboxes_def)
  next
    case Thrown
    then show ?thesis using 1 room_mono by (fastforce simp: io_bind_def)
  qed
qed

lemma costs_each:
  assumes "\<And>x. x \<in> set xs \<Longrightarrow> costs C L ev tv cv n (f x)" shows "costs C L ev tv cv (length xs * n) (io_each f xs)"
  using assms by (induction xs) (simp_all add: costs_basic costs_bind)

lemma costs_if:
  "costs C L ev tv cv n m1 \<Longrightarrow> costs C L ev tv cv n m2 \<Longrightarrow> costs C L ev tv cv n (\<lambda>N. if P N then m1 N else m2 N)"
  by (simp add: costs_def)

lemmas costs_free = costs_bind [where n = 0 and k = 0, simplified] costs_bind [where n = 0, simplified]

section \<open>What the handlers cost\<close>

lemma node_add_costs:
  assumes "storable C q" shows "costs C L ev tv cv 1 (node_add C L q)"
proof (rule costsI)
  fix b N assume "room C L ev tv cv (b + 1) N"
  then obtain t where t: "node_has C L ev tv cv N t" "card (dom t) + (b + 1) < 2 ^ 64" unfolding room_def by blast
  from node_add_runs [OF t(1) assms] obtain N' r t' where "node_add C L q N = Some (N', Returned r)" "env_step N N'"
    "node_has C L ev tv cv N' t'" "t' = t \<or> t' = t(peer_id q \<mapsto> drop_port q)" by (auto split: if_splits)
  moreover from this(4) have "card (dom t') \<le> Suc (card (dom t))" using card_dom_upd [of t] by auto
  then have "card (dom t') + b < 2 ^ 64" using t(2) by simp
  ultimately show "\<exists>N' r. node_add C L q N = Some (N', r) \<and> room C L ev tv cv b N' \<and> same_inboxes N N'"
    using env_step_inboxes unfolding room_def by blast
qed

lemma node_peers_costs:
  assumes mix: "\<And>seed ps. mset (mix seed ps) = mset ps" shows "costs C L ev tv cv 0 (node_peers C L mix n net)"
proof (rule costsI)
  fix b N assume "room C L ev tv cv (b + 0) N"
  then obtain t where t: "node_has C L ev tv cv N t" "card (dom t) + b < 2 ^ 64" unfolding room_def by auto
  then have "card (dom t) < 2 ^ 64" by simp
  from node_peers_runs [where mix = mix, OF t(1) this mix]
  show "\<exists>N' r. node_peers C L mix n net N = Some (N', r) \<and> room C L ev tv cv b N' \<and> same_inboxes N N'"
    using t(2) env_step_inboxes unfolding room_def by metis
qed

lemma touch_returns:
  assumes p: "peerdb_reliable (C, L, ev, tv, cv, P)" and E: "peerdb_holds (C, L, ev, tv, cv, P) E t"
  shows "\<exists>E' r t'. peerdb_touch C L P now now' i E = Some (E', r) \<and> peerdb_holds (C, L, ev, tv, cv, P) E' t' \<and>
    card (dom t') = card (dom t)"
proof (cases "t i")
  case None
  then show ?thesis using touch_unknown [OF p E] by blast
next
  case (Some q)
  show ?thesis
  proof (cases "i \<noteq> m_peer_id P \<and> prune_time now' \<le> now")
    case True
    then obtain E' where "peerdb_touch C L P now now' i E = Some (E', Returned SUCCESS)"
      "peerdb_holds (C, L, ev, tv, cv, P) E' (t(i \<mapsto> q\<lparr>last_seen := now\<rparr>))"
      using touch_succeeds [OF p E Some] by blast
    moreover have "dom (t(i \<mapsto> q\<lparr>last_seen := now\<rparr>)) = dom t" using Some by auto
    ultimately show ?thesis by metis
  next
    case False
    have law: "peerdb_lawful (C, L, ev, tv, cv, P)" using p by simp
    obtain E1 where g: "peerdb_get C L P i E = Some (E1, Returned (SUCCESS, Some q))"
      "peerdb_holds (C, L, ev, tv, cv, P) E1 t" using get_succeeds [OF p E, of i] Some by auto
    have "peer_id q = i" using pdb.entry [OF law E Some, of now] by simp
    then obtain r where "peerdb_add C L P now' (q\<lparr>last_seen := now\<rparr>) E1 = Some (E1, r)"
      using add_refused [of "q\<lparr>last_seen := now\<rparr>" P now' C L E1] False by (auto simp: not_le)
    then have "peerdb_touch C L P now now' i E = Some (E1, r)" using g(1) by (simp add: peerdb_touch_def io_bind_def)
    then show ?thesis using g(2) by blast
  qed
qed

lemma node_touch_costs: "costs C L ev tv cv 0 (node_touch C L i)"
proof (rule costsI)
  fix b N assume "room C L ev tv cv (b + 0) N"
  then obtain t where t: "node_has C L ev tv cv N t" "card (dom t) + b < 2 ^ 64" unfolding room_def by auto
  let ?now = "node_clock N (node_ticks N)" and ?now' = "node_clock N (Suc (node_ticks N))"
  obtain E r t' where e: "peerdb_touch C L (node_peer_db N) ?now ?now' i (node_env N) = Some (E, r)"
      "peerdb_holds (C, L, ev, tv, cv, node_peer_db N) E t'" "card (dom t') = card (dom t)"
    using touch_returns [of C L ev tv cv "node_peer_db N" "node_env N" t ?now ?now' i] t(1) unfolding node_has_def by blast
  let ?N = "N\<lparr>node_ticks := Suc (Suc (node_ticks N)), node_env := E\<rparr>"
  have "node_touch C L i N = Some (?N, r)" using e(1) by (simp add: node_touch_def io_bind_def node_time_def in_env_def)
  moreover have "node_has C L ev tv cv ?N t'" using t(1) e(2) by (simp add: node_has_def)
  ultimately show "\<exists>N' r. node_touch C L i N = Some (N', r) \<and> room C L ev tv cv b N' \<and> same_inboxes N N'"
    using t(2) e(3) unfolding room_def by (fastforce simp: same_inboxes_def)
qed

lemma node_reply_costs: "costs C L ev tv cv 0 (node_reply e)"
  by (rule costs_quiet) (auto simp: node_reply_def io_modify_def same_inboxes_def server_send_def)

lemma learn_peers_costs:
  assumes "network_laws C" "\<forall>q \<in> set (packet_peers packet). wf_peer C q"
  shows "costs C L ev tv cv (Suc (length (packet_peers packet))) (learn_peers C L address packet)"
proof (cases "ip_address_of_string C address")
  case None
  then show ?thesis using costs_more [OF costs_basic(2)] by (simp add: learn_peers_def)
next
  case (Some a)
  have each: "costs C L ev tv cv 1 (if peer_id q = i then io_return () else io_bind (node_add C L q) (\<lambda>_. io_return ()))"
    if "q \<in> set (packet_peers packet)" for q i
    using that assms(2) wf_peer_storable costs_more [OF costs_basic(1), of 1]
      costs_bind [OF node_add_costs costs_basic(1)] by fastforce
  have "costs C L ev tv cv (0 + (1 + length (packet_peers packet) * 1)) (learn_peers C L address packet)"
    unfolding learn_peers_def Some option.case
    by (intro costs_bind costs_basic node_add_costs network_peer_storable [OF assms(1) Some] costs_each each)
  then show ?thesis by simp
qed

lemma build_list_costs:
  assumes "\<And>seed ps. mset (mix seed ps) = mset ps"
  shows "costs C L ev tv cv 0 (build_peer_list C L mix)" "costs C L ev tv cv 0 (build_handshake C L mix)"
  unfolding build_handshake_def build_peer_list_def
  by (intro costs_free costs_basic node_peers_costs assms)+

lemma handle_handshake_costs:
  assumes "node_laws C L ev tv cv mix" "\<forall>q \<in> set (packet_peers packet). wf_peer C q"
  shows "costs C L ev tv cv (Suc (length (packet_peers packet))) (handle_handshake C L mix source address packet is_server)"
proof -
  let ?n = "Suc (length (packet_peers packet))"
  have C: "network_laws C" and mix: "\<And>seed ps. mset (mix seed ps) = mset ps" using assms(1) by (simp_all add: node_laws_def)
  have q: "costs C L ev tv cv ?n (io_return x)" for x :: unit by (rule costs_more [OF costs_basic(1)]) simp
  have complete: "costs C L ev tv cv 0 (io_modify (\<lambda>N. N\<lparr>node_completed := tss_insert (key_less C) source (node_completed N)\<rparr>))"
    by (rule costs_quiet) (simp add: io_modify_def same_inboxes_def)
  have "costs C L ev tv cv (?n + 0) (io_bind (learn_peers C L address packet) (\<lambda>_. if is_server then
      io_bind (build_handshake C L mix) (\<lambda>h. io_bind (node_reply (envelope_to C source (handshake_serialize C h)))
        (\<lambda>_. io_modify (\<lambda>N. N\<lparr>node_completed := tss_insert (key_less C) source (node_completed N)\<rparr>)))
      else io_return ()))"
    by (rule costs_bind [OF learn_peers_costs [OF C assms(2)]])
      (simp add: costs_basic costs_free(1) build_list_costs(2) [OF mix] node_reply_costs complete)
  then show ?thesis unfolding handle_handshake_def using q by (simp add: costs_if)
qed

lemma handle_peer_exchange_costs:
  assumes "node_laws C L ev tv cv mix" "\<forall>q \<in> set (packet_peers packet). wf_peer C q"
  shows "costs C L ev tv cv (Suc (length (packet_peers packet))) (handle_peer_exchange C L mix source address packet is_server)"
proof -
  let ?n = "Suc (length (packet_peers packet))"
  have C: "network_laws C" and mix: "\<And>seed ps. mset (mix seed ps) = mset ps" using assms(1) by (simp_all add: node_laws_def)
  have q: "costs C L ev tv cv ?n (io_return x)" for x :: unit by (rule costs_more [OF costs_basic(1)]) simp
  have "costs C L ev tv cv (?n + 0) (io_bind (learn_peers C L address packet) (\<lambda>_. if is_server then
      io_bind (io_gets (\<lambda>N. packet_peer_exchange (m_peer_id (node_peer_db N)) (zs_port (node_server N)) (node_network_id N)))
        (\<lambda>p. io_bind (build_peer_list C L mix)
          (\<lambda>ps. node_reply (envelope_to C source (peer_exchange_serialize C (p\<lparr>packet_peers := ps\<rparr>)))))
      else io_return ()))"
    by (rule costs_bind [OF learn_peers_costs [OF C assms(2)]])
      (simp add: costs_basic costs_free(1) build_list_costs(1) [OF mix] node_reply_costs)
  then show ?thesis unfolding handle_peer_exchange_def using q by (simp add: costs_if)
qed

lemma handle_keepalive_costs: "costs C L ev tv cv 0 (handle_keepalive C L source packet is_server)"
  unfolding handle_keepalive_def
  by (simp add: costs_if costs_basic costs_free(1) node_touch_costs node_reply_costs)

lemma handle_data_costs: "costs C L ev tv cv 0 (handle_data source packet is_server)"
proof -
  have "costs C L ev tv cv 0 (io_modify (\<lambda>N. N\<lparr>node_messages := tsq_push m (node_messages N)\<rparr>))" for m
    by (rule costs_quiet) (simp add: io_modify_def same_inboxes_def)
  then show ?thesis unfolding handle_data_def by (simp add: costs_if costs_basic)
qed

text \<open>The number of peers that a message can bring: its sender and those it lists.\<close>

definition message_cost :: "'z network_scheme \<Rightarrow> zmq_message_envelope_t \<Rightarrow> nat" where
  "message_cost C m =
     (case peers_packet_deserialize C (env_payload m) of None \<Rightarrow> 0 | Some (p, _) \<Rightarrow> Suc (length (packet_peers p)))"

lemma handle_typed_costs:
  assumes laws: "node_laws C L ev tv cv mix" shows "costs C L ev tv cv (message_cost C m) (handle_typed C L mix m is_server)"
proof -
  have free: "costs C L ev tv cv 0 f \<Longrightarrow> costs C L ev tv cv (message_cost C m) f" for f :: "('b, unit) node_io"
    by (erule costs_more) simp
  show ?thesis
    using handle_handshake_costs [OF laws packet_peers_wf] handle_peer_exchange_costs [OF laws packet_peers_wf]
      free [OF handle_keepalive_costs] free [OF handle_data_costs] free [OF costs_basic(2)]
    by (auto simp: handle_typed_def Let_def handshake_deserialize_def peer_exchange_deserialize_def message_cost_def
        split: option.split prod.split)
qed

lemma handle_incoming_costs:
  assumes "node_laws C L ev tv cv mix"
  shows "costs C L ev tv cv (message_cost C m) (handle_incoming_message C L mix m is_server)"
  using handle_typed_costs [OF assms, of m is_server] unfolding costs_def handle_incoming_message_def by fastforce

section \<open>The poller\<close>

text \<open>The messages that a client has received, and the two inner loops of the poller.\<close>

definition client_inbox :: "'e Node \<Rightarrow> crypto_hash_t \<Rightarrow> zmq_message_envelope_t ThreadSafeQueue" where
  "client_inbox N i = (case tsm_at (node_clients N) i of None \<Rightarrow> [] | Some client \<Rightarrow> zc_incoming client)"

partial_function (option) drain_server ::
  "'z network_scheme \<Rightarrow> ('e, 't, 'c, 'y) lmdb_cursors_scheme \<Rightarrow> shuffle \<Rightarrow> 'e Node \<Rightarrow> ('e Node \<times> unit outcome) option" where
  "drain_server C L mix N =
     (if tsq_empty (zs_incoming (node_server N)) then io_return () N
      else Option.bind (poll_server C L mix N) (\<lambda>(N, _). drain_server C L mix N))"

partial_function (option) drain_client ::
  "'z network_scheme \<Rightarrow> ('e, 't, 'c, 'y) lmdb_cursors_scheme \<Rightarrow> shuffle \<Rightarrow> crypto_hash_t \<Rightarrow> 'e Node \<Rightarrow>
     ('e Node \<times> unit outcome) option" where
  "drain_client C L mix i N =
     (if tsq_empty (client_inbox N i) then io_return () N
      else Option.bind (poll_client C L mix i N) (\<lambda>(N, _). drain_client C L mix i N))"

text \<open>
  One round: the messages that wait when it begins, and in between no thread of a socket puts more
  into the queues. What arrives meanwhile is there for the next round, after its sleep.
\<close>

definition poller_round where
  "poller_round (C :: 'z network_scheme) (L :: ('e, 't, 'c, 'y) lmdb_cursors_scheme) mix =
     io_bind (drain_server C L mix) (\<lambda>_.
     io_bind (io_gets (\<lambda>N. map fst (node_clients N))) (io_each (drain_client C L mix)))"

text \<open>One message, as a step of the node, with the room it takes.\<close>

abbreviation messages_cost :: "'z network_scheme \<Rightarrow> zmq_message_envelope_t list \<Rightarrow> nat" where
  "messages_cost C ms \<equiv> sum_list (map (message_cost C) ms)"

lemma progress_queues: "node_progress C L ev tv cv N N' \<Longrightarrow> \<exists>out. queues N out N'"
  by (auto simp: node_progress_def)

lemma node_run_append:
  assumes "node_run C L mix Z dial N1 outs' N2" "node_run C L mix Z dial N outs N1"
  shows "node_run C L mix Z dial N (outs @ outs') N2"
  using assms
proof (induction rule: node_run.induct)
  case (step N1 outs1 N2 out N3)
  then show ?case using node_run.step by (metis append_assoc)
qed simp

lemma node_run_first:
  "node_step C L mix Z dial N out N1 \<Longrightarrow> node_run C L mix Z dial N1 outs N2 \<Longrightarrow> node_run C L mix Z dial N (out @ outs) N2"
  using node_run_append node_run.step [OF node_run.stop] by fastforce

lemma poll_server_ends:
  assumes laws: "node_laws C L ev tv cv mix" and N: "room C L ev tv cv (b + message_cost C m) N"
    "zs_incoming (node_server N) = m # ms"
  shows "\<exists>N' out. poll_server C L mix N = Some (N', Returned ()) \<and> room C L ev tv cv b N' \<and>
    zs_incoming (node_server N') = ms \<and> node_clients N' = node_clients N \<and> node_step C L mix Z dial N out N'"
proof -
  let ?N = "N\<lparr>node_server := (node_server N)\<lparr>zs_incoming := ms\<rparr>\<rparr>"
  have "room C L ev tv cv (b + message_cost C m) ?N" using N(1) by (simp add: room_def node_has_def)
  then obtain N' r where h: "handle_incoming_message C L mix m True ?N = Some (N', r)" "room C L ev tv cv b N'" "same_inboxes ?N N'"
    by (rule costsD [OF handle_incoming_costs [OF laws]])
  have p: "poll_server C L mix N = Some (N', Returned ())"
    using h(1) by (auto simp: poll_server_def N(2) tsq_pop_def handle_incoming_message_def)
  obtain out where "queues N out N'" using progress_queues [OF io_relD [OF poll_server_progress [OF laws] p]] by blast
  then show ?thesis using p h(2,3) node_step.server_message [OF p] by (auto simp: same_inboxes_def)
qed

lemma drain_server_ends:
  assumes laws: "node_laws C L ev tv cv mix"
  shows "room C L ev tv cv (b + messages_cost C ms) N \<Longrightarrow> zs_incoming (node_server N) = ms \<Longrightarrow>
    \<exists>N' outs. drain_server C L mix N = Some (N', Returned ()) \<and> room C L ev tv cv b N' \<and>
      zs_incoming (node_server N') = [] \<and> node_clients N' = node_clients N \<and> node_run C L mix Z dial N outs N'"
proof (induction ms arbitrary: N)
  case Nil
  then show ?case using node_run.stop [of C L mix Z dial N]
    by (auto simp: drain_server.simps tsq_empty_def io_return_def)
next
  case (Cons m ms)
  have r: "room C L ev tv cv (b + messages_cost C ms + message_cost C m) N" using Cons.prems(1) by (simp add: ac_simps)
  obtain N1 out where 1: "poll_server C L mix N = Some (N1, Returned ())" "room C L ev tv cv (b + messages_cost C ms) N1"
      "zs_incoming (node_server N1) = ms" "node_clients N1 = node_clients N" "node_step C L mix Z dial N out N1"
    using poll_server_ends [OF laws r Cons.prems(2)] by blast
  obtain N' outs where 2: "drain_server C L mix N1 = Some (N', Returned ())" "room C L ev tv cv b N'"
      "zs_incoming (node_server N') = []" "node_clients N' = node_clients N1" "node_run C L mix Z dial N1 outs N'"
    using Cons.IH [OF 1(2,3)] by blast
  have "drain_server C L mix N = Some (N', Returned ())"
    using 1(1) 2(1) Cons.prems(2) by (subst drain_server.simps) (simp add: tsq_empty_def)
  then show ?case using 1(4) 2(2-4) node_run_first [OF 1(5) 2(5)] by auto
qed

lemma poll_client_ends:
  assumes laws: "node_laws C L ev tv cv mix" and N: "room C L ev tv cv (b + message_cost C m) N"
    "client_inbox N i = m # ms" "sorted_map (key_less C) (node_clients N)"
  shows "\<exists>N' out. poll_client C L mix i N = Some (N', Returned ()) \<and> room C L ev tv cv b N' \<and>
    client_inbox N' = (client_inbox N)(i := ms) \<and> zs_incoming (node_server N') = zs_incoming (node_server N) \<and>
    sorted_map (key_less C) (node_clients N') \<and> node_step C L mix Z dial N out N'"
proof -
  have "network_laws C" using laws by (simp add: node_laws_def)
  then have st: "strict_total (key_less C)" by (rule crypto_lawsD(2) [OF network_lawsD(1)])
  obtain c where c: "tsm_at (node_clients N) i = Some c" "zc_incoming c = m # ms"
    using N(2) by (auto simp: client_inbox_def split: option.splits)
  let ?N = "N\<lparr>node_clients := tsm_insert_or_assign (key_less C) i (c\<lparr>zc_incoming := ms\<rparr>) (node_clients N)\<rparr>"
  have "room C L ev tv cv (b + message_cost C m) ?N" using N(1) by (simp add: room_def node_has_def)
  then obtain N' r where h: "handle_incoming_message C L mix m False ?N = Some (N', r)" "room C L ev tv cv b N'" "same_inboxes ?N N'"
    by (rule costsD [OF handle_incoming_costs [OF laws]])
  have p: "poll_client C L mix i N = Some (N', Returned ())"
    using h(1) by (auto simp: poll_client_def c tsq_pop_def handle_incoming_message_def)
  have n: "node_clients N' = node_clients ?N" "zs_incoming (node_server N') = zs_incoming (node_server N)"
    using h(3) by (simp_all add: same_inboxes_def)
  have "client_inbox N' j = ((client_inbox N)(i := ms)) j" for j
    using tsm_at_insert_or_assign [OF st N(3)] by (simp add: client_inbox_def n(1))
  moreover obtain out where "queues N out N'" using progress_queues [OF io_relD [OF poll_client_progress [OF laws] p]] by blast
  ultimately show ?thesis
    using p h(2) n node_step.client_message [OF p] sorted_map_tsm_insert_or_assign [OF st N(3)] by fastforce
qed

lemma drain_client_ends:
  assumes laws: "node_laws C L ev tv cv mix"
  shows "room C L ev tv cv (b + messages_cost C ms) N \<Longrightarrow> client_inbox N i = ms \<Longrightarrow> sorted_map (key_less C) (node_clients N) \<Longrightarrow>
    \<exists>N' outs. drain_client C L mix i N = Some (N', Returned ()) \<and> room C L ev tv cv b N' \<and>
      client_inbox N' = (client_inbox N)(i := []) \<and> zs_incoming (node_server N') = zs_incoming (node_server N) \<and>
      sorted_map (key_less C) (node_clients N') \<and> node_run C L mix Z dial N outs N'"
proof (induction ms arbitrary: N)
  case Nil
  then show ?case using node_run.stop [of C L mix Z dial N]
    by (auto simp: drain_client.simps tsq_empty_def io_return_def fun_eq_iff)
next
  case (Cons m ms)
  have r: "room C L ev tv cv (b + messages_cost C ms + message_cost C m) N" using Cons.prems(1) by (simp add: ac_simps)
  obtain N1 out where 1: "poll_client C L mix i N = Some (N1, Returned ())" "room C L ev tv cv (b + messages_cost C ms) N1"
      "client_inbox N1 = (client_inbox N)(i := ms)" "zs_incoming (node_server N1) = zs_incoming (node_server N)"
      "sorted_map (key_less C) (node_clients N1)" "node_step C L mix Z dial N out N1"
    using poll_client_ends [OF laws r Cons.prems(2,3)] by blast
  have i: "client_inbox N1 i = ms" by (simp add: 1(3))
  obtain N' outs where 2: "drain_client C L mix i N1 = Some (N', Returned ())" "room C L ev tv cv b N'"
      "client_inbox N' = (client_inbox N1)(i := [])" "zs_incoming (node_server N') = zs_incoming (node_server N1)"
      "sorted_map (key_less C) (node_clients N')" "node_run C L mix Z dial N1 outs N'" using Cons.IH [OF 1(2) i 1(5)] by blast
  have "drain_client C L mix i N = Some (N', Returned ())"
    using 1(1) 2(1) Cons.prems(2) by (subst drain_client.simps) (simp add: tsq_empty_def)
  then show ?case using 1(3,4) 2(2-5) node_run_first [OF 1(6) 2(6)] by auto
qed

lemma drain_clients_ends:
  assumes laws: "node_laws C L ev tv cv mix"
  shows "room C L ev tv cv (b + sum_list (map (\<lambda>i. messages_cost C (client_inbox N i)) is)) N \<Longrightarrow>
    sorted_map (key_less C) (node_clients N) \<Longrightarrow>
    \<exists>N' outs. io_each (drain_client C L mix) is N = Some (N', Returned ()) \<and> room C L ev tv cv b N' \<and>
      (\<forall>j. client_inbox N' j = (if j \<in> set is then [] else client_inbox N j)) \<and>
      zs_incoming (node_server N') = zs_incoming (node_server N) \<and> node_run C L mix Z dial N outs N'"
proof (induction "is" arbitrary: N)
  case Nil
  then show ?case using node_run.stop [of C L mix Z dial N] by (auto simp: io_return_def)
next
  case (Cons i "is")
  let ?rest = "\<lambda>N. sum_list (map (\<lambda>i. messages_cost C (client_inbox N i)) is)"
  have "room C L ev tv cv (b + ?rest N + messages_cost C (client_inbox N i)) N" using Cons.prems(1) by (simp add: ac_simps)
  from drain_client_ends [OF laws this refl Cons.prems(2)] obtain N1 outs where 1:
      "drain_client C L mix i N = Some (N1, Returned ())" "room C L ev tv cv (b + ?rest N) N1"
      "client_inbox N1 = (client_inbox N)(i := [])" "zs_incoming (node_server N1) = zs_incoming (node_server N)"
      "sorted_map (key_less C) (node_clients N1)" "node_run C L mix Z dial N outs N1" by blast
  have "?rest N1 \<le> ?rest N" by (rule sum_list_mono) (simp add: 1(3))
  then have "room C L ev tv cv (b + ?rest N1) N1" using room_mono [OF 1(2)] by simp
  from Cons.IH [OF this 1(5)] obtain N' outs' where 2: "io_each (drain_client C L mix) is N1 = Some (N', Returned ())"
      "room C L ev tv cv b N'" "\<forall>j. client_inbox N' j = (if j \<in> set is then [] else client_inbox N1 j)"
      "zs_incoming (node_server N') = zs_incoming (node_server N1)" "node_run C L mix Z dial N1 outs' N'" by blast
  show ?case using 1(1,3,4) 2 node_run_append [OF 2(5) 1(6)]
    by (intro exI [of _ N'] exI [of _ "outs @ outs'"]) (simp add: io_bind_def)
qed

text \<open>A round ends, leaves no message in a queue, and is a run of the node.\<close>

definition waiting_cost :: "'z network_scheme \<Rightarrow> 'e Node \<Rightarrow> nat" where
  "waiting_cost C N = messages_cost C (zs_incoming (node_server N)) +
     sum_list (map (\<lambda>i. messages_cost C (client_inbox N i)) (map fst (node_clients N)))"

lemma poller_round_ends:
  assumes laws: "node_laws C L ev tv cv mix" and N: "room C L ev tv cv (b + waiting_cost C N) N"
    "sorted_map (key_less C) (node_clients N)"
  shows "\<exists>N' outs. poller_round C L mix N = Some (N', Returned ()) \<and> room C L ev tv cv b N' \<and>
    zs_incoming (node_server N') = [] \<and> (\<forall>i. client_inbox N' i = []) \<and> node_run C L mix Z dial N outs N'"
proof -
  let ?is = "map fst (node_clients N)"
  let ?rest = "\<lambda>N. sum_list (map (\<lambda>i. messages_cost C (client_inbox N i)) ?is)"
  have "room C L ev tv cv (b + ?rest N + messages_cost C (zs_incoming (node_server N))) N"
    using N(1) by (simp add: waiting_cost_def ac_simps)
  from drain_server_ends [OF laws this refl] obtain N1 outs where 1: "drain_server C L mix N = Some (N1, Returned ())"
      "room C L ev tv cv (b + ?rest N) N1" "zs_incoming (node_server N1) = []" "node_clients N1 = node_clients N"
      "node_run C L mix Z dial N outs N1" by blast
  have "client_inbox N1 = client_inbox N" by (simp add: client_inbox_def 1(4) fun_eq_iff)
  then have r: "room C L ev tv cv (b + ?rest N1) N1" using 1(2) by simp
  have st: "sorted_map (key_less C) (node_clients N1)" using N(2) 1(4) by simp
  from drain_clients_ends [OF laws r st] obtain N' outs' where 2: "io_each (drain_client C L mix) ?is N1 = Some (N', Returned ())"
      "room C L ev tv cv b N'" "\<forall>j. client_inbox N' j = (if j \<in> set ?is then [] else client_inbox N1 j)"
      "zs_incoming (node_server N') = zs_incoming (node_server N1)" "node_run C L mix Z dial N1 outs' N'" by blast
  have "map_of (node_clients N) j = None" if "j \<notin> set ?is" for j using that by (simp add: map_of_eq_None_iff)
  then have "client_inbox N1 j = []" if "j \<notin> set ?is" for j using that by (simp add: client_inbox_def 1(4) tsm_at_def)
  then have "\<forall>j. client_inbox N' j = []" using 2(3) by simp
  moreover have "poller_round C L mix N = Some (N', Returned ())"
    using 1(1,4) 2(1) by (simp add: poller_round_def io_bind_def io_gets_def)
  ultimately show ?thesis using 1(3) 2(2,4) node_run_append [OF 2(5) 1(5)] by auto
qed

section \<open>Sleeping\<close>

text \<open>
  \<open>thread_sleep\<close> waits once and takes everything but a time-out for the signal to stop. A thread sees
  a sequence of sleeps: how each one ended, and what the other threads did to the node meanwhile.
  The loops say whether the thread has ended, or sleeps.
\<close>

datatype cv_status = cv_no_timeout | cv_timeout

definition thread_sleep :: "cv_status \<Rightarrow> bool" where
  "thread_sleep status \<longleftrightarrow> status \<noteq> cv_timeout"

type_synonym 'e sleep = "cv_status \<times> ('e Node \<Rightarrow> 'e Node)"

fun work_then_sleep :: "('e, unit) node_io \<Rightarrow> 'e sleep list \<Rightarrow> ('e, bool) node_io" where
  "work_then_sleep work [] N =
     (if \<not> node_running N then io_return True N else io_bind work (\<lambda>_. io_return False) N)"
| "work_then_sleep work ((status, others) # sleeps) N =
     (if \<not> node_running N then io_return True N
      else io_bind work (\<lambda>_. io_bind (io_modify others)
             (\<lambda>_. if thread_sleep status then io_return True else work_then_sleep work sleeps)) N)"

fun sleep_then_work :: "('e, unit) node_io \<Rightarrow> 'e sleep list \<Rightarrow> ('e, bool) node_io" where
  "sleep_then_work work [] N = io_return (\<not> node_running N) N"
| "sleep_then_work work ((status, others) # sleeps) N =
     (if \<not> node_running N then io_return True N
      else io_bind (io_modify others)
             (\<lambda>_. if thread_sleep status then io_return True
                  else io_bind work (\<lambda>_. sleep_then_work work sleeps)) N)"

definition poller where
  "poller (C :: 'z network_scheme) (L :: ('e, 't, 'c, 'y) lmdb_cursors_scheme) mix = work_then_sleep (poller_round C L mix)"

definition connection_manager_thread where
  "connection_manager_thread (C :: 'z network_scheme) (L :: ('e, 't, 'c, 'y) lmdb_cursors_scheme) mix
     (Z :: ('k, 'x) zmq_scheme) dial = work_then_sleep (connection_manager C L mix Z dial)"

definition send_keepalives :: "'z network_scheme \<Rightarrow> 'e sleep list \<Rightarrow> ('e, bool) node_io" where
  "send_keepalives C = sleep_then_work (send_keepalive C)"

definition send_peer_exchanges :: "'z network_scheme \<Rightarrow> 'e sleep list \<Rightarrow> ('e, bool) node_io" where
  "send_peer_exchanges C = sleep_then_work (send_peer_exchange C)"

text \<open>What the work and the other threads keep, the thread keeps.\<close>

lemma thread_rel:
  assumes R: "reflp R" "transp R" and work: "io_rel R work"
  shows "\<forall>(status, others) \<in> set sleeps. \<forall>N. R N (others N) \<Longrightarrow> io_rel R (work_then_sleep work sleeps)"
    and "\<forall>(status, others) \<in> set sleeps. \<forall>N. R N (others N) \<Longrightarrow> io_rel R (sleep_then_work work sleeps)"
proof (induction sleeps)
  case Nil
  have "io_rel R (\<lambda>N. io_bind work (\<lambda>_. io_return False) N)" by (intro io_rel_bind [OF R(2)] work io_rel_basic [OF R(1)])
  then show "io_rel R (work_then_sleep work [])" "io_rel R (sleep_then_work work [])"
    using reflpD [OF R(1)] by (auto simp: io_rel_def io_return_def)
next
  case (Cons s sleeps)
  obtain status others where s: "s = (status, others)" by fastforce
  let ?w = "io_bind work (\<lambda>_. io_bind (io_modify others) (\<lambda>_. if thread_sleep status then io_return True else work_then_sleep work sleeps))"
  let ?s = "io_bind (io_modify others) (\<lambda>_. if thread_sleep status then io_return True
      else io_bind work (\<lambda>_. sleep_then_work work sleeps))"
  { assume o: "\<forall>(status, others) \<in> set (s # sleeps). \<forall>N. R N (others N)"
    then have m: "io_rel R (io_modify others)" by (intro io_rel_modify) (simp add: s)
    have w: "io_rel R (work_then_sleep work sleeps)" and v: "io_rel R (sleep_then_work work sleeps)" using Cons.IH o by simp_all
    have "io_rel R ?w" "io_rel R ?s"
      by (simp_all add: io_rel_bind [OF R(2)] io_rel_basic [OF R(1)] m w v work) }
  note step = this
  show "io_rel R (work_then_sleep work (s # sleeps))" "io_rel R (sleep_then_work work (s # sleeps))"
    if "\<forall>(status, others) \<in> set (s # sleeps). \<forall>N. R N (others N)"
    using step [OF that] reflpD [OF R(1)] by (auto simp: io_rel_def s io_return_def)
qed

text \<open>
  Waking up without a time-out ends a thread, whatever woke it: the loops do not look at
  \<open>m_running\<close> again, and the standard lets a condition variable wake up by itself.
\<close>

lemma woken_thread_ends:
  "node_running N \<Longrightarrow> work N = Some (N1, Returned ()) \<Longrightarrow>
     work_then_sleep work ((cv_no_timeout, others) # sleeps) N = Some (others N1, Returned True)"
  "node_running N \<Longrightarrow> sleep_then_work work ((cv_no_timeout, others) # sleeps) N = Some (others N, Returned True)"
  by (simp_all add: io_bind_def io_modify_def io_return_def thread_sleep_def)

text \<open>A thread that was not asleep when the node was stopped sees it in the condition of its loop.\<close>

lemma stopped_thread_ends:
  assumes "node_running N" "work N = Some (N1, Returned ())" "\<not> node_running (others N1)"
  shows "work_then_sleep work ((status, others) # sleeps) N = Some (others N1, Returned True)"
proof -
  have "work_then_sleep work sleeps (others N1) = Some (others N1, Returned True)"
    using assms(3) by (cases "(work, sleeps, others N1)" rule: work_then_sleep.cases) (auto simp: io_return_def)
  then show ?thesis using assms by (simp add: io_bind_def io_modify_def io_return_def)
qed

text \<open>The keep-alive and exchange threads work once more in that case, on a node that is being destroyed.\<close>

lemma stopped_thread_works_once_more:
  "node_running N \<Longrightarrow> sleep_then_work work ((cv_timeout, others) # sleeps) N =
     io_bind work (\<lambda>_. sleep_then_work work sleeps) (others N)"
  by (simp add: io_bind_def io_modify_def thread_sleep_def)

section \<open>Signals\<close>

text \<open>
  The callback is an optional function, as \<open>std::function\<close> is; the model is that of the POSIX branch,
  where registering never fails and both signals have the same handler.
\<close>

definition handle_signal :: "('s \<Rightarrow> 's) option \<Rightarrow> 's \<Rightarrow> 's" where
  "handle_signal m_handler s = (case m_handler of None \<Rightarrow> s | Some callback \<Rightarrow> callback s)"

definition signal_handler :: "('s \<Rightarrow> 's) option \<Rightarrow> int \<Rightarrow> 's \<Rightarrow> 's" where
  "signal_handler m_handler ty = handle_signal m_handler"

definition register_handler :: "('s \<Rightarrow> 's) option \<Rightarrow> ('s \<Rightarrow> 's) option \<Rightarrow> bool \<times> ('s \<Rightarrow> 's) option" where
  "register_handler callback m_handler = (True, callback)"

end
