(* ===== verification/Terminal.thy ===== *)
theory Terminal
  imports Console
begin

text \<open>
  The escape sequences of the colours (\<open>src/utilities/colors.h\<close>, the branch for POSIX terminals), the
  bytes that a sequence of values becomes on the terminal, and \<open>Logger::create_logger\<close>
  (\<open>src/logger/logger.cpp\<close>) as the sequence of its calls of the logging library.
\<close>

section \<open>Colours\<close>

fun color_code :: "COLOR \<Rightarrow> u8" where
  "color_code grey = 30" | "color_code red = 31" | "color_code green = 32" | "color_code yellow = 33"
| "color_code blue = 34" | "color_code magenta = 35" | "color_code cyan = 36" | "color_code white = 37"
| "color_code on_grey = 40" | "color_code on_red = 41" | "color_code on_green = 42" | "color_code on_yellow = 43"
| "color_code on_blue = 44" | "color_code on_magenta = 45" | "color_code on_cyan = 46" | "color_code on_white = 47"
| "color_code reset = 48"

definition color_text :: "COLOR \<Rightarrow> string" where
  "color_text c =
     (if c = reset then CHR 0x1B # ''[m''
      else CHR 0x1B # ''['' @ dec (unat (color_code c)) @ ''m'')"

fun piece_text :: "piece \<Rightarrow> string" where
  "piece_text (Colour c) = color_text c"
| "piece_text (Text s) = s"
| "piece_text Endl = [CHR 0x0A]"

definition terminal :: "piece list \<Rightarrow> string" where
  "terminal ps = concat (map piece_text ps)"

text \<open>
  What a terminal shows: the characters that are no part of an escape sequence, up to the letter that ends it.
\<close>

fun visible :: "bool \<Rightarrow> string \<Rightarrow> string" where
  "visible escaped [] = []"
| "visible True (c # s) = visible (c \<noteq> CHR ''m'') s"
| "visible False (c # s) = (if c = CHR 0x1B then visible True s else c # visible False s)"

text \<open>Without the colours, this is the text that was written: colouring changes nothing of it.\<close>

fun plain :: "piece \<Rightarrow> string" where
  "plain (Colour _) = []"
| "plain (Text s) = s"
| "plain Endl = [CHR 0x0A]"

lemma visible_escape:
  assumes "CHR ''m'' \<notin> set e" shows "visible True (e @ CHR ''m'' # s) = visible False s"
  using assms by (induction e) auto

lemma dec_no_m: "CHR ''m'' \<notin> set (dec n)"
  using dec_digits(1) [of n] by (auto simp: is_digit_def)

lemma visible_color: "visible False (color_text c @ s) = visible False s"
  using visible_escape [of "''[''" s] visible_escape [of "''['' @ dec (unat (color_code c))" s] dec_no_m
  by (auto simp: color_text_def)

lemma visible_text: "CHR 0x1B \<notin> set t \<Longrightarrow> visible False (t @ s) = t @ visible False s"
  by (induction t) auto

lemma visible_terminal:
  assumes "\<And>t. Text t \<in> set ps \<Longrightarrow> CHR 0x1B \<notin> set t"
  shows "visible False (terminal ps) = concat (map plain ps)"
  using assms
proof (induction ps)
  case Nil
  then show ?case by (simp add: terminal_def)
next
  case (Cons p ps)
  have "visible False (terminal ps) = concat (map plain ps)" by (rule Cons.IH) (simp add: Cons.prems)
  then show ?case using Cons.prems
    by (cases p) (auto simp: terminal_def visible_color visible_text)
qed

text \<open>The colours have different sequences.\<close>

lemma color_code_inj: "color_code c = color_code d \<Longrightarrow> c = d"
  by (cases c; cases d) simp_all

lemma color_text_inj: "inj color_text"
proof (rule injI)
  fix c d assume e: "color_text c = color_text d"
  have r: "color_text a = color_text reset \<Longrightarrow> a = reset" for a using dec_digits(2) by (auto simp: color_text_def split: if_splits)
  show "c = d"
  proof (cases "c = reset \<or> d = reset")
    case True
    then show ?thesis using e r by metis
  next
    case False
    then have "dec (unat (color_code c)) = dec (unat (color_code d))" using e by (simp add: color_text_def)
    then have "int (unat (color_code c)) = int (unat (color_code d))" by (metis dec_digits(3))
    then have "color_code c = color_code d" by (intro unsigned_word_eqI) (simp only: of_nat_eq_iff)
    then show ?thesis by (rule color_code_inj)
  qed
qed

section \<open>The logger\<close>

datatype sink = stdout_color_sink_mt | basic_file_sink_mt string

datatype spdlog_call =
    init_thread_pool nat nat | flush_every u64 | async_logger string "sink list" | set_pattern string
  | set_level logging_level | register_logger

text \<open>Opening the file is a call of the library that may throw; \<open>opens\<close> says for which paths it does not.\<close>

definition create_logger :: "(string \<Rightarrow> bool) \<Rightarrow> string \<Rightarrow> logging_level \<Rightarrow> u64 \<Rightarrow> spdlog_call list option" where
  "create_logger opens path level flush_interval =
     (if path \<noteq> [] \<and> \<not> opens path then None
      else
        let sinks = [stdout_color_sink_mt] @ (if path \<noteq> [] then [basic_file_sink_mt path] else []) in
        Some [init_thread_pool 8192 1, flush_every flush_interval, async_logger ''multi_sink'' sinks,
              set_pattern ''[%Y-%m-%d %H:%M:%S.%e UTC] [%^%l%$] %v'', set_level level, register_logger])"

text \<open>Without a path the logger is always made, and writes to the console only.\<close>

lemma create_logger_console:
  "\<exists>calls. create_logger opens [] level n = Some calls \<and> async_logger ''multi_sink'' [stdout_color_sink_mt] \<in> set calls \<and>
     (\<forall>l. set_level l \<in> set calls \<longleftrightarrow> l = level)"
  by (simp add: create_logger_def)

end
