(* ===== verification/Spec2Isabelle.thy ===== *)
theory Spec2Isabelle
  imports Network_Samples Stored_Layout Transaction_Validator Staking_Open Thread_Safe Format_Samples Priority_Queue Hex_Forms Seed_Console Display Socket_Options P2p_Meeting Node_Threads Terminal
begin

text \<open>
  \<^bold>\<open>TurtleCoin v2.\<close> The program is a node of a blockchain network and the libraries it is made of
  (\<open>include/\<close> and \<open>src/\<close> of the repository). Its core is: the data of the chain, that is six kinds of
  transactions and the blocks, with their wire form, hashes and construction checks (\<open>include/blockchain\<close>,
  \<open>include/types.h\<close>); the fees of the network; the validator of transactions (\<open>src/core/transaction_validator\<close>);
  the storage of the chain, six LMDB databases in one environment (\<open>src/core/blockchain_storage\<close>) over a wrapper
  of LMDB (\<open>src/database\<close>); the staking engine, two more databases (\<open>src/core/staking_engine\<close>); and the
  peer-to-peer node (\<open>src/p2p\<close>) with its database of peers, over ZeroMQ sockets (\<open>src/networking\<close>) and
  thread-safe containers (\<open>include/tools\<close>). The validator asks the storage for the outputs and key images it
  needs; the storage, the staking engine and the peer database are clients of the wrapper; the node's handlers
  read packets, write the peer database and queue replies for the sockets. Beside their wire form the data types have
  a JSON form; the libraries have a notifier (publisher and subscriber) and an HTTP server, whose ports are forwarded
  by UPnP as the node's is, and the programs a console whose commands work on the node.

  \<^bold>\<open>How the code is modelled.\<close> Classes are records, enumerations and variants datatypes, one definition stands for
  one method, with the source's order of tests and early returns. Integers have their width (\<open>u8\<close> to \<open>u64\<close> are
  words, hashes and keys words of 256 bits, signatures of 512), and the rounding of \<open>float\<close> and \<open>double\<close> in the fees
  is written out (\<open>Floating\<close>). A \<open>deserialize\<close> method is a reader, a function from the bytes that are left to an
  optional value and the rest; \<open>None\<close> is its exception. A method that works on an environment returns the new
  environment and an \<open>outcome\<close>, the value or \<open>Thrown\<close>; programs of several such calls are sequenced by \<open>io_bind\<close>
  (\<open>Programs\<close>). Errors are the codes of \<open>errors.h\<close>, as values. Time, random hashes, shuffles and the identities of
  new sockets are arguments or sequences in the state.

  \<^bold>\<open>What is not in the repository is a parameter\<close>: the serializer, hash, key and proof functions of the crypto
  library (records \<open>codec\<close>, \<open>crypto\<close>, \<open>proofs\<close> in \<open>Wire\<close>), the IPv6 parser (\<open>network\<close> in \<open>Network_Types\<close>), LMDB
  and the file system (\<open>lmdb\<close>, \<open>lmdb_cursors\<close>, \<open>lmdb_cursor_writes\<close>, \<open>lmdb_files\<close>), ZeroMQ (\<open>zmq\<close> in \<open>Sockets\<close>),
  RapidJSON with the JSON helpers of the crypto library (\<open>json\<close>), the UPnP library (\<open>upnp_library\<close>), the HTTP library (\<open>http_library\<close>),
  the option parser (\<open>option_parser\<close>), the line editor (the lines that are typed). What the program relies
  on is named: \<open>codec_laws\<close> (reading gives back what was written), \<open>crypto_laws\<close>, \<open>raw_keys\<close> (a key is its 32 bytes), \<open>network_laws\<close>; \<open>lmdb_laws\<close> (a
  transaction sees and changes the entries and nothing is stored before the commit), \<open>growth_laws\<close> (a full map is
  reported only below some size), \<open>cursor_laws\<close>, \<open>open_laws\<close>, and \<open>reliable\<close> and \<open>opens_all\<close> (the library reports no
  failure) where a property says what happens then; \<open>json_laws\<close> (what a writer that was called so prints is
  parsed as the value it stands for, and the helpers find the members), \<open>link_laws\<close> and \<open>dealer_router_laws\<close> (socket pairs that
  lose nothing; the router hears of a new dealer by the empty message of \<open>ZMQ_PROBE_ROUTER\<close>),
  \<open>upnp_laws\<close> (what adding and deleting a mapping do). The laws describe databases without sorted duplicates; the
  program opens one database with them, the stakes, and never writes to it. \<open>Reference_Codec\<close>,
  \<open>Reference_Lmdb\<close>, \<open>Reference_Files\<close> and \<open>Reference_Json\<close> are instances that satisfy them, and the witnesses
  evaluate the theorems there, on the values of \<open>Samples\<close>, \<open>Network_Samples\<close> and \<open>Format_Samples\<close>.

  \<^bold>\<open>The theories\<close>, with the source they model:
  \<^item> \<open>Prelude\<close>, \<open>Programs\<close>: machine types, readers, the collections \<open>wire\<close>, \<open>wf_defs\<close> and \<open>config\<close>; programs
    over a state with rules for postconditions (\<open>io_post\<close>) and for relations they keep (\<open>io_rel\<close>).
  \<^item> \<open>Error_Codes\<close> (\<open>src/errors\<close>), \<open>Config\<close> (\<open>include/config.h\<close>), \<open>Std_Containers\<close> and \<open>Thread_Safe\<close>
    (\<open>include/tools\<close>): the containers refine maps, sets and sequences (locales \<open>dictionary\<close> and \<open>fifo\<close>);
    \<open>Priority_Queue\<close> (locale \<open>priority_queue\<close>: what comes out is sorted).
  \<^item> \<open>Wire\<close>, \<open>Base_Types\<close>, \<open>User_Transactions\<close>, \<open>User_Checks\<close>, \<open>System_Transactions\<close>, \<open>Blocks\<close>,
    \<open>Staking_Types\<close>, \<open>Network_Types\<close>: the data and its wire form. The locale \<open>wire_format\<close> is the interface of a
    serializable type, with every type as an interpretation, and gives injectivity and the reading of lists.
  \<^item> \<open>Json\<close> (the writer's calls, documents, the locales \<open>json_members\<close> and \<open>json_format\<close>), \<open>Json_Types\<close>,
    \<open>Json_Transactions\<close> (locale \<open>user_json\<close> for the six classes of user transactions), \<open>Json_Blocks\<close>,
    \<open>Json_Network\<close>: \<open>toJSON\<close> and \<open>fromJSON\<close> of every class. \<open>Hex_Forms\<close>: the constructors from raw data and
    hexadecimal strings, and \<open>to_string\<close>. \<open>Display\<close>: the stream operators.
  \<^item> \<open>Floating\<close>, \<open>Network_Fees\<close> (\<open>src/common\<close>): the fees and the wallet addresses.
  \<^item> \<open>Lmdb\<close> (environments, transactions, databases, the loop of \<open>MDB_CHECK_TXN_EXPAND\<close>), \<open>Lmdb_Atomic\<close>
    (all or nothing, whatever the loop goes through), \<open>Lmdb_Progress\<close> (the loop ends), \<open>Lmdb_Store\<close> (locale
    \<open>kv_store\<close>: a database as a key-value store), \<open>Lmdb_Cursor\<close> (cursors, \<open>count\<close>, \<open>list_keys\<close>, \<open>get_all\<close>;
    locale \<open>kv_listing\<close>), \<open>Lmdb_Open\<close> (\<open>instance\<close>, \<open>open_database\<close>), \<open>Lmdb_Reliable\<close> (every operation returns while
    the library does not fail), \<open>Lmdb_Typed\<close> (the overloads for objects and the writes of cursors; locale
    \<open>typed_store\<close>: a store of objects is a table of objects).
  \<^item> \<open>Blockchain_Storage\<close> (lookups, \<open>put_block\<close>, \<open>del_block\<close>), \<open>Storage_Queries\<close> (the constructor and the operations
    on cursors), \<open>Storage_Progress\<close> (which of them end), \<open>Stored_Layout\<close> (how \<open>put_block\<close> lays out its entries and
    what the readers make of them), \<open>Staking_Engine\<close> and \<open>Staking_Open\<close>, \<open>Transaction_Validator\<close>.
  \<^item> \<open>Utilities\<close> (\<open>src/utilities/utilities.cpp\<close>), \<open>Sockets\<close> (envelopes, server, client, monitor),
    \<open>Upnp\<close> and \<open>Pub_Sub\<close> (the port forward, the publisher and the subscriber, and the way of a message),
    \<open>Peer_Database\<close> (locale \<open>peer_directory\<close>: the laws of a table of peers and what programs over them do),
    \<open>Peer_Table\<close> (each method in full while the library does not fail), \<open>P2p_Node\<close> (the node),
    \<open>P2p_Safety\<close> (steps and runs of a node, its invariant), \<open>P2p_Limits\<close> (bounds), \<open>P2p_Service\<close> (what a peer that
    behaves gets), \<open>P2p_Meeting\<close> (two nodes and the sockets between them),
    \<open>Node_Threads\<close> (\<open>include/tools/thread_helper.h\<close>, \<open>signal_handler.h\<close>; the poller and the loops of the threads).
  \<^item> \<open>Http\<close> (\<open>src/networking/http_server\<close>, \<open>http_client\<close>: bodies, headers, the listening thread), \<open>Listeners\<close> (locale
    \<open>port_listener\<close>: the three components that have a port forwarded, and their ends), \<open>Socket_Options\<close> (the options
    of the four sockets; locale \<open>curve_ends\<close>: the dialing end expects the key of the listening end), \<open>Console\<close> (tables, the
    console, log levels), \<open>Terminal\<close> (\<open>src/utilities/colors.h\<close>, \<open>src/logger\<close>: escape sequences and the set-up of the logger), \<open>Command_Line\<close> (\<open>src/utilities/cli_helper\<close>, \<open>aes_helper\<close>), \<open>Seed_Node\<close> (accessors of the
    node and the commands of \<open>src/seed_node\<close>), \<open>Seed_Console\<close> (the program: commands at the console, start, end).

  \<^bold>\<open>What is shown.\<close> C1 to C6: a block is written as a whole or not at all, the writing ends, spent key images cannot be
  spent again, a stored block is found, transactions must come in the order of the block, there is one genesis
  transaction. C7 to C10: what the validator accepts is well constructed, has its proof of work and pays the fee, which
  is bounded, and whose rounded arithmetic agrees with integers. C11 to C17: the node along all its runs, two nodes that
  get to know each other over their sockets, the poller that gets through its queues, and the peer database as a
  table. C18 to C25: blocks and
  transactions (signing and validation agree, round trips of the wire and the JSON forms, committing keeps the hashes,
  mining is right, the checks accept what they should). C26 to C28: opening and querying the storage, and typed tables.
  C29 to C34: staking, packets in both forms, the way of a publication, the port forwards of all listeners, and that
  the seed node serves, whatever its threads do meanwhile. C35 to
  C40 prove what the code does where that is not what it is meant to do. The facts at the end concern single operations.

  \<^bold>\<open>Loops.\<close> Loops over data are structural. The retry loop of the wrapper, the walks of cursors and the search of
  \<open>get_random_outputs\<close> are \<open>partial_function (option)\<close>: \<open>None\<close> is a loop that does not end. C2 proves that the first
  ends under \<open>growth_laws\<close>; the walks end on fewer than \<open>2 ^ 64\<close> entries (the counter of the code has 64 bits); the
  search does not end, C36. \<open>txn_setup\<close> has the three attempts of the code. The inner loops of the poller are of
  the same kind, and C14 proves that they end. What a thread does is modelled round by round, with how each of its sleeps
  ended as an argument, and a run of the node (\<open>node_run\<close>) is any interleaving of such rounds with the steps of the sockets; the
  containers lock, so that each of their operations is one step, and a handler runs in one thread, the poller. A round of
  the poller takes the messages that wait when it begins. In the seed node the threads run between the lines of the
  console; a command is one step.

  \<^bold>\<open>What is not modelled\<close>: two templates of \<open>db_lmdb.h\<close> that do not compile when used (\<open>put\<close> with a typed key only, \<open>get_all\<close> of a typed key);
  the branches for Windows of the colours and of the signal handler; the duration of sleeping; the node executable, which
  is empty; the tests.
\<close>

section \<open>The blockchain database\<close>

text \<open>C1. Writing a block is atomic: when \<open>put_block\<close> returns success, exactly the entries of the block,
  its reward transaction and its transactions have been added to the contents of the databases; when it
  returns an error or throws, after however many rounds of growing the memory map, nothing has changed.
  In either case the open databases, the registration and the count of open write transactions are
  as before.\<close>

theorem put_block_is_atomic:
  assumes "lmdb_laws L ev tv" "stored ev E c" "m_open_txns E + 1 \<noteq> 0"
    "put_block C L S b txs E = Some (E', r)"
  shows "frame E E' \<and>
    (if r = Returned SUCCESS
     then \<exists>c'. stored ev E' c' \<and> apply_all (block_changes C S b txs) c = Some c'
     else stored ev E' c)"
  using put_block_atomic [OF assms] by (auto simp: atomic_result_def split: if_splits)

theorem put_block_is_atomic_witness:
  "\<exists>E' r. put_block reference reference_lmdb sample_storage sample_block [] sample_env = Some (E', r) \<and>
     frame sample_env E' \<and>
     (if r = Returned SUCCESS
      then \<exists>c'. stored fst E' c' \<and>
             apply_all (block_changes reference sample_storage sample_block []) (\<lambda>_ _. None) = Some c'
      else stored fst E' (\<lambda>_ _. None))"
proof -
  obtain E' r where "put_block reference reference_lmdb sample_storage sample_block [] sample_env = Some (E', r)"
    using put_block_returns [OF reference_lmdb_laws reference_growth_laws sample_env_grows
        sample_env_facts(3,2)] by fastforce
  then show ?thesis
    using put_block_is_atomic [OF reference_lmdb_laws sample_env_facts(1,2)] by blast
qed

text \<open>C2. Writing a block comes to an end: when the library reports a full map (or transaction) only while
  the map is smaller than some bound, the loop that grows the map and starts over returns.\<close>

theorem put_block_terminates:
  assumes "lmdb_laws L ev tv" "growth_laws L tm bound" "grows E" "m_env E \<noteq> None" "m_open_txns E + 1 \<noteq> 0"
  shows "\<exists>E' r. put_block C L S b txs E = Some (E', r)"
  using put_block_returns [OF assms] by fastforce

theorem put_block_terminates_witness:
  "\<exists>E' r. put_block reference reference_lmdb sample_storage sample_block [] sample_env = Some (E', r)"
  by (rule put_block_terminates [OF reference_lmdb_laws reference_growth_laws sample_env_grows
        sample_env_facts(3,2)])

text \<open>C3. Double spends are refused across the components: once \<open>put_block\<close> has stored a block, no committed
  transaction and no uncommitted transaction that spends a key image of one of its transactions
  is accepted by the validator.\<close>

theorem stored_key_images_block_respending:
  assumes "lmdb_laws L ev tv" "stored ev E c" "m_open_txns E + 1 \<noteq> 0" "storage_open S E"
    "put_block C L S b txs E = Some (E', Returned SUCCESS)"
    "tx \<in> set txs" "ki \<in> set (spent_key_images tx)"
  shows "(ki \<in> set (spent_key_images tx') \<longrightarrow>
            fst (validate_committed C L S tx' E') \<noteq> Returned SUCCESS) \<and>
         (ki \<in> set (key_images (uncommitted_body utx)) \<longrightarrow>
            fst (validate_uncommitted C L S index utx E') \<noteq> Returned SUCCESS)"
proof -
  from put_block_atomic [OF assms(1-3,5)] obtain c' where c': "frame E E'" "stored ev E' c'"
      "apply_all (block_changes C S b txs) c = Some c'"
    by (auto simp: atomic_result_def)
  have S: "storage_open S E'" using storage_open_frame [OF c'(1)] assms(4) by simp
  have "tx \<in> set (reward_transaction (reward_tx b) # txs)" using assms(6) by simp
  then have "c' (m_dbi (m_key_images S)) (key_serialize C ki) \<noteq> None"
    using block_changes_key_images [OF assms(4) c'(3) _ assms(7)] by simp
  then show ?thesis
    using validate_committed_double_spend [OF assms(1) c'(2) S]
      validate_uncommitted_double_spend [OF assms(1) c'(2) S] by (metis surjective_pairing)
qed

theorem stored_key_images_block_respending_witness:
  "\<exists>E'. put_block reference reference_lmdb sample_storage sample_spending_block
       [Normal sample_committed_normal] sample_big_env = Some (E', Returned SUCCESS) \<and>
     fst (validate_committed reference reference_lmdb sample_storage (Normal sample_committed_normal) E') \<noteq>
       Returned SUCCESS \<and>
     fst (validate_uncommitted reference reference_lmdb sample_storage 5 (UncommittedNormal sample_normal) E') \<noteq>
       Returned SUCCESS"
proof -
  obtain E' where E': "put_block reference reference_lmdb sample_storage sample_spending_block
       [Normal sample_committed_normal] sample_big_env = Some (E', Returned SUCCESS)"
    using sample_spending_put_block by blast
  have "13 \<in> set (spent_key_images (Normal sample_committed_normal))"
    "13 \<in> set (key_images (uncommitted_body (UncommittedNormal sample_normal)))"
    by (simp_all add: sample_defs)
  then show ?thesis
    using E' stored_key_images_block_respending [OF reference_lmdb_laws sample_big_env_facts(1,2)
        sample_big_storage_open E', of "Normal sample_committed_normal" 13]
    by auto
qed

text \<open>C4. A block without transactions that was stored is found again, by its hash and by its index: what the
  lookups return is the block that was written, unless the library throws.\<close>

theorem stored_block_is_found:
  assumes "crypto_laws C" "lmdb_laws L ev tv" "stored ev E c" "m_open_txns E + 1 \<noteq> 0" "storage_open S E"
    "wf_block C b" "transactions b = []"
    "put_block C L S b [] E = Some (E', Returned SUCCESS)"
  shows "fst (get_block C L S (block_hash C b) E') \<in> {Thrown, Returned (SUCCESS, Some (b, []))} \<and>
         fst (get_block_at C L S (block_index b) E') \<in> {Thrown, Returned (SUCCESS, Some (b, []))}"
proof -
  from put_block_atomic [OF assms(2-4,8)] obtain c' where c': "frame E E'" "stored ev E' c'"
      "apply_all (block_changes C S b []) c = Some c'"
    by (auto simp: atomic_result_def)
  have S: "storage_open S E'" using storage_open_frame [OF c'(1)] assms(5) by simp
  note B = block_changes_blocks [OF assms(5) c'(3)]
  show ?thesis
    using get_block_empty [OF assms(1,2) c'(2) S assms(6,7) B(1)]
      get_block_at_empty [OF assms(1,2) c'(2) S assms(6,7) B(1,2)]
    by (metis insertCI surjective_pairing)
qed

theorem stored_block_is_found_witness:
  "\<exists>E'. put_block reference reference_lmdb sample_storage sample_block [] sample_big_env =
       Some (E', Returned SUCCESS) \<and>
     fst (get_block reference reference_lmdb sample_storage (block_hash reference sample_block) E')
       \<in> {Thrown, Returned (SUCCESS, Some (sample_block, []))}"
proof -
  have "\<exists>E'. put_block reference reference_lmdb sample_storage sample_block [] sample_big_env =
       Some (E', Returned SUCCESS)"
    by (rule sample_put_block) (simp_all add: sample_block_def)
  then show ?thesis
    using stored_block_is_found [OF reference_crypto_laws reference_lmdb_laws sample_big_env_facts(1,2)
        sample_big_storage_open sample_wf(4)]
    by (auto simp: sample_block_def)
qed

text \<open>C5. \<open>put_block\<close> accepts only the transactions the block names, in its order: where the hash of the hashes
  does not collide on the two lists, success means that the hashes of the transactions given are the
  transactions of the block.\<close>

theorem put_block_checks_order:
  assumes "put_block C L S b txs E = Some (E', Returned SUCCESS)"
    "inj_on (sha3_hashes C) {transactions b, map (transaction_hash C) txs}"
  shows "map (transaction_hash C) txs = transactions b"
  using assms by (auto simp: put_block_def dest: inj_onD split: if_splits)

theorem put_block_checks_order_witness:
  "\<exists>E'. put_block reference reference_lmdb sample_storage sample_spending_block
       [Normal sample_committed_normal] sample_big_env = Some (E', Returned SUCCESS) \<and>
     map (transaction_hash reference) [Normal sample_committed_normal] = transactions sample_spending_block"
proof -
  have "inj_on (sha3_hashes reference) {transactions sample_spending_block,
      map (transaction_hash reference) [Normal sample_committed_normal]}"
    by (simp add: sample_spending_block_def)
  then show ?thesis using sample_spending_put_block put_block_checks_order by blast
qed

text \<open>C6. The chain has one genesis transaction: once a block with index 0 is stored, validating a genesis
  transaction never succeeds again.\<close>

theorem genesis_only_once:
  assumes "lmdb_laws L ev tv" "stored ev E c" "m_open_txns E + 1 \<noteq> 0" "storage_open S E"
    "put_block C L S b txs E = Some (E', Returned SUCCESS)" "block_index b = 0"
  shows "fst (validate_committed C L S (Genesis tx) E') \<noteq> Returned SUCCESS"
proof -
  from put_block_atomic [OF assms(1-3,5)] obtain c' where c': "frame E E'" "stored ev E' c'"
      "apply_all (block_changes C S b txs) c = Some c'"
    by (auto simp: atomic_result_def)
  have S: "storage_open S E'" using storage_open_frame [OF c'(1)] assms(4) by simp
  have "c' (m_dbi (m_block_indexes S)) (w_uint64 C 0) \<noteq> None"
    using block_changes_blocks(2) [OF assms(4) c'(3)] assms(6) by simp
  then show ?thesis
    using validate_genesis_twice [OF assms(1) c'(2) S] by (metis surjective_pairing)
qed

theorem genesis_only_once_witness:
  "\<exists>E'. put_block reference reference_lmdb sample_storage sample_spending_block
       [Normal sample_committed_normal] sample_big_env = Some (E', Returned SUCCESS) \<and>
     fst (validate_committed reference reference_lmdb sample_storage (Genesis sample_genesis) E') \<noteq>
       Returned SUCCESS"
proof -
  have "block_index sample_spending_block = 0" by (simp add: sample_spending_block_def sample_block_def)
  then show ?thesis
    using sample_spending_put_block genesis_only_once [OF reference_lmdb_laws sample_big_env_facts(1,2)
        sample_big_storage_open] by blast
qed

section \<open>The validator and the fees\<close>

text \<open>C7. What \<open>check\<close> accepts of a user transaction, be it normal, a stake or a recalled stake, committed or not, has
  a well constructed body, the minimum of work, and pays at least the fee that its size and its work require, which
  is at least the network minimum; an uncommitted one has well constructed proofs besides.\<close>

theorem accepted_transaction_pays:
  assumes "crypto_laws C" "crypto_laws P"
  shows "(check_committed C (Normal n) = Returned SUCCESS \<longrightarrow> good_body C (tx_prefix n) (tx_body n) \<and>
      well_paid (leading_zeros C (committed_normal_pow_hash C n)) (committed_normal_size C n) (fee (tx_body n))) \<and>
    (check_committed C (Stake s) = Returned SUCCESS \<longrightarrow> good_body C (tx_prefix s) (tx_body s) \<and>
      well_paid (leading_zeros C (committed_stake_pow_hash C s)) (committed_stake_size C s) (fee (tx_body s))) \<and>
    (check_committed C (RecallStake r) = Returned SUCCESS \<longrightarrow> good_body C (tx_prefix r) (tx_body r) \<and>
      well_paid (leading_zeros C (committed_recall_pow_hash C r)) (committed_recall_size C r) (fee (tx_body r))) \<and>
    (check_uncommitted P u = Returned SUCCESS \<longrightarrow>
      (case u of UncommittedNormal t \<Rightarrow> good_body P (tx_prefix t) (tx_body t)
        | UncommittedStake t \<Rightarrow> good_body P (tx_prefix t) (tx_body t)
        | UncommittedRecall t \<Rightarrow> good_body P (tx_prefix t) (tx_body t)) \<and>
      good_proofs P (uncommitted_body u) (uncommitted_suffix u) \<and>
      well_paid (leading_zeros P (uncommitted_pow_hash P u)) (uncommitted_size P u) (fee (uncommitted_body u)))"
proof (intro conjI)
  show "check_committed C (Normal n) = Returned SUCCESS \<longrightarrow> good_body C (tx_prefix n) (tx_body n) \<and>
      well_paid (leading_zeros C (committed_normal_pow_hash C n)) (committed_normal_size C n) (fee (tx_body n))"
    by (simp add: check_accepts check_pow_and_fee_iff committed_normal_check_construction_def check_success assms)
  show "check_committed C (Stake s) = Returned SUCCESS \<longrightarrow> good_body C (tx_prefix s) (tx_body s) \<and>
      well_paid (leading_zeros C (committed_stake_pow_hash C s)) (committed_stake_size C s) (fee (tx_body s))"
    by (simp add: check_accepts check_pow_and_fee_iff committed_stake_check_construction_def check_success assms)
  show "check_committed C (RecallStake r) = Returned SUCCESS \<longrightarrow> good_body C (tx_prefix r) (tx_body r) \<and>
      well_paid (leading_zeros C (committed_recall_pow_hash C r)) (committed_recall_size C r) (fee (tx_body r))"
    by (simp add: check_accepts check_pow_and_fee_iff committed_recall_check_construction_def check_success assms)
  show "check_uncommitted P u = Returned SUCCESS \<longrightarrow>
      (case u of UncommittedNormal t \<Rightarrow> good_body P (tx_prefix t) (tx_body t)
        | UncommittedStake t \<Rightarrow> good_body P (tx_prefix t) (tx_body t)
        | UncommittedRecall t \<Rightarrow> good_body P (tx_prefix t) (tx_body t)) \<and>
      good_proofs P (uncommitted_body u) (uncommitted_suffix u) \<and>
      well_paid (leading_zeros P (uncommitted_pow_hash P u)) (uncommitted_size P u) (fee (uncommitted_body u))"
    by (cases u) (simp_all add: check_accepts uncommitted_normal_check_construction_def
        uncommitted_stake_check_construction_def uncommitted_recall_check_construction_def check_success assms)
qed

theorem accepted_transaction_pays_witness:
  "check_committed sample_crypto (Normal sample_committed_normal) = Returned SUCCESS \<and>
   well_paid (leading_zeros sample_crypto (committed_normal_pow_hash sample_crypto sample_committed_normal))
     (committed_normal_size sample_crypto sample_committed_normal) (fee (tx_body sample_committed_normal))"
  using accepted_transaction_pays [OF sample_crypto_laws sample_crypto_laws, of sample_committed_normal] sample_check_committed by blast

text \<open>C8. What \<open>validate\<close> accepts of an uncommitted transaction is sound: the balance and the range proof
  check, no key image is stored yet, no ring output is refused by the lock test, and every key image has
  a ring signature that verifies over the outputs that the database returns for the ring.\<close>

theorem validated_transaction_is_sound:
  assumes "crypto_laws C" "lmdb_laws L ev tv" "stored ev E c" "storage_open S E"
    "validate_uncommitted C L S index tx E = (Returned SUCCESS, E')"
  shows "good_proofs C (uncommitted_body tx) (uncommitted_suffix tx) \<and>
    length (signatures (uncommitted_suffix tx)) = length (key_images (uncommitted_body tx)) \<and>
    range_proof_verify C (range_proof (uncommitted_suffix tx)) (map commitment (outputs (uncommitted_body tx))) \<and>
    distinct (key_images (uncommitted_body tx)) \<and>
    (\<forall>ki \<in> set (key_images (uncommitted_body tx)). c (m_dbi (m_key_images S)) (key_serialize C ki) = None) \<and>
    (\<exists>E1 inputs. stored ev E1 c \<and>
       get_transaction_outputs C L S (ring_participants (uncommitted_suffix tx)) E1 =
         (Returned (SUCCESS, Some inputs), E') \<and>
       \<not> ring_locked index inputs \<and> rings_verify C tx inputs)"
  using validate_uncommitted_success [OF assms(2-5)] check_uncommitted_success [OF assms(1)]
  by (smt (verit) good_body_def good_proofs_def)

theorem validated_transaction_is_sound_witness:
  "\<exists>E'. validate_uncommitted sample_crypto reference_lmdb sample_storage 5
      (UncommittedNormal sample_ringless) sample_big_env = (Returned SUCCESS, E') \<and>
     good_proofs sample_crypto (tx_body sample_ringless) (tx_suffix sample_ringless) \<and>
     distinct (key_images (tx_body sample_ringless))"
proof -
  obtain E' where v: "validate_uncommitted sample_crypto reference_lmdb sample_storage 5
      (UncommittedNormal sample_ringless) sample_big_env = (Returned SUCCESS, E')"
    using sample_validated by blast
  show ?thesis
    using v validated_transaction_is_sound [OF sample_crypto_laws reference_lmdb_laws sample_big_env_facts(1)
        sample_big_storage_open v] by auto
qed

text \<open>C9. The fee of a transaction lies between the network minimum and the base fee of its size, and the
  discount for work never exceeds 31 percent of the base fee, rounding in single precision included:
  the subtraction does not wrap around.\<close>

theorem fee_bounds:
  assumes "zeros \<le> 256"
  shows "\<exists>f. calculate_transaction_fee s zeros = Some f \<and>
    MINIMUM_FEE \<le> f \<and> f \<le> calculate_base_transaction_fee s \<and>
    69 * unat (calculate_base_transaction_fee s) \<le> 100 * unat f"
proof -
  obtain d where d: "calculate_transaction_discount zeros = Some d" "0 \<le> d"
      "d \<le> 3 / 10 * (1 + 1 / 2 ^ 24)" by (rule discount_bounds [OF assms])
  let ?b = "unat (calculate_base_transaction_fee s)"
  obtain f where f: "calculate_transaction_fee s zeros = Some f"
      "int (unat f) = max (int ?b - fee_discount ?b d) (int (unat MINIMUM_FEE))"
    by (rule fee_eq [OF assms d(1)])
  note D = fee_discount_bounds [OF d(2,3), of ?b]
  have m: "unat MINIMUM_FEE = 1" by (simp add: config)
  have "unat MINIMUM_FEE \<le> unat f" "unat f \<le> ?b" "69 * ?b \<le> 100 * unat f"
    using f(2) D base_fee_pos [of s] m by linarith+
  then show ?thesis using f(1) by (auto simp: word_le_nat_alt)
qed

theorem fee_bounds_witness:
  "\<exists>f. calculate_transaction_fee 1000 16 = Some f \<and> MINIMUM_FEE \<le> f \<and>
     f \<le> calculate_base_transaction_fee 1000"
  using fee_bounds [of 16 1000] by auto

text \<open>C10. The base fee that is computed in double precision is that of integer arithmetic for every size up to
  2 ^ 53 bytes: one unit, and one more for every chunk of 32 bytes that is started beyond 320 bytes.\<close>

theorem base_fee_is_exact:
  assumes "unat s \<le> 2 ^ 53"
  shows "unat (calculate_base_transaction_fee s) = 1 + (unat s - 320 + 31) div 32"
proof (cases "unat s \<le> 320")
  case True
  then show ?thesis by (simp add: base_fee_unat)
next
  case False
  have "base_chunks (unat s - 320) = int ((unat s - 320 + 31) div 32)"
    by (rule base_chunks_exact) (use assms in simp)
  then show ?thesis using False by (simp only: base_fee_unat if_False nat_int)
qed

theorem base_fee_is_exact_witness: "unat (calculate_base_transaction_fee 1000) = 23"
  using base_fee_is_exact [of 1000] by simp

section \<open>The peer-to-peer node\<close>

text \<open>C11. Whatever arrives and in whatever order the threads of a node run: its peer id does not change, a completed
  handshake stays completed, and two facts are kept. Every message in the queue of the application is a data packet
  of our network, of an accepted version, from a sender that completed a handshake and is not ourselves, and none is
  there in seed mode; and the peer database has a table of well-formed peers without our own id.\<close>

theorem node_keeps_its_invariant:
  assumes "node_laws C L ev tv cv mix" "node_run C L mix Z dial N outs N'"
    "\<forall>m \<in> set (node_messages N). admissible N m"
    "\<exists>t. peerdb_holds (C, L, ev, tv, cv, node_peer_db N) (node_env N) t \<and> t (m_peer_id (node_peer_db N)) = None"
  shows "m_peer_id (node_peer_db N') = m_peer_id (node_peer_db N) \<and> set (node_completed N) \<subseteq> set (node_completed N') \<and>
    (\<forall>m \<in> set (node_messages N').
       \<not> node_seed_mode N' \<and> data_network_id (msg_packet m) = node_network_id N' \<and>
       msg_from m \<in> set (node_completed N') \<and> msg_from m \<noteq> zs_identity (node_server N') \<and>
       P2P_MINIMUM_VERSION \<le> packet_version (msg_packet m)) \<and>
    (\<exists>t. peerdb_holds (C, L, ev, tv, cv, node_peer_db N') (node_env N') t \<and> t (m_peer_id (node_peer_db N')) = None)"
proof -
  have "node_ok C L ev tv cv N" using assms(3,4) by (simp add: node_ok_def db_ok_def pdb.other_peers_def)
  then have "node_ok C L ev tv cv N'" using node_run_safe [OF assms(1,2)] by (simp add: step_safe_def)
  then have "\<forall>m \<in> set (node_messages N'). admissible N' m"
    "\<exists>t. peerdb_holds (C, L, ev, tv, cv, node_peer_db N') (node_env N') t \<and> t (m_peer_id (node_peer_db N')) = None"
    by (simp_all add: node_ok_def db_ok_def pdb.other_peers_def del: peerdb_holds.simps)
  then show ?thesis using node_run_safe [OF assms(1,2)] unfolding step_safe_def admissible_def by metis
qed

theorem node_keeps_its_invariant_witness:
  "\<exists>outs N'. node_run reference_network reference_files sample_mix sample_zmq sample_dial sample_node outs N' \<and>
     node_completed N' \<noteq> [] \<and>
     (\<exists>t. peerdb_holds (reference_network, reference_files, ref_view, ref_view, ref_cursor_view, node_peer_db N')
            (node_env N') t \<and> t 99 = None)"
proof -
  obtain N' reply where p: "poll_server reference_network reference_files sample_mix sample_node = Some (N', Returned ())"
    "set (node_completed N') = {55}"
    "zs_outgoing (node_server N') = [envelope_to reference_network 55 (handshake_serialize reference_network reply)]"
    by (rule sample_polled)
  have own: "m_peer_id (node_peer_db sample_node) = 99" "node_messages sample_node = []"
    by (simp_all add: sample_node_def sample_peerdb_def)
  have run: "node_run reference_network reference_files sample_mix sample_zmq sample_dial sample_node
      ([] @ [envelope_to reference_network 55 (handshake_serialize reference_network reply)]) N'"
    by (rule node_run.step [OF node_run.stop node_step.server_message [OF p(1)]])
      (simp add: p(3), simp add: sample_node_def sample_server_def server_make_def)
  have "\<exists>t. peerdb_holds (reference_network, reference_files, ref_view, ref_view, ref_cursor_view, node_peer_db sample_node)
      (node_env sample_node) t \<and> t (m_peer_id (node_peer_db sample_node)) = None"
    using sample_node_has unfolding node_has_def by blast
  then show ?thesis
    using run p(2) node_keeps_its_invariant [OF sample_node_laws run] own by fastforce
qed

text \<open>C12. A peer gets at most one handshake reply: along every run of a node, among all messages queued for the
  server to send there is at most one handshake for each identity, and none for an identity that had completed
  its handshake before. The application may reply with envelopes of its own that are not handshakes.\<close>

theorem one_handshake_reply:
  assumes "node_laws C L ev tv cv mix" "node_run C L mix Z dial N outs N'"
  shows "length (filter (handshake_for C h) outs) \<le> (if h \<in> set (node_completed N) then 0 else 1) \<and>
    (filter (handshake_for C h) outs \<noteq> [] \<longrightarrow> h \<in> set (node_completed N'))"
proof -
  have "length (filter (handshake_for C h) outs) \<le> of_bool (h \<in> set (node_completed N') \<and> h \<notin> set (node_completed N))"
    using node_run_safe [OF assms] unfolding step_safe_def handshakes_def newly_completed_def by blast
  then show ?thesis by (cases "h \<in> set (node_completed N') \<and> h \<notin> set (node_completed N)") auto
qed

theorem one_handshake_reply_witness:
  "\<exists>outs N'. node_run reference_network reference_files sample_mix sample_zmq sample_dial sample_node outs N' \<and>
     length (filter (handshake_for reference_network 55) outs) = 1"
proof -
  obtain N' reply where p: "poll_server reference_network reference_files sample_mix sample_node = Some (N', Returned ())"
    "set (node_completed N') = {55}"
    "zs_outgoing (node_server N') = [envelope_to reference_network 55 (handshake_serialize reference_network reply)]"
    "packet_type reply = packet_type_number NETWORK_HANDSHAKE"
    by (rule sample_polled)
  let ?e = "envelope_to reference_network 55 (handshake_serialize reference_network reply)"
  have run: "node_run reference_network reference_files sample_mix sample_zmq sample_dial sample_node ([] @ [?e]) N'"
    by (rule node_run.step [OF node_run.stop node_step.server_message [OF p(1)]])
      (simp add: p(3), simp add: sample_node_def sample_server_def server_make_def)
  have "handshake_for reference_network 55 ?e"
    using p(4) network_lawsD(9) [OF reference_network_laws]
    by (simp add: handshake_for_def envelope_to_def envelope_def handshake_serialize_def peers_packet_serialize_def)
  then show ?thesis
    using run one_handshake_reply [OF sample_node_laws run, of 55] by fastforce
qed



text \<open>C14. The poller gets through its queues. While the library has no failure to report, and the peers that the
  waiting messages can bring still fit into the count of the database, one round of the poller ends, whatever the
  messages say: no message is left in the queue of the server or of a client, the database is a table of peers again,
  and the round is a run of the node, so that all that holds of runs holds of it. What arrives during the round is
  left to the next one.\<close>

theorem poller_empties_its_queues:
  assumes laws: "node_laws C L ev tv cv mix" and N: "node_has C L ev tv cv N t" "card (dom t) + waiting_cost C N < 2 ^ 64"
    and clients: "sorted_map (key_less C) (node_clients N)"
  shows "\<exists>N' t' outs. poller_round C L mix N = Some (N', Returned ()) \<and> node_has C L ev tv cv N' t' \<and>
    zs_incoming (node_server N') = [] \<and> (\<forall>i. client_inbox N' i = []) \<and> node_run C L mix Z dial N outs N'"
proof -
  have "room C L ev tv cv (0 + waiting_cost C N) N" using N by (auto simp: room_def)
  from poller_round_ends [OF laws this clients, of Z dial] show ?thesis unfolding room_def by blast
qed

theorem poller_empties_its_queues_witness:
  "\<exists>N' t' outs. poller_round reference_network reference_files sample_mix sample_node = Some (N', Returned ()) \<and>
     node_has reference_network reference_files ref_view ref_view ref_cursor_view N' t' \<and>
     zs_incoming (node_server N') = [] \<and>
     node_run reference_network reference_files sample_mix sample_zmq sample_dial sample_node outs N'"
proof -
  have "wf_peers_packet reference_network sample_packet"
    by (simp add: wf_peers_packet_def fits_u64_def sample_packet_def packet_handshake_def)
  then have "handshake_deserialize reference_network (handshake_serialize reference_network sample_packet) =
      Some (sample_packet, [])" by (rule handshake.read_back_all [OF reference_network_laws])
  then have "message_cost reference_network sample_message = 1"
    using sample_node_guards(5)
    by (simp add: message_cost_def handshake_deserialize_def sample_message_def envelope_routed_def envelope_def)
  then have cost: "card (dom Map.empty) + waiting_cost reference_network sample_node < 2 ^ 64"
    by (simp add: waiting_cost_def) (simp add: sample_node_def sample_server_def)
  have "sorted_map (key_less reference_network) (node_clients sample_node)"
    by (simp add: sample_node_def sorted_map_def)
  from poller_empties_its_queues [where mix = sample_mix, OF sample_node_laws sample_node_has cost this,
      of sample_zmq sample_dial]
  show ?thesis by blast
qed

text \<open>C15. The peer database implements a table of peers by their ids. While the library does not fail, \<open>add\<close>
  refuses our own id and entries last seen before the pruning time and otherwise records the entry (without the
  port inside its address), \<open>del\<close> removes an entry or reports that there is none, \<open>get\<close> returns what the table
  has, and \<open>touch\<close> sets the time of an entry that is there; nothing else of the table changes.\<close>

theorem peer_database_is_a_table:
  assumes "peerdb_reliable (C, L, ev, tv, cv, P)" "peerdb_holds (C, L, ev, tv, cv, P) E t" "storable C q"
  shows "(\<exists>E'. peerdb_add C L P now q E =
        Some (E', Returned (if peer_id q = m_peer_id P \<or> last_seen q < prune_time now then PEERLIST_ADD_FAILURE else SUCCESS)) \<and>
      peerdb_holds (C, L, ev, tv, cv, P) E'
        (if peer_id q = m_peer_id P \<or> last_seen q < prune_time now then t else t(peer_id q \<mapsto> drop_port q))) \<and>
    (\<exists>E'. peerdb_del C L P i E = Some (E', Returned (if t i = None then LMDB_NOTFOUND else SUCCESS)) \<and>
      peerdb_holds (C, L, ev, tv, cv, P) E' (t(i := None))) \<and>
    (\<exists>E'. peerdb_get C L P i E =
        Some (E', Returned (case t i of None \<Rightarrow> (LMDB_NOTFOUND, None) | Some q \<Rightarrow> (SUCCESS, Some q))) \<and>
      peerdb_holds (C, L, ev, tv, cv, P) E' t) \<and>
    (i \<noteq> m_peer_id P \<and> prune_time now \<le> seen \<longrightarrow>
      (\<exists>E'. peerdb_touch C L P seen now i E = Some (E', Returned (if t i = None then LMDB_NOTFOUND else SUCCESS)) \<and>
        peerdb_holds (C, L, ev, tv, cv, P) E' (t(i := map_option (\<lambda>q. q\<lparr>last_seen := seen\<rparr>) (t i)))))"
proof -
  let ?p = "(C, L, ev, tv, cv, P)"
  have "\<exists>E'. peerdb_add C L P now q E =
        Some (E', Returned (if peer_id q = m_peer_id P \<or> last_seen q < prune_time now then PEERLIST_ADD_FAILURE else SUCCESS)) \<and>
      peerdb_holds ?p E' (if peer_id q = m_peer_id P \<or> last_seen q < prune_time now then t else t(peer_id q \<mapsto> drop_port q))"
    using add_refused [of q P now C L E] add_succeeds [OF assms, of now] assms(2)
    by (cases "peer_id q = m_peer_id P \<or> last_seen q < prune_time now") (auto simp: not_less simp del: peerdb_holds.simps)
  moreover have "\<exists>E'. peerdb_del C L P i E = Some (E', Returned (if t i = None then LMDB_NOTFOUND else SUCCESS)) \<and>
      peerdb_holds ?p E' (t(i := None))" by (rule del_succeeds [OF assms(1,2)])
  moreover have "\<exists>E'. peerdb_get C L P i E =
        Some (E', Returned (case t i of None \<Rightarrow> (LMDB_NOTFOUND, None) | Some q \<Rightarrow> (SUCCESS, Some q))) \<and>
      peerdb_holds ?p E' t" by (rule get_succeeds [OF assms(1,2)])
  moreover have "i \<noteq> m_peer_id P \<and> prune_time now \<le> seen \<longrightarrow>
      (\<exists>E'. peerdb_touch C L P seen now i E = Some (E', Returned (if t i = None then LMDB_NOTFOUND else SUCCESS)) \<and>
        peerdb_holds ?p E' (t(i := map_option (\<lambda>q. q\<lparr>last_seen := seen\<rparr>) (t i))))"
  proof (cases "t i")
    case None
    then have "t(i := None) = t" by auto
    then show ?thesis using touch_unknown [OF assms(1,2) None, of seen now] None by (simp del: peerdb_holds.simps)
  next
    case (Some x)
    then show ?thesis
      using touch_succeeds [OF assms(1,2) Some, of now seen] by (auto simp del: peerdb_holds.simps)
  qed
  ultimately show ?thesis by blast
qed

theorem peer_database_is_a_table_witness:
  "\<exists>E' E''. peerdb_add reference_network reference_files sample_peerdb sample_now sample_peer sample_peer_env =
       Some (E', Returned SUCCESS) \<and> peerdb_holds sample_peers E' [41 \<mapsto> sample_peer] \<and>
     peerdb_get reference_network reference_files sample_peerdb 41 E' = Some (E'', Returned (SUCCESS, Some sample_peer))"
proof -
  note T = peer_database_is_a_table [OF sample_peers_reliable _ sample_peer_facts(1)]
  have g: "\<not> (peer_id sample_peer = m_peer_id sample_peerdb \<or> last_seen sample_peer < prune_time sample_now)"
    using sample_peer_facts by (simp add: sample_peerdb_def not_less)
  obtain E' where a: "peerdb_add reference_network reference_files sample_peerdb sample_now sample_peer sample_peer_env =
      Some (E', Returned SUCCESS)" "peerdb_holds sample_peers E' [41 \<mapsto> sample_peer]"
    using T [OF sample_peers_hold, THEN conjunct1, of sample_now] sample_peer_facts(2,3) unfolding if_not_P [OF g] by auto
  then show ?thesis using T [OF a(2), THEN conjunct2, THEN conjunct2, THEN conjunct1, of 41] by (auto simp del: peerdb_holds.simps)
qed

text \<open>C16. While the library does not fail, \<open>prune\<close> ends and leaves exactly the entries that were seen since the
  pruning time, whatever the order in which the shuffle presents them.\<close>

theorem pruning_is_exact:
  assumes "peerdb_reliable (C, L, ev, tv, cv, P)" "peerdb_holds (C, L, ev, tv, cv, P) E t"
    "card (dom t) < 2 ^ 64" "\<And>ps. mset (mix ps) = mset ps"
  shows "\<exists>E'. peerdb_prune C L P mix now E = Some (E', Returned ()) \<and>
    peerdb_holds (C, L, ev, tv, cv, P) E'
      (\<lambda>i. case t i of None \<Rightarrow> None | Some q \<Rightarrow> if last_seen q < now - PEER_PRUNE_TIME then None else Some q)"
proof -
  have "fresh_peers now t =
      (\<lambda>i. case t i of None \<Rightarrow> None | Some q \<Rightarrow> if last_seen q < now - PEER_PRUNE_TIME then None else Some q)"
    unfolding fresh_peers_def prune_time_def ..
  then show ?thesis using prune_succeeds [OF assms, of now] by simp
qed

theorem pruning_is_exact_witness:
  "\<exists>E E'. peerdb_holds sample_peers E [41 \<mapsto> sample_peer] \<and>
     peerdb_prune reference_network reference_files sample_peerdb rev (sample_now + 10 * PEER_PRUNE_TIME) E =
       Some (E', Returned ()) \<and> peerdb_holds sample_peers E' Map.empty"
proof -
  let ?now = "sample_now + 10 * PEER_PRUNE_TIME"
  obtain E where E: "peerdb_holds sample_peers E [41 \<mapsto> sample_peer]" using sample_peer_added by blast
  have stale: "last_seen sample_peer < ?now - PEER_PRUNE_TIME"
    by (simp add: sample_peer_facts sample_now_def config)
  have t: "(\<lambda>i. case [41 \<mapsto> sample_peer] i of None \<Rightarrow> None | Some q \<Rightarrow>
      if last_seen q < ?now - PEER_PRUNE_TIME then None else Some q) = Map.empty"
    using stale by (auto simp: fun_eq_iff)
  show ?thesis
    using E pruning_is_exact [OF sample_peers_reliable E, of rev ?now] unfolding t by auto
qed

text \<open>C17. The identity of a node is made once. On a registered environment with readable entries and a library whose calls
  succeed the constructor of the peer database returns, and every later construction returns as well, with the same peer id and the same database,
  however often it is constructed again and whatever random hashes are drawn.\<close>

theorem peer_id_is_made_once:
  assumes "network_laws C" "\<And>i. key_serialize C i \<noteq> []" "lmdb_laws L ev tv" "open_laws L tv" "reliable L tv"
    "opens_all L" "constructible C ev E"
  shows "\<exists>E1 P. peerdb_make C L i E = Some (E1, Returned P) \<and> constructible C ev E1 \<and>
    (\<forall>is. \<exists>E'. peerdb_makes C L is E1 = Some (E', Returned (replicate (length is) P)) \<and> constructible C ev E')"
  using peerdb_make_again [OF assms, of i] peerdb_makes_same [OF assms(1-6)] assms(7) by blast

theorem peer_id_is_made_once_witness:
  "\<exists>E1 P E2. peerdb_make reference_network reference_files 5 (files_env [] []) = Some (E1, Returned P) \<and>
     peerdb_makes reference_network reference_files [6, 7] E1 = Some (E2, Returned [P, P])"
proof -
  have env: "stored ref_view (files_env [] []) (ref_view [])" "m_open_txns (files_env [] []) + 1 \<noteq> 0"
    "databases_ok reference_network (files_env [] [])" "m_registered (files_env [] [])"
    using files_env_stored [of "[]" "[]"] by (simp_all add: databases_ok_def files_env_def sorted_map_def tsm_at_def)
  have o: "opens_all reference_files" by (simp add: opens_all_def reference_files_def)
  have "ids_readable reference_network (ref_view [])" by (simp add: ids_readable_def ref_view_def)
  then have c: "constructible reference_network ref_view (files_env [] [])" using env by (auto simp: constructible_def)
  obtain E1 P where P: "peerdb_make reference_network reference_files 5 (files_env [] []) = Some (E1, Returned P)"
      "\<forall>is. \<exists>E'. peerdb_makes reference_network reference_files is E1 = Some (E', Returned (replicate (length is) P))"
    using peer_id_is_made_once [OF reference_network_laws sample_key_nonempty reference_files_laws reference_open_laws
        reference_reliable o c, of 5] by blast
  from spec [OF P(2), of "[6, 7]"] show ?thesis using P(1) by (auto simp: numeral_2_eq_2)
qed

section \<open>Blocks\<close>

text \<open>C18. What \<open>validate_construction\<close> accepts: exactly the blocks with a reward output whose producer
  signature verifies over the producer digest, which have validators, not the producer among them,
  each of whose signatures verifies over the validator digest. No block without producer is accepted.\<close>

theorem validated_block_is_signed:
  "validate_construction C b = Some True \<longleftrightarrow>
     reward_has_outputs (reward_tx b) \<and> has_producer C b \<and>
     producer_public_key b \<notin> fst ` set (validator_signatures b) \<and>
     check_signature C (sha3 C (block_serialize_producer C b)) (producer_public_key b) (producer_signature b) \<and>
     validator_signatures b \<noteq> [] \<and>
     (\<exists>d. message_digest C BLOCK_DIGEST_VALIDATOR b = Some d \<and>
          (\<forall>(pk, sg) \<in> set (validator_signatures b). check_signature C d pk sg))"
  using validator_digest_None [of C b]
  by (auto simp: validate_construction_iff validate_validator_signatures_iff validate_producer_signature_def
      producer_digest)

theorem validated_block_is_signed_witness:
  "\<exists>b. validate_construction reference b = Some True \<and> has_producer reference b \<and>
     producer_public_key b \<notin> fst ` set (validator_signatures b)"
  using sample_valid_block validated_block_is_signed [of reference] by blast

text \<open>C19. Signing produces blocks that validate: when a producer signs a block that has a reward output and
  any number of validators other than the producer, one at least, sign it in any order, some more than
  once, the block passes \<open>validate_construction\<close>. The key of the producer is not the point \<open>Z\<close> that stands for
  none, and its signature not the empty one.\<close>

theorem signed_block_validates:
  assumes "crypto_laws C" "reward_has_outputs (reward_tx b)" "validator_signatures b = []"
    "producer_sign C e secret b = Some (b1, pk, sg)" "pk \<noteq> crypto_Z C" "\<not> sig_empty C sg"
    "vs \<noteq> []" "pk \<notin> secret_key_to_public_key C ` snd ` set vs"
  shows "\<exists>b2. validators_sign C vs b1 = Some b2 \<and> validate_construction C b2 = Some True"
proof -
  note P = producer_sign_valid [OF assms(1,4)]
  have "signed C b1"
    using P assms(3,5,6) by (simp add: signed_def has_producer_def sorted_map_def)
  from validators_sign_signed [OF assms(1) this, of vs] obtain b2 where
    b2: "validators_sign C vs b1 = Some b2" "signed C b2" "producer_public_key b2 = pk"
      "reward_tx b2 = reward_tx b"
      "fst ` set (validator_signatures b2) = secret_key_to_public_key C ` snd ` set vs"
    using P assms(3) by auto
  have "validator_signatures b2 \<noteq> []" using b2(5) assms(7) by auto
  then show ?thesis using b2 assms(2,8) by (simp add: validate_construction_iff signed_def)
qed

theorem signed_block_validates_witness:
  "\<exists>b1 sg b2. producer_sign reference 0 51 sample_block = Some (b1, 51, sg) \<and>
     validators_sign reference [(0, 61), (1, 62), (2, 61)] b1 = Some b2 \<and>
     validate_construction reference b2 = Some True"
proof -
  obtain b1 sg where p: "producer_sign reference 0 51 sample_block = Some (b1, 51, sg)"
    using producer_sign_returns [of reference 0 51 sample_block] by (auto simp: reference_def)
  have sg: "\<not> sig_empty reference sg" using sample_signature_not_empty [OF p] .
  show ?thesis
    using p signed_block_validates [OF reference_crypto_laws _ _ p _ sg, of "[(0, 61), (1, 62), (2, 61)]"]
    by (force simp: reference_def sample_block_def sample_genesis_def reward_has_outputs_def)
qed

text \<open>C20. A block is read back from its serialization, with its set of transactions, its producer (or the
  default values where it has none) and its map of validators.\<close>

theorem block_round_trip:
  assumes "crypto_laws C" "wf_block C b"
  shows "block_deserialize C (block_bytes C b @ rest) = Some (b, rest)"
  using assms by (rule block_read_back)

theorem block_round_trip_witness:
  "block_deserialize reference (block_bytes reference sample_block @ [3]) = Some (sample_block, [3])"
  by (rule block_round_trip [OF reference_crypto_laws sample_wf(4)])

section \<open>Transactions\<close>

text \<open>C21. Every committed transaction of the six kinds is read back from its serialization, by the type that
  stands in front, with the bytes behind it untouched.\<close>

theorem transaction_round_trip:
  assumes "codec_laws C" "wf_transaction tx"
  shows "transaction_deserialize C (transaction_serialize C tx @ rest) = Some (Some (tx, rest))"
  using assms by (rule transaction_read_back)

theorem transaction_round_trip_witness:
  "transaction_deserialize reference
     (transaction_serialize reference (Normal sample_committed_normal) @ [1, 2]) =
   Some (Some (Normal sample_committed_normal, [1, 2]))"
  by (rule transaction_round_trip [OF reference_codec_laws sample_wf(1)])

text \<open>C22. Committing a transaction keeps its identity: the committed form has the hash, the proof-of-work hash
  and the signed digest of the uncommitted one, for each of the three kinds, given that
  the type number in its prefix is that of its kind.\<close>

theorem commit_keeps_hashes:
  assumes "tx_type tx = type_number NORMAL" "tx_type stx = type_number STAKE"
    "tx_type rtx = type_number RECALL_STAKE"
  shows "committed_normal_hash C (uncommitted_normal_to_committed C tx) = uncommitted_normal_hash C tx \<and>
    committed_normal_pow_hash C (uncommitted_normal_to_committed C tx) = uncommitted_normal_pow_hash C tx \<and>
    committed_normal_digest C (uncommitted_normal_to_committed C tx) = uncommitted_normal_digest C tx \<and>
    committed_stake_hash C (uncommitted_stake_to_committed C stx) = uncommitted_stake_hash C stx \<and>
    committed_stake_pow_hash C (uncommitted_stake_to_committed C stx) = uncommitted_stake_pow_hash C stx \<and>
    committed_stake_digest C (uncommitted_stake_to_committed C stx) = uncommitted_stake_digest C stx \<and>
    committed_recall_hash C (uncommitted_recall_to_committed C rtx) = uncommitted_recall_hash C rtx \<and>
    committed_recall_pow_hash C (uncommitted_recall_to_committed C rtx) = uncommitted_recall_pow_hash C rtx \<and>
    committed_recall_digest C (uncommitted_recall_to_committed C rtx) = uncommitted_recall_digest C rtx"
  using user_to_committed_hashes [OF assms(1), of C] user_to_committed_hashes [OF assms(2), of C]
    user_to_committed_hashes [OF assms(3), of C]
  by (simp add: user_method_defs user_to_committed_def)

theorem commit_keeps_hashes_witness:
  "committed_normal_hash reference (uncommitted_normal_to_committed reference sample_normal) =
     uncommitted_normal_hash reference sample_normal \<and>
   committed_stake_digest reference (uncommitted_stake_to_committed reference sample_stake) =
     uncommitted_stake_digest reference sample_stake"
  using commit_keeps_hashes [of sample_normal sample_stake sample_recall reference]
  by (simp add: sample_defs)

text \<open>C23. Mining ends and is right: it changes nothing but the nonce, its result says whether the
  transaction it leaves has the work asked for, and it succeeds exactly when the transaction had that
  work already or some nonce other than zero gives it.\<close>

theorem mining_finds_the_work:
  assumes "uncommitted_normal_mine C zeros tx = (ok, tx')"
  shows "(tx' = tx \<or> (\<exists>n. tx' = set_nonce n tx)) \<and>
    (ok \<longleftrightarrow> uncommitted_normal_pow_verify C tx' zeros) \<and>
    (ok \<longleftrightarrow> uncommitted_normal_pow_verify C tx zeros \<or>
       (\<exists>n. n \<noteq> 0 \<and> uncommitted_normal_pow_verify C (set_nonce n tx) zeros))"
proof -
  have m: "user_mine C (serialize_normal_data C) zeros tx = (ok, tx')"
    using assms by (simp add: uncommitted_normal_mine_def)
  have "tx_suffix tx' = tx_suffix tx" using user_mine_spec(1) [OF m] by (auto simp: set_nonce_def)
  then show ?thesis
    using user_mine_spec [OF m]
    by (simp add: uncommitted_normal_pow_verify_def uncommitted_normal_pow_hash_def) (simp add: set_nonce_def)
qed

theorem mining_finds_the_work_witness:
  "\<exists>ok tx'. uncommitted_normal_mine reference 1 sample_normal = (ok, tx') \<and>
     (ok \<longleftrightarrow> uncommitted_normal_pow_verify reference tx' 1)"
proof -
  obtain ok tx' where m: "uncommitted_normal_mine reference 1 sample_normal = (ok, tx')"
    by (rule prod.exhaust)
  show ?thesis using m mining_finds_the_work [OF m] by blast
qed

text \<open>C24. The constructions that are accepted: for the committed kinds \<open>check_construction\<close> succeeds exactly
  on the versions, bodies and data that the conditions of the protocol describe, with duplicate key
  images detected by comparing lengths.\<close>

theorem committed_construction_accepted:
  assumes "crypto_laws C"
  shows "(committed_normal_check_construction C tx = SUCCESS \<longleftrightarrow>
      tx_version tx = 1 \<and> good_body C (tx_prefix tx) (tx_body tx) \<and> length (extra (tx_data tx)) \<le> 1024) \<and>
    (committed_stake_check_construction C stx = SUCCESS \<longleftrightarrow>
      tx_version stx \<in> {1, 2} \<and> good_body C (tx_prefix stx) (tx_body stx) \<and> stake_amount (tx_data stx) \<noteq> 0 \<and>
      \<not> key_empty C (stake_candidate_public_key (tx_data stx)) \<and>
      \<not> key_empty C (staker_public_view_key (tx_data stx)) \<and>
      \<not> key_empty C (staker_public_spend_key (tx_data stx))) \<and>
    (committed_recall_check_construction C rtx = SUCCESS \<longleftrightarrow>
      tx_version rtx \<in> {1, 2} \<and> good_body C (tx_prefix rtx) (tx_body rtx) \<and> recall_amount (tx_data rtx) \<noteq> 0 \<and>
      \<not> key_empty C (recall_candidate_public_key (tx_data rtx)) \<and> \<not> key_empty C (recall_staker_id (tx_data rtx)) \<and>
      \<not> sig_empty C (view_signature (tx_data rtx)) \<and> \<not> sig_empty C (spend_signature (tx_data rtx)))"
  using assms
  by (auto simp: committed_normal_check_construction_def committed_stake_check_construction_def
      committed_recall_check_construction_def check_success)

theorem committed_construction_accepted_witness:
  "committed_normal_check_construction reference sample_committed_normal = SUCCESS \<and>
   committed_stake_check_construction reference sample_committed_stake = SUCCESS"
proof -
  have "tx_version sample_committed_normal = 1 \<and> length (extra (tx_data sample_committed_normal)) \<le> 1024 \<and>
      good_body reference (tx_prefix sample_committed_normal) (tx_body sample_committed_normal)"
    "tx_version sample_committed_stake \<in> {1, 2} \<and>
      good_body reference (tx_prefix sample_committed_stake) (tx_body sample_committed_stake) \<and>
      stake_amount (tx_data sample_committed_stake) \<noteq> 0 \<and>
      \<not> key_empty reference (stake_candidate_public_key (tx_data sample_committed_stake)) \<and>
      \<not> key_empty reference (staker_public_view_key (tx_data sample_committed_stake)) \<and>
      \<not> key_empty reference (staker_public_spend_key (tx_data sample_committed_stake))"
    by (simp_all add: sample_defs good_body_def reference_def)
  then show ?thesis
    using committed_construction_accepted [OF reference_crypto_laws, of sample_committed_normal
        sample_committed_stake sample_committed_recall] by blast
qed

text \<open>C25. Every transaction survives its JSON form: what \<open>toJSON\<close> writes is parsed and read back as the same
  transaction by \<open>fromJSON\<close>, for the committed and uncommitted normal, stake and recall transactions and for
  the genesis, refund and staker transactions, whatever their contents.\<close>

theorem transactions_survive_json:
  assumes "json_proof_laws J"
  shows "Option.bind (json_parse J (committed_normal_toJSON J cn)) (committed_normal_fromJSON J) = Some cn \<and>
    Option.bind (json_parse J (committed_stake_toJSON J cs)) (committed_stake_fromJSON J) = Some cs \<and>
    Option.bind (json_parse J (committed_recall_toJSON J cr)) (committed_recall_fromJSON J) = Some cr \<and>
    Option.bind (json_parse J (uncommitted_normal_toJSON J un)) (uncommitted_normal_fromJSON J) = Some un \<and>
    Option.bind (json_parse J (uncommitted_stake_toJSON J us)) (uncommitted_stake_fromJSON J) = Some us \<and>
    Option.bind (json_parse J (uncommitted_recall_toJSON J ur)) (uncommitted_recall_fromJSON J) = Some ur \<and>
    Option.bind (json_parse J (genesis_toJSON J ge)) (genesis_fromJSON J) = Some ge \<and>
    Option.bind (json_parse J (refund_toJSON J re)) (refund_fromJSON J) = Some re \<and>
    Option.bind (json_parse J (staker_toJSON J st)) (staker_fromJSON J) = Some st"
  using json_proof_lawsD(1) [OF assms] assms unfolding user_toJSON_defs
  by (intro conjI committed_normal_json.round_trip committed_stake_json.round_trip
      committed_recall_json.round_trip uncommitted_normal_json.round_trip uncommitted_stake_json.round_trip
      uncommitted_recall_json.round_trip genesis_json.round_trip refund_json.round_trip
      staker_json.round_trip) simp_all

theorem transactions_survive_json_witness:
  "Option.bind (json_parse reference_json (committed_normal_toJSON reference_json sample_committed_normal))
     (committed_normal_fromJSON reference_json) = Some sample_committed_normal \<and>
   Option.bind (json_parse reference_json (uncommitted_stake_toJSON reference_json sample_stake))
     (uncommitted_stake_fromJSON reference_json) = Some sample_stake"
  using transactions_survive_json [OF reference_json_proof_laws] by blast

section \<open>Opening and querying the storage\<close>

text \<open>C26. On an environment whose library calls succeed, the constructor of the storage opens its six databases
  without changing an entry, and when their handles are different the storage is ready for every operation.
  \<open>BlockchainStorage::instance\<close> constructs it once: a second call for the same path returns the same object and
  does not touch the environment; after the destructor the path has no object again.\<close>

theorem storage_is_opened_once:
  assumes "crypto_laws C" "lmdb_laws L ev tv" "open_laws L tv" "reliable L tv" "opens_all L"
    "opened C ev E c []" "m_registered E" "sorted_map (key_less C) I" "tsm_at I (sha3 C (string_bytes path)) = None"
  shows "\<exists>E' S I'. storage_instance C L path I E = Some (E', Returned (S, I')) \<and> stored ev E' c \<and>
    (distinct (map m_dbi (storage_dbs S)) \<longrightarrow> storage_open S E') \<and>
    (\<forall>E2. storage_instance C L path I' E2 = Some (E2, Returned (S, I'))) \<and>
    tsm_at (storage_destroy C path I') (sha3 C (string_bytes path)) = None"
proof -
  note st = crypto_lawsD(2) [OF assms(1)]
  obtain E' S where m: "storage_make C L E = Some (E', Returned S)" "stored ev E' c"
      "distinct (map m_dbi (storage_dbs S)) \<longrightarrow> storage_open S E'"
    using storage_make_returns [OF st assms(2-7)] by blast
  have "tsm_at (tsm_insert (key_less C) (sha3 C (string_bytes path)) S I) (sha3 C (string_bytes path)) = Some S"
    using tsm.lookup_insert [OF st assms(8)] assms(9) by simp
  then have i: "storage_instance C L path I E =
      Some (E', Returned (S, tsm_insert (key_less C) (sha3 C (string_bytes path)) S I))"
    using m(1) assms(9) by (simp add: storage_instance_def find_or_make_def tsm_contains_at io_bind_def io_return_def Let_def)
  show ?thesis
    using i m(2,3) find_or_make_again(3) [OF st assms(8) i [unfolded storage_instance_def]]
      forget_instance_gone
    by (auto simp: storage_instance_def storage_destroy_def)
qed

theorem storage_is_opened_once_witness:
  "\<exists>E' S I'. storage_instance reference reference_files ''db'' [] (files_env [] []) = Some (E', Returned (S, I')) \<and>
     storage_instance reference reference_files ''db'' I' E' = Some (E', Returned (S, I'))"
proof -
  have "opened reference ref_view (files_env [] []) (ref_view []) []" "m_registered (files_env [] [])"
    using files_env_stored [of "[]" "[]"]
    by (simp_all add: opened_def databases_ok_def files_env_def sorted_map_def tsm_at_def)
  moreover have "opens_all reference_files" by (simp add: opens_all_def reference_files_def)
  ultimately show ?thesis
    using storage_is_opened_once [OF reference_crypto_laws reference_files_laws reference_open_laws reference_reliable,
        of "files_env [] []" "ref_view []" "[]" "''db''"]
    by (force simp: sorted_map_def tsm_at_def)
qed

text \<open>C27. While the library does not fail, \<open>get_block_by_timestamp\<close> returns the block with the least time stamp
  that is not before the one it is asked for, and \<open>DB_BLOCK_NOT_FOUND\<close> when there is none; it changes no entry.\<close>

theorem block_by_timestamp_is_the_next:
  assumes "reliable L tv" "crypto_laws C" "uint64_ordered C" "lmdb_laws L ev tv" "cursor_laws L tv cv"
    "store_holds (L, ev, tv, m_block_timestamps S) E m" "m_dbi (m_block_timestamps S) \<noteq> 0" "timestamps_of C m t"
  shows "\<exists>E' r. get_block_by_timestamp C L S x E = Some (E', Returned r) \<and>
    store_holds (L, ev, tv, m_block_timestamps S) E' m \<and>
    (case r of
       (err, None) \<Rightarrow> err = DB_BLOCK_NOT_FOUND \<and> (\<forall>y \<in> dom t. y < x)
     | (err, Some (y, h)) \<Rightarrow> err = SUCCESS \<and> t y = Some h \<and> x \<le> y \<and> (\<forall>z \<in> dom t. x \<le> z \<longrightarrow> y \<le> z))"
  using get_block_by_timestamp_returns [OF assms, of x] first_at_or_after_next [of t x]
  by (cases "first_at_or_after t x") (fastforce simp del: store_holds.simps)+

theorem block_by_timestamp_is_the_next_witness:
  "\<exists>E' y h. get_block_by_timestamp reference reference_files sample_storage 15 sample_files =
     Some (E', Returned (SUCCESS, Some (y, h))) \<and> y = 20 \<and> h = 72"
proof -
  let ?D = "m_block_timestamps sample_storage"
  have D: "?D \<in> set (storage_dbs sample_storage)" "m_dbi ?D = 4" "m_dbi ?D \<noteq> 0"
    by (simp_all add: storage_dbs_def sample_storage_def sample_database_def)
  have h: "store_holds (reference_files, ref_view, ref_view, ?D) sample_files (ref_view sample_entries 4)"
    using sample_files_hold [OF D(1)] by (simp only: D(2))
  obtain E' err found where r: "get_block_by_timestamp reference reference_files sample_storage 15 sample_files =
      Some (E', Returned (err, found))"
    "case found of None \<Rightarrow> \<forall>y \<in> dom [10 \<mapsto> 71 :: 256 word, 20 \<mapsto> 72]. y < (15 :: u64)
     | Some (y, h) \<Rightarrow> err = SUCCESS \<and> [10 \<mapsto> 71, 20 \<mapsto> 72] y = Some h \<and> 15 \<le> y"
    using block_by_timestamp_is_the_next [OF reference_reliable reference_crypto_laws reference_uint64_ordered
        reference_files_laws reference_cursor_laws h D(3) sample_timestamps, of 15]
    by (auto split: prod.splits option.splits simp del: store_holds.simps)
  then show ?thesis by (auto split: option.splits if_splits)
qed

text \<open>C28. Through the typed operations a database with \<open>uint64_t\<close> keys and hashes as values is a table: \<open>put\<close> that
  reports success sets the entry and \<open>del\<close> that reports success removes one that was there, on any other result
  nothing has changed; \<open>get\<close> returns the hash that the table has under the key or that there is none, unless the
  library throws.\<close>

theorem typed_database_is_a_table:
  assumes "codec_laws C" "lmdb_laws L ev tv" "hash_entries C (L, ev, tv, D) E f"
  shows "(db_put_uint64_value C L (key_serialize C) D k v 0 E = Some (E1, r) \<longrightarrow>
      hash_entries C (L, ev, tv, D) E1 (if r = Returned SUCCESS then f(k \<mapsto> v) else f)) \<and>
    (db_del_uint64 C L D k E = Some (E2, r) \<longrightarrow>
      hash_entries C (L, ev, tv, D) E2 (if r = Returned SUCCESS then f(k := None) else f) \<and>
      (r = Returned SUCCESS \<longrightarrow> f k \<noteq> None)) \<and>
    (db_get_uint64_value C L (r_key C) D k E = (entry, E3) \<longrightarrow>
      hash_entries C (L, ev, tv, D) E3 f \<and>
      (entry = Thrown \<or>
       entry = Returned (case f k of None \<Rightarrow> (LMDB_NOTFOUND, None) | Some h \<Rightarrow> (SUCCESS, Some h))))"
  using hash_entries_put [OF assms] hash_entries_del [OF assms] hash_entries_get [OF assms] by blast

theorem typed_database_is_a_table_witness:
  "\<exists>E1. db_put_uint64_value reference reference_lmdb (key_serialize reference) (sample_database 8) 5 77 0
       sample_big_env = Some (E1, Returned SUCCESS) \<and>
     hash_entries reference (reference_lmdb, fst, fst, sample_database 8) E1 [5 \<mapsto> 77]"
proof -
  have h: "hash_entries reference (reference_lmdb, fst, fst, sample_database 8) sample_big_env Map.empty"
    using sample_big_env_facts(1,2) sample_env_has(2)
    by (intro hash_entries_start [OF reference_codec_laws]) auto
  obtain E1 where p: "db_put_uint64_value reference reference_lmdb (key_serialize reference) (sample_database 8) 5 77 0
       sample_big_env = Some (E1, Returned SUCCESS)"
    using sample_put by (auto simp: db_put_uint64_value_def db_put_uint64_def)
  show ?thesis using p typed_database_is_a_table [OF reference_codec_laws reference_lmdb_laws h, THEN conjunct1, THEN mp, OF p]
    by auto
qed

section \<open>Staking, packets, sockets and the seed node\<close>

text \<open>C29. Candidacies: \<open>add_stake\<close> with a transaction of version 1 refuses a candidate that is known and any
  amount but the required one, and otherwise, when it succeeds, has added the candidate with the keys
  and the amount of the transaction and nothing else; on every error the candidates are unchanged.\<close>

theorem candidacy_is_recorded_once:
  assumes "lmdb_laws L ev tv" "candidates L ev tv SE E m" "tx_version tx = 1"
    "add_stake C L SE tx E = Some (E', Returned err)"
  shows "(m (candidate_key C tx) \<noteq> None \<longrightarrow> err = STAKING_CANDIDATE_ALREADY_EXISTS) \<and>
    (m (candidate_key C tx) = None \<and> stake_amount (tx_data tx) \<noteq> REQUIRED_CANDIDACY_AMOUNT \<longrightarrow>
       err = STAKING_CANDIDATE_AMOUNT_INVALID) \<and>
    candidates L ev tv SE E'
      (if err = SUCCESS then m(candidate_key C tx \<mapsto> candidate_serialize C (proposed tx)) else m)"
  using assms by (rule add_stake_candidacy)

theorem candidacy_is_recorded_once_witness:
  "\<exists>E'. add_stake reference reference_lmdb sample_engine sample_committed_stake sample_big_env =
      Some (E', Returned SUCCESS) \<and>
     candidates reference_lmdb fst fst sample_engine E'
       [candidate_key reference sample_committed_stake \<mapsto> candidate_serialize reference (proposed sample_committed_stake)]"
proof -
  obtain E' where r: "add_stake reference reference_lmdb sample_engine sample_committed_stake sample_big_env =
      Some (E', Returned SUCCESS)" using sample_add_stake by blast
  have "tx_version sample_committed_stake = 1" by (simp add: sample_defs)
  then show ?thesis
    using r candidacy_is_recorded_once [OF reference_lmdb_laws sample_candidates _ r] by auto
qed

text \<open>C30. The four packets of the peer-to-peer protocol are read back from their serialization, lists of peers
  with their IP addresses included.\<close>

theorem packets_round_trip:
  assumes "network_laws C"
  shows "(wf_peers_packet C hs \<longrightarrow> handshake_deserialize C (handshake_serialize C hs @ rest) = Some (hs, rest)) \<and>
    (wf_peers_packet C px \<longrightarrow>
       peer_exchange_deserialize C (peer_exchange_serialize C px @ rest) = Some (px, rest)) \<and>
    keepalive_deserialize C (keepalive_serialize C ka @ rest) = Some (ka, rest) \<and>
    (wf_data_packet dp \<longrightarrow> data_deserialize C (data_serialize C dp @ rest) = Some (dp, rest))"
  using handshake.read_back [OF assms] peer_exchange.read_back [OF assms]
    keepalive.read_back [OF network_lawsD(2) [OF assms]] data_packet.read_back [OF network_lawsD(2) [OF assms]]
  by blast

theorem packets_round_trip_witness:
  "handshake_deserialize reference_network (handshake_serialize reference_network sample_handshake @ []) =
     Some (sample_handshake, [])"
  using packets_round_trip [OF reference_network_laws] sample_handshake_wf by blast

text \<open>C31. The packets of the peer-to-peer protocol, the peers in them and the records of the staking engine survive
  their JSON form, as long as the addresses print as strings that the address parser reads.\<close>

theorem packets_survive_json:
  assumes "json_laws J" "\<forall>q \<in> set (packet_peers hs). readable_ip C (peer_address q)"
    "readable_ip C (peer_address p)"
  shows "Option.bind (json_parse J (handshake_toJSON C J hs)) (handshake_fromJSON C J) = Some hs \<and>
    Option.bind (json_parse J (peer_exchange_toJSON C J hs)) (peer_exchange_fromJSON C J) = Some hs \<and>
    Option.bind (json_parse J (peer_toJSON C J p)) (peer_fromJSON C J) = Some p \<and>
    Option.bind (json_parse J (keepalive_toJSON J ka)) (keepalive_fromJSON J) = Some ka \<and>
    Option.bind (json_parse J (data_packet_toJSON J dp)) (data_packet_fromJSON J) = Some dp \<and>
    Option.bind (json_parse J (candidate_toJSON J ca)) (candidate_fromJSON J) = Some ca \<and>
    Option.bind (json_parse J (stake_toJSON J st)) (stake_fromJSON J) = Some st"
proof -
  have fromJSON: "handshake_fromJSON C J = peers_packet_fromJSON C J" "peer_exchange_fromJSON C J = peers_packet_fromJSON C J"
    by (simp_all add: handshake_fromJSON_def peer_exchange_fromJSON_def fun_eq_iff)
  show ?thesis unfolding fromJSON handshake_toJSON_def peer_exchange_toJSON_def
    using peers_packet_json.round_trip [of "(C, J)" hs] peer_json.round_trip [of "(C, J)" p] assms
      keepalive_json.round_trip [of J ka] data_packet_json.round_trip [of J dp]
      candidate_json.round_trip [of J ca] stake_json.round_trip [of J st] by simp
qed

theorem packets_survive_json_witness:
  "Option.bind (json_parse reference_json (handshake_toJSON sample_text_network reference_json sample_handshake))
     (handshake_fromJSON sample_text_network reference_json) = Some sample_handshake"
  using packets_survive_json [OF reference_json_laws sample_readable(1,2)] by blast

text \<open>C32. What is published arrives: over a socket that loses nothing, everything that was given to a running
  publisher with an empty queue is sent by the loop of its thread, which ends, and after as many rounds as there
  are messages with contents the subscriber has received exactly these, with their subjects and in their order.
  Messages without contents are left out.\<close>

theorem publications_arrive:
  assumes "link_laws C Z q" "zp_running P" "zp_outgoing P = []" "q k = []"
    "publisher_drain Z (foldl (\<lambda>P m. publisher_send m P) P ms) k = (P', k1)"
    "sent = filter (\<lambda>m. env_payload m \<noteq> []) ms"
  shows "\<exists>S' k2. subscriber_rounds C Z (length sent) S k1 = Some (S', k2) \<and> q k2 = [] \<and> zp_outgoing P' = [] \<and>
    map (\<lambda>m. (env_subject m, env_payload m)) (zu_incoming S') =
      map (\<lambda>m. (env_subject m, env_payload m)) (zu_incoming S) @ map (\<lambda>m. (env_subject m, env_payload m)) sent"
proof -
  let ?P = "foldl (\<lambda>P m. publisher_send m P) P ms"
  have P: "?P = P\<lparr>zp_outgoing := sent\<rparr>" using publisher_send_all [OF assms(2), of ms] assms(3,6) by simp
  have "zp_running ?P" using assms(2) P by simp
  from publisher_drain_sends [OF assms(1) this assms(5)] have d: "q k1 = published Z sent" "zp_outgoing P' = []"
    by (simp_all add: P assms(4))
  have "filter (\<lambda>m. env_payload m \<noteq> []) sent = sent" by (simp add: assms(6))
  then show ?thesis using subscriber_rounds_receive [OF assms(1), of k1 sent "[]" S] d by simp
qed

theorem publications_arrive_witness:
  "\<exists>P' k1 S' k2. publisher_drain sample_link
       (foldl (\<lambda>P m. publisher_send m P) ((publisher_make 1 :: unit ZMQPublisher)\<lparr>zp_running := True\<rparr>)
          [sample_message, sample_message\<lparr>env_payload := []\<rparr>]) [] = (P', k1) \<and>
     subscriber_rounds reference_network sample_link
       (length (filter (\<lambda>m. env_payload m \<noteq> []) [sample_message, sample_message\<lparr>env_payload := []\<rparr>]))
       (subscriber_make 3) k1 = Some (S', k2) \<and>
     k2 = []"
proof -
  obtain P' k1 where d: "publisher_drain sample_link
       (foldl (\<lambda>P m. publisher_send m P) ((publisher_make 1 :: unit ZMQPublisher)\<lparr>zp_running := True\<rparr>)
          [sample_message, sample_message\<lparr>env_payload := []\<rparr>]) [] = (P', k1)" by fastforce
  show ?thesis
    using d publications_arrive [OF sample_link_laws _ _ _ d refl, of "subscriber_make 3"]
    by (fastforce simp: publisher_make_def)
qed

text \<open>C33. Whatever listens has its port forwarded and gives it back: when the ZeroMQ server, the publisher or the HTTP
  server begins to listen, a gateway that is found and accepts forwards its port besides what it did before. After
  its destructor has run the forwards are what they were, provided that the gateway deletes what it is asked to delete
  and that the port was not forwarded before.\<close>

theorem listeners_release_their_ports:
  assumes "upnp_laws U forwards" "\<And>g q w. fst (UPNP_DeletePortMapping U g q w) = 0"
    "\<And>g. (g, dec (unat p)) \<notin> forwards w" "accepting_gateway U w g"
  shows "(zs_port (sv_server V) = p \<and> \<not> zs_running (sv_server V) \<and> served_bind Z U V k w = (SUCCESS, V1, k1, w1) \<longrightarrow>
      forwards w1 = insert (g, dec (unat p)) (forwards w) \<and>
      (served_destroy U V1 w1 = (V2, w2) \<longrightarrow> sv_upnp V2 = None \<and> forwards w2 = forwards w)) \<and>
    (zp_port P = p \<and> \<not> zp_running P \<and> publisher_bind Z U P k w = (SUCCESS, P1, k1, w1) \<longrightarrow>
      forwards w1 = insert (g, dec (unat p)) (forwards w) \<and>
      (publisher_destroy U P1 w1 = (P2, w2) \<longrightarrow> zp_upnp P2 = None \<and> forwards w2 = forwards w)) \<and>
    (word_of_int port = p \<and> http_upnp S = None \<and> http_listen K U host port flags S j w = Some (True, S1, j1, w1) \<longrightarrow>
      forwards w1 = insert (g, dec (unat p)) (forwards w) \<and>
      (http_destroy K U S1 j1 w1 = Some (S2, j2, w2) \<longrightarrow> http_upnp S2 = None \<and> forwards w2 = forwards w))"
proof (intro conjI impI; elim conjE)
  assume "zs_port (sv_server V) = p" "\<not> zs_running (sv_server V)" "served_bind Z U V k w = (SUCCESS, V1, k1, w1)"
  then have b: "served_begins Z U p V w V1 w1" by (auto simp: served_begins_def)
  show "forwards w1 = insert (g, dec (unat p)) (forwards w)" by (rule served_listener.forwarded_by_gateway [OF assms(1,4) b])
  show "sv_upnp V2 = None" "forwards w2 = forwards w" if "served_destroy U V1 w1 = (V2, w2)"
    using served_listener.released [OF assms(1,2) b that assms(3)] by auto
next
  assume "zp_port P = p" "\<not> zp_running P" "publisher_bind Z U P k w = (SUCCESS, P1, k1, w1)"
  then have b: "publisher_begins Z U p P w P1 w1" by (auto simp: publisher_begins_def)
  show "forwards w1 = insert (g, dec (unat p)) (forwards w)" by (rule publisher_listener.forwarded_by_gateway [OF assms(1,4) b])
  show "zp_upnp P2 = None" "forwards w2 = forwards w" if "publisher_destroy U P1 w1 = (P2, w2)"
    using publisher_listener.released [OF assms(1,2) b that assms(3)] by auto
next
  assume "word_of_int port = p" "http_upnp S = None" "http_listen K U host port flags S j w = Some (True, S1, j1, w1)"
  then have b: "http_begins K U p S w S1 w1" unfolding http_begins_def by blast
  show "forwards w1 = insert (g, dec (unat p)) (forwards w)" by (rule http_listener.forwarded_by_gateway [OF assms(1,4) b])
  show "http_upnp S2 = None" "forwards w2 = forwards w" if "http_destroy K U S1 j1 w1 = Some (S2, j2, w2)"
    using http_listener.released [OF assms(1,2) b _ assms(3), of j1 S2 w2] that by (auto simp: http_finish_def)
qed

theorem listeners_release_their_ports_witness:
  "\<exists>V1 w1 V2 w2. served_bind sample_link sample_gateway \<lparr>sv_server = server_make 12897 77, sv_upnp = None\<rparr> [] {} =
       (SUCCESS, V1, [], w1) \<and> w1 = {dec 12897} \<and>
     served_destroy sample_gateway V1 w1 = (V2, w2) \<and> sv_upnp V2 = None \<and> w2 = {}"
proof -
  let ?V = "\<lparr>sv_server = server_make 12897 77, sv_upnp = None\<rparr> :: unit served"
  obtain V1 w1 where b: "served_bind sample_link sample_gateway ?V [] {} = (SUCCESS, V1, [], w1)"
    by (simp add: served_bind_def server_make_def sample_link_def split_beta)
  obtain V2 w2 where d: "served_destroy sample_gateway V1 w1 = (V2, w2)" by fastforce
  have g: "accepting_gateway sample_gateway {} ()" by (simp add: accepting_gateway_def sample_gateway_def)
  have "Pair () ` w1 = insert ((), dec 12897) (Pair () ` {})" "sv_upnp V2 = None" "Pair () ` w2 = Pair () ` {}"
    using listeners_release_their_ports [OF sample_gateway_laws _ _ g, of 12897, THEN conjunct1, THEN mp,
        of ?V sample_link "[]" V1 "[]" w1 V2 w2] b d
    by (simp_all add: server_make_def, simp_all add: sample_gateway_def)
  then have "w1 = {dec 12897}" "sv_upnp V2 = None" "w2 = {}" by auto
  then show ?thesis using b d by blast
qed

text \<open>C34. The seed node serves: while the database does not fail and holds a table of fewer than \<open>2 ^ 64\<close> peers without
  the id of the node, the port can be bound and the addresses of the seed nodes can be read, the program gets to its
  console. Whatever is typed there, and whatever the threads of the node have
  done to it before each line, every command returns and the program ends when it is asked to. The threads may make
  any run of the node that keeps the table of peers below \<open>2 ^ 64\<close> entries. At the end the node has the peer database
  it began with, a table in it without the id of the node, and what it keeps in every run.\<close>

theorem seed_node_serves:
  assumes p: "peerdb_reliable (C, L, ev, tv, cv, P)" "peerdb_holds (C, L, ev, tv, cv, P) E t" "card (dom t) < 2 ^ 64"
      "t (m_peer_id P) = None"
    and laws: "node_laws C L ev tv cv mix" and seeds: "seeds_parse C seed_nodes" and bound: "fst (zmq_bind Z server_port k)"
    and threads: "\<forall>(others, l) \<in> set lines. thread_rounds C L ev tv cv mix Z dial others"
  shows "\<exists>A t'. seed_serve C J L mix Z dial k clock P E random_id server_port seed_nodes external_address level lines \<in>
      {Some (Seed_Done A), Some (Seed_Waits A)} \<and>
    ((\<exists>(_, l) \<in> set lines. asks_to_leave l) \<longrightarrow> seed_serve C J L mix Z dial k clock P E random_id server_port seed_nodes
      external_address level lines = Some (Seed_Done A)) \<and>
    node_peer_db (app_node A) = P \<and> node_ok C L ev tv cv (app_node A) \<and>
    peerdb_holds (C, L, ev, tv, cv, P) (node_env (app_node A)) t' \<and> t' (m_peer_id P) = None"
proof -
  have mix: "mset (mix s ps) = mset ps" for s ps using laws by (simp add: node_laws_def)
  obtain E1 where pr: "peerdb_prune C L P (mix (clock 0)) (clock 1) E = Some (E1, Returned ())"
      "peerdb_holds (C, L, ev, tv, cv, P) E1 (fresh_peers (clock 1) t)"
    using prune_succeeds [OF p(1-3), of "mix (clock 0)" "clock 1"] mix by blast
  obtain N where N: "node_make C L mix clock P E random_id server_port True NETWORK_ID = Some (Returned N)"
      "node_peer_db N = P" "node_env N = E1" "node_messages N = []" "\<not> node_running N" "node_seed_mode N"
      "zs_port (node_server N) = server_port"
    using pr(1) by (simp add: node_make_def server_make_def)
  let ?t = "fresh_peers (clock 1) t"
  note fresh = pruned_of_fresh [of clock t 1]
  have has: "node_has C L ev tv cv N ?t" using pr(2) p(1) N(2,3)
    by (simp add: node_has_def del: peerdb_holds.simps peerdb_reliable.simps)
  have card: "card (dom ?t) < 2 ^ 64"
    using pruned_of_card [OF fresh _ p(3)] node_has_finite [of C L ev tv cv "N\<lparr>node_env := E\<rparr>" t] p(1,2) N(2)
    by (simp add: node_has_def del: peerdb_holds.simps peerdb_reliable.simps)
  have own: "?t (m_peer_id P) = None" using p(4) by (simp add: fresh_peers_def)
  have ok: "node_ok C L ev tv cv N"
    using pr(2) own N(2,3,4) by (auto simp: node_ok_def db_ok_def pdb.other_peers_def simp del: peerdb_holds.simps)
  obtain N' where N': "node_start C L mix Z dial k seed_nodes N = Some (N', Returned SUCCESS)"
      "node_has C L ev tv cv N' ?t" "node_peer_db N' = P"
    using node_start_runs [where mix = mix and Z = Z and k = k and dial = dial, OF has card mix seeds N(5,6)] bound N(2,7)
    by auto
  have "node_ok C L ev tv cv N'" by (rule node_start_ok [OF laws N'(1) ok])
  then have start: "seed_safe C L ev tv cv P \<lparr>app_node = N', app_level = level, app_shown = [], app_alive = True\<rparr>"
    using N'(2,3) card own by (auto simp: seed_safe_def)
  let ?S = "\<lparr>con_app = \<lparr>app_node = N', app_level = level, app_shown = [], app_alive = True\<rparr>, con_output = [], con_history = []\<rparr>"
  obtain left H S where run: "seed_run (seed_console C J L mix external_address) lines ?S = (left, H, S)" by (metis prod_cases3)
  have safe: "seed_safe C L ev tv cv P (con_app S)" "(\<exists>(_, l) \<in> set lines. asks_to_leave l) \<longrightarrow> left"
    using seed_console_safe [OF laws threads _ run] start by simp_all
  moreover have "seed_serve C J L mix Z dial k clock P E random_id server_port seed_nodes external_address level lines =
      Some (if left then Seed_Done (con_app S) else Seed_Waits (con_app S))"
    using N(1) N'(1) run safe(1) by (simp add: seed_serve_def seed_safe_def)
  moreover obtain t' where "node_peer_db (app_node (con_app S)) = P" "node_ok C L ev tv cv (app_node (con_app S))"
      "peerdb_holds (C, L, ev, tv, cv, P) (node_env (app_node (con_app S))) t'" "t' (m_peer_id P) = None"
    using safe(1) by (auto simp: seed_safe_def node_has_def simp del: peerdb_holds.simps peerdb_reliable.simps)
  ultimately show ?thesis
    by (intro exI [of _ "con_app S"] exI [of _ t'] conjI) (simp_all del: peerdb_holds.simps)
qed

theorem seed_node_serves_witness:
  "\<exists>A. seed_serve reference_network reference_json reference_files sample_mix sample_zmq sample_dial () (\<lambda>_. sample_now)
       sample_peerdb sample_peer_env 77 12897 [] [] LogInfo
       [(id, \<lparr>line_quit = False, line_signal = False, line_text = ''prune_peers''\<rparr>),
        (keepalive_round reference_network, \<lparr>line_quit = False, line_signal = False, line_text = ''exit''\<rparr>)] = Some (Seed_Done A) \<and>
     node_peer_db (app_node A) = sample_peerdb"
proof -
  define ls where "ls = [(id, \<lparr>line_quit = False, line_signal = False, line_text = ''prune_peers''\<rparr>),
        (keepalive_round reference_network :: ref_entries Node \<Rightarrow> _, \<lparr>line_quit = False, line_signal = False, line_text = ''exit''\<rparr>)]"
  have "(host, 12897) \<in> set SEED_NODES \<Longrightarrow> normalize_host_port reference_network host 12897 \<noteq> None" for host
    using sample_hosts [of host] by (auto simp: normalize_host_port_def config sample_addresses_def)
  then have seeds: "seeds_parse reference_network []" by (auto simp: seeds_parse_def config)
  have "asks_to_leave \<lparr>line_quit = False, line_signal = False, line_text = ''exit''\<rparr>"
    by (simp add: asks_to_leave_def str_trim_def trim_chars_def tolower_def)
  then have leave: "\<exists>(_, l) \<in> set ls. asks_to_leave l" by (simp add: ls_def)
  have bind: "fst (zmq_bind sample_zmq 12897 ())" by (simp add: sample_zmq_def)
  have "thread_rounds reference_network reference_files ref_view ref_view ref_cursor_view sample_mix sample_zmq sample_dial id"
    using node_run.stop [of reference_network reference_files sample_mix sample_zmq sample_dial]
    by (auto simp: thread_rounds_def dest: node_has_card)
  then have threads: "\<forall>(others, l) \<in> set ls. thread_rounds reference_network reference_files ref_view ref_view ref_cursor_view
      sample_mix sample_zmq sample_dial others"
    using keepalive_rounds [OF sample_node_laws] by (simp add: ls_def)
  have "card (dom Map.empty) < (2 :: nat) ^ 64" "(Map.empty :: peer_table) (m_peer_id sample_peerdb) = None" by simp_all
  from seed_node_serves [where clock = "\<lambda>_. sample_now" and random_id = 77 and J = reference_json and external_address = "[]"
        and level = LogInfo, OF sample_peers_reliable sample_peers_hold this sample_node_laws seeds bind threads] leave
  show ?thesis unfolding ls_def by blast
qed

section \<open>Behaviour that is not what the program means to do\<close>

text \<open>C35. \<open>rewind\<close> deletes nothing. With \<open>n\<close> blocks stored, none of them at the index \<open>n\<close>, a call for an index
  below \<open>n\<close> ends with \<open>DB_BLOCK_NOT_FOUND\<close> (or an exception of the library) and every entry is as before.\<close>

theorem rewind_deletes_nothing:
  assumes "lmdb_laws L ev tv" "cursor_laws L tv cv" "stored ev E c" "storage_open S E" "m_open_txns E + 1 \<noteq> 0"
    "card (dom (c (m_dbi (m_blocks S)))) = n" "n < 2 ^ 64" "unat i < n"
    "c (m_dbi (m_block_indexes S)) (w_uint64 C (word_of_nat n)) = None"
  shows "\<exists>E' r. rewind C L S i E = Some (E', r) \<and> stored ev E' c \<and> (r = Thrown \<or> r = Returned DB_BLOCK_NOT_FOUND)"
  using assms by (rule rewind_result)

theorem rewind_deletes_nothing_witness:
  "\<exists>E' r. rewind reference reference_files sample_storage 0 sample_files = Some (E', r) \<and>
     stored ref_view E' (ref_view sample_entries) \<and> r \<noteq> Returned SUCCESS"
proof -
  have D: "m_dbi (m_blocks sample_storage) = 2" "m_dbi (m_block_indexes sample_storage) = 3"
    by (simp_all add: sample_storage_def sample_database_def)
  show ?thesis
    using rewind_deletes_nothing [OF reference_files_laws reference_cursor_laws sample_files_stored(1) sample_files_open
        sample_files_stored(2), of 1 0 reference] sample_index_free
    by (force simp: D sample_doms)
qed

text \<open>C36. No output is ever found by \<open>get_random_outputs\<close>. \<open>put_transaction_output\<close> writes the unlock block in
  front of the output, the search reads the output first and compares its hash with the key. In a storage whose
  outputs were written by \<open>put_block\<close>, which keeps them so whatever it answers, no call for one or more outputs
  succeeds. With a library that does not fail and as many outputs stored as are asked for, so that the search
  begins, it does not return at all: it draws for ever, or ends with the exception of a reader. Excluded is an
  accident: an output whose key repeats the bytes of its unlock block all along, or another output that is read
  in its place and has the same hash. The codec stores a key as its 32 bytes.\<close>

theorem random_outputs_never_found:
  assumes "crypto_laws C" "raw_keys C" "lmdb_laws L ev tv" "cursor_laws L tv cv" "stored ev E c" "m_open_txns E + 1 \<noteq> 0"
    "storage_open S E" "outputs_as_written C (c (m_dbi (m_transaction_outputs S)))"
    "\<And>out unlock. c (m_dbi (m_transaction_outputs S)) (key_serialize C (TransactionOutput_hash C out)) =
      Some (w_varint C unlock @ TransactionOutput_serialize C out) \<Longrightarrow> \<not> found_by_accident C unlock out"
    and "0 < n"
  shows "(\<forall>b txs E' r. put_block C L S b txs E = Some (E', r) \<longrightarrow>
      (\<exists>c'. stored ev E' c' \<and> outputs_as_written C (c' (m_dbi (m_transaction_outputs S))))) \<and>
    (\<forall>E' outs. get_random_outputs C L S rnd index n E \<noteq> Some (E', Returned (SUCCESS, outs))) \<and>
    (reliable L tv \<and> m_dbi (m_transaction_outputs S) \<noteq> 0 \<and>
       unat n \<le> card (dom (c (m_dbi (m_transaction_outputs S)))) \<and> card (dom (c (m_dbi (m_transaction_outputs S)))) < 2 ^ 64 \<longrightarrow>
       (\<forall>E' x. get_random_outputs C L S rnd index n E \<noteq> Some (E', Returned x)))"
proof -
  have "m_transaction_outputs S \<in> set (storage_dbs S)" by (simp add: storage_dbs_def)
  note E = storage_holds [OF assms(5,7,6) this, where L = L and tv = tv]
  note no = get_random_outputs_never_succeeds [OF assms(1-4) E assms(8-10)]
  have "\<exists>c'. stored ev E' c' \<and> outputs_as_written C (c' (m_dbi (m_transaction_outputs S)))"
    if "put_block C L S b txs E = Some (E', r)" for b txs E' r
    using put_block_atomic [OF assms(3,5,6) that] block_keeps_outputs [OF assms(7), where c = c] assms(8) by blast
  moreover have "get_random_outputs C L S rnd index n E \<noteq> Some (E', Returned x)"
    if "reliable L tv" "m_dbi (m_transaction_outputs S) \<noteq> 0"
      "unat n \<le> card (dom (c (m_dbi (m_transaction_outputs S))))" "card (dom (c (m_dbi (m_transaction_outputs S)))) < 2 ^ 64" for E' x
    using get_random_outputs_starts [OF that(1) assms(3,4) E that(2-4)] no by blast
  ultimately show ?thesis using no by blast
qed

theorem random_outputs_never_found_witness:
  "\<nexists>E' x. get_random_outputs reference reference_files sample_storage sample_draws 2 1 sample_files = Some (E', Returned x)"
proof -
  have d: "m_dbi (m_transaction_outputs sample_storage) = 7"
    by (simp add: sample_storage_def sample_database_def)
  have "\<not> found_by_accident reference unlock out"
    if "ref_view sample_entries 7 (key_serialize reference (TransactionOutput_hash reference out)) =
      Some (w_varint reference unlock @ TransactionOutput_serialize reference out)" for out unlock
    using sample_entry_parts [OF that] sample_output_lost by simp
  note R = random_outputs_never_found [OF reference_crypto_laws reference_raw_keys reference_files_laws reference_cursor_laws
      sample_files_stored(1,2) sample_files_open, unfolded d, OF sample_outputs_written this]
  show ?thesis using R [of 1 sample_draws 2] reference_reliable d by (simp add: sample_doms)
qed

text \<open>C37. A stored transaction is misread. \<open>put_transaction\<close> writes a transaction in front of the hash of its block,
  \<open>get_transaction\<close> reads the hash first. In a storage whose transactions were written by \<open>put_block\<close>, which
  keeps them so whatever it answers, every lookup that succeeds returns as the hash of the block the first 32
  bytes of the serialized transaction (of what is stored, should a transaction be shorter), and as the
  transaction what follows these bytes. The codec stores a key as its 32 bytes.\<close>

theorem stored_transaction_is_misread:
  assumes "raw_keys C" "lmdb_laws L ev tv" "stored ev E c" "m_open_txns E + 1 \<noteq> 0" "storage_open S E"
    "transactions_as_written C (c (m_dbi (m_transactions S)))"
  shows "(\<forall>b txs E' r. put_block C L S b txs E = Some (E', r) \<longrightarrow>
      (\<exists>c'. stored ev E' c' \<and> transactions_as_written C (c' (m_dbi (m_transactions S))))) \<and>
    (\<forall>h tx' bh E'. get_transaction C L S h E = (Returned (SUCCESS, Some (tx', bh)), E') \<longrightarrow>
      (\<exists>tx bh0 rest. key_serialize C h = key_serialize C (transaction_hash C tx) \<and>
         c (m_dbi (m_transactions S)) (key_serialize C h) = Some (transaction_serialize C tx @ w_key C bh0) \<and>
         w_key C bh = take 32 (transaction_serialize C tx @ w_key C bh0) \<and>
         transaction_deserialize C (drop 32 (transaction_serialize C tx @ w_key C bh0)) = Some (Some (tx', rest))))"
proof -
  have "\<exists>c'. stored ev E' c' \<and> transactions_as_written C (c' (m_dbi (m_transactions S)))"
    if "put_block C L S b txs E = Some (E', r)" for b txs E' r
    using put_block_atomic [OF assms(2-4) that] block_keeps_transactions [OF assms(5), where c = c] assms(6) by blast
  then show ?thesis using get_transaction_misreads [OF assms(1-3,5,6)] by blast
qed

theorem stored_transaction_is_misread_witness:
  "\<exists>E' E'' tx' bh. put_block reference reference_lmdb sample_storage sample_spending_block
       [Normal sample_committed_normal] sample_big_env = Some (E', Returned SUCCESS) \<and>
     get_transaction reference reference_lmdb sample_storage (transaction_hash reference (Normal sample_committed_normal)) E' =
       (Returned (SUCCESS, Some (Genesis tx', bh)), E'') \<and>
     w_key reference bh = take 32 (transaction_serialize reference (Normal sample_committed_normal))"
proof -
  let ?h = "transaction_hash reference (Normal sample_committed_normal)"
  let ?d = "m_dbi (m_transactions sample_storage)"
  obtain E' where E': "put_block reference reference_lmdb sample_storage sample_spending_block
       [Normal sample_committed_normal] sample_big_env = Some (E', Returned SUCCESS)"
    using sample_spending_put_block by blast
  from put_block_atomic [OF reference_lmdb_laws sample_big_env_facts(1,2) E'] obtain c' where
    c': "frame sample_big_env E'" "stored fst E' c'"
      "apply_all (block_changes reference sample_storage sample_spending_block
         ([] @ [Normal sample_committed_normal])) (\<lambda>_ _. None) = Some c'"
    by (auto simp: atomic_result_def)
  have S: "storage_open sample_storage E'"
    using storage_open_frame [OF c'(1)] sample_big_storage_open by simp
  have "transactions_as_written reference (\<lambda>_. None)" by (simp add: transactions_as_written_def)
  then have "\<exists>c'. stored fst E' c' \<and> transactions_as_written reference (c' ?d)"
    using stored_transaction_is_misread [OF reference_raw_keys reference_lmdb_laws sample_big_env_facts(1,2)
        sample_big_storage_open] E' by blast
  then have w: "transactions_as_written reference (c' ?d)" using c'(2) by (auto simp: stored_def)
  have n: "m_open_txns E' + 1 \<noteq> 0" using c'(1) sample_big_env_facts(2) by (simp add: frame_def)
  note T = block_changes_last_transaction [OF sample_big_storage_open c'(3)]
  obtain tx' bh where m: "fst (get_transaction reference reference_lmdb sample_storage ?h E') =
      Returned (SUCCESS, Some (Genesis tx', bh))"
    using sample_lookup_returns [OF c'(2) S T] sample_misread by (metis outcome.distinct(1))
  then obtain E'' where g: "get_transaction reference reference_lmdb sample_storage ?h E' =
      (Returned (SUCCESS, Some (Genesis tx', bh)), E'')" by (metis prod.collapse)
  obtain bs where "c' ?d (key_serialize reference ?h) = Some bs" "w_key reference bh = take 32 bs"
    using stored_transaction_is_misread [OF reference_raw_keys reference_lmdb_laws c'(2) n S w] g by blast
  then have "w_key reference bh = take 32 (transaction_serialize reference (Normal sample_committed_normal))"
    using T sample_transaction_length by simp
  then show ?thesis using E' g by blast
qed

text \<open>C38. An uncommitted stake transaction is never accepted: whatever its contents, \<open>check_construction\<close>
  returns an error, because the test for reused keys compares the view key with itself.\<close>

theorem uncommitted_stake_never_accepted: "uncommitted_stake_check_construction C tx \<noteq> SUCCESS"
  by (simp add: uncommitted_stake_check_construction_def check_stake_keys_reuse_fails)

text \<open>C39. Our own outgoing connections never complete a handshake: whatever the clients receive, in any number and
  order, the completed handshakes stay as they are; and while there are none, that is as long as no peer has
  connected to us, no data packet reaches the application.\<close>

theorem outgoing_connections_bring_no_data:
  "io_each (poll_client C L mix) ids N = Some (N', r) \<longrightarrow>
   node_completed N' = node_completed N \<and> (node_completed N = [] \<longrightarrow> node_messages N' = node_messages N)"
  using io_relD [OF poll_clients_nothing, of C L mix ids N N' r] by (auto simp: nothing_learnt_def)

theorem outgoing_connections_bring_no_data_witness:
  "\<exists>N' r. io_each (poll_client reference_network reference_files sample_mix) [7] sample_client_node = Some (N', r) \<and>
     zc_incoming (snd (hd (node_clients N'))) = [] \<and> node_messages N' = []"
proof -
  have e: "node_completed sample_client_node = []" "node_messages sample_client_node = []"
    by (simp_all add: sample_client_node_def sample_node_def)
  obtain N' where p: "poll_client reference_network reference_files sample_mix 7 sample_client_node = Some (N', Returned ())"
    "zc_incoming (snd (hd (node_clients N'))) = []" using sample_data_dropped by blast
  then have run: "io_each (poll_client reference_network reference_files sample_mix) [7] sample_client_node = Some (N', Returned ())"
    by (simp add: io_bind_def io_return_def)
  show ?thesis
    using run p(2) outgoing_connections_bring_no_data [THEN mp, OF run] e by auto
qed

text \<open>C40. The JSON form of a block does not keep its validators: in the place of each of them \<open>toJSON\<close> writes the
  producer, so what \<open>fromJSON\<close> gives for a well-formed block is the block with the producer as its only validator, or
  with none when it had none. It is the same block again exactly when it had no validator or the producer as its
  only one, and no block that passes \<open>validate_construction\<close> still passes it afterwards.\<close>

theorem block_json_forgets_validators:
  assumes "crypto_laws C" "json_laws J" "wf_block C b"
  shows "\<exists>b'. Option.bind (json_parse J (block_toJSON C J b)) (block_fromJSON C J) = Some b' \<and>
    b' = b\<lparr>validator_signatures := (if validator_signatures b = [] then [] else [(producer_public_key b, producer_signature b)])\<rparr> \<and>
    (b' = b \<longleftrightarrow> validator_signatures b = [] \<or> validator_signatures b = [(producer_public_key b, producer_signature b)]) \<and>
    (validate_construction C b = Some True \<longrightarrow> validate_construction C b' \<noteq> Some True)"
proof -
  let ?b = "b\<lparr>validator_signatures := written_validators b\<rparr>"
  have "?b = b \<longleftrightarrow> validator_signatures b = [] \<or> validator_signatures b = [(producer_public_key b, producer_signature b)]"
    by (cases b) (auto simp: written_validators_def)
  moreover have "validate_construction C ?b \<noteq> Some True" if "validate_construction C b = Some True"
    using validated_has_validators [OF that] by (simp add: written_validators_def validate_construction_iff)
  ultimately show ?thesis using block_json_result [OF assms] by (simp add: written_validators_def)
qed

theorem block_json_forgets_validators_witness:
  "\<exists>b b'. validate_construction reference b = Some True \<and>
     Option.bind (json_parse reference_json (block_toJSON reference reference_json b))
       (block_fromJSON reference reference_json) = Some b' \<and> b' \<noteq> b \<and> validate_construction reference b' \<noteq> Some True"
proof -
  obtain b where b: "wf_block reference b" "validate_construction reference b = Some True"
    using sample_signed_block by blast
  from block_json_forgets_validators [OF reference_crypto_laws reference_json_laws b(1)] b(2) show ?thesis by metis
qed

section \<open>Further facts\<close>

text \<open>A peer that behaves is served: while the library does not fail, the first handshake of a peer with an
  accepted version, an address that can be read and no more than the maximum number of peers is handled without an
  exception. The peer is recorded with its address and the time, its handshake is completed, and exactly one
  message is queued, for it, which it reads as our handshake with our id, our network and at most the maximum
  number of peers.\<close>

lemma handshake_is_answered:
  assumes "peerdb_reliable (C, L, ev, tv, cv, node_peer_db N)"
    "peerdb_holds (C, L, ev, tv, cv, node_peer_db N) (node_env N) t"
    "node_laws C L ev tv cv mix" "key_width C" "card (dom t) + Suc (length (packet_peers packet)) < 2 ^ 64"
    "ip_address_of_string C address = Some a" "\<forall>q \<in> set (packet_peers packet). wf_peer C q"
    "source \<notin> set (node_completed N)" "source \<noteq> zs_identity (node_server N)"
    "packet_peer_id packet \<noteq> m_peer_id (node_peer_db N)" "P2P_MINIMUM_VERSION \<le> packet_version packet"
    "length (packet_peers packet) \<le> MAXIMUM_PEERS_EXCHANGED" "zs_running (node_server N)"
    "node_clock N (Suc (node_ticks N)) - PEER_PRUNE_TIME \<le> node_clock N (node_ticks N)"
  shows "\<exists>N' t' reply. handle_handshake C L mix source address packet True N = Some (N', Returned ()) \<and>
    peerdb_holds (C, L, ev, tv, cv, node_peer_db N') (node_env N') t' \<and>
    t' (packet_peer_id packet) = Some (drop_port (network_peer (node_clock N (node_ticks N)) a
      (packet_peer_id packet) (packet_peer_port packet) (packet_network_id packet))) \<and>
    set (node_completed N') = insert source (set (node_completed N)) \<and>
    zs_outgoing (node_server N') = zs_outgoing (node_server N) @ [envelope_to C source (handshake_serialize C reply)] \<and>
    handshake_deserialize C (handshake_serialize C reply) = Some (reply, []) \<and>
    packet_peer_id reply = m_peer_id (node_peer_db N) \<and> packet_network_id reply = node_network_id N \<and>
    length (packet_peers reply) \<le> MAXIMUM_PEERS_EXCHANGED"
proof -
  have "node_has C L ev tv cv N t" using assms(1,2) by (simp add: node_has_def)
  from handshake_answered [OF this assms(3-13)] assms(14) show ?thesis
    unfolding node_has_def prune_time_def by blast
qed

text \<open>While the library does not fail, asking the peer database for peers ends. Without a limit it gives every entry
  of the table once, of all networks or of the one asked for; with a limit it gives at most that many entries of the
  table. \<open>count\<close> is the number of entries.\<close>

lemma peers_are_listed_once:
  assumes "peerdb_reliable (C, L, ev, tv, cv, P)" "peerdb_holds (C, L, ev, tv, cv, P) E t"
    "card (dom t) < 2 ^ 64" "\<And>ps. mset (mix ps) = mset ps"
  shows "(\<exists>E' ps. peerdb_peers C L P mix n net E = Some (E', Returned ps) \<and>
      (n = 0 \<longrightarrow> distinct (map peer_id ps) \<and> set ps = {q \<in> ran t. key_empty C net \<or> peer_network_id q = net}) \<and>
      (n \<noteq> 0 \<longrightarrow> set ps \<subseteq> ran t \<and> length ps \<le> unat n)) \<and>
    (\<exists>E'. peerdb_count L P E = Some (E', Returned (word_of_nat (card (dom t)))))"
proof -
  have law: "peerdb_lawful (C, L, ev, tv, cv, P)" "network_laws C" "lmdb_laws L ev tv" "cursor_laws L tv cv"
    "reliable L tv" "m_dbi (m_database P) \<noteq> 0" using assms(1) by simp_all
  obtain E' ps where p: "peerdb_peers C L P mix n net E = Some (E', Returned ps)"
    using peers_succeed [OF assms] by blast
  have "n = 0 \<longrightarrow> distinct (map peer_id ps) \<and> set ps = {q \<in> ran t. key_empty C net \<or> peer_network_id q = net}"
    using peers_complete [OF law(1) assms(2-4)] p by blast
  moreover have "n \<noteq> 0 \<longrightarrow> set ps \<subseteq> ran t \<and> length ps \<le> unat n"
    using peers_law [OF law(1) assms(2,4) p] by blast
  moreover obtain m where m: "store_holds (L, ev, tv, m_database P) E m" "table_of C m t" using assms(2) by auto
  moreover have "card (dom m) = card (dom t)" by (rule table_card [OF law(2) m(2)])
  ultimately show ?thesis
    using p reliable_count [OF law(5,3,4) m(1) law(6)] assms(3) unfolding peerdb_count_def by fastforce
qed

text \<open>The number of missing connections is computed with unsigned numbers: it is the difference up to the default
  count of eleven, and with more outgoing connections than that it wraps around to a huge number instead of being
  zero, so that the manager goes on connecting.\<close>

lemma missing_connections_wrap:
  assumes "n < 2 ^ 64"
  shows "unat (delta_connections n) =
    (if n \<le> DEFAULT_CONNECTION_COUNT then DEFAULT_CONNECTION_COUNT - n else 2 ^ 64 + DEFAULT_CONNECTION_COUNT - n)"
  using assms delta_connections_exact [of n] delta_connections_wraps [of n] by simp

text \<open>What a stored block contains is there: once \<open>put_block\<close> has succeeded, \<open>transaction_exists\<close> finds
  its reward transaction and every transaction, and \<open>output_exists\<close> every output these create, unless
  the library throws.\<close>

lemma stored_transactions_exist:
  assumes "lmdb_laws L ev tv" "stored ev E c" "m_open_txns E + 1 \<noteq> 0" "storage_open S E"
    "put_block C L S b txs E = Some (E', Returned SUCCESS)"
    "tx \<in> set (reward_transaction (reward_tx b) # txs)"
  shows "fst (transaction_exists C L S (transaction_hash C tx) E') \<in> {Thrown, Returned True} \<and>
    (\<forall>(out, unlock) \<in> set (created_outputs tx).
       fst (output_exists C L S (TransactionOutput_hash C out) E') \<in> {Thrown, Returned True})"
proof -
  from put_block_atomic [OF assms(1-3,5)] obtain c' where c': "frame E E'" "stored ev E' c'"
      "apply_all (block_changes C S b txs) c = Some c'"
    by (auto simp: atomic_result_def)
  have S: "storage_open S E'" using storage_open_frame [OF c'(1)] assms(4) by simp
  have dbs: "m_transactions S \<in> set (storage_dbs S)" "m_transaction_outputs S \<in> set (storage_dbs S)"
    by (simp_all add: storage_dbs_def)
  have exists: "fst (db_exists L D k E') \<in> {Thrown, Returned True}"
    if "D \<in> set (storage_dbs S)" "c' (m_dbi D) k \<noteq> None" for D k
    using db_exists_stored(3) [OF assms(1) c'(2) S that(1) prod.collapse [symmetric], of k] that(2) by simp
  note T = block_changes_transactions [OF assms(4) c'(3) assms(6)]
  have "fst (transaction_exists C L S (transaction_hash C tx) E') \<in> {Thrown, Returned True}"
    using exists [OF dbs(1) T(1)] by (simp add: transaction_exists_def)
  moreover have "fst (output_exists C L S (TransactionOutput_hash C out) E') \<in> {Thrown, Returned True}"
    if "(out, unlock) \<in> set (created_outputs tx)" for out unlock
    using exists [OF dbs(2) T(2) [OF that]] by (simp add: output_exists_def)
  ultimately show ?thesis by blast
qed

text \<open>A single write to a database is atomic: on success exactly the one entry has changed, otherwise
  nothing, and the count of open write transactions is balanced.\<close>

lemma database_put_is_atomic:
  assumes "lmdb_laws L ev tv" "stored ev E c" "m_open_txns E + 1 \<noteq> 0"
    "tsm_at (m_databases E) (db_id D) = Some D" "db_put L D key v 0 E = Some (E', r)"
  shows "frame E E' \<and>
    stored ev E' (if r = Returned SUCCESS then c(m_dbi D := (c (m_dbi D))(key \<mapsto> v)) else c)"
  using db_put_atomic [OF assms(1-3,5)] handle_open [OF assms(4)]
  by (auto simp: atomic_result_def put_change_def split: if_splits)

text \<open>Reading after writing: what was put under a key is what \<open>get\<close> returns for it, and a key that was
  deleted does not exist, unless the library throws.\<close>

lemma database_read_after_write:
  assumes "lmdb_laws L ev tv" "stored ev E c" "m_open_txns E + 1 \<noteq> 0"
    "tsm_at (m_databases E) (db_id D) = Some D"
  shows "(db_put L D key v 0 E = Some (E1, Returned SUCCESS) \<longrightarrow>
            fst (db_get L D key E1) \<in> {Thrown, Returned (SUCCESS, v)}) \<and>
         (db_del L D key E = Some (E2, Returned SUCCESS) \<longrightarrow>
            fst (db_exists L D key E2) \<in> {Thrown, Returned False})"
proof -
  let ?p = "(L, ev, tv, D)"
  have p: "store_lawful ?p" "store_holds ?p E (c (m_dbi D))" using assms by auto
  show ?thesis
    using lmdb_store.get_after_put [OF p, of key v E1] lmdb_store.exists_after_del [OF p, of key E2]
    by (metis insertCI prod.collapse store_del.simps store_exists.simps store_get.simps store_put.simps)
qed

text \<open>Writing and deleting return: under the growth laws the loop that expands the map ends, whatever the
  growth factor below 2 ^ 40 megabytes.\<close>

lemma database_writes_terminate:
  assumes "lmdb_laws L ev tv" "growth_laws L tm bound" "grows E" "m_env E \<noteq> None" "m_open_txns E + 1 \<noteq> 0"
  shows "(\<exists>E' r. db_put L D key v 0 E = Some (E', r)) \<and> (\<exists>E' r. db_del L D key E = Some (E', r))"
  using db_put_returns [OF assms] db_del_returns [OF assms] by blast

text \<open>Growing the map makes it larger: an expansion that reports success has increased the size of the
  map, the conversion of the growth factor to pages in double precision included, and it is refused
  while a write transaction is open.\<close>

lemma expansion_grows_the_map:
  assumes "growth_laws L tm bound" "grows E" "m_env E = Some e" "mapsize L e < bound"
    "lmdb_expand L E = (SUCCESS, E')"
  shows "env_mapsize L E < env_mapsize L E' \<and> m_open_txns E = 0"
  using expand_grows [OF assms] assms(5)
  by (auto simp: lmdb_expand_def expand_pages_def open_transactions_def split: prod.splits if_splits)

text \<open>More work never costs more: with more leading zeros the fee of a transaction of the same size stays
  or falls.\<close>

lemma fee_antitone_in_work:
  assumes "zeros \<le> zeros'" "zeros' \<le> 256"
  shows "\<exists>f f'. calculate_transaction_fee s zeros = Some f \<and>
    calculate_transaction_fee s zeros' = Some f' \<and> f' \<le> f"
proof -
  obtain d d' where d: "calculate_transaction_discount zeros = Some d"
      "calculate_transaction_discount zeros' = Some d'" "0 \<le> d" "d \<le> d'"
    by (rule discount_mono [OF assms])
  have z: "zeros \<le> 256" using assms by simp
  let ?b = "unat (calculate_base_transaction_fee s)"
  obtain f where f: "calculate_transaction_fee s zeros = Some f"
      "int (unat f) = max (int ?b - fee_discount ?b d) (int (unat MINIMUM_FEE))"
    by (rule fee_eq [OF z d(1)])
  obtain f' where f': "calculate_transaction_fee s zeros' = Some f'"
      "int (unat f') = max (int ?b - fee_discount ?b d') (int (unat MINIMUM_FEE))"
    by (rule fee_eq [OF assms(2) d(2)])
  have "unat f' \<le> unat f" using f(2) f'(2) fee_discount_mono [OF d(4), of ?b] by linarith
  then show ?thesis using f(1) f'(1) by (auto simp: word_le_nat_alt)
qed

text \<open>A larger transaction never has a smaller base fee, whatever the sizes.\<close>

lemma base_fee_monotone:
  assumes "s \<le> t" shows "calculate_base_transaction_fee s \<le> calculate_base_transaction_fee t"
  using assms by (rule base_fee_mono)

text \<open>\<open>committed_size\<close>, which is computed without committing the transaction, is the size that the
  committed transaction has, for each of the three kinds.\<close>

lemma committed_size_is_exact:
  assumes "key_width C" "tx_type tx = type_number NORMAL" "tx_type stx = type_number STAKE"
    "tx_type rtx = type_number RECALL_STAKE"
  shows "uncommitted_normal_committed_size C tx = committed_normal_size C (uncommitted_normal_to_committed C tx) \<and>
    uncommitted_stake_committed_size C stx = committed_stake_size C (uncommitted_stake_to_committed C stx) \<and>
    uncommitted_recall_committed_size C rtx = committed_recall_size C (uncommitted_recall_to_committed C rtx)"
  by (simp add: user_method_defs user_codec_defs user_serialize_committed_length [OF assms(1)]
      user_to_committed_digest [OF assms(2)] user_to_committed_digest [OF assms(3)]
      user_to_committed_digest [OF assms(4)])

text \<open>No two transactions serialize to the same bytes, and none to a prefix of another: what a hash is
  taken of determines the transaction.\<close>

lemma transaction_serialization_unambiguous:
  assumes "codec_laws C" "wf_transaction tx" "wf_transaction tx'"
    "transaction_serialize C tx @ r = transaction_serialize C tx' @ r'"
  shows "tx = tx' \<and> r = r'"
  using assms by (rule transaction.prefix_free)

text \<open>The uncommitted transactions, which carry ring signatures and a range proof, are read back as well.\<close>

lemma uncommitted_round_trip:
  assumes "proof_laws C"
  shows "(wf_user wf_normal_data wf_uncommitted_suffix tx \<longrightarrow>
      uncommitted_normal_deserialize C (uncommitted_normal_serialize C tx @ rest) = Some (tx, rest)) \<and>
    (wf_user (\<lambda>_. True) wf_uncommitted_suffix stx \<longrightarrow>
      uncommitted_stake_deserialize C (uncommitted_stake_serialize C stx @ rest) = Some (stx, rest)) \<and>
    (wf_user (\<lambda>_. True) wf_uncommitted_suffix rtx \<longrightarrow>
      uncommitted_recall_deserialize C (uncommitted_recall_serialize C rtx @ rest) = Some (rtx, rest))"
  using uncommitted_normal.read_back [OF assms] uncommitted_stake.read_back [OF assms]
    uncommitted_recall.read_back [OF assms] by blast

text \<open>\<open>to_string\<close> and the constructors from a string are inverse: the hexadecimal form of a well-formed
  block or transaction makes the same block or transaction, for the committed and uncommitted user transactions
  and the system transactions.\<close>

lemma hex_strings_round_trip:
  assumes "crypto_laws C" "proof_laws Q" "json_laws J"
  shows "(wf_block C b \<longrightarrow> block_of_hex C J (block_to_string C J b) = Some b) \<and>
    (wf_transaction (Normal n) \<longrightarrow> committed_normal_of_hex C J (committed_normal_to_string C J n) = Some n) \<and>
    (wf_transaction (Stake s) \<longrightarrow> committed_stake_of_hex C J (committed_stake_to_string C J s) = Some s) \<and>
    (wf_transaction (RecallStake r) \<longrightarrow> committed_recall_of_hex C J (committed_recall_to_string C J r) = Some r) \<and>
    (wf_transaction (Genesis g) \<longrightarrow> genesis_of_hex C J (genesis_to_string C J g) = Some g) \<and>
    (wf_transaction (Staker k) \<longrightarrow> staker_of_hex C J (staker_to_string C J k) = Some k) \<and>
    (wf_transaction (StakeRefund f) \<longrightarrow> refund_of_hex C J (refund_to_string C J f) = Some f) \<and>
    (wf_user wf_normal_data wf_uncommitted_suffix un \<longrightarrow>
       uncommitted_normal_of_hex Q J (uncommitted_normal_to_string Q J un) = Some un) \<and>
    (wf_user (\<lambda>_. True) wf_uncommitted_suffix us \<longrightarrow>
       uncommitted_stake_of_hex Q J (uncommitted_stake_to_string Q J us) = Some us) \<and>
    (wf_user (\<lambda>_. True) wf_uncommitted_suffix ur \<longrightarrow>
       uncommitted_recall_of_hex Q J (uncommitted_recall_to_string Q J ur) = Some ur)"
  using assms crypto_lawsD(1) [OF assms(1)]
  by (simp add: hex_form_defs of_hex_all whole_read_back)

text \<open>The JSON readers throw on documents that are not what they expect: on everything that is not an object,
  on an object without a version, and, for a block, on a reward transaction of a type that is neither genesis
  nor staker.\<close>

lemma json_readers_reject:
  assumes "json_laws J" "\<forall>ms. v \<noteq> JObject ms" "map_of ms ''version'' = None"
    "map_of bs ''reward_tx'' = Some (JObject rs)" "map_of rs ''type'' = Some (JNumber (uint t))"
    "t \<notin> {type_number GENESIS, type_number STAKER}"
  shows "block_fromJSON C J v = None \<and> block_fromJSON C J (JObject ms) = None \<and>
    block_fromJSON C J (JObject bs) = None \<and>
    (\<forall>w \<in> {v, JObject ms}. committed_normal_fromJSON J w = None \<and> committed_stake_fromJSON J w = None \<and>
       committed_recall_fromJSON J w = None \<and> genesis_fromJSON J w = None \<and> refund_fromJSON J w = None \<and>
       staker_fromJSON J w = None)"
proof -
  note L = assms(1)
  have v: "object_or_throw J v = None" by (rule json_throws(1) [OF L assms(2)])
  have ms: "LOAD_U64_FROM_JSON J (JObject ms) ''version'' = None" by (rule json_throws(3) [OF L assms(3)])
  have bs: "reward_fromJSON J (JObject rs) = None"
    using assms(5,6) by (simp add: reward_fromJSON_def detect_json_type_def json L)
  have h: "header_fromJSON J v = None" "header_fromJSON J (JObject ms) = None"
    by (simp_all add: header_fromJSON_def v ms bind_eq_None_conv split: option.split)
  have "block_fromJSON C J v = None" by (simp add: block_fromJSON_def v)
  moreover have "block_fromJSON C J (JObject ms) = None" by (simp add: block_fromJSON_def ms bind_eq_None_conv)
  moreover have "block_fromJSON C J (JObject bs) = None"
    using json_reads(4) [OF L assms(4)] bs by (simp add: block_fromJSON_def bind_eq_None_conv)
  moreover have "\<forall>w \<in> {v, JObject ms}. committed_normal_fromJSON J w = None \<and> committed_stake_fromJSON J w = None \<and>
       committed_recall_fromJSON J w = None \<and> genesis_fromJSON J w = None \<and> refund_fromJSON J w = None \<and>
       staker_fromJSON J w = None"
    unfolding user_toJSON_defs user_fromJSON_def genesis_fromJSON_def refund_fromJSON_def staker_fromJSON_def
      prefix_fromJSON_def by (auto simp: h v bind_eq_None_conv)
  ultimately show ?thesis by blast
qed

text \<open>Appending to a block keeps its containers a set and a map: no transaction hash and no validator is
  there twice, the order is that of the keys, and what was there stays.\<close>

lemma append_keeps_block_containers:
  assumes "crypto_laws C" "sorted_wrt (key_less C) (transactions b)"
    "sorted_map (key_less C) (validator_signatures b)"
  shows "sorted_wrt (key_less C) (transactions (append_transaction_hash C h b)) \<and>
    distinct (transactions (append_transaction_hash C h b)) \<and>
    set (transactions (append_transaction_hash C h b)) = insert h (set (transactions b)) \<and>
    sorted_map (key_less C) (validator_signatures (append_validator_signature C pk sg b)) \<and>
    map_of (validator_signatures (append_validator_signature C pk sg b)) =
      (map_of (validator_signatures b))(pk \<mapsto> case map_of (validator_signatures b) pk of None \<Rightarrow> sg | Some s \<Rightarrow> s)"
proof -
  note lt = crypto_lawsD(2) [OF assms(1)]
  have s: "sorted_wrt (key_less C) (transactions (append_transaction_hash C h b))"
    using assms(2) by (simp add: append_transaction_hash_def sorted_set_insert lt)
  moreover have "set (transactions (append_transaction_hash C h b)) = insert h (set (transactions b))"
    by (auto simp: append_transaction_hash_def set_set_insert lt set_contains_def)
  moreover have "sorted_map (key_less C) (validator_signatures (append_validator_signature C pk sg b))"
    using assms(3) by (simp add: append_validator_signature_def sorted_map_insert lt)
  moreover have "map_of (validator_signatures (append_validator_signature C pk sg b)) =
      (map_of (validator_signatures b))(pk \<mapsto> case map_of (validator_signatures b) pk of None \<Rightarrow> sg | Some s \<Rightarrow> s)"
    using assms(3) by (auto simp: append_validator_signature_def map_of_map_insert lt split: option.split)
  ultimately show ?thesis using sorted_wrt_distinct [OF lt s] by blast
qed

text \<open>Votes: a transaction of version 2 is accepted exactly for a known candidate and an amount of at
  least the minimum, other versions are refused, and none of them changes the candidates.\<close>

lemma votes_are_checked:
  assumes "lmdb_laws L ev tv" "candidates L ev tv SE E m" "tx_version tx \<noteq> 1"
    "add_stake C L SE tx E = Some (E', Returned err)"
  shows "candidates L ev tv SE E' m \<and>
    err = (if tx_version tx \<noteq> 2 then TX_INVALID_VERSION
           else if m (candidate_key C tx) = None then STAKING_CANDIDATE_NOT_FOUND
           else if stake_amount (tx_data tx) < MINIMUM_STAKE_AMOUNT then STAKING_STAKE_AMOUNT
           else SUCCESS)"
  using assms by (rule add_stake_vote)

text \<open>A wallet address that was encoded from two public keys decodes to them.\<close>

lemma address_round_trip:
  assumes "crypto_laws C"
  shows "address_decode C (address_encode C public_spend public_view) = (SUCCESS, public_spend, public_view)"
  using assms by (rule address_decode_encode)

text \<open>What is read is well formed: every peer that \<open>deserialize\<close> returns has an address of the right
  number of components that is not marked as IPv4-compatible, however the input was made.\<close>

lemma read_peers_are_normal:
  assumes "peer_deserialize C bs = Some (p, rest)"
  shows "length (components (peer_address p)) = IPV6_NUM_COMPONENTS C \<and>
    and (ip_flags (peer_address p)) (IPV6_FLAG_IPV4_COMPAT C) = 0 \<and>
    normalize_v4_embedded C (peer_address p) = peer_address p"
  using peer_deserialize_wf [OF assms] by (simp add: wf_peer_def wf_ip_def normalize_normal)

text \<open>Normalizing an IPv4-compatible address embeds it: its components move behind the marker 0xffff, the
  places they had are zero, and normalizing again changes nothing.\<close>

lemma ipv4_addresses_are_embedded:
  assumes "network_laws C" "length (components a) = IPV6_NUM_COMPONENTS C"
    "and (ip_flags a) (IPV6_FLAG_IPV4_COMPAT C) \<noteq> 0" "i < IPV4_NUM_COMPONENTS C"
  shows "components (normalize_v4_embedded C a) ! (IPV4_EMBED_INDEX C + i) = components a ! i \<and>
    components (normalize_v4_embedded C a) ! i = 0 \<and>
    components (normalize_v4_embedded C a) ! (IPV4_EMBED_INDEX C - 1) = 0xffff \<and>
    normalize_v4_embedded C (normalize_v4_embedded C a) = normalize_v4_embedded C a"
  using normalize_embeds [OF assms(1-3)] assms(4) normalize_idem by blast

text \<open>In every state that a connection monitor reaches by events of the socket, a peer is in at most one of the
  sets of connected, delayed and retried peers.\<close>

lemma monitor_sets_are_disjoint:
  "monitor_reach C M \<longrightarrow>
     set (m_connected_peers M) \<inter> set (m_delayed_peers M) = {} \<and>
     set (m_connected_peers M) \<inter> set (m_retried_peers M) = {} \<and>
     set (m_delayed_peers M) \<inter> set (m_retried_peers M) = {}"
  using monitor_reach_ok [of C M] unfolding monitor_ok_def by blast

text \<open>The queue and both directions of the deque hand their elements out in the order they were put in,
  all of them and none twice.\<close>

lemma buffers_are_first_in_first_out:
  "fst (drain tsq_empty tsq_pop (length q + length xs) (foldl (\<lambda>q x. tsq_push x q) q xs)) = q @ xs \<and>
   fst (drain tsd_empty tsd_pop_front (length d + length xs) (foldl (\<lambda>d x. tsd_push_back x d) d xs)) = d @ xs \<and>
   fst (drain tsd_empty tsd_pop_back (length d + length xs) (foldl (\<lambda>d x. tsd_push_front x d) d xs)) = rev d @ xs"
  using tsq.fifo_order [of q xs] tsd.fifo_order [of d xs] tsd_rev.fifo_order [of d xs] by simp

text \<open>A host with a port behind a colon is taken apart into what it was made of, whatever the host contains; and
  splitting at a separator and joining again gives the string back. An IPv6 address without a port is not left
  alone: its last group is taken for a port.\<close>

lemma host_and_port_round_trip:
  "split_port (host @ CHR '':'' # dec (unat p)) = (host, p) \<and> str_join (str_split s ch) ch = s \<and>
   split_port ''[2001:db8::1]'' = (''[2001:db8:'', 1)"
proof -
  have "split_port ''[2001:db8::1]'' = (''[2001:db8:'', 1)" by code_simp
  then show ?thesis using split_port_dec join_split by blast
qed

text \<open>A port forward is given back: when the port was not forwarded before, then after the object was made and
  destroyed the gateway forwards exactly what it did, unless it refused to delete the mapping, in which case the
  object is still active and its mapping, and nothing else, is left. An object without a mapping deletes none.\<close>

lemma upnp_mapping_is_released:
  assumes "upnp_laws U forwards" "upnp_make U port name timeout v6 w = (u, w1)"
    "(up_gateway u, dec (unat port)) \<notin> forwards w" "upnp_destroy U u w1 = (u', w2)"
  shows "forwards w2 = (if up_active u' then insert (up_gateway u, dec (unat port)) (forwards w) else forwards w)"
proof -
  obtain err where d: "upnp_del U u w1 = (err, w2)" "u' = (if \<not> failed err then u\<lparr>up_active := False\<rparr> else u)"
    using assms(4) by (auto simp: upnp_destroy_def split: prod.splits)
  note made = upnp_make_result [OF assms(1,2)] and deleted = upnp_del_result [OF assms(1) d(1)]
  show ?thesis
  proof (cases "failed err")
    case True
    then show ?thesis using made deleted d(2) by simp
  next
    case False
    then have "up_active u" using deleted(2) by blast
    then show ?thesis using made deleted(1) d(2) False assms(3) by (simp add: insert_Diff_if)
  qed
qed

text \<open>A priority queue hands its elements out in order: with a comparison that is a strict weak order, popping
  until the queue is empty gives every element that was in it or was pushed exactly once, and none before one that
  is greater.\<close>

lemma priority_queue_pops_in_order:
  assumes "strict_weak lt" "popped = pop_all (tpq_pop lt) (tpq_size (tpq_push_all xs q)) (tpq_push_all xs q)"
  shows "mset popped = mset q + mset xs \<and> sorted_wrt (\<lambda>x y. \<not> lt x y) popped"
proof -
  have "mset (tpq_push_all xs q) = mset q + mset xs" using tpq.push_all by (simp add: tpq_push_all_def)
  moreover have "size (mset (tpq_push_all xs q)) \<le> tpq_size (tpq_push_all xs q)" by (simp add: tpq_size_def)
  ultimately show ?thesis using tpq.pop_all_sorted [OF assms(1)] unfolding assms(2) by metis
qed

text \<open>A registered command runs: when its name was free, typing it with any words runs its callback once with
  these words and puts it into the history, whatever else has been registered; a line that begins with a blank is
  passed over, since \<open>str_trim\<close> leaves blanks; and the console ends at the first request to leave.\<close>

lemma console_runs_commands:
  assumes "console_ok H" "\<not> m_break H" "map_of (m_commands H) c = None" "str_trim c True = c"
    "c \<notin> {[], ''exit'', ''quit'', ''?''}" "\<forall>w \<in> set (c # args). CHR '' '' \<notin> set w"
    "line_text l = str_join (c # args) CHR '' ''" "str_trim (line_text l) True = line_text l"
    "\<not> line_quit l" "\<not> line_signal l" "asks_to_leave x" "x \<in> set xs" "line_text b = CHR '' '' # r"
    "\<not> line_quit b" "\<not> line_signal b"
  shows "console_step (register_command c d f H) l S =
      (True, register_command c d f H,
       S\<lparr>con_history := con_history S @ [c], con_app := run_callback f args (con_app S)\<rparr>) \<and>
    console_step H b S = (True, H, S) \<and> (\<exists>H' S'. console_run H xs S = (True, H', S'))"
proof -
  let ?H = "register_command c d f H"
  have "m_break ?H = m_break H" by (simp add: register_command_def Let_def)
  moreover have "map_of (m_commands ?H) c = Some \<lparr>cmd_command = c, cmd_description = d, cmd_callback = f\<rparr>"
    using register_command_finds [OF assms(1,4)] assms(3,5) by simp
  ultimately have "console_step ?H l S =
      (True, ?H, S\<lparr>con_history := con_history S @ [c], con_app := run_callback f args (con_app S)\<rparr>)"
    using console_step_runs [OF register_command_ok [OF assms(1)] _ assms(9,10) typed_words [OF assms(8,7,6)]]
      assms(2,5) by simp
  moreover have "console_step H b S = (True, H, S)" by (rule console_step_blank [OF assms(2,14,15,13)])
  moreover have "\<exists>H' S'. console_run H xs S = (True, H', S')"
    unfolding console_run_def by (rule console_loop_ends) (use assms(11,12) in blast)
  ultimately show ?thesis by blast
qed

text \<open>The seed node lists its peers: while the database does not fail, the command \<open>peers\<close> ends and leaves the
  table of peers as it is; it shows every peer of the table exactly once, in a table of one line for each and four
  more, all equally long, or says that there are none.\<close>

lemma seed_node_lists_its_peers:
  assumes "node_has C L ev tv cv N t" "card (dom t) < 2 ^ 64" "\<And>s ps. mset (mix s ps) = mset ps"
  shows "\<exists>N' ps. seed_peers C J L mix N = Some (N', Returned (show_peers C J ps)) \<and> node_has C L ev tv cv N' t \<and>
    set ps = ran t \<and> distinct (map peer_id ps) \<and>
    (if ran t = {} then show_peers C J ps = Log ''Peer list is empty''
     else \<exists>out ls w. show_peers C J ps = Table out \<and> shown_lines [] out = ls @ [[]] \<and>
       length ls = card (ran t) + 4 \<and> (\<forall>l \<in> set ls. length l = w))"
proof -
  obtain N' ps where r: "seed_peers C J L mix N = Some (N', Returned (show_peers C J ps))"
      "node_has C L ev tv cv N' t" "set ps = ran t" "distinct (map peer_id ps)"
    using seed_peers_runs [OF assms(1,2), of mix J] assms(3) by blast
  have "length ps = card (ran t)" using r(3,4) by (metis distinct_card distinct_map)
  moreover have "ps \<noteq> [] \<Longrightarrow> \<exists>out. show_peers C J ps = Table out" by (simp add: show_peers_def)
  moreover have "ps = [] \<Longrightarrow> show_peers C J ps = Log ''Peer list is empty''" by (simp add: show_peers_def)
  ultimately show ?thesis using r peer_rows_aligned [of ps C J]
    by (intro exI [of _ N'] exI [of _ ps]) (cases "ps = []"; fastforce)
qed

text \<open>The registries hand out one object per key: asking again for a key returns the object of the first
  call, whatever was made anew, and no other key is affected.\<close>

lemma registry_hands_out_one_instance:
  assumes "strict_total lt" "sorted_map lt m" "registry_instance lt key fresh m = (r, m')"
  shows "registry_instance lt key other m' = (r, m') \<and> r \<noteq> None \<and> sorted_map lt m' \<and>
    (\<forall>l. l \<noteq> key \<longrightarrow> tsm_at m' l = tsm_at m l)"
proof -
  have r: "tsm_at m' key = r"
    using registry_instance_at [OF assms(1,2), of key fresh key] assms(3) by simp
  have "r \<noteq> None"
  proof (cases "tsm_at m key")
    case None
    then show ?thesis using registry_instance_fresh [OF assms(1,2), of key fresh] assms(3) by simp
  next
    case (Some x)
    then show ?thesis using registry_instance_known [of m key x lt fresh] assms(3) by simp
  qed
  then show ?thesis
    using r registry_instance_known [of m' key] registry_instance_at [OF assms(1,2), of key fresh]
      registry_instance_sorted [OF assms(1,2), of key fresh] assms(3) by auto
qed

text \<open>The codes of the errors are distinct, so that comparing codes tells the errors apart, no code but
  that of success counts as success, and every error has a text.\<close>

lemma error_codes_are_distinct:
  "distinct error_codes \<and> (\<forall>e. Error_bool e \<longleftrightarrow> \<not> Error_eq_code e SUCCESS) \<and> Error_to_string e \<noteq> []"
  using Error_to_string_nonempty by (auto simp: error_codes_def Error_bool_def Error_eq_code_def)

end
